(* ===== verification/Prelude.thy ===== *)
theory Prelude
  imports Main "HOL-Library.Word" "HOL-Library.AList"
begin

text \<open>
  What every other theory of the development shares: the values of the Go program (errors as
  values, panics included), the result type with its sequencing and its loops, and the small
  amount of the Go standard library the code leans on everywhere (strings as byte strings,
  \<open>strings.TrimSpace\<close>, \<open>strings.Split\<close>, \<open>strings.EqualFold\<close>, \<open>big.Int.String\<close> and
  \<open>big.Int.SetString\<close>).
\<close>

section \<open>Proof collections\<close>

named_theorems go_simps
  \<open>rewrite rules for sequencing, loops and index accesses of the Go model\<close>

named_theorems go_splits
  \<open>inversion rules for successful runs\<close>

section \<open>Errors, panics and results\<close>

text \<open>
  A Go function that returns \<open>(T, error)\<close> is modelled by a function into \<open>go_error + 'a\<close>:
  \<open>Inl\<close> the error, \<open>Inr\<close> the value. A panic (an index out of range, an explicit
  \<open>panic\<close>) is an error value of its own and so is a call that does not return.
  \<open>CannotParse\<close> is the error of \<open>utils.ParseBigInt\<close>; \<open>Errorf\<close> carries the text of an
  \<open>errors.New\<close>/\<open>fmt.Errorf\<close> without its formatted arguments; \<open>Wrapped\<close> is
  \<open>fmt.Errorf("...: %w", err)\<close>; \<open>External\<close> is an error of code outside the repository.
\<close>

datatype go_error =
    Panic
  | Diverges
  | CannotParse string
  | Errorf string
  | Wrapped string go_error
  | External string

type_synonym 'a result = "go_error + 'a"

abbreviation Ok :: "'a \<Rightarrow> 'a result" where "Ok \<equiv> Inr"
abbreviation Err :: "go_error \<Rightarrow> 'a result" where "Err \<equiv> Inl"

text \<open>\<open>x, err := f(); if err != nil { return err }; ...\<close>\<close>

definition rbind :: "'a result \<Rightarrow> ('a \<Rightarrow> 'b result) \<Rightarrow> 'b result" where
  "rbind r f = (case r of Inl e \<Rightarrow> Inl e | Inr x \<Rightarrow> f x)"

lemma rbind_simps [simp, go_simps]:
  "rbind (Inl e) f = Inl e"
  "rbind (Inr x) f = f x"
  by (simp_all add: rbind_def)

lemma rbind_cong [fundef_cong]:
  "r = r' \<Longrightarrow> (\<And>x. r' = Inr x \<Longrightarrow> f x = g x) \<Longrightarrow> rbind r f = rbind r' g"
  by (cases r') auto

lemma rbind_Ok_iff [go_splits]:
  "rbind r f = Inr y \<longleftrightarrow> (\<exists>x. r = Inr x \<and> f x = Inr y)"
  by (cases r) auto

lemma rbind_assoc: "rbind (rbind r f) g = rbind r (\<lambda>x. rbind (f x) g)"
  by (cases r) auto

text \<open>\<open>if cond { return err }\<close>\<close>

definition ensure :: "bool \<Rightarrow> go_error \<Rightarrow> unit result" where
  "ensure b e = (if b then Inr () else Inl e)"

lemma ensure_simps [simp, go_simps]:
  "ensure True e = Inr ()"
  "ensure False e = Inl e"
  by (simp_all add: ensure_def)

lemma ensure_Ok_iff [simp, go_splits]: "ensure b e = Inr u \<longleftrightarrow> b"
  by (simp add: ensure_def)

definition rwrap :: "string \<Rightarrow> 'a result \<Rightarrow> 'a result" where
  "rwrap s r = (case r of Inl e \<Rightarrow> Inl (Wrapped s e) | Inr x \<Rightarrow> Inr x)"

lemma rwrap_simps [simp, go_simps]:
  "rwrap s (Inl e) = Inl (Wrapped s e)"
  "rwrap s (Inr x) = Inr x"
  by (simp_all add: rwrap_def)

lemma rwrap_Ok_iff [simp, go_splits]: "rwrap s r = Inr y \<longleftrightarrow> r = Inr y"
  by (cases r) auto

text \<open>An index expression \<open>xs[i]\<close>: a panic out of range.\<close>

definition index_at :: "'a list \<Rightarrow> nat \<Rightarrow> 'a result" where
  "index_at xs i = (if i < length xs then Inr (xs ! i) else Inl Panic)"

lemma index_at_Ok_iff [simp, go_splits]:
  "index_at xs i = Inr x \<longleftrightarrow> i < length xs \<and> x = xs ! i"
  by (auto simp: index_at_def)

lemma index_at_less [go_simps]: "i < length xs \<Longrightarrow> index_at xs i = Inr (xs ! i)"
  by (simp add: index_at_def)

section \<open>Loops that stop at the first error\<close>

text \<open>\<open>for i, x := range xs { y, err := f(x); if err != nil { return err }; out[i] = y }\<close>\<close>

fun rmap :: "('a \<Rightarrow> 'b result) \<Rightarrow> 'a list \<Rightarrow> 'b list result" where
  "rmap f [] = Inr []"
| "rmap f (x # xs) = rbind (f x) (\<lambda>y. rbind (rmap f xs) (\<lambda>ys. Inr (y # ys)))"

lemma rmap_cong [fundef_cong]:
  "xs = ys \<Longrightarrow> (\<And>x. x \<in> set ys \<Longrightarrow> f x = g x) \<Longrightarrow> rmap f xs = rmap g ys"
  by (induction ys arbitrary: xs) auto

lemma rmap_Ok_iff:
  "rmap f xs = Inr ys \<longleftrightarrow> list_all2 (\<lambda>x y. f x = Inr y) xs ys"
  by (induction xs arbitrary: ys) (auto simp: rbind_Ok_iff list_all2_Cons1)

lemma rmap_Ok_length: "rmap f xs = Inr ys \<Longrightarrow> length ys = length xs"
  by (simp add: rmap_Ok_iff list_all2_lengthD)

lemma rmap_Ok_nth: "rmap f xs = Inr ys \<Longrightarrow> i < length xs \<Longrightarrow> f (xs ! i) = Inr (ys ! i)"
  by (auto simp: rmap_Ok_iff dest: list_all2_nthD)

lemma rmap_append:
  "rmap f (xs @ ys) = rbind (rmap f xs) (\<lambda>a. rbind (rmap f ys) (\<lambda>b. Inr (a @ b)))"
proof (induction xs)
  case Nil
  show ?case by (cases "rmap f ys") auto
next
  case (Cons x xs)
  then show ?case by (cases "f x"; cases "rmap f xs"; cases "rmap f ys") auto
qed

lemma rmap_OkI: "(\<And>x. x \<in> set xs \<Longrightarrow> f x = Inr (g x)) \<Longrightarrow> rmap f xs = Inr (map g xs)"
  by (induction xs) auto

lemma rmap_Ok_map: "rmap f (map g xs) = rmap (\<lambda>x. f (g x)) xs"
  by (induction xs) auto

text \<open>A loop with an accumulator that stops at the first error.\<close>

fun rfold :: "('s \<Rightarrow> 'a \<Rightarrow> 's result) \<Rightarrow> 's \<Rightarrow> 'a list \<Rightarrow> 's result" where
  "rfold f s [] = Inr s"
| "rfold f s (x # xs) = rbind (f s x) (\<lambda>s'. rfold f s' xs)"

lemma rfold_cong [fundef_cong]:
  "xs = ys \<Longrightarrow> s = t \<Longrightarrow> (\<And>s x. x \<in> set ys \<Longrightarrow> f s x = g s x) \<Longrightarrow> rfold f s xs = rfold g t ys"
proof (induction ys arbitrary: xs s t)
  case (Cons y ys)
  then show ?case by (cases "g t y") auto
qed simp

lemma rfold_append: "rfold f s (xs @ ys) = rbind (rfold f s xs) (\<lambda>s'. rfold f s' ys)"
  by (induction xs arbitrary: s) (auto simp: rbind_assoc)

lemma rfold_invariant:
  assumes "rfold f s xs = Inr t" and "P s"
    and "\<And>s x s'. x \<in> set xs \<Longrightarrow> P s \<Longrightarrow> f s x = Inr s' \<Longrightarrow> P s'"
  shows "P t"
  using assms
proof (induction xs arbitrary: s)
  case (Cons x xs)
  then obtain s' where "f s x = Inr s'" "rfold f s' xs = Inr t"
    by (auto simp: rbind_Ok_iff)
  with Cons.prems(2,3) show ?case by (intro Cons.IH [of s']) auto
qed simp

section \<open>Sums over big integers\<close>

lemma foldl_plus_sum_list: "foldl (+) a xs = a + sum_list (xs :: int list)"
  by (induction xs arbitrary: a) auto

section \<open>Byte strings\<close>

text \<open>
  A Go string is a sequence of bytes, and so is an Isabelle \<open>string\<close> (a list of \<open>char\<close>, which has
  256 values): a rune beyond ASCII is its UTF-8 encoding.
\<close>

definition has_prefix :: "string \<Rightarrow> string \<Rightarrow> bool" where
  "has_prefix s p = (take (length p) s = p)"

definition ascii_space :: "char \<Rightarrow> bool" where
  "ascii_space c = (c \<in> {CHR 0x09, CHR 0x0A, CHR 0x0B, CHR 0x0C, CHR 0x0D, CHR 0x20})"

text \<open>The UTF-8 encodings of the runes beyond ASCII for which \<open>unicode.IsSpace\<close> holds.\<close>

definition unicode_spaces :: "string list" where
  "unicode_spaces =
     [[CHR 0xC2, CHR 0x85], [CHR 0xC2, CHR 0xA0], [CHR 0xE1, CHR 0x9A, CHR 0x80],
      [CHR 0xE2, CHR 0x80, CHR 0xA8], [CHR 0xE2, CHR 0x80, CHR 0xA9],
      [CHR 0xE2, CHR 0x80, CHR 0xAF], [CHR 0xE2, CHR 0x81, CHR 0x9F],
      [CHR 0xE3, CHR 0x80, CHR 0x80]]
     @ map (\<lambda>k. [CHR 0xE2, CHR 0x80, char_of (0x80 + k)]) [0 ..< (11 :: nat)]"

definition spaces :: "string list" where
  "spaces = map (\<lambda>c. [c]) [CHR 0x09, CHR 0x0A, CHR 0x0B, CHR 0x0C, CHR 0x0D, CHR 0x20]
            @ unicode_spaces"

fun find_prefix :: "string list \<Rightarrow> string \<Rightarrow> string option" where
  "find_prefix [] s = None"
| "find_prefix (p # ps) s = (if p \<noteq> [] \<and> has_prefix s p then Some p else find_prefix ps s)"

lemma find_prefix_nonempty: "find_prefix ps s = Some p \<Longrightarrow> p \<noteq> [] \<and> has_prefix s p"
  by (induction ps) (auto split: if_splits)

lemma find_prefix_shorter: "find_prefix ps s = Some p \<Longrightarrow> length (drop (length p) s) < length s"
  by (drule find_prefix_nonempty) (cases p; cases s; auto simp: has_prefix_def)

text \<open>Drops the listed encodings from the front, as \<open>strings.TrimLeftFunc\<close> does rune by rune.\<close>

function trim_left :: "string list \<Rightarrow> string \<Rightarrow> string" where
  "trim_left ps s =
     (case find_prefix ps s of None \<Rightarrow> s | Some p \<Rightarrow> trim_left ps (drop (length p) s))"
  by pat_completeness auto
termination
  by (relation "measure (\<lambda>(ps, s). length s)") (auto dest: find_prefix_shorter)

declare trim_left.simps [simp del]

text \<open>\<open>strings.TrimSpace\<close>: the right end is the left end of the reversed bytes.\<close>

definition TrimSpace :: "string \<Rightarrow> string" where
  "TrimSpace s = rev (trim_left (map rev spaces) (rev (trim_left spaces s)))"

lemma trim_left_id: "find_prefix ps s = None \<Longrightarrow> trim_left ps s = s"
  by (subst trim_left.simps) simp

section \<open>Go maps\<close>

text \<open>
  A Go map is an association list with distinct keys: finite, so it can be ranged over, and its order
  stands for the order in which \<open>range\<close> happens to visit it. No theorem depends on that order unless
  it says so.
\<close>

type_synonym ('k, 'v) gomap = "('k \<times> 'v) list"

definition mget :: "('k, 'v) gomap \<Rightarrow> 'k \<Rightarrow> 'v option" where
  "mget m k = map_of m k"

definition mput :: "'k \<Rightarrow> 'v \<Rightarrow> ('k, 'v) gomap \<Rightarrow> ('k, 'v) gomap" where
  "mput k v m = AList.update k v m"

definition mdelete :: "'k \<Rightarrow> ('k, 'v) gomap \<Rightarrow> ('k, 'v) gomap" where
  "mdelete k m = AList.delete k m"

abbreviation keys_distinct :: "('k, 'v) gomap \<Rightarrow> bool" where
  "keys_distinct m \<equiv> distinct (map fst m)"

lemma mget_empty [simp]: "mget [] k = None"
  by (simp add: mget_def)

lemma mget_mput [simp, go_simps]: "mget (mput k v m) k' = (if k' = k then Some v else mget m k')"
  by (simp add: mget_def mput_def update_conv)

lemma mget_mdelete [simp, go_simps]: "mget (mdelete k m) k' = (if k' = k then None else mget m k')"
  by (simp add: mget_def mdelete_def delete_conv)

lemma keys_distinct_mput [simp]: "keys_distinct m \<Longrightarrow> keys_distinct (mput k v m)"
  by (simp add: mput_def distinct_update)

lemma keys_distinct_mdelete [simp]: "keys_distinct m \<Longrightarrow> keys_distinct (mdelete k m)"
  by (simp add: mdelete_def distinct_delete)

lemma mget_map_values: "mget (map (\<lambda>(k, v). (k, f v)) m) k = map_option f (mget m k)"
  by (simp add: mget_def map_of_map)

end
