(* ===== verification/BigIntUtils.thy ===== *)
theory BigIntUtils
  imports Prelude
begin

text \<open>
  The helpers of \<open>internal/functions/utils\<close>: \<open>bigint.go\<close> (parsing and printing of big integers),
  \<open>bit_operations.go\<close> (the flag in bit 255), \<open>decimals.go\<close> (token units) and the integer part of
  \<open>amounts.go\<close>. A \<open>*big.Int\<close> is an \<open>int\<close>; the printing and scanning of \<open>math/big\<close> is written out
  here because most of the protocol data travels as strings.
\<close>

section \<open>Printing and scanning of math/big\<close>

definition digit_char :: "nat \<Rightarrow> char" where
  "digit_char d = (if d < 10 then char_of (48 + d) else char_of (87 + d))"

definition digit_val :: "char \<Rightarrow> nat option" where
  "digit_val c =
     (let n = of_char c :: nat in
      if 48 \<le> n \<and> n \<le> 57 then Some (n - 48)
      else if 97 \<le> n \<and> n \<le> 122 then Some (n - 87)
      else if 65 \<le> n \<and> n \<le> 90 then Some (n - 55)
      else None)"

function nat_text :: "nat \<Rightarrow> nat \<Rightarrow> string" where
  "nat_text b n = (if b < 2 \<or> n < b then [digit_char n] else nat_text b (n div b) @ [digit_char (n mod b)])"
  by pat_completeness auto
termination
  by (relation "measure (\<lambda>(b, n). n)") (auto simp: div_less_dividend)

declare nat_text.simps [simp del]

text \<open>\<open>n.Text(base)\<close>, and \<open>n.String()\<close> for base 10.\<close>

definition int_text :: "nat \<Rightarrow> int \<Rightarrow> string" where
  "int_text b n = (if n < 0 then CHR ''-'' # nat_text b (nat (- n)) else nat_text b (nat n))"

definition int_String :: "int \<Rightarrow> string" where
  "int_String n = int_text 10 n"

fun scan_digits :: "nat \<Rightarrow> nat \<Rightarrow> string \<Rightarrow> nat option" where
  "scan_digits b acc [] = Some acc"
| "scan_digits b acc (c # cs) =
     (case digit_val c of
        None \<Rightarrow> None
      | Some d \<Rightarrow> if d < b then scan_digits b (acc * b + d) cs else None)"

text \<open>\<open>n.SetString(s, base)\<close> for an explicit base: an optional sign, then at least one digit.\<close>

definition SetString :: "string \<Rightarrow> nat \<Rightarrow> int option" where
  "SetString s b =
     (let neg = has_prefix s ''-'';
          ds = (if neg \<or> has_prefix s ''+'' then tl s else s)
      in if ds = [] then None
         else map_option (\<lambda>n. if neg then - int n else int n) (scan_digits b 0 ds))"

section \<open>bigint.go\<close>

definition ParseBigInt :: "string \<Rightarrow> int result" where
  "ParseBigInt s0 =
     (let s = TrimSpace s0;
          hex = (if has_prefix s ''0x'' \<or> has_prefix s ''0X'' then SetString (drop 2 s) 16 else None)
      in case hex of
           Some n \<Rightarrow> Ok n
         | None \<Rightarrow> (case SetString s 10 of Some n \<Rightarrow> Ok n | None \<Rightarrow> Err (CannotParse s)))"

text \<open>\<open>None\<close> is the nil pointer, which prints as zero.\<close>

definition ToBeHex :: "int option \<Rightarrow> string" where
  "ToBeHex n0 =
     (let n = (case n0 of None \<Rightarrow> 0 | Some n \<Rightarrow> n);
          s = int_text 16 n;
          s' = (if length s mod 2 = 1 then CHR ''0'' # s else s)
      in ''0x'' @ s')"

section \<open>bit_operations.go\<close>

unbundle bit_operations_syntax

definition bit255 :: int where "bit255 = push_bit 255 1"
definition bit255Mask :: int where "bit255Mask = push_bit 255 1 - 1"

definition AddHighestBitToNumber :: "int \<Rightarrow> int" where
  "AddHighestBitToNumber v = v OR bit255"

definition TakeOffHighestBit :: "int \<Rightarrow> int" where
  "TakeOffHighestBit v = v AND bit255Mask"

definition ExtractHighestBit :: "int \<Rightarrow> int" where
  "ExtractHighestBit v = (drop_bit 255 v) AND 1"

text \<open>Go's conversion \<open>byte(value)\<close> of an \<open>int\<close> keeps the low eight bits.\<close>

definition IntMatrixToByteMatrix :: "int list list \<Rightarrow> 8 word list list" where
  "IntMatrixToByteMatrix rows = map (map word_of_int) rows"

section \<open>amounts.go\<close>

definition BigintMax :: "int list \<Rightarrow> int option" where
  "BigintMax vs =
     (case vs of [] \<Rightarrow> None
      | v # rest \<Rightarrow> Some (foldl (\<lambda>largest x. if x > largest then x else largest) v rest))"

section \<open>decimals.go\<close>

definition trim_right_zeros :: "string \<Rightarrow> string" where
  "trim_right_zeros s = rev (dropWhile (\<lambda>c. c = CHR ''0'') (rev s))"

definition FormatUnits :: "int option \<Rightarrow> nat \<Rightarrow> string" where
  "FormatUnits v0 decimals =
     (let value = (case v0 of None \<Rightarrow> 0 | Some v \<Rightarrow> v);
          neg = value < 0;
          digits = int_String \<bar>value\<bar>
      in if decimals = 0 then (if neg then CHR ''-'' # digits else digits)
         else
           let digits' = (if length digits \<le> decimals
                          then replicate (decimals + 1 - length digits) CHR ''0'' @ digits
                          else digits);
               intPart = take (length digits' - decimals) digits';
               frac = trim_right_zeros (drop (length digits' - decimals) digits');
               fracPart = (if frac = [] then ''0'' else frac);
               res = intPart @ ''.'' @ fracPart
           in if neg then CHR ''-'' # res else res)"

text \<open>\<open>strings.SplitN(value, ".", 2)\<close>: the text before the first point and, if there is one, after it.\<close>

fun split_first :: "char \<Rightarrow> string \<Rightarrow> string \<times> string option" where
  "split_first c [] = ([], None)"
| "split_first c (x # xs) =
     (if x = c then ([], Some xs)
      else (case split_first c xs of (a, b) \<Rightarrow> (x # a, b)))"

text \<open>The code panics on a negative argument of \<open>strings.Repeat\<close> only when \<open>decimals\<close> is negative;
  here \<open>decimals\<close> is a \<open>nat\<close>.\<close>

definition ParseUnits :: "string \<Rightarrow> nat \<Rightarrow> int result" where
  "ParseUnits value0 decimals =
     (let value1 = TrimSpace value0;
          neg = has_prefix value1 ''-'';
          value = (if neg then tl value1 else value1);
          parts = split_first CHR ''.'' value;
          intPart = fst parts;
          fracPart = (case snd parts of None \<Rightarrow> [] | Some f \<Rightarrow> f)
      in if count_list value CHR ''.'' > 1 then Err (Errorf ''invalid decimal value'')
         else if length fracPart > decimals then Err (Errorf ''too many decimals'')
         else
           let combined = intPart @ fracPart @ replicate (decimals - length fracPart) CHR ''0'';
               combined' = (if combined = [] then ''0'' else combined)
           in (case SetString combined' 10 of
                 None \<Rightarrow> Err (Errorf ''cannot parse as decimal'')
               | Some n \<Rightarrow> Ok (if neg then - n else n)))"

section \<open>Strings: ToLower, EqualFold, Split\<close>

text \<open>\<open>strings.ToLower\<close> and \<open>strings.EqualFold\<close> on ASCII letters, which is what addresses are made
  of; other bytes are compared as they are.\<close>

definition to_lower :: "char \<Rightarrow> char" where
  "to_lower c = (let n = of_char c :: nat in if 65 \<le> n \<and> n \<le> 90 then char_of (n + 32) else c)"

definition ToLower :: "string \<Rightarrow> string" where
  "ToLower s = map to_lower s"

definition EqualFold :: "string \<Rightarrow> string \<Rightarrow> bool" where
  "EqualFold a b = (ToLower a = ToLower b)"

text \<open>\<open>strings.Split(s, ",")\<close> for a separator of one byte: always at least one part.\<close>

fun Split :: "string \<Rightarrow> char \<Rightarrow> string list" where
  "Split [] sep = [[]]"
| "Split (c # cs) sep =
     (if c = sep then [] # Split cs sep
      else (case Split cs sep of [] \<Rightarrow> [[c]] | p # ps \<Rightarrow> (c # p) # ps))"

lemma Split_nonempty: "Split s sep \<noteq> []"
  by (cases s) (auto split: list.splits)

section \<open>What printing and scanning guarantee each other\<close>

lemma of_char_char_of_less [simp]: "n < 256 \<Longrightarrow> (of_char (char_of (n::nat) :: char) :: nat) = n"
  by simp

lemma digit_val_digit_char [simp]: "d < 36 \<Longrightarrow> digit_val (digit_char d) = Some d"
  by (auto simp: digit_val_def digit_char_def Let_def)

lemma nat_text_nonempty [simp]: "nat_text b n \<noteq> []"
  by (subst nat_text.simps) simp

lemma scan_digits_append:
  "scan_digits b acc (xs @ ys) = Option.bind (scan_digits b acc xs) (\<lambda>a. scan_digits b a ys)"
  by (induction xs arbitrary: acc) (auto split: option.splits)

lemma scan_nat_text:
  assumes "2 \<le> b" "b \<le> 36"
  shows "scan_digits b acc (nat_text b n) = Some (acc * b ^ length (nat_text b n) + n)"
  using assms
proof (induction b n arbitrary: acc rule: nat_text.induct)
  case (1 b n)
  show ?case
  proof (cases "n < b")
    case True
    with 1(2,3) show ?thesis by (simp add: nat_text.simps [of b n])
  next
    case False
    with 1 have ih: "\<And>acc. scan_digits b acc (nat_text b (n div b))
        = Some (acc * b ^ length (nat_text b (n div b)) + n div b)" by simp
    have "scan_digits b acc (nat_text b n) =
        Some ((acc * b ^ length (nat_text b (n div b)) + n div b) * b + n mod b)"
      using False 1(2,3) less_le_trans [OF mod_less_divisor [of b n], of 36]
      by (simp add: nat_text.simps [of b n] scan_digits_append ih)
    also have "(acc * b ^ length (nat_text b (n div b)) + n div b) * b + n mod b
        = acc * b ^ length (nat_text b n) + n"
      using False 1(2) by (simp add: nat_text.simps [of b n] algebra_simps)
    finally show ?thesis .
  qed
qed

text \<open>Every printed character is a digit of the base.\<close>

lemma nat_text_chars: "2 \<le> b \<Longrightarrow> c \<in> set (nat_text b n) \<Longrightarrow> \<exists>d<b. c = digit_char d"
proof (induction b n rule: nat_text.induct)
  case (1 b n)
  show ?case
  proof (cases "n < b")
    case True
    with 1(3) show ?thesis by (auto simp: nat_text.simps [of b n])
  next
    case False
    with 1(2,3) have "c \<in> set (nat_text b (n div b)) \<or> c = digit_char (n mod b)"
      by (auto simp: nat_text.simps [of b n])
    moreover have "n mod b < b" using 1(2) by simp
    ultimately show ?thesis using 1(1) [OF _ 1(2)] False 1(2) by (metis linorder_not_le)
  qed
qed

lemma digit_char_code: "d < 36 \<Longrightarrow> (of_char (digit_char d) :: nat) = (if d < 10 then 48 + d else 87 + d)"
  by (simp add: digit_char_def)

lemma digit_char_neq: "d < 36 \<Longrightarrow> of_char c \<notin> ({48..57} \<union> {97..122} :: nat set) \<Longrightarrow> digit_char d \<noteq> c"
  using digit_char_code [of d] by (auto split: if_splits)

lemma nat_text_hd:
  assumes "2 \<le> b" "b \<le> 36" "of_char c \<notin> ({48..57} \<union> {97..122} :: nat set)"
  shows "c \<notin> set (nat_text b n)"
  using nat_text_chars [of b c n] digit_char_neq [OF _ assms(3)] assms by (metis order_less_le_trans)

lemma nat_text_unsigned:
  assumes "2 \<le> b" "b \<le> 36"
  shows "hd (nat_text b n) \<noteq> CHR ''-''" "hd (nat_text b n) \<noteq> CHR ''+''"
proof -
  have "hd (nat_text b n) \<in> set (nat_text b n)" by simp
  moreover have "CHR ''-'' \<notin> set (nat_text b n)" "CHR ''+'' \<notin> set (nat_text b n)"
    by (rule nat_text_hd [OF assms]; simp)+
  ultimately show "hd (nat_text b n) \<noteq> CHR ''-''" "hd (nat_text b n) \<noteq> CHR ''+''"
    by metis+
qed

lemma has_prefix_single: "has_prefix s [c] \<longleftrightarrow> s \<noteq> [] \<and> hd s = c"
  by (cases s) (auto simp: has_prefix_def)

lemma SetString_int_text:
  assumes "2 \<le> b" "b \<le> 36"
  shows "SetString (int_text b n) b = Some n"
proof -
  note no = nat_text_unsigned [OF assms]
  show ?thesis
    using scan_nat_text [OF assms, of 0]
    by (auto simp: SetString_def int_text_def Let_def has_prefix_single no)
qed

lemma int_text_inject: "2 \<le> b \<Longrightarrow> b \<le> 36 \<Longrightarrow> int_text b m = int_text b n \<longleftrightarrow> m = n"
  using SetString_int_text by (metis option.inject)

lemma int_String_inject [simp]: "int_String m = int_String n \<longleftrightarrow> m = n"
  by (simp add: int_String_def int_text_inject)

text \<open>Graphic ASCII text has no space to trim.\<close>

definition graphic :: "char \<Rightarrow> bool" where
  "graphic c = (33 \<le> (of_char c :: nat) \<and> (of_char c :: nat) \<le> 126)"

lemma find_prefix_None: "(\<And>p. p \<in> set ps \<Longrightarrow> p \<noteq> [] \<Longrightarrow> \<not> graphic (hd p)) \<Longrightarrow>
    list_all graphic s \<Longrightarrow> find_prefix ps s = None"
proof (induction ps)
  case (Cons p ps)
  have "\<not> has_prefix s p" if "p \<noteq> []"
    using Cons.prems(1) [of p] Cons.prems(2) that
    by (cases s; cases p) (auto simp: has_prefix_def)
  with Cons show ?case by auto
qed simp

lemma spaces_not_graphic:
  "p \<in> set spaces \<Longrightarrow> \<not> graphic (hd p)"
  "p \<in> set (map rev spaces) \<Longrightarrow> \<not> graphic (hd p)"
  by (auto simp: spaces_def unicode_spaces_def graphic_def)

lemma TrimSpace_graphic: "list_all graphic s \<Longrightarrow> TrimSpace s = s"
  using spaces_not_graphic
  by (simp add: TrimSpace_def trim_left_id find_prefix_None del: set_map)

lemma graphic_digit_char: "d < 36 \<Longrightarrow> graphic (digit_char d)"
  by (simp add: graphic_def digit_char_code)

lemma graphic_nat_text: "2 \<le> b \<Longrightarrow> b \<le> 36 \<Longrightarrow> list_all graphic (nat_text b n)"
  by (metis graphic_digit_char list_all_iff nat_text_chars order_less_le_trans)

lemma graphic_int_text: "2 \<le> b \<Longrightarrow> b \<le> 36 \<Longrightarrow> list_all graphic (int_text b n)"
  by (auto simp: int_text_def graphic_nat_text) (simp add: graphic_def)

lemma nat_text_no_x: "b \<le> 33 \<Longrightarrow> 2 \<le> b \<Longrightarrow> CHR ''x'' \<notin> set (nat_text b n) \<and> CHR ''X'' \<notin> set (nat_text b n)"
proof -
  assume b: "b \<le> 33" "2 \<le> b"
  have "digit_char d \<noteq> CHR ''x'' \<and> digit_char d \<noteq> CHR ''X''" if "d < b" for d
    using that b digit_char_code [of d] by (auto split: if_splits)
  then show ?thesis using nat_text_chars [OF b(2)] by metis
qed

lemma not_hex_prefix: "CHR ''x'' \<notin> set s \<and> CHR ''X'' \<notin> set s \<Longrightarrow> \<not> has_prefix s ''0x'' \<and> \<not> has_prefix s ''0X''"
  by (cases s; cases "tl s") (auto simp: has_prefix_def)

lemma ParseBigInt_int_String [simp, go_simps]: "ParseBigInt (int_String n) = Ok n"
proof -
  have "CHR ''x'' \<notin> set (int_String n) \<and> CHR ''X'' \<notin> set (int_String n)"
    using nat_text_no_x [of 10] by (auto simp: int_String_def int_text_def)
  then have "\<not> has_prefix (int_String n) ''0x'' \<and> \<not> has_prefix (int_String n) ''0X''"
    by (rule not_hex_prefix)
  then show ?thesis
    using SetString_int_text [of 10 n] graphic_int_text [of 10 n]
    by (simp add: ParseBigInt_def TrimSpace_graphic int_String_def Let_def)
qed

lemma ParseBigInt_ToBeHex:
  assumes "0 \<le> n"
  shows "ParseBigInt (ToBeHex (Some n)) = Ok n"
proof -
  let ?t = "nat_text 16 (nat n)"
  let ?s = "if length ?t mod 2 = 1 then CHR ''0'' # ?t else ?t"
  have hex: "ToBeHex (Some n) = ''0x'' @ ?s"
    using assms by (simp add: ToBeHex_def int_text_def Let_def)
  have "list_all graphic (''0x'' @ ?s)"
    using graphic_nat_text [of 16 "nat n"] by (simp add: graphic_def)
  then have trim: "TrimSpace (''0x'' @ ?s) = ''0x'' @ ?s" by (rule TrimSpace_graphic)
  have no: "hd ?t \<noteq> CHR ''-''" "hd ?t \<noteq> CHR ''+''"
    by (rule nat_text_unsigned; simp)+
  have "SetString ?s 16 = Some n"
    using scan_nat_text [of 16 0 "nat n"] assms no
    by (simp add: SetString_def has_prefix_single digit_val_def)
  then show ?thesis
    by (simp only: hex ParseBigInt_def trim Let_def) (simp add: has_prefix_def)
qed

lemma ToBeHex_inject: "0 \<le> m \<Longrightarrow> 0 \<le> n \<Longrightarrow> ToBeHex (Some m) = ToBeHex (Some n) \<longleftrightarrow> m = n"
  by (metis ParseBigInt_ToBeHex sum.inject(2))

section \<open>Bit 255, maxima and token units\<close>

lemma TakeOffHighestBit_eq: "TakeOffHighestBit v = take_bit 255 v"
  by (simp add: TakeOffHighestBit_def bit255Mask_def take_bit_eq_mask mask_eq_exp_minus_1
      push_bit_eq_mult)

lemma bit255_ops:
  fixes v :: int
  assumes "0 \<le> v" "v < 2 ^ 255"
  shows "take_bit 255 v = v" "drop_bit 255 v = 0"
  using assms by (simp_all add: take_bit_int_eq_self drop_bit_eq_div)

lemma BigintMax_Max: "vs \<noteq> [] \<Longrightarrow> BigintMax vs = Some (Max (set vs))"
proof -
  have *: "foldl (\<lambda>largest x. if x > largest then x else largest) a xs = Max (set (a # xs))"
    for a :: int and xs
  proof (induction xs arbitrary: a)
    case (Cons x xs)
    have "Max (set (a # x # xs)) = Max (set (max a x # xs))"
      by (cases "xs = []") (simp_all add: max.assoc)
    moreover have "(if x > a then x else a) = max a x" by (simp add: max_def)
    ultimately show ?case using Cons.IH [of "max a x"] by simp
  qed simp
  assume "vs \<noteq> []"
  then obtain v rest where "vs = v # rest" by (cases vs) auto
  then show ?thesis using * [of v rest] by (simp add: BigintMax_def)
qed

lemma scan_digits_zeros: "scan_digits 10 acc (replicate k CHR ''0'') = Some (acc * 10 ^ k)"
  by (induction k arbitrary: acc) (auto simp: digit_val_def algebra_simps)

lemma digit_val_point: "digit_val CHR ''.'' = None"
  by (simp add: digit_val_def)

lemma trim_right_zeros_split:
  "\<exists>k. s = trim_right_zeros s @ replicate k CHR ''0''"
proof -
  let ?z = "\<lambda>c. c = CHR ''0''"
  have "rev (rev s) = rev (dropWhile ?z (rev s)) @ rev (takeWhile ?z (rev s))"
    by (simp only: rev_append [symmetric] takeWhile_dropWhile_id)
  moreover have "takeWhile ?z (rev s) = replicate (length (takeWhile ?z (rev s))) CHR ''0''"
    by (rule replicate_length_same [symmetric]) (auto dest: set_takeWhileD)
  ultimately have "s = trim_right_zeros s @ replicate (length (takeWhile ?z (rev s))) CHR ''0''"
    unfolding trim_right_zeros_def by (metis rev_replicate rev_rev_ident)
  then show ?thesis by blast
qed

lemma split_first_no: "c \<notin> set s \<Longrightarrow> split_first c s = (s, None)"
  by (induction s) auto

lemma split_first_app: "c \<notin> set a \<Longrightarrow> split_first c (a @ c # b) = (a, Some b)"
  by (induction a) auto

definition dec_digit :: "char \<Rightarrow> bool" where
  "dec_digit c = (48 \<le> (of_char c :: nat) \<and> (of_char c :: nat) \<le> 57)"

abbreviation dec_digits :: "string \<Rightarrow> bool" where
  "dec_digits s \<equiv> list_all dec_digit s"

lemma nat_text_digits: "dec_digits (nat_text 10 n)"
proof -
  have "dec_digit (digit_char d)" if "d < 10" for d
    using that digit_char_code [of d] by (simp add: dec_digit_def)
  then show ?thesis using nat_text_chars [of 10 _ n] by (auto simp: list_all_iff)
qed

lemma dec_digit_zero [simp]: "dec_digit CHR ''0''"
  by (simp add: dec_digit_def)

lemma dec_digit_graphic: "dec_digit c \<Longrightarrow> graphic c"
  by (simp add: dec_digit_def graphic_def)

lemma dec_digit_neq: "dec_digit c \<Longrightarrow> c \<noteq> CHR ''.'' \<and> c \<noteq> CHR ''-'' \<and> c \<noteq> CHR ''+''"
  by (auto simp: dec_digit_def)

lemma dec_digits_facts:
  assumes "dec_digits s"
  shows "CHR ''.'' \<notin> set s" "list_all graphic s"
    "s \<noteq> [] \<Longrightarrow> hd s \<noteq> CHR ''-''" "s \<noteq> [] \<Longrightarrow> hd s \<noteq> CHR ''+''"
proof -
  show "CHR ''.'' \<notin> set s" using assms dec_digit_neq by (metis list_all_iff)
  show "list_all graphic s" using assms dec_digit_graphic by (metis list.pred_mono_strong)
  show "s \<noteq> [] \<Longrightarrow> hd s \<noteq> CHR ''-''" "s \<noteq> [] \<Longrightarrow> hd s \<noteq> CHR ''+''"
    using assms dec_digit_neq by (metis hd_in_set list_all_iff)+
qed

text \<open>Padding, cutting at the point and stripping zeros: what FormatUnits does to the digits of a
  number, undone by ParseUnits.\<close>

lemma SetString_digits: "dec_digits s \<Longrightarrow> s \<noteq> [] \<Longrightarrow> SetString s 10 = map_option int (scan_digits 10 0 s)"
  using dec_digits_facts [of s] by (simp add: SetString_def has_prefix_single Let_def)

lemma scan_leading_zeros: "scan_digits 10 0 (replicate k CHR ''0'' @ s) = scan_digits 10 0 s"
  by (simp add: scan_digits_append scan_digits_zeros)

lemma format_digits:
  fixes n :: nat
  assumes "0 < d"
  defines "t \<equiv> nat_text 10 n"
  defines "t' \<equiv> (if length t \<le> d then replicate (d + 1 - length t) CHR ''0'' @ t else t)"
  defines "ip \<equiv> take (length t' - d) t'"
  defines "fr \<equiv> trim_right_zeros (drop (length t' - d) t')"
  defines "fp \<equiv> (if fr = [] then ''0'' else fr)"
  shows "dec_digits ip" "dec_digits fp" "ip \<noteq> []" "length fp \<le> d"
    "scan_digits 10 0 (ip @ fp @ replicate (d - length fp) CHR ''0'') = Some n"
proof -
  have dt: "dec_digits t'" using nat_text_digits [of n] by (auto simp: t'_def t_def list_all_iff)
  have len: "length t' > d" by (auto simp: t'_def)
  from dt show "dec_digits ip" by (auto simp: ip_def list_all_iff dest: in_set_takeD)
  from len show "ip \<noteq> []" by (auto simp: ip_def)
  obtain k where k: "drop (length t' - d) t' = fr @ replicate k CHR ''0''"
    using trim_right_zeros_split fr_def by blast
  have lfr: "length fr + k = d"
    using arg_cong [OF k, of length] len by simp
  have "dec_digits (drop (length t' - d) t')"
    using dt by (auto simp: list_all_iff dest: in_set_dropD)
  then have "dec_digits fr" by (simp add: k)
  then show "dec_digits fp" by (auto simp: fp_def)
  show "length fp \<le> d" using lfr assms(1) by (auto simp: fp_def)
  have "ip @ fp @ replicate (d - length fp) CHR ''0'' = t'"
  proof (cases "fr = []")
    case True
    then have "k = d" using lfr by simp
    have "fp @ replicate (d - length fp) CHR ''0'' = replicate d CHR ''0''"
      using True assms(1) by (cases d) (simp_all add: fp_def)
    also have "\<dots> = drop (length t' - d) t'" using k True \<open>k = d\<close> by simp
    finally show ?thesis by (simp add: ip_def)
  next
    case False
    then have "fp @ replicate (d - length fp) CHR ''0'' = drop (length t' - d) t'"
      using lfr k by (auto simp: fp_def)
    then show ?thesis by (simp add: ip_def)
  qed
  then show "scan_digits 10 0 (ip @ fp @ replicate (d - length fp) CHR ''0'') = Some n"
    using scan_nat_text [of 10 0 n] by (simp add: t'_def t_def scan_leading_zeros)
qed


lemma ParseUnits_FormatUnits_aux:
  assumes "dec_digits ip" "dec_digits fp" "ip \<noteq> []" "length fp \<le> d"
    and "scan_digits 10 0 (ip @ fp @ replicate (d - length fp) CHR ''0'') = Some n"
  shows "ParseUnits (ip @ ''.'' @ fp) d = Ok (int n)"
    and "ParseUnits (CHR ''-'' # ip @ ''.'' @ fp) d = Ok (- int n)"
proof -
  let ?v = "ip @ ''.'' @ fp"
  have g: "list_all graphic ?v"
    using assms(1,2) dec_digits_facts(2) by (simp add: graphic_def)
  have nm: "\<not> has_prefix ?v ''-''"
    using assms(1,3) dec_digits_facts(3) by (simp add: has_prefix_single)
  have c: "count_list ?v CHR ''.'' = 1"
    using dec_digits_facts(1) [OF assms(1)] dec_digits_facts(1) [OF assms(2)]
    by (simp add: count_notin)
  have s: "split_first CHR ''.'' ?v = (ip, Some fp)"
    using dec_digits_facts(1) [OF assms(1)] by (simp add: split_first_app)
  have d: "dec_digits (ip @ fp @ replicate (d - length fp) CHR ''0'')"
    using assms(1,2) by (auto simp: list_all_iff)
  have n: "SetString (ip @ fp @ replicate (d - length fp) CHR ''0'') 10 = Some (int n)"
    using SetString_digits [OF d] assms(3,5) by simp
  show "ParseUnits ?v d = Ok (int n)"
    using assms(3,4) n
    by (simp only: ParseUnits_def Let_def TrimSpace_graphic [OF g] nm if_False s c) simp
  have "list_all graphic (CHR ''-'' # ?v)" using g by (simp add: graphic_def)
  then have "TrimSpace (CHR ''-'' # ?v) = CHR ''-'' # ?v" by (rule TrimSpace_graphic)
  moreover have "has_prefix (CHR ''-'' # ?v) ''-''" by (simp add: has_prefix_single)
  ultimately show "ParseUnits (CHR ''-'' # ?v) d = Ok (- int n)"
    using assms(3,4) n
    by (simp only: ParseUnits_def Let_def if_True list.sel s c) simp
qed

lemma ParseUnits_integer:
  assumes "dec_digits t" "t \<noteq> []" "scan_digits 10 0 t = Some n"
  shows "ParseUnits t e = Ok (int (n * 10 ^ e))" and "ParseUnits (CHR ''-'' # t) e = Ok (- int (n * 10 ^ e))"
proof -
  note f = dec_digits_facts [OF assms(1)]
  let ?z = "replicate e CHR ''0''"
  have s: "split_first CHR ''.'' t = (t, None)" using f(1) by (rule split_first_no)
  have c: "count_list t CHR ''.'' = 0" using f(1) by (simp add: count_notin)
  have d: "dec_digits (t @ ?z)" using assms(1) by (auto simp: list_all_iff)
  have n: "SetString (t @ ?z) 10 = Some (int (n * 10 ^ e))"
    using SetString_digits [OF d] assms(2,3) by (simp add: scan_digits_append scan_digits_zeros)
  show "ParseUnits t e = Ok (int (n * 10 ^ e))"
    using f(3) assms(2) n
    by (simp add: ParseUnits_def Let_def TrimSpace_graphic [OF f(2)] has_prefix_single s c)
  have "list_all graphic (CHR ''-'' # t)" using f(2) by (simp add: graphic_def)
  from TrimSpace_graphic [OF this]
  show "ParseUnits (CHR ''-'' # t) e = Ok (- int (n * 10 ^ e))"
    using assms(2) n by (simp add: ParseUnits_def Let_def has_prefix_single s c)
qed

lemma scan_more_zeros:
  assumes "scan_digits 10 0 (ip @ fp @ replicate (d - length fp) CHR ''0'') = Some n"
    and "length fp \<le> d" "d \<le> e"
  shows "scan_digits 10 0 (ip @ fp @ replicate (e - length fp) CHR ''0'') = Some (n * 10 ^ (e - d))"
proof -
  have "replicate (e - length fp) CHR ''0'' = replicate (d - length fp) CHR ''0'' @ replicate (e - d) CHR ''0''"
    using assms(2,3) by (simp flip: replicate_add)
  then have "ip @ fp @ replicate (e - length fp) CHR ''0''
      = (ip @ fp @ replicate (d - length fp) CHR ''0'') @ replicate (e - d) CHR ''0''" by simp
  then show ?thesis using assms(1) by (simp only: scan_digits_append) (simp add: scan_digits_zeros)
qed

text \<open>Printing with \<open>d\<close> decimals and parsing with \<open>e \<ge> d\<close> scales by \<open>10 ^ (e - d)\<close>.\<close>

lemma units_rescaled:
  assumes "d \<le> e"
  shows "ParseUnits (FormatUnits (Some v) d) e = Ok (v * 10 ^ (e - d))"
proof -
  let ?t = "nat_text 10 (nat \<bar>v\<bar>)"
  have t: "int_String \<bar>v\<bar> = ?t" by (simp add: int_String_def int_text_def)
  show ?thesis
  proof (cases "d = 0")
    case True
    have sc: "scan_digits 10 0 ?t = Some (nat \<bar>v\<bar>)" using scan_nat_text [of 10 0] by simp
    from True show ?thesis
      using ParseUnits_integer [OF nat_text_digits nat_text_nonempty sc]
      by (simp only: FormatUnits_def Let_def t option.case if_True) auto
  next
    case False
    then have "0 < d" by simp
    note F = format_digits [OF this, of "nat \<bar>v\<bar>"]
    note A = ParseUnits_FormatUnits_aux [OF F(1-3) le_trans [OF F(4) assms] scan_more_zeros [OF F(5,4) assms]]
    show ?thesis
    proof (cases "v < 0")
      case True
      then have "- int (nat \<bar>v\<bar> * 10 ^ (e - d)) = v * 10 ^ (e - d)" by simp
      with True False show ?thesis
        by (simp only: FormatUnits_def Let_def t option.case if_False if_True A(2))
    next
      case nonneg: False
      then have "int (nat \<bar>v\<bar> * 10 ^ (e - d)) = v * 10 ^ (e - d)" by simp
      with nonneg False show ?thesis
        by (simp only: FormatUnits_def Let_def t option.case if_False A(1))
    qed
  qed
qed

lemma digit_char_0: "digit_char 0 = CHR ''0''"
  by (simp add: digit_char_def) code_simp

text \<open>A whole number of units prints with the single decimal 0, whatever the number of decimals.\<close>

lemma nat_text_mult_ten: "0 < n \<Longrightarrow> nat_text 10 (n * 10 ^ d) = nat_text 10 n @ replicate d CHR ''0''"
proof (induction d)
  case (Suc d)
  then have "\<not> n * 10 ^ Suc d < 10" by (simp add: not_less)
  then show ?case using Suc
    by (subst nat_text.simps) (simp add: digit_char_0 replicate_append_same)
qed simp

lemma whole_digits:
  fixes n d :: nat
  assumes "0 < d"
  defines "t \<equiv> nat_text 10 (n * 10 ^ d)"
  shows "(if length t \<le> d then replicate (d + 1 - length t) CHR ''0'' @ t else t)
    = nat_text 10 n @ replicate d CHR ''0''"
proof (cases "n = 0")
  case True
  then show ?thesis using assms
    by (simp add: nat_text.simps [of 10 0] digit_char_0 replicate_append_same Suc_le_eq)
next
  case False
  then show ?thesis by (simp add: t_def nat_text_mult_ten not_le)
qed

lemma trim_zeros [simp]: "trim_right_zeros (replicate d CHR ''0'') = []"
  by (simp add: trim_right_zeros_def)

lemma whole_units_rescaled:
  assumes "0 < d" "0 < e"
  shows "ParseUnits (FormatUnits (Some (v * 10 ^ d)) d) e = Ok (v * 10 ^ e)"
proof -
  let ?n = "nat \<bar>v\<bar>"
  have "nat \<bar>v * 10 ^ d\<bar> = ?n * 10 ^ d" by (simp add: abs_mult nat_mult_distrib nat_power_eq)
  then have t: "int_String \<bar>v * 10 ^ d\<bar> = nat_text 10 (?n * 10 ^ d)"
    by (simp add: int_String_def int_text_def)
  have F: "FormatUnits (Some (v * 10 ^ d)) d
      = (if v < 0 then CHR ''-'' # nat_text 10 ?n @ ''.'' @ ''0'' else nat_text 10 ?n @ ''.'' @ ''0'')"
    using assms(1)
    by (simp only: FormatUnits_def Let_def t option.case whole_digits [OF assms(1)])
       (simp add: mult_less_0_iff zero_less_mult_iff)
  have sc: "scan_digits 10 0 (nat_text 10 ?n @ ''0'' @ replicate (e - length ''0'') CHR ''0'') = Some (?n * 10 ^ e)"
  proof -
    have "''0'' @ replicate (e - length ''0'') CHR ''0'' = replicate e CHR ''0''"
      using assms(2) by (cases e) simp_all
    then show ?thesis using scan_nat_text [of 10 0 ?n] by (simp add: scan_digits_append scan_digits_zeros)
  qed
  have "length ''0'' \<le> e" using assms(2) by simp
  note A = ParseUnits_FormatUnits_aux [OF nat_text_digits [of ?n] _ nat_text_nonempty this sc]
  show ?thesis
  proof (cases "v < 0")
    case True
    then have "- int (?n * 10 ^ e) = v * 10 ^ e" by simp
    with True show ?thesis using A(2) by (simp add: F)
  next
    case False
    then have "int (?n * 10 ^ e) = v * 10 ^ e" by simp
    with False show ?thesis using A(1) by (simp add: F)
  qed
qed

section \<open>Properties\<close>

text \<open>The hexadecimal text of a natural number, the form in which nullifiers are stored and compared,
  parses back to the number, so different numbers have different texts.\<close>

theorem hex_text_roundtrip:
  assumes "0 \<le> m" "0 \<le> n"
  shows "ParseBigInt (ToBeHex (Some n)) = Ok n \<and> (ToBeHex (Some m) = ToBeHex (Some n) \<longleftrightarrow> m = n)"
  using ParseBigInt_ToBeHex [OF assms(2)] ToBeHex_inject [OF assms] by simp

lemma hex_text_roundtrip_witness: "ParseBigInt (ToBeHex (Some 4095)) = Ok 4095"
  using hex_text_roundtrip [of 7 4095] by simp

end
