(* ===== verification/MerkleTree.thy ===== *)
theory MerkleTree
  imports BigIntUtils
begin

text \<open>
  \<open>internal/data-structures/merkletree/impl.go\<close>: the sparse Merkle tree of the note commitments.
  Nodes are addressed by heap indices (the root is 1, the children of \<open>i\<close> are \<open>2 i\<close> and
  \<open>2 i + 1\<close>) and kept in maps keyed by the decimal text of the index, as in the code. The leaves
  start at \<open>2 ^ (levels - 1)\<close>. The hash is the \<open>HashFunc\<close> the caller supplies.
\<close>

type_synonym hash_fn = "int \<Rightarrow> int \<Rightarrow> int"

record merkle =
  hashFn :: hash_fn
  levels :: nat
  defaultValue :: int
  tree :: "(string, int) gomap"
  reverseTree :: "(string, int) gomap"
  mcount :: int
  mindex :: int

definition MerkleLevels :: nat where "MerkleLevels = 200"

definition CircomMerkleLength :: nat where "CircomMerkleLength = 25"

text \<open>\<open>startIdx(levels)\<close> for \<open>levels \<ge> 1\<close>; \<open>New\<close> and \<open>FromJSON\<close> build no tree with 0 levels.\<close>

definition startIdx :: "nat \<Rightarrow> int" where
  "startIdx l = push_bit (l - 1) 1"

fun BitLen :: "nat \<Rightarrow> nat" where
  "BitLen n = (if n = 0 then 0 else Suc (BitLen (n div 2)))"

declare BitLen.simps [simp del]

definition logarithm2 :: "int \<Rightarrow> nat" where
  "logarithm2 n = (if n \<le> 0 then 0 else BitLen (nat (n - 1)))"

section \<open>Construction and reading\<close>

definition New :: "hash_fn \<Rightarrow> int \<Rightarrow> nat \<Rightarrow> merkle" where
  "New hash dv l0 =
     (let l = (if l0 = 0 then MerkleLevels else l0)
      in \<lparr>hashFn = hash, levels = l, defaultValue = dv, tree = [], reverseTree = [],
          mcount = 0, mindex = startIdx l\<rparr>)"

definition GetStartIndex :: "merkle \<Rightarrow> int" where
  "GetStartIndex m = startIdx (levels m)"

definition GetIndex :: "merkle \<Rightarrow> int" where
  "GetIndex m = mindex m"

definition GetValue :: "merkle \<Rightarrow> int \<Rightarrow> int option" where
  "GetValue m i = mget (tree m) (int_String i)"

definition Contains :: "merkle \<Rightarrow> int \<Rightarrow> bool" where
  "Contains m v = (mget (reverseTree m) (int_String v) \<noteq> None)"

text \<open>The value of a node, or the default when the map holds none.\<close>

definition node_value :: "merkle \<Rightarrow> int \<Rightarrow> int" where
  "node_value m i = (case GetValue m i of None \<Rightarrow> defaultValue m | Some v \<Rightarrow> v)"

section \<open>Insertion\<close>

text \<open>The loop of \<open>forceInsert\<close>: \<open>k\<close> more levels above \<open>cur\<close> are recomputed.\<close>

fun rehash_path :: "nat \<Rightarrow> merkle \<Rightarrow> int \<Rightarrow> merkle" where
  "rehash_path 0 m cur0 = m"
| "rehash_path (Suc k) m cur0 =
     (let cur = drop_bit 1 cur0;
          left = push_bit 1 cur;
          right = left + 1;
          leftVal = node_value m left;
          rightVal = node_value m right
      in rehash_path k (m\<lparr>tree := mput (int_String cur) (hashFn m leftVal rightVal) (tree m)\<rparr>) cur)"

definition forceInsert :: "merkle \<Rightarrow> int \<Rightarrow> int \<Rightarrow> merkle result" where
  "forceInsert m value nodeIndex =
     (let si = GetStartIndex m in
      if nodeIndex < si then Err Panic
      else
        let m1 = m\<lparr>tree := mput (int_String nodeIndex) value (tree m),
                   reverseTree := mput (int_String value) nodeIndex (reverseTree m)\<rparr>;
            fullCount = mindex m1 - si;
            twoPower = logarithm2 fullCount
        in Ok (rehash_path twoPower m1 nodeIndex))"

definition Insert :: "merkle \<Rightarrow> int \<Rightarrow> int \<Rightarrow> merkle result" where
  "Insert m value nodeIndex =
     (let m1 = (if mget (tree m) (int_String nodeIndex) = None
                then m\<lparr>mcount := mcount m + 1\<rparr> else m);
          next = nodeIndex + 1;
          m2 = (if next > mindex m1 then m1\<lparr>mindex := next\<rparr> else m1)
      in forceInsert m2 value nodeIndex)"

definition Remove :: "merkle \<Rightarrow> int \<Rightarrow> merkle result" where
  "Remove m nodeIndex = forceInsert m (defaultValue m) nodeIndex"

section \<open>Queries\<close>

text \<open>A negative limit makes \<open>make([]*big.Int, 0, limit)\<close> panic.\<close>

definition LastLeaves :: "merkle \<Rightarrow> int \<Rightarrow> int list result" where
  "LastLeaves m limit =
     (if mcount m = 0 then Ok []
      else if limit < 0 then Err Panic
      else
        let startIndex = GetStartIndex m;
            leaf = (\<lambda>i. GetValue m (startIndex + mcount m - (1 + int i)))
        in Ok (concat (map (\<lambda>i. case leaf i of
                                   Some v \<Rightarrow> if v \<noteq> 0 then [v] else []
                                 | None \<Rightarrow> [])
                           [0 ..< nat (min limit (mcount m))])))"

definition completenessCheck :: "merkle \<Rightarrow> unit result" where
  "completenessCheck m =
     ensure (mcount m = mindex m - GetStartIndex m) (Errorf ''merkle tree is incomplete'')"

text \<open>The loop of \<open>GetRootHash\<close>: \<open>i\<close> runs through the leftmost nodes \<open>1, 2, 4, \<dots>\<close> below
  \<open>2 ^ levels\<close>, so it makes at most \<open>levels\<close> rounds.\<close>

fun root_scan :: "merkle \<Rightarrow> nat \<Rightarrow> int \<Rightarrow> int" where
  "root_scan m 0 i = defaultValue m"
| "root_scan m (Suc k) i =
     (case GetValue m i of
        Some v \<Rightarrow> if v \<noteq> 0 then v else root_scan m k (push_bit 1 i)
      | None \<Rightarrow> root_scan m k (push_bit 1 i))"

definition GetRootHash :: "merkle \<Rightarrow> int result" where
  "GetRootHash m =
     (if mcount m \<noteq> mindex m - GetStartIndex m then Err (Errorf ''merkle tree is incomplete'')
      else Ok (root_scan m (levels m) 1))"

definition getSiblingIndex :: "int \<Rightarrow> int" where
  "getSiblingIndex i = (if i = 1 then 1 else if odd i then i - 1 else i + 1)"

definition zeroSlice :: "nat \<Rightarrow> int list" where
  "zeroSlice n = replicate n 0"

definition sliceFirst :: "int list \<Rightarrow> nat \<Rightarrow> int list" where
  "sliceFirst values n = (if length values \<le> n then values else take n values)"

text \<open>The loop \<open>for index != 0 { ...; index >>= 1 }\<close> of the two path queries. On a negative index
  (which only a malformed snapshot can hold) the arithmetic shift never reaches 0.\<close>

function walk_up :: "(int \<Rightarrow> 'a) \<Rightarrow> nat \<Rightarrow> 'a list" where
  "walk_up f i = (if i = 0 then [] else f (int i) # walk_up f (i div 2))"
  by pat_completeness auto
termination
  by (relation "measure snd") auto

declare walk_up.simps [simp del]

definition path_query :: "merkle \<Rightarrow> int \<Rightarrow> (int \<Rightarrow> int) \<Rightarrow> int list result" where
  "path_query m item f =
     rbind (completenessCheck m) (\<lambda>_.
       case mget (reverseTree m) (int_String item) of
         None \<Rightarrow> Ok (zeroSlice CircomMerkleLength)
       | Some idx \<Rightarrow>
           if idx < 0 then Err Diverges
           else Ok (sliceFirst (walk_up f (nat idx)) CircomMerkleLength))"

definition GetSiblingHashesForVerification :: "merkle \<Rightarrow> int \<Rightarrow> int list result" where
  "GetSiblingHashesForVerification m item =
     path_query m item (\<lambda>i. node_value m (getSiblingIndex i))"

definition GetSiblingSides :: "merkle \<Rightarrow> int \<Rightarrow> int list result" where
  "GetSiblingSides m item = path_query m item (\<lambda>i. if even i then 0 else 1)"

section \<open>Serialised form\<close>

record merkle_json =
  jTree :: "(string, string) gomap"
  jReverseTree :: "(string, string) gomap option"
  jCount :: string
  jIndex :: string

definition text_values :: "(string, int) gomap \<Rightarrow> (string, string) gomap" where
  "text_values m = map (\<lambda>(k, v). (k, int_String v)) m"

definition ToJSON :: "merkle \<Rightarrow> merkle_json" where
  "ToJSON m = \<lparr>jTree = text_values (tree m), jReverseTree = Some (text_values (reverseTree m)),
               jCount = int_String (mcount m), jIndex = int_String (mindex m)\<rparr>"

definition ToJSONLite :: "merkle \<Rightarrow> merkle_json" where
  "ToJSONLite m = \<lparr>jTree = text_values (tree m), jReverseTree = None,
               jCount = int_String (mcount m), jIndex = int_String (mindex m)\<rparr>"

definition parseStringMap :: "(string, string) gomap \<Rightarrow> (string, int) gomap result" where
  "parseStringMap m =
     rmap (\<lambda>(k, v). case SetString v 10 of
                       None \<Rightarrow> Err (CannotParse v)
                     | Some n \<Rightarrow> Ok (k, n)) m"

definition buildReverseTree :: "merkle \<Rightarrow> (string, int) gomap" where
  "buildReverseTree m =
     (let si = GetStartIndex m in
      foldl (\<lambda>rt i. case GetValue m i of
                       Some v \<Rightarrow> mput (int_String v) i rt
                     | None \<Rightarrow> rt)
            [] (map (\<lambda>k. si + int k) [0 ..< nat (mcount m)]))"

definition FromJSON :: "merkle_json \<Rightarrow> hash_fn \<Rightarrow> int \<Rightarrow> merkle result" where
  "FromJSON j hash dv =
     rbind (rwrap ''parse tree'' (parseStringMap (jTree j))) (\<lambda>t.
     rbind (case jReverseTree j of
              None \<Rightarrow> Ok None
            | Some r \<Rightarrow> rbind (rwrap ''parse reverseTree'' (parseStringMap r)) (\<lambda>r'. Ok (Some r'))) (\<lambda>rt.
     case SetString (jCount j) 10 of
       None \<Rightarrow> Err (Errorf ''invalid count'')
     | Some c \<Rightarrow>
         (case SetString (jIndex j) 10 of
            None \<Rightarrow> Err (Errorf ''invalid index'')
          | Some i \<Rightarrow>
              let m = \<lparr>hashFn = hash, levels = MerkleLevels, defaultValue = dv, tree = t,
                       reverseTree = [], mcount = c, mindex = i\<rparr>
              in Ok (case rt of
                       Some r \<Rightarrow> m\<lparr>reverseTree := r\<rparr>
                     | None \<Rightarrow> m\<lparr>reverseTree := buildReverseTree m\<rparr>))))"

text \<open>\<open>Clone\<close> copies every map and every number; in the model a copy is the value itself.\<close>

definition Clone :: "merkle \<Rightarrow> merkle" where
  "Clone m = \<lparr>hashFn = hashFn m, levels = levels m, defaultValue = defaultValue m,
              tree = map (\<lambda>(k, v). (k, v)) (tree m),
              reverseTree = map (\<lambda>(k, v). (k, v)) (reverseTree m),
              mcount = mcount m, mindex = mindex m\<rparr>"

end
