(* ===== verification/MerkleCorrect.thy ===== *)
theory MerkleCorrect
  imports MerkleTree "HOL-Library.Multiset"
begin

text \<open>
  Correctness of the sparse Merkle tree: which nodes an insertion rewrites, the invariant that every
  insertion keeps whatever the order of the leaves, the root of a complete tree, the verification of
  the sibling path, and the snapshot round trip.
\<close>

section \<open>Heap indices by height and position\<close>

definition node_at :: "nat \<Rightarrow> nat \<Rightarrow> nat \<Rightarrow> int" where
  "node_at L h p = 2 ^ (L - 1 - h) + int p"

lemma startIdx_eq: "startIdx l = 2 ^ (l - 1)"
  by (simp add: startIdx_def push_bit_eq_mult)

lemma startIdx_node_at: "startIdx L + int j = node_at L 0 j"
  by (simp add: startIdx_eq node_at_def)

lemma node_at_pos: "0 < node_at L h p"
  by (simp add: node_at_def add_pos_nonneg)

lemma pow2_range_unique:
  assumes "(2::int) ^ a + int p = 2 ^ b + int q" "p < 2 ^ a" "q < 2 ^ b"
  shows "a = b \<and> p = q"
proof -
  have eq: "(2::nat) ^ a + p = 2 ^ b + q"
    using assms(1) by (metis (mono_tags) of_nat_add of_nat_eq_iff of_nat_numeral of_nat_power)
  have "a = b"
  proof (rule ccontr)
    assume "a \<noteq> b"
    then consider "Suc a \<le> b" | "Suc b \<le> a" by linarith
    then show False
    proof cases
      case 1
      then have "(2::nat) ^ Suc a \<le> 2 ^ b" by (rule power_increasing) simp
      with eq assms(2) show False by simp
    next
      case 2
      then have "(2::nat) ^ Suc b \<le> 2 ^ a" by (rule power_increasing) simp
      with eq assms(3) show False by simp
    qed
  qed
  with eq show ?thesis by simp
qed

lemma node_at_inject:
  assumes "h < L" "h' < L" "p < 2 ^ (L - 1 - h)" "q < 2 ^ (L - 1 - h')"
  shows "node_at L h p = node_at L h' q \<longleftrightarrow> h = h' \<and> p = q"
  using pow2_range_unique [of "L - 1 - h" p "L - 1 - h'" q] assms by (auto simp: node_at_def)

lemma node_at_children:
  assumes "Suc h < L"
  shows "push_bit 1 (node_at L (Suc h) p) = node_at L h (2 * p)"
    and "push_bit 1 (node_at L (Suc h) p) + 1 = node_at L h (2 * p + 1)"
proof -
  have "(2::int) ^ (L - 1 - h) = 2 * 2 ^ (L - 1 - Suc h)"
    using assms by (simp flip: power_Suc add: Suc_diff_Suc)
  then show "push_bit 1 (node_at L (Suc h) p) = node_at L h (2 * p)"
    "push_bit 1 (node_at L (Suc h) p) + 1 = node_at L h (2 * p + 1)"
    by (simp_all add: node_at_def push_bit_eq_mult)
qed

lemma node_at_parent:
  assumes "Suc h < L"
  shows "drop_bit 1 (node_at L h p) = node_at L (Suc h) (p div 2)"
proof -
  have "(2::int) ^ (L - 1 - h) = 2 * 2 ^ (L - 1 - Suc h)"
    using assms by (simp flip: power_Suc add: Suc_diff_Suc)
  then show ?thesis by (simp add: node_at_def drop_bit_eq_div of_nat_div)
qed

lemma node_at_succ: "node_at L h p + 1 = node_at L h (p + 1)"
  by (simp add: node_at_def)

lemma pow2_level: "Suc h < L \<Longrightarrow> (2::nat) ^ (L - 1 - h) = 2 * 2 ^ (L - 1 - Suc h)"
  by (simp flip: power_Suc add: Suc_diff_Suc)

lemma half_range: "Suc h < L \<Longrightarrow> (p :: nat) < 2 ^ (L - 1 - h) \<Longrightarrow> p div 2 < 2 ^ (L - 1 - Suc h)"
  using pow2_level [of h L] by linarith

lemma div_pow_step: "h < h' \<Longrightarrow> (p :: nat) div 2 ^ (h' - h) = p div 2 div 2 ^ (h' - Suc h)"
  by (simp add: div_mult2_eq [symmetric] Suc_diff_Suc flip: power_Suc)

text \<open>Bit lengths.\<close>

lemma BitLen_ge: "Suc h \<le> BitLen n \<longleftrightarrow> 2 ^ h \<le> n"
proof (induction h arbitrary: n)
  case 0
  show ?case by (subst BitLen.simps) auto
next
  case (Suc h)
  have "Suc (Suc h) \<le> BitLen n \<longleftrightarrow> n \<noteq> 0 \<and> Suc h \<le> BitLen (n div 2)"
    by (subst BitLen.simps) auto
  also have "\<dots> \<longleftrightarrow> 2 ^ Suc h \<le> n"
    using Suc.IH [of "n div 2"] by (cases "n = 0") (simp_all add: less_eq_div_iff_mult_less_eq mult.commute)
  finally show ?case .
qed

lemma logarithm2_ge: "Suc h \<le> logarithm2 (int n) \<longleftrightarrow> 2 ^ h < n"
proof (cases n)
  case (Suc k)
  then have "nat (int n - 1) = k" by simp
  then show ?thesis using Suc BitLen_ge [of h k] by (simp add: logarithm2_def less_Suc_eq_le)
qed (simp add: logarithm2_def)

lemma logarithm2_le_levels: "n \<le> 2 ^ (L - 1) \<Longrightarrow> logarithm2 (int n) \<le> L - 1"
  using logarithm2_ge [of "L - 1" n] by (simp add: not_less_eq_eq)

lemma logarithm2_mono: "a \<le> b \<Longrightarrow> logarithm2 (int a) \<le> logarithm2 (int b)"
  using logarithm2_ge by (metis le_trans less_le_trans not_less_eq_eq order_refl)

lemma le_pow_logarithm2: "n \<le> 2 ^ logarithm2 (int n)"
  using logarithm2_ge [of "logarithm2 (int n)" n] by simp

text \<open>What the rehashing loop writes.\<close>

lemma rehash_path_fields [simp]:
  "levels (rehash_path k m c) = levels m" "mcount (rehash_path k m c) = mcount m"
  "mindex (rehash_path k m c) = mindex m" "hashFn (rehash_path k m c) = hashFn m"
  "defaultValue (rehash_path k m c) = defaultValue m" "reverseTree (rehash_path k m c) = reverseTree m"
  by (induction k arbitrary: m c) (simp_all add: Let_def)

lemma GetValue_put: "GetValue (m\<lparr>tree := mput (int_String i) v (tree m)\<rparr>) j = (if j = i then Some v else GetValue m j)"
  by (simp add: GetValue_def)

lemma rehash_path_step:
  assumes "h + Suc k < L"
  shows "rehash_path (Suc k) m (node_at L h p) =
    rehash_path k (m\<lparr>tree := mput (int_String (node_at L (Suc h) (p div 2)))
        (hashFn m (node_value m (node_at L h (2 * (p div 2)))) (node_value m (node_at L h (2 * (p div 2) + 1))))
        (tree m)\<rparr>) (node_at L (Suc h) (p div 2))"
proof -
  have "Suc h < L" using assms by simp
  then show ?thesis
    by (simp only: rehash_path.simps Let_def node_at_parent node_at_children(1) node_at_succ)
qed

lemma rehash_path_other:
  assumes "h + k < L" "p < 2 ^ (L - 1 - h)" "h' < L" "p' < 2 ^ (L - 1 - h')"
    and "\<not> (h < h' \<and> h' \<le> h + k \<and> p' = p div 2 ^ (h' - h))"
  shows "GetValue (rehash_path k m (node_at L h p)) (node_at L h' p') = GetValue m (node_at L h' p')"
  using assms
proof (induction k arbitrary: m h p)
  case (Suc k)
  note Sh = Suc_lessD [of "Suc h" L]
  have q: "p div 2 < 2 ^ (L - 1 - Suc h)" using Suc.prems by (intro half_range) simp_all
  have "\<not> (Suc h < h' \<and> h' \<le> Suc h + k \<and> p' = p div 2 div 2 ^ (h' - Suc h))"
    using Suc.prems(5) div_pow_step [of h h' p] by auto
  moreover have "\<not> (h' = Suc h \<and> p' = p div 2)" using Suc.prems(5) by auto
  ultimately show ?case
    using Suc.prems(1,3,4) q unfolding rehash_path_step [OF Suc.prems(1)]
    by (subst Suc.IH) (auto simp: GetValue_put node_at_inject)
qed simp

lemma rehash_path_on:
  assumes "h + k < L" "p < 2 ^ (L - 1 - h)" "h < h'" "h' \<le> h + k" "p' = p div 2 ^ (h' - h)"
  shows "GetValue (rehash_path k m (node_at L h p)) (node_at L h' p') =
      Some (hashFn m (node_value (rehash_path k m (node_at L h p)) (node_at L (h' - 1) (2 * p')))
                     (node_value (rehash_path k m (node_at L h p)) (node_at L (h' - 1) (2 * p' + 1))))"
  using assms
proof (induction k arbitrary: m h p)
  case (Suc k)
  let ?q = "p div 2"
  let ?m1 = "m\<lparr>tree := mput (int_String (node_at L (Suc h) ?q))
      (hashFn m (node_value m (node_at L h (2 * ?q))) (node_value m (node_at L h (2 * ?q + 1)))) (tree m)\<rparr>"
  have Sh: "Suc h < L" and q: "?q < 2 ^ (L - 1 - Suc h)"
    using Suc.prems half_range [of h L p] by simp_all
  note step = rehash_path_step [OF Suc.prems(1), of m p]
  show ?case
  proof (cases "h' = Suc h")
    case True
    have old: "GetValue (rehash_path k ?m1 (node_at L (Suc h) ?q)) (node_at L h c) = GetValue m (node_at L h c)"
      if "c < 2 ^ (L - 1 - h)" for c
      using Sh q that Suc.prems(1) by (simp add: rehash_path_other GetValue_put node_at_inject)
    have c: "2 * ?q < 2 ^ (L - 1 - h)" "2 * ?q + 1 < 2 ^ (L - 1 - h)"
      using q pow2_level [OF Sh] by linarith+
    have "GetValue (rehash_path k ?m1 (node_at L (Suc h) ?q)) (node_at L (Suc h) ?q) = GetValue ?m1 (node_at L (Suc h) ?q)"
      using q Suc.prems(1) by (intro rehash_path_other) simp_all
    then show ?thesis using True Suc.prems(5) old [OF c(1)] old [OF c(2)]
      unfolding step by (simp add: GetValue_put node_value_def split: option.split)
  next
    case False
    then have "p' = ?q div 2 ^ (h' - Suc h)"
      using Suc.prems(3,5) div_pow_step by simp
    then show ?thesis
      using Suc.IH [of "Suc h" ?q ?m1] q Suc.prems(1,3,4) False unfolding step by simp
  qed
qed simp

section \<open>The invariant\<close>

text \<open>The occupied leaves, and the value node \<open>p\<close> of height \<open>h\<close> must have.\<close>

definition leaves_in :: "merkle \<Rightarrow> nat set" where
  "leaves_in m = {j. j < 2 ^ (levels m - 1) \<and> GetValue m (node_at (levels m) 0 j) \<noteq> None}"

definition node_hash :: "merkle \<Rightarrow> nat \<Rightarrow> nat \<Rightarrow> int" where
  "node_hash m h p = hashFn m (node_value m (node_at (levels m) (h - 1) (2 * p)))
                              (node_value m (node_at (levels m) (h - 1) (2 * p + 1)))"

definition width :: "merkle \<Rightarrow> nat" where
  "width m = nat (mindex m - startIdx (levels m))"

definition node_ok :: "merkle \<Rightarrow> nat \<Rightarrow> nat \<Rightarrow> bool" where
  "node_ok m h p =
     (case GetValue m (node_at (levels m) h p) of
        None \<Rightarrow> (\<forall>j \<in> leaves_in m. j div 2 ^ h = p \<longrightarrow> j < 2 ^ (h - 1))
      | Some v \<Rightarrow> (\<exists>j \<in> leaves_in m. j div 2 ^ h = p) \<and> h \<le> logarithm2 (int (width m)) \<and> v = node_hash m h p)"

definition merkle_inv :: "merkle \<Rightarrow> bool" where
  "merkle_inv m \<longleftrightarrow>
     1 \<le> levels m \<and> mindex m = startIdx (levels m) + int (width m) \<and> width m \<le> 2 ^ (levels m - 1) \<and>
     leaves_in m \<subseteq> {..< width m} \<and> mcount m = int (card (leaves_in m)) \<and>
     (\<forall>h p. 1 \<le> h \<longrightarrow> h < levels m \<longrightarrow> p < 2 ^ (levels m - 1 - h) \<longrightarrow> node_ok m h p)"

lemma GetValue_New [simp]: "GetValue (New H d l) i = None"
  by (simp add: New_def GetValue_def Let_def)

lemma New_fields [simp]:
  "levels (New H d l) = (if l = 0 then MerkleLevels else l)" "hashFn (New H d l) = H"
  "defaultValue (New H d l) = d" "mcount (New H d l) = 0" "width (New H d l) = 0"
  "mindex (New H d l) = startIdx (levels (New H d l))"
  by (simp_all add: New_def Let_def width_def)

lemma leaves_in_New [simp]: "leaves_in (New H d l) = {}"
  by (simp add: leaves_in_def)

lemma merkle_inv_New: "merkle_inv (New H d l)"
  by (auto simp: merkle_inv_def node_ok_def MerkleLevels_def)

text \<open>The parts of a successful insertion.\<close>

definition inserted :: "merkle \<Rightarrow> int \<Rightarrow> nat \<Rightarrow> merkle" where
  "inserted m v j =
     (let i = node_at (levels m) 0 j in
      \<lparr>hashFn = hashFn m, levels = levels m, defaultValue = defaultValue m,
       tree = mput (int_String i) v (tree m), reverseTree = mput (int_String v) i (reverseTree m),
       mcount = (if GetValue m i = None then mcount m + 1 else mcount m),
       mindex = max (i + 1) (mindex m)\<rparr>)"

lemma inserted_fields [simp]:
  "levels (inserted m v j) = levels m" "hashFn (inserted m v j) = hashFn m"
  "defaultValue (inserted m v j) = defaultValue m"
  "mindex (inserted m v j) = max (node_at (levels m) 0 j + 1) (mindex m)"
  "mcount (inserted m v j) = (if GetValue m (node_at (levels m) 0 j) = None then mcount m + 1 else mcount m)"
  "reverseTree (inserted m v j) = mput (int_String v) (node_at (levels m) 0 j) (reverseTree m)"
  "GetValue (inserted m v j) i = (if i = node_at (levels m) 0 j then Some v else GetValue m i)"
  by (simp_all add: inserted_def Let_def GetValue_def)

lemma Insert_inserted:
  "Insert m v (node_at (levels m) 0 j) =
     Ok (rehash_path (logarithm2 (mindex (inserted m v j) - startIdx (levels m))) (inserted m v j)
           (node_at (levels m) 0 j))"
proof -
  have ge: "\<not> node_at (levels m) 0 j < startIdx (levels m)"
    using startIdx_node_at [of "levels m" j] by linarith
  have eq: "(let m1 = (if mget (tree m) (int_String i) = None then m\<lparr>mcount := mcount m + 1\<rparr> else m);
               m2 = (if i + 1 > mindex m1 then m1\<lparr>mindex := i + 1\<rparr> else m1)
           in m2\<lparr>tree := mput (int_String i) v (tree m2), reverseTree := mput (int_String v) i (reverseTree m2)\<rparr>)
         = inserted m v j" if "i = node_at (levels m) 0 j" for i
    using that by (cases m) (auto simp: inserted_def Let_def GetValue_def max_def)
  have lv: "levels (let m1 = (if mget (tree m) (int_String i) = None then m\<lparr>mcount := mcount m + 1\<rparr> else m)
           in (if i + 1 > mindex m1 then m1\<lparr>mindex := i + 1\<rparr> else m1)) = levels m" for i
    by (simp add: Let_def)
  show ?thesis
    unfolding Insert_def forceInsert_def GetStartIndex_def Let_def
    using ge eq [OF refl] lv [of "node_at (levels m) 0 j"] by (auto simp: Let_def)
qed

lemma width_eq: "mindex m = startIdx (levels m) + int n \<Longrightarrow> width m = n"
  by (simp add: width_def)

lemma width_inserted:
  assumes "merkle_inv m"
  shows "width (inserted m v j) = max (j + 1) (width m)"
    and "mindex (inserted m v j) = startIdx (levels m) + int (max (j + 1) (width m))"
proof -
  have "mindex m = startIdx (levels m) + int (width m)"
    using assms by (simp add: merkle_inv_def)
  then show e: "mindex (inserted m v j) = startIdx (levels m) + int (max (j + 1) (width m))"
    by (simp add: startIdx_node_at [symmetric] max_def)
  then show "width (inserted m v j) = max (j + 1) (width m)"
    by (intro width_eq) simp
qed

lemma leaves_in_inserted:
  "j < 2 ^ (levels m - 1) \<Longrightarrow> 1 \<le> levels m \<Longrightarrow> leaves_in (inserted m v j) = insert j (leaves_in m)"
  by (auto simp: leaves_in_def node_at_inject)

text \<open>An insertion leaves a node alone when the node is not on the rehashed path.\<close>

definition fits :: "merkle \<Rightarrow> nat \<Rightarrow> bool" where
  "fits m j \<longleftrightarrow> merkle_inv m \<and> j < 2 ^ (levels m - 1)"

definition result_tree :: "merkle \<Rightarrow> int \<Rightarrow> nat \<Rightarrow> merkle" where
  "result_tree m v j =
     rehash_path (logarithm2 (int (max (j + 1) (width m)))) (inserted m v j) (node_at (levels m) 0 j)"

lemma fits_inv: "fits m j \<Longrightarrow> merkle_inv m" and fits_j: "fits m j \<Longrightarrow> j < 2 ^ (levels m - 1)"
  by (simp_all add: fits_def)

lemma fits_levels:
  assumes fit: "fits m j"
  shows "1 \<le> levels m"
  using fits_inv [OF fit] by (simp add: merkle_inv_def)

lemma Insert_result:
  assumes fit: "fits m j"
  shows "Insert m v (node_at (levels m) 0 j) = Ok (result_tree m v j)"
  using width_inserted(2) [OF fits_inv [OF fit], of v j] by (simp add: Insert_inserted result_tree_def)

lemma width_bound:
  assumes fit: "fits m j"
  shows "max (j + 1) (width m) \<le> 2 ^ (levels m - 1)"
  using fits_inv [OF fit] fits_j [OF fit] by (simp add: merkle_inv_def)

lemma path_length:
  assumes fit: "fits m j"
  shows "0 + logarithm2 (int (max (j + 1) (width m))) < levels m"
  using logarithm2_le_levels [OF width_bound [OF fit]] fits_levels [OF fit] by linarith

lemma result_fields [simp]:
  "levels (result_tree m v j) = levels m" "hashFn (result_tree m v j) = hashFn m"
  "defaultValue (result_tree m v j) = defaultValue m"
  "mcount (result_tree m v j) = (if GetValue m (node_at (levels m) 0 j) = None then mcount m + 1 else mcount m)"
  "reverseTree (result_tree m v j) = mput (int_String v) (node_at (levels m) 0 j) (reverseTree m)"
  by (simp_all add: result_tree_def)

lemma result_width:
  assumes fit: "fits m j"
  shows "width (result_tree m v j) = max (j + 1) (width m)"
    and "mindex (result_tree m v j) = startIdx (levels m) + int (max (j + 1) (width m))"
  using width_inserted [OF fits_inv [OF fit], of v j] by (simp_all add: result_tree_def width_eq)

lemma result_leaf_value:
  assumes fit: "fits m j"
  shows "i < 2 ^ (levels m - 1) \<Longrightarrow>
    GetValue (result_tree m v j) (node_at (levels m) 0 i) = (if i = j then Some v else GetValue m (node_at (levels m) 0 i))"
  using path_length [OF fit] fits_j [OF fit] fits_levels [OF fit] by (simp add: result_tree_def rehash_path_other node_at_inject)

lemma result_leaves:
  assumes fit: "fits m j"
  shows "leaves_in (result_tree m v j) = insert j (leaves_in m)"
  using fits_j [OF fit] by (auto simp: leaves_in_def result_leaf_value [OF fit])

lemma result_off_path:
  assumes fit: "fits m j" and a: "h < levels m" "p < 2 ^ (levels m - 1 - h)"
      "\<not> (h \<le> logarithm2 (int (max (j + 1) (width m))) \<and> p = j div 2 ^ h)"
  shows "GetValue (result_tree m v j) (node_at (levels m) h p) = GetValue m (node_at (levels m) h p)"
proof -
  have "\<not> (h = 0 \<and> p = j)" using a(3) by auto
  then have "GetValue (inserted m v j) (node_at (levels m) h p) = GetValue m (node_at (levels m) h p)"
    using a(1,2) fits_j [OF fit] fits_levels [OF fit] by (auto simp: node_at_inject)
  then show ?thesis
    using rehash_path_other [OF path_length [OF fit] _ a(1,2), of j "inserted m v j"] a(3) fits_j [OF fit]
    by (auto simp: result_tree_def)
qed

lemma result_on_path:
  assumes fit: "fits m j" and a: "1 \<le> h" "h \<le> logarithm2 (int (max (j + 1) (width m)))"
  shows "GetValue (result_tree m v j) (node_at (levels m) h (j div 2 ^ h)) = Some (node_hash (result_tree m v j) h (j div 2 ^ h))"
  using rehash_path_on [OF path_length [OF fit], of j h "j div 2 ^ h" "inserted m v j"] a fits_j [OF fit]
  by (simp add: node_hash_def result_tree_def)

lemma result_logs:
  assumes fit: "fits m j"
  shows "logarithm2 (int (width m)) \<le> logarithm2 (int (max (j + 1) (width m)))"
  by (intro logarithm2_mono) simp

lemma result_off_path_hash:
  assumes fit: "fits m j" and a: "1 \<le> h" "h < levels m" "p < 2 ^ (levels m - 1 - h)"
      "\<not> (h \<le> logarithm2 (int (max (j + 1) (width m))) \<and> p = j div 2 ^ h)"
      "h \<le> logarithm2 (int (width m))"
  shows "node_hash (result_tree m v j) h p = node_hash m h p"
proof -
  have p2: "2 * p + 1 < 2 ^ (levels m - 1 - (h - 1))"
    using a(1-3) pow2_level [of "h - 1" "levels m"] by simp
  have off: "c \<noteq> j div 2 ^ (h - 1)" if "c div 2 = p" for c
  proof
    assume "c = j div 2 ^ (h - 1)"
    then have "p = j div 2 ^ h"
      using that a(1) by (cases h) (simp_all add: div_mult2_eq [symmetric] mult.commute)
    then show False using a(4) le_trans [OF a(5) result_logs [OF fit]] by blast
  qed
  have "GetValue (result_tree m v j) (node_at (levels m) (h - 1) c) = GetValue m (node_at (levels m) (h - 1) c)"
    if "c = 2 * p \<or> c = 2 * p + 1" for c
    using that off [of c] p2 a(2) by (intro result_off_path [OF fit]) auto
  then show ?thesis by (simp add: node_hash_def node_value_def split: option.split)
qed

lemma result_node_ok:
  assumes fit: "fits m j" and h: "1 \<le> h" "h < levels m" and p: "p < 2 ^ (levels m - 1 - h)"
  shows "node_ok (result_tree m v j) h p"
proof (cases "h \<le> logarithm2 (int (max (j + 1) (width m))) \<and> p = j div 2 ^ h")
  case True
  then show ?thesis using result_on_path [OF fit h(1)] by (auto simp: node_ok_def result_leaves [OF fit] result_width [OF fit])
next
  case False
  note same = result_off_path [OF fit h(2) p False]
  have ok: "node_ok m h p" using fits_inv [OF fit] h p by (simp add: merkle_inv_def)
  show ?thesis
  proof (cases "GetValue m (node_at (levels m) h p)")
    case None
    have "j < 2 ^ (h - 1)" if "j div 2 ^ h = p"
    proof -
      have "\<not> Suc (h - 1) \<le> logarithm2 (int (max (j + 1) (width m)))" using False that h by simp
      then show ?thesis by (subst (asm) logarithm2_ge) simp
    qed
    with None ok same show ?thesis by (auto simp: node_ok_def result_leaves [OF fit] result_width [OF fit])
  next
    case (Some w)
    with ok result_off_path_hash [OF fit h p False] result_logs [OF fit] same show ?thesis
      by (auto simp: node_ok_def result_leaves [OF fit] result_width [OF fit])
  qed
qed

lemma result_inv:
  assumes fit: "fits m j"
  shows "merkle_inv (result_tree m v j)"
  unfolding merkle_inv_def
proof (intro conjI allI impI)
  show "1 \<le> levels (result_tree m v j)" using fits_levels [OF fit] by simp
  show "mindex (result_tree m v j) = startIdx (levels (result_tree m v j)) + int (width (result_tree m v j))" by (simp add: result_width [OF fit])
  show "width (result_tree m v j) \<le> 2 ^ (levels (result_tree m v j) - 1)" using width_bound [OF fit] by (simp add: result_width [OF fit])
  have sub: "leaves_in m \<subseteq> {..< width m}" and cnt: "mcount m = int (card (leaves_in m))"
    using fits_inv [OF fit] by (simp_all add: merkle_inv_def)
  then show "leaves_in (result_tree m v j) \<subseteq> {..< width (result_tree m v j)}" by (auto simp: result_leaves [OF fit] result_width [OF fit])
  have "finite (leaves_in m)" using sub finite_subset by blast
  then show "mcount (result_tree m v j) = int (card (leaves_in (result_tree m v j)))"
    using cnt fits_j [OF fit] by (simp add: result_leaves [OF fit] card_insert_if) (auto simp: leaves_in_def)
  show "node_ok (result_tree m v j) h p"
    if "1 \<le> h" "h < levels (result_tree m v j)" "p < 2 ^ (levels (result_tree m v j) - 1 - h)" for h p
    using that result_node_ok [OF fit] by simp
qed

section \<open>The root of a complete tree\<close>

text \<open>The reference: the root of height \<open>h\<close> over a list of leaves, empty subtrees being the default.\<close>

fun merkle_root :: "hash_fn \<Rightarrow> int \<Rightarrow> nat \<Rightarrow> int list \<Rightarrow> int" where
  "merkle_root H d 0 xs = (case xs of [] \<Rightarrow> d | x # _ \<Rightarrow> x)"
| "merkle_root H d (Suc h) xs =
     (if xs = [] then d
      else H (merkle_root H d h (take (2 ^ h) xs)) (merkle_root H d h (drop (2 ^ h) xs)))"

definition complete :: "merkle \<Rightarrow> bool" where
  "complete m \<longleftrightarrow> leaves_in m = {..< width m}"

definition leaf_values :: "merkle \<Rightarrow> int list" where
  "leaf_values m = map (\<lambda>j. node_value m (node_at (levels m) 0 j)) [0 ..< width m]"

lemma length_leaf_values [simp]: "length (leaf_values m) = width m"
  by (simp add: leaf_values_def)

lemma merkle_root_Nil [simp]: "merkle_root H d h [] = d"
  by (cases h) simp_all

lemma completenessCheck_complete:
  assumes "merkle_inv m"
  shows "mcount m = mindex m - startIdx (levels m) \<longleftrightarrow> complete m"
proof -
  have "leaves_in m \<subseteq> {..< width m}" "mcount m = int (card (leaves_in m))"
    "mindex m = startIdx (levels m) + int (width m)"
    using assms by (simp_all add: merkle_inv_def)
  moreover have "card (leaves_in m) = width m \<longleftrightarrow> leaves_in m = {..< width m}"
  proof
    assume "card (leaves_in m) = width m"
    then show "leaves_in m = {..< width m}"
      using card_subset_eq [of "{..< width m}" "leaves_in m"] calculation(1) by simp
  qed simp
  ultimately show ?thesis unfolding complete_def by linarith
qed

lemma complete_leaf:
  "complete m \<Longrightarrow> j < width m \<Longrightarrow> GetValue m (node_at (levels m) 0 j) = Some (leaf_values m ! j)"
proof -
  assume "complete m" and j: "j < width m"
  then have "j \<in> leaves_in m" by (simp add: complete_def)
  then have "GetValue m (node_at (levels m) 0 j) \<noteq> None" by (simp add: leaves_in_def)
  then show ?thesis using j by (auto simp: leaf_values_def node_value_def)
qed

lemma complete_no_leaf:
  "complete m \<Longrightarrow> width m \<le> j \<Longrightarrow> j < 2 ^ (levels m - 1) \<Longrightarrow> GetValue m (node_at (levels m) 0 j) = None"
proof (rule ccontr)
  assume a: "complete m" "width m \<le> j" "j < 2 ^ (levels m - 1)" "GetValue m (node_at (levels m) 0 j) \<noteq> None"
  then have "j \<in> leaves_in m" by (simp add: leaves_in_def)
  then show False using a(1,2) by (simp add: complete_def)
qed

lemma complete_leaf_value:
  assumes "complete m" "j < 2 ^ (levels m - 1)"
  shows "node_value m (node_at (levels m) 0 j) =
    merkle_root (hashFn m) (defaultValue m) 0 (drop j (leaf_values m))"
  using complete_leaf [OF assms(1)] complete_no_leaf [OF assms(1) _ assms(2)]
  by (cases "j < width m") (simp_all add: node_value_def Cons_nth_drop_Suc [symmetric])

lemma take_drop_halves:
  "take (2 ^ h) (take (2 ^ Suc h) (drop (p * 2 ^ Suc h) xs)) = take (2 ^ h) (drop (2 * p * 2 ^ h) xs)"
  "drop (2 ^ h) (take (2 ^ Suc h) (drop (p * 2 ^ Suc h) xs)) = take (2 ^ h) (drop ((2 * p + 1) * 2 ^ h) xs)"
  by (simp_all add: min_def drop_take algebra_simps)

lemma merkle_root_take1: "merkle_root H d 0 (take 1 xs) = merkle_root H d 0 xs"
  by (cases xs) simp_all

text \<open>Every node up to the height of the tree holds the reference value of its leaves.\<close>

lemma complete_node:
  assumes "merkle_inv m" "complete m"
    and "h < levels m" "p < 2 ^ (levels m - 1 - h)" "h \<le> logarithm2 (int (width m))"
  shows "node_value m (node_at (levels m) h p) =
    merkle_root (hashFn m) (defaultValue m) h (take (2 ^ h) (drop (p * 2 ^ h) (leaf_values m)))"
  using assms(3-5)
proof (induction h arbitrary: p)
  case 0
  then show ?case using complete_leaf_value [OF assms(2)] merkle_root_take1 by simp
next
  case (Suc h)
  let ?xs = "leaf_values m"
  have ok: "node_ok m (Suc h) p" using assms(1) Suc.prems by (simp add: merkle_inv_def)
  have c: "2 * p + 1 < 2 ^ (levels m - 1 - h)"
    using Suc.prems pow2_level [of h "levels m"] by simp
  have ih: "node_value m (node_at (levels m) h q) =
      merkle_root (hashFn m) (defaultValue m) h (take (2 ^ h) (drop (q * 2 ^ h) ?xs))"
    if "q = 2 * p \<or> q = 2 * p + 1" for q
    using that c Suc.prems by (intro Suc.IH) auto
  have big: "2 ^ h < width m" using Suc.prems(3) by (simp only: logarithm2_ge)
  show ?case
  proof (cases "p * 2 ^ Suc h < width m")
    case True
    then have in_tree: "p * 2 ^ Suc h \<in> leaves_in m" "2 ^ h \<in> leaves_in m"
      using assms(2) big by (simp_all add: complete_def)
    have "GetValue m (node_at (levels m) (Suc h) p) \<noteq> None"
    proof
      assume "GetValue m (node_at (levels m) (Suc h) p) = None"
      then have none: "\<forall>j \<in> leaves_in m. j div 2 ^ Suc h = p \<longrightarrow> j < 2 ^ h"
        using ok by (simp add: node_ok_def)
      then have "p * 2 ^ Suc h < 2 ^ h" using in_tree(1) by simp
      then have "p = 0" by (cases p) simp_all
      moreover have "(2::nat) ^ h div 2 ^ Suc h = 0" by (intro div_less) simp
      ultimately show False using none in_tree(2) by force
    qed
    then have "node_value m (node_at (levels m) (Suc h) p) = node_hash m (Suc h) p"
      using ok by (auto simp: node_ok_def node_value_def)
    moreover have "take (2 ^ Suc h) (drop (p * 2 ^ Suc h) ?xs) \<noteq> []" using True by simp
    then have "merkle_root (hashFn m) (defaultValue m) (Suc h) (take (2 ^ Suc h) (drop (p * 2 ^ Suc h) ?xs)) =
        hashFn m (merkle_root (hashFn m) (defaultValue m) h (take (2 ^ h) (drop (2 * p * 2 ^ h) ?xs)))
                 (merkle_root (hashFn m) (defaultValue m) h (take (2 ^ h) (drop ((2 * p + 1) * 2 ^ h) ?xs)))"
      by (simp only: merkle_root.simps(2) take_drop_halves if_False)
    ultimately show ?thesis
      using ih [of "2 * p"] ih [of "2 * p + 1"] by (simp only: node_hash_def) simp
  next
    case False
    have "GetValue m (node_at (levels m) (Suc h) p) = None"
    proof (rule ccontr)
      assume "GetValue m (node_at (levels m) (Suc h) p) \<noteq> None"
      then obtain j where "j \<in> leaves_in m" "j div 2 ^ Suc h = p"
        using ok by (auto simp: node_ok_def)
      then have "j < width m" "p * 2 ^ Suc h \<le> j"
        using assms(2) div_times_less_eq_dividend [of j "2 ^ Suc h"] by (simp_all add: complete_def)
      then show False using False by simp
    qed
    then show ?thesis using False by (simp add: node_value_def)
  qed
qed

lemma above_top_empty:
  assumes "merkle_inv m" "logarithm2 (int (width m)) < h" "h < levels m" "p < 2 ^ (levels m - 1 - h)"
  shows "GetValue m (node_at (levels m) h p) = None"
proof -
  have "node_ok m h p" using assms by (simp add: merkle_inv_def)
  then show ?thesis using assms(2) by (auto simp: node_ok_def split: option.splits)
qed

lemma root_scan_top:
  assumes "merkle_inv m" "complete m" "T = logarithm2 (int (width m))"
    and "node_value m (node_at (levels m) T 0) \<noteq> 0" "0 < width m" "T \<le> h" "h < levels m"
  shows "root_scan m (Suc h) (node_at (levels m) h 0) = node_value m (node_at (levels m) T 0)"
  using assms(6,7)
proof (induction h rule: dec_induct)
  case base
  have "GetValue m (node_at (levels m) T 0) \<noteq> None"
  proof (cases T)
    case 0
    then show ?thesis using complete_leaf [OF assms(2,5)] by simp
  next
    case (Suc t)
    have ok: "node_ok m T 0" using assms(1) Suc base by (simp add: merkle_inv_def)
    have "2 ^ t < width m" using logarithm2_ge [of t "width m"] assms(3) Suc by simp
    then have "2 ^ t \<in> leaves_in m" using assms(2) by (simp add: complete_def)
    then show ?thesis using ok Suc by (auto simp: node_ok_def split: option.splits)
  qed
  then show ?case using assms(4) by (auto simp: node_value_def)
next
  case (step h)
  then have "GetValue m (node_at (levels m) (Suc h) 0) = None"
    using assms(1,3) by (intro above_top_empty) simp_all
  moreover have "push_bit 1 (node_at (levels m) (Suc h) 0) = node_at (levels m) h 0"
    using node_at_children(1) [of h "levels m" 0] step.prems by simp
  moreover have "root_scan m (Suc h) (node_at (levels m) h 0) = node_value m (node_at (levels m) T 0)"
    using step by simp
  ultimately show ?case by (simp only: root_scan.simps(2) [of m "Suc h"] option.case)
qed

lemma leaf_values_empty [simp]: "width m = 0 \<Longrightarrow> leaf_values m = []"
  by (simp add: leaf_values_def)

text \<open>\<open>GetRootHash\<close> on a complete tree.\<close>

lemma GetRootHash_complete:
  assumes "merkle_inv m" "complete m" "T = logarithm2 (int (width m))" "0 < width m"
    and "merkle_root (hashFn m) (defaultValue m) T (leaf_values m) \<noteq> 0"
  shows "GetRootHash m = Ok (merkle_root (hashFn m) (defaultValue m) T (leaf_values m))"
proof -
  have L: "1 \<le> levels m" "T < levels m"
    using assms(1,3) logarithm2_le_levels [of "width m" "levels m"] by (auto simp: merkle_inv_def)
  have all: "take (2 ^ T) (leaf_values m) = leaf_values m"
    using le_pow_logarithm2 [of "width m"] assms(3) by simp
  have v: "node_value m (node_at (levels m) T 0) = merkle_root (hashFn m) (defaultValue m) T (leaf_values m)"
    using complete_node [OF assms(1,2) L(2), of 0] assms(3) all by simp
  have "node_at (levels m) (levels m - 1) 0 = 1" by (simp add: node_at_def)
  then have "root_scan m (levels m) 1 = merkle_root (hashFn m) (defaultValue m) T (leaf_values m)"
    using root_scan_top [OF assms(1-3) _ assms(4), of "levels m - 1"] assms(5) v L by simp
  then show ?thesis
    using completenessCheck_complete [OF assms(1)] assms(2) by (simp add: GetRootHash_def GetStartIndex_def)
qed

section \<open>Trees built by a sequence of insertions\<close>

text \<open>Inserts, in the order of \<open>js\<close>, the value \<open>f j\<close> at leaf \<open>j\<close>, as the events of a chain do.\<close>

definition insert_leaves :: "(nat \<Rightarrow> int) \<Rightarrow> merkle \<Rightarrow> nat list \<Rightarrow> merkle result" where
  "insert_leaves f m js = rfold (\<lambda>t j. Insert t (f j) (GetStartIndex t + int j)) m js"

lemma insert_leaves_Cons:
  assumes "fits m j"
  shows "insert_leaves f m (j # js) = insert_leaves f (result_tree m (f j) j) js"
  using Insert_result [OF assms] startIdx_node_at [of "levels m" j]
  by (simp add: insert_leaves_def GetStartIndex_def)

definition same_shape :: "merkle \<Rightarrow> merkle \<Rightarrow> bool" where
  "same_shape t m \<longleftrightarrow> levels t = levels m \<and> hashFn t = hashFn m \<and> defaultValue t = defaultValue m"

lemma find_snoc:
  "find P (ys @ [y]) = (case find P ys of Some i \<Rightarrow> Some i | None \<Rightarrow> if P y then Some y else None)"
  by (induction ys) auto

lemma insert_leaves_spec:
  assumes "merkle_inv m" "\<forall>j \<in> set js. j < 2 ^ (levels m - 1)"
  shows "\<exists>t. insert_leaves f m js = Ok t \<and> merkle_inv t \<and> same_shape t m \<and>
    leaves_in t = leaves_in m \<union> set js \<and>
    (\<forall>j < 2 ^ (levels m - 1). GetValue t (node_at (levels m) 0 j) =
       (if j \<in> set js then Some (f j) else GetValue m (node_at (levels m) 0 j))) \<and>
    (\<forall>w. mget (reverseTree t) w =
       (case find (\<lambda>j. int_String (f j) = w) (rev js) of
          Some j \<Rightarrow> Some (node_at (levels m) 0 j) | None \<Rightarrow> mget (reverseTree m) w)) \<and>
    (\<forall>n. width m \<le> n \<longrightarrow> (\<forall>j \<in> set js. j < n) \<longrightarrow> width t \<le> n)"
  using assms
proof (induction js arbitrary: m)
  case Nil
  then show ?case by (simp add: insert_leaves_def same_shape_def)
next
  case (Cons j js)
  let ?m = "result_tree m (f j) j"
  have fit: "fits m j" using Cons.prems by (simp add: fits_def)
  obtain t where t: "insert_leaves f ?m js = Ok t" "merkle_inv t" "same_shape t ?m"
      "leaves_in t = leaves_in ?m \<union> set js"
      "\<forall>i < 2 ^ (levels m - 1). GetValue t (node_at (levels m) 0 i) =
         (if i \<in> set js then Some (f i) else GetValue ?m (node_at (levels m) 0 i))"
      "\<forall>w. mget (reverseTree t) w =
         (case find (\<lambda>j. int_String (f j) = w) (rev js) of
            Some j \<Rightarrow> Some (node_at (levels m) 0 j) | None \<Rightarrow> mget (reverseTree ?m) w)"
      "\<forall>n. width ?m \<le> n \<longrightarrow> (\<forall>j \<in> set js. j < n) \<longrightarrow> width t \<le> n"
    using Cons.IH [OF result_inv [OF fit, of "f j"], unfolded result_fields(1)] Cons.prems(2) by auto
  show ?case
  proof (intro exI conjI)
    show "insert_leaves f m (j # js) = Ok t" using t(1) fit by (simp add: insert_leaves_Cons)
    show "merkle_inv t" by (fact t(2))
    show "same_shape t m" using t(3) by (simp add: same_shape_def)
    show "leaves_in t = leaves_in m \<union> set (j # js)" using t(4) by (simp add: result_leaves [OF fit])
    show "\<forall>i < 2 ^ (levels m - 1). GetValue t (node_at (levels m) 0 i) =
        (if i \<in> set (j # js) then Some (f i) else GetValue m (node_at (levels m) 0 i))"
      using t(5) by (auto simp: result_leaf_value [OF fit])
    show "\<forall>w. mget (reverseTree t) w =
        (case find (\<lambda>j. int_String (f j) = w) (rev (j # js)) of
           Some j \<Rightarrow> Some (node_at (levels m) 0 j) | None \<Rightarrow> mget (reverseTree m) w)"
      using t(6) by (auto simp: find_snoc split: option.split)
    show "\<forall>n. width m \<le> n \<longrightarrow> (\<forall>j \<in> set (j # js). j < n) \<longrightarrow> width t \<le> n"
      using t(7) by (simp add: result_width [OF fit])
  qed
qed

text \<open>The tree of the values \<open>xs\<close>, inserted in any order.\<close>

lemma build_tree:
  assumes "mset js = mset [0 ..< length xs]" "length xs \<le> 2 ^ (levels (New H d l) - 1)"
  obtains t where "insert_leaves (\<lambda>j. xs ! j) (New H d l) js = Ok t" "merkle_inv t" "same_shape t (New H d l)"
    "complete t" "width t = length xs" "leaf_values t = xs"
    "\<forall>w. mget (reverseTree t) w =
       (case find (\<lambda>j. int_String (xs ! j) = w) (rev js) of
          Some j \<Rightarrow> Some (node_at (levels t) 0 j) | None \<Rightarrow> None)"
proof -
  let ?N = "New H d l"
  have js: "set js = {..< length xs}"
    using mset_eq_setD [OF assms(1)] by (simp add: atLeast0LessThan)
  have small: "\<forall>j \<in> set js. j < 2 ^ (levels ?N - 1)" using js assms(2) by auto
  have none: "mget (reverseTree ?N) w = None" for w by (simp add: New_def Let_def)
  obtain t where t: "insert_leaves (\<lambda>j. xs ! j) ?N js = Ok t" "merkle_inv t" "same_shape t ?N"
      "leaves_in t = set js"
      "\<forall>j < 2 ^ (levels ?N - 1). GetValue t (node_at (levels ?N) 0 j) = (if j \<in> set js then Some (xs ! j) else None)"
      "\<forall>w. mget (reverseTree t) w =
       (case find (\<lambda>j. int_String (xs ! j) = w) (rev js) of
          Some j \<Rightarrow> Some (node_at (levels ?N) 0 j) | None \<Rightarrow> None)"
      "\<forall>n. (\<forall>j \<in> set js. j < n) \<longrightarrow> width t \<le> n"
    using insert_leaves_spec [OF merkle_inv_New small, of "\<lambda>j. xs ! j",
        unfolded none GetValue_New leaves_in_New New_fields(5) Un_empty_left]
    by (elim exE conjE) (rule that, assumption+, blast)
  have lv: "levels ?N = levels t" using t(3) by (simp add: same_shape_def)
  note t = t [unfolded lv]
  have "{..< length xs} \<subseteq> {..< width t}" using t(2,4) js by (simp add: merkle_inv_def)
  then have w: "width t = length xs" using t(7) js by (simp add: le_antisym)
  have N: "length xs \<le> 2 ^ (levels t - 1)" using assms(2) unfolding lv .
  have "leaf_values t = xs"
    using t(5) js N w by (intro nth_equalityI) (simp_all add: leaf_values_def node_value_def)
  with t w js show ?thesis by (intro that [of t]) (simp_all add: complete_def)
qed

section \<open>Sibling paths\<close>

text \<open>What a verifier computes from a leaf, its siblings and its sides (0: the node is a left child).\<close>

fun climb :: "hash_fn \<Rightarrow> int \<Rightarrow> (int \<times> int) list \<Rightarrow> int" where
  "climb H v [] = v"
| "climb H v ((s, d) # ps) = climb H (if d = 0 then H v s else H s v) ps"

lemma walk_up_node:
  assumes "h < L" "p < 2 ^ (L - 1 - h)"
  shows "walk_up f (2 ^ (L - 1 - h) + p) = f (node_at L h p) #
    (if Suc h < L then walk_up f (2 ^ (L - 1 - Suc h) + p div 2) else [])"
proof (cases "Suc h < L")
  case True
  have "(2 ^ (L - 1 - h) + p) div 2 = 2 ^ (L - 1 - Suc h) + p div 2"
    using pow2_level [OF True] by simp
  then show ?thesis using True by (subst walk_up.simps) (simp add: node_at_def)
next
  case False
  then have "L - 1 - h = 0" using assms(1) by simp
  with assms False show ?thesis
    by (subst walk_up.simps) (simp add: node_at_def walk_up.simps)
qed

lemma getSiblingIndex_node:
  assumes "Suc h < L"
  shows "getSiblingIndex (node_at L h p) = node_at L h (if even p then p + 1 else p - 1)"
    and "even (node_at L h p) \<longleftrightarrow> even p"
proof -
  have e: "even ((2::int) ^ (L - 1 - h))" "(2::int) \<le> 2 ^ (L - 1 - h)"
    using pow2_level [OF assms] assms by (simp_all add: self_le_power)
  then show "even (node_at L h p) \<longleftrightarrow> even p" by (simp add: node_at_def)
  moreover have "node_at L h p \<noteq> 1" using e(2) by (simp add: node_at_def)
  ultimately show "getSiblingIndex (node_at L h p) = node_at L h (if even p then p + 1 else p - 1)"
    using of_nat_diff [of 1 p] by (cases "even p") (auto simp: getSiblingIndex_def node_at_def odd_pos Suc_leI)
qed

definition path_pairs :: "merkle \<Rightarrow> nat \<Rightarrow> (int \<times> int) list" where
  "path_pairs m i = zip (walk_up (\<lambda>i. node_value m (getSiblingIndex i)) i)
                        (walk_up (\<lambda>i. if even i then 0 else 1) i)"

lemma node_ok_stored:
  "node_ok m (Suc h) q \<Longrightarrow> j \<in> leaves_in m \<Longrightarrow> j div 2 ^ Suc h = q \<Longrightarrow> 2 ^ h \<le> j \<Longrightarrow>
   GetValue m (node_at (levels m) (Suc h) q) \<noteq> None"
  by (auto simp: node_ok_def not_less [symmetric] simp del: power_Suc split: option.splits)

text \<open>One level of the path: the parent's value is the hash of the node and its sibling.\<close>

lemma node_value_parent:
  assumes "merkle_inv m" "complete m" "Suc h \<le> logarithm2 (int (width m))" "p * 2 ^ h < width m"
    and "Suc h < levels m" "p < 2 ^ (levels m - 1 - h)"
  shows "node_value m (node_at (levels m) (Suc h) (p div 2)) =
    (if even p then hashFn m (node_value m (node_at (levels m) h p)) (node_value m (node_at (levels m) h (p + 1)))
     else hashFn m (node_value m (node_at (levels m) h (p - 1))) (node_value m (node_at (levels m) h p)))"
proof -
  have ok: "node_ok m (Suc h) (p div 2)"
    using assms(1,5) half_range [OF assms(5,6)] by (simp add: merkle_inv_def)
  have "p * 2 ^ h \<in> leaves_in m" "2 ^ h \<in> leaves_in m"
    using assms(2-4) by (simp_all add: complete_def logarithm2_ge)
  moreover have "p * 2 ^ h div 2 ^ Suc h = p div 2"
    by (simp add: power_Suc2 div_mult2_eq del: power_Suc)
  moreover have "(2::nat) ^ h div 2 ^ Suc h = 0" by (intro div_less) simp
  moreover have "2 ^ h \<le> p * 2 ^ h" if "p \<noteq> 0" using that by simp
  ultimately have "GetValue m (node_at (levels m) (Suc h) (p div 2)) \<noteq> None"
    using node_ok_stored [OF ok, of "2 ^ h"] node_ok_stored [OF ok, of "p * 2 ^ h"] by (cases "p = 0") simp_all
  then have "node_value m (node_at (levels m) (Suc h) (p div 2)) = node_hash m (Suc h) (p div 2)"
    using ok by (auto simp: node_ok_def node_value_def)
  then show ?thesis by (auto simp: node_hash_def elim!: evenE oddE)
qed

lemma climb_path:
  assumes "merkle_inv m" "complete m" "T = logarithm2 (int (width m))" "h \<le> T"
    and "p < 2 ^ (levels m - 1 - h)" "p * 2 ^ h < width m"
  shows "climb (hashFn m) (node_value m (node_at (levels m) h p))
      (take (T - h) (path_pairs m (2 ^ (levels m - 1 - h) + p))) = node_value m (node_at (levels m) T (p div 2 ^ (T - h)))"
  using assms(4-6)
proof (induction "T - h" arbitrary: h p)
  case 0
  then show ?case by simp
next
  case (Suc k)
  have TL: "T < levels m" using assms(1,3) logarithm2_le_levels [of "width m" "levels m"] by (auto simp: merkle_inv_def)
  have hT: "Suc h \<le> T" "Suc h < levels m" "h < levels m" using Suc.hyps(2) TL by simp_all
  have sub: "p div 2 * 2 ^ Suc h < width m"
  proof -
    have "p div 2 * 2 ^ Suc h \<le> p * 2 ^ h" by simp
    then show ?thesis using Suc.prems(3) by linarith
  qed
  have k: "T - h = Suc (T - Suc h)" "T - Suc h = k" using hT Suc.hyps(2) by simp_all
  have ih: "climb (hashFn m) (node_value m (node_at (levels m) (Suc h) (p div 2)))
      (take (T - Suc h) (path_pairs m (2 ^ (levels m - 1 - Suc h) + p div 2))) =
      node_value m (node_at (levels m) T (p div 2 div 2 ^ (T - Suc h)))"
    using Suc.hyps(1) [of "Suc h" "p div 2"] hT half_range [OF hT(2) Suc.prems(2)] sub k by simp
  have path: "path_pairs m (2 ^ (levels m - 1 - h) + p) =
      (node_value m (node_at (levels m) h (if even p then p + 1 else p - 1)), if even p then 0 else 1) #
      path_pairs m (2 ^ (levels m - 1 - Suc h) + p div 2)"
    unfolding path_pairs_def walk_up_node [OF hT(3) Suc.prems(2)] getSiblingIndex_node [OF hT(2)]
    using hT(2) by simp
  show ?case
    using ih node_value_parent [OF assms(1,2) _ Suc.prems(3) hT(2) Suc.prems(2)] hT assms(3)
    unfolding path div_pow_step [OF Suc_le_lessD [OF hT(1)]]
    unfolding k(1) take_Suc_Cons climb.simps by auto
qed

lemma length_walk_up:
  "h < L \<Longrightarrow> p < 2 ^ (L - 1 - h) \<Longrightarrow> length (walk_up f (2 ^ (L - 1 - h) + p)) = L - h"
proof (induction "L - h" arbitrary: h p)
  case (Suc k)
  have "length (walk_up f (2 ^ (L - 1 - h) + p)) =
      Suc (if Suc h < L then length (walk_up f (2 ^ (L - 1 - Suc h) + p div 2)) else 0)"
    unfolding walk_up_node [OF Suc.prems] by simp
  moreover have "length (walk_up f (2 ^ (L - 1 - Suc h) + p div 2)) = L - Suc h" if "Suc h < L"
    using Suc.hyps(1) [of "Suc h" "p div 2"] Suc.hyps(2) that half_range [OF that Suc.prems(2)] by simp
  ultimately show ?case using Suc.prems(1) Suc.hyps(2) by (cases "Suc h < L") simp_all
qed simp

lemma climb_zip_take:
  "T \<le> n \<Longrightarrow> take T (zip (take n a) (take n b)) = take T (zip a b)"
  by (simp add: take_zip min_def)

text \<open>The two path queries on a complete tree, for a value whose leaf the reverse map knows.\<close>

lemma path_queries:
  assumes "merkle_inv m" "complete m" "j < width m" "T = logarithm2 (int (width m))"
    and "mget (reverseTree m) (int_String v) = Some (node_at (levels m) 0 j)"
    and "CircomMerkleLength \<le> levels m" "T \<le> CircomMerkleLength"
  obtains sib sides where "GetSiblingHashesForVerification m v = Ok sib" "GetSiblingSides m v = Ok sides"
    "length sib = CircomMerkleLength" "length sides = CircomMerkleLength"
    "climb (hashFn m) (leaf_values m ! j) (take T (zip sib sides)) =
       merkle_root (hashFn m) (defaultValue m) T (leaf_values m)"
proof -
  let ?i = "2 ^ (levels m - 1) + j"
  have L: "T < levels m" "0 < levels m" and j: "j < 2 ^ (levels m - 1)"
    using assms(1,3,4) logarithm2_le_levels [of "width m" "levels m"] by (auto simp: merkle_inv_def)
  have idx: "node_at (levels m) 0 j = int ?i" by (simp add: node_at_def)
  have chk: "completenessCheck m = Ok ()"
    using completenessCheck_complete [OF assms(1)] assms(2) by (simp add: completenessCheck_def GetStartIndex_def)
  have q: "path_query m v f = Ok (take CircomMerkleLength (walk_up f ?i))"
      "length (take CircomMerkleLength (walk_up f ?i)) = CircomMerkleLength" for f
    using assms(5,6) length_walk_up [OF L(2), of j f] j
    by (auto simp: path_query_def chk idx sliceFirst_def simp del: of_nat_add of_nat_power)
  have "climb (hashFn m) (leaf_values m ! j) (take T (path_pairs m ?i)) = node_value m (node_at (levels m) T 0)"
    using climb_path [OF assms(1,2,4), of 0 j] complete_leaf [OF assms(2,3)] j assms(3) L
      le_pow_logarithm2 [of "width m"] assms(4)
    by (simp add: node_value_def)
  also have "\<dots> = merkle_root (hashFn m) (defaultValue m) T (leaf_values m)"
    using complete_node [OF assms(1,2) L(1), of 0] assms(4) le_pow_logarithm2 [of "width m"] by simp
  finally show ?thesis
    using assms(7) by (intro that [OF _ _ q(2) q(2)])
      (simp_all add: q(1) GetSiblingHashesForVerification_def GetSiblingSides_def climb_zip_take path_pairs_def)
qed

lemma find_value:
  assumes "distinct xs" "set js = {..< length xs}" "j < length xs"
  shows "find (\<lambda>i. int_String (xs ! i) = int_String (xs ! j)) (rev js) = Some j"
proof -
  have "find P ys = Some j" if "j \<in> set ys" "\<And>i. i \<in> set ys \<Longrightarrow> P i \<longleftrightarrow> i = j" for P and ys :: "nat list"
    using that by (induction ys) auto
  from this [of "rev js" "\<lambda>i. int_String (xs ! i) = int_String (xs ! j)"] show ?thesis
    using assms by (simp add: nth_eq_iff_index_eq)
qed

section \<open>Snapshots\<close>

lemma parse_text_values: "parseStringMap (text_values t) = Ok t"
  unfolding parseStringMap_def text_values_def rmap_Ok_map
  by (subst rmap_OkI [where g = id]) (auto simp: int_String_def SetString_int_text)

lemma SetString_int_String: "SetString (int_String v) 10 = Some v"
  by (simp add: int_String_def SetString_int_text)

lemma FromJSON_ToJSON:
  "levels m = MerkleLevels \<Longrightarrow> FromJSON (ToJSON m) (hashFn m) (defaultValue m) = Ok m"
  "levels m = MerkleLevels \<Longrightarrow>
   FromJSON (ToJSONLite m) (hashFn m) (defaultValue m) = Ok (m\<lparr>reverseTree := buildReverseTree m\<rparr>)"
  by (cases m, simp add: FromJSON_def ToJSON_def ToJSONLite_def parse_text_values SetString_int_String
        buildReverseTree_def GetStartIndex_def GetValue_def)+

section \<open>Properties\<close>

text \<open>C4. Whatever the order in which the leaves \<open>0, \<dots>, n - 1\<close> of a fresh tree are inserted, every
  insertion succeeds, the invariant holds, and once all are in \<open>GetRootHash\<close> answers the root that the
  reference recursion computes from the list of leaves at height \<open>\<lceil>log2 n\<rceil>\<close> (unless that root is 0,
  which the code takes for an absent node).\<close>

theorem merkle_root_any_order:
  assumes "mset js = mset [0 ..< length xs]" "length xs \<le> 2 ^ (levels (New H d l) - 1)"
    and "merkle_root H d (logarithm2 (int (length xs))) xs \<noteq> 0" "xs \<noteq> []"
  shows "\<exists>t. rfold (\<lambda>t j. Insert t (xs ! j) (GetStartIndex t + int j)) (New H d l) js = Ok t \<and>
    merkle_inv t \<and> GetRootHash t = Ok (merkle_root H d (logarithm2 (int (length xs))) xs)"
proof -
  obtain t where t: "insert_leaves (\<lambda>j. xs ! j) (New H d l) js = Ok t" "merkle_inv t"
      "same_shape t (New H d l)" "complete t" "width t = length xs" "leaf_values t = xs"
    using build_tree [OF assms(1,2)] by metis
  then have "GetRootHash t = Ok (merkle_root H d (logarithm2 (int (length xs))) xs)"
    using GetRootHash_complete [OF t(2,4) refl] assms(3,4) by (simp add: same_shape_def)
  then show ?thesis using t(1,2) by (simp add: insert_leaves_def)
qed

lemma merkle_root_any_order_witness:
  "\<exists>t. rfold (\<lambda>t j. Insert t ([7, 5, 9] ! j) (GetStartIndex t + int j)) (New (\<lambda>a b. 3 * a + b) 0 4) [2, 0, 1] = Ok t \<and>
    merkle_inv t \<and> GetRootHash t = Ok 105"
proof -
  have l: "logarithm2 (int (length [7, 5, 9 :: int])) = 2" by code_simp
  have m: "mset [2, 0, 1] = mset [0 ..< length [7, 5, 9 :: int]]" by (simp add: upt_rec)
  have r: "merkle_root (\<lambda>a b. 3 * a + b) 0 2 [7, 5, 9] = 105" by (simp add: numeral_2_eq_2)
  show ?thesis
    using merkle_root_any_order [OF m, of "\<lambda>a b. 3 * a + b" 0 4] unfolding l r by simp
qed

text \<open>C5. The sibling hashes and sides of a leaf of a complete tree have the circuit's 25 entries, and
  the first \<open>\<lceil>log2 n\<rceil>\<close> of them carry the leaf up to the root of the tree.\<close>

theorem merkle_path_verifies:
  assumes "mset js = mset [0 ..< length xs]" "distinct xs" "j < length xs"
    and "length xs \<le> 2 ^ CircomMerkleLength" "CircomMerkleLength < levels (New H d l)"
    and "rfold (\<lambda>t j. Insert t (xs ! j) (GetStartIndex t + int j)) (New H d l) js = Ok t"
  shows "\<exists>sib sides. GetSiblingHashesForVerification t (xs ! j) = Ok sib \<and> GetSiblingSides t (xs ! j) = Ok sides \<and>
    length sib = CircomMerkleLength \<and> length sides = CircomMerkleLength \<and>
    climb H (xs ! j) (take (logarithm2 (int (length xs))) (zip sib sides)) =
      merkle_root H d (logarithm2 (int (length xs))) xs"
proof -
  have "(2::nat) ^ CircomMerkleLength \<le> 2 ^ (levels (New H d l) - 1)"
    using assms(5) by (intro power_increasing) simp_all
  then have len: "length xs \<le> 2 ^ (levels (New H d l) - 1)" using assms(4) by linarith
  have T: "logarithm2 (int (length xs)) \<le> CircomMerkleLength"
    using logarithm2_ge [of CircomMerkleLength "length xs"] assms(4) by (simp add: not_less_eq_eq)
  obtain t' where t: "insert_leaves (\<lambda>j. xs ! j) (New H d l) js = Ok t'" "merkle_inv t'"
      "same_shape t' (New H d l)" "complete t'" "width t' = length xs" "leaf_values t' = xs"
      "\<forall>w. mget (reverseTree t') w =
       (case find (\<lambda>j. int_String (xs ! j) = w) (rev js) of
          Some j \<Rightarrow> Some (node_at (levels t') 0 j) | None \<Rightarrow> None)"
    using build_tree [OF assms(1) len] by metis
  have same: "t' = t" using t(1) assms(6) by (simp add: insert_leaves_def)
  have "set js = {..< length xs}" using mset_eq_setD [OF assms(1)] by (simp add: atLeast0LessThan)
  then have rev: "mget (reverseTree t') (int_String (xs ! j)) = Some (node_at (levels t') 0 j)"
    using t(7) find_value [OF assms(2) _ assms(3)] by simp
  have L: "CircomMerkleLength \<le> levels t'" using t(3) assms(5) unfolding same_shape_def by linarith
  have H: "hashFn t' = H" "defaultValue t' = d" using t(3) by (simp_all add: same_shape_def)
  obtain sib sides where "GetSiblingHashesForVerification t' (xs ! j) = Ok sib"
      "GetSiblingSides t' (xs ! j) = Ok sides"
      "length sib = CircomMerkleLength" "length sides = CircomMerkleLength"
      "climb H (xs ! j) (take (logarithm2 (int (length xs))) (zip sib sides)) =
       merkle_root H d (logarithm2 (int (length xs))) xs"
    using path_queries [OF t(2,4) _ refl rev L] T assms(3) unfolding t(5,6) H by metis
  then show ?thesis unfolding same by blast
qed

lemma merkle_path_verifies_witness:
  "\<exists>t sib sides. GetSiblingHashesForVerification t 5 = Ok sib \<and> GetSiblingSides t 5 = Ok sides \<and>
    GetRootHash t = Ok 105 \<and> climb (\<lambda>a b. 3 * a + b) 5 (take 2 (zip sib sides)) = 105"
proof -
  let ?H = "\<lambda>a b. 3 * a + b :: int" and ?xs = "[7, 5, 9] :: int list"
  have l: "logarithm2 (int (length ?xs)) = 2" by code_simp
  have m: "mset [2, 0, 1] = mset [0 ..< length ?xs]" by (simp add: upt_rec)
  have r: "merkle_root ?H 0 2 ?xs = 105" by (simp add: numeral_2_eq_2)
  obtain t where t: "insert_leaves (\<lambda>j. ?xs ! j) (New ?H 0 0) [2, 0, 1] = Ok t" "merkle_inv t"
      "same_shape t (New ?H 0 0)" "complete t" "width t = length ?xs" "leaf_values t = ?xs"
    using build_tree [OF m, of ?H 0 0] by (auto simp: MerkleLevels_def)
  have "GetRootHash t = Ok 105"
    using GetRootHash_complete [OF t(2,4) refl] t(3,5,6) l r by (simp add: same_shape_def)
  moreover have "CircomMerkleLength < levels (New ?H 0 0)" "length ?xs \<le> 2 ^ CircomMerkleLength"
    by (simp_all add: CircomMerkleLength_def MerkleLevels_def)
  then have "\<exists>sib sides. GetSiblingHashesForVerification t (?xs ! 1) = Ok sib \<and> GetSiblingSides t (?xs ! 1) = Ok sides \<and>
    length sib = CircomMerkleLength \<and> length sides = CircomMerkleLength \<and>
    climb ?H (?xs ! 1) (take 2 (zip sib sides)) = 105"
    using merkle_path_verifies [OF m, of 1 ?H 0 0 t] t(1) unfolding l r insert_leaves_def by simp
  ultimately show ?thesis by auto
qed

text \<open>A tree with a gap below its highest leaf answers no query: \<open>GetRootHash\<close> and the two path
  queries report the incomplete tree, and the root is answered exactly when there is no gap.\<close>

theorem merkle_incomplete_reported:
  assumes "merkle_inv m"
  shows "((\<exists>r. GetRootHash m = Ok r) \<longleftrightarrow> leaves_in m = {..< width m}) \<and>
    (leaves_in m \<noteq> {..< width m} \<longrightarrow>
      GetSiblingHashesForVerification m v = Err (Errorf ''merkle tree is incomplete'') \<and>
      GetSiblingSides m v = Err (Errorf ''merkle tree is incomplete''))"
  using completenessCheck_complete [OF assms]
  by (auto simp: GetRootHash_def GetStartIndex_def complete_def GetSiblingHashesForVerification_def
      GetSiblingSides_def path_query_def completenessCheck_def)

lemma merkle_incomplete_reported_witness:
  "\<exists>m. Insert (New (+) 0 4) 5 (node_at 4 0 1) = Ok m \<and> merkle_inv m \<and>
    GetSiblingSides m 5 = Err (Errorf ''merkle tree is incomplete'') \<and> (\<nexists>r. GetRootHash m = Ok r)"
proof -
  let ?m = "result_tree (New (+) 0 4) 5 1"
  have fit: "fits (New (+) 0 4) 1" by (simp add: fits_def merkle_inv_New)
  have gap: "leaves_in ?m \<noteq> {..< width ?m}"
    unfolding result_leaves [OF fit] result_width(1) [OF fit] by (auto simp: lessThan_Suc)
  show ?thesis
    using Insert_result [OF fit, of 5] result_inv [OF fit, of 5] gap
      merkle_incomplete_reported [OF result_inv [OF fit, of 5], of 5] by auto
qed

lemma foldl_mput_find:
  "mget (foldl (\<lambda>rt k. mput (key k) (g k) rt) m0 ks) w =
     (case find (\<lambda>k. key k = w) (rev ks) of Some k \<Rightarrow> Some (g k) | None \<Rightarrow> mget m0 w)"
  by (induction ks arbitrary: m0) (auto simp: find_snoc split: option.split)

lemma buildReverseTree_complete:
  assumes "merkle_inv m" "complete m" "distinct (leaf_values m)" "j < width m"
  shows "mget (buildReverseTree m) (int_String (leaf_values m ! j)) = Some (node_at (levels m) 0 j)"
proof -
  have n: "nat (mcount m) = width m"
    using completenessCheck_complete [OF assms(1)] assms(2) by (simp add: width_def)
  have "buildReverseTree m =
      foldl (\<lambda>rt k. mput (int_String (leaf_values m ! k)) (node_at (levels m) 0 k) rt) [] [0 ..< width m]"
    unfolding buildReverseTree_def Let_def n foldl_map GetStartIndex_def startIdx_node_at
    using complete_leaf [OF assms(2)] by (intro foldl_cong) simp_all
  then show ?thesis
    using find_value [OF assms(3), of "[0 ..< width m]"] assms(4)
    by (simp add: foldl_mput_find atLeast0LessThan)
qed

text \<open>A tree of the default 200 levels comes back from its JSON form as it was; from the lite form
  (no reverse map) it comes back with the same nodes and, when it is complete and its leaves differ,
  with a reverse map that finds every leaf.\<close>

theorem merkle_json_roundtrip:
  assumes "levels m = MerkleLevels"
  shows "FromJSON (ToJSON m) (hashFn m) (defaultValue m) = Ok m \<and>
    (\<exists>r. FromJSON (ToJSONLite m) (hashFn m) (defaultValue m) = Ok (m\<lparr>reverseTree := r\<rparr>) \<and>
      (merkle_inv m \<and> complete m \<and> distinct (leaf_values m) \<longrightarrow>
        (\<forall>j < width m. mget r (int_String (leaf_values m ! j)) = Some (node_at MerkleLevels 0 j))))"
  using FromJSON_ToJSON [OF assms] buildReverseTree_complete [of m] assms by auto

lemma merkle_json_roundtrip_witness:
  "FromJSON (ToJSON (New (+) 7 0)) (+) 7 = Ok (New (+) 7 0)"
  using merkle_json_roundtrip [of "New (+) 7 0"] by simp

end
