(* ===== verification/EventService.thy ===== *)
theory EventService
  imports BigIntUtils
begin

text \<open>
  \<open>internal/data-structures/eventservice\<close> and \<open>blockchainevent\<close>: how the client follows a chain.
  The watermark of the last scanned block (\<open>shared.go\<close>), the EVM emitter with its pages and its
  bisecting retries (\<open>emitter.go\<close>), the Solana emitter with its signature pagination
  (\<open>solana_emitter.go\<close>) and the poll tick both share (\<open>client.go\<close>). RPC nodes, the snapshot server
  and the ABI decoder are parameters. Mutexes make the operations below atomic; the lock-free
  watermark has a model of its interleavings in \<open>Watermark\<close>.
\<close>

type_synonym uint64 = "64 word"

section \<open>Events\<close>

text \<open>
  The JSON object in \<open>args\<close> is kept parsed, as \<open>json.Unmarshal\<close> returns it: a string argument, or the
  text \<open>json.Marshal\<close> gives any other value. \<open>None\<close> is a text that is no JSON object.
\<close>

record blockchain_event =
  EventName :: string
  TransactionHash :: string
  BlockNumber :: uint64
  args :: "(string, string) gomap option"

definition GetArg :: "blockchain_event \<Rightarrow> string \<Rightarrow> string result" where
  "GetArg e key =
     (case args e of
        None \<Rightarrow> Err (External ''json'')
      | Some m \<Rightarrow> (case mget m key of
                     None \<Rightarrow> Err (Errorf ''arg not found in event'')
                   | Some v \<Rightarrow> Ok v))"

section \<open>The watermark\<close>

record watermark =
  wvalue :: uint64
  wsynced :: bool

definition wstore :: "uint64 \<Rightarrow> watermark \<Rightarrow> watermark" where
  "wstore v w = w\<lparr>wvalue := v\<rparr>"

text \<open>\<open>advance\<close> and \<open>syncFromAtMost\<close> when nothing interferes: the loop ends in its first round.\<close>

definition advance :: "uint64 \<Rightarrow> watermark \<Rightarrow> watermark" where
  "advance v w = (if v \<le> wvalue w then w else w\<lparr>wvalue := v\<rparr>)"

definition syncFromAtMost :: "uint64 \<Rightarrow> watermark \<Rightarrow> watermark" where
  "syncFromAtMost v w =
     (if \<not> wsynced w then \<lparr>wvalue = v, wsynced = True\<rparr>
      else if wvalue w \<le> v then w
      else w\<lparr>wvalue := v\<rparr>)"

definition safeReorgBlock :: "uint64 \<Rightarrow> uint64 \<Rightarrow> uint64" where
  "safeReorgBlock latest reorgDepth =
     (if latest + 1 \<le> reorgDepth then 0 else latest + 1 - reorgDepth)"

section \<open>Pages of a block range\<close>

text \<open>The loop \<open>for cur := from; cur <= to; cur += maxPage\<close>. Its arithmetic wraps at \<open>2 ^ 64\<close>, so it
  may never leave the range; \<open>None\<close> is the loop that does not return.\<close>

partial_function (option) page_loop ::
    "uint64 \<Rightarrow> uint64 \<Rightarrow> uint64 \<Rightarrow> (uint64 \<times> uint64) list option" where
  "page_loop m t cur =
     (if cur \<le> t
      then Option.bind (page_loop m t (cur + m)) (\<lambda>ps. Some ((cur, min (cur + m - 1) t) # ps))
      else Some [])"

definition buildPages :: "uint64 \<Rightarrow> uint64 \<Rightarrow> uint64 option \<Rightarrow> (uint64 \<times> uint64) list result" where
  "buildPages from t maxPage =
     (case maxPage of
        None \<Rightarrow> Ok [(from, t)]
      | Some m \<Rightarrow>
          if m = 0 then Ok [(from, t)]
          else (case page_loop m t from of None \<Rightarrow> Err Diverges | Some ps \<Rightarrow> Ok ps))"

section \<open>The EVM emitter\<close>

definition retryMinPageSize :: uint64 where "retryMinPageSize = 100"
definition maxRetries :: nat where "maxRetries = 20"

text \<open>The node and the decoder: \<open>client.BlockNumber\<close>, \<open>client.FilterLogs\<close> for one address and a range,
  and \<open>blockchainevent.NewFromLog\<close>, which fails on a log the contract's ABI does not know.\<close>

record ('a, 'log) evm_node =
  nodeBlockNumber :: "uint64 result"
  nodeFilterLogs :: "'a \<Rightarrow> uint64 \<Rightarrow> uint64 \<Rightarrow> 'log list result"
  nodeNewFromLog :: "'log \<Rightarrow> blockchain_event option"

function getEventsForSingleContract ::
    "('a, 'log) evm_node \<Rightarrow> 'a \<Rightarrow> uint64 \<Rightarrow> uint64 \<Rightarrow> nat \<Rightarrow> blockchain_event list result" where
  "getEventsForSingleContract node addr from t retry =
     (case nodeFilterLogs node addr from t of
        Inl err \<Rightarrow>
          if retry < maxRetries \<and> t - from > retryMinPageSize then
            let mid = (from + t) div 2 in
            rbind (getEventsForSingleContract node addr from mid (retry + 1)) (\<lambda>a.
            rbind (getEventsForSingleContract node addr (mid + 1) t (retry + 1)) (\<lambda>b.
            Ok (a @ b)))
          else Err err
      | Inr logs \<Rightarrow> Ok (List.map_filter (nodeNewFromLog node) logs))"
  by pat_completeness auto
termination
  by (relation "measure (\<lambda>(node, addr, from, t, retry). maxRetries - retry)") auto

declare getEventsForSingleContract.simps [simp del]

text \<open>
  The state of an emitter over a state \<open>'s\<close> of its event processors. A processor gets the watermark it
  can read through \<open>LatestBlockNumber()\<close> and the events, and answers how many it accepted.
  \<open>reported\<close> collects the calls of \<open>OnEventsProcessed\<close>.
\<close>

type_synonym 's processor = "uint64 \<Rightarrow> blockchain_event list \<Rightarrow> 's \<Rightarrow> 's \<times> nat result"

record 's emitter =
  latestBlock :: watermark
  maxPageSize :: "uint64 option"
  isServer :: bool
  isReady :: bool
  inProgress :: bool
  eventProcessors :: "'s processor list"
  world :: 's
  reported :: "nat list"
  listening :: bool

definition NewEmitter :: "uint64 \<Rightarrow> bool \<Rightarrow> uint64 option \<Rightarrow> 's \<Rightarrow> 's emitter" where
  "NewEmitter initial server page s =
     \<lparr>latestBlock = wstore initial \<lparr>wvalue = 0, wsynced = False\<rparr>, maxPageSize = page, isServer = server,
      isReady = False, inProgress = False, eventProcessors = [], world = s, reported = [],
      listening = False\<rparr>"

definition LatestBlockNumber :: "'s emitter \<Rightarrow> uint64" where
  "LatestBlockNumber e = wvalue (latestBlock e)"

definition AdvanceLatestBlockNumber :: "uint64 \<Rightarrow> 's emitter \<Rightarrow> 's emitter" where
  "AdvanceLatestBlockNumber v e = e\<lparr>latestBlock := advance v (latestBlock e)\<rparr>"

definition SyncFromAtMost :: "uint64 \<Rightarrow> 's emitter \<Rightarrow> 's emitter" where
  "SyncFromAtMost v e = e\<lparr>latestBlock := syncFromAtMost v (latestBlock e)\<rparr>"

definition AddEventProcessorFunction :: "'s processor \<Rightarrow> 's emitter \<Rightarrow> 's emitter result" where
  "AddEventProcessorFunction p e =
     (if isReady e then Err Panic else Ok (e\<lparr>eventProcessors := eventProcessors e @ [p]\<rparr>))"

definition IntervalClear :: "'s emitter \<Rightarrow> 's emitter" where
  "IntervalClear e = e\<lparr>isReady := False, eventProcessors := [], listening := False\<rparr>"

text \<open>
  \<open>processEvents\<close>: every processor runs to its end whatever the others answer (the group has no
  context), then the first error is returned and nothing is reported. The processors own disjoint
  parts of the state, so the order in which the group schedules them does not matter; the model runs
  them in the order in which they were added.
\<close>

fun run_processors :: "uint64 \<Rightarrow> blockchain_event list \<Rightarrow> 's processor list \<Rightarrow> 's \<Rightarrow> 's \<times> nat list result" where
  "run_processors w evs [] s = (s, Ok [])"
| "run_processors w evs (p # ps) s =
     (let (s1, n) = p w evs s;
          (s2, ns) = run_processors w evs ps s1
      in (s2, rbind n (\<lambda>k. rbind ns (\<lambda>ks. Ok (k # ks)))))"

definition processEvents :: "blockchain_event list \<Rightarrow> 's emitter \<Rightarrow> 's emitter \<times> unit result" where
  "processEvents evs e =
     (let (s, counts) = run_processors (LatestBlockNumber e) evs (eventProcessors e) (world e);
          e1 = e\<lparr>world := s\<rparr>
      in case counts of
           Inl err \<Rightarrow> (e1, Err err)
         | Inr ns \<Rightarrow> (e1\<lparr>reported := reported e1 @ [sum_list ns]\<rparr>, Ok ()))"

definition ProcessExternalEvents :: "blockchain_event list \<Rightarrow> uint64 \<Rightarrow> 's emitter \<Rightarrow> 's emitter \<times> unit result" where
  "ProcessExternalEvents evs latest e =
     (case processEvents evs e of
        (e1, Inl err) \<Rightarrow> (e1, Err err)
      | (e1, Inr _) \<Rightarrow> (AdvanceLatestBlockNumber latest e1, Ok ()))"

text \<open>\<open>addrs\<close>: the Hinkal contract and, where the chain has one, the blocked-utxos hook.\<close>

definition GetEventsInRange ::
    "('a, 'log) evm_node \<Rightarrow> 'a list \<Rightarrow> uint64 \<Rightarrow> uint64 \<Rightarrow> 's emitter \<Rightarrow> blockchain_event list result" where
  "GetEventsInRange node addrs from t e =
     rbind (buildPages from t (maxPageSize e)) (\<lambda>pages.
     rbind (rmap (\<lambda>(a, b). rbind (rmap (\<lambda>addr. getEventsForSingleContract node addr a b 0) addrs)
                                 (\<lambda>xs. Ok (concat xs))) pages) (\<lambda>xss.
     Ok (concat xss)))"

definition GetLastBlockNumberForEventRequest ::
    "('a, 'log) evm_node \<Rightarrow> uint64 result \<Rightarrow> 's emitter \<Rightarrow> uint64 result" where
  "GetLastBlockNumberForEventRequest node reorgDepth e =
     rbind (nodeBlockNumber node) (\<lambda>latest.
     if \<not> isServer e then Ok latest
     else rbind reorgDepth (\<lambda>depth.
       let safe = safeReorgBlock latest depth in
       if LatestBlockNumber e > safe then Ok (LatestBlockNumber e) else Ok safe))"

text \<open>\<open>RetrieveEvents\<close>; the deferred reset of \<open>inProgress\<close> runs on every path that has set it.\<close>

definition RetrieveEvents ::
    "('a, 'log) evm_node \<Rightarrow> 'a list \<Rightarrow> uint64 result \<Rightarrow> uint64 \<Rightarrow> bool \<Rightarrow> 's emitter \<Rightarrow> 's emitter \<times> unit result" where
  "RetrieveEvents node addrs depth from force e =
     (if inProgress e \<and> \<not> force then (e, Ok ())
      else
        let e0 = e\<lparr>inProgress := True\<rparr>;
            (e3, r) =
              (case GetLastBlockNumberForEventRequest node depth e0 of
                 Inl err \<Rightarrow> (e0, Err (Wrapped ''get last block'' err))
               | Inr lastBlock \<Rightarrow>
                   if lastBlock < from then (e0, Ok ())
                   else
                     (case GetEventsInRange node addrs from lastBlock e0 of
                        Inl err \<Rightarrow> (e0, Err (Wrapped ''get events in range'' err))
                      | Inr events \<Rightarrow>
                          (case processEvents events e0 of
                             (e1, Inl err) \<Rightarrow> (e1, Err err)
                           | (e1, Inr _) \<Rightarrow> (e1\<lparr>latestBlock := wstore lastBlock (latestBlock e1)\<rparr>, Ok ()))))
        in (e3\<lparr>inProgress := False\<rparr>, r))"

text \<open>\<open>Init\<close>: \<open>listening\<close> records that the update listener has been started.\<close>

definition InitEmitter ::
    "('a, 'log) evm_node \<Rightarrow> 'a list \<Rightarrow> uint64 result \<Rightarrow> 's emitter \<Rightarrow> 's emitter \<times> unit result" where
  "InitEmitter node addrs depth e =
     (if isReady e then (e, Err (Errorf ''already initialized''))
      else case RetrieveEvents node addrs depth (LatestBlockNumber e + 1) False (e\<lparr>isReady := True\<rparr>) of
             (e1, Inl err) \<Rightarrow> (e1, Err err)
           | (e1, Inr _) \<Rightarrow> (e1\<lparr>listening := True\<rparr>, Ok ()))"

section \<open>The poll tick\<close>

text \<open>The answer of the snapshot server; an event text that \<open>NewFromSerialized\<close> rejects is \<open>None\<close>.\<close>

record server_events =
  respEvents :: "blockchain_event option list"
  respLatest :: uint64

definition poll_tick :: "server_events result \<Rightarrow> uint64 \<times> 's emitter \<Rightarrow> uint64 \<times> 's emitter" where
  "poll_tick resp st =
     (case st of (fetchFrom, e) \<Rightarrow>
      (case resp of
         Inl err \<Rightarrow> (fetchFrom, e)
       | Inr r \<Rightarrow>
           let (e1, ok) =
             (if respEvents r \<noteq> []
              then ProcessExternalEvents (List.map_filter (\<lambda>x. x) (respEvents r)) (respLatest r) e
              else (e, Ok ()))
           in case ok of
                Inl err \<Rightarrow> (fetchFrom, e1)
              | Inr _ \<Rightarrow>
                  if respLatest r \<ge> fetchFrom
                  then (respLatest r + 1, AdvanceLatestBlockNumber (respLatest r + 1) e1)
                  else (fetchFrom, e1)))"

definition StartUpdateListener :: "'s emitter \<Rightarrow> uint64 \<times> 's emitter" where
  "StartUpdateListener e = (LatestBlockNumber e + 1, e)"

section \<open>The Solana emitter\<close>

definition solanaReorgDepth :: uint64 where "solanaReorgDepth = 32"
definition solanaBatchLimitMax :: nat where "solanaBatchLimitMax = 1000"
definition solanaBatchLimitMin :: nat where "solanaBatchLimitMin = 20"

record sol_signature =
  sigText :: string
  sigSlot :: uint64
  sigErr :: bool

text \<open>The RPC node: the current slot, the signatures of the program older than a given one (newest
  first, at most \<open>limit\<close>; \<open>None\<close> starts at the newest), and the decoded events of a transaction
  (\<open>None\<close> when it cannot be had or has failed).\<close>

record sol_node =
  solGetSlot :: "uint64 result"
  solGetSignatures :: "nat \<Rightarrow> string option \<Rightarrow> sol_signature list result"
  solEvents :: "string \<Rightarrow> uint64 \<Rightarrow> blockchain_event list option"

definition getLastSlot :: "sol_node \<Rightarrow> 's emitter \<Rightarrow> uint64 result" where
  "getLastSlot node e =
     rbind (solGetSlot node) (\<lambda>slot.
     if \<not> isServer e then Ok slot
     else
       let safe = safeReorgBlock slot solanaReorgDepth in
       if LatestBlockNumber e > safe then Ok (LatestBlockNumber e) else Ok safe)"

text \<open>The pagination loop. A node that keeps answering full pages keeps it running: \<open>None\<close>.\<close>

partial_function (option) signature_loop ::
    "sol_node \<Rightarrow> nat \<Rightarrow> uint64 \<Rightarrow> sol_signature list \<Rightarrow> nat \<Rightarrow> sol_signature list result option" where
  "signature_loop node limit from sigs batchLen =
     (if batchLen < limit then Some (Ok sigs)
      else if sigs = [] then Some (Err Panic)
      else if sigSlot (last sigs) < from then Some (Ok sigs)
      else (case solGetSignatures node limit (Some (sigText (last sigs))) of
              Inl err \<Rightarrow> Some (Err err)
            | Inr next \<Rightarrow>
                if next = [] then Some (Ok sigs)
                else signature_loop node limit from (sigs @ next) (length next)))"

definition getProgramEvents ::
    "sol_node \<Rightarrow> uint64 \<Rightarrow> uint64 \<Rightarrow> bool \<Rightarrow> blockchain_event list result" where
  "getProgramEvents node from t initialLoading =
     (let limit = (if initialLoading then solanaBatchLimitMax else solanaBatchLimitMin) in
      rbind (solGetSignatures node limit None) (\<lambda>first.
      rbind (case signature_loop node limit from first (length first) of
               None \<Rightarrow> Err Diverges | Some r \<Rightarrow> r) (\<lambda>sigs.
      Ok (concat (map (\<lambda>sig.
            if sigSlot sig < from \<or> sigSlot sig > t \<or> sigErr sig then []
            else (case solEvents node (sigText sig) (sigSlot sig) of None \<Rightarrow> [] | Some es \<Rightarrow> es)) sigs)))))"

text \<open>\<open>sort.SliceStable\<close> by block number is \<open>sort_key\<close>, which is stable.\<close>

definition retrieveSolanaEvents ::
    "sol_node \<Rightarrow> uint64 \<Rightarrow> bool \<Rightarrow> bool \<Rightarrow> 's emitter \<Rightarrow> 's emitter \<times> unit result" where
  "retrieveSolanaEvents node from force initialLoading e =
     (if inProgress e \<and> \<not> force then (e, Ok ())
      else
        let e0 = e\<lparr>inProgress := True\<rparr>;
            (e3, r) =
              (case getLastSlot node e0 of
                 Inl err \<Rightarrow> (e0, Err (Wrapped ''get last slot'' err))
               | Inr lastSlot \<Rightarrow>
                   if lastSlot < from then (e0, Ok ())
                   else
                     (case getProgramEvents node from lastSlot initialLoading of
                        Inl err \<Rightarrow> (e0, Err (Wrapped ''get program events'' err))
                      | Inr events \<Rightarrow>
                          (case processEvents (sort_key (\<lambda>ev. unat (BlockNumber ev)) events) e0 of
                             (e1, Inl err) \<Rightarrow> (e1, Err err)
                           | (e1, Inr _) \<Rightarrow> (e1\<lparr>latestBlock := wstore lastSlot (latestBlock e1)\<rparr>, Ok ()))))
        in (e3\<lparr>inProgress := False\<rparr>, r))"

definition InitSolanaEmitter :: "sol_node \<Rightarrow> 's emitter \<Rightarrow> 's emitter \<times> unit result" where
  "InitSolanaEmitter node e =
     (if isReady e then (e, Err (Errorf ''already initialized''))
      else case retrieveSolanaEvents node (LatestBlockNumber e + 1) False True (e\<lparr>isReady := True\<rparr>) of
             (e1, Inl err) \<Rightarrow> (e1, Err err)
           | (e1, Inr _) \<Rightarrow> (e1\<lparr>listening := True\<rparr>, Ok ()))"

text \<open>\<open>parseSolanaTransaction\<close>: equal events of one transaction are kept once, the first of them.\<close>

fun dedup_events :: "string list \<Rightarrow> (string \<times> 'ev) list \<Rightarrow> 'ev list" where
  "dedup_events seen [] = []"
| "dedup_events seen ((key, ev) # evs) =
     (if key \<in> set seen then dedup_events seen evs else ev # dedup_events (key # seen) evs)"

record decoded_event =
  decName :: string
  decArgsJSON :: "string option"

definition parseSolanaTransaction :: "decoded_event list \<Rightarrow> decoded_event list" where
  "parseSolanaTransaction merged =
     dedup_events [] (map (\<lambda>ev. (decName ev @ '':'' @ (case decArgsJSON ev of None \<Rightarrow> [] | Some a \<Rightarrow> a), ev)) merged)"

section \<open>The snapshot service\<close>

record 'p snapshot =
  SnapLatest :: uint64
  Payload :: 'p

text \<open>The delegate of a service: its state \<open>'st\<close>, events \<open>'e\<close>, payload \<open>'p\<close> and serialised form \<open>'ser\<close>.\<close>

record ('st, 'e, 'p, 'ser) delegate =
  AcceptEvent :: "'st \<Rightarrow> 'e \<Rightarrow> bool \<Rightarrow> ('st \<times> bool) result"
  MapEvent :: "blockchain_event \<Rightarrow> 'e result"
  GetSnapshotPayload :: "'st \<Rightarrow> 'p"
  PopulateSnapshot :: "'st \<Rightarrow> 'p snapshot \<Rightarrow> 'st"
  SerializeSnapshot :: "'p snapshot \<Rightarrow> 'ser result"
  DeserializeSnapshot :: "'st \<Rightarrow> 'ser \<Rightarrow> 'p snapshot result"

text \<open>\<open>persisted\<close> is what \<open>PersistSnapshot\<close> has been given, the latest first; \<open>persistFails\<close> is its answer.\<close>

record ('st, 'ser) service =
  svcState :: 'st
  savedLatestBlock :: uint64
  persisted :: "'ser list"

definition blockedTxHashes :: "blockchain_event list \<Rightarrow> string set" where
  "blockedTxHashes evs = TransactionHash ` {ev \<in> set evs. EventName ev = ''BlockedUtxosCreated''}"

definition accept_one ::
    "('st, 'e, 'p, 'ser) delegate \<Rightarrow> string \<Rightarrow> string set \<Rightarrow> 'st \<times> nat \<Rightarrow> blockchain_event \<Rightarrow> ('st \<times> nat) result" where
  "accept_one d name blocked sn ev =
     (case sn of (st, n) \<Rightarrow>
      if EventName ev \<noteq> name then Ok (st, n)
      else case MapEvent d ev of
             Inl _ \<Rightarrow> Ok (st, n)
           | Inr mapped \<Rightarrow>
               rbind (AcceptEvent d st mapped (TransactionHash ev \<in> blocked)) (\<lambda>(st', acc).
               Ok (st', if acc then n + 1 else n)))"

definition SaveSnapshot ::
    "('st, 'e, 'p, 'ser) delegate \<Rightarrow> ('ser \<Rightarrow> unit result) \<Rightarrow> uint64 \<Rightarrow> ('st, 'ser) service \<Rightarrow>
     ('st, 'ser) service \<times> unit result" where
  "SaveSnapshot d persist latest s =
     (let s1 = s\<lparr>savedLatestBlock := latest\<rparr>;
          snap = \<lparr>SnapLatest = latest, Payload = GetSnapshotPayload d (svcState s1)\<rparr>
      in case SerializeSnapshot d snap of
           Inl err \<Rightarrow> (s1, Err (Wrapped ''serialize snapshot'' err))
         | Inr ser \<Rightarrow> (s1\<lparr>persisted := ser # persisted s1\<rparr>, persist ser))"

definition afterEventsAccepted ::
    "('st, 'e, 'p, 'ser) delegate \<Rightarrow> ('ser \<Rightarrow> unit result) \<Rightarrow> uint64 result \<Rightarrow> uint64 \<Rightarrow> nat \<Rightarrow>
     ('st, 'ser) service \<Rightarrow> ('st, 'ser) service \<times> unit result" where
  "afterEventsAccepted d persist depth latest n s =
     (case depth of
        Inl err \<Rightarrow> (s, Err err)
      | Inr dp \<Rightarrow>
          if n > 0 \<or> savedLatestBlock s + dp < latest then SaveSnapshot d persist latest s
          else (s, Ok ()))"

text \<open>\<open>processEventsPage\<close>; a panic of \<open>AcceptEvent\<close> leaves the service as it is in the model.\<close>

definition processEventsPage ::
    "('st, 'e, 'p, 'ser) delegate \<Rightarrow> string \<Rightarrow> ('ser \<Rightarrow> unit result) \<Rightarrow> uint64 result \<Rightarrow>
     ('st, 'ser) service processor" where
  "processEventsPage d name persist depth latest evs s =
     (case rfold (accept_one d name (blockedTxHashes evs)) (svcState s, 0) evs of
        Inl err \<Rightarrow> (s, Err err)
      | Inr (st, n) \<Rightarrow>
          let (s1, r) = afterEventsAccepted d persist depth latest n (s\<lparr>svcState := st\<rparr>)
          in (s1, rbind r (\<lambda>_. Ok n)))"

definition loadSnapshot ::
    "('st, 'e, 'p, 'ser) delegate \<Rightarrow> 'ser result \<Rightarrow> watermark \<times> ('st, 'ser) service \<Rightarrow>
     (watermark \<times> ('st, 'ser) service) \<times> unit result" where
  "loadSnapshot d fetched ws =
     (case ws of (w, s) \<Rightarrow>
      case fetched of
        Inl err \<Rightarrow> (ws, Err (Wrapped ''fetch snapshot'' err))
      | Inr ser \<Rightarrow>
          (case DeserializeSnapshot d (svcState s) ser of
             Inl err \<Rightarrow> (ws, Err (Wrapped ''deserialize snapshot'' err))
           | Inr snap \<Rightarrow>
               ((syncFromAtMost (SnapLatest snap) w,
                 s\<lparr>svcState := PopulateSnapshot d (svcState s) snap, savedLatestBlock := SnapLatest snap\<rparr>),
                Ok ())))"

definition NewSnapshotService :: "'st \<Rightarrow> ('st, 'ser) service" where
  "NewSnapshotService st = \<lparr>svcState = st, savedLatestBlock = 0, persisted = []\<rparr>"

end
