(* ===== verification/EventCorrect.thy ===== *)
theory EventCorrect
  imports EventService
begin

text \<open>
  Correctness of the event emitters: the pages of a range partition it, the bisecting retries return
  exactly the logs of the range, a successful retrieval has handed every event of the scanned range to
  every processor, and the Solana pagination misses no signature.
\<close>

section \<open>Pages\<close>

definition page_blocks :: "uint64 \<times> uint64 \<Rightarrow> nat list" where
  "page_blocks p = [unat (fst p) ..< Suc (unat (snd p))]"

lemma page_loop_partition:
  assumes "m \<noteq> 0" "unat t + unat m < 2 ^ 64"
  shows "\<exists>ps. page_loop m t cur = Some ps \<and> concat (map page_blocks ps) = [unat cur ..< Suc (unat t)] \<and>
    (\<forall>(a, b) \<in> set ps. a \<le> b \<and> unat b - unat a < unat m)"
proof (induction "Suc (unat t) - unat cur" arbitrary: cur rule: less_induct)
  case less
  show ?case
  proof (cases "cur \<le> t")
    case False
    then show ?thesis by (subst page_loop.simps) (auto simp: word_le_nat_alt)
  next
    case True
    have m: "0 < unat m" using assms(1) by (simp add: unat_gt_0)
    have le: "unat cur \<le> unat t" using True by (simp add: word_le_nat_alt)
    have nowrap: "unat (cur + m) = unat cur + unat m"
      using assms(2) le by (simp add: unat_plus_if')
    have m1: "unat (m - 1) = unat m - 1" using assms(1) by (simp add: unat_minus_one)
    then have "unat (cur + (m - 1)) = unat cur + unat (m - 1)"
      using assms(2) le m by (intro unat_add_lem [THEN iffD1]) simp
    then have last: "unat (cur + m - 1) = unat cur + unat m - 1"
      using m1 m by (simp add: add_diff_eq)
    let ?b = "min (cur + m - 1) t"
    have b: "unat ?b = min (unat cur + unat m - 1) (unat t)"
      using last by (simp add: min_def word_le_nat_alt)
    have smaller: "Suc (unat t) - unat (cur + m) < Suc (unat t) - unat cur"
      using nowrap m le by linarith
    obtain ps where ps: "page_loop m t (cur + m) = Some ps"
        "concat (map page_blocks ps) = [unat (cur + m) ..< Suc (unat t)]"
        "\<forall>(a, b) \<in> set ps. a \<le> b \<and> unat b - unat a < unat m"
      using less [OF smaller] by (elim exE conjE) (rule that)
    have "page_blocks (cur, ?b) @ [unat (cur + m) ..< Suc (unat t)] = [unat cur ..< Suc (unat t)]"
    proof (cases "unat cur + unat m \<le> unat t")
      case True
      then have "unat ?b = unat cur + unat m - 1" using b by simp
      then have "Suc (unat ?b) = unat cur + unat m" using m by simp
      then show ?thesis
        using True m upt_add_eq_append [of "unat cur" "unat cur + unat m" "Suc (unat t) - (unat cur + unat m)"]
        unfolding page_blocks_def fst_conv snd_conv nowrap by simp
    next
      case False
      then have "unat ?b = unat t" using b m by simp
      then show ?thesis using False unfolding page_blocks_def fst_conv snd_conv nowrap by simp
    qed
    moreover have "cur \<le> ?b" "unat ?b - unat cur < unat m"
      unfolding word_le_nat_alt b using le m by linarith+
    ultimately show ?thesis
      using True ps by (subst page_loop.simps) auto
  qed
qed

lemma page_loop_top_diverges:
  assumes "page_loop m t cur = Some ps"
  shows "t \<noteq> - 1"
proof -
  have "\<And>f m t cur (ps :: (uint64 \<times> uint64) list).
      (\<And>m t cur ps. f m t cur = Some ps \<Longrightarrow> t \<noteq> - 1) \<Longrightarrow>
      (if cur \<le> t then Option.bind (f m t (cur + m)) (\<lambda>ps. Some ((cur, min (cur + m - 1) t) # ps)) else Some []) = Some ps \<Longrightarrow>
      t \<noteq> (- 1 :: uint64)"
    by (auto split: if_splits simp: bind_eq_Some_conv)
  then show ?thesis by (rule page_loop.raw_induct [OF _ assms])
qed

section \<open>Bisecting retries\<close>

text \<open>A node that answers truthfully when it answers: the logs of the address in the range, in the
  order of the chain. It may fail as it likes.\<close>

definition truthful :: "('a, 'log) evm_node \<Rightarrow> ('a \<Rightarrow> 'log list) \<Rightarrow> ('log \<Rightarrow> uint64) \<Rightarrow> bool" where
  "truthful node chain blk \<longleftrightarrow>
     (\<forall>a. sorted (map (\<lambda>l. unat (blk l)) (chain a))) \<and>
     (\<forall>a f t ls. nodeFilterLogs node a f t = Inr ls \<longrightarrow> ls = filter (\<lambda>l. f \<le> blk l \<and> blk l \<le> t) (chain a))"

definition chain_events :: "('a, 'log) evm_node \<Rightarrow> ('a \<Rightarrow> 'log list) \<Rightarrow> ('log \<Rightarrow> uint64) \<Rightarrow> 'a \<Rightarrow> uint64 \<Rightarrow> uint64 \<Rightarrow>
    blockchain_event list" where
  "chain_events node chain blk a f t =
     List.map_filter (nodeNewFromLog node) (filter (\<lambda>l. f \<le> blk l \<and> blk l \<le> t) (chain a))"

lemma filter_split_sorted:
  assumes "sorted (map f xs)" "a \<le> Suc m" "m \<le> (b :: nat)"
  shows "filter (\<lambda>x. a \<le> f x \<and> f x \<le> b) xs =
    filter (\<lambda>x. a \<le> f x \<and> f x \<le> m) xs @ filter (\<lambda>x. Suc m \<le> f x \<and> f x \<le> b) xs"
  using assms(1)
proof (induction xs)
  case (Cons x xs)
  show ?case
  proof (cases "f x \<le> m")
    case True
    with Cons assms(2,3) show ?thesis by auto
  next
    case False
    then have "filter (\<lambda>x. a \<le> f x \<and> f x \<le> m) (x # xs) = []"
      using Cons.prems by (auto simp: filter_empty_conv)
    moreover have "filter (\<lambda>x. a \<le> f x \<and> f x \<le> b) (x # xs) = filter (\<lambda>x. Suc m \<le> f x \<and> f x \<le> b) (x # xs)"
      using False Cons.prems assms(2) by (intro filter_cong) auto
    ultimately show ?thesis by (simp only: append_Nil)
  qed
qed simp

lemma map_filter_append: "List.map_filter f (xs @ ys) = List.map_filter f xs @ List.map_filter f ys"
  by (simp add: List.map_filter_def)

lemma midpoint:
  assumes "f \<le> t" "t < 2 ^ 63" "retryMinPageSize < t - f"
  shows "unat ((f + t) div 2) = (unat f + unat t) div 2" "unat ((f + t) div 2 + 1) = Suc ((unat f + unat t) div 2)"
    "unat (t - f) = unat t - unat f" "unat f + 100 < unat t"
proof -
  have t: "unat t < 2 ^ 63" using assms(2) by (simp add: word_less_nat_alt)
  have le: "unat f \<le> unat t" using assms(1) by (simp add: word_le_nat_alt)
  have "unat (f + t) = unat f + unat t" using t le by (intro unat_add_lem [THEN iffD1]) simp
  then show h: "unat ((f + t) div 2) = (unat f + unat t) div 2" by (simp add: unat_div)
  show "unat ((f + t) div 2 + 1) = Suc ((unat f + unat t) div 2)"
    using t le h by (subst unat_add_lem [THEN iffD1]) simp_all
  show d: "unat (t - f) = unat t - unat f" using assms(1) by (simp add: unat_sub)
  show "unat f + 100 < unat t" using assms(3) d by (simp add: retryMinPageSize_def word_less_nat_alt)
qed

lemma chain_events_split:
  assumes "truthful node chain blk" "f \<le> t" "t < 2 ^ 63" "retryMinPageSize < t - f"
  shows "chain_events node chain blk a f t =
    chain_events node chain blk a f ((f + t) div 2) @ chain_events node chain blk a ((f + t) div 2 + 1) t"
proof -
  note m = midpoint [OF assms(2-4)]
  have "filter (\<lambda>l. unat f \<le> unat (blk l) \<and> unat (blk l) \<le> unat t) (chain a) =
      filter (\<lambda>l. unat f \<le> unat (blk l) \<and> unat (blk l) \<le> (unat f + unat t) div 2) (chain a) @
      filter (\<lambda>l. Suc ((unat f + unat t) div 2) \<le> unat (blk l) \<and> unat (blk l) \<le> unat t) (chain a)"
    using assms(1) m(4) by (intro filter_split_sorted) (auto simp: truthful_def)
  then show ?thesis
    unfolding chain_events_def word_le_nat_alt m by (simp only: map_filter_append)
qed

lemma getEvents_complete:
  assumes "truthful node chain blk" "f \<le> t" "t < 2 ^ 63"
    and "getEventsForSingleContract node a f t retry = Ok evs"
  shows "evs = chain_events node chain blk a f t"
  using assms(2-)
proof (induction "maxRetries - retry" arbitrary: f t retry evs rule: less_induct)
  case less
  show ?case
  proof (cases "nodeFilterLogs node a f t")
    case (Inr logs)
    then show ?thesis using less.prems(3) assms(1)
      by (subst (asm) getEventsForSingleContract.simps) (auto simp: truthful_def chain_events_def)
  next
    case (Inl err)
    let ?m = "(f + t) div 2"
    have split: "retry < maxRetries \<and> retryMinPageSize < t - f"
      using less.prems(3) Inl by (subst (asm) getEventsForSingleContract.simps) (auto split: if_splits)
    then obtain xs ys where xs: "getEventsForSingleContract node a f ?m (Suc retry) = Ok xs"
      and ys: "getEventsForSingleContract node a (?m + 1) t (Suc retry) = Ok ys" and evs: "evs = xs @ ys"
      using less.prems(3) Inl
      by (subst (asm) getEventsForSingleContract.simps) (auto simp: rbind_Ok_iff Let_def)
    have sp: "retryMinPageSize < t - f" using split by simp
    note m = midpoint [OF less.prems(1,2) sp]
    have "f \<le> ?m" "?m < 2 ^ 63" "?m + 1 \<le> t"
      using m less.prems(1,2) unfolding word_le_nat_alt word_less_nat_alt m by simp_all
    then have "xs = chain_events node chain blk a f ?m" "ys = chain_events node chain blk a (?m + 1) t"
      using less.hyps [OF _ _ _ xs] less.hyps [OF _ _ _ ys] less.prems(2) split by auto
    then show ?thesis using chain_events_split [OF assms(1) less.prems(1,2) sp] evs by simp
  qed
qed

text \<open>It succeeds whenever the node can answer small ranges: 20 halvings reach them from any range of
  at most \<open>100 * 2 ^ 20\<close> blocks.\<close>

lemma getEvents_succeeds:
  assumes small: "\<And>f t. f \<le> t \<Longrightarrow> t - f \<le> retryMinPageSize \<Longrightarrow> \<exists>ls. nodeFilterLogs node a f t = Ok ls"
    and "f \<le> t" "t < 2 ^ 63" "retry \<le> maxRetries" "unat t - unat f \<le> 100 * 2 ^ (maxRetries - retry)"
  shows "\<exists>evs. getEventsForSingleContract node a f t retry = Ok evs"
  using assms(2-)
proof (induction "maxRetries - retry" arbitrary: f t retry rule: less_induct)
  case less
  show ?case
  proof (cases "nodeFilterLogs node a f t")
    case (Inr logs)
    then show ?thesis by (subst getEventsForSingleContract.simps) simp
  next
    case (Inl err)
    then have sp: "retryMinPageSize < t - f" using small [OF less.prems(1)] by (auto simp: not_le [symmetric])
    note m = midpoint [OF less.prems(1,2) sp]
    let ?m = "(f + t) div 2"
    have retry: "retry < maxRetries"
    proof (rule ccontr)
      assume "\<not> retry < maxRetries"
      then have "unat t - unat f \<le> 100" using less.prems(3,4) by simp
      then show False using m(4) by simp
    qed
    then have pow: "(2::nat) ^ (maxRetries - retry) = 2 * 2 ^ (maxRetries - Suc retry)"
      by (simp flip: power_Suc add: Suc_diff_Suc)
    have half: "unat ?m - unat f \<le> 100 * 2 ^ (maxRetries - Suc retry)"
      "unat t - unat (?m + 1) \<le> 100 * 2 ^ (maxRetries - Suc retry)"
      using less.prems(4) m(4) unfolding m pow by linarith+
    have order: "f \<le> ?m" "?m < 2 ^ 63" "?m + 1 \<le> t"
      using m less.prems(1,2) unfolding word_le_nat_alt word_less_nat_alt m by simp_all
    have "maxRetries - Suc retry < maxRetries - retry" using retry by linarith
    then obtain xs ys where "getEventsForSingleContract node a f ?m (Suc retry) = Ok xs"
      "getEventsForSingleContract node a (?m + 1) t (Suc retry) = Ok ys"
      using less.hyps [of "Suc retry" f ?m] less.hyps [of "Suc retry" "?m + 1" t] retry half order less.prems(2)
      by auto
    then show ?thesis
      using Inl retry sp by (subst getEventsForSingleContract.simps) (simp add: Let_def)
  qed
qed

section \<open>Retrieval\<close>

definition scan :: "('a, 'log) evm_node \<Rightarrow> ('a \<Rightarrow> 'log list) \<Rightarrow> ('log \<Rightarrow> uint64) \<Rightarrow> 'a list \<Rightarrow> uint64 \<Rightarrow> uint64 \<Rightarrow>
    blockchain_event set" where
  "scan node chain blk addrs f t =
     {ev. \<exists>a \<in> set addrs. \<exists>l \<in> set (chain a). f \<le> blk l \<and> blk l \<le> t \<and> nodeNewFromLog node l = Some ev}"

lemma set_chain_events:
  "set (chain_events node chain blk a f t) = scan node chain blk [a] f t"
  by (auto simp: chain_events_def scan_def map_filter_def image_iff) force

lemma block_in_page:
  assumes "concat (map page_blocks ps) = [unat f ..< Suc (unat t)]"
  shows "f \<le> b \<and> b \<le> t \<longleftrightarrow> (\<exists>p \<in> set ps. fst p \<le> b \<and> b \<le> snd p)"
proof -
  have "unat b \<in> set (concat (map page_blocks ps)) \<longleftrightarrow> unat f \<le> unat b \<and> unat b \<le> unat t"
    unfolding assms by auto
  moreover have "unat b \<in> set (concat (map page_blocks ps)) \<longleftrightarrow> (\<exists>p \<in> set ps. unat (fst p) \<le> unat b \<and> unat b \<le> unat (snd p))"
    by (force simp: page_blocks_def less_Suc_eq_le)
  ultimately show ?thesis by (simp add: word_le_nat_alt)
qed

lemma buildPages_partition:
  assumes "f \<le> t" "case mp of None \<Rightarrow> True | Some m \<Rightarrow> unat t + unat m < 2 ^ 64"
  shows "\<exists>ps. buildPages f t mp = Ok ps \<and> concat (map page_blocks ps) = [unat f ..< Suc (unat t)] \<and>
    (\<forall>(a, b) \<in> set ps. a \<le> b) \<and>
    (\<forall>m. mp = Some m \<longrightarrow> m \<noteq> 0 \<longrightarrow> (\<forall>(a, b) \<in> set ps. unat b - unat a < unat m))"
proof (cases "mp = None \<or> mp = Some 0")
  case True
  then have "buildPages f t mp = Ok [(f, t)]" by (auto simp: buildPages_def)
  then show ?thesis using True assms(1) by (auto simp: page_blocks_def)
next
  case False
  then obtain m where m: "mp = Some m" "m \<noteq> 0" by auto
  obtain ps where "page_loop m t f = Some ps" "concat (map page_blocks ps) = [unat f ..< Suc (unat t)]"
      "\<forall>(a, b) \<in> set ps. a \<le> b \<and> unat b - unat a < unat m"
    using page_loop_partition [OF m(2), of t f] assms(2) m(1) by auto
  then show ?thesis using m by (auto simp: buildPages_def)
qed

lemma set_concat_all2: "list_all2 (\<lambda>p xs. set xs = g p) ps xss \<Longrightarrow> set (concat xss) = (\<Union>p \<in> set ps. g p)"
  by (induction rule: list_all2_induct) auto

lemma GetEventsInRange_complete:
  assumes "truthful node chain blk" "f \<le> t" "t < 2 ^ 63"
    and "case maxPageSize e of None \<Rightarrow> True | Some m \<Rightarrow> unat t + unat m < 2 ^ 64"
    and "GetEventsInRange node addrs f t e = Ok evs"
  shows "set evs = scan node chain blk addrs f t"
proof -
  obtain ps where ps: "buildPages f t (maxPageSize e) = Ok ps"
      "concat (map page_blocks ps) = [unat f ..< Suc (unat t)]" "\<forall>(a, b) \<in> set ps. a \<le> b"
    using buildPages_partition [OF assms(2,4)] by auto
  have range: "a \<le> b \<and> b < 2 ^ 63" if "(a, b) \<in> set ps" for a b
  proof -
    have ab: "a \<le> b" using that ps(3) by auto
    then have "b \<le> t" using block_in_page [OF ps(2), of b] that by force
    then show ?thesis using ab assms(3) by auto
  qed
  have page: "set xs = scan node chain blk addrs a b"
    if mem: "(a, b) \<in> set ps" and run: "rbind (rmap (\<lambda>addr. getEventsForSingleContract node addr a b 0) addrs) (\<lambda>xs. Ok (concat xs)) = Ok xs"
    for a b xs
  proof -
    obtain yss where y: "rmap (\<lambda>addr. getEventsForSingleContract node addr a b 0) addrs = Ok yss" "xs = concat yss"
      using run by (auto simp: rbind_Ok_iff)
    have "yss = map (\<lambda>addr. chain_events node chain blk addr a b) addrs"
    proof (rule nth_equalityI)
      show "length yss = length (map (\<lambda>addr. chain_events node chain blk addr a b) addrs)"
        using rmap_Ok_length [OF y(1)] by simp
      fix i assume "i < length yss"
      then have i: "i < length addrs" using rmap_Ok_length [OF y(1)] by simp
      show "yss ! i = map (\<lambda>addr. chain_events node chain blk addr a b) addrs ! i"
        using getEvents_complete [OF assms(1) _ _ rmap_Ok_nth [OF y(1) i]] range [OF mem] i by simp
    qed
    then show ?thesis using y(2) by (auto simp: set_chain_events scan_def)
  qed
  obtain xss where x: "rmap (\<lambda>(a, b). rbind (rmap (\<lambda>addr. getEventsForSingleContract node addr a b 0) addrs)
      (\<lambda>xs. Ok (concat xs))) ps = Ok xss" "evs = concat xss"
    using assms(5) ps(1) by (auto simp: GetEventsInRange_def rbind_Ok_iff)
  have "list_all2 (\<lambda>p xs. set xs = scan node chain blk addrs (fst p) (snd p)) ps xss"
  proof (rule list_all2_all_nthI)
    show "length ps = length xss" using rmap_Ok_length [OF x(1)] by simp
    fix i assume i: "i < length ps"
    show "set (xss ! i) = scan node chain blk addrs (fst (ps ! i)) (snd (ps ! i))"
      using page [of "fst (ps ! i)" "snd (ps ! i)" "xss ! i"] rmap_Ok_nth [OF x(1) i] i by (simp add: split_beta)
  qed
  then have "set evs = (\<Union>p \<in> set ps. scan node chain blk addrs (fst p) (snd p))"
    unfolding x(2) by (rule set_concat_all2)
  also have "\<dots> = scan node chain blk addrs f t"
  proof -
    have d1: "\<exists>p \<in> set ps. fst p \<le> b \<and> b \<le> snd p" if "f \<le> b" "b \<le> t" for b
      using that block_in_page [OF ps(2), of b] by simp
    have d2: "f \<le> b \<and> b \<le> t" if "p \<in> set ps" "fst p \<le> b" "b \<le> snd p" for b p
      using that block_in_page [OF ps(2), of b] by blast
    show ?thesis
    proof (intro equalityI subsetI)
      fix ev assume "ev \<in> (\<Union>p \<in> set ps. scan node chain blk addrs (fst p) (snd p))"
      then obtain p a l where "p \<in> set ps" "a \<in> set addrs" "l \<in> set (chain a)"
          "fst p \<le> blk l" "blk l \<le> snd p" "nodeNewFromLog node l = Some ev"
        by (auto simp: scan_def)
      then show "ev \<in> scan node chain blk addrs f t"
        using d2 [of p "blk l"] unfolding scan_def by blast
    next
      fix ev assume "ev \<in> scan node chain blk addrs f t"
      then obtain a l where l: "a \<in> set addrs" "l \<in> set (chain a)" "nodeNewFromLog node l = Some ev"
          "f \<le> blk l" "blk l \<le> t"
        by (auto simp: scan_def)
      then obtain p where "p \<in> set ps" "fst p \<le> blk l" "blk l \<le> snd p" using d1 by blast
      then show "ev \<in> (\<Union>p \<in> set ps. scan node chain blk addrs (fst p) (snd p))"
        using l(1-3) unfolding scan_def by blast
    qed
  qed
  finally show ?thesis .
qed

text \<open>The outcomes of \<open>RetrieveEvents\<close>, on every path.\<close>

lemma RetrieveEvents_cases:
  assumes "RetrieveEvents node addrs depth f force e = (e', r)"
  shows "(inProgress e \<and> \<not> force \<and> e' = e \<and> r = Ok ()) \<or>
    (\<not> (inProgress e \<and> \<not> force) \<and> \<not> inProgress e' \<and>
     ((\<exists>err. r = Err err \<and> latestBlock e' = latestBlock e) \<or>
      (\<exists>t. GetLastBlockNumberForEventRequest node depth (e\<lparr>inProgress := True\<rparr>) = Ok t \<and> r = Ok () \<and>
         ((t < f \<and> e' = e\<lparr>inProgress := False\<rparr>) \<or>
          (f \<le> t \<and> LatestBlockNumber e' = t \<and>
           (\<exists>evs ns. GetEventsInRange node addrs f t (e\<lparr>inProgress := True\<rparr>) = Ok evs \<and>
              run_processors (LatestBlockNumber e) evs (eventProcessors e) (world e) = (world e', Ok ns) \<and>
              reported e' = reported e @ [sum_list ns]))))))"
proof (cases "inProgress e \<and> \<not> force")
  case True
  then show ?thesis using assms by (auto simp: RetrieveEvents_def)
next
  case False
  note R = assms [unfolded RetrieveEvents_def if_not_P [OF False] Let_def]
  show ?thesis
  proof (cases "GetLastBlockNumberForEventRequest node depth (e\<lparr>inProgress := True\<rparr>)")
    case (Inl err)
    then show ?thesis using R False by auto
  next
    case last: (Inr t)
    show ?thesis
    proof (cases "t < f")
      case True
      then show ?thesis using R False last by auto
    next
      case ge: False
      show ?thesis
      proof (cases "GetEventsInRange node addrs f t (e\<lparr>inProgress := True\<rparr>)")
        case (Inl err)
        then show ?thesis using R False last ge by auto
      next
        case (Inr evs)
        obtain s ns where run: "run_processors (LatestBlockNumber e) evs (eventProcessors e) (world e) = (s, ns)"
          by (cases "run_processors (LatestBlockNumber e) evs (eventProcessors e) (world e)")
        then show ?thesis using R False last ge Inr
          by (cases ns) (auto simp: processEvents_def LatestBlockNumber_def wstore_def Let_def)
      qed
    qed
  qed
qed

section \<open>Signature pages\<close>

text \<open>A Solana node that serves a list of signatures, the newest first.\<close>

definition serves_signatures :: "sol_node \<Rightarrow> sol_signature list \<Rightarrow> bool" where
  "serves_signatures node sigs \<longleftrightarrow>
     distinct (map sigText sigs) \<and> sorted (rev (map (\<lambda>s. unat (sigSlot s)) sigs)) \<and>
     (\<forall>limit. solGetSignatures node limit None = Ok (take limit sigs)) \<and>
     (\<forall>limit n. n < length sigs \<longrightarrow>
        solGetSignatures node limit (Some (sigText (sigs ! n))) = Ok (take limit (drop (Suc n) sigs)))"

lemma take_take_drop: "take n xs @ take m (drop n xs) = take (n + m) xs"
  by (simp add: take_add)

lemma signature_loop_complete:
  assumes "serves_signatures node sigs" "0 < limit"
    and "n \<le> length sigs" "b < limit \<longrightarrow> n = length sigs" "limit \<le> b \<longrightarrow> 0 < n"
  shows "\<exists>k \<ge> n. signature_loop node limit from (take n sigs) b = Some (Ok (take k sigs)) \<and>
    (k < length sigs \<longrightarrow> 0 < k \<and> sigSlot (sigs ! (k - 1)) < from)"
  using assms(3-5)
proof (induction "length sigs - n" arbitrary: n b rule: less_induct)
  case less
  show ?case
  proof (cases "b < limit")
    case True
    then show ?thesis using less.prems(2) by (subst signature_loop.simps) (auto intro!: exI [of _ n])
  next
    case False
    then have n: "0 < n" "take n sigs \<noteq> []" using less.prems by auto
    have last: "last (take n sigs) = sigs ! (n - 1)"
      using less.prems(1) n by (simp add: last_conv_nth)
    show ?thesis
    proof (cases "sigSlot (sigs ! (n - 1)) < from")
      case True
      then show ?thesis using False n last by (subst signature_loop.simps) (auto intro!: exI [of _ n])
    next
      case ge: False
      have next_page: "solGetSignatures node limit (Some (sigText (sigs ! (n - 1)))) = Ok (take limit (drop n sigs))"
        using assms(1) n less.prems(1) by (auto simp: serves_signatures_def dest!: spec [of _ "n - 1"])
      show ?thesis
      proof (cases "n = length sigs")
        case True
        then show ?thesis using False n last ge next_page
          by (subst signature_loop.simps) (auto intro!: exI [of _ n])
      next
        case more: False
        let ?k = "min limit (length sigs - n)"
        have step: "signature_loop node limit from (take n sigs) b =
            signature_loop node limit from (take (n + ?k) sigs) ?k"
          using False n last ge next_page more less.prems(1) assms(2)
          by (subst signature_loop.simps) (auto simp: take_take_drop min_def)
        have "\<exists>k \<ge> n + ?k. signature_loop node limit from (take (n + ?k) sigs) ?k = Some (Ok (take k sigs)) \<and>
            (k < length sigs \<longrightarrow> 0 < k \<and> sigSlot (sigs ! (k - 1)) < from)"
          using more less.prems(1) assms(2) n by (intro less.hyps) (auto simp: min_def)
        then show ?thesis unfolding step by (meson le_add1 le_trans)
      qed
    qed
  qed
qed

lemma take_min_length: "take (min l (length xs)) xs = take l xs"
  by (cases "l \<le> length xs") (simp_all add: min_def)

definition sig_events :: "sol_node \<Rightarrow> uint64 \<Rightarrow> uint64 \<Rightarrow> sol_signature \<Rightarrow> blockchain_event list" where
  "sig_events node from t sig =
     (if sigSlot sig < from \<or> sigSlot sig > t \<or> sigErr sig then []
      else (case solEvents node (sigText sig) (sigSlot sig) of None \<Rightarrow> [] | Some es \<Rightarrow> es))"

lemma getProgramEvents_complete:
  assumes "serves_signatures node sigs"
  shows "getProgramEvents node from t init = Ok (concat (map (sig_events node from t) sigs))"
proof -
  define l where "l = (if init then solanaBatchLimitMax else solanaBatchLimitMin)"
  have l: "0 < l" by (simp add: l_def solanaBatchLimitMax_def solanaBatchLimitMin_def)
  let ?n = "min l (length sigs)"
  have first: "solGetSignatures node l None = Ok (take ?n sigs)"
    using assms by (simp add: serves_signatures_def take_min_length)
  obtain k where k: "signature_loop node l from (take ?n sigs) ?n = Some (Ok (take k sigs))"
      "k < length sigs \<longrightarrow> 0 < k \<and> sigSlot (sigs ! (k - 1)) < from"
    using signature_loop_complete [OF assms l, of ?n ?n "from"] l by (cases "l \<le> length sigs") auto
  have rest: "sig_events node from t s = []" if mem: "s \<in> set (drop k sigs)" for s
  proof -
    obtain j where j: "j < length sigs - k" "s = drop k sigs ! j"
      using mem by (auto simp: in_set_conv_nth)
    have i: "k + j < length sigs" "s = sigs ! (k + j)" using j by simp_all
    then have old: "0 < k" "sigSlot (sigs ! (k - 1)) < from" using k(2) by auto
    have "unat (sigSlot (sigs ! (k + j))) \<le> unat (sigSlot (sigs ! (k - 1)))"
      using assms i old sorted_rev_nth_mono [of "map (\<lambda>s. unat (sigSlot s)) sigs" "k - 1" "k + j"]
      by (simp add: serves_signatures_def)
    then show ?thesis using old(2) i(2) by (simp add: sig_events_def word_less_nat_alt)
  qed
  have "concat (map (sig_events node from t) (take k sigs)) = concat (map (sig_events node from t) sigs)"
  proof -
    have "concat (map (sig_events node from t) (drop k sigs)) = []" using rest by simp
    moreover have "map (sig_events node from t) sigs =
        map (sig_events node from t) (take k sigs) @ map (sig_events node from t) (drop k sigs)"
      by (metis append_take_drop_id map_append)
    ultimately show ?thesis by simp
  qed
  then show ?thesis
    using first k(1) by (simp add: getProgramEvents_def Let_def sig_events_def [abs_def] l_def [symmetric])
qed

section \<open>Properties\<close>

text \<open>The pages of a block range cover every block of it exactly once, in order, and no page is longer
  than the configured size, as long as the last page does not run over \<open>2 ^ 64\<close>.\<close>

theorem pages_partition_range:
  assumes "m \<noteq> 0" "unat t + unat m < 2 ^ 64"
  shows "\<exists>ps. buildPages f t (Some m) = Ok ps \<and> concat (map page_blocks ps) = [unat f ..< Suc (unat t)] \<and>
    (\<forall>(a, b) \<in> set ps. a \<le> b \<and> unat b - unat a < unat m)"
  using page_loop_partition [OF assms, of f] assms(1) by (auto simp: buildPages_def)

lemma pages_partition_range_witness:
  "\<exists>ps. buildPages 3 9 (Some 4) = Ok ps \<and> concat (map page_blocks ps) = [3, 4, 5, 6, 7, 8, 9]"
proof -
  have "[unat (3 :: uint64) ..< Suc (unat (9 :: uint64))] = [3, 4, 5, 6, 7, 8, 9]"
    by (simp add: upt_rec)
  then show ?thesis using pages_partition_range [of 4 9 3] by auto
qed

text \<open>When the range ends at the largest block number, the counter wraps and the page loop never ends.\<close>

theorem pages_of_last_block_diverge:
  assumes "m \<noteq> 0"
  shows "buildPages f (- 1) (Some m) = Err Diverges"
  using assms page_loop_top_diverges [of m "- 1" f]
  by (cases "page_loop m (- 1) f") (auto simp: buildPages_def)

lemma pages_of_last_block_diverge_witness: "buildPages 7 (- 1) (Some 1000) = Err Diverges"
  using pages_of_last_block_diverge [of 1000 7] by simp



text \<open>C12. A retrieval that scans up to block \<open>t\<close> and reports no error has moved the watermark to \<open>t\<close>, has
  cleared \<open>inProgress\<close>, and has handed to every processor, in one call each, all the events of all the
  scanned contracts between the first block and \<open>t\<close>.\<close>

theorem retrieve_scans_every_block:
  assumes "truthful node chain blk" "f \<le> t" "t < 2 ^ 63"
    and "case maxPageSize e of None \<Rightarrow> True | Some m \<Rightarrow> unat t + unat m < 2 ^ 64"
    and "GetLastBlockNumberForEventRequest node depth (e\<lparr>inProgress := True\<rparr>) = Ok t"
    and "RetrieveEvents node addrs depth f force e = (e', Ok ())" "force \<or> \<not> inProgress e"
  shows "LatestBlockNumber e' = t \<and> \<not> inProgress e' \<and>
    (\<exists>evs ns. set evs = scan node chain blk addrs f t \<and>
       run_processors (LatestBlockNumber e) evs (eventProcessors e) (world e) = (world e', Ok ns) \<and>
       reported e' = reported e @ [sum_list ns])"
  using RetrieveEvents_cases [OF assms(6)] assms(2,5,7)
    GetEventsInRange_complete [OF assms(1-3), of "e\<lparr>inProgress := True\<rparr>" addrs] assms(4)
  by (auto simp: not_less [symmetric])

definition two_blocks_node :: "(unit, uint64) evm_node" where
  "two_blocks_node = \<lparr>nodeBlockNumber = Ok 12, nodeFilterLogs = (\<lambda>a f t. Ok (filter (\<lambda>b. f \<le> b \<and> b \<le> t) [9, 11])),
     nodeNewFromLog = (\<lambda>b. Some \<lparr>EventName = ''NewCommitment'', TransactionHash = ''0x1'', BlockNumber = b, args = None\<rparr>)\<rparr>"

definition counting_emitter :: "nat emitter" where
  "counting_emitter = (NewEmitter 9 False None 0)\<lparr>eventProcessors := [\<lambda>w evs n. (n + length evs, Ok (length evs))]\<rparr>"

lemma retrieve_scans_every_block_witness:
  "\<exists>e'. RetrieveEvents two_blocks_node [()] (Ok 0) 10 False counting_emitter = (e', Ok ()) \<and>
     LatestBlockNumber e' = 12 \<and> world e' = 1 \<and> \<not> inProgress e'"
proof -
  let ?r = "RetrieveEvents two_blocks_node [()] (Ok 0) 10 False counting_emitter"
  have r: "snd ?r = Ok ()" "world (fst ?r) = 1"
    by (simp_all add: RetrieveEvents_def two_blocks_node_def counting_emitter_def NewEmitter_def
        GetLastBlockNumberForEventRequest_def GetEventsInRange_def buildPages_def wstore_def
        getEventsForSingleContract.simps map_filter_def processEvents_def LatestBlockNumber_def)
  have "truthful two_blocks_node (\<lambda>_. [9, 11]) (\<lambda>b. b)"
    by (auto simp: truthful_def two_blocks_node_def)
  from retrieve_scans_every_block [OF this, of 10 12 counting_emitter "Ok 0" "[()]" False "fst ?r"] show ?thesis
    using r by (auto simp: counting_emitter_def NewEmitter_def two_blocks_node_def prod_eq_iff
        GetLastBlockNumberForEventRequest_def)
qed

text \<open>A retrieval that fails, wherever it fails, leaves the watermark where it was and \<open>inProgress\<close>
  cleared, so the next one scans the same blocks again.\<close>

theorem retrieve_error_keeps_watermark:
  assumes "RetrieveEvents node addrs depth f force e = (e', Err err)"
  shows "LatestBlockNumber e' = LatestBlockNumber e \<and> \<not> inProgress e'"
  using RetrieveEvents_cases [OF assms] by (auto simp: LatestBlockNumber_def)

lemma retrieve_error_keeps_watermark_witness:
  "LatestBlockNumber (fst (RetrieveEvents (two_blocks_node\<lparr>nodeFilterLogs := \<lambda>_ _ _. Err (External ''rpc'')\<rparr>) [()]
     (Ok 0) 10 False counting_emitter)) = 9"
proof -
  let ?r = "RetrieveEvents (two_blocks_node\<lparr>nodeFilterLogs := \<lambda>_ _ _. Err (External ''rpc'')\<rparr>) [()] (Ok 0) 10 False counting_emitter"
  have "snd ?r = Err (Wrapped ''get events in range'' (External ''rpc''))"
    by (simp add: RetrieveEvents_def two_blocks_node_def counting_emitter_def NewEmitter_def
        GetLastBlockNumberForEventRequest_def GetEventsInRange_def buildPages_def
        getEventsForSingleContract.simps retryMinPageSize_def)
  then have "?r = (fst ?r, Err (Wrapped ''get events in range'' (External ''rpc'')))" by (simp add: prod_eq_iff)
  from retrieve_error_keeps_watermark [OF this] show ?thesis
    by (simp add: counting_emitter_def NewEmitter_def LatestBlockNumber_def wstore_def)
qed

text \<open>The Solana pagination stops with every signature of the wanted slots: the events it collects are
  those of the node's whole list of signatures, whatever the page limit.\<close>

theorem solana_pagination_complete:
  assumes "serves_signatures node sigs"
  shows "getProgramEvents node f t init = Ok (concat (map (sig_events node f t) sigs))"
  by (rule getProgramEvents_complete [OF assms])

lemma solana_pagination_complete_witness:
  "getProgramEvents
     \<lparr>solGetSlot = Ok 90,
      solGetSignatures = (\<lambda>limit before. Ok (take limit (case before of None \<Rightarrow>
          [\<lparr>sigText = ''b'', sigSlot = 80, sigErr = False\<rparr>, \<lparr>sigText = ''a'', sigSlot = 70, sigErr = False\<rparr>]
        | Some s \<Rightarrow> if s = ''b'' then [\<lparr>sigText = ''a'', sigSlot = 70, sigErr = False\<rparr>] else []))),
      solEvents = (\<lambda>s slot. Some [\<lparr>EventName = s, TransactionHash = s, BlockNumber = slot, args = None\<rparr>])\<rparr> 75 90 True =
   Ok [\<lparr>EventName = ''b'', TransactionHash = ''b'', BlockNumber = 80, args = None\<rparr>]"
  (is "getProgramEvents ?node _ _ _ = _")
proof -
  let ?sigs = "[\<lparr>sigText = ''b'', sigSlot = 80, sigErr = False\<rparr>, \<lparr>sigText = ''a'', sigSlot = 70, sigErr = False\<rparr>]"
  have "serves_signatures ?node ?sigs"
    by (auto simp: serves_signatures_def less_Suc_eq)
  from solana_pagination_complete [OF this, of 75 90 True] show ?thesis by (simp add: sig_events_def)
qed

end
