(* ===== verification/Watermark.thy ===== *)
theory Watermark
  imports EventService
begin

text \<open>
  \<open>shared.go\<close> under interleaving. There is no lock: goroutines run \<open>advance\<close> and \<open>syncFromAtMost\<close> at once, and every
  atomic operation (\<open>Load\<close>, \<open>Store\<close>, \<open>CompareAndSwap\<close>) is one step. A goroutine is its operation and
  its program counter; \<open>Loaded cur\<close> has read \<open>cur\<close> and not yet compared and swapped; \<open>Winner\<close> has won
  \<open>synced\<close> and not yet stored.
\<close>

datatype wop = Adv uint64 | Sync uint64

datatype wpc = Start | Looping | Loaded uint64 | Winner | Finished

text \<open>One step of one goroutine: the code's next atomic operation.\<close>

fun wstep :: "watermark \<Rightarrow> wop \<times> wpc \<Rightarrow> watermark \<times> wpc" where
  "wstep w (Adv v, Start) = (w, Looping)"
| "wstep w (Adv v, Looping) = (w, if v \<le> wvalue w then Finished else Loaded (wvalue w))"
| "wstep w (Adv v, Loaded cur) =
     (if wvalue w = cur then (w\<lparr>wvalue := v\<rparr>, Finished) else (w, Looping))"
| "wstep w (Sync v, Start) =
     (if \<not> wsynced w then (w\<lparr>wsynced := True\<rparr>, Winner) else (w, Looping))"
| "wstep w (Sync v, Winner) = (w\<lparr>wvalue := v\<rparr>, Finished)"
| "wstep w (Sync v, Looping) = (w, if v \<ge> wvalue w then Finished else Loaded (wvalue w))"
| "wstep w (Sync v, Loaded cur) =
     (if wvalue w = cur then (w\<lparr>wvalue := v\<rparr>, Finished) else (w, Looping))"
| "wstep w (op, pc) = (w, pc)"

type_synonym wconf = "watermark \<times> (wop \<times> wpc) list"

inductive interleave :: "wconf \<Rightarrow> wconf \<Rightarrow> bool" where
  Step: "i < length ts \<Longrightarrow> snd (ts ! i) \<noteq> Finished \<Longrightarrow> wstep w (ts ! i) = (w', pc') \<Longrightarrow>
    interleave (w, ts) (w', ts[i := (fst (ts ! i), pc')])"

inductive_cases interleaveE: "interleave (w, ts) c"

definition all_done :: "wconf \<Rightarrow> bool" where
  "all_done c \<longleftrightarrow> (\<forall>t \<in> set (snd c). snd t = Finished)"

text \<open>A goroutine run alone does what the sequential definitions say.\<close>

lemma solo_advance:
  "\<exists>n. ((\<lambda>(w, pc). wstep w (Adv v, pc)) ^^ n) (w, Start) = (advance v w, Finished)"
  by (rule exI [of _ "if v \<le> wvalue w then 2 else 3"])
    (simp add: advance_def eval_nat_numeral)

lemma solo_sync:
  "\<exists>n. ((\<lambda>(w, pc). wstep w (Sync v, pc)) ^^ n) (w, Start) = (syncFromAtMost v w, Finished)"
  by (rule exI [of _ "if \<not> wsynced w then 2 else if v \<ge> wvalue w then 2 else 3"])
    (auto simp: syncFromAtMost_def eval_nat_numeral)

section \<open>Concurrent advances\<close>

text \<open>The invariant: the value is the maximum of the start value and the targets of some goroutines, every
  finished goroutine's target is below it, and a loaded value is below its target.\<close>

fun target :: "wop \<Rightarrow> uint64" where
  "target (Adv v) = v"
| "target (Sync v) = v"

definition adv_inv :: "uint64 \<Rightarrow> wop list \<Rightarrow> wconf \<Rightarrow> bool" where
  "adv_inv v0 ops c \<longleftrightarrow>
     map fst (snd c) = ops \<and> v0 \<le> wvalue (fst c) \<and>
     (wvalue (fst c) = v0 \<or> (\<exists>op \<in> set ops. wvalue (fst c) = target op)) \<and>
     (\<forall>t \<in> set (snd c). (snd t = Finished \<longrightarrow> target (fst t) \<le> wvalue (fst c)) \<and>
        (\<forall>cur. snd t = Loaded cur \<longrightarrow> cur < target (fst t)))"

lemma adv_inv_step:
  assumes "interleave c c'" "adv_inv v0 ops c" "\<forall>op \<in> set ops. \<exists>v. op = Adv v"
  shows "adv_inv v0 ops c'"
  using assms(1)
proof cases
  case (Step i ts w w' pc')
  obtain op pc where t: "ts ! i = (op, pc)" by (cases "ts ! i")
  have "op = map fst ts ! i" using Step(3) t by simp
  then have mem: "op \<in> set ops"
    using assms(2) Step(1,3) by (auto simp: adv_inv_def)
  then obtain v where v: "op = Adv v" using assms(3) by auto
  have old: "\<forall>s \<in> set ts. (snd s = Finished \<longrightarrow> target (fst s) \<le> wvalue w) \<and> (\<forall>cur. snd s = Loaded cur \<longrightarrow> cur < target (fst s))"
    "v0 \<le> wvalue w" "wvalue w = v0 \<or> (\<exists>op \<in> set ops. wvalue w = target op)" "map fst ts = ops"
    using assms(2) Step(1) by (simp_all add: adv_inv_def)
  have in_ts: "(op, pc) \<in> set ts" using t Step(3) by (metis nth_mem)
  have "wvalue w \<le> wvalue w' \<and> (wvalue w' = wvalue w \<or> wvalue w' = v) \<and>
      (pc' = Finished \<longrightarrow> v \<le> wvalue w') \<and> (\<forall>cur. pc' = Loaded cur \<longrightarrow> cur < v)"
    using Step(5) old(1) in_ts unfolding t v
    by (cases pc) (auto split: if_splits simp: not_le)
  moreover have "map fst (ts[i := (op, pc')]) = ops"
    using old(4) t Step(3) by (metis fst_conv list_update_id map_update)
  ultimately have new: "wvalue w \<le> wvalue w'" "wvalue w' = wvalue w \<or> wvalue w' = v"
      "pc' = Finished \<longrightarrow> v \<le> wvalue w'" "\<forall>cur. pc' = Loaded cur \<longrightarrow> cur < v"
      "map fst (ts[i := (op, pc')]) = ops" by simp_all
  have "(snd s = Finished \<longrightarrow> target (fst s) \<le> wvalue w') \<and> (\<forall>cur. snd s = Loaded cur \<longrightarrow> cur < target (fst s))"
    if "s \<in> set (ts[i := (op, pc')])" for s
  proof -
    consider "s = (op, pc')" | "s \<in> set ts" using \<open>s \<in> _\<close> set_update_subset_insert by fastforce
    then show ?thesis
    proof cases
      case 1
      then show ?thesis using new(3,4) v by simp
    next
      case 2
      then show ?thesis using old(1) new(1) by (meson order_trans)
    qed
  qed
  moreover have "wvalue w' = v0 \<or> (\<exists>op \<in> set ops. wvalue w' = target op)"
    using new(2) old(3) mem v by (metis target.simps(1))
  moreover have "v0 \<le> wvalue w'" using old(2) new(1) by (rule order_trans)
  ultimately show ?thesis
    unfolding adv_inv_def Step(2) t fst_conv snd_conv using new(5) by blast
qed

lemma adv_inv_reach:
  assumes "interleave\<^sup>*\<^sup>* c c'" "adv_inv v0 ops c" "\<forall>op \<in> set ops. \<exists>v. op = Adv v"
  shows "adv_inv v0 ops c'"
  using assms
proof (induction rule: rtranclp_induct)
  case (step c1 c2)
  from adv_inv_step [OF step.hyps(2) step.IH [OF step.prems] step.prems(2)] show ?case .
qed simp

text \<open>Runs a schedule: the goroutines that take the next steps.\<close>

fun run_schedule :: "nat list \<Rightarrow> wconf \<Rightarrow> wconf" where
  "run_schedule [] c = c"
| "run_schedule (i # is) (w, ts) =
     (if i < length ts \<and> snd (ts ! i) \<noteq> Finished then
        let (w1, pc1) = wstep w (ts ! i) in run_schedule is (w1, ts[i := (fst (ts ! i), pc1)])
      else run_schedule is (w, ts))"

lemma run_schedule_reaches: "interleave\<^sup>*\<^sup>* c (run_schedule is c)"
proof (induction "is" c rule: run_schedule.induct)
  case (2 i "is" w ts)
  show ?case
  proof (cases "i < length ts \<and> snd (ts ! i) \<noteq> Finished")
    case True
    obtain w1 pc1 where s: "wstep w (ts ! i) = (w1, pc1)" by (cases "wstep w (ts ! i)")
    have "interleave (w, ts) (w1, ts[i := (fst (ts ! i), pc1)])" using True s by (intro Step) auto
    then show ?thesis
      using 2(1) [OF True s [symmetric] refl] True s by (simp add: converse_rtranclp_into_rtranclp)
  next
    case False
    then show ?thesis using 2(2) by auto
  qed
qed simp

text \<open>Goroutines that call \<open>advance\<close> at once, in any interleaving of their atomic operations, leave
  the watermark at the maximum of its old value and all their targets: none of them is lost.\<close>

theorem concurrent_advance_max:
  assumes "interleave\<^sup>*\<^sup>* (w, map (\<lambda>v. (Adv v, Start)) vs) (w', ts)" "all_done (w', ts)"
  shows "wvalue w' = Max (insert (wvalue w) (set vs))"
proof -
  have "adv_inv (wvalue w) (map Adv vs) (w, map (\<lambda>v. (Adv v, Start)) vs)"
    by (auto simp: adv_inv_def comp_def)
  then have inv: "adv_inv (wvalue w) (map Adv vs) (w', ts)"
    by (rule adv_inv_reach [OF assms(1)]) auto
  have "v \<le> wvalue w'" if "v \<in> set vs" for v
  proof -
    have "Adv v \<in> set (map fst ts)" using inv that by (auto simp: adv_inv_def)
    then obtain pc where "(Adv v, pc) \<in> set ts" by auto
    then show ?thesis using inv assms(2) by (force simp: adv_inv_def all_done_def)
  qed
  then show ?thesis
    using inv by (intro Max_eqI [symmetric]) (auto simp: adv_inv_def)
qed

lemma concurrent_advance_max_witness:
  "\<exists>ts. interleave\<^sup>*\<^sup>* (\<lparr>wvalue = 4, wsynced = True\<rparr>, [(Adv 7, Start), (Adv 9, Start)])
      (\<lparr>wvalue = 9, wsynced = True\<rparr>, ts) \<and> (9 :: uint64) = Max {4, 7, 9}"
proof -
  let ?w = "\<lparr>wvalue = 4, wsynced = True\<rparr>" and ?w' = "\<lparr>wvalue = 9, wsynced = True\<rparr>"
  have "run_schedule [0, 0, 1, 1, 1, 0, 0] (?w, map (\<lambda>v. (Adv v, Start)) [7, 9]) =
      (?w', [(Adv 7, Finished), (Adv 9, Finished)])" by simp
  then have "interleave\<^sup>*\<^sup>* (?w, map (\<lambda>v. (Adv v, Start)) [7, 9]) (?w', [(Adv 7, Finished), (Adv 9, Finished)])"
    using run_schedule_reaches by metis
  from concurrent_advance_max [OF this] this show ?thesis by (auto simp: all_done_def)
qed

section \<open>Concurrent first synchronisations\<close>

text \<open>C14. The promise of \<open>syncFromAtMost\<close> (the watermark ends at most at every target) does not survive
  a race of the first two calls: the winner of \<open>synced\<close> may store its own, higher target after the
  other has lowered the watermark. One after the other, in either order, the lower target stays.\<close>

theorem sync_race:
  assumes "v2 < v1" "v2 < wvalue w" "\<not> wsynced w"
  shows "(\<exists>w' ts. interleave\<^sup>*\<^sup>* (w, [(Sync v1, Start), (Sync v2, Start)]) (w', ts) \<and> all_done (w', ts) \<and> wvalue w' = v1) \<and>
    wvalue (syncFromAtMost v2 (syncFromAtMost v1 w)) = v2 \<and> wvalue (syncFromAtMost v1 (syncFromAtMost v2 w)) = v2"
proof -
  have "run_schedule [0, 1, 1, 1, 0] (w, [(Sync v1, Start), (Sync v2, Start)]) =
      (\<lparr>wvalue = v1, wsynced = True\<rparr>, [(Sync v1, Finished), (Sync v2, Finished)])"
    using assms by (cases w) (simp add: not_le)
  then have "interleave\<^sup>*\<^sup>* (w, [(Sync v1, Start), (Sync v2, Start)])
      (\<lparr>wvalue = v1, wsynced = True\<rparr>, [(Sync v1, Finished), (Sync v2, Finished)])"
    using run_schedule_reaches by metis
  then show ?thesis using assms
    by (auto simp: all_done_def syncFromAtMost_def intro!: exI [of _ "\<lparr>wvalue = v1, wsynced = True\<rparr>"])
qed

lemma sync_race_witness:
  "\<exists>w' ts. interleave\<^sup>*\<^sup>* (\<lparr>wvalue = 100, wsynced = False\<rparr>, [(Sync 90, Start), (Sync 80, Start)]) (w', ts) \<and>
    all_done (w', ts) \<and> wvalue w' = 90"
  using sync_race [of 80 90 "\<lparr>wvalue = 100, wsynced = False\<rparr>"] by simp

end
