(* ===== verification/SolanaUtils.thy ===== *)
theory SolanaUtils
  imports BigIntUtils
begin

text \<open>
  \<open>internal/functions/utils/solana.go\<close>: byte arrays, big integers and the on-chain utxo encoding as
  they arrive in the arguments of Solana events. \<open>encoding/json\<close> is modelled as far as the code uses
  it: arrays of integers and arrays of such arrays.
\<close>

type_synonym byte = "8 word"

section \<open>JSON integer arrays\<close>

definition json_space :: "char \<Rightarrow> bool" where
  "json_space c = (c \<in> {CHR 0x20, CHR 0x09, CHR 0x0A, CHR 0x0D})"

definition json_trim :: "string \<Rightarrow> string" where
  "json_trim s = rev (dropWhile json_space (rev (dropWhile json_space s)))"

text \<open>An integer literal that fits the Go type \<open>int\<close>; \<open>null\<close> leaves the zero value.\<close>

definition json_int :: "string \<Rightarrow> int option" where
  "json_int s =
     (if s = ''null'' then Some 0
      else
        let neg = (s \<noteq> [] \<and> hd s = CHR ''-'');
            ds = (if neg then tl s else s)
        in if ds = [] \<or> (hd ds = CHR ''0'' \<and> length ds > 1) then None
           else (case scan_digits 10 0 ds of
                   None \<Rightarrow> None
                 | Some n \<Rightarrow>
                     let v = (if neg then - int n else int n)
                     in if - (2 ^ 63) \<le> v \<and> v < 2 ^ 63 then Some v else None))"

fun all_some :: "'a option list \<Rightarrow> 'a list option" where
  "all_some [] = Some []"
| "all_some (None # xs) = None"
| "all_some (Some x # xs) = map_option (\<lambda>ys. x # ys) (all_some xs)"

definition json_array :: "(string \<Rightarrow> string list) \<Rightarrow> (string \<Rightarrow> 'a option) \<Rightarrow> string \<Rightarrow> 'a list option" where
  "json_array split elem s0 =
     (let s = json_trim s0 in
      if s = ''null'' then Some []
      else if length s < 2 \<or> hd s \<noteq> CHR ''['' \<or> last s \<noteq> CHR '']'' then None
      else
        let inner = butlast (tl s)
        in if json_trim inner = [] then Some []
           else all_some (map (\<lambda>e. elem (json_trim e)) (split inner)))"

definition json_ints :: "string \<Rightarrow> int list option" where
  "json_ints = json_array (\<lambda>s. Split s CHR '','') json_int"

text \<open>Splits at the commas outside brackets.\<close>

fun split_rows :: "nat \<Rightarrow> string \<Rightarrow> string \<Rightarrow> string list" where
  "split_rows d acc [] = [rev acc]"
| "split_rows d acc (c # cs) =
     (if c = CHR '','' \<and> d = 0 then rev acc # split_rows d [] cs
      else if c = CHR ''['' then split_rows (d + 1) (c # acc) cs
      else if c = CHR '']'' then split_rows (d - 1) (c # acc) cs
      else split_rows d (c # acc) cs)"

definition json_int_rows :: "string \<Rightarrow> int list list option" where
  "json_int_rows = json_array (split_rows 0 []) json_ints"

section \<open>Bytes\<close>

definition to_byte :: "int \<Rightarrow> byte" where
  "to_byte n = word_of_int n"

definition tryParseByteArray :: "string \<Rightarrow> byte list option" where
  "tryParseByteArray arg = map_option (map to_byte) (json_ints arg)"

definition ParseByteArray :: "string \<Rightarrow> byte list result" where
  "ParseByteArray arg =
     (case tryParseByteArray arg of
        None \<Rightarrow> Err (Errorf ''cannot parse as byte array'')
      | Some bs \<Rightarrow> Ok bs)"

definition ParseByteMatrix :: "string \<Rightarrow> byte list list result" where
  "ParseByteMatrix arg =
     (case json_int_rows arg of
        None \<Rightarrow> Err (Wrapped ''cannot parse as byte matrix'' (External ''json''))
      | Some rows \<Rightarrow> Ok (map (map to_byte) rows))"

text \<open>\<open>big.Int.SetBytes\<close>: big endian.\<close>

definition SetBytes :: "byte list \<Rightarrow> int" where
  "SetBytes bs = foldl (\<lambda>a b. a * 256 + int (unat b)) 0 bs"

definition AdvancedToBigInt :: "string \<Rightarrow> int result" where
  "AdvancedToBigInt arg =
     (case tryParseByteArray arg of
        Some bs \<Rightarrow>
          if length bs \<noteq> 32 then Err (Errorf ''advancedToBigInt: expected 32 bytes'')
          else Ok (SetBytes bs)
      | None \<Rightarrow> ParseBigInt arg)"

definition hex_byte :: "byte \<Rightarrow> string" where
  "hex_byte b = [digit_char (unat b div 16), digit_char (unat b mod 16)]"

definition hex_EncodeToString :: "byte list \<Rightarrow> string" where
  "hex_EncodeToString bs = concat (map hex_byte bs)"

definition solanaOnChainUtxoPrefix :: string where
  "solanaOnChainUtxoPrefix = ''solana-on-chain-utxo:''"

definition solanaOnChainFields :: nat where "solanaOnChainFields = 9"

definition EncodeSolanaOnChainUtxo :: "byte list list \<Rightarrow> string result" where
  "EncodeSolanaOnChainUtxo rows =
     (if length rows \<noteq> solanaOnChainFields then Err (Errorf ''expected on-chain fields'')
      else rbind (rmap (\<lambda>field. if length field \<noteq> 32 then Err (Errorf ''expected bytes32 length 32'')
                                else Ok (hex_EncodeToString field)) rows) (\<lambda>hs.
           Ok (solanaOnChainUtxoPrefix @ ''0x'' @ concat hs)))"

definition IsSolanaOnChainUtxo :: "string \<Rightarrow> bool" where
  "IsSolanaOnChainUtxo s = has_prefix s solanaOnChainUtxoPrefix"

section \<open>Lemmas\<close>

lemma hex_byte_inject: "hex_byte a = hex_byte b \<longleftrightarrow> a = b"
proof
  assume eq: "hex_byte a = hex_byte b"
  have "unat a < 256" "unat b < 256"
    using unsigned_less [of a, where ?'a = nat] unsigned_less [of b, where ?'a = nat] by simp_all
  then have d: "unat a div 16 < 36" "unat a mod 16 < 36" "unat b div 16 < 36" "unat b mod 16 < 36"
    by linarith+
  have "unat a div 16 = unat b div 16" "unat a mod 16 = unat b mod 16"
    using eq d digit_val_digit_char unfolding hex_byte_def by (metis list.inject option.inject)+
  then have "unat a = unat b" by (metis div_mult_mod_eq)
  then show "a = b" by (simp add: word_unat_eq_iff)
qed simp

lemma length_hex [simp]: "length (hex_EncodeToString bs) = 2 * length bs"
  by (induction bs) (simp_all add: hex_EncodeToString_def hex_byte_def)

lemma hex_inject: "length a = length b \<Longrightarrow> hex_EncodeToString a = hex_EncodeToString b \<Longrightarrow> a = b"
proof (induction a b rule: list_induct2)
  case (Cons x xs y ys)
  then have "hex_byte x = hex_byte y" "hex_EncodeToString xs = hex_EncodeToString ys"
    by (simp_all add: hex_EncodeToString_def hex_byte_def)
  then show ?case using Cons.IH hex_byte_inject by simp
qed simp

text \<open>The encoding of an on-chain utxo: accepted exactly for nine 32-byte fields, recognised, and
  different for different fields.\<close>

lemma EncodeSolanaOnChainUtxo_Ok:
  "EncodeSolanaOnChainUtxo rows = Ok s \<longleftrightarrow>
     length rows = 9 \<and> (\<forall>r \<in> set rows. length r = 32) \<and>
     s = solanaOnChainUtxoPrefix @ ''0x'' @ concat (map hex_EncodeToString rows)"
proof -
  have "rmap (\<lambda>f. if length f \<noteq> 32 then Err (Errorf ''expected bytes32 length 32'') else Ok (hex_EncodeToString f)) rs = Ok hs \<longleftrightarrow>
      (\<forall>r \<in> set rs. length r = 32) \<and> hs = map hex_EncodeToString rs" for rs hs
    by (induction rs arbitrary: hs) (auto simp: rbind_Ok_iff)
  then show ?thesis by (auto simp: EncodeSolanaOnChainUtxo_def solanaOnChainFields_def rbind_Ok_iff)
qed

lemma concat_fixed_inject:
  assumes "length xs = length ys" "\<forall>x \<in> set xs. length x = n" "\<forall>y \<in> set ys. length y = n" "concat xs = concat ys"
  shows "xs = ys"
  using assms by (induction xs ys rule: list_induct2) auto

lemma EncodeSolanaOnChainUtxo_inject:
  assumes "EncodeSolanaOnChainUtxo a = Ok s" "EncodeSolanaOnChainUtxo b = Ok s"
  shows "a = b"
proof -
  have a: "length a = 9" "\<forall>r \<in> set a. length r = 32" "length b = 9" "\<forall>r \<in> set b. length r = 32"
    and "concat (map hex_EncodeToString a) = concat (map hex_EncodeToString b)"
    using assms by (auto simp: EncodeSolanaOnChainUtxo_Ok)
  then have "map hex_EncodeToString a = map hex_EncodeToString b"
    by (intro concat_fixed_inject [where n = 64]) auto
  then have nth: "hex_EncodeToString (a ! i) = hex_EncodeToString (b ! i)" if "i < 9" for i
    using a(1,3) that by (metis nth_map)
  show ?thesis
  proof (rule nth_equalityI)
    show "length a = length b" using a by simp
    fix i assume "i < length a"
    then have "i < 9" "a ! i \<in> set a" "b ! i \<in> set b" using a by auto
    then show "a ! i = b ! i" using nth [of i] a(2,4) by (intro hex_inject) simp_all
  qed
qed

end
