(* ===== verification/Snapshots.thy ===== *)
theory Snapshots
  imports MerkleCorrect EventService SolanaUtils
begin

text \<open>
  \<open>internal/data-structures/snapshot\<close>: the delegates of the snapshot service for commitments and
  nullifiers, on EVM chains and on Solana, and the fetcher of server snapshots. The commitments service
  keeps the Merkle tree, the encrypted outputs and the map from commitments to outputs.
\<close>

section \<open>Data\<close>

record enc_output =
  outValue :: string
  isPositive :: bool
  isBlocked :: bool
  encryptedBlob :: string

record ser_enc_output =
  serValue :: string
  serIsPositive :: string
  serIsBlocked :: bool
  serEncryptedBlob :: string

record commitment_event =
  evCommitment :: int
  evIndex :: int
  evEncryptedOutput :: string
  evEncryptedBlob :: string

record commitments_payload =
  plTree :: "merkle option"
  plEncOutputs :: "enc_output list"
  plByCommitment :: "(string, string) gomap"

record commitments_serialized =
  csLatest :: "uint64 option"
  csTree :: "merkle_json option"
  csEncOutputs :: "ser_enc_output list"
  csByCommitment :: "(string \<times> string) list"

text \<open>The service; its tree is nil until a snapshot has been loaded.\<close>

record commitments_service =
  merkleTree :: "merkle option"
  encOutputs :: "enc_output list"
  byCommitment :: "(string, string) gomap"
  treeHash :: hash_fn

definition NewCommitmentsSnapshotService :: "hash_fn \<Rightarrow> commitments_service" where
  "NewCommitmentsSnapshotService h = \<lparr>merkleTree = None, encOutputs = [], byCommitment = [], treeHash = h\<rparr>"

section \<open>Payload and accessors\<close>

definition GetCommitmentsPayload :: "commitments_service \<Rightarrow> commitments_payload" where
  "GetCommitmentsPayload s =
     \<lparr>plTree = merkleTree s, plEncOutputs = encOutputs s, plByCommitment = byCommitment s\<rparr>"

definition PopulateCommitments :: "commitments_service \<Rightarrow> commitments_payload snapshot \<Rightarrow> commitments_service" where
  "PopulateCommitments s snap =
     s\<lparr>merkleTree := plTree (Payload snap), encOutputs := plEncOutputs (Payload snap),
       byCommitment := plByCommitment (Payload snap)\<rparr>"

section \<open>Serialisation\<close>

definition FormatBool :: "bool \<Rightarrow> string" where
  "FormatBool b = (if b then ''true'' else ''false'')"

definition ParseBool :: "string \<Rightarrow> bool result" where
  "ParseBool s =
     (if s \<in> {''1'', ''t'', ''T'', ''true'', ''TRUE'', ''True''} then Ok True
      else if s \<in> {''0'', ''f'', ''F'', ''false'', ''FALSE'', ''False''} then Ok False
      else Err (External ''strconv.ParseBool''))"

text \<open>\<open>sort.Slice\<close> by the decimal value of the commitment. A key that is no decimal number gives a nil
  \<open>big.Int\<close>, on which the first comparison panics; fewer than two keys are never compared.\<close>

definition decimal_key :: "string \<Rightarrow> int" where
  "decimal_key s = (case SetString s 10 of None \<Rightarrow> 0 | Some n \<Rightarrow> n)"

definition sort_commitments :: "string list \<Rightarrow> string list result" where
  "sort_commitments ks =
     (if length ks \<ge> 2 \<and> (\<exists>k \<in> set ks. SetString k 10 = None) then Err Panic
      else Ok (sort_key decimal_key ks))"

definition serialize_output :: "enc_output \<Rightarrow> ser_enc_output" where
  "serialize_output out =
     \<lparr>serValue = outValue out, serIsPositive = FormatBool (isPositive out),
      serIsBlocked = isBlocked out, serEncryptedBlob = ''''\<rparr>"

definition SerializeCommitments :: "commitments_payload snapshot \<Rightarrow> commitments_serialized result" where
  "SerializeCommitments snap =
     (case plTree (Payload snap) of
        None \<Rightarrow> Err Panic
      | Some t \<Rightarrow>
          rbind (sort_commitments (map fst (plByCommitment (Payload snap)))) (\<lambda>commitments.
          Ok \<lparr>csLatest = Some (SnapLatest snap), csTree = Some (ToJSON t),
              csEncOutputs = map serialize_output (plEncOutputs (Payload snap)),
              csByCommitment = map (\<lambda>c. (c, case mget (plByCommitment (Payload snap)) c of
                                              None \<Rightarrow> '''' | Some e \<Rightarrow> e)) commitments\<rparr>))"

text \<open>The two services differ only in whether the blob of an output is carried.\<close>

definition deserialize_output :: "bool \<Rightarrow> ser_enc_output \<Rightarrow> enc_output result" where
  "deserialize_output blob out =
     rbind (rwrap ''parse IsPositive'' (ParseBool (serIsPositive out))) (\<lambda>p.
     Ok \<lparr>outValue = serValue out, isPositive = p, isBlocked = serIsBlocked out,
         encryptedBlob = (if blob then serEncryptedBlob out else '''')\<rparr>)"

definition deserialize_with ::
    "bool \<Rightarrow> commitments_service \<Rightarrow> commitments_serialized \<Rightarrow> commitments_payload snapshot result" where
  "deserialize_with blob s ser =
     rbind (case (csLatest ser, csTree ser) of
              (Some b, Some j) \<Rightarrow>
                if b > 0 then rwrap ''deserialize merkle tree'' (FromJSON j (treeHash s) 0)
                else Ok (New (treeHash s) 0 0)
            | _ \<Rightarrow> Ok (New (treeHash s) 0 0)) (\<lambda>t.
     rbind (rmap (deserialize_output blob) (csEncOutputs ser)) (\<lambda>outs.
     Ok \<lparr>SnapLatest = (case csLatest ser of None \<Rightarrow> 0 | Some b \<Rightarrow> b),
         Payload = \<lparr>plTree = Some t, plEncOutputs = outs,
                    plByCommitment = foldl (\<lambda>m (c, e). mput c e m) [] (csByCommitment ser)\<rparr>\<rparr>))"

definition DeserializeCommitments ::
    "commitments_service \<Rightarrow> commitments_serialized \<Rightarrow> commitments_payload snapshot result" where
  "DeserializeCommitments = deserialize_with False"

definition serialize_sol_output :: "enc_output \<Rightarrow> ser_enc_output" where
  "serialize_sol_output out =
     \<lparr>serValue = outValue out, serIsPositive = FormatBool (isPositive out),
      serIsBlocked = isBlocked out, serEncryptedBlob = encryptedBlob out\<rparr>"

text \<open>The Solana service ranges over the map as it comes.\<close>

definition SerializeSolanaCommitments :: "commitments_payload snapshot \<Rightarrow> commitments_serialized result" where
  "SerializeSolanaCommitments snap =
     (case plTree (Payload snap) of
        None \<Rightarrow> Err Panic
      | Some t \<Rightarrow>
          Ok \<lparr>csLatest = Some (SnapLatest snap), csTree = Some (ToJSON t),
              csEncOutputs = map serialize_sol_output (plEncOutputs (Payload snap)),
              csByCommitment = plByCommitment (Payload snap)\<rparr>)"

definition DeserializeSolanaCommitments ::
    "commitments_service \<Rightarrow> commitments_serialized \<Rightarrow> commitments_payload snapshot result" where
  "DeserializeSolanaCommitments = deserialize_with True"

section \<open>Commitment events\<close>

definition MapCommitment :: "blockchain_event \<Rightarrow> commitment_event result" where
  "MapCommitment ev =
     rbind (GetArg ev ''commitment'') (\<lambda>commitmentStr.
     rbind (GetArg ev ''index'') (\<lambda>indexStr.
     rbind (GetArg ev ''encryptedOutput'') (\<lambda>encryptedOutput.
     rbind (rwrap ''parse commitment'' (ParseBigInt commitmentStr)) (\<lambda>commitment.
     rbind (rwrap ''parse index'' (ParseBigInt indexStr)) (\<lambda>index.
     Ok \<lparr>evCommitment = commitment, evIndex = index, evEncryptedOutput = encryptedOutput,
         evEncryptedBlob = ''''\<rparr>)))))"

definition hasOnChainData :: "byte list list \<Rightarrow> bool" where
  "hasOnChainData rows = (\<exists>row \<in> set rows. \<exists>b \<in> set row. b \<noteq> 0)"

definition MapSolanaCommitment :: "blockchain_event \<Rightarrow> commitment_event result" where
  "MapSolanaCommitment ev =
     rbind (GetArg ev ''commitment'') (\<lambda>commitmentArg.
     rbind (GetArg ev ''index'') (\<lambda>indexArg.
     rbind (GetArg ev ''encrypted_output'') (\<lambda>encOutArg.
     rbind (rwrap ''parse commitment'' (AdvancedToBigInt commitmentArg)) (\<lambda>commitment.
     rbind (rwrap ''parse index'' (AdvancedToBigInt indexArg)) (\<lambda>index.
     rbind (rwrap ''parse encrypted_output'' (ParseByteArray encOutArg)) (\<lambda>encBytes.
     let encryptedOutput = ''0x'' @ hex_EncodeToString encBytes;
         plain = \<lparr>evCommitment = commitment, evIndex = index, evEncryptedOutput = encryptedOutput,
                  evEncryptedBlob = ''''\<rparr>
     in case GetArg ev ''on_chain_data'' of
          Inl _ \<Rightarrow> Ok plain
        | Inr onChainArg \<Rightarrow>
            rbind (rwrap ''parse on_chain_data'' (ParseByteMatrix onChainArg)) (\<lambda>onChainData.
            if hasOnChainData onChainData then
              rbind (EncodeSolanaOnChainUtxo onChainData) (\<lambda>encodedOutput.
              Ok \<lparr>evCommitment = commitment, evIndex = index, evEncryptedOutput = encodedOutput,
                  evEncryptedBlob = (if length encBytes > 0 then encryptedOutput else '''')\<rparr>)
            else Ok plain)))))))"

text \<open>The loop that drops the first output with the given value.\<close>

fun remove_output :: "string \<Rightarrow> enc_output list \<Rightarrow> enc_output list" where
  "remove_output v [] = []"
| "remove_output v (out # outs) = (if outValue out = v then outs else out # remove_output v outs)"

text \<open>
  \<open>AcceptEvent\<close>: the text of the two services is the same but for the sign and the blob of the new
  output. An \<open>Insert\<close> below the first leaf and a nil tree panic.
\<close>

definition accept_with ::
    "(commitment_event \<Rightarrow> bool) \<Rightarrow> (commitment_event \<Rightarrow> string) \<Rightarrow>
     commitments_service \<Rightarrow> commitment_event \<Rightarrow> bool \<Rightarrow> (commitments_service \<times> bool) result" where
  "accept_with positive blob s ev blocked =
     (case merkleTree s of
        None \<Rightarrow> Err Panic
      | Some t \<Rightarrow>
          let nodeIndex = abs (evIndex ev);
              existing = GetValue t nodeIndex
          in if existing = Some (evCommitment ev) then Ok (s, False)
             else rbind (Insert t (evCommitment ev) nodeIndex) (\<lambda>t'.
               let (outs, by) =
                     (case existing of
                        None \<Rightarrow> (encOutputs s, byCommitment s)
                      | Some old \<Rightarrow>
                          (case mget (byCommitment s) (int_String old) of
                             None \<Rightarrow> (encOutputs s, byCommitment s)
                           | Some oldEncOut \<Rightarrow>
                               (remove_output oldEncOut (encOutputs s),
                                mdelete (int_String old) (byCommitment s))));
                   by' = mput (int_String (evCommitment ev)) (evEncryptedOutput ev) by;
                   s' = s\<lparr>merkleTree := Some t', byCommitment := by'\<rparr>
               in if \<exists>out \<in> set outs. outValue out = evEncryptedOutput ev
                  then Ok (s'\<lparr>encOutputs := outs\<rparr>, True)
                  else Ok (s'\<lparr>encOutputs := outs @
                             [\<lparr>outValue = evEncryptedOutput ev, isPositive = positive ev,
                               isBlocked = blocked, encryptedBlob = blob ev\<rparr>]\<rparr>, True)))"

definition AcceptCommitment ::
    "commitments_service \<Rightarrow> commitment_event \<Rightarrow> bool \<Rightarrow> (commitments_service \<times> bool) result" where
  "AcceptCommitment = accept_with (\<lambda>ev. evIndex ev \<ge> 0) (\<lambda>ev. '''')"

definition AcceptSolanaCommitment ::
    "commitments_service \<Rightarrow> commitment_event \<Rightarrow> bool \<Rightarrow> (commitments_service \<times> bool) result" where
  "AcceptSolanaCommitment = accept_with (\<lambda>ev. \<not> IsSolanaOnChainUtxo (evEncryptedOutput ev)) evEncryptedBlob"

definition CommitmentsDelegate ::
    "(commitments_service, commitment_event, commitments_payload, commitments_serialized) delegate" where
  "CommitmentsDelegate =
     \<lparr>AcceptEvent = AcceptCommitment, MapEvent = MapCommitment, GetSnapshotPayload = GetCommitmentsPayload,
      PopulateSnapshot = PopulateCommitments, SerializeSnapshot = SerializeCommitments,
      DeserializeSnapshot = DeserializeCommitments\<rparr>"

definition SolanaCommitmentsDelegate ::
    "(commitments_service, commitment_event, commitments_payload, commitments_serialized) delegate" where
  "SolanaCommitmentsDelegate =
     \<lparr>AcceptEvent = AcceptSolanaCommitment, MapEvent = MapSolanaCommitment,
      GetSnapshotPayload = GetCommitmentsPayload, PopulateSnapshot = PopulateCommitments,
      SerializeSnapshot = SerializeSolanaCommitments, DeserializeSnapshot = DeserializeSolanaCommitments\<rparr>"

section \<open>Nullifiers\<close>

text \<open>The service is its set of nullifiers, a Go map to the empty struct.\<close>

type_synonym nullifier_set = "(string, unit) gomap"

record nullifiers_serialized =
  nsLatest :: "uint64 option"
  nsNullifiers :: "string list"

definition MapNullifier :: "blockchain_event \<Rightarrow> string result" where
  "MapNullifier ev =
     rbind (GetArg ev ''nullifier'') (\<lambda>s.
     rbind (rwrap ''parse nullifier'' (ParseBigInt s)) (\<lambda>n. Ok (ToBeHex (Some n))))"

definition MapSolanaNullifier :: "blockchain_event \<Rightarrow> string result" where
  "MapSolanaNullifier ev =
     rbind (GetArg ev ''nullifier'') (\<lambda>s.
     rbind (rwrap ''parse nullifier'' (AdvancedToBigInt s)) (\<lambda>n. Ok (ToBeHex (Some n))))"

definition AcceptNullifier :: "nullifier_set \<Rightarrow> string \<Rightarrow> bool \<Rightarrow> (nullifier_set \<times> bool) result" where
  "AcceptNullifier ns n blocked =
     (if mget ns n \<noteq> None then Ok (ns, False) else Ok (mput n () ns, True))"

definition SerializeNullifiers :: "nullifier_set snapshot \<Rightarrow> nullifiers_serialized result" where
  "SerializeNullifiers snap =
     Ok \<lparr>nsLatest = Some (SnapLatest snap), nsNullifiers = map fst (Payload snap)\<rparr>"

definition DeserializeNullifiers :: "nullifier_set \<Rightarrow> nullifiers_serialized \<Rightarrow> nullifier_set snapshot result" where
  "DeserializeNullifiers ns ser =
     Ok \<lparr>SnapLatest = (case nsLatest ser of None \<Rightarrow> 0 | Some b \<Rightarrow> b),
         Payload = foldl (\<lambda>m n. mput n () m) [] (nsNullifiers ser)\<rparr>"

definition NullifiersDelegate ::
    "(nullifier_set, string, nullifier_set, nullifiers_serialized) delegate" where
  "NullifiersDelegate =
     \<lparr>AcceptEvent = AcceptNullifier, MapEvent = MapNullifier, GetSnapshotPayload = (\<lambda>ns. ns),
      PopulateSnapshot = (\<lambda>_ snap. Payload snap), SerializeSnapshot = SerializeNullifiers,
      DeserializeSnapshot = DeserializeNullifiers\<rparr>"

definition SolanaNullifiersDelegate ::
    "(nullifier_set, string, nullifier_set, nullifiers_serialized) delegate" where
  "SolanaNullifiersDelegate =
     \<lparr>AcceptEvent = AcceptNullifier, MapEvent = MapSolanaNullifier, GetSnapshotPayload = (\<lambda>ns. ns),
      PopulateSnapshot = (\<lambda>_ snap. Payload snap), SerializeSnapshot = SerializeNullifiers,
      DeserializeSnapshot = DeserializeNullifiers\<rparr>"

section \<open>The fetcher\<close>

record commitments_tree_snapshot =
  tsTree :: merkle_json
  tsLatest :: uint64
  tsEncOutputs :: "ser_enc_output list"
  tsHinkalAddress :: string
  tsChainID :: int
  tsByCommitment :: "(string \<times> string) list"

record nullifiers_snapshot =
  nlLatest :: uint64
  nlNullifiers :: "string list"

record snapshots_response =
  srCommitments :: commitments_tree_snapshot
  srNullifiers :: nullifiers_snapshot

record fetcher =
  fChainID :: int
  fContract :: string
  cacheDuration :: int
  cached :: "snapshots_response option"
  lastFetchedAt :: int

definition NewSnapshotFetcherService :: "int \<Rightarrow> string \<Rightarrow> int option \<Rightarrow> fetcher" where
  "NewSnapshotFetcherService chain contract dur =
     \<lparr>fChainID = chain, fContract = contract,
      cacheDuration = (case dur of None \<Rightarrow> 5 * 60 * 1000000000 | Some d \<Rightarrow> d),
      cached = None, lastFetchedAt = 0\<rparr>"

text \<open>\<open>now\<close> is read twice, as the code does: for the age of the cache and for the new stamp.\<close>

definition ensureSnapshots ::
    "snapshots_response result \<Rightarrow> int \<Rightarrow> int \<Rightarrow> bool \<Rightarrow> fetcher \<Rightarrow> fetcher \<times> snapshots_response result" where
  "ensureSnapshots api now now' force f =
     (case (if force \<or> now - lastFetchedAt f > cacheDuration f then None else cached f) of
        Some r \<Rightarrow> (f, Ok r)
      | None \<Rightarrow>
          (case api of
             Inl err \<Rightarrow> (f, Err (Wrapped ''fetch snapshots'' err))
           | Inr r \<Rightarrow>
               if \<not> EqualFold (tsHinkalAddress (srCommitments r)) (fContract f) \<or>
                  tsChainID (srCommitments r) \<noteq> fChainID f
               then (f, Err (Errorf ''snapshots: incorrect contract address or chain ID''))
               else (f\<lparr>cached := Some r, lastFetchedAt := now'\<rparr>, Ok r)))"

definition GetCommitments ::
    "snapshots_response result \<Rightarrow> int \<Rightarrow> int \<Rightarrow> bool \<Rightarrow> fetcher \<Rightarrow> fetcher \<times> commitments_serialized result" where
  "GetCommitments api now now' force f =
     (case ensureSnapshots api now now' force f of
        (f', Inl err) \<Rightarrow> (f', Err err)
      | (f', Inr r) \<Rightarrow>
          (f', Ok \<lparr>csLatest = Some (tsLatest (srCommitments r)), csTree = Some (tsTree (srCommitments r)),
                   csEncOutputs = tsEncOutputs (srCommitments r),
                   csByCommitment = tsByCommitment (srCommitments r)\<rparr>))"

definition GetNullifiers ::
    "snapshots_response result \<Rightarrow> int \<Rightarrow> int \<Rightarrow> bool \<Rightarrow> fetcher \<Rightarrow> fetcher \<times> nullifiers_serialized result" where
  "GetNullifiers api now now' force f =
     (case ensureSnapshots api now now' force f of
        (f', Inl err) \<Rightarrow> (f', Err err)
      | (f', Inr r) \<Rightarrow>
          (f', Ok \<lparr>nsLatest = Some (nlLatest (srNullifiers r)), nsNullifiers = nlNullifiers (srNullifiers r)\<rparr>))"

end
