(* ===== verification/SnapshotsCorrect.thy ===== *)
theory SnapshotsCorrect
  imports Snapshots
begin

text \<open>
  Correctness of the snapshot services: the contract between \<open>SnapshotService\<close> and its delegates as a
  locale, with what the service derives from it, its interpretation on the four delegates, and what
  pages of events and saved snapshots do to the commitments and the nullifiers.
\<close>

section \<open>The contract of a delegate\<close>

text \<open>
  What \<open>SnapshotService\<close> relies on. \<open>inv\<close> is the invariant of the delegate's state, \<open>okev\<close> the events
  a chain can send, \<open>same\<close> the equality of payloads as maps, and \<open>fresh\<close> the states a snapshot may be
  loaded into.
\<close>

locale snapshot_delegate =
  fixes d :: "('st, 'e, 'p, 'ser) delegate"
    and inv :: "'st \<Rightarrow> bool" and okev :: "'e \<Rightarrow> bool"
    and same :: "'p \<Rightarrow> 'p \<Rightarrow> bool" and fresh :: "'st \<Rightarrow> 'st \<Rightarrow> bool"
  assumes accept_total: "inv st \<Longrightarrow> okev ev \<Longrightarrow> \<exists>st' b. AcceptEvent d st ev blk = Ok (st', b) \<and> inv st'"
    and accept_again: "inv st \<Longrightarrow> okev ev \<Longrightarrow> AcceptEvent d st ev blk = Ok (st', b) \<Longrightarrow>
          AcceptEvent d st' ev blk' = Ok (st', False)"
    and roundtrip: "inv st \<Longrightarrow> fresh st st0 \<Longrightarrow> 0 < latest \<Longrightarrow>
          \<exists>ser p. SerializeSnapshot d \<lparr>SnapLatest = latest, Payload = GetSnapshotPayload d st\<rparr> = Ok ser \<and>
            DeserializeSnapshot d st0 ser = Ok \<lparr>SnapLatest = latest, Payload = p\<rparr> \<and>
            same p (GetSnapshotPayload d st)"
    and populated: "GetSnapshotPayload d (PopulateSnapshot d st0 snap) = Payload snap"
begin

definition page_ok :: "string \<Rightarrow> blockchain_event list \<Rightarrow> bool" where
  "page_ok name evs \<longleftrightarrow>
     (\<forall>ev \<in> set evs. EventName ev = name \<longrightarrow> (\<forall>e. MapEvent d ev = Ok e \<longrightarrow> okev e))"

lemma accept_one_total:
  assumes "inv st" "EventName ev = name \<Longrightarrow> (\<forall>e. MapEvent d ev = Ok e \<longrightarrow> okev e)"
  shows "\<exists>st' n'. accept_one d name bl (st, n) ev = Ok (st', n') \<and> inv st' \<and> n \<le> n' \<and> n' \<le> Suc n"
proof (cases "EventName ev = name \<and> (\<exists>e. MapEvent d ev = Ok e)")
  case True
  then obtain e where e: "EventName ev = name" "MapEvent d ev = Ok e" by auto
  then have "okev e" using assms(2) by auto
  from accept_total [OF assms(1) this, of "TransactionHash ev \<in> bl"] e show ?thesis
    by (auto simp: accept_one_def)
next
  case False
  then show ?thesis using assms(1) by (auto simp: accept_one_def split: sum.split)
qed

lemma page_total:
  assumes "inv st" "page_ok name evs"
  shows "\<exists>st' n'. rfold (accept_one d name bl) (st, n) evs = Ok (st', n') \<and> inv st' \<and> n \<le> n' \<and> n' \<le> n + length evs"
  using assms
proof (induction evs arbitrary: st n)
  case (Cons ev evs)
  then obtain st1 n1 where 1: "accept_one d name bl (st, n) ev = Ok (st1, n1)" "inv st1" "n \<le> n1" "n1 \<le> Suc n"
    using accept_one_total [of st ev name bl n] by (auto simp: page_ok_def)
  obtain st2 n2 where "rfold (accept_one d name bl) (st1, n1) evs = Ok (st2, n2)" "inv st2" "n1 \<le> n2" "n2 \<le> n1 + length evs"
    using Cons.IH [OF 1(2), of n1] Cons.prems(2) by (auto simp: page_ok_def)
  then show ?case using 1 by (intro exI [of _ st2] exI [of _ n2]) simp
qed simp

lemma page_keeps_invariant:
  assumes "inv (svcState s)" "page_ok name evs"
  shows "inv (svcState (fst (processEventsPage d name persist depth latest evs s)))"
proof -
  obtain st n where "rfold (accept_one d name (blockedTxHashes evs)) (svcState s, 0) evs = Ok (st, n)" "inv st"
    using page_total [OF assms, of "blockedTxHashes evs" 0] by auto
  then show ?thesis
    by (auto simp: processEventsPage_def afterEventsAccepted_def SaveSnapshot_def Let_def split: sum.splits prod.splits)
qed

text \<open>A page in which every event has already been accepted changes nothing.\<close>

lemma event_again:
  assumes "inv st" "okev e" "MapEvent d ev = Ok e" "EventName ev = name"
    and "accept_one d name bl (st, n) ev = Ok (st', n')"
  shows "accept_one d name bl' (st', k) ev = Ok (st', k)"
  using assms accept_again [OF assms(1,2)] by (auto simp: accept_one_def rbind_Ok_iff)

text \<open>Saving a snapshot and loading it into a new service gives the payload back, and brings the
  watermark of the new emitter to the saved block at most.\<close>

lemma save_then_load:
  assumes "inv (svcState s)" "fresh (svcState s) (svcState s0)" "0 < latest"
    and "SaveSnapshot d persist latest s = (s1, r)"
  shows "\<exists>ser. persisted s1 = ser # persisted s \<and> savedLatestBlock s1 = latest \<and> r = persist ser \<and>
    (\<exists>s2 w2. loadSnapshot d (Ok ser) (w, s0) = ((w2, s2), Ok ()) \<and>
       same (GetSnapshotPayload d (svcState s2)) (GetSnapshotPayload d (svcState s)) \<and>
       savedLatestBlock s2 = latest \<and> wvalue w2 \<le> latest \<and> (wsynced w \<longrightarrow> wvalue w2 \<le> wvalue w))"
proof -
  obtain ser p where ser: "SerializeSnapshot d \<lparr>SnapLatest = latest, Payload = GetSnapshotPayload d (svcState s)\<rparr> = Ok ser"
      "DeserializeSnapshot d (svcState s0) ser = Ok \<lparr>SnapLatest = latest, Payload = p\<rparr>"
      "same p (GetSnapshotPayload d (svcState s))"
    using roundtrip [OF assms(1-3)] by blast
  then show ?thesis
    using assms(4) by (auto simp: SaveSnapshot_def loadSnapshot_def populated syncFromAtMost_def Let_def)
qed

end

section \<open>Nullifier services\<close>

definition same_keys :: "nullifier_set \<Rightarrow> nullifier_set \<Rightarrow> bool" where
  "same_keys a b \<longleftrightarrow> (\<forall>k. mget a k = mget b k)"

lemma mget_foldl_mput:
  "mget (foldl (\<lambda>m n. mput n () m) m0 ns) k = (if k \<in> set ns then Some () else mget m0 k)"
  by (induction ns arbitrary: m0) auto

lemma mget_unit: "mget (ns :: nullifier_set) k = (if k \<in> fst ` set ns then Some () else None)"
proof (cases "map_of ns k")
  case None
  then show ?thesis by (simp add: mget_def map_of_eq_None_iff)
next
  case (Some u)
  then show ?thesis using map_of_SomeD [OF Some] by (force simp: mget_def)
qed

lemma nullifiers_roundtrip:
  "\<exists>ser p. SerializeNullifiers \<lparr>SnapLatest = latest, Payload = ns\<rparr> = Ok ser \<and>
     DeserializeNullifiers ns0 ser = Ok \<lparr>SnapLatest = latest, Payload = p\<rparr> \<and> same_keys p ns"
proof -
  have "same_keys (foldl (\<lambda>m n. mput n () m) [] (map fst ns)) ns"
    unfolding same_keys_def mget_foldl_mput by (simp add: mget_unit [of ns])
  then show ?thesis by (simp add: SerializeNullifiers_def DeserializeNullifiers_def)
qed

interpretation nullifier_svc: snapshot_delegate NullifiersDelegate keys_distinct "\<lambda>_. True" same_keys "\<lambda>_ _. True"
  by unfold_locales
    (use nullifiers_roundtrip in \<open>auto simp: NullifiersDelegate_def AcceptNullifier_def split: if_splits\<close>)

interpretation solana_nullifier_svc:
  snapshot_delegate SolanaNullifiersDelegate keys_distinct "\<lambda>_. True" same_keys "\<lambda>_ _. True"
  by unfold_locales
    (use nullifiers_roundtrip in \<open>auto simp: SolanaNullifiersDelegate_def AcceptNullifier_def split: if_splits\<close>)

section \<open>Commitment services\<close>

definition service_inv :: "bool \<Rightarrow> commitments_service \<Rightarrow> bool" where
  "service_inv blob s \<longleftrightarrow>
     (\<exists>t. merkleTree s = Some t \<and> merkle_inv t \<and> levels t = MerkleLevels \<and> hashFn t = treeHash s \<and> defaultValue t = 0) \<and>
     distinct (map outValue (encOutputs s)) \<and> keys_distinct (byCommitment s) \<and>
     (\<forall>k \<in> fst ` set (byCommitment s). \<exists>c. k = int_String c) \<and>
     (\<not> blob \<longrightarrow> (\<forall>out \<in> set (encOutputs s). encryptedBlob out = ''''))"

text \<open>The index of an event, up to its sign, is a leaf of the tree.\<close>

definition leaf_event :: "commitment_event \<Rightarrow> bool" where
  "leaf_event ev \<longleftrightarrow> (\<exists>j < 2 ^ (MerkleLevels - 1). abs (evIndex ev) = node_at MerkleLevels 0 j)"

definition same_payload :: "commitments_payload \<Rightarrow> commitments_payload \<Rightarrow> bool" where
  "same_payload p q \<longleftrightarrow> plTree p = plTree q \<and> plEncOutputs p = plEncOutputs q \<and>
     (\<forall>k. mget (plByCommitment p) k = mget (plByCommitment q) k)"

lemma set_remove_output: "set (remove_output v outs) \<subseteq> set outs"
  by (induction outs) auto

lemma distinct_remove_output:
  "distinct (map outValue outs) \<Longrightarrow> distinct (map outValue (remove_output v outs))"
proof (induction outs)
  case (Cons out outs)
  then show ?case using set_remove_output [of v outs] by auto
qed simp

lemma set_keys_mput: "fst ` set (mput k v m) = insert k (fst ` set m)"
  unfolding dom_map_of_conv_image_fst [symmetric] mput_def by (auto simp: update_conv)

lemma set_keys_mdelete: "fst ` set (mdelete k m) = fst ` set m - {k}"
  unfolding dom_map_of_conv_image_fst [symmetric] mdelete_def by (auto simp: delete_conv split: if_splits)

lemma existing_leaf_value:
  "fits t j \<Longrightarrow> GetValue (result_tree t v j) (node_at (levels t) 0 j) = Some v"
  using result_leaf_value [of t j j v] fits_j [of t j] by simp

text \<open>What an accepted event leaves behind.\<close>

lemma accept_with_cases:
  assumes "service_inv blob s" "leaf_event ev"
  obtains (known) t where "merkleTree s = Some t" "GetValue t (abs (evIndex ev)) = Some (evCommitment ev)"
      "accept_with pos bl s ev blocked = Ok (s, False)"
    | (new) t t' outs by' where "merkleTree s = Some t" "GetValue t (abs (evIndex ev)) \<noteq> Some (evCommitment ev)"
      "Insert t (evCommitment ev) (abs (evIndex ev)) = Ok t'" "merkle_inv t'" "same_shape t' t"
      "GetValue t' (abs (evIndex ev)) = Some (evCommitment ev)"
      "set outs \<subseteq> set (encOutputs s)" "distinct (map outValue outs)"
      "keys_distinct by'" "\<forall>k \<in> fst ` set by'. \<exists>c. k = int_String c"
      "mget by' (int_String (evCommitment ev)) = Some (evEncryptedOutput ev)"
      "accept_with pos bl s ev blocked =
         Ok (s\<lparr>merkleTree := Some t', byCommitment := by',
              encOutputs := (if evEncryptedOutput ev \<in> outValue ` set outs then outs
                else outs @ [\<lparr>outValue = evEncryptedOutput ev, isPositive = pos ev, isBlocked = blocked,
                              encryptedBlob = bl ev\<rparr>])\<rparr>, True)"
proof -
  obtain t where t: "merkleTree s = Some t" "merkle_inv t" "levels t = MerkleLevels"
    using assms(1) by (auto simp: service_inv_def)
  obtain j where j: "j < 2 ^ (MerkleLevels - 1)" "abs (evIndex ev) = node_at MerkleLevels 0 j"
    using assms(2) by (auto simp: leaf_event_def)
  have fit: "fits t j" using t j by (simp add: fits_def)
  show ?thesis
  proof (cases "GetValue t (abs (evIndex ev)) = Some (evCommitment ev)")
    case True
    then show ?thesis using t(1) by (intro known) (simp_all add: accept_with_def Let_def)
  next
    case False
    let ?t' = "result_tree t (evCommitment ev) j"
    let ?old = "GetValue t (abs (evIndex ev))"
    let ?oe = "case ?old of None \<Rightarrow> None | Some old \<Rightarrow> mget (byCommitment s) (int_String old)"
    define outs where "outs = (case ?oe of None \<Rightarrow> encOutputs s | Some oe \<Rightarrow> remove_output oe (encOutputs s))"
    define b where "b = (case ?oe of None \<Rightarrow> byCommitment s | Some oe \<Rightarrow> mdelete (int_String (the ?old)) (byCommitment s))"
    define b' where "b' = mput (int_String (evCommitment ev)) (evEncryptedOutput ev) b"
    have ins: "Insert t (evCommitment ev) (abs (evIndex ev)) = Ok ?t'"
      using Insert_result [OF fit, of "evCommitment ev"] t(3) j(2) by simp
    have val: "GetValue ?t' (abs (evIndex ev)) = Some (evCommitment ev)"
      using existing_leaf_value [OF fit] t(3) j(2) by simp
    have outs: "set outs \<subseteq> set (encOutputs s)" "distinct (map outValue outs)"
      using assms(1) set_remove_output
      by (auto simp: outs_def service_inv_def distinct_remove_output split: option.split)
    have b: "keys_distinct b" "fst ` set b \<subseteq> fst ` set (byCommitment s)"
      using assms(1) by (auto simp: b_def service_inv_def set_keys_mdelete split: option.split)
    have b': "keys_distinct b'" "\<forall>k \<in> fst ` set b'. \<exists>c. k = int_String c"
    proof -
      show "keys_distinct b'" using b(1) by (simp add: b'_def)
      have "\<forall>k \<in> fst ` set (byCommitment s). \<exists>c. k = int_String c"
        using assms(1) by (simp add: service_inv_def)
      then have "\<forall>k \<in> fst ` set b. \<exists>c. k = int_String c" using b(2) by blast
      then show "\<forall>k \<in> fst ` set b'. \<exists>c. k = int_String c"
        unfolding b'_def set_keys_mput by auto
    qed
    have acc: "accept_with pos bl s ev blocked =
         Ok (s\<lparr>merkleTree := Some ?t', byCommitment := b',
              encOutputs := (if evEncryptedOutput ev \<in> outValue ` set outs then outs
                else outs @ [\<lparr>outValue = evEncryptedOutput ev, isPositive = pos ev, isBlocked = blocked,
                              encryptedBlob = bl ev\<rparr>])\<rparr>, True)"
    proof -
      have "(case ?old of None \<Rightarrow> (encOutputs s, byCommitment s)
           | Some old \<Rightarrow> (case mget (byCommitment s) (int_String old) of
               None \<Rightarrow> (encOutputs s, byCommitment s)
             | Some oldEncOut \<Rightarrow> (remove_output oldEncOut (encOutputs s), mdelete (int_String old) (byCommitment s)))) = (outs, b)"
        by (simp add: outs_def b_def split: option.split)
      moreover have "(\<exists>out \<in> set outs. outValue out = evEncryptedOutput ev) \<longleftrightarrow> evEncryptedOutput ev \<in> outValue ` set outs"
        by force
      ultimately show ?thesis
        using False t(1) ins by (simp add: accept_with_def b'_def)
    qed
    show ?thesis
      by (rule new [OF t(1) False ins result_inv [OF fit] _ val outs b' _ acc])
        (simp_all add: same_shape_def b'_def)
  qed
qed

lemma accept_with_total:
  assumes "service_inv blob s" "leaf_event ev" "\<not> blob \<longrightarrow> bl ev = ''''"
  shows "\<exists>s' b. accept_with pos bl s ev blocked = Ok (s', b) \<and> service_inv blob s'"
proof (rule accept_with_cases [OF assms(1,2), of pos bl blocked])
  fix t t' outs by'
  assume new: "merkleTree s = Some t" "merkle_inv t'" "same_shape t' t" "set outs \<subseteq> set (encOutputs s)"
      "distinct (map outValue outs)" "keys_distinct by'" "\<forall>k \<in> fst ` set by'. \<exists>c. k = int_String c"
    and acc: "accept_with pos bl s ev blocked =
         Ok (s\<lparr>merkleTree := Some t', byCommitment := by',
              encOutputs := (if evEncryptedOutput ev \<in> outValue ` set outs then outs
                else outs @ [\<lparr>outValue = evEncryptedOutput ev, isPositive = pos ev, isBlocked = blocked,
                              encryptedBlob = bl ev\<rparr>])\<rparr>, True)"
  have "\<not> blob \<longrightarrow> (\<forall>out \<in> set outs. encryptedBlob out = '''')"
    using assms(1) new(4) by (auto simp: service_inv_def)
  then show ?thesis unfolding acc using new assms(1,3)
    by (auto simp: service_inv_def same_shape_def)
qed (use assms(1) in auto)

lemma accept_with_again:
  assumes "service_inv blob s" "leaf_event ev" "accept_with pos bl s ev blocked = Ok (s', b)"
  shows "accept_with pos bl s' ev blocked' = Ok (s', False)"
  by (rule accept_with_cases [OF assms(1,2), of pos bl blocked])
    (use assms(3) in \<open>auto simp: accept_with_def\<close>)

lemma mget_foldl_pairs:
  "distinct (map fst kvs) \<Longrightarrow>
   mget (foldl (\<lambda>m (c, e). mput c e m) m0 kvs) k = (case map_of kvs k of None \<Rightarrow> mget m0 k | Some v \<Rightarrow> Some v)"
proof (induction kvs arbitrary: m0)
  case (Cons kv kvs)
  obtain c e where kv: "kv = (c, e)" by (cases kv)
  have "map_of kvs c = None" using Cons.prems kv by (simp add: map_of_eq_None_iff)
  then show ?case using Cons kv by (auto split: option.split)
qed simp

lemma ParseBool_FormatBool [simp]: "ParseBool (FormatBool b) = Ok b"
  by (cases b) (simp_all add: ParseBool_def FormatBool_def)

lemma outputs_roundtrip:
  assumes "\<forall>out \<in> set outs. encryptedBlob out = ''''"
  shows "rmap (deserialize_output False) (map serialize_output outs) = Ok outs"
  using assms unfolding rmap_Ok_map
  by (subst rmap_OkI [where g = id]) (auto simp: deserialize_output_def serialize_output_def)

lemma sol_outputs_roundtrip: "rmap (deserialize_output True) (map serialize_sol_output outs) = Ok outs"
  unfolding rmap_Ok_map
  by (subst rmap_OkI [where g = id]) (auto simp: deserialize_output_def serialize_sol_output_def)

lemma sort_commitments_Ok:
  assumes "\<forall>k \<in> set ks. \<exists>c. k = int_String c"
  shows "sort_commitments ks = Ok (sort_key decimal_key ks)"
proof -
  have "SetString k 10 \<noteq> None" if "k \<in> set ks" for k
    using assms that by (auto simp: SetString_int_String)
  then show ?thesis by (auto simp: sort_commitments_def)
qed

lemma tree_roundtrip:
  assumes "service_inv blob s" "treeHash s0 = treeHash s" "merkleTree s = Some t"
  shows "FromJSON (ToJSON t) (treeHash s0) 0 = Ok t"
  using assms FromJSON_ToJSON(1) [of t] by (auto simp: service_inv_def)

lemma by_commitment_roundtrip:
  assumes "keys_distinct by0" "distinct cs" "set cs = fst ` set by0"
  shows "mget (foldl (\<lambda>m (c, e). mput c e m) []
      (map (\<lambda>c. (c, case mget by0 c of None \<Rightarrow> '''' | Some e \<Rightarrow> e)) cs)) k = mget by0 k"
proof -
  have "mget by0 k = None \<longleftrightarrow> k \<notin> fst ` set by0"
    by (simp add: mget_def map_of_eq_None_iff)
  then show ?thesis
    using assms(2,3)
    by (subst mget_foldl_pairs)
      (auto simp: comp_def map_of_map_restrict restrict_map_def split: option.split)
qed

lemma commitments_roundtrip:
  assumes "service_inv False s" "treeHash s0 = treeHash s" "0 < latest"
  shows "\<exists>ser p. SerializeCommitments \<lparr>SnapLatest = latest, Payload = GetCommitmentsPayload s\<rparr> = Ok ser \<and>
    DeserializeCommitments s0 ser = Ok \<lparr>SnapLatest = latest, Payload = p\<rparr> \<and> same_payload p (GetCommitmentsPayload s)"
proof -
  obtain t where t: "merkleTree s = Some t" using assms(1) by (auto simp: service_inv_def)
  let ?cs = "sort_key decimal_key (map fst (byCommitment s))"
  have keys: "\<forall>k \<in> set (map fst (byCommitment s)). \<exists>c. k = int_String c"
    and dist: "keys_distinct (byCommitment s)" and blob: "\<forall>out \<in> set (encOutputs s). encryptedBlob out = ''''"
    using assms(1) by (auto simp: service_inv_def)
  have bys: "mget (foldl (\<lambda>m (c, e). mput c e m) []
      (map (\<lambda>c. (c, case mget (byCommitment s) c of None \<Rightarrow> '''' | Some e \<Rightarrow> e)) ?cs)) k = mget (byCommitment s) k" for k
    using dist by (intro by_commitment_roundtrip) simp_all
  show ?thesis
    using assms(3) t tree_roundtrip [OF assms(1,2) t] outputs_roundtrip [OF blob] bys
    by (simp add: SerializeCommitments_def GetCommitmentsPayload_def sort_commitments_Ok [OF keys]
        DeserializeCommitments_def deserialize_with_def same_payload_def)
qed

lemma sol_commitments_roundtrip:
  assumes "service_inv True s" "treeHash s0 = treeHash s" "0 < latest"
  shows "\<exists>ser p. SerializeSolanaCommitments \<lparr>SnapLatest = latest, Payload = GetCommitmentsPayload s\<rparr> = Ok ser \<and>
    DeserializeSolanaCommitments s0 ser = Ok \<lparr>SnapLatest = latest, Payload = p\<rparr> \<and>
    same_payload p (GetCommitmentsPayload s)"
proof -
  obtain t where t: "merkleTree s = Some t" using assms(1) by (auto simp: service_inv_def)
  have dist: "keys_distinct (byCommitment s)" using assms(1) by (auto simp: service_inv_def)
  have bys: "mget (foldl (\<lambda>m (c, e). mput c e m) [] (byCommitment s)) k = mget (byCommitment s) k" for k
    unfolding mget_foldl_pairs [OF dist] by (simp add: mget_def split: option.split)
  show ?thesis
    using assms(3) t tree_roundtrip [OF assms(1,2) t] bys
    by (simp add: SerializeSolanaCommitments_def GetCommitmentsPayload_def sol_outputs_roundtrip
        DeserializeSolanaCommitments_def deserialize_with_def same_payload_def)
qed

interpretation commitment_svc:
  snapshot_delegate CommitmentsDelegate "service_inv False" leaf_event same_payload "\<lambda>s s0. treeHash s0 = treeHash s"
proof (unfold_locales, unfold CommitmentsDelegate_def delegate.simps AcceptCommitment_def, goal_cases)
  case (1 st ev blk)
  then show ?case by (rule accept_with_total) simp
next
  case (2 st ev blk st' b blk')
  then show ?case by (rule accept_with_again)
next
  case (3 st st0 latest)
  then show ?case by (rule commitments_roundtrip)
qed (simp add: GetCommitmentsPayload_def PopulateCommitments_def)

interpretation solana_commitment_svc:
  snapshot_delegate SolanaCommitmentsDelegate "service_inv True" leaf_event same_payload "\<lambda>s s0. treeHash s0 = treeHash s"
proof (unfold_locales, unfold SolanaCommitmentsDelegate_def delegate.simps AcceptSolanaCommitment_def, goal_cases)
  case (1 st ev blk)
  then show ?case by (rule accept_with_total) simp
next
  case (2 st ev blk st' b blk')
  then show ?case by (rule accept_with_again)
next
  case (3 st st0 latest)
  then show ?case by (rule sol_commitments_roundtrip)
qed (simp add: GetCommitmentsPayload_def PopulateCommitments_def)

section \<open>Properties\<close>

text \<open>The leaf values after a page of events: at each leaf the commitment of the last event for it.\<close>

definition last_commitment :: "string \<Rightarrow> blockchain_event list \<Rightarrow> int \<Rightarrow> int option" where
  "last_commitment name evs i =
     map_option evCommitment (find (\<lambda>e. abs (evIndex e) = i)
       (rev (List.map_filter (\<lambda>ev. if EventName ev = name
                                    then (case MapCommitment ev of Inl _ \<Rightarrow> None | Inr e \<Rightarrow> Some e) else None) evs)))"

lemma accept_with_leaf:
  assumes "service_inv blob s" "leaf_event ev" "accept_with pos bl s ev blocked = Ok (s', b)"
    and "merkleTree s = Some t" "i = node_at MerkleLevels 0 k" "k < 2 ^ (MerkleLevels - 1)"
  shows "\<exists>t'. merkleTree s' = Some t' \<and>
    GetValue t' i = (if abs (evIndex ev) = i then Some (evCommitment ev) else GetValue t i)"
proof (rule accept_with_cases [OF assms(1,2), of pos bl blocked])
  fix t0 assume "merkleTree s = Some t0" "GetValue t0 (abs (evIndex ev)) = Some (evCommitment ev)"
    "accept_with pos bl s ev blocked = Ok (s, False)"
  then show ?thesis using assms(3,4) by auto
next
  fix t0 t' outs by'
  assume a: "merkleTree s = Some t0" "Insert t0 (evCommitment ev) (abs (evIndex ev)) = Ok t'"
    "accept_with pos bl s ev blocked =
         Ok (s\<lparr>merkleTree := Some t', byCommitment := by',
              encOutputs := (if evEncryptedOutput ev \<in> outValue ` set outs then outs
                else outs @ [\<lparr>outValue = evEncryptedOutput ev, isPositive = pos ev, isBlocked = blocked,
                              encryptedBlob = bl ev\<rparr>])\<rparr>, True)"
  have t: "merkle_inv t" "levels t = MerkleLevels" "t0 = t"
    using assms(1,4) a(1) by (auto simp: service_inv_def)
  obtain j where j: "j < 2 ^ (MerkleLevels - 1)" "abs (evIndex ev) = node_at MerkleLevels 0 j"
    using assms(2) by (auto simp: leaf_event_def)
  have fit: "fits t j" using t j by (simp add: fits_def)
  have "t' = result_tree t (evCommitment ev) j"
    using a(2) Insert_result [OF fit, of "evCommitment ev"] t(2,3) j(2) by simp
  moreover have "GetValue (result_tree t (evCommitment ev) j) i = (if k = j then Some (evCommitment ev) else GetValue t i)"
    using result_leaf_value [OF fit, of k "evCommitment ev"] assms(5,6) t(2) by simp
  moreover have "abs (evIndex ev) = i \<longleftrightarrow> k = j" using j(2) assms(5) by (auto simp: node_at_def)
  ultimately show ?thesis using assms(3) a(3) by auto
qed

lemma last_commitment_Cons:
  "last_commitment name (ev # evs) i =
     (case last_commitment name evs i of
        Some c \<Rightarrow> Some c
      | None \<Rightarrow> (if EventName ev = name then
                   (case MapCommitment ev of Inl _ \<Rightarrow> None
                    | Inr e \<Rightarrow> if abs (evIndex e) = i then Some (evCommitment e) else None) else None))"
  by (auto simp: last_commitment_def map_filter_simps find_snoc split: option.split sum.split)

lemma page_leaves:
  assumes "service_inv False s" "commitment_svc.page_ok name evs" "merkleTree s = Some t"
    and "rfold (accept_one CommitmentsDelegate name bl) (s, n) evs = Ok (s', n')"
    and "i = node_at MerkleLevels 0 k" "k < 2 ^ (MerkleLevels - 1)"
  shows "\<exists>t'. merkleTree s' = Some t' \<and>
    GetValue t' i = (case last_commitment name evs i of Some c \<Rightarrow> Some c | None \<Rightarrow> GetValue t i)"
  using assms(1-4)
proof (induction evs arbitrary: s n t)
  case Nil
  then show ?case by (simp add: last_commitment_def map_filter_simps)
next
  case (Cons ev evs)
  from Cons.prems(4) obtain s1 n1 where 1: "accept_one CommitmentsDelegate name bl (s, n) ev = Ok (s1, n1)"
      "rfold (accept_one CommitmentsDelegate name bl) (s1, n1) evs = Ok (s', n')"
    by (auto simp: rbind_Ok_iff)
  have page: "commitment_svc.page_ok name evs"
    "EventName ev = name \<Longrightarrow> MapEvent CommitmentsDelegate ev = Ok e \<Longrightarrow> leaf_event e" for e
    using Cons.prems(2) by (auto simp: commitment_svc.page_ok_def)
  have inv1: "service_inv False s1"
    using commitment_svc.accept_one_total [OF Cons.prems(1), of ev name bl n] page(2) 1(1) by auto
  define c1 where "c1 = (if EventName ev = name then (case MapCommitment ev of Inl _ \<Rightarrow> None
      | Inr e \<Rightarrow> if abs (evIndex e) = i then Some (evCommitment e) else None) else None)"
  have "\<exists>t1. merkleTree s1 = Some t1 \<and> GetValue t1 i = (case c1 of Some c \<Rightarrow> Some c | None \<Rightarrow> GetValue t i)"
  proof (cases "EventName ev = name \<and> (\<exists>e. MapCommitment ev = Ok e)")
    case True
    then obtain e where e: "EventName ev = name" "MapCommitment ev = Ok e" by auto
    then have "leaf_event e" using page(2) by (simp add: CommitmentsDelegate_def)
    moreover obtain b where "AcceptCommitment s e (TransactionHash ev \<in> bl) = Ok (s1, b)"
      using 1(1) e by (auto simp: accept_one_def CommitmentsDelegate_def rbind_Ok_iff)
    ultimately show ?thesis
      using accept_with_leaf [OF Cons.prems(1), of e _ _ _ s1 b t i k] Cons.prems(3) assms(5,6) e
      by (auto simp: AcceptCommitment_def c1_def)
  next
    case False
    then have "s1 = s" using 1(1) by (auto simp: accept_one_def CommitmentsDelegate_def split: sum.splits)
    moreover have "c1 = None" using False by (auto simp: c1_def split: sum.split)
    ultimately show ?thesis using Cons.prems(3) by simp
  qed
  then obtain t1 where t1: "merkleTree s1 = Some t1"
      "GetValue t1 i = (case c1 of Some c \<Rightarrow> Some c | None \<Rightarrow> GetValue t i)" by blast
  from Cons.IH [OF inv1 page(1) t1(1) 1(2)] show ?case
    unfolding last_commitment_Cons t1(2) c1_def [symmetric] by (auto split: option.splits)
qed

text \<open>A page of chain events whose indices are leaves never fails on the commitments service: the
  invariant is kept, every leaf holds the commitment of the last event for it (an event replaced by a
  reorganisation included) and every other leaf what it held.\<close>

theorem commitments_page_updates_tree:
  assumes "service_inv False s" "merkleTree s = Some t"
    and "\<forall>ev \<in> set evs. EventName ev = ''NewCommitment'' \<longrightarrow> (\<forall>e. MapCommitment ev = Ok e \<longrightarrow> leaf_event e)"
    and "k < 2 ^ (MerkleLevels - 1)"
  shows "\<exists>s' n t'. rfold (accept_one CommitmentsDelegate ''NewCommitment'' (blockedTxHashes evs)) (s, 0) evs = Ok (s', n) \<and>
    service_inv False s' \<and> merkleTree s' = Some t' \<and>
    GetValue t' (node_at MerkleLevels 0 k) =
      (case last_commitment ''NewCommitment'' evs (node_at MerkleLevels 0 k) of
         Some c \<Rightarrow> Some c | None \<Rightarrow> GetValue t (node_at MerkleLevels 0 k))"
proof -
  have page: "commitment_svc.page_ok ''NewCommitment'' evs"
    unfolding commitment_svc.page_ok_def using assms(3) by (simp add: CommitmentsDelegate_def)
  from commitment_svc.page_total [OF assms(1) page, of "blockedTxHashes evs" 0]
  show ?thesis using page_leaves [OF assms(1) page assms(2) _ refl assms(4)] by blast
qed

definition empty_commitments :: commitments_service where
  "empty_commitments = \<lparr>merkleTree = Some (New (+) 0 0), encOutputs = [], byCommitment = [], treeHash = (+)\<rparr>"

lemma empty_commitments_inv: "service_inv blob empty_commitments"
  by (simp add: service_inv_def empty_commitments_def merkle_inv_New)

lemma commitments_page_updates_tree_witness:
  "\<exists>s' n t'. rfold (accept_one CommitmentsDelegate ''NewCommitment'' {}) (empty_commitments, 0)
     [\<lparr>EventName = ''NewCommitment'', TransactionHash = ''0x1'', BlockNumber = 7,
       args = Some [(''commitment'', int_String 42), (''index'', int_String (node_at MerkleLevels 0 3)),
                    (''encryptedOutput'', ''0xab'')]\<rparr>] = Ok (s', n) \<and>
     merkleTree s' = Some t' \<and> GetValue t' (node_at MerkleLevels 0 3) = Some 42"
proof -
  let ?ev = "\<lparr>EventName = ''NewCommitment'', TransactionHash = ''0x1'', BlockNumber = 7 :: uint64,
       args = Some [(''commitment'', int_String 42), (''index'', int_String (node_at MerkleLevels 0 3)),
                    (''encryptedOutput'', ''0xab'')]\<rparr>"
  have map: "MapCommitment ?ev = Ok \<lparr>evCommitment = 42, evIndex = node_at MerkleLevels 0 3,
      evEncryptedOutput = ''0xab'', evEncryptedBlob = ''''\<rparr>"
    by (simp add: MapCommitment_def GetArg_def mget_def)
  have abs: "\<bar>node_at MerkleLevels 0 3\<bar> = node_at MerkleLevels 0 3"
    using node_at_pos [of MerkleLevels 0 3] by simp
  have three: "3 < (2::nat) ^ (MerkleLevels - 1)" by (simp add: MerkleLevels_def)
  then have leaf: "\<forall>ev \<in> set [?ev]. EventName ev = ''NewCommitment'' \<longrightarrow> (\<forall>e. MapCommitment ev = Ok e \<longrightarrow> leaf_event e)"
    using map abs by (auto simp: leaf_event_def)
  have last: "last_commitment ''NewCommitment'' [?ev] (node_at MerkleLevels 0 3) = Some 42"
    using map abs by (simp add: last_commitment_def map_filter_simps)
  have none: "blockedTxHashes [?ev] = {}" by (simp add: blockedTxHashes_def)
  have "merkleTree empty_commitments = Some (New (+) 0 0)" by (simp add: empty_commitments_def)
  from commitments_page_updates_tree [OF empty_commitments_inv this leaf three]
  show ?thesis unfolding last none by auto
qed

text \<open>C15. Saving the commitments at a block above 0 and loading what was persisted into a new service
  restores the tree, the encrypted outputs and the map, and puts the new emitter's watermark at or below
  the saved block, so no later event is skipped.\<close>

theorem commitments_save_then_load:
  assumes "service_inv False (svcState s)" "treeHash (svcState s0) = treeHash (svcState s)" "0 < latest"
    and "SaveSnapshot CommitmentsDelegate persist latest s = (s1, r)"
  shows "\<exists>ser s2 w2. persisted s1 = ser # persisted s \<and> r = persist ser \<and>
    loadSnapshot CommitmentsDelegate (Ok ser) (w, s0) = ((w2, s2), Ok ()) \<and>
    merkleTree (svcState s2) = merkleTree (svcState s) \<and> encOutputs (svcState s2) = encOutputs (svcState s) \<and>
    (\<forall>c. mget (byCommitment (svcState s2)) c = mget (byCommitment (svcState s)) c) \<and> wvalue w2 \<le> latest"
  using commitment_svc.save_then_load [OF assms, of w]
  by (force simp: same_payload_def CommitmentsDelegate_def GetCommitmentsPayload_def)

lemma commitments_save_then_load_witness:
  "\<exists>ser s2 w2. loadSnapshot CommitmentsDelegate (Ok ser) (\<lparr>wvalue = 0, wsynced = False\<rparr>, NewSnapshotService empty_commitments) =
     ((w2, s2), Ok ()) \<and> merkleTree (svcState s2) = Some (New (+) 0 0) \<and> wvalue w2 \<le> 12"
proof -
  let ?s = "NewSnapshotService empty_commitments"
  obtain s1 r where s1: "SaveSnapshot CommitmentsDelegate (\<lambda>_. Ok ()) 12 ?s = (s1, r)" by (metis surj_pair)
  have inv: "service_inv False (svcState ?s)" by (simp add: NewSnapshotService_def empty_commitments_inv)
  have t: "merkleTree (svcState ?s) = Some (New (+) 0 0)" by (simp add: NewSnapshotService_def empty_commitments_def)
  from commitments_save_then_load [OF inv refl _ s1] show ?thesis unfolding t by fastforce
qed

text \<open>A snapshot that carries block 0 loses its tree: whatever was saved, the service that loads it
  starts from an empty tree, while the outputs and the map come back.\<close>

theorem snapshot_at_block_zero_drops_tree:
  assumes "SerializeCommitments \<lparr>SnapLatest = 0, Payload = p\<rparr> = Ok ser"
    and "DeserializeCommitments s0 ser = Ok snap"
  shows "plTree (Payload snap) = Some (New (treeHash s0) 0 0)"
proof -
  have "csLatest ser = Some 0" using assms(1) by (auto simp: SerializeCommitments_def rbind_Ok_iff split: option.splits)
  then show ?thesis
    using assms(2) by (auto simp: DeserializeCommitments_def deserialize_with_def rbind_Ok_iff split: option.splits)
qed

lemma snapshot_at_block_zero_drops_tree_witness:
  "\<exists>ser snap. SerializeCommitments \<lparr>SnapLatest = 0, Payload = GetCommitmentsPayload (empty_commitments\<lparr>merkleTree := Some (New (+) 7 3)\<rparr>)\<rparr> = Ok ser \<and>
     DeserializeCommitments empty_commitments ser = Ok snap \<and> plTree (Payload snap) = Some (New (+) 0 0)"
proof -
  let ?s = "empty_commitments\<lparr>merkleTree := Some (New (+) 7 3)\<rparr>"
  obtain ser where ser: "SerializeCommitments \<lparr>SnapLatest = 0, Payload = GetCommitmentsPayload ?s\<rparr> = Ok ser" "csEncOutputs ser = []"
      "csLatest ser = Some 0"
    by (auto simp: SerializeCommitments_def GetCommitmentsPayload_def empty_commitments_def sort_commitments_def)
  moreover have "\<exists>snap. DeserializeCommitments empty_commitments ser = Ok snap"
    using ser by (cases "csTree ser") (simp_all add: DeserializeCommitments_def deserialize_with_def)
  then obtain snap where snap: "DeserializeCommitments empty_commitments ser = Ok snap" ..
  ultimately show ?thesis
    using snapshot_at_block_zero_drops_tree [OF ser(1) snap] by (auto simp: empty_commitments_def)
qed

text \<open>Loading the commitments and then the nullifiers on one fresh emitter leaves its watermark at the
  lower of the two snapshot blocks, so that the initial scan, which starts one block later, misses an
  event of neither.\<close>

theorem two_snapshots_start_at_lower_block:
  assumes "loadSnapshot CommitmentsDelegate (Ok cs) (\<lparr>wvalue = 0, wsynced = False\<rparr>, sc) = ((w1, sc'), Ok ())"
    and "loadSnapshot NullifiersDelegate (Ok ns) (w1, sn) = ((w2, sn'), Ok ())"
  shows "wvalue w2 = min (savedLatestBlock sc') (savedLatestBlock sn')"
  using assms by (auto simp: loadSnapshot_def syncFromAtMost_def min_def split: sum.splits if_splits)

lemma two_snapshots_start_at_lower_block_witness:
  "wvalue (fst (fst (loadSnapshot NullifiersDelegate (Ok \<lparr>nsLatest = Some 30, nsNullifiers = [''0x1'']\<rparr>)
     (\<lparr>wvalue = 40, wsynced = True\<rparr>, NewSnapshotService [])))) = 30"
proof -
  let ?cs = "\<lparr>csLatest = Some 40, csTree = None, csEncOutputs = [], csByCommitment = []\<rparr>"
  let ?ns = "\<lparr>nsLatest = Some 30, nsNullifiers = [''0x1'']\<rparr>"
  obtain sc' where c: "loadSnapshot CommitmentsDelegate (Ok ?cs) (\<lparr>wvalue = 0, wsynced = False\<rparr>, NewSnapshotService empty_commitments) =
      ((\<lparr>wvalue = 40, wsynced = True\<rparr>, sc'), Ok ())" "savedLatestBlock sc' = 40"
    by (simp add: loadSnapshot_def CommitmentsDelegate_def DeserializeCommitments_def deserialize_with_def syncFromAtMost_def)
  obtain w2 sn' where n: "loadSnapshot NullifiersDelegate (Ok ?ns) (\<lparr>wvalue = 40, wsynced = True\<rparr>, NewSnapshotService []) =
      ((w2, sn'), Ok ())" "savedLatestBlock sn' = 30"
    by (simp add: loadSnapshot_def NullifiersDelegate_def DeserializeNullifiers_def syncFromAtMost_def)
  from two_snapshots_start_at_lower_block [OF c(1) n(1)] show ?thesis using n(1) c(2) n(2) by simp
qed

definition nullifier_events :: "blockchain_event list \<Rightarrow> string set" where
  "nullifier_events evs = {n. \<exists>ev \<in> set evs. EventName ev = ''Nullified'' \<and> MapNullifier ev = Ok n}"

lemma nullifier_fold:
  "\<exists>ns' n'. rfold (accept_one NullifiersDelegate ''Nullified'' bl) (ns, n) evs = Ok (ns', n') \<and>
     fst ` set ns' = fst ` set ns \<union> nullifier_events evs \<and>
     (nullifier_events evs \<subseteq> fst ` set ns \<longrightarrow> ns' = ns \<and> n' = n)"
proof (induction evs arbitrary: ns n)
  case Nil
  then show ?case by (simp add: nullifier_events_def)
next
  case (Cons ev evs)
  show ?case
  proof (cases "EventName ev = ''Nullified'' \<and> (\<exists>e. MapNullifier ev = Ok e)")
    case False
    then have "accept_one NullifiersDelegate ''Nullified'' bl (ns, n) ev = Ok (ns, n)"
      by (auto simp: accept_one_def NullifiersDelegate_def split: sum.split)
    moreover have "nullifier_events (ev # evs) = nullifier_events evs" using False by (auto simp: nullifier_events_def)
    ultimately show ?thesis using Cons.IH by simp
  next
    case True
    then obtain e where e: "EventName ev = ''Nullified''" "MapNullifier ev = Ok e" by auto
    then have ne: "nullifier_events (ev # evs) = insert e (nullifier_events evs)" by (auto simp: nullifier_events_def)
    show ?thesis
    proof (cases "e \<in> fst ` set ns")
      case True
      then have "accept_one NullifiersDelegate ''Nullified'' bl (ns, n) ev = Ok (ns, n)"
        using e by (simp add: accept_one_def NullifiersDelegate_def AcceptNullifier_def mget_unit)
      moreover have "fst ` set ns \<union> insert e (nullifier_events evs) = fst ` set ns \<union> nullifier_events evs"
        "insert e (nullifier_events evs) \<subseteq> fst ` set ns \<longleftrightarrow> nullifier_events evs \<subseteq> fst ` set ns"
        using True by blast+
      ultimately show ?thesis using Cons.IH [of ns n] unfolding ne by simp
    next
      case False
      then have "accept_one NullifiersDelegate ''Nullified'' bl (ns, n) ev = Ok (mput e () ns, n + 1)"
        using e by (simp add: accept_one_def NullifiersDelegate_def AcceptNullifier_def mget_unit)
      moreover have "\<not> insert e (nullifier_events evs) \<subseteq> fst ` set ns" using False by blast
      ultimately show ?thesis using Cons.IH [of "mput e () ns" "n + 1"] unfolding ne set_keys_mput by auto
    qed
  qed
qed

text \<open>A page of events adds to the nullifier set exactly the nullifiers of its readable \<open>Nullified\<close>
  events, and processing the page again, as happens after a failed retrieval, accepts nothing and
  changes nothing.\<close>

theorem nullifiers_page_idempotent:
  "\<exists>ns' n. rfold (accept_one NullifiersDelegate ''Nullified'' (blockedTxHashes evs)) (ns, 0) evs = Ok (ns', n) \<and>
     fst ` set ns' = fst ` set ns \<union> nullifier_events evs \<and>
     rfold (accept_one NullifiersDelegate ''Nullified'' (blockedTxHashes evs)) (ns', 0) evs = Ok (ns', 0)"
proof -
  obtain ns' n where 1: "rfold (accept_one NullifiersDelegate ''Nullified'' (blockedTxHashes evs)) (ns, 0) evs = Ok (ns', n)"
      "fst ` set ns' = fst ` set ns \<union> nullifier_events evs"
    using nullifier_fold [of "blockedTxHashes evs" ns 0 evs] by blast
  then have "nullifier_events evs \<subseteq> fst ` set ns'" by blast
  then show ?thesis using 1 nullifier_fold [of "blockedTxHashes evs" ns' 0 evs] by auto
qed

definition matches :: "fetcher \<Rightarrow> snapshots_response \<Rightarrow> bool" where
  "matches f r \<longleftrightarrow> EqualFold (tsHinkalAddress (srCommitments r)) (fContract f) \<and>
     tsChainID (srCommitments r) = fChainID f"

text \<open>Whatever the server answers, the fetcher hands out only snapshots of its own contract and chain,
  keeps only such a snapshot in its cache, and a failed fetch changes nothing.\<close>

theorem fetcher_serves_own_contract:
  assumes "\<forall>r. cached f = Some r \<longrightarrow> matches f r" "ensureSnapshots api now now' force f = (f', res)"
  shows "(\<forall>r. cached f' = Some r \<longrightarrow> matches f' r) \<and> fContract f' = fContract f \<and> fChainID f' = fChainID f \<and>
    (case res of Inl err \<Rightarrow> f' = f | Inr r \<Rightarrow> matches f r \<and> cached f' = Some r)"
proof (cases "if force \<or> now - lastFetchedAt f > cacheDuration f then None else cached f")
  case None
  show ?thesis
  proof (cases api)
    case (Inl err)
    then show ?thesis using assms None by (auto simp: ensureSnapshots_def)
  next
    case (Inr r)
    then show ?thesis using assms None by (auto simp: ensureSnapshots_def matches_def split: if_splits)
  qed
next
  case (Some r)
  then show ?thesis using assms by (auto simp: ensureSnapshots_def split: if_splits)
qed

lemma fetcher_serves_own_contract_witness:
  "cached (fst (ensureSnapshots (Err (External ''http'')) 5 6 True (NewSnapshotFetcherService 1 ''0xA'' None))) = None"
proof -
  let ?f = "NewSnapshotFetcherService 1 ''0xA'' None"
  have none: "cached ?f = None" by (simp add: NewSnapshotFetcherService_def)
  obtain f' res where e: "ensureSnapshots (Err (External ''http'')) 5 6 True ?f = (f', res)" "res = Err (Wrapped ''fetch snapshots'' (External ''http''))"
    by (simp add: ensureSnapshots_def)
  from fetcher_serves_own_contract [OF _ e(1)] show ?thesis using none e by simp
qed

end
