(* ===== verification/CryptoKeys.thy ===== *)
theory CryptoKeys
  imports SolanaUtils
begin

text \<open>
  \<open>internal/crypto\<close> and \<open>internal/data-structures/crypto-keys\<close>: Poseidon over the field, the EdDSA
  scalar and signature, and the keys a user derives from one signature. The primitives of the Go
  packages outside the repository (Poseidon, Keccak, SHA-256, Blake, curve arithmetic, hex and base58
  decoding, ABI packing) are the fields of one record, passed first everywhere.
\<close>

section \<open>The primitives\<close>

type_synonym jub_point = "int \<times> int"

text \<open>The values the code hands to the ABI packer.\<close>

datatype abi_value =
    AUint16 "16 word"
  | AUint256 int
  | AAddress "byte list"
  | ABytes "byte list"
  | ABool bool
  | ABytesArr2 "byte list list list"
  | ABoolArr "bool list"
  | AInt256Arr "int list"
  | AUint256Arr "int list"
  | ATuple "abi_value list"

record primitives =
  poseidon :: "int list \<Rightarrow> int result"
  fieldP :: int
  keccak256 :: "byte list \<Rightarrow> byte list"
  sha256 :: "byte list \<Rightarrow> byte list"
  blake512 :: "byte list \<Rightarrow> byte list"
  jubMul :: "int \<Rightarrow> jub_point \<Rightarrow> jub_point"
  jubB8 :: jub_point
  jubSubOrder :: int
  fromHex :: "string \<Rightarrow> byte list"
  hexToAddress :: "string \<Rightarrow> byte list"
  base58Decode :: "string \<Rightarrow> byte list result"
  publicKeyFromBase58 :: "string \<Rightarrow> byte list result"
  abiPack :: "abi_value list \<Rightarrow> byte list result"

text \<open>The bytes of a string, and of a non-negative number in little endian (\<open>BigIntLEBytes\<close>).\<close>

definition string_bytes :: "string \<Rightarrow> byte list" where
  "string_bytes s = map of_char s"

definition SetLEBytes :: "byte list \<Rightarrow> int" where
  "SetLEBytes bs = SetBytes (rev bs)"

definition BigIntLEBytes :: "int \<Rightarrow> byte list" where
  "BigIntLEBytes n = map (\<lambda>i. word_of_int (n div 256 ^ i)) [0 ..< 32]"

section \<open>Poseidon\<close>

definition PoseidonBig :: "primitives \<Rightarrow> int list \<Rightarrow> int result" where
  "PoseidonBig E inputs = poseidon E (map (\<lambda>i. i mod fieldP E) inputs)"

text \<open>\<open>PoseidonHash\<close>, the hash of the Merkle tree, panics when the package reports an error.\<close>

definition PoseidonHash :: "primitives \<Rightarrow> int \<Rightarrow> int \<Rightarrow> int result" where
  "PoseidonHash E a b = (case poseidon E [a, b] of Inl _ \<Rightarrow> Err Panic | Inr h \<Rightarrow> Ok h)"

section \<open>EdDSA\<close>

unbundle bit_operations_syntax

definition eddsaPruneBuffer :: "byte list \<Rightarrow> byte list" where
  "eddsaPruneBuffer buf = (buf[0 := buf ! 0 AND 0xF8])[31 := (buf ! 31 AND 0x7F) OR 0x40]"

definition eddsaScalar :: "primitives \<Rightarrow> byte list \<Rightarrow> int" where
  "eddsaScalar E prv = SetLEBytes (eddsaPruneBuffer (take 32 (blake512 E prv)))"

definition EddsaPrv2Pub :: "primitives \<Rightarrow> byte list \<Rightarrow> jub_point" where
  "EddsaPrv2Pub E prv = jubMul E (drop_bit 3 (eddsaScalar E prv)) (jubB8 E)"

definition EddsaSignPoseidon :: "primitives \<Rightarrow> byte list \<Rightarrow> int \<Rightarrow> (jub_point \<times> int) result" where
  "EddsaSignPoseidon E prv msg =
     (let a = EddsaPrv2Pub E prv;
          s = drop_bit 3 (eddsaScalar E prv);
          h1 = blake512 E prv;
          rBuf = blake512 E (drop 32 h1 @ BigIntLEBytes msg);
          r = SetLEBytes rBuf mod jubSubOrder E;
          r8 = jubMul E r (jubB8 E)
      in rbind (PoseidonBig E [fst r8, snd r8, fst a, snd a, msg]) (\<lambda>hm.
         Ok (r8, (r + hm * push_bit 3 s) mod jubSubOrder E)))"

section \<open>Key utilities\<close>

definition nullifyingPrivateKeyMod :: int where
  "nullifyingPrivateKeyMod = push_bit 250 1"

definition isCircomNegative :: "primitives \<Rightarrow> int \<Rightarrow> bool" where
  "isCircomNegative E n = (n > fieldP E div 2)"

definition getCircomSign :: "primitives \<Rightarrow> int \<Rightarrow> int" where
  "getCircomSign E n = (if isCircomNegative E n then 1 else 0)"

definition poseidonHashHex :: "primitives \<Rightarrow> string list \<Rightarrow> string result" where
  "poseidonHashHex E inputs =
     rbind (rmap ParseBigInt inputs) (\<lambda>bigs.
     rbind (PoseidonBig E bigs) (\<lambda>h. Ok (ToBeHex (Some h))))"

definition keccak256Utf8 :: "primitives \<Rightarrow> string \<Rightarrow> string" where
  "keccak256Utf8 E s = ''0x'' @ hex_EncodeToString (keccak256 E (string_bytes s))"

definition recoverableSignature :: "primitives \<Rightarrow> string \<Rightarrow> byte list result" where
  "recoverableSignature E signature =
     (let sig = fromHex E signature in
      if length sig \<noteq> 65 then Err (Errorf ''cryptokeys: signature must be 65 bytes'')
      else Ok (if sig ! 64 \<ge> 27 then sig[64 := sig ! 64 - 27] else sig))"

section \<open>User keys\<close>

record user_keys =
  signature :: string
  nullifyingKey :: string

definition requireSignature :: "user_keys \<Rightarrow> unit result" where
  "requireSignature u = ensure (signature u \<noteq> []) (Errorf ''cryptokeys: no signature provided'')"

definition requireKeyMaterial :: "user_keys \<Rightarrow> unit result" where
  "requireKeyMaterial u =
     ensure (\<not> (signature u = [] \<and> nullifyingKey u = []))
       (Errorf ''cryptokeys: no signature or private key provided'')"

text \<open>\<open>GetShieldedPrivateKey\<close> caches the derived key in the receiver, so it returns the receiver too.\<close>

definition GetShieldedPrivateKey :: "primitives \<Rightarrow> user_keys \<Rightarrow> user_keys \<times> string result" where
  "GetShieldedPrivateKey E u =
     (if nullifyingKey u \<noteq> [] then (u, Ok (nullifyingKey u))
      else
        case rbind (requireKeyMaterial u) (\<lambda>_.
             rbind (ParseBigInt (signature u)) (\<lambda>sigBig. PoseidonBig E [sigBig])) of
          Inl err \<Rightarrow> (u, Err err)
        | Inr hash \<Rightarrow>
            let k = ToBeHex (Some (hash mod nullifyingPrivateKeyMod))
            in (u\<lparr>nullifyingKey := k\<rparr>, Ok k))"

definition shieldedPrivateKeySeed :: "primitives \<Rightarrow> user_keys \<Rightarrow> user_keys \<times> string result" where
  "shieldedPrivateKeySeed E u =
     (case GetShieldedPrivateKey E u of (u1, priv) \<Rightarrow>
       (u1, rbind priv (\<lambda>p. Ok (''0x'' @ hex_EncodeToString (keccak256 E (fromHex E p))))))"

definition GetShieldedPublicKey :: "primitives \<Rightarrow> user_keys \<Rightarrow> user_keys \<times> string result" where
  "GetShieldedPublicKey E u =
     (case GetShieldedPrivateKey E u of (u1, spk) \<Rightarrow>
       (u1, rbind spk (\<lambda>k. rbind (ParseBigInt k) (\<lambda>n.
            rbind (PoseidonBig E [n]) (\<lambda>h. Ok (ToBeHex (Some h)))))))"

record spending_key_pair =
  PrivSpendingKey :: string
  PubSpendingBJJPoint :: jub_point

definition GetSpendingKeyPair :: "primitives \<Rightarrow> user_keys \<Rightarrow> spending_key_pair result" where
  "GetSpendingKeyPair E u =
     rbind (requireSignature u) (\<lambda>_.
     rbind (ParseBigInt (signature u)) (\<lambda>sigBig.
     rbind (PoseidonBig E [1, sigBig]) (\<lambda>priv.
     let k = ToBeHex (Some priv)
     in Ok \<lparr>PrivSpendingKey = k, PubSpendingBJJPoint = EddsaPrv2Pub E (fromHex E k)\<rparr>)))"

definition SignEddsa :: "primitives \<Rightarrow> user_keys \<Rightarrow> int \<Rightarrow> (jub_point \<times> int) result" where
  "SignEddsa E u message =
     rbind (requireSignature u) (\<lambda>_.
     rbind (GetSpendingKeyPair E u) (\<lambda>pair.
     EddsaSignPoseidon E (fromHex E (PrivSpendingKey pair)) (message mod fieldP E)))"

definition GetAuxSpendKey :: "primitives \<Rightarrow> user_keys \<Rightarrow> string result" where
  "GetAuxSpendKey E u =
     rbind (requireSignature u) (\<lambda>_. poseidonHashHex E [''2'', signature u])"

definition auxSpendPublicKey :: "primitives \<Rightarrow> user_keys \<Rightarrow> string result" where
  "auxSpendPublicKey E u = rbind (GetAuxSpendKey E u) (\<lambda>k. poseidonHashHex E [k])"

definition auxSpendKeySeed :: "primitives \<Rightarrow> user_keys \<Rightarrow> string result" where
  "auxSpendKeySeed E u =
     rbind (GetAuxSpendKey E u) (\<lambda>k. Ok (''0x'' @ hex_EncodeToString (keccak256 E (fromHex E k))))"

definition poseidonNonceSeed :: "primitives \<Rightarrow> int \<Rightarrow> string \<Rightarrow> string \<Rightarrow> string result" where
  "poseidonNonceSeed E nonce priv pub =
     rbind (ParseBigInt priv) (\<lambda>privBig.
     rbind (ParseBigInt pub) (\<lambda>pubBig.
     rbind (PoseidonBig E [nonce, privBig, pubBig]) (\<lambda>seed. Ok (ToBeHex (Some seed)))))"

definition poseidonSeed :: "primitives \<Rightarrow> int \<Rightarrow> user_keys \<Rightarrow> user_keys \<times> string result" where
  "poseidonSeed E nonce u =
     (case GetShieldedPrivateKey E u of
        (u1, Inl err) \<Rightarrow> (u1, Err err)
      | (u1, Inr priv) \<Rightarrow>
          (case GetShieldedPublicKey E u1 of
             (u2, Inl err) \<Rightarrow> (u2, Err err)
           | (u2, Inr pub) \<Rightarrow> (u2, poseidonNonceSeed E nonce priv pub)))"

definition auxPoseidonSeed :: "primitives \<Rightarrow> int \<Rightarrow> user_keys \<Rightarrow> string result" where
  "auxPoseidonSeed E nonce u =
     rbind (GetAuxSpendKey E u) (\<lambda>priv.
     rbind (auxSpendPublicKey E u) (\<lambda>pub. poseidonNonceSeed E nonce priv pub))"

definition shieldedKeyScope :: string where "shieldedKeyScope = ''hinkal-offchain-shielded-key''"
definition claimableSignatureScope :: string where "claimableSignatureScope = ''hinkal-claimable-utxo-signature''"

definition derivedKeyFromNonce :: "primitives \<Rightarrow> int \<Rightarrow> string \<Rightarrow> user_keys \<Rightarrow> user_keys \<times> string result" where
  "derivedKeyFromNonce E nonce scope u =
     (case requireKeyMaterial u of
        Inl err \<Rightarrow> (u, Err err)
      | Inr _ \<Rightarrow>
          (case poseidonSeed E nonce u of (u1, seed) \<Rightarrow>
            (u1, rbind seed (\<lambda>s. Ok (keccak256Utf8 E (scope @ '':'' @ s))))))"

definition GetShieldedPrivateKeyFromNonce :: "primitives \<Rightarrow> int \<Rightarrow> user_keys \<Rightarrow> user_keys \<times> string result" where
  "GetShieldedPrivateKeyFromNonce E nonce u = derivedKeyFromNonce E nonce shieldedKeyScope u"

definition GetClaimableSignatureFromNonce :: "primitives \<Rightarrow> int \<Rightarrow> user_keys \<Rightarrow> string result" where
  "GetClaimableSignatureFromNonce E nonce u =
     rbind (requireSignature u) (\<lambda>_.
     rbind (auxPoseidonSeed E nonce u) (\<lambda>seed.
     Ok (keccak256Utf8 E (claimableSignatureScope @ '':'' @ seed))))"

definition GetSignerPrivateKeyFromNonce :: "primitives \<Rightarrow> int \<Rightarrow> user_keys \<Rightarrow> string result" where
  "GetSignerPrivateKeyFromNonce E nonce u =
     rbind (requireSignature u) (\<lambda>_.
     rbind (auxPoseidonSeed E nonce u) (\<lambda>seed. Ok (keccak256Utf8 E seed)))"

definition GetLegacySignerPrivateKeyFromNonce :: "primitives \<Rightarrow> int \<Rightarrow> user_keys \<Rightarrow> user_keys \<times> string result" where
  "GetLegacySignerPrivateKeyFromNonce E nonce u =
     (case requireKeyMaterial u of
        Inl err \<Rightarrow> (u, Err err)
      | Inr _ \<Rightarrow>
          (case poseidonSeed E nonce u of (u1, seed) \<Rightarrow>
            (u1, rbind seed (\<lambda>s. Ok (keccak256Utf8 E s)))))"

definition GetAccessKey :: "primitives \<Rightarrow> user_keys \<Rightarrow> user_keys \<times> string result" where
  "GetAccessKey E u =
     (case requireKeyMaterial u of
        Inl err \<Rightarrow> (u, Err err)
      | Inr _ \<Rightarrow>
          (case GetShieldedPrivateKey E u of
             (u1, Inl err) \<Rightarrow> (u1, Err err)
           | (u1, Inr priv) \<Rightarrow>
               (case GetShieldedPublicKey E u1 of
                  (u2, Inl err) \<Rightarrow> (u2, Err err)
                | (u2, Inr pub) \<Rightarrow> (u2, poseidonHashHex E [priv, pub]))))"

definition GetBackendToken :: "primitives \<Rightarrow> user_keys \<Rightarrow> user_keys \<times> string result" where
  "GetBackendToken E u =
     (case requireKeyMaterial u of
        Inl err \<Rightarrow> (u, Err err)
      | Inr _ \<Rightarrow>
          (case GetAccessKey E u of
             (u1, Inl err) \<Rightarrow> (u1, Err err)
           | (u1, Inr accessKey) \<Rightarrow>
               (case GetShieldedPublicKey E u1 of
                  (u2, Inl err) \<Rightarrow> (u2, Err err)
                | (u2, Inr pub) \<Rightarrow> (u2, poseidonHashHex E [accessKey, pub]))))"

section \<open>Stealth addresses\<close>

text \<open>The memory cache in front of \<open>GetRandomizedStealthPair\<close> holds the values of a pure function.\<close>

definition GetRandomizedStealthPair :: "primitives \<Rightarrow> int \<Rightarrow> string \<Rightarrow> (jub_point \<times> jub_point) result" where
  "GetRandomizedStealthPair E s privateKey =
     rbind (ParseBigInt privateKey) (\<lambda>k.
     let h0 = jubMul E s (jubB8 E) in Ok (h0, jubMul E k h0))"

definition GetH1FromH0 :: "primitives \<Rightarrow> jub_point \<Rightarrow> string \<Rightarrow> jub_point result" where
  "GetH1FromH0 E h0 privateKey = rbind (ParseBigInt privateKey) (\<lambda>k. Ok (jubMul E k h0))"

definition VerifyStealthPair :: "primitives \<Rightarrow> jub_point \<Rightarrow> jub_point \<Rightarrow> string \<Rightarrow> bool \<Rightarrow> bool result" where
  "VerifyStealthPair E h0 h1 privateKey onlyYCheck =
     rbind (GetH1FromH0 E h0 privateKey) (\<lambda>candidate.
     if onlyYCheck then Ok (snd candidate = snd h1)
     else Ok (fst candidate = fst h1 \<and> snd candidate = snd h1))"

text \<open>\<open>cryptokeys.GetStealthAddress\<close>; a nil slice of public key parts is \<open>None\<close>.\<close>

definition DeriveStealthAddress :: "primitives \<Rightarrow> jub_point \<Rightarrow> string \<Rightarrow> int list option \<Rightarrow> string result" where
  "DeriveStealthAddress E h0 nullifyingPrivateKey spendingPublicKey =
     (case spendingPublicKey of
        Some [sx, sy] \<Rightarrow>
          rbind (GetH1FromH0 E h0 nullifyingPrivateKey) (\<lambda>h1.
          rbind (ParseBigInt nullifyingPrivateKey) (\<lambda>nk.
          let signs = 2 * getCircomSign E (fst h0) + getCircomSign E (fst h1)
          in rbind (PoseidonBig E [signs, snd h0, snd h1, sx, sy, nk]) (\<lambda>h. Ok (ToBeHex (Some h)))))
      | _ \<Rightarrow> Err (Errorf ''cryptokeys: spending public key must be an array of 2 elements''))"

text \<open>The search loop of \<open>FindCorrectRandomization\<close>; it need not end.\<close>

partial_function (option) randomization_loop ::
    "primitives \<Rightarrow> int \<Rightarrow> int \<Rightarrow> nat \<Rightarrow> int option" where
  "randomization_loop E initial k i =
     (let s = (initial * 10 ^ i) mod fieldP E;
          sPk = (s * k) mod fieldP E
      in if sPk < nullifyingPrivateKeyMod \<and> s < nullifyingPrivateKeyMod then Some s
         else randomization_loop E initial k (i + 1))"

declare randomization_loop.simps [code]

definition FindCorrectRandomization :: "primitives \<Rightarrow> int \<Rightarrow> string \<Rightarrow> int result" where
  "FindCorrectRandomization E initialRandomization privateKey =
     rbind (ParseBigInt privateKey) (\<lambda>k.
     case randomization_loop E initialRandomization k 0 of None \<Rightarrow> Err Diverges | Some s \<Rightarrow> Ok s)"

definition GetH0FromRandomization :: "primitives \<Rightarrow> int \<Rightarrow> jub_point" where
  "GetH0FromRandomization E randomization = jubMul E randomization (jubB8 E)"

definition FindH0 :: "primitives \<Rightarrow> int \<Rightarrow> string \<Rightarrow> jub_point option result" where
  "FindH0 E randomization privateKey =
     (if privateKey = [] then Ok None
      else rbind (GetRandomizedStealthPair E randomization privateKey) (\<lambda>(h0, _). Ok (Some h0)))"

end
