(* ===== verification/Utxo.thy ===== *)
theory Utxo
  imports CryptoKeys
begin

text \<open>
  \<open>internal/data-structures/utxo/utxo.go\<close> and \<open>internal/types/utxo_types.go\<close>: the notes. A note caches
  its stealth address, its commitment and its nullifier, so those getters return the note they leave
  behind with the result.
\<close>

record utxo_params =
  pAmount :: "int option"
  pErc20TokenAddress :: string
  pMintAddress :: string
  pTimeStamp :: string
  pNullifyingKey :: string
  pSpendingPublicKey :: "int list option"
  pRandomization :: "int option"
  pH0 :: "jub_point option"
  pStealthAddress :: string
  pEncryptionKey :: string
  pCommitment :: string
  pNullifier :: string
  pIsBlocked :: bool

definition no_params :: utxo_params where
  "no_params = \<lparr>pAmount = None, pErc20TokenAddress = [], pMintAddress = [], pTimeStamp = [],
     pNullifyingKey = [], pSpendingPublicKey = None, pRandomization = None, pH0 = None,
     pStealthAddress = [], pEncryptionKey = [], pCommitment = [], pNullifier = [], pIsBlocked = False\<rparr>"

record utxo =
  Amount :: "int option"
  Erc20TokenAddress :: string
  MintAddress :: string
  TimeStamp :: string
  NullifyingKey :: string
  SpendingPublicKey :: "int list option"
  H0 :: "jub_point option"
  StealthAddress :: string
  EncryptionKey :: string
  IsBlocked :: bool
  commitment :: string
  nullifier :: string

section \<open>Construction\<close>

text \<open>The clock and the random seed are read only where they are needed: \<open>now\<close> is the time in seconds,
  \<open>seed\<close> the outcome of \<open>RandomBigInt(31)\<close>.\<close>

definition NewUtxo :: "primitives \<Rightarrow> int \<Rightarrow> int result \<Rightarrow> utxo_params \<Rightarrow> utxo result" where
  "NewUtxo E now seed p =
     (let ts = (if pTimeStamp p = [] then int_String now else pTimeStamp p) in
      rbind (case pH0 p of
               Some h \<Rightarrow> Ok h
             | None \<Rightarrow>
                 rbind (case pRandomization p of
                          Some r \<Rightarrow> Ok (Some r)
                        | None \<Rightarrow>
                            if pNullifyingKey p \<noteq> [] then
                              rbind seed (\<lambda>s. rbind (FindCorrectRandomization E s (pNullifyingKey p)) (\<lambda>r. Ok (Some r)))
                            else Ok None) (\<lambda>r.
                 rbind (case r of None \<Rightarrow> Ok None | Some x \<Rightarrow> FindH0 E x (pNullifyingKey p)) (\<lambda>h0.
                 case h0 of
                   None \<Rightarrow> Err (Errorf ''UTXO requires H0 or nullifyingKey'')
                 | Some h \<Rightarrow> Ok h))) (\<lambda>h0.
      Ok \<lparr>Amount = pAmount p, Erc20TokenAddress = pErc20TokenAddress p, MintAddress = pMintAddress p,
          TimeStamp = ts, NullifyingKey = pNullifyingKey p, SpendingPublicKey = pSpendingPublicKey p,
          H0 = Some h0, StealthAddress = pStealthAddress p, EncryptionKey = pEncryptionKey p,
          IsBlocked = pIsBlocked p, commitment = pCommitment p, nullifier = pNullifier p\<rparr>))"

definition or_string :: "string \<Rightarrow> string \<Rightarrow> string" where
  "or_string patch old = (if patch \<noteq> [] then patch else old)"

definition or_ptr :: "'a option \<Rightarrow> 'a option \<Rightarrow> 'a option" where
  "or_ptr patch old = (if patch \<noteq> None then patch else old)"

definition applyPatch :: "utxo_params \<Rightarrow> utxo_params \<Rightarrow> utxo_params" where
  "applyPatch dst patch =
     dst\<lparr>pAmount := or_ptr (pAmount patch) (pAmount dst),
         pErc20TokenAddress := or_string (pErc20TokenAddress patch) (pErc20TokenAddress dst),
         pMintAddress := or_string (pMintAddress patch) (pMintAddress dst),
         pTimeStamp := or_string (pTimeStamp patch) (pTimeStamp dst),
         pNullifyingKey := or_string (pNullifyingKey patch) (pNullifyingKey dst),
         pSpendingPublicKey := or_ptr (pSpendingPublicKey patch) (pSpendingPublicKey dst),
         pRandomization := or_ptr (pRandomization patch) (pRandomization dst),
         pH0 := or_ptr (pH0 patch) (pH0 dst),
         pStealthAddress := or_string (pStealthAddress patch) (pStealthAddress dst),
         pEncryptionKey := or_string (pEncryptionKey patch) (pEncryptionKey dst),
         pCommitment := or_string (pCommitment patch) (pCommitment dst),
         pNullifier := or_string (pNullifier patch) (pNullifier dst)\<rparr>"

definition GetConstructableParams :: "utxo \<Rightarrow> utxo_params" where
  "GetConstructableParams u =
     \<lparr>pAmount = Amount u, pErc20TokenAddress = Erc20TokenAddress u, pMintAddress = MintAddress u,
      pTimeStamp = TimeStamp u, pNullifyingKey = NullifyingKey u,
      pSpendingPublicKey = SpendingPublicKey u, pRandomization = None, pH0 = H0 u,
      pStealthAddress = StealthAddress u, pEncryptionKey = EncryptionKey u,
      pCommitment = commitment u, pNullifier = nullifier u, pIsBlocked = IsBlocked u\<rparr>"

definition GetBasicUtxoParams :: "utxo \<Rightarrow> utxo_params" where
  "GetBasicUtxoParams u =
     no_params\<lparr>pAmount := Amount u, pErc20TokenAddress := Erc20TokenAddress u, pMintAddress := MintAddress u,
       pTimeStamp := TimeStamp u, pH0 := H0 u, pStealthAddress := StealthAddress u,
       pCommitment := commitment u, pNullifier := nullifier u, pIsBlocked := IsBlocked u\<rparr>"

definition CreateFrom :: "primitives \<Rightarrow> int \<Rightarrow> int result \<Rightarrow> utxo \<Rightarrow> utxo_params \<Rightarrow> utxo result" where
  "CreateFrom E now seed src patch =
     (let params = (GetConstructableParams src)\<lparr>pCommitment := [], pNullifier := []\<rparr>
      in NewUtxo E now seed (applyPatch params patch))"

section \<open>Hashes of a note\<close>

definition GetStealthAddress :: "primitives \<Rightarrow> utxo \<Rightarrow> utxo \<times> string result" where
  "GetStealthAddress E u =
     (if StealthAddress u \<noteq> [] then (u, Ok (StealthAddress u))
      else if NullifyingKey u = [] then
        (u, Err (Errorf ''no stealth address in UTXO if private key is not provided''))
      else case H0 u of
             None \<Rightarrow> (u, Err (Errorf ''no H0 point provided''))
           | Some h0 \<Rightarrow>
               (case DeriveStealthAddress E h0 (NullifyingKey u) (SpendingPublicKey u) of
                  Inl err \<Rightarrow> (u, Err err)
                | Inr addr \<Rightarrow> (u\<lparr>StealthAddress := addr\<rparr>, Ok addr)))"

text \<open>A nil amount makes the reduction in \<open>PoseidonBig\<close> panic.\<close>

definition GetCommitment :: "primitives \<Rightarrow> utxo \<Rightarrow> utxo \<times> string result" where
  "GetCommitment E u =
     (if commitment u \<noteq> [] then (u, Ok (commitment u))
      else case GetStealthAddress E u of
             (u1, Inl err) \<Rightarrow> (u1, Err err)
           | (u1, Inr stealth) \<Rightarrow>
               (case rbind (ParseBigInt (Erc20TokenAddress u1)) (\<lambda>token.
                     rbind (ParseBigInt stealth) (\<lambda>stealthBig.
                     rbind (ParseBigInt (TimeStamp u1)) (\<lambda>ts.
                     case Amount u1 of
                       None \<Rightarrow> Err Panic
                     | Some amount \<Rightarrow> PoseidonBig E [amount, token, stealthBig, ts]))) of
                  Inl err \<Rightarrow> (u1, Err err)
                | Inr h \<Rightarrow> (u1\<lparr>commitment := ToBeHex (Some h)\<rparr>, Ok (ToBeHex (Some h)))))"

definition GetNullifier :: "primitives \<Rightarrow> utxo \<Rightarrow> utxo \<times> string result" where
  "GetNullifier E u =
     (if nullifier u \<noteq> [] then (u, Ok (nullifier u))
      else if NullifyingKey u = [] then
        (u, Err (Errorf ''no nullifiers if private key is not provided''))
      else case GetCommitment E u of
             (u1, Inl err) \<Rightarrow> (u1, Err err)
           | (u1, Inr c) \<Rightarrow>
               (case rbind (ParseBigInt c) (\<lambda>commitmentBig.
                     rbind (ParseBigInt (NullifyingKey u1)) (\<lambda>nk.
                     rbind (PoseidonBig E [nk, commitmentBig]) (\<lambda>sig.
                     PoseidonBig E [commitmentBig, sig]))) of
                  Inl err \<Rightarrow> (u1, Err err)
                | Inr nul \<Rightarrow> (u1\<lparr>nullifier := ToBeHex (Some nul)\<rparr>, Ok (ToBeHex (Some nul)))))"

text \<open>\<open>solanaLike\<close> is \<open>constants.IsSolanaLike(chainID)\<close>.\<close>

definition GetTokenAddress :: "bool \<Rightarrow> utxo \<Rightarrow> string result" where
  "GetTokenAddress solanaLike u =
     (let tokenAddress = (if solanaLike then MintAddress u else Erc20TokenAddress u) in
      if tokenAddress = [] then Err (Errorf ''no token address provided'') else Ok tokenAddress)"

section \<open>JSON form of the parameters\<close>

text \<open>The wire struct; \<open>omitempty\<close> drops empty strings and slices, which decode to themselves.\<close>

record utxo_wire =
  wAmount :: string
  wErc20TokenAddress :: string
  wMintAddress :: string
  wTimeStamp :: string
  wNullifyingKey :: string
  wSpendingPublicKey :: "string list"
  wRandomization :: string
  wH0 :: "string list"
  wStealthAddress :: string
  wEncryptionKey :: string
  wCommitment :: string
  wNullifier :: string
  wIsBlocked :: bool

definition MarshalUtxoParams :: "utxo_params \<Rightarrow> utxo_wire" where
  "MarshalUtxoParams p =
     \<lparr>wAmount = (case pAmount p of None \<Rightarrow> ''0'' | Some a \<Rightarrow> int_String a),
      wErc20TokenAddress = pErc20TokenAddress p, wMintAddress = pMintAddress p,
      wTimeStamp = pTimeStamp p, wNullifyingKey = pNullifyingKey p,
      wSpendingPublicKey = (case pSpendingPublicKey p of None \<Rightarrow> [] | Some ks \<Rightarrow> map int_String ks),
      wRandomization = (case pRandomization p of None \<Rightarrow> [] | Some r \<Rightarrow> int_String r),
      wH0 = (case pH0 p of None \<Rightarrow> [] | Some (x, y) \<Rightarrow> [int_String x, int_String y]),
      wStealthAddress = pStealthAddress p, wEncryptionKey = pEncryptionKey p,
      wCommitment = pCommitment p, wNullifier = pNullifier p, wIsBlocked = pIsBlocked p\<rparr>"

definition optionalBigInt :: "string \<Rightarrow> int option result" where
  "optionalBigInt s = (if s = [] then Ok None else rbind (ParseBigInt s) (\<lambda>n. Ok (Some n)))"

definition bigIntSlice :: "string list \<Rightarrow> int list option result" where
  "bigIntSlice values =
     (if values = [] then Ok None else rbind (rmap ParseBigInt values) (\<lambda>ns. Ok (Some ns)))"

definition jubPointFromStrings :: "string list \<Rightarrow> jub_point option result" where
  "jubPointFromStrings values =
     (case values of
        [x, y] \<Rightarrow> rbind (ParseBigInt x) (\<lambda>a. rbind (ParseBigInt y) (\<lambda>b. Ok (Some (a, b))))
      | _ \<Rightarrow> Ok None)"

definition UnmarshalUtxoParams :: "utxo_wire \<Rightarrow> utxo_params result" where
  "UnmarshalUtxoParams w =
     rbind (optionalBigInt (wAmount w)) (\<lambda>amount.
     rbind (optionalBigInt (wRandomization w)) (\<lambda>randomization.
     rbind (bigIntSlice (wSpendingPublicKey w)) (\<lambda>spk.
     rbind (jubPointFromStrings (wH0 w)) (\<lambda>h0.
     Ok \<lparr>pAmount = amount, pErc20TokenAddress = wErc20TokenAddress w, pMintAddress = wMintAddress w,
         pTimeStamp = wTimeStamp w, pNullifyingKey = wNullifyingKey w, pSpendingPublicKey = spk,
         pRandomization = randomization, pH0 = h0, pStealthAddress = wStealthAddress w,
         pEncryptionKey = wEncryptionKey w, pCommitment = wCommitment w, pNullifier = wNullifier w,
         pIsBlocked = wIsBlocked w\<rparr>))))"

end
