(* ===== verification/KeysCorrect.thy ===== *)
theory KeysCorrect
  imports Utxo
begin

text \<open>
  What the key material guarantees: the EdDSA signature satisfies the verification equation of the
  circuit, the pruned scalar lies in its interval, the getters that cache do not change what later
  getters return, and the search for a stealth randomisation finds the first admissible candidate.
\<close>

unbundle bit_operations_syntax

section \<open>Documented behaviour of the primitives\<close>

text \<open>The curve package implements scalar multiplication in a group whose base point has the order
  \<open>SubOrder\<close>.\<close>

definition curve_laws :: "primitives \<Rightarrow> (jub_point \<Rightarrow> jub_point \<Rightarrow> jub_point) \<Rightarrow> bool" where
  "curve_laws E add \<longleftrightarrow>
     (\<forall>a b P. jubMul E (a + b) P = add (jubMul E a P) (jubMul E b P)) \<and>
     (\<forall>a b P. jubMul E (a * b) P = jubMul E a (jubMul E b P)) \<and>
     (\<forall>n. jubMul E (n mod jubSubOrder E) (jubB8 E) = jubMul E n (jubB8 E))"

text \<open>The Poseidon package returns elements of the field.\<close>

definition field_hash :: "primitives \<Rightarrow> bool" where
  "field_hash E \<longleftrightarrow> (\<forall>xs h. poseidon E xs = Ok h \<longrightarrow> 0 \<le> h \<and> h < fieldP E)"

lemma PoseidonBig_field: "field_hash E \<Longrightarrow> PoseidonBig E xs = Ok h \<Longrightarrow> 0 \<le> h \<and> h < fieldP E"
  by (simp add: field_hash_def PoseidonBig_def)

text \<open>A small instance, on which the properties are evaluated: points are residues modulo 13.\<close>

definition toy :: primitives where
  "toy = \<lparr>poseidon = (\<lambda>xs. if xs = [] then Err (External ''poseidon'') else Ok ((7 + foldl (\<lambda>a x. 3 * a + x) 0 xs) mod 101)),
      fieldP = 101,
      keccak256 = (\<lambda>bs. replicate 32 (fold (+) bs 1)), sha256 = (\<lambda>bs. replicate 32 (fold (+) bs 2)),
      blake512 = (\<lambda>bs. replicate 64 (fold (+) bs 3)),
      jubMul = (\<lambda>k (x, y). (k * x mod 13, k * y mod 13)), jubB8 = (1, 2), jubSubOrder = 13,
      fromHex = string_bytes, hexToAddress = string_bytes,
      base58Decode = (\<lambda>s. Ok (string_bytes s)), publicKeyFromBase58 = (\<lambda>s. Ok (string_bytes s)),
      abiPack = (\<lambda>vs. Ok (concat (map (\<lambda>v. case v of AUint256 n \<Rightarrow> [word_of_int n] | ABytes bs \<Rightarrow> bs | _ \<Rightarrow> [0]) vs)))\<rparr>"

definition toy_add :: "jub_point \<Rightarrow> jub_point \<Rightarrow> jub_point" where
  "toy_add P Q = ((fst P + fst Q) mod 13, (snd P + snd Q) mod 13)"

lemma toy_curve_laws: "curve_laws toy toy_add"
  by (auto simp: curve_laws_def toy_def toy_add_def mod_simps algebra_simps split: prod.splits)

lemma toy_field_hash: "field_hash toy"
  by (auto simp: field_hash_def toy_def split: if_splits)

section \<open>EdDSA\<close>

lemma SetBytes_snoc: "SetBytes (bs @ [b]) = SetBytes bs * 256 + int (unat b)"
  by (simp add: SetBytes_def)

lemma SetLEBytes_Cons: "SetLEBytes (b # bs) = int (unat b) + 256 * SetLEBytes bs"
  by (simp add: SetLEBytes_def SetBytes_snoc)

lemma SetLEBytes_Nil: "SetLEBytes [] = 0"
  by (simp add: SetLEBytes_def SetBytes_def)

lemma SetLEBytes_append: "SetLEBytes (xs @ ys) = SetLEBytes xs + 256 ^ length xs * SetLEBytes ys"
  by (induction xs) (simp_all add: SetLEBytes_Cons SetLEBytes_Nil algebra_simps)

lemma unat_byte: "unat (b :: byte) < 256"
  using unsigned_less [of b, where ?'a = nat] by simp

lemma SetLEBytes_bounds: "0 \<le> SetLEBytes bs \<and> SetLEBytes bs < 256 ^ length bs"
proof (induction bs)
  case (Cons b bs)
  have "int (unat b) < 256" using unat_byte [of b] by linarith
  moreover have "SetLEBytes bs + 1 \<le> 256 ^ length bs" using Cons by simp
  then have "256 * (SetLEBytes bs + 1) \<le> 256 * 256 ^ length bs" by simp
  ultimately show ?case using Cons by (simp add: SetLEBytes_Cons)
qed (simp add: SetLEBytes_Nil)

lemma byte_low_cleared: "8 dvd unat (b AND (0xF8 :: byte))"
proof -
  have "take_bit 3 (b AND 0xF8) = b AND (0xF8 AND 7)"
    by (simp only: take_bit_eq_mask and.assoc mask_eq_exp_minus_1) simp
  then have "take_bit 3 (b AND 0xF8) = 0" by simp
  then have "take_bit 3 (unat (b AND 0xF8)) = 0"
    using unsigned_take_bit_eq [of 3 "b AND 0xF8", where ?'a = nat] by simp
  then show ?thesis by (simp add: take_bit_eq_mod dvd_eq_mod_eq_0)
qed

lemma byte_top_set: "64 \<le> unat ((b AND 0x7F) OR (0x40 :: byte)) \<and> unat ((b AND 0x7F) OR (0x40 :: byte)) < 128"
proof -
  let ?c = "(b AND 0x7F) OR (0x40 :: byte)"
  have "?c AND 0x7F = (b AND (0x7F AND 0x7F)) OR (0x40 AND 0x7F)"
    by (simp only: bit.conj_disj_distrib2 and.assoc)
  then have "take_bit 7 ?c = ?c" by (simp add: take_bit_eq_mask mask_eq_exp_minus_1)
  then have "unat ?c = take_bit 7 (unat ?c)"
    using unsigned_take_bit_eq [of 7 ?c, where ?'a = nat] by simp
  then have lt: "unat ?c < 128" using take_bit_nat_less_exp [of 7 "unat ?c"] by simp
  have "bit ?c 6" by (auto simp: bit_or_iff bit_numeral_word_iff)
  then have "bit (unat ?c) 6" by (simp add: bit_unsigned_iff)
  then have "odd (unat ?c div 64)" by (simp add: bit_iff_odd)
  then have "64 \<le> unat ?c" by (metis div_less even_zero linorder_not_le)
  with lt show ?thesis by simp
qed

lemma scalar_interval:
  assumes "0 \<le> l" "l < 256" "0 \<le> m" "m < 256 ^ 30" "64 \<le> h" "h \<le> (127 :: int)"
  shows "2 ^ 254 \<le> l + 256 * (m + 256 ^ 30 * h) \<and> l + 256 * (m + 256 ^ 30 * h) < 2 ^ 255"
  using assms by simp

lemma eddsaScalar_bounds:
  assumes "length (blake512 E prv) = 64"
  shows "2 ^ 254 \<le> eddsaScalar E prv \<and> eddsaScalar E prv < 2 ^ 255 \<and> 8 dvd eddsaScalar E prv"
proof -
  let ?buf = "take 32 (blake512 E prv)"
  have len: "length ?buf = 32" using assms by simp
  obtain b0 rest where buf: "?buf = b0 # rest" using len by (cases ?buf) auto
  then have lr: "length rest = 31" using len by simp
  obtain mid b31 where rest: "rest = mid @ [b31]" using lr by (cases rest rule: rev_cases) auto
  then have lm: "length mid = 30" using lr by simp
  let ?l = "int (unat (b0 AND 0xF8))" and ?h = "int (unat ((b31 AND 0x7F) OR 0x40))"
  have "eddsaPruneBuffer ?buf = (b0 AND 0xF8) # mid @ [(b31 AND 0x7F) OR 0x40]"
    using lm by (simp add: eddsaPruneBuffer_def buf rest nth_append list_update_append)
  then have s: "eddsaScalar E prv = ?l + 256 * (SetLEBytes mid + 256 ^ 30 * ?h)"
    using lm by (simp add: eddsaScalar_def SetLEBytes_Cons SetLEBytes_append SetLEBytes_Nil)
  have l: "0 \<le> ?l" "?l < 256" by (simp, use unat_byte [of "b0 AND 0xF8"] in linarith)
  have l8: "8 dvd ?l" using byte_low_cleared [of b0] by (metis int_dvd_int_iff of_nat_numeral)
  have m: "0 \<le> SetLEBytes mid" "SetLEBytes mid < 256 ^ 30" using SetLEBytes_bounds [of mid] lm by auto
  have h: "64 \<le> ?h" "?h \<le> 127" using byte_top_set [of b31] by linarith+
  have "8 dvd eddsaScalar E prv"
  proof -
    have "8 dvd 256 * (SetLEBytes mid + 256 ^ 30 * ?h)" by (rule dvd_mult2) simp
    with l8 show ?thesis by (simp only: s dvd_add)
  qed
  moreover have "2 ^ 254 \<le> eddsaScalar E prv \<and> eddsaScalar E prv < 2 ^ 255"
    unfolding s by (rule scalar_interval [OF l m h])
  ultimately show ?thesis by simp
qed

lemma eddsa_equation:
  assumes "curve_laws E add" and "EddsaSignPoseidon E prv msg = Ok (r8, sig)"
  shows "\<exists>hm. PoseidonBig E [fst r8, snd r8, fst (EddsaPrv2Pub E prv), snd (EddsaPrv2Pub E prv), msg] = Ok hm
    \<and> jubMul E sig (jubB8 E) = add r8 (jubMul E (8 * hm) (EddsaPrv2Pub E prv))"
proof -
  let ?s = "drop_bit 3 (eddsaScalar E prv)" and ?A = "EddsaPrv2Pub E prv"
  obtain r hm where r8: "r8 = jubMul E r (jubB8 E)"
    and hm: "PoseidonBig E [fst r8, snd r8, fst ?A, snd ?A, msg] = Ok hm"
    and sig: "sig = (r + hm * push_bit 3 ?s) mod jubSubOrder E"
    using assms(2) by (auto simp: EddsaSignPoseidon_def Let_def rbind_Ok_iff)
  have add: "\<And>a b P. jubMul E (a + b) P = add (jubMul E a P) (jubMul E b P)"
    and mul: "\<And>a b P. jubMul E (a * b) P = jubMul E a (jubMul E b P)"
    and red: "\<And>n. jubMul E (n mod jubSubOrder E) (jubB8 E) = jubMul E n (jubB8 E)"
    using assms(1) unfolding curve_laws_def by blast+
  have eq: "r + hm * push_bit 3 ?s = r + (8 * hm) * ?s" by (simp add: push_bit_eq_mult)
  have "jubMul E sig (jubB8 E) = jubMul E (r + (8 * hm) * ?s) (jubB8 E)" by (simp only: sig red eq)
  also have "\<dots> = add r8 (jubMul E (8 * hm) ?A)" by (simp only: add mul r8 EddsaPrv2Pub_def)
  finally show ?thesis using hm by blast
qed

section \<open>Keys that are cached\<close>

definition warm :: "primitives \<Rightarrow> user_keys \<Rightarrow> user_keys" where
  "warm E u = fst (GetShieldedPrivateKey E u)"

lemma GetShieldedPrivateKey_warm: "GetShieldedPrivateKey E (warm E u) = (warm E u, snd (GetShieldedPrivateKey E u))"
  by (auto simp: warm_def GetShieldedPrivateKey_def Let_def ToBeHex_def split: sum.splits)

lemma warm_warm [simp]: "warm E (warm E u) = warm E u"
  using GetShieldedPrivateKey_warm [of E u] by (simp add: warm_def)

lemma GetShieldedPrivateKey_split: "GetShieldedPrivateKey E u = (warm E u, snd (GetShieldedPrivateKey E u))"
  by (simp add: warm_def)

lemma signature_warm [simp]: "signature (warm E u) = signature u"
  by (auto simp: warm_def GetShieldedPrivateKey_def Let_def split: sum.splits)

lemma key_material_warm: "requireKeyMaterial u = Ok v \<Longrightarrow> requireKeyMaterial (warm E u) = Ok v"
  by (auto simp: requireKeyMaterial_def warm_def GetShieldedPrivateKey_def Let_def split: sum.splits)

lemma no_key_material_warm: "requireKeyMaterial u = Err e \<Longrightarrow> warm E u = u"
  by (auto simp: requireKeyMaterial_def warm_def GetShieldedPrivateKey_def Let_def ensure_def split: sum.splits if_splits)

lemma GetShieldedPublicKey_warm:
  "GetShieldedPublicKey E u = (warm E u, snd (GetShieldedPublicKey E u))"
  "GetShieldedPublicKey E (warm E u) = GetShieldedPublicKey E u"
proof -
  obtain r where r: "GetShieldedPrivateKey E u = (warm E u, r)" using GetShieldedPrivateKey_split by blast
  then have rw: "GetShieldedPrivateKey E (warm E u) = (warm E u, r)" by (simp add: GetShieldedPrivateKey_warm)
  show "GetShieldedPublicKey E u = (warm E u, snd (GetShieldedPublicKey E u))"
    "GetShieldedPublicKey E (warm E u) = GetShieldedPublicKey E u"
    by (simp_all add: GetShieldedPublicKey_def r rw)
qed

lemma poseidonSeed_warm:
  "fst (poseidonSeed E nonce u) = warm E u"
  "poseidonSeed E nonce (warm E u) = poseidonSeed E nonce u"
proof -
  obtain r where r: "GetShieldedPrivateKey E u = (warm E u, r)" using GetShieldedPrivateKey_split by blast
  then have rw: "GetShieldedPrivateKey E (warm E u) = (warm E u, r)" by (simp add: GetShieldedPrivateKey_warm)
  obtain q where q: "GetShieldedPublicKey E u = (warm E u, q)" using GetShieldedPublicKey_warm by blast
  then have qw: "GetShieldedPublicKey E (warm E u) = (warm E u, q)" by (simp add: GetShieldedPublicKey_warm(2))
  show "fst (poseidonSeed E nonce u) = warm E u" "poseidonSeed E nonce (warm E u) = poseidonSeed E nonce u"
    by (auto simp: poseidonSeed_def r rw q qw split: sum.splits)
qed

lemma GetAccessKey_warm:
  "fst (GetAccessKey E u) = warm E u"
  "GetAccessKey E (warm E u) = GetAccessKey E u"
proof -
  obtain r where r: "GetShieldedPrivateKey E u = (warm E u, r)" using GetShieldedPrivateKey_split by blast
  then have rw: "GetShieldedPrivateKey E (warm E u) = (warm E u, r)" by (simp add: GetShieldedPrivateKey_warm)
  obtain q where q: "GetShieldedPublicKey E u = (warm E u, q)" using GetShieldedPublicKey_warm by blast
  then have qw: "GetShieldedPublicKey E (warm E u) = (warm E u, q)" by (simp add: GetShieldedPublicKey_warm(2))
  show "fst (GetAccessKey E u) = warm E u" "GetAccessKey E (warm E u) = GetAccessKey E u"
    using no_key_material_warm [of u] key_material_warm [of u]
    by (cases "requireKeyMaterial u"; auto simp: GetAccessKey_def r rw q qw split: sum.splits)+
qed

lemma GetBackendToken_warm:
  "fst (GetBackendToken E u) = warm E u"
  "GetBackendToken E (warm E u) = GetBackendToken E u"
proof -
  obtain r where r: "GetAccessKey E u = (warm E u, r)" by (metis GetAccessKey_warm(1) prod.collapse)
  then have rw: "GetAccessKey E (warm E u) = (warm E u, r)" by (simp add: GetAccessKey_warm(2))
  obtain q where q: "GetShieldedPublicKey E u = (warm E u, q)" using GetShieldedPublicKey_warm by blast
  then have qw: "GetShieldedPublicKey E (warm E u) = (warm E u, q)" by (simp add: GetShieldedPublicKey_warm(2))
  show "fst (GetBackendToken E u) = warm E u" "GetBackendToken E (warm E u) = GetBackendToken E u"
    using no_key_material_warm [of u] key_material_warm [of u]
    by (cases "requireKeyMaterial u"; auto simp: GetBackendToken_def r rw q qw split: sum.splits)+
qed

lemma derivedKey_warm:
  "fst (derivedKeyFromNonce E nonce scope u) = warm E u"
  "derivedKeyFromNonce E nonce scope (warm E u) = derivedKeyFromNonce E nonce scope u"
proof -
  obtain r where r: "poseidonSeed E nonce u = (warm E u, r)" by (metis poseidonSeed_warm(1) prod.collapse)
  then have rw: "poseidonSeed E nonce (warm E u) = (warm E u, r)" by (simp add: poseidonSeed_warm(2))
  show "fst (derivedKeyFromNonce E nonce scope u) = warm E u"
    "derivedKeyFromNonce E nonce scope (warm E u) = derivedKeyFromNonce E nonce scope u"
    using no_key_material_warm [of u] key_material_warm [of u]
    by (cases "requireKeyMaterial u"; simp add: derivedKeyFromNonce_def r rw)+
qed

section \<open>The search for a randomisation\<close>

definition candidate :: "primitives \<Rightarrow> int \<Rightarrow> nat \<Rightarrow> int" where
  "candidate E initial i = (initial * 10 ^ i) mod fieldP E"

definition admissible :: "primitives \<Rightarrow> int \<Rightarrow> int \<Rightarrow> bool" where
  "admissible E k s \<longleftrightarrow> s < nullifyingPrivateKeyMod \<and> (s * k) mod fieldP E < nullifyingPrivateKeyMod"

lemma randomization_loop_step:
  "randomization_loop E a k i =
     (if admissible E k (candidate E a i) then Some (candidate E a i) else randomization_loop E a k (i + 1))"
  by (subst randomization_loop.simps) (auto simp: admissible_def candidate_def Let_def)

lemma randomization_loop_finds:
  assumes "i \<le> j" "admissible E k (candidate E a j)"
    and "\<And>m. i \<le> m \<Longrightarrow> m < j \<Longrightarrow> \<not> admissible E k (candidate E a m)"
  shows "randomization_loop E a k i = Some (candidate E a j)"
  using assms
proof (induction "j - i" arbitrary: i)
  case 0
  then show ?case by (subst randomization_loop_step) simp
next
  case (Suc n)
  then have "\<not> admissible E k (candidate E a i)" by auto
  moreover have "randomization_loop E a k (i + 1) = Some (candidate E a j)"
    using Suc by (intro Suc.hyps(1)) auto
  ultimately show ?case by (subst randomization_loop_step) simp
qed

lemma randomization_loop_result:
  "randomization_loop E a k i = Some s \<Longrightarrow> \<exists>j\<ge>i. s = candidate E a j \<and> admissible E k s"
proof (rule randomization_loop.raw_induct [of "\<lambda>E a k i s. \<exists>j\<ge>i. s = candidate E a j \<and> admissible E k s"])
  fix loop E a k i r
  assume ih: "\<And>E a k i s. loop E a k i = Some s \<Longrightarrow> \<exists>j\<ge>i. s = candidate E a j \<and> admissible E k s"
    and run: "(let s = a * 10 ^ i mod fieldP E; sPk = s * k mod fieldP E
      in if sPk < nullifyingPrivateKeyMod \<and> s < nullifyingPrivateKeyMod then Some s else loop E a k (i + 1)) = Some r"
  show "\<exists>j\<ge>i. r = candidate E a j \<and> admissible E k r"
  proof (cases "admissible E k (candidate E a i)")
    case True
    then show ?thesis using run by (auto simp: admissible_def candidate_def Let_def split: if_splits)
  next
    case False
    then have "loop E a k (i + 1) = Some r"
      using run by (auto simp: admissible_def candidate_def Let_def split: if_splits)
    then obtain j where "j \<ge> i + 1" "r = candidate E a j" "admissible E k r" using ih by blast
    then show ?thesis by (intro exI [of _ j]) simp
  qed
qed

text \<open>The loop returns the first admissible candidate, and returns exactly when there is one.\<close>

lemma randomization_first:
  "randomization_loop E a k 0 = Some s \<longleftrightarrow>
     (\<exists>i. s = candidate E a i \<and> admissible E k s \<and> (\<forall>m < i. \<not> admissible E k (candidate E a m)))"
  "randomization_loop E a k 0 = None \<longleftrightarrow> (\<forall>i. \<not> admissible E k (candidate E a i))"
proof -
  have least: "randomization_loop E a k 0 = Some (candidate E a (LEAST i. admissible E k (candidate E a i)))"
    if "admissible E k (candidate E a j)" for j
    using LeastI [of "\<lambda>i. admissible E k (candidate E a i)" j] that not_less_Least
    by (intro randomization_loop_finds) auto
  show none: "randomization_loop E a k 0 = None \<longleftrightarrow> (\<forall>i. \<not> admissible E k (candidate E a i))"
    using least randomization_loop_result [of E a k 0] by (metis not_None_eq option.distinct(1))
  show "randomization_loop E a k 0 = Some s \<longleftrightarrow>
     (\<exists>i. s = candidate E a i \<and> admissible E k s \<and> (\<forall>m < i. \<not> admissible E k (candidate E a m)))" (is "?l = ?r")
  proof
    assume ?l
    then obtain j where j: "admissible E k (candidate E a j)" using randomization_loop_result by blast
    let ?i = "LEAST i. admissible E k (candidate E a i)"
    have "admissible E k (candidate E a ?i)" using j by (rule LeastI)
    moreover have "s = candidate E a ?i" using least [OF j] \<open>?l\<close> by simp
    ultimately show ?r using not_less_Least by blast
  next
    assume ?r
    then show ?l using randomization_loop_finds [of 0 _ E k a] by blast
  qed
qed

section \<open>Properties\<close>


lemma EddsaSign_returns:
  assumes "\<And>xs. xs \<noteq> [] \<Longrightarrow> \<exists>h. PoseidonBig E xs = Ok h"
  shows "\<exists>r8 sig. EddsaSignPoseidon E prv msg = Ok (r8, sig)"
proof -
  have "\<exists>r8 sig. rbind (PoseidonBig E (x # xs)) (\<lambda>h. Ok (r h, s h)) = Ok (r8, sig)" for x xs
    and r :: "int \<Rightarrow> jub_point" and s :: "int \<Rightarrow> int"
    using assms [of "x # xs"] by auto
  then show ?thesis by (simp only: EddsaSignPoseidon_def Let_def)
qed

lemma toy_poseidon: "xs \<noteq> [] \<Longrightarrow> \<exists>h. PoseidonBig toy xs = Ok h"
  by (simp add: PoseidonBig_def toy_def)

lemma toy_signs: "\<exists>r8 sig. EddsaSignPoseidon toy [1, 2, 3] 42 = Ok (r8, sig)"
  by (rule EddsaSign_returns, rule toy_poseidon) simp


text \<open>The pruned scalar of a private key has bit 254 as its highest bit and is a multiple of the
  cofactor 8, whatever the 64 bytes of the Blake hash.\<close>

theorem pruned_scalar_interval:
  assumes "length (blake512 E prv) = 64"
  shows "2 ^ 254 \<le> eddsaScalar E prv \<and> eddsaScalar E prv < 2 ^ 255 \<and> 8 dvd eddsaScalar E prv"
  by (rule eddsaScalar_bounds [OF assms])

lemma pruned_scalar_interval_witness: "2 ^ 254 \<le> eddsaScalar toy [1, 2, 3]"
  using pruned_scalar_interval [of toy "[1, 2, 3]"] by (simp add: toy_def)

text \<open>The cached shielded private key is transparent: after any getter that fills the cache, every
  getter returns exactly what it returns on the receiver without it, errors included.\<close>

theorem cached_key_transparent:
  "snd (GetShieldedPrivateKey E (warm E u)) = snd (GetShieldedPrivateKey E u) \<and>
   GetShieldedPublicKey E (warm E u) = GetShieldedPublicKey E u \<and>
   GetAccessKey E (warm E u) = GetAccessKey E u \<and>
   GetBackendToken E (warm E u) = GetBackendToken E u \<and>
   GetShieldedPrivateKeyFromNonce E nonce (warm E u) = GetShieldedPrivateKeyFromNonce E nonce u \<and>
   fst (GetBackendToken E u) = warm E u \<and> fst (GetAccessKey E u) = warm E u \<and>
   fst (GetShieldedPrivateKeyFromNonce E nonce u) = warm E u"
  by (simp add: GetShieldedPrivateKey_warm GetShieldedPublicKey_warm(2) GetAccessKey_warm GetBackendToken_warm
      GetShieldedPrivateKeyFromNonce_def derivedKey_warm)

text \<open>The search for a randomisation returns the first power-of-ten multiple of the seed that stays
  below \<open>2 ^ 250\<close> in the field together with its product by the key, and it returns exactly when there is
  one: a seed with no such multiple keeps the loop running forever.\<close>

theorem randomization_search:
  assumes "ParseBigInt privateKey = Ok k"
  shows "(FindCorrectRandomization E a privateKey = Ok s \<longleftrightarrow>
      (\<exists>i. s = candidate E a i \<and> admissible E k s \<and> (\<forall>m < i. \<not> admissible E k (candidate E a m)))) \<and>
    (FindCorrectRandomization E a privateKey = Err Diverges \<longleftrightarrow> (\<forall>i. \<not> admissible E k (candidate E a i)))"
  unfolding randomization_first [symmetric] using assms
  by (simp add: FindCorrectRandomization_def split: option.splits)

lemma randomization_search_witness: "FindCorrectRandomization toy 7 ''5'' = Ok 7"
proof -
  have "candidate toy 7 0 = 7" "admissible toy 5 7"
    by (simp_all add: candidate_def admissible_def toy_def nullifyingPrivateKeyMod_def)
  moreover have "ParseBigInt ''5'' = Ok 5" by code_simp
  ultimately show ?thesis using randomization_search [of "''5''" 5 toy 7 7] by (metis not_less0)
qed

text \<open>The owner of a key recognises the stealth pairs made for it, in both modes of the check.\<close>

theorem stealth_pair_verifies:
  assumes "GetRandomizedStealthPair E s privateKey = Ok (h0, h1)"
  shows "VerifyStealthPair E h0 h1 privateKey onlyYCheck = Ok True \<and>
    h0 = GetH0FromRandomization E s \<and> (privateKey \<noteq> [] \<longrightarrow> FindH0 E s privateKey = Ok (Some h0))"
proof -
  obtain k where "ParseBigInt privateKey = Ok k" "h0 = jubMul E s (jubB8 E)" "h1 = jubMul E k h0"
    using assms by (auto simp: GetRandomizedStealthPair_def Let_def rbind_Ok_iff)
  then show ?thesis
    by (simp add: GetRandomizedStealthPair_def VerifyStealthPair_def GetH1FromH0_def FindH0_def
        GetH0FromRandomization_def Let_def)
qed

lemma stealth_pair_verifies_witness: "VerifyStealthPair toy (4, 8) (7, 1) ''5'' False = Ok True"
proof -
  have "GetRandomizedStealthPair toy 4 ''5'' = Ok ((4, 8), (7, 1))" by code_simp
  from stealth_pair_verifies [OF this, of False] show ?thesis by blast
qed

end
