(* ===== verification/UtxoCorrect.thy ===== *)
theory UtxoCorrect
  imports KeysCorrect
begin

text \<open>
  What a note guarantees: its cached hashes never change an answer, the commitment and the nullifier are
  the Poseidon hashes of the protocol, a note derived from another is hashed afresh, and the parameters
  survive their JSON form.
\<close>

section \<open>Getters and caches\<close>

lemma ToBeHex_nonempty [simp]: "ToBeHex n \<noteq> []"
  by (simp add: ToBeHex_def Let_def)

lemma DeriveStealthAddress_nonempty: "DeriveStealthAddress E h0 k spk = Ok addr \<Longrightarrow> addr \<noteq> []"
  by (auto simp: DeriveStealthAddress_def Let_def rbind_Ok_iff split: option.splits list.splits)

text \<open>What the three getters leave behind: only their caches.\<close>

definition stealthed :: "primitives \<Rightarrow> utxo \<Rightarrow> utxo" where
  "stealthed E u = fst (GetStealthAddress E u)"

lemma GetStealthAddress_split: "GetStealthAddress E u = (stealthed E u, snd (GetStealthAddress E u))"
  by (simp add: stealthed_def)

lemma stealthed_cases:
  "stealthed E u = u \<or> (\<exists>a. a \<noteq> [] \<and> StealthAddress u = [] \<and> stealthed E u = u\<lparr>StealthAddress := a\<rparr> \<and> snd (GetStealthAddress E u) = Ok a)"
  using DeriveStealthAddress_nonempty
  by (fastforce simp: stealthed_def GetStealthAddress_def split: option.splits sum.splits)

lemma stealthed_fields [simp]:
  "Amount (stealthed E u) = Amount u" "Erc20TokenAddress (stealthed E u) = Erc20TokenAddress u"
  "TimeStamp (stealthed E u) = TimeStamp u" "NullifyingKey (stealthed E u) = NullifyingKey u"
  "commitment (stealthed E u) = commitment u" "nullifier (stealthed E u) = nullifier u"
  using stealthed_cases [of E u] by auto

lemma GetStealthAddress_stealthed: "GetStealthAddress E (stealthed E u) = (stealthed E u, snd (GetStealthAddress E u))"
  using stealthed_cases [of E u] GetStealthAddress_split [of E u]
  by (auto simp: GetStealthAddress_def [of E "u\<lparr>StealthAddress := _\<rparr>"])

lemma stealth_commitment_irrelevant:
  "snd (GetStealthAddress E (u\<lparr>commitment := c\<rparr>)) = snd (GetStealthAddress E u)"
  "stealthed E (u\<lparr>commitment := c\<rparr>) = (stealthed E u)\<lparr>commitment := c\<rparr>"
  "snd (GetStealthAddress E (u\<lparr>nullifier := c\<rparr>)) = snd (GetStealthAddress E u)"
  "stealthed E (u\<lparr>nullifier := c\<rparr>) = (stealthed E u)\<lparr>nullifier := c\<rparr>"
  by (auto simp: stealthed_def GetStealthAddress_def split: option.splits sum.splits)

text \<open>The hash a commitment is, as a function of the fields.\<close>

definition commitment_hash :: "primitives \<Rightarrow> utxo \<Rightarrow> string \<Rightarrow> int result" where
  "commitment_hash E u stealth =
     rbind (ParseBigInt (Erc20TokenAddress u)) (\<lambda>token.
     rbind (ParseBigInt stealth) (\<lambda>stealthBig.
     rbind (ParseBigInt (TimeStamp u)) (\<lambda>ts.
     case Amount u of None \<Rightarrow> Err Panic | Some amount \<Rightarrow> PoseidonBig E [amount, token, stealthBig, ts])))"

definition nullifier_hash :: "primitives \<Rightarrow> string \<Rightarrow> string \<Rightarrow> int result" where
  "nullifier_hash E key c =
     rbind (ParseBigInt c) (\<lambda>commitmentBig.
     rbind (ParseBigInt key) (\<lambda>nk.
     rbind (PoseidonBig E [nk, commitmentBig]) (\<lambda>sig.
     PoseidonBig E [commitmentBig, sig])))"

lemma GetCommitment_alt:
  "GetCommitment E u =
     (if commitment u \<noteq> [] then (u, Ok (commitment u))
      else case snd (GetStealthAddress E u) of
             Inl err \<Rightarrow> (stealthed E u, Err err)
           | Inr stealth \<Rightarrow>
               (case commitment_hash E u stealth of
                  Inl err \<Rightarrow> (stealthed E u, Err err)
                | Inr h \<Rightarrow> ((stealthed E u)\<lparr>commitment := ToBeHex (Some h)\<rparr>, Ok (ToBeHex (Some h)))))"
  by (subst GetCommitment_def, subst GetStealthAddress_split)
     (auto simp: commitment_hash_def split: sum.splits)

definition committed :: "primitives \<Rightarrow> utxo \<Rightarrow> utxo" where
  "committed E u = fst (GetCommitment E u)"

lemma GetCommitment_split: "GetCommitment E u = (committed E u, snd (GetCommitment E u))"
  by (simp add: committed_def)

lemma committed_fields [simp]:
  "Amount (committed E u) = Amount u" "Erc20TokenAddress (committed E u) = Erc20TokenAddress u"
  "TimeStamp (committed E u) = TimeStamp u" "NullifyingKey (committed E u) = NullifyingKey u"
  "nullifier (committed E u) = nullifier u"
  by (auto simp: committed_def GetCommitment_alt split: sum.splits)

lemma GetNullifier_alt:
  "GetNullifier E u =
     (if nullifier u \<noteq> [] then (u, Ok (nullifier u))
      else if NullifyingKey u = [] then (u, Err (Errorf ''no nullifiers if private key is not provided''))
      else case snd (GetCommitment E u) of
             Inl err \<Rightarrow> (committed E u, Err err)
           | Inr c \<Rightarrow>
               (case nullifier_hash E (NullifyingKey u) c of
                  Inl err \<Rightarrow> (committed E u, Err err)
                | Inr n \<Rightarrow> ((committed E u)\<lparr>nullifier := ToBeHex (Some n)\<rparr>, Ok (ToBeHex (Some n)))))"
  by (subst GetNullifier_def, subst GetCommitment_split)
     (auto simp: nullifier_hash_def split: sum.splits)

lemma commitment_hash_fields:
  "commitment_hash E (stealthed E u) = commitment_hash E u"
  "commitment_hash E (u\<lparr>nullifier := n\<rparr>) = commitment_hash E u"
  "commitment_hash E (u\<lparr>commitment := n\<rparr>) = commitment_hash E u"
  by (simp_all add: commitment_hash_def fun_eq_iff)

lemma stealthed_stealthed [simp]: "stealthed E (stealthed E u) = stealthed E u"
  using GetStealthAddress_stealthed [of E u] by (simp add: stealthed_def)

text \<open>After the commitment getter.\<close>

lemma after_commitment:
  "snd (GetStealthAddress E (committed E u)) = snd (GetStealthAddress E u)"
  "snd (GetCommitment E (committed E u)) = snd (GetCommitment E u)"
  "committed E (committed E u) = committed E u"
proof -
  have c: "committed E u = u \<and> commitment u \<noteq> [] \<or>
    committed E u = stealthed E u \<and> commitment u = [] \<or>
    (\<exists>h. h \<noteq> [] \<and> committed E u = (stealthed E u)\<lparr>commitment := h\<rparr> \<and> snd (GetCommitment E u) = Ok h)"
    by (auto simp: committed_def GetCommitment_alt split: sum.splits)
  show "snd (GetStealthAddress E (committed E u)) = snd (GetStealthAddress E u)"
    using c by (auto simp: stealth_commitment_irrelevant GetStealthAddress_stealthed)
  have again: "GetCommitment E (stealthed E u) = GetCommitment E u" if "commitment u = []"
    using that by (simp add: GetCommitment_alt GetStealthAddress_stealthed commitment_hash_fields split: sum.splits)
  show "snd (GetCommitment E (committed E u)) = snd (GetCommitment E u)"
    using c again by (auto simp: GetCommitment_alt [of E "_\<lparr>commitment := _\<rparr>"])
  show "committed E (committed E u) = committed E u"
    using c again by (auto simp: committed_def GetCommitment_alt [of E "_\<lparr>commitment := _\<rparr>"])
qed

lemma commitment_nullifier_irrelevant:
  "snd (GetCommitment E (u\<lparr>nullifier := n\<rparr>)) = snd (GetCommitment E u)"
  "committed E (u\<lparr>nullifier := n\<rparr>) = (committed E u)\<lparr>nullifier := n\<rparr>"
  by (auto simp: committed_def GetCommitment_alt stealth_commitment_irrelevant commitment_hash_fields split: sum.splits)

lemma after_stealth:
  "snd (GetCommitment E (stealthed E u)) = snd (GetCommitment E u)"
  "snd (GetNullifier E (stealthed E u)) = snd (GetNullifier E u)"
proof -
  show c: "snd (GetCommitment E (stealthed E u)) = snd (GetCommitment E u)"
    by (auto simp: GetCommitment_alt GetStealthAddress_stealthed commitment_hash_fields split: sum.splits)
  show "snd (GetNullifier E (stealthed E u)) = snd (GetNullifier E u)"
    by (auto simp: GetNullifier_alt c split: sum.splits)
qed

text \<open>After the nullifier getter.\<close>

definition nullified :: "primitives \<Rightarrow> utxo \<Rightarrow> utxo" where
  "nullified E u = fst (GetNullifier E u)"

lemma nullified_cases:
  "nullified E u = u \<or> nullified E u = committed E u \<and> nullifier u = [] \<or>
   (\<exists>n. n \<noteq> [] \<and> nullified E u = (committed E u)\<lparr>nullifier := n\<rparr> \<and> snd (GetNullifier E u) = Ok n)"
  by (auto simp: nullified_def GetNullifier_alt split: sum.splits)

lemma after_nullifier:
  "snd (GetStealthAddress E (nullified E u)) = snd (GetStealthAddress E u)"
  "snd (GetCommitment E (nullified E u)) = snd (GetCommitment E u)"
  "snd (GetNullifier E (nullified E u)) = snd (GetNullifier E u)"
  "snd (GetNullifier E (committed E u)) = snd (GetNullifier E u)"
proof -
  show "snd (GetStealthAddress E (nullified E u)) = snd (GetStealthAddress E u)"
    using nullified_cases [of E u] by (auto simp: stealth_commitment_irrelevant after_commitment)
  show "snd (GetCommitment E (nullified E u)) = snd (GetCommitment E u)"
    using nullified_cases [of E u] by (auto simp: commitment_nullifier_irrelevant after_commitment)
  show c: "snd (GetNullifier E (committed E u)) = snd (GetNullifier E u)"
    by (auto simp: GetNullifier_alt after_commitment split: sum.splits)
  show "snd (GetNullifier E (nullified E u)) = snd (GetNullifier E u)"
    using nullified_cases [of E u] c by (auto simp: GetNullifier_alt [of E "_\<lparr>nullifier := _\<rparr>"])
qed

lemmas getter_facts = after_stealth after_commitment after_nullifier GetStealthAddress_stealthed

section \<open>Construction\<close>

lemma or_simps [simp]:
  "or_string [] str = str" "or_ptr None old = old" "or_ptr (Some x) old = Some x"
  by (simp_all add: or_string_def or_ptr_def)

lemma int_String_nonempty [simp]: "int_String n \<noteq> []"
  by (simp add: int_String_def int_text_def)

lemma NewUtxo_fields:
  assumes "NewUtxo E now seed p = Ok u"
  shows "Amount u = pAmount p" "Erc20TokenAddress u = pErc20TokenAddress p" "MintAddress u = pMintAddress p"
    "NullifyingKey u = pNullifyingKey p" "SpendingPublicKey u = pSpendingPublicKey p"
    "StealthAddress u = pStealthAddress p" "EncryptionKey u = pEncryptionKey p" "IsBlocked u = pIsBlocked p"
    "commitment u = pCommitment p" "nullifier u = pNullifier p"
    "TimeStamp u \<noteq> []" "pTimeStamp p \<noteq> [] \<Longrightarrow> TimeStamp u = pTimeStamp p"
    "H0 u \<noteq> None" "pH0 p \<noteq> None \<Longrightarrow> H0 u = pH0 p"
  using assms by (auto simp: NewUtxo_def Let_def rbind_Ok_iff split: if_splits option.splits)

lemma NewUtxo_rebuild:
  assumes "TimeStamp u \<noteq> []" "H0 u \<noteq> None"
  shows "NewUtxo E now seed (GetConstructableParams u) = Ok u"
  using assms by (auto simp: NewUtxo_def GetConstructableParams_def)

section \<open>JSON\<close>

lemma rmap_parse [simp]: "rmap ParseBigInt (map int_String ks) = Ok ks"
  by (induction ks) auto

definition normalised :: "utxo_params \<Rightarrow> utxo_params" where
  "normalised p = p\<lparr>pAmount := Some (case pAmount p of None \<Rightarrow> 0 | Some a \<Rightarrow> a),
     pSpendingPublicKey := (if pSpendingPublicKey p = Some [] then None else pSpendingPublicKey p)\<rparr>"

lemma wire_fields:
  "optionalBigInt (case a of None \<Rightarrow> ''0'' | Some x \<Rightarrow> int_String x) = Ok (Some (case a of None \<Rightarrow> 0 | Some x \<Rightarrow> x))"
  "optionalBigInt (case r of None \<Rightarrow> [] | Some x \<Rightarrow> int_String x) = Ok r"
  "bigIntSlice (case ks of None \<Rightarrow> [] | Some xs \<Rightarrow> map int_String xs) = Ok (if ks = Some [] then None else ks)"
  "jubPointFromStrings (case h of None \<Rightarrow> [] | Some (x, y) \<Rightarrow> [int_String x, int_String y]) = Ok h"
proof -
  have "ParseBigInt ''0'' = Ok 0" by code_simp
  then show "optionalBigInt (case a of None \<Rightarrow> ''0'' | Some x \<Rightarrow> int_String x) = Ok (Some (case a of None \<Rightarrow> 0 | Some x \<Rightarrow> x))"
    by (cases a) (simp_all add: optionalBigInt_def)
qed (auto simp: optionalBigInt_def bigIntSlice_def jubPointFromStrings_def split: option.splits)

lemma unmarshal_marshal: "UnmarshalUtxoParams (MarshalUtxoParams p) = Ok (normalised p)"
  by (cases p) (simp add: UnmarshalUtxoParams_def MarshalUtxoParams_def normalised_def wire_fields)

section \<open>Properties\<close>

text \<open>Every hash getter of a note returns the same answer, errors included, before and after any
  other getter has filled its caches.\<close>

theorem note_getters_stable:
  "v \<in> {fst (GetStealthAddress E u), fst (GetCommitment E u), fst (GetNullifier E u)} \<Longrightarrow>
     snd (GetStealthAddress E v) = snd (GetStealthAddress E u) \<and>
     snd (GetCommitment E v) = snd (GetCommitment E u) \<and>
     snd (GetNullifier E v) = snd (GetNullifier E u)"
  unfolding stealthed_def [symmetric] committed_def [symmetric] nullified_def [symmetric]
  using getter_facts [of E u] by auto

definition toy_note :: utxo where
  "toy_note = \<lparr>Amount = Some 10, Erc20TokenAddress = ''0x03'', MintAddress = [], TimeStamp = ''5'',
     NullifyingKey = ''0x07'', SpendingPublicKey = Some [1, 2], H0 = Some (4, 8), StealthAddress = [],
     EncryptionKey = [], IsBlocked = False, commitment = [], nullifier = []\<rparr>"

lemma note_getters_stable_witness:
  "snd (GetCommitment toy (fst (GetNullifier toy toy_note))) = snd (GetCommitment toy toy_note)"
  using note_getters_stable [of "fst (GetNullifier toy toy_note)" toy toy_note] by simp

text \<open>The commitment of a note is the Poseidon hash of amount, token, stealth address and time stamp,
  and its nullifier binds the commitment to the nullifying key: the hash of the commitment and of the
  hash of key and commitment. The texts the getters return are read back without loss.\<close>

theorem note_hashes:
  assumes "field_hash E" "commitment u = []" "nullifier u = []" "NullifyingKey u \<noteq> []"
    and "snd (GetStealthAddress E u) = Ok stealth"
    and "ParseBigInt (Erc20TokenAddress u) = Ok token" "ParseBigInt stealth = Ok st"
    and "ParseBigInt (TimeStamp u) = Ok ts" "ParseBigInt (NullifyingKey u) = Ok nk" "Amount u = Some a"
    and "PoseidonBig E [a, token, st, ts] = Ok c" "PoseidonBig E [nk, c] = Ok sig"
    and "PoseidonBig E [c, sig] = Ok n"
  shows "snd (GetCommitment E u) = Ok (ToBeHex (Some c)) \<and> ParseBigInt (ToBeHex (Some c)) = Ok c \<and>
    snd (GetNullifier E u) = Ok (ToBeHex (Some n)) \<and> ParseBigInt (ToBeHex (Some n)) = Ok n"
proof -
  have "0 \<le> c" "0 \<le> n" using PoseidonBig_field [OF assms(1)] assms(11,13) by auto
  then have p: "ParseBigInt (ToBeHex (Some c)) = Ok c" "ParseBigInt (ToBeHex (Some n)) = Ok n"
    by (simp_all add: ParseBigInt_ToBeHex)
  have c: "snd (GetCommitment E u) = Ok (ToBeHex (Some c))"
    using assms by (simp add: GetCommitment_alt commitment_hash_def)
  have "snd (GetNullifier E u) = Ok (ToBeHex (Some n))"
    using assms c p by (simp add: GetNullifier_alt nullifier_hash_def)
  with c p show ?thesis by simp
qed

lemma note_hashes_witness:
  "\<exists>c n. snd (GetCommitment toy toy_note) = Ok (ToBeHex (Some c)) \<and> snd (GetNullifier toy toy_note) = Ok (ToBeHex (Some n))"
proof -
  have s: "snd (GetStealthAddress toy toy_note) = Ok ''0x4e''" by code_simp
  have p: "ParseBigInt (Erc20TokenAddress toy_note) = Ok 3" "ParseBigInt ''0x4e'' = Ok 78"
    "ParseBigInt (TimeStamp toy_note) = Ok 5" "ParseBigInt (NullifyingKey toy_note) = Ok 7" by code_simp+
  obtain c where c: "PoseidonBig toy [10, 3, 78, 5] = Ok c" using toy_poseidon by blast
  obtain sig where sig: "PoseidonBig toy [7, c] = Ok sig" using toy_poseidon by blast
  obtain n where n: "PoseidonBig toy [c, sig] = Ok n" using toy_poseidon by blast
  have f: "commitment toy_note = []" "nullifier toy_note = []" "NullifyingKey toy_note \<noteq> []" "Amount toy_note = Some 10"
    by (simp_all add: toy_note_def)
  show ?thesis
    using note_hashes [OF toy_field_hash f(1-3) s p f(4) c sig n] by blast
qed

text \<open>A note derived from another one by \<open>CreateFrom\<close> carries no hash of its source: its commitment
  and its nullifier are computed from the patched fields, as when a claimed note gets its owner's
  nullifying key or a bridged note its new token. The stealth address is kept unless the patch names
  one, also where the patch changes the keys it was derived from.\<close>

theorem derived_note_rehashed:
  assumes "CreateFrom E now seed src patch = Ok u" and "pCommitment patch = []" "pNullifier patch = []"
  shows "commitment u = [] \<and> nullifier u = [] \<and>
    Amount u = or_ptr (pAmount patch) (Amount src) \<and>
    Erc20TokenAddress u = or_string (pErc20TokenAddress patch) (Erc20TokenAddress src) \<and>
    NullifyingKey u = or_string (pNullifyingKey patch) (NullifyingKey src) \<and>
    StealthAddress u = or_string (pStealthAddress patch) (StealthAddress src) \<and>
    (H0 src \<noteq> None \<longrightarrow> H0 u = or_ptr (pH0 patch) (H0 src)) \<and>
    (StealthAddress u \<noteq> [] \<longrightarrow>
       snd (GetCommitment E u) = rbind (commitment_hash E u (StealthAddress u)) (\<lambda>c. Ok (ToBeHex (Some c))))"
proof -
  let ?p = "applyPatch ((GetConstructableParams src)\<lparr>pCommitment := [], pNullifier := []\<rparr>) patch"
  have new: "NewUtxo E now seed ?p = Ok u" using assms(1) by (simp add: CreateFrom_def)
  note f = NewUtxo_fields [OF new]
  have "commitment u = [] \<and> nullifier u = []" using f assms by (simp add: applyPatch_def)
  moreover have "StealthAddress u \<noteq> [] \<longrightarrow> snd (GetStealthAddress E u) = Ok (StealthAddress u)"
    by (simp add: GetStealthAddress_def)
  ultimately show ?thesis using f
    by (auto simp: applyPatch_def GetConstructableParams_def GetCommitment_alt or_ptr_def split: sum.splits)
qed

lemma derived_note_rehashed_witness:
  "\<exists>u. CreateFrom toy 0 (Err Panic) (toy_note\<lparr>StealthAddress := ''0x20'', commitment := ''0x01''\<rparr>) (no_params\<lparr>pErc20TokenAddress := ''0x09''\<rparr>) = Ok u
    \<and> commitment u = [] \<and> Erc20TokenAddress u = ''0x09''"
proof -
  obtain u where u: "CreateFrom toy 0 (Err Panic) (toy_note\<lparr>StealthAddress := ''0x20'', commitment := ''0x01''\<rparr>) (no_params\<lparr>pErc20TokenAddress := ''0x09''\<rparr>) = Ok u"
    by (simp add: CreateFrom_def NewUtxo_def applyPatch_def GetConstructableParams_def toy_note_def no_params_def)
  then show ?thesis
    using derived_note_rehashed [OF u] by (simp add: no_params_def or_string_def)
qed

text \<open>A note made by \<open>NewUtxo\<close> survives storage: its constructable parameters, written as JSON, read
  back and given to \<open>NewUtxo\<close>, rebuild the very same note, cached hashes included. Only an absent amount
  and an empty spending key come back as zero and as absent.\<close>

theorem stored_note_rebuilt:
  assumes "NewUtxo E now seed p = Ok u"
  shows "UnmarshalUtxoParams (MarshalUtxoParams p) = Ok (normalised p) \<and>
    (Amount u \<noteq> None \<and> SpendingPublicKey u \<noteq> Some [] \<longrightarrow>
       rbind (UnmarshalUtxoParams (MarshalUtxoParams (GetConstructableParams u))) (NewUtxo E now' seed') = Ok u)"
proof -
  have "normalised (GetConstructableParams u) = GetConstructableParams u"
    if "Amount u \<noteq> None \<and> SpendingPublicKey u \<noteq> Some []"
    using that by (auto simp: normalised_def GetConstructableParams_def)
  then show ?thesis
    using NewUtxo_rebuild [of u] NewUtxo_fields [OF assms] by (simp add: unmarshal_marshal)
qed

lemma stored_note_rebuilt_witness:
  "rbind (UnmarshalUtxoParams (MarshalUtxoParams (GetConstructableParams toy_note))) (NewUtxo toy 7 (Err Panic)) = Ok toy_note"
proof -
  have "NewUtxo toy 0 (Err Panic) (GetConstructableParams toy_note) = Ok toy_note"
    by (simp add: NewUtxo_def GetConstructableParams_def toy_note_def)
  moreover have "Amount toy_note \<noteq> None \<and> SpendingPublicKey toy_note \<noteq> Some []" by (simp add: toy_note_def)
  ultimately show ?thesis using stored_note_rebuilt by blast
qed

end
