(* ===== verification/EnclaveTypes.thy ===== *)
theory EnclaveTypes
  imports Utxo
begin

text \<open>
  \<open>internal/types/remote_tx_build_types.go\<close>: the requests sent to the enclave, what it echoes back, and
  the preimage of the hash it asks the caller to sign; and from \<open>construct_tx_enclave.go\<close> how a request
  is built and how the echo is compared. Where the code can tell a nil slice from an empty one, the
  field is a \<open>slice\<close>.
\<close>

type_synonym 'a slice = "'a list option"

definition elems :: "'a slice \<Rightarrow> 'a list" where
  "elems s = (case s of None \<Rightarrow> [] | Some xs \<Rightarrow> xs)"

lemma elems_simps [simp]: "elems None = []" "elems (Some xs) = xs"
  by (simp_all add: elems_def)

section \<open>Fees, dimensions, speculative notes\<close>

record fee_structure =
  FeeToken :: string
  FlatFee :: int
  VariableRate :: int

record fee_structure_json =
  jFeeToken :: string
  jFlatFee :: string
  jVariableRate :: string

definition ZeroAddress :: string where
  "ZeroAddress = ''0x0000000000000000000000000000000000000000''"

definition ZeroFeeStructure :: fee_structure where
  "ZeroFeeStructure = \<lparr>FeeToken = ZeroAddress, FlatFee = 0, VariableRate = 0\<rparr>"

record dim_data =
  TokenNumber :: int
  NullifierAmount :: int
  OutputAmount :: int

record speculative_utxo =
  suAmount :: string
  suErc20TokenAddress :: string
  suMintAddress :: string
  suTimeStamp :: string
  suStealthAddress :: string
  suIsBlocked :: bool
  suH0 :: "string \<times> string"

record speculative_params =
  PendingLeaves :: "string slice"
  InputUtxos :: "speculative_utxo slice slice"

section \<open>Chain families\<close>

definition TronChainIDs :: "int list" where
  "TronChainIDs = [3448148188, 728126428, 103]"

definition SolanaChainIDs :: "int list" where
  "SolanaChainIDs = [501, 102, 502]"

definition IsTronLike :: "int \<Rightarrow> bool" where
  "IsTronLike chainID = (chainID \<in> set TronChainIDs)"

definition IsSolanaLike :: "int \<Rightarrow> bool" where
  "IsSolanaLike chainID = (chainID \<in> set SolanaChainIDs)"

section \<open>prepare-tx\<close>

record prepare_tx_params =
  pChainID :: int
  pErc20Addresses :: "string slice"
  pAmountChanges :: "int slice"
  pExternalAddress :: string
  pOriginalSender :: string
  pRelay :: string
  pAutoSelectRelay :: bool
  pSkipRelayReservation :: bool
  pFeeStructure :: "fee_structure option"
  pExternalActionID :: string
  pExternalActionMetadata :: string
  pOnChainCreation :: "bool slice"
  pRecipientAddress :: "string slice"
  pRecipientAmounts :: "int slice slice"
  pSelfOutputAmounts :: "int slice"
  pInputCommitments :: "string slice"
  pUseBlockedUtxos :: bool
  pCreateBlockedUtxos :: bool
  pForceEmptyUtxos :: bool
  pSkipLock :: bool
  pMessageSeed :: "int option"
  pSpeculative :: "speculative_params option"
  pSlippageValues :: "int slice"
  pReceiveVaultAddress :: string

record prepare_tx_request =
  qChainID :: string
  qHinkalAddress :: string
  qErc20Addresses :: "string slice"
  qAmountChanges :: "string slice"
  qExternalAddress :: string
  qOriginalSender :: string
  qRelay :: string
  qAutoSelectRelay :: bool
  qSkipRelayReservation :: bool
  qFeeStructure :: "fee_structure_json option"
  qExternalActionID :: string
  qExternalActionMetadata :: string
  qOnChainCreation :: "bool slice"
  qRecipientAddress :: "string slice"
  qRecipientAmounts :: "string slice slice"
  qSelfOutputAmounts :: "string slice"
  qInputCommitments :: "string slice"
  qUseBlockedUtxos :: bool
  qCreateBlockedUtxos :: bool
  qForceEmptyUtxos :: bool
  qSkipLock :: bool
  qMessageSeed :: string
  qSpeculative :: "speculative_params option"
  qSlippageValues :: "string slice"
  qReceiveVaultAddress :: string
  qNullifyingKey :: string
  qSpendingPublicKey :: "string \<times> string"

record echoed_prepare_tx_request =
  eChainID :: string
  eHinkalAddress :: string
  eErc20Addresses :: "string slice"
  eAmountChanges :: "string slice"
  eExternalAddress :: string
  eOriginalSender :: string
  eRelay :: string
  eFeeStructure :: "fee_structure_json option"
  eExternalActionID :: string
  eExternalActionMetadata :: string
  eOnChainCreation :: "bool slice"
  eRecipientAddress :: "string slice"
  eRecipientAmounts :: "string slice slice"
  eSelfOutputAmounts :: "string slice"
  eInputCommitments :: "string slice"
  eUseBlockedUtxos :: bool
  eCreateBlockedUtxos :: bool
  eForceEmptyUtxos :: bool
  eSkipLock :: bool
  eMessageSeed :: string
  eSpeculative :: "speculative_params option"
  eSlippageValues :: "string slice"
  eReceiveVaultAddress :: string

section \<open>Responses\<close>

record prepared_job =
  JobID :: string
  SignedMessageHash :: string

record witness_preimage = prepared_job +
  RootHashHinkal :: string
  OutTimeStamp :: string
  OutH1Ax :: string
  OutH1Ay :: string
  H0Ax :: string
  H0Ay :: string
  OutAmounts :: "string list list"
  OutNoteH0Ax :: "string list list"
  OutNoteH0Ay :: "string list list"
  MessageSeed :: string
  EncryptedOutputs :: "string list list"
  OnChainEncryptedOutput :: string
  InAmounts :: "string list list"
  InH0Ax :: "string list list"
  InH0Ay :: "string list list"
  InTimeStamps :: "string list list"
  Relay :: string

record prepare_tx_response = witness_preimage +
  Request :: echoed_prepare_tx_request

record stuck_job = witness_preimage +
  Dimensions :: dim_data

section \<open>Building a request\<close>

definition bigIntStrings :: "int slice \<Rightarrow> string slice" where
  "bigIntStrings values = map_option (map int_String) values"

definition bigIntStringsNested :: "int slice slice \<Rightarrow> string slice slice" where
  "bigIntStringsNested values = map_option (map bigIntStrings) values"

definition nilIfEmpty :: "'a slice \<Rightarrow> 'a slice" where
  "nilIfEmpty values = (if elems values = [] then None else values)"

definition fee_json :: "fee_structure \<Rightarrow> fee_structure_json" where
  "fee_json f = \<lparr>jFeeToken = FeeToken f, jFlatFee = int_String (FlatFee f), jVariableRate = int_String (VariableRate f)\<rparr>"

text \<open>\<open>hinkalAddress\<close> is \<open>constants.HinkalAddress\<close>, a lookup in the embedded deployment files.\<close>

definition buildPrepareTxRequest ::
    "(int \<Rightarrow> string result) \<Rightarrow> prepare_tx_params \<Rightarrow> string \<Rightarrow> string \<times> string \<Rightarrow> prepare_tx_request result" where
  "buildPrepareTxRequest hinkalAddress p nk spendingPublicKey =
     rbind (hinkalAddress (pChainID p)) (\<lambda>addr. Ok
       \<lparr>qChainID = int_String (pChainID p), qHinkalAddress = addr,
        qErc20Addresses = pErc20Addresses p, qAmountChanges = bigIntStrings (pAmountChanges p),
        qExternalAddress = pExternalAddress p, qOriginalSender = pOriginalSender p, qRelay = pRelay p,
        qAutoSelectRelay = pAutoSelectRelay p, qSkipRelayReservation = pSkipRelayReservation p,
        qFeeStructure = map_option fee_json (pFeeStructure p),
        qExternalActionID = pExternalActionID p, qExternalActionMetadata = pExternalActionMetadata p,
        qOnChainCreation = nilIfEmpty (pOnChainCreation p),
        qRecipientAddress = nilIfEmpty (pRecipientAddress p),
        qRecipientAmounts = nilIfEmpty (bigIntStringsNested (pRecipientAmounts p)),
        qSelfOutputAmounts = nilIfEmpty (bigIntStrings (pSelfOutputAmounts p)),
        qInputCommitments = nilIfEmpty (pInputCommitments p),
        qUseBlockedUtxos = pUseBlockedUtxos p, qCreateBlockedUtxos = pCreateBlockedUtxos p,
        qForceEmptyUtxos = pForceEmptyUtxos p, qSkipLock = pSkipLock p,
        qMessageSeed = (case pMessageSeed p of None \<Rightarrow> [] | Some s \<Rightarrow> int_String s),
        qSpeculative = pSpeculative p, qSlippageValues = nilIfEmpty (bigIntStrings (pSlippageValues p)),
        qReceiveVaultAddress = pReceiveVaultAddress p,
        qNullifyingKey = nk, qSpendingPublicKey = spendingPublicKey\<rparr>)"

section \<open>The echo check\<close>

text \<open>The echo the code expects, compared by \<open>reflect.DeepEqual\<close>.\<close>

definition expected_echo :: "prepare_tx_request \<Rightarrow> echoed_prepare_tx_request" where
  "expected_echo q =
     \<lparr>eChainID = qChainID q, eHinkalAddress = qHinkalAddress q, eErc20Addresses = qErc20Addresses q,
      eAmountChanges = qAmountChanges q, eExternalAddress = qExternalAddress q,
      eOriginalSender = qOriginalSender q, eRelay = qRelay q, eFeeStructure = qFeeStructure q,
      eExternalActionID = qExternalActionID q, eExternalActionMetadata = qExternalActionMetadata q,
      eOnChainCreation = qOnChainCreation q, eRecipientAddress = qRecipientAddress q,
      eRecipientAmounts = qRecipientAmounts q, eSelfOutputAmounts = qSelfOutputAmounts q,
      eInputCommitments = qInputCommitments q, eUseBlockedUtxos = qUseBlockedUtxos q,
      eCreateBlockedUtxos = qCreateBlockedUtxos q, eForceEmptyUtxos = qForceEmptyUtxos q,
      eSkipLock = qSkipLock q, eMessageSeed = qMessageSeed q, eSpeculative = qSpeculative q,
      eSlippageValues = qSlippageValues q, eReceiveVaultAddress = qReceiveVaultAddress q\<rparr>"

definition assertPrepareTxEchoMatches :: "prepare_tx_request \<Rightarrow> echoed_prepare_tx_request \<Rightarrow> unit result" where
  "assertPrepareTxEchoMatches payload echoed =
     ensure (expected_echo payload = echoed)
       (Errorf ''enclave: prepare-tx response does not match the request sent - refusing to sign'')"

section \<open>prepare-stuck-withdraw\<close>

record stuck_withdraw_request =
  sqChainID :: string
  sqHinkalAddress :: string
  sqErc20Address :: string
  sqExternalAddress :: string
  sqRelay :: string
  sqAutoSelectRelay :: bool
  sqFeeStructure :: fee_structure_json
  sqHashedEthereumAddress :: string
  sqNullifyingKey :: string
  sqSpendingPublicKey :: "string \<times> string"

record echoed_stuck_withdraw_request =
  seChainID :: string
  seHinkalAddress :: string
  seErc20Address :: string
  seExternalAddress :: string
  seRelay :: string
  seFeeStructure :: fee_structure_json
  seHashedEthereumAddress :: string

record stuck_withdraw_response =
  Jobs :: "stuck_job list"
  sRequest :: echoed_stuck_withdraw_request

definition assertPrepareStuckWithdrawEchoMatches ::
    "stuck_withdraw_request \<Rightarrow> echoed_stuck_withdraw_request \<Rightarrow> unit result" where
  "assertPrepareStuckWithdrawEchoMatches payload echoed =
     ensure (\<lparr>seChainID = sqChainID payload, seHinkalAddress = sqHinkalAddress payload,
              seErc20Address = sqErc20Address payload, seExternalAddress = sqExternalAddress payload,
              seRelay = sqRelay payload, seFeeStructure = sqFeeStructure payload,
              seHashedEthereumAddress = sqHashedEthereumAddress payload\<rparr> = echoed)
       (Errorf ''enclave: prepare-stuck-withdraw response does not match the request sent - refusing to sign'')"

end
