(* ===== verification/EnclaveVerify.thy ===== *)
theory EnclaveVerify
  imports EnclaveTypes
begin

text \<open>
  \<open>internal/functions/enclave/construct_tx_enclave_verify.go\<close>, the part shared by the chains and the EVM
  and Tron routes: everything behind the hash the enclave asks the caller to sign is recomputed from the
  caller's own data. \<open>now\<close> is the clock, read only where a response leaves a time stamp empty.
\<close>

section \<open>Small helpers\<close>

definition stringsToBigInts :: "string list \<Rightarrow> int list result" where
  "stringsToBigInts values = rmap ParseBigInt values"

definition verifyFlatToBigInts :: "string list list \<Rightarrow> int list result" where
  "verifyFlatToBigInts values =
     rfold (\<lambda>out row. rfold (\<lambda>out v. rbind (ParseBigInt v) (\<lambda>n. Ok (out @ [n]))) out row) [] values"

definition verifyWrapAmountChange :: "primitives \<Rightarrow> int \<Rightarrow> int" where
  "verifyWrapAmountChange E amount = (if amount < 0 then fieldP E + amount else amount)"

definition expandBoolPerToken :: "bool list \<Rightarrow> nat \<Rightarrow> bool list" where
  "expandBoolPerToken values count = map (\<lambda>i. i < length values \<and> values ! i) [0 ..< count]"

definition anyTrue :: "bool list \<Rightarrow> bool" where
  "anyTrue values = list_ex (\<lambda>v. v) values"

definition externalAddressOrZero :: "string \<Rightarrow> string" where
  "externalAddressOrZero externalAddress = (if externalAddress = [] then ZeroAddress else externalAddress)"

definition verifyGetSlippageValues :: "int list \<Rightarrow> int list" where
  "verifyGetSlippageValues amountChanges = map (\<lambda>a. if a \<ge> 0 then 0 else a) amountChanges"

definition verifyGetExternalActionIDHash :: "primitives \<Rightarrow> string \<Rightarrow> int" where
  "verifyGetExternalActionIDHash E externalActionID =
     (if externalActionID = [] then 0
      else SetBytes (keccak256 E (string_bytes externalActionID)) mod fieldP E)"

definition verifyGetOriginalSender :: "string \<Rightarrow> string \<Rightarrow> string" where
  "verifyGetOriginalSender externalAddress relay =
     (if relay = ZeroAddress then (if externalAddress = [] then ZeroAddress else externalAddress)
      else ZeroAddress)"

section \<open>Input notes\<close>

text \<open>\<open>None\<close> is "no speculative parameters", not "authorize nothing".\<close>

definition speculative_commitment :: "primitives \<Rightarrow> int \<Rightarrow> speculative_utxo \<Rightarrow> string list result" where
  "speculative_commitment E now u =
     rbind (ParseBigInt (suAmount u)) (\<lambda>amount.
     if amount = 0 then Ok []
     else
       rbind (ParseBigInt (fst (suH0 u))) (\<lambda>h0x.
       rbind (ParseBigInt (snd (suH0 u))) (\<lambda>h0y.
       rbind (NewUtxo E now (Err Panic) (no_params\<lparr>pAmount := Some amount,
                pErc20TokenAddress := suErc20TokenAddress u, pStealthAddress := suStealthAddress u,
                pH0 := Some (h0x, h0y), pTimeStamp := suTimeStamp u\<rparr>)) (\<lambda>note.
       rbind (snd (GetCommitment E note)) (\<lambda>c. Ok [c])))))"

definition verifyCollectSpeculativeInputCommitments ::
    "primitives \<Rightarrow> int \<Rightarrow> speculative_params option \<Rightarrow> string slice result" where
  "verifyCollectSpeculativeInputCommitments E now speculative =
     (case speculative of
        None \<Rightarrow> Ok None
      | Some s \<Rightarrow>
          rbind (rfold (\<lambda>out row. rfold (\<lambda>out u. rbind (speculative_commitment E now u) (\<lambda>cs. Ok (out @ cs))) out (elems row))
                   [] (elems (InputUtxos s))) (\<lambda>cs. Ok (Some cs)))"

text \<open>One slot of a token's input row: its nullifier, and its commitment unless the amount is zero.\<close>

type_synonym in_slot = "string \<times> string \<times> string \<times> string"

definition verify_in_slot ::
    "primitives \<Rightarrow> int \<Rightarrow> string \<Rightarrow> int list \<Rightarrow> string \<Rightarrow> in_slot \<Rightarrow> (string \<times> string option) result" where
  "verify_in_slot E now nk spk token slot =
     (case slot of (amountStr, ax, ay, ts) \<Rightarrow>
       rbind (ParseBigInt amountStr) (\<lambda>amount.
       if amount = 0 then Ok (''0'', None)
       else
         rbind (ParseBigInt ax) (\<lambda>h0x.
         rbind (ParseBigInt ay) (\<lambda>h0y.
         rbind (NewUtxo E now (Err Panic) (no_params\<lparr>pAmount := Some amount, pErc20TokenAddress := token,
                  pNullifyingKey := nk, pSpendingPublicKey := Some spk, pH0 := Some (h0x, h0y),
                  pTimeStamp := ts\<rparr>)) (\<lambda>note.
         case GetCommitment E note of (note1, c) \<Rightarrow>
           rbind c (\<lambda>commitment.
           rbind (snd (GetNullifier E note1)) (\<lambda>nul. Ok (nul, Some commitment))))))))"

definition in_row :: "string list \<Rightarrow> string list \<Rightarrow> string list \<Rightarrow> string list \<Rightarrow> in_slot list" where
  "in_row amounts ax ay ts = zip amounts (zip ax (zip ay ts))"

definition verify_in_row ::
    "primitives \<Rightarrow> int \<Rightarrow> string \<Rightarrow> int list \<Rightarrow> string \<times> string list \<times> string list \<times> string list \<times> string list
       \<Rightarrow> (string \<times> string option) list result" where
  "verify_in_row E now nk spk row =
     (case row of (token, amounts, ax, ay, ts) \<Rightarrow>
       if length ax \<noteq> length amounts \<or> length ay \<noteq> length amounts \<or> length ts \<noteq> length amounts
       then Err (Errorf ''enclave: response in-note row lengths do not match - refusing to sign'')
       else rmap (verify_in_slot E now nk spk token) (in_row amounts ax ay ts))"

text \<open>The set of spent commitments is a Go map: a list without repetitions.\<close>

definition spent_commitments :: "(string \<times> string option) list list \<Rightarrow> string list" where
  "spent_commitments rows =
     foldl (\<lambda>spent slot. case snd slot of None \<Rightarrow> spent | Some c \<Rightarrow> List.insert c spent) [] (concat rows)"

definition verifyComputeInNullifiers ::
    "primitives \<Rightarrow> int \<Rightarrow> string list \<Rightarrow> string list list \<Rightarrow> string list list \<Rightarrow> string list list \<Rightarrow> string list list
       \<Rightarrow> string \<Rightarrow> string \<times> string \<Rightarrow> string slice \<Rightarrow> string list list result" where
  "verifyComputeInNullifiers E now erc20Addresses inAmounts inH0Ax inH0Ay inTimeStamps nk spendingPublicKey inputCommitments =
     (let n = length erc20Addresses in
      if length inAmounts \<noteq> n \<or> length inH0Ax \<noteq> n \<or> length inH0Ay \<noteq> n \<or> length inTimeStamps \<noteq> n
      then Err (Errorf ''enclave: response in-note arrays do not match the number of tokens - refusing to sign'')
      else
        rbind (stringsToBigInts [fst spendingPublicKey, snd spendingPublicKey]) (\<lambda>spk.
        rbind (rmap (verify_in_row E now nk spk)
                 (zip erc20Addresses (zip inAmounts (zip inH0Ax (zip inH0Ay inTimeStamps))))) (\<lambda>rows.
        let spent = spent_commitments rows;
            mismatch = (case inputCommitments of
                          None \<Rightarrow> False
                        | Some cs \<Rightarrow> length spent \<noteq> length cs \<or> list_ex (\<lambda>c. c \<notin> set spent) cs)
        in if mismatch
           then Err (Errorf ''enclave: prepare-tx spent a different set of notes than the caller authorized - refusing to sign'')
           else Ok (map (map fst) rows))))"

section \<open>Output notes\<close>

definition verifyExpectedOutputCommitment :: "primitives \<Rightarrow> int \<Rightarrow> int \<Rightarrow> utxo_params \<Rightarrow> string result" where
  "verifyExpectedOutputCommitment E now amount params =
     (if amount = 0 then Ok ''0''
      else rbind (NewUtxo E now (Err Panic) (params\<lparr>pAmount := Some amount\<rparr>)) (\<lambda>note. snd (GetCommitment E note)))"

definition self_slot_count :: "string slice \<Rightarrow> nat" where
  "self_slot_count selfOutputAmounts = (case selfOutputAmounts of None \<Rightarrow> 1 | Some xs \<Rightarrow> length xs)"

definition verify_self_output ::
    "primitives \<Rightarrow> int \<Rightarrow> string \<Rightarrow> int list \<Rightarrow> string \<Rightarrow> string \<Rightarrow> string \<times> string \<times> string \<Rightarrow> string result" where
  "verify_self_output E now nk spk outTimeStamp token slot =
     (case slot of (amountStr, ax, ay) \<Rightarrow>
       rbind (ParseBigInt amountStr) (\<lambda>amount.
       rbind (ParseBigInt ax) (\<lambda>h0x.
       rbind (ParseBigInt ay) (\<lambda>h0y.
       verifyExpectedOutputCommitment E now amount (no_params\<lparr>pErc20TokenAddress := token,
         pNullifyingKey := nk, pSpendingPublicKey := Some spk, pH0 := Some (h0x, h0y),
         pTimeStamp := outTimeStamp\<rparr>)))))"

text \<open>A recipient entry is \<open>stealth,h0x,h0y\<close>; its note is built from the caller's own data.\<close>

definition verify_recipient_output ::
    "primitives \<Rightarrow> int \<Rightarrow> string \<Rightarrow> nat \<Rightarrow> string \<Rightarrow> string \<times> string list \<Rightarrow> string result" where
  "verify_recipient_output E now outTimeStamp tokenIndex token recipient =
     (let parts = Split (fst recipient) CHR '','' in
      if length parts < 3 then Err (Errorf ''enclave: malformed recipientAddress entry'')
      else
        rbind (ParseBigInt (parts ! 1)) (\<lambda>h0x.
        rbind (ParseBigInt (parts ! 2)) (\<lambda>h0y.
        rbind (index_at (snd recipient) tokenIndex) (\<lambda>amountStr.
        rbind (ParseBigInt amountStr) (\<lambda>amount.
        verifyExpectedOutputCommitment E now amount (no_params\<lparr>pErc20TokenAddress := token,
          pStealthAddress := parts ! 0, pH0 := Some (h0x, h0y), pTimeStamp := outTimeStamp\<rparr>))))))"

definition verify_out_row ::
    "primitives \<Rightarrow> int \<Rightarrow> string \<Rightarrow> int list \<Rightarrow> string \<Rightarrow> nat \<Rightarrow> (string \<times> string list) list
       \<Rightarrow> nat \<times> string \<times> string list \<times> string list \<times> string list \<Rightarrow> string list result" where
  "verify_out_row E now nk spk outTimeStamp selfSlots recipients row =
     (case row of (tokenIndex, token, amounts, ax, ay) \<Rightarrow>
       if length amounts < selfSlots \<or> length ax < selfSlots \<or> length ay < selfSlots
       then Err (Errorf ''enclave: response out-note row is shorter than the requested self-output slots - refusing to sign'')
       else
         rbind (rmap (verify_self_output E now nk spk outTimeStamp token)
                  (zip (take selfSlots amounts) (zip (take selfSlots ax) (take selfSlots ay)))) (\<lambda>selfs.
         rbind (rmap (verify_recipient_output E now outTimeStamp tokenIndex token) recipients) (\<lambda>recips.
         Ok (selfs @ recips))))"

definition verifyComputeOutCommitments ::
    "primitives \<Rightarrow> int \<Rightarrow> string list \<Rightarrow> string slice \<Rightarrow> string list list \<Rightarrow> string list list \<Rightarrow> string list list
       \<Rightarrow> string \<Rightarrow> string \<Rightarrow> string \<times> string \<Rightarrow> string list \<Rightarrow> string list list \<Rightarrow> string list list result" where
  "verifyComputeOutCommitments E now erc20Addresses selfOutputAmounts outAmounts outNoteH0Ax outNoteH0Ay
       outTimeStamp nk spendingPublicKey recipientAddress recipientAmounts =
     (let n = length erc20Addresses in
      if length recipientAddress \<noteq> length recipientAmounts
      then Err (Errorf ''enclave: prepare-tx request has mismatched recipientAddress/recipientAmounts - refusing to sign'')
      else if length outAmounts \<noteq> n \<or> length outNoteH0Ax \<noteq> n \<or> length outNoteH0Ay \<noteq> n
      then Err (Errorf ''enclave: response out-note arrays do not match the number of tokens - refusing to sign'')
      else
        rbind (stringsToBigInts [fst spendingPublicKey, snd spendingPublicKey]) (\<lambda>spk.
        rmap (verify_out_row E now nk spk outTimeStamp (self_slot_count selfOutputAmounts) (zip recipientAddress recipientAmounts))
          (zip [0 ..< n] (zip erc20Addresses (zip outAmounts (zip outNoteH0Ax outNoteH0Ay))))))"

section \<open>Amounts\<close>

definition parsed_total :: "string list \<Rightarrow> int result" where
  "parsed_total amounts = rfold (\<lambda>total a. rbind (ParseBigInt a) (\<lambda>v. Ok (total + v))) 0 amounts"

definition verify_token_conserves :: "nat \<Rightarrow> string list \<times> string list \<times> string \<Rightarrow> unit result" where
  "verify_token_conserves selfSlots row =
     (case row of (ins, outs, changeStr) \<Rightarrow>
       rbind (parsed_total ins) (\<lambda>inputTotal.
       rbind (parsed_total (take selfSlots outs)) (\<lambda>selfOutputTotal.
       rbind (ParseBigInt changeStr) (\<lambda>change.
       ensure (inputTotal + change = selfOutputTotal)
         (Errorf ''enclave: prepare-tx self-output amount does not match input total + requested amountChanges - refusing to sign'')))))"

definition verifyAssertAmountsConserve ::
    "string list \<Rightarrow> string list list \<Rightarrow> string list list \<Rightarrow> string slice \<Rightarrow> string list \<Rightarrow> unit result" where
  "verifyAssertAmountsConserve erc20Addresses inAmounts outAmounts selfOutputAmounts amountChanges =
     (let n = length erc20Addresses; k = self_slot_count selfOutputAmounts in
      if length inAmounts \<noteq> n \<or> length outAmounts \<noteq> n \<or> length amountChanges \<noteq> n
      then Err (Errorf ''enclave: response amount arrays do not match the number of tokens - refusing to sign'')
      else if list_ex (\<lambda>row. length row < k) outAmounts
      then Err (Errorf ''enclave: response out-amount row is shorter than the requested self-output slots - refusing to sign'')
      else if elems selfOutputAmounts \<noteq> [] \<and> outAmounts = []
      then Err (Errorf ''enclave: response has no out-amount rows for the requested self-output slots - refusing to sign'')
      else if list_ex (\<lambda>(slot, expected). outAmounts ! 0 ! slot \<noteq> expected) (enumerate 0 (elems selfOutputAmounts))
      then Err (Errorf ''enclave: prepare-tx self-output amounts do not match the requested selfOutputAmounts - refusing to sign'')
      else
        rbind (rmap (verify_token_conserves k) (zip inAmounts (zip outAmounts amountChanges))) (\<lambda>_. Ok ()))"

definition verifyComputeAmountChangesSigned ::
    "string list \<Rightarrow> string list \<Rightarrow> string list list \<Rightarrow> int list result" where
  "verifyComputeAmountChangesSigned erc20Addresses amountChanges recipientAmounts =
     rmap (\<lambda>tokenIndex.
       rbind (index_at amountChanges tokenIndex) (\<lambda>s.
       rbind (ParseBigInt s) (\<lambda>selfDelta.
       rbind (rfold (\<lambda>total perToken.
                rbind (index_at perToken tokenIndex) (\<lambda>a. rbind (ParseBigInt a) (\<lambda>v. Ok (total + v))))
              0 recipientAmounts) (\<lambda>recipientTotal.
       Ok (selfDelta + recipientTotal))))) [0 ..< length erc20Addresses]"

text \<open>The tx-level stealth pair is the address of the leaves created on chain, so it must belong to the
  caller when there are any.\<close>

definition verifyAssertTxLevelStealthPairOwnedByCaller ::
    "primitives \<Rightarrow> bool list \<Rightarrow> string \<Rightarrow> string \<Rightarrow> string \<Rightarrow> string \<Rightarrow> string \<Rightarrow> unit result" where
  "verifyAssertTxLevelStealthPairOwnedByCaller E onChainCreation h0Ax h0Ay outH1Ax outH1Ay nk =
     (if \<not> anyTrue onChainCreation then Ok ()
      else
        rbind (ParseBigInt h0Ax) (\<lambda>h0x.
        rbind (ParseBigInt h0Ay) (\<lambda>h0y.
        rbind (ParseBigInt outH1Ax) (\<lambda>h1x.
        rbind (ParseBigInt outH1Ay) (\<lambda>h1y.
        rbind (VerifyStealthPair E (h0x, h0y) (h1x, h1y) nk False) (\<lambda>ok.
        ensure ok (Errorf ''enclave: prepare-tx tx-level stealth pair is not derived from the caller's own key - refusing to sign'')))))))"

section \<open>The calldata hash\<close>

definition keccak_int :: "primitives \<Rightarrow> byte list \<Rightarrow> int" where
  "keccak_int E bs = SetBytes (keccak256 E bs)"

definition externalActionTuple :: "primitives \<Rightarrow> string \<Rightarrow> int \<Rightarrow> string \<Rightarrow> abi_value" where
  "externalActionTuple E externalAddress actionId metadata =
     ATuple [AAddress (hexToAddress E externalAddress), AUint256 actionId, ABytes (fromHex E metadata)]"

definition noHooks :: "primitives \<Rightarrow> abi_value" where
  "noHooks E = ATuple [AAddress (replicate 20 0), AAddress (replicate 20 0),
     ABytes (fromHex E ''0x00''), ABytes (fromHex E ''0x00'')]"

definition feeStructureTuple :: "primitives \<Rightarrow> fee_structure \<Rightarrow> abi_value" where
  "feeStructureTuple E fee = ATuple [AAddress (hexToAddress E (FeeToken fee)), AUint256 (FlatFee fee), AUint256 (VariableRate fee)]"

definition verifyCreateCallDataHash ::
    "primitives \<Rightarrow> int \<Rightarrow> int \<Rightarrow> string \<Rightarrow> string \<Rightarrow> int \<Rightarrow> string \<Rightarrow> int \<Rightarrow> string list list \<Rightarrow> string
       \<Rightarrow> int list \<Rightarrow> bool list \<Rightarrow> fee_structure \<Rightarrow> string \<Rightarrow> bool \<Rightarrow> int result" where
  "verifyCreateCallDataHash E chainID publicSignalCount relay externalAddress externalActionIDHash
       externalActionMetadata emporiumMessage encryptedOutputsHex onChainEncryptedOutputHex slippageValues
       onChainCreation feeStructure originalSender createBlockedUtxos =
     (let isTron = IsTronLike chainID;
          encryptedOutputs = map (map (fromHex E)) encryptedOutputsHex;
          values1 = [AUint16 (word_of_int publicSignalCount), AAddress (hexToAddress E relay), AUint256 emporiumMessage,
                     externalActionTuple E externalAddress externalActionIDHash externalActionMetadata]
                    @ (if isTron then [] else [AInt256Arr slippageValues]);
          values2 = [noHooks E, ABytesArr2 encryptedOutputs]
                    @ (if isTron
                       then [feeStructureTuple E feeStructure, AInt256Arr slippageValues,
                             AAddress (hexToAddress E originalSender), ABytes (fromHex E ''0x''), ABool createBlockedUtxos]
                       else [ABytes (fromHex E onChainEncryptedOutputHex), feeStructureTuple E feeStructure,
                             ABoolArr onChainCreation, AAddress (hexToAddress E originalSender), ABytes (fromHex E ''0x'')])
      in rbind (rwrap ''encode calldata hash part 1'' (abiPack E values1)) (\<lambda>encoded1.
         rbind (rwrap ''encode calldata hash part 2'' (abiPack E values2)) (\<lambda>encoded2.
         rbind (rwrap ''encode calldata hash final''
                  (abiPack E [AUint256 (keccak_int E encoded1), AUint256 (keccak_int E encoded2)])) (\<lambda>final.
         Ok (keccak_int E final mod fieldP E)))))"

section \<open>The signed message hash\<close>

definition verifyPackAndHash :: "primitives \<Rightarrow> abi_value list \<Rightarrow> int result" where
  "verifyPackAndHash E values = rbind (abiPack E values) (\<lambda>encoded. Ok (keccak_int E encoded))"

definition verifyTokenAddressesAsInts :: "primitives \<Rightarrow> string list \<Rightarrow> int list" where
  "verifyTokenAddressesAsInts E tokens = map (\<lambda>a. SetBytes (fromHex E a)) tokens"

definition verifyComputeSignedMessageHashEvm ::
    "primitives \<Rightarrow> int \<Rightarrow> string \<Rightarrow> int \<Rightarrow> string list \<Rightarrow> int list \<Rightarrow> int \<Rightarrow> int list \<Rightarrow> int list
       \<Rightarrow> int \<Rightarrow> int \<Rightarrow> int \<Rightarrow> int \<Rightarrow> int \<Rightarrow> int \<Rightarrow> int result" where
  "verifyComputeSignedMessageHashEvm E chainID verifyingContract rootHashHinkal tokens amountChanges outTimeStamp
       inNullifiersFlat outCommitmentsFlat calldataHash message outH1Ax outH1Ay h0Ax h0Ay =
     rbind (rwrap ''encode signed message hash (part 1)'' (verifyPackAndHash E
              [AUint256 chainID, AAddress (hexToAddress E verifyingContract), AUint256 rootHashHinkal,
               AUint256Arr (verifyTokenAddressesAsInts E tokens), AUint256Arr amountChanges, AUint256 outTimeStamp,
               AUint256Arr inNullifiersFlat, AUint256Arr outCommitmentsFlat, AUint256 calldataHash, AUint256 message])) (\<lambda>hash1.
     rbind (rwrap ''encode signed message hash (part 2)'' (verifyPackAndHash E
              [AUint256 outH1Ax, AUint256 outH1Ay, AUint256 h0Ax, AUint256 h0Ay])) (\<lambda>hash2.
     rbind (rwrap ''encode signed message hash (final)'' (verifyPackAndHash E [AUint256 hash1, AUint256 hash2])) (\<lambda>hash.
     Ok (hash mod fieldP E))))"

definition verifyComputeSignedMessageHashTron ::
    "primitives \<Rightarrow> int \<Rightarrow> string list \<Rightarrow> int list \<Rightarrow> int \<Rightarrow> int list \<Rightarrow> int list \<Rightarrow> int \<Rightarrow> int \<Rightarrow> int result" where
  "verifyComputeSignedMessageHashTron E rootHashHinkal tokens amountChanges outTimeStamp inNullifiersFlat
       outCommitmentsFlat calldataHash message =
     rbind (rwrap ''encode tron signed message hash'' (verifyPackAndHash E
              [AUint256 rootHashHinkal, AUint256Arr (verifyTokenAddressesAsInts E tokens), AUint256Arr amountChanges,
               AUint256 outTimeStamp, AUint256Arr inNullifiersFlat, AUint256Arr outCommitmentsFlat,
               AUint256 calldataHash, AUint256 message])) (\<lambda>hash.
     Ok (hash mod fieldP E))"

definition verifyCalcPublicSignalCount :: "bool \<Rightarrow> nat \<Rightarrow> nat \<Rightarrow> nat \<Rightarrow> nat \<Rightarrow> nat" where
  "verifyCalcPublicSignalCount isTron erc20Count amountChangesCount inNullifiersFlatLen outCommitmentsFlatLen =
     (if erc20Count = 0 then 3
      else
        let base = 1 + 1 + erc20Count + amountChangesCount + 1 + inNullifiersFlatLen + outCommitmentsFlatLen + 1 + 1
        in if isTron then base + 1 + 1 else base + 1 + 1 + 1 + 1 + 1)"

section \<open>prepare-tx\<close>

definition resolve_fee :: "prepare_tx_request \<Rightarrow> bool \<Rightarrow> fee_structure result" where
  "resolve_fee payload relayed =
     (case qFeeStructure payload of
        Some fee \<Rightarrow>
          if relayed then
            rbind (ParseBigInt (jFlatFee fee)) (\<lambda>flatFee.
            rbind (ParseBigInt (jVariableRate fee)) (\<lambda>variableRate.
            Ok \<lparr>FeeToken = jFeeToken fee, FlatFee = flatFee, VariableRate = variableRate\<rparr>))
          else Ok ZeroFeeStructure
      | None \<Rightarrow> Ok ZeroFeeStructure)"

definition verifyComputeCalldataHashAndMessage ::
    "primitives \<Rightarrow> int \<Rightarrow> prepare_tx_request \<Rightarrow> prepare_tx_response \<Rightarrow> string list list \<Rightarrow> string list list
       \<Rightarrow> (int \<times> int \<times> int list) result" where
  "verifyComputeCalldataHashAndMessage E chainID payload response inNullifiers outCommitments =
     rbind (ParseBigInt (MessageSeed response)) (\<lambda>messageSeed.
     rbind (PoseidonBig E [messageSeed]) (\<lambda>message.
     let relay = (if Relay response = [] then ZeroAddress else Relay response);
         relayed = (relay \<noteq> ZeroAddress);
         tokens = elems (qErc20Addresses payload)
     in
     rbind (resolve_fee payload relayed) (\<lambda>fee.
     let metadata = (if qExternalActionMetadata payload = [] then ''0x00'' else qExternalActionMetadata payload);
         onChainCreation = expandBoolPerToken (elems (qOnChainCreation payload)) (length tokens)
     in
     rbind (verifyComputeAmountChangesSigned tokens (elems (qAmountChanges payload))
              (map elems (elems (qRecipientAmounts payload)))) (\<lambda>amountChangesSigned.
     rbind (case qSlippageValues payload of
              Some vs \<Rightarrow> stringsToBigInts vs
            | None \<Rightarrow> Ok (verifyGetSlippageValues amountChangesSigned)) (\<lambda>slippageValues.
     rbind (verifyFlatToBigInts inNullifiers) (\<lambda>inNullifiersFlat.
     rbind (verifyFlatToBigInts outCommitments) (\<lambda>outCommitmentsFlat.
     let publicSignalCount = verifyCalcPublicSignalCount (IsTronLike chainID) (length tokens)
           (length amountChangesSigned) (length inNullifiersFlat) (length outCommitmentsFlat);
         actionIdHash = verifyGetExternalActionIDHash E (qExternalActionID payload);
         originalSender = (if qOriginalSender payload = []
                           then verifyGetOriginalSender (externalAddressOrZero (qExternalAddress payload)) relay
                           else qOriginalSender payload);
         externalAddress = (if qExternalAddress payload = [] then relay else qExternalAddress payload)
     in
     rbind (verifyCreateCallDataHash E chainID (int publicSignalCount) relay externalAddress actionIdHash metadata message
              (EncryptedOutputs response) (OnChainEncryptedOutput response) slippageValues onChainCreation fee
              originalSender (qCreateBlockedUtxos payload)) (\<lambda>calldataHash.
     Ok (calldataHash, message, map (verifyWrapAmountChange E) amountChangesSigned)))))))))"

text \<open>The hash the caller recomputes, for the response of either route.\<close>

definition recomputed_hash ::
    "primitives \<Rightarrow> int \<Rightarrow> string \<Rightarrow> 'a witness_preimage_scheme \<Rightarrow> string list \<Rightarrow> int \<Rightarrow> int \<Rightarrow> int list \<Rightarrow> int list
       \<Rightarrow> int \<Rightarrow> int \<Rightarrow> int list \<Rightarrow> int result" where
  "recomputed_hash E chainID hinkalAddress response tokens rootHash outTimeStamp inNullifiersFlat outCommitmentsFlat
       calldataHash message wrapped =
     (if IsTronLike chainID
      then verifyComputeSignedMessageHashTron E rootHash tokens wrapped outTimeStamp inNullifiersFlat outCommitmentsFlat
             calldataHash message
      else
        rbind (ParseBigInt (OutH1Ax response)) (\<lambda>outH1Ax.
        rbind (ParseBigInt (OutH1Ay response)) (\<lambda>outH1Ay.
        rbind (ParseBigInt (H0Ax response)) (\<lambda>h0Ax.
        rbind (ParseBigInt (H0Ay response)) (\<lambda>h0Ay.
        verifyComputeSignedMessageHashEvm E chainID hinkalAddress rootHash tokens wrapped outTimeStamp inNullifiersFlat
          outCommitmentsFlat calldataHash message outH1Ax outH1Ay h0Ax h0Ay)))))"

definition verifyAssertSignedMessageHashMatches ::
    "primitives \<Rightarrow> int \<Rightarrow> string \<Rightarrow> prepare_tx_response \<Rightarrow> string list list \<Rightarrow> string list list
       \<Rightarrow> int \<Rightarrow> int \<Rightarrow> int list \<Rightarrow> unit result" where
  "verifyAssertSignedMessageHashMatches E chainID hinkalAddress response inNullifiers outCommitments calldataHash message wrapped =
     rbind (ParseBigInt (RootHashHinkal response)) (\<lambda>rootHash.
     rbind (ParseBigInt (OutTimeStamp response)) (\<lambda>outTimeStamp.
     rbind (verifyFlatToBigInts inNullifiers) (\<lambda>inNullifiersFlat.
     rbind (verifyFlatToBigInts outCommitments) (\<lambda>outCommitmentsFlat.
     rbind (recomputed_hash E chainID hinkalAddress response (elems (eErc20Addresses (Request response))) rootHash
              outTimeStamp inNullifiersFlat outCommitmentsFlat calldataHash message wrapped) (\<lambda>recomputed.
     rbind (ParseBigInt (SignedMessageHash response)) (\<lambda>expected.
     ensure (recomputed = expected)
       (Errorf ''enclave: prepare-tx signedMessageHash does not match one built from the caller's own data - refusing to sign'')))))))"

definition authorized_inputs :: "primitives \<Rightarrow> int \<Rightarrow> prepare_tx_request \<Rightarrow> string slice result" where
  "authorized_inputs E now payload =
     (case qInputCommitments payload of
        Some cs \<Rightarrow> Ok (Some cs)
      | None \<Rightarrow>
          rbind (verifyCollectSpeculativeInputCommitments E now (qSpeculative payload)) (\<lambda>spec.
          case spec of
            Some cs \<Rightarrow> Ok (Some cs)
          | None \<Rightarrow> Ok (if qForceEmptyUtxos payload then Some [] else None)))"

definition verifyPrepareTxResponse :: "primitives \<Rightarrow> int \<Rightarrow> int \<Rightarrow> prepare_tx_request \<Rightarrow> prepare_tx_response \<Rightarrow> unit result" where
  "verifyPrepareTxResponse E now chainID payload response =
     (let tokens = elems (qErc20Addresses payload) in
      rbind (authorized_inputs E now payload) (\<lambda>authorized.
      rbind (verifyComputeInNullifiers E now tokens (InAmounts response) (InH0Ax response) (InH0Ay response)
               (InTimeStamps response) (qNullifyingKey payload) (qSpendingPublicKey payload) authorized) (\<lambda>inNullifiers.
      rbind (verifyComputeOutCommitments E now tokens (qSelfOutputAmounts payload) (OutAmounts response)
               (OutNoteH0Ax response) (OutNoteH0Ay response) (OutTimeStamp response) (qNullifyingKey payload)
               (qSpendingPublicKey payload) (elems (qRecipientAddress payload))
               (map elems (elems (qRecipientAmounts payload)))) (\<lambda>outCommitments.
      rbind (verifyAssertAmountsConserve tokens (InAmounts response) (OutAmounts response)
               (qSelfOutputAmounts payload) (elems (qAmountChanges payload))) (\<lambda>_.
      rbind (verifyAssertTxLevelStealthPairOwnedByCaller E (elems (qOnChainCreation payload)) (H0Ax response)
               (H0Ay response) (OutH1Ax response) (OutH1Ay response) (qNullifyingKey payload)) (\<lambda>_.
      rbind (verifyComputeCalldataHashAndMessage E chainID payload response inNullifiers outCommitments)
        (\<lambda>(calldataHash, message, wrapped).
      verifyAssertSignedMessageHashMatches E chainID (qHinkalAddress payload) response inNullifiers outCommitments
        calldataHash message wrapped)))))))"

section \<open>prepare-stuck-withdraw\<close>

definition verifyStuckWithdrawJobCoversFee :: "int \<Rightarrow> int \<Rightarrow> unit result" where
  "verifyStuckWithdrawJobCoversFee inputTotal flatFee =
     ensure (\<not> inputTotal \<le> flatFee)
       (Errorf ''enclave: stuck withdraw job does not cover its relayer fee - refusing to sign'')"

text \<open>The set of spent nullifiers is a Go map, shared by the jobs of one response.\<close>

definition verifyNoRepeatedStuckNotes :: "string list list \<Rightarrow> string list \<Rightarrow> string list result" where
  "verifyNoRepeatedStuckNotes inNullifiers spentNullifiers =
     rbind (index_at inNullifiers 0) (\<lambda>row.
     rfold (\<lambda>spent nul.
       if nul = ''0'' then Ok spent
       else if nul \<in> set spent
       then Err (Errorf ''enclave: stuck withdraw jobs spend the same note twice - refusing to sign'')
       else Ok (nul # spent)) spentNullifiers row)"

definition verifyStuckWithdrawJobSignedMessageHash ::
    "primitives \<Rightarrow> int \<Rightarrow> int \<Rightarrow> string \<Rightarrow> string \<Rightarrow> string \<Rightarrow> fee_structure \<Rightarrow> string \<Rightarrow> string \<times> string
       \<Rightarrow> stuck_job \<Rightarrow> string list \<Rightarrow> string list result" where
  "verifyStuckWithdrawJobSignedMessageHash E now chainID hinkalAddress token externalAddress fee nk spendingPublicKey job spent =
     rbind (verifyComputeInNullifiers E now [token] (InAmounts job) (InH0Ax job) (InH0Ay job) (InTimeStamps job)
              nk spendingPublicKey None) (\<lambda>inNullifiers.
     rbind (verifyNoRepeatedStuckNotes inNullifiers spent) (\<lambda>spent'.
     rbind (verifyComputeOutCommitments E now [token] None (OutAmounts job) (OutNoteH0Ax job) (OutNoteH0Ay job)
              (OutTimeStamp job) nk spendingPublicKey [] []) (\<lambda>outCommitments.
     rbind (rbind (index_at (InAmounts job) 0) parsed_total) (\<lambda>inputTotal.
     rbind (verifyStuckWithdrawJobCoversFee inputTotal (FlatFee fee)) (\<lambda>_.
     let amountChangesSigned = - inputTotal in
     rbind (verifyAssertAmountsConserve [token] (InAmounts job) (OutAmounts job) None [int_String amountChangesSigned]) (\<lambda>_.
     let wrapped = [verifyWrapAmountChange E amountChangesSigned] in
     rbind (ParseBigInt (MessageSeed job)) (\<lambda>messageSeed.
     rbind (PoseidonBig E [messageSeed]) (\<lambda>message.
     rbind (verifyFlatToBigInts inNullifiers) (\<lambda>inNullifiersFlat.
     rbind (verifyFlatToBigInts outCommitments) (\<lambda>outCommitmentsFlat.
     let publicSignalCount = verifyCalcPublicSignalCount (IsTronLike chainID) 1 1 (length inNullifiersFlat) (length outCommitmentsFlat);
         relay = Relay job;
         resolvedExternalAddress = (if externalAddress = [] then relay else externalAddress)
     in
     rbind (verifyCreateCallDataHash E chainID (int publicSignalCount) relay resolvedExternalAddress 0 ''0x00'' message
              (EncryptedOutputs job) (OnChainEncryptedOutput job) (verifyGetSlippageValues [amountChangesSigned]) [False] fee
              (verifyGetOriginalSender (externalAddressOrZero externalAddress) relay) False) (\<lambda>calldataHash.
     rbind (ParseBigInt (RootHashHinkal job)) (\<lambda>rootHash.
     rbind (ParseBigInt (OutTimeStamp job)) (\<lambda>outTimeStamp.
     rbind (recomputed_hash E chainID hinkalAddress job [token] rootHash outTimeStamp inNullifiersFlat outCommitmentsFlat
              calldataHash message wrapped) (\<lambda>recomputed.
     rbind (ParseBigInt (SignedMessageHash job)) (\<lambda>expected.
     rbind (ensure (recomputed = expected)
              (Errorf ''enclave: prepare-stuck-withdraw job signedMessageHash does not match one built from the caller's own data - refusing to sign'')) (\<lambda>_.
     Ok spent'))))))))))))))))"

section \<open>The calls\<close>

text \<open>\<open>post\<close> is \<open>enclavePostSealedSigned\<close>: the sealed round trip to the enclave.\<close>

definition PrepareTxEnclaveCall ::
    "primitives \<Rightarrow> int \<Rightarrow> (int \<Rightarrow> string result) \<Rightarrow> (prepare_tx_request \<Rightarrow> prepare_tx_response result)
       \<Rightarrow> user_keys \<Rightarrow> prepare_tx_params \<Rightarrow> user_keys \<times> prepare_tx_response result" where
  "PrepareTxEnclaveCall E now hinkalAddress post uk params =
     (case GetShieldedPrivateKey E uk of (uk', key) \<Rightarrow>
       (uk',
        rbind key (\<lambda>nk.
        rbind (GetSpendingKeyPair E uk') (\<lambda>pair.
        let point = PubSpendingBJJPoint pair in
        rbind (buildPrepareTxRequest hinkalAddress params nk (int_String (fst point), int_String (snd point))) (\<lambda>payload.
        rbind (post payload) (\<lambda>resp.
        rbind (assertPrepareTxEchoMatches payload (Request resp)) (\<lambda>_.
        rbind (verifyPrepareTxResponse E now (pChainID params) payload resp) (\<lambda>_.
        Ok resp))))))))"

record stuck_withdraw_params =
  swChainID :: int
  swErc20Address :: string
  swExternalAddress :: string
  swRelay :: string
  swAutoSelectRelay :: bool
  swFeeStructure :: fee_structure
  swHashedEthereumAddress :: string

definition buildStuckWithdrawRequest :: "string \<Rightarrow> stuck_withdraw_params \<Rightarrow> string \<Rightarrow> string \<times> string \<Rightarrow> stuck_withdraw_request" where
  "buildStuckWithdrawRequest addr p nk spendingPublicKey =
     \<lparr>sqChainID = int_String (swChainID p), sqHinkalAddress = addr, sqErc20Address = swErc20Address p,
      sqExternalAddress = swExternalAddress p, sqRelay = swRelay p, sqAutoSelectRelay = swAutoSelectRelay p,
      sqFeeStructure = fee_json (swFeeStructure p), sqHashedEthereumAddress = swHashedEthereumAddress p,
      sqNullifyingKey = nk, sqSpendingPublicKey = spendingPublicKey\<rparr>"

definition PrepareStuckWithdrawEnclaveCall ::
    "primitives \<Rightarrow> int \<Rightarrow> (int \<Rightarrow> string result) \<Rightarrow> (stuck_withdraw_request \<Rightarrow> stuck_withdraw_response result)
       \<Rightarrow> user_keys \<Rightarrow> stuck_withdraw_params \<Rightarrow> user_keys \<times> stuck_job list result" where
  "PrepareStuckWithdrawEnclaveCall E now hinkalAddress post uk params =
     (case GetShieldedPrivateKey E uk of (uk', key) \<Rightarrow>
       (uk',
        rbind key (\<lambda>nk.
        rbind (GetSpendingKeyPair E uk') (\<lambda>pair.
        rbind (hinkalAddress (swChainID params)) (\<lambda>addr.
        let spk = (int_String (fst (PubSpendingBJJPoint pair)), int_String (snd (PubSpendingBJJPoint pair)));
            payload = buildStuckWithdrawRequest addr params nk spk
        in
        rbind (post payload) (\<lambda>resp.
        rbind (assertPrepareStuckWithdrawEchoMatches payload (sRequest resp)) (\<lambda>_.
        rbind (rfold (\<lambda>spent job. verifyStuckWithdrawJobSignedMessageHash E now (swChainID params) addr
                 (swErc20Address params) (swExternalAddress params) (swFeeStructure params) nk spk job spent) [] (Jobs resp)) (\<lambda>_.
        Ok (Jobs resp)))))))))"

end
