(* ===== verification/EnclaveCorrect.thy ===== *)
theory EnclaveCorrect
  imports EnclaveVerify UtxoCorrect
begin

text \<open>
  What the caller knows once it accepts a prepared transaction: which notes are spent, that amounts
  balance, where the recipients' notes come from, what the signed hash binds, and what it does not.
\<close>

section \<open>Loops with an accumulator\<close>

lemma rfold_snoc: "rfold (\<lambda>out v. rbind (f v) (\<lambda>n. Ok (out @ [n]))) out xs = rbind (rmap f xs) (\<lambda>ys. Ok (out @ ys))"
proof (induction xs arbitrary: out)
  case (Cons x xs)
  then show ?case by (cases "f x"; cases "rmap f xs") auto
qed simp

lemma verifyFlatToBigInts_rmap: "verifyFlatToBigInts rows = rmap ParseBigInt (concat rows)"
proof -
  have "rfold (\<lambda>out row. rfold (\<lambda>out v. rbind (ParseBigInt v) (\<lambda>n. Ok (out @ [n]))) out row) out rows
      = rbind (rmap ParseBigInt (concat rows)) (\<lambda>ys. Ok (out @ ys))" for out
  proof (induction rows arbitrary: out)
    case (Cons row rows)
    then show ?case
      by (cases "rmap ParseBigInt row"; cases "rmap ParseBigInt (concat rows)") (auto simp: rfold_snoc rmap_append)
  qed simp
  then show ?thesis by (cases "rmap ParseBigInt (concat rows)") (simp_all add: verifyFlatToBigInts_def)
qed

lemma parsed_total_sum: "parsed_total xs = rbind (rmap ParseBigInt xs) (\<lambda>vs. Ok (sum_list vs))"
proof -
  have "rfold (\<lambda>total a. rbind (ParseBigInt a) (\<lambda>v. Ok (total + v))) t xs
      = rbind (rmap ParseBigInt xs) (\<lambda>vs. Ok (t + sum_list vs))" for t
  proof (induction xs arbitrary: t)
    case (Cons x xs)
    then show ?case by (cases "ParseBigInt x"; cases "rmap ParseBigInt xs") (auto simp: algebra_simps)
  qed simp
  then show ?thesis by (simp add: parsed_total_def)
qed

lemma parsed_total_int_String [simp]: "parsed_total (map int_String vs) = Ok (sum_list vs)"
  by (simp add: parsed_total_sum)

section \<open>The notes a response spends\<close>

text \<open>The note behind one input slot, if its amount is not zero: the caller's own note with the slot's
  amount, point and time stamp. \<open>slot_commits\<close> says that it has the commitment \<open>c\<close>.\<close>

definition slot_commits ::
    "primitives \<Rightarrow> int \<Rightarrow> string \<Rightarrow> int list \<Rightarrow> string \<Rightarrow> in_slot \<Rightarrow> string \<Rightarrow> bool" where
  "slot_commits E now nk spk token slot c \<longleftrightarrow>
     (\<exists>a ax ay ts amount x y note. slot = (a, ax, ay, ts) \<and>
        ParseBigInt a = Ok amount \<and> amount \<noteq> 0 \<and> ParseBigInt ax = Ok x \<and> ParseBigInt ay = Ok y \<and>
        NewUtxo E now (Err Panic) (no_params\<lparr>pAmount := Some amount, pErc20TokenAddress := token,
          pNullifyingKey := nk, pSpendingPublicKey := Some spk, pH0 := Some (x, y), pTimeStamp := ts\<rparr>) = Ok note \<and>
        snd (GetCommitment E note) = Ok c)"

definition slot_nullifies ::
    "primitives \<Rightarrow> int \<Rightarrow> string \<Rightarrow> int list \<Rightarrow> string \<Rightarrow> in_slot \<Rightarrow> string \<Rightarrow> bool" where
  "slot_nullifies E now nk spk token slot n \<longleftrightarrow>
     (\<exists>a ax ay ts amount x y note. slot = (a, ax, ay, ts) \<and>
        ParseBigInt a = Ok amount \<and> amount \<noteq> 0 \<and> ParseBigInt ax = Ok x \<and> ParseBigInt ay = Ok y \<and>
        NewUtxo E now (Err Panic) (no_params\<lparr>pAmount := Some amount, pErc20TokenAddress := token,
          pNullifyingKey := nk, pSpendingPublicKey := Some spk, pH0 := Some (x, y), pTimeStamp := ts\<rparr>) = Ok note \<and>
        snd (GetNullifier E note) = Ok n)"

lemma verify_in_slot_some:
  assumes "verify_in_slot E now nk spk token slot = Ok (n, Some c)"
  shows "slot_commits E now nk spk token slot c" "slot_nullifies E now nk spk token slot n"
proof -
  obtain a ax ay ts where slot: "slot = (a, ax, ay, ts)" by (metis prod_cases4)
  obtain amount where amount: "ParseBigInt a = Ok amount" "amount \<noteq> 0"
    using assms by (auto simp: verify_in_slot_def slot rbind_Ok_iff split: if_splits)
  then obtain x y nt where x: "ParseBigInt ax = Ok x" "ParseBigInt ay = Ok y"
    and nt_new: "NewUtxo E now (Err Panic) (no_params\<lparr>pAmount := Some amount, pErc20TokenAddress := token,
          pNullifyingKey := nk, pSpendingPublicKey := Some spk, pH0 := Some (x, y), pTimeStamp := ts\<rparr>) = Ok nt"
    and rest: "(case GetCommitment E nt of (note1, c) \<Rightarrow>
           rbind c (\<lambda>commitment. rbind (snd (GetNullifier E note1)) (\<lambda>nul. Ok (nul, Some commitment)))) = Ok (n, Some c)"
    using assms by (auto simp: verify_in_slot_def slot rbind_Ok_iff)
  obtain r where "GetCommitment E nt = (committed E nt, r)" using GetCommitment_split by blast
  then have "snd (GetCommitment E nt) = Ok c" "snd (GetNullifier E (committed E nt)) = Ok n"
    using rest by (auto simp: rbind_Ok_iff)
  then have "snd (GetCommitment E nt) = Ok c" "snd (GetNullifier E nt) = Ok n"
    by (simp_all add: after_nullifier)
  then show "slot_commits E now nk spk token slot c" "slot_nullifies E now nk spk token slot n"
    unfolding slot_commits_def slot_nullifies_def using slot amount x nt_new by blast+
qed

lemma verify_in_slot_commits_iff:
  assumes "verify_in_slot E now nk spk token slot = Ok r"
  shows "slot_commits E now nk spk token slot c \<longleftrightarrow> snd r = Some c"
proof
  assume "snd r = Some c"
  then show "slot_commits E now nk spk token slot c" using verify_in_slot_some(1) assms by (metis prod.collapse)
next
  assume "slot_commits E now nk spk token slot c"
  then show "snd r = Some c"
    using assms unfolding slot_commits_def verify_in_slot_def
    by (auto simp: rbind_Ok_iff split: prod.splits)
qed

lemma verify_in_slot_none:
  assumes "verify_in_slot E now nk spk token slot = Ok (n, None)"
  shows "n = ''0'' \<and> ParseBigInt (fst slot) = Ok 0"
  using assms by (auto simp: verify_in_slot_def rbind_Ok_iff split: if_splits prod.splits)

section \<open>The spent set\<close>

lemma spent_fold:
  "distinct s \<Longrightarrow> distinct (foldl (\<lambda>spent slot. case snd slot of None \<Rightarrow> spent | Some c \<Rightarrow> List.insert c spent) s xs)"
  "set (foldl (\<lambda>spent slot. case snd slot of None \<Rightarrow> spent | Some c \<Rightarrow> List.insert c spent) s xs)
     = set s \<union> {c. Some c \<in> snd ` set xs}"
proof (induction xs arbitrary: s)
  case (Cons x xs)
  { case 1 with Cons show ?case by (auto split: option.splits) }
  { case 2 show ?case using Cons(2) by (auto split: option.splits simp: image_iff) }
qed auto

lemma spent_commitments_set: "set (spent_commitments rows) = {c. Some c \<in> snd ` set (concat rows)}"
  and spent_commitments_distinct: "distinct (spent_commitments rows)"
  by (simp_all add: spent_commitments_def spent_fold del: set_concat)

text \<open>What the response spends: the commitments of the non-zero slots.\<close>

definition spends ::
    "primitives \<Rightarrow> int \<Rightarrow> string \<Rightarrow> string \<times> string \<Rightarrow> string list \<Rightarrow> 'a witness_preimage_scheme \<Rightarrow> string \<Rightarrow> bool" where
  "spends E now nk spkText tokens resp c \<longleftrightarrow>
     (\<exists>spk i j. stringsToBigInts [fst spkText, snd spkText] = Ok spk \<and> i < length tokens \<and> j < length (InAmounts resp ! i) \<and>
        slot_commits E now nk spk (tokens ! i)
          (InAmounts resp ! i ! j, InH0Ax resp ! i ! j, InH0Ay resp ! i ! j, InTimeStamps resp ! i ! j) c)"

lemma in_nullifiers_inversion:
  assumes "verifyComputeInNullifiers E now tokens A X Y T nk spkText auth = Ok nuls"
  obtains spk rows where "stringsToBigInts [fst spkText, snd spkText] = Ok spk"
    and "length A = length tokens" "length X = length tokens" "length Y = length tokens" "length T = length tokens"
    and "length rows = length tokens" "nuls = map (map fst) rows"
    and "\<And>i. i < length tokens \<Longrightarrow> verify_in_row E now nk spk (tokens ! i, A ! i, X ! i, Y ! i, T ! i) = Ok (rows ! i)"
    and "\<And>cs. auth = Some cs \<Longrightarrow> length (spent_commitments rows) = length cs \<and> set cs \<subseteq> set (spent_commitments rows)"
proof -
  have len: "length A = length tokens" "length X = length tokens" "length Y = length tokens" "length T = length tokens"
    using assms by (auto simp: verifyComputeInNullifiers_def Let_def split: if_splits)
  obtain spk rows where spk: "stringsToBigInts [fst spkText, snd spkText] = Ok spk"
    and rows: "rmap (verify_in_row E now nk spk) (zip tokens (zip A (zip X (zip Y T)))) = Ok rows"
    and match: "\<not> (case auth of None \<Rightarrow> False | Some cs \<Rightarrow>
        length (spent_commitments rows) \<noteq> length cs \<or> list_ex (\<lambda>c. c \<notin> set (spent_commitments rows)) cs)"
    and nuls: "nuls = map (map fst) rows"
    using assms len by (auto simp: verifyComputeInNullifiers_def Let_def rbind_Ok_iff split: if_splits)
  show ?thesis
  proof (rule that [OF spk len])
    show "length rows = length tokens" using rmap_Ok_length [OF rows] len by simp
    show "nuls = map (map fst) rows" by (rule nuls)
    show "verify_in_row E now nk spk (tokens ! i, A ! i, X ! i, Y ! i, T ! i) = Ok (rows ! i)" if "i < length tokens" for i
      using rmap_Ok_nth [OF rows, of i] that len by simp
    show "length (spent_commitments rows) = length cs \<and> set cs \<subseteq> set (spent_commitments rows)" if "auth = Some cs" for cs
      using match that by (auto simp: list_ex_iff)
  qed
qed

lemma in_row_inversion:
  assumes "verify_in_row E now nk spk (token, A, X, Y, T) = Ok row"
  shows "length X = length A \<and> length Y = length A \<and> length T = length A \<and> length row = length A \<and>
    (\<forall>j < length A. verify_in_slot E now nk spk token (A ! j, X ! j, Y ! j, T ! j) = Ok (row ! j))"
proof -
  have len: "length X = length A" "length Y = length A" "length T = length A"
    and row: "rmap (verify_in_slot E now nk spk token) (in_row A X Y T) = Ok row"
    using assms by (auto simp: verify_in_row_def split: if_splits)
  have "verify_in_slot E now nk spk token (A ! j, X ! j, Y ! j, T ! j) = Ok (row ! j)" if "j < length A" for j
    using rmap_Ok_nth [OF row, of j] that len by (simp add: in_row_def)
  with len rmap_Ok_length [OF row] show ?thesis by (simp add: in_row_def)
qed

lemma ex_in_set_nth: "(\<exists>x \<in> set xs. P x) \<longleftrightarrow> (\<exists>i < length xs. P (xs ! i))"
  by (metis in_set_conv_nth)

lemma some_in_rows: "Some c \<in> snd ` set (concat rows) \<longleftrightarrow>
    (\<exists>i<length rows. \<exists>j<length (rows ! i). snd (rows ! i ! j) = Some c)"
proof -
  have "Some c \<in> snd ` set (concat rows) \<longleftrightarrow> (\<exists>row \<in> set rows. \<exists>x \<in> set row. snd x = Some c)"
    by (simp add: image_iff) metis
  then show ?thesis by (simp only: ex_in_set_nth)
qed

lemma spent_iff_spends:
  assumes "stringsToBigInts [fst spkText, snd spkText] = Ok spk" and "length rows = length tokens"
    and "\<And>i. i < length tokens \<Longrightarrow>
      verify_in_row E now nk spk (tokens ! i, InAmounts resp ! i, InH0Ax resp ! i, InH0Ay resp ! i, InTimeStamps resp ! i) = Ok (rows ! i)"
  shows "c \<in> set (spent_commitments rows) \<longleftrightarrow> spends E now nk spkText tokens resp c"
proof -
  let ?slot = "\<lambda>i j. (InAmounts resp ! i ! j, InH0Ax resp ! i ! j, InH0Ay resp ! i ! j, InTimeStamps resp ! i ! j)"
  have row: "length (rows ! i) = length (InAmounts resp ! i)"
    "j < length (InAmounts resp ! i) \<Longrightarrow> verify_in_slot E now nk spk (tokens ! i) (?slot i j) = Ok (rows ! i ! j)"
    if "i < length tokens" for i j
    using in_row_inversion [OF assms(3) [OF that]] by auto
  have same: "j < length (rows ! i) \<and> snd (rows ! i ! j) = Some c \<longleftrightarrow>
      j < length (InAmounts resp ! i) \<and> slot_commits E now nk spk (tokens ! i) (?slot i j) c" if "i < length tokens" for i j
    using row(1) [OF that] verify_in_slot_commits_iff [OF row(2) [OF that, of j], of c] by auto
  have "c \<in> set (spent_commitments rows) \<longleftrightarrow> (\<exists>i<length tokens. \<exists>j<length (rows ! i). snd (rows ! i ! j) = Some c)"
    by (simp only: spent_commitments_set mem_Collect_eq some_in_rows assms(2))
  also have "\<dots> \<longleftrightarrow> (\<exists>i<length tokens. \<exists>j<length (InAmounts resp ! i). slot_commits E now nk spk (tokens ! i) (?slot i j) c)"
    using same by blast
  finally show ?thesis using assms(1) by (auto simp: spends_def)
qed

text \<open>The authorisation check: the spent set has as many elements as the list and contains it. For a
  list without repetitions this is equality.\<close>

lemma authorised_spends:
  assumes "verifyComputeInNullifiers E now tokens (InAmounts resp) (InH0Ax resp) (InH0Ay resp) (InTimeStamps resp) nk spkText (Some cs) = Ok nuls"
  shows "set cs \<subseteq> {c. spends E now nk spkText tokens resp c} \<and> card {c. spends E now nk spkText tokens resp c} = length cs"
proof -
  obtain spk rows where r: "stringsToBigInts [fst spkText, snd spkText] = Ok spk" "length rows = length tokens"
    "\<And>i. i < length tokens \<Longrightarrow>
      verify_in_row E now nk spk (tokens ! i, InAmounts resp ! i, InH0Ax resp ! i, InH0Ay resp ! i, InTimeStamps resp ! i) = Ok (rows ! i)"
    and auth: "length (spent_commitments rows) = length cs" "set cs \<subseteq> set (spent_commitments rows)"
    using in_nullifiers_inversion [OF assms] by (metis (no_types, lifting))
  have "{c. spends E now nk spkText tokens resp c} = set (spent_commitments rows)"
    using spent_iff_spends [OF r] by blast
  with auth spent_commitments_distinct [of rows] show ?thesis by (simp add: distinct_card)
qed

lemma spends_finite: "finite {c. spends E now nk spkText tokens resp c}"
proof -
  have "{c. spends E now nk spkText tokens resp c} \<subseteq>
      (\<Union>i<length tokens. \<Union>j<length (InAmounts resp ! i). {c. \<exists>spk. stringsToBigInts [fst spkText, snd spkText] = Ok spk \<and>
         slot_commits E now nk spk (tokens ! i) (InAmounts resp ! i ! j, InH0Ax resp ! i ! j, InH0Ay resp ! i ! j, InTimeStamps resp ! i ! j) c})"
    by (auto simp: spends_def)
  moreover have "finite {c. \<exists>spk. stringsToBigInts [fst spkText, snd spkText] = Ok spk \<and> slot_commits E now nk spk t s c}" for t s
    by (rule finite_subset [of _ "{THE c. \<exists>spk. stringsToBigInts [fst spkText, snd spkText] = Ok spk \<and> slot_commits E now nk spk t s c}"])
      (auto simp: slot_commits_def intro!: the_equality [symmetric])
  ultimately show ?thesis by (meson finite_UN_I finite_lessThan finite_subset)
qed

section \<open>Conservation\<close>

lemma conserve_inversion:
  assumes "verifyAssertAmountsConserve tokens A Out selfs changes = Ok u"
  shows "length A = length tokens \<and> length Out = length tokens \<and> length changes = length tokens \<and>
    (\<forall>i < length tokens. self_slot_count selfs \<le> length (Out ! i)) \<and>
    (\<forall>slot < length (elems selfs). Out ! 0 ! slot = elems selfs ! slot) \<and>
    (\<forall>i < length tokens. \<exists>ins outs change. rmap ParseBigInt (A ! i) = Ok ins \<and>
        rmap ParseBigInt (take (self_slot_count selfs) (Out ! i)) = Ok outs \<and>
        ParseBigInt (changes ! i) = Ok change \<and> sum_list ins + change = sum_list outs)"
proof -
  let ?k = "self_slot_count selfs"
  have len: "length A = length tokens" "length Out = length tokens" "length changes = length tokens"
    and short: "\<not> list_ex (\<lambda>row. length row < ?k) Out"
    and same: "\<not> list_ex (\<lambda>(slot, expected). Out ! 0 ! slot \<noteq> expected) (enumerate 0 (elems selfs))"
    and loop: "\<exists>us. rmap (verify_token_conserves ?k) (zip A (zip Out changes)) = Ok us"
    using assms by (auto simp: verifyAssertAmountsConserve_def Let_def rbind_Ok_iff split: if_splits)
  obtain us where us: "rmap (verify_token_conserves ?k) (zip A (zip Out changes)) = Ok us" using loop by blast
  have token: "verify_token_conserves ?k (A ! i, Out ! i, changes ! i) = Ok (us ! i)" if "i < length tokens" for i
    using rmap_Ok_nth [OF us, of i] that len by simp
  have conserves: "\<exists>ins outs change. rmap ParseBigInt (A ! i) = Ok ins \<and> rmap ParseBigInt (take ?k (Out ! i)) = Ok outs \<and>
      ParseBigInt (changes ! i) = Ok change \<and> sum_list ins + change = sum_list outs" if "i < length tokens" for i
    using token [OF that] by (auto simp: verify_token_conserves_def parsed_total_sum rbind_Ok_iff)
  have "Out ! 0 ! slot = elems selfs ! slot" if "slot < length (elems selfs)" for slot
    using same that by (auto simp: list_ex_length nth_enumerate_eq)
  moreover have "?k \<le> length (Out ! i)" if "i < length tokens" for i
    using short that len by (metis list_ex_length linorder_not_less)
  ultimately show ?thesis using len conserves by blast
qed

section \<open>Accepted responses\<close>

text \<open>Acceptance, stage by stage.\<close>

lemma accepted_inversion:
  assumes "verifyPrepareTxResponse E now chain q r = Ok u"
  obtains auth nuls outs calldata message wrapped where
    "authorized_inputs E now q = Ok auth"
    "verifyComputeInNullifiers E now (elems (qErc20Addresses q)) (InAmounts r) (InH0Ax r) (InH0Ay r) (InTimeStamps r)
       (qNullifyingKey q) (qSpendingPublicKey q) auth = Ok nuls"
    "verifyComputeOutCommitments E now (elems (qErc20Addresses q)) (qSelfOutputAmounts q) (OutAmounts r) (OutNoteH0Ax r)
       (OutNoteH0Ay r) (OutTimeStamp r) (qNullifyingKey q) (qSpendingPublicKey q) (elems (qRecipientAddress q))
       (map elems (elems (qRecipientAmounts q))) = Ok outs"
    "verifyAssertAmountsConserve (elems (qErc20Addresses q)) (InAmounts r) (OutAmounts r) (qSelfOutputAmounts q)
       (elems (qAmountChanges q)) = Ok ()"
    "verifyAssertTxLevelStealthPairOwnedByCaller E (elems (qOnChainCreation q)) (H0Ax r) (H0Ay r) (OutH1Ax r) (OutH1Ay r)
       (qNullifyingKey q) = Ok ()"
    "verifyComputeCalldataHashAndMessage E chain q r nuls outs = Ok (calldata, message, wrapped)"
    "verifyAssertSignedMessageHashMatches E chain (qHinkalAddress q) r nuls outs calldata message wrapped = Ok ()"
  using assms by (auto simp: verifyPrepareTxResponse_def Let_def rbind_Ok_iff)

section \<open>Output rows\<close>

lemma out_commitments_inversion:
  assumes "verifyComputeOutCommitments E now tokens selfs Out X Y ts nk spkText recips amounts = Ok rows"
  obtains spk where "stringsToBigInts [fst spkText, snd spkText] = Ok spk" "length rows = length tokens"
    "length recips = length amounts" "length Out = length tokens" "length X = length tokens" "length Y = length tokens"
    "\<And>i. i < length tokens \<Longrightarrow> verify_out_row E now nk spk ts (self_slot_count selfs) (zip recips amounts)
        (i, tokens ! i, Out ! i, X ! i, Y ! i) = Ok (rows ! i)"
proof -
  have len: "length recips = length amounts" "length Out = length tokens" "length X = length tokens" "length Y = length tokens"
    using assms by (auto simp: verifyComputeOutCommitments_def Let_def split: if_splits)
  obtain spk where spk: "stringsToBigInts [fst spkText, snd spkText] = Ok spk"
    and rows: "rmap (verify_out_row E now nk spk ts (self_slot_count selfs) (zip recips amounts))
          (zip [0 ..< length tokens] (zip tokens (zip Out (zip X Y)))) = Ok rows"
    using assms len by (auto simp: verifyComputeOutCommitments_def Let_def rbind_Ok_iff split: if_splits)
  show ?thesis
  proof (rule that [OF spk _ len])
    show "length rows = length tokens" using rmap_Ok_length [OF rows] len by simp
    show "verify_out_row E now nk spk ts (self_slot_count selfs) (zip recips amounts)
        (i, tokens ! i, Out ! i, X ! i, Y ! i) = Ok (rows ! i)" if "i < length tokens" for i
      using rmap_Ok_nth [OF rows, of i] that len by simp
  qed
qed

lemma out_row_inversion:
  assumes "verify_out_row E now nk spk ts k recips (i, token, amounts, ax, ay) = Ok row"
  shows "k \<le> length amounts \<and> rmap (verify_recipient_output E now ts i token) recips = Ok (drop k row) \<and>
    rmap (verify_self_output E now nk spk ts token) (zip (take k amounts) (zip (take k ax) (take k ay))) = Ok (take k row) \<and>
    length row = k + length recips"
proof -
  have k: "k \<le> length amounts" "k \<le> length ax" "k \<le> length ay"
    using assms by (auto simp: verify_out_row_def split: if_splits)
  obtain selfs rs where r: "rmap (verify_self_output E now nk spk ts token) (zip (take k amounts) (zip (take k ax) (take k ay))) = Ok selfs"
    "rmap (verify_recipient_output E now ts i token) recips = Ok rs" "row = selfs @ rs"
    using assms by (auto simp: verify_out_row_def rbind_Ok_iff split: if_splits)
  have "length selfs = k" using rmap_Ok_length [OF r(1)] k by simp
  with r rmap_Ok_length [OF r(2)] k(1) show ?thesis by simp
qed

text \<open>The commitment of a recipient's note, from the request and the time stamp alone.\<close>

lemma recipient_output_note:
  assumes "verify_recipient_output E now ts i token (recipient, amounts) = Ok c"
  obtains x y amount where "i < length amounts" "3 \<le> length (Split recipient CHR '','')"
    "ParseBigInt (Split recipient CHR '','' ! 1) = Ok x" "ParseBigInt (Split recipient CHR '','' ! 2) = Ok y"
    "ParseBigInt (amounts ! i) = Ok amount"
    "verifyExpectedOutputCommitment E now amount (no_params\<lparr>pErc20TokenAddress := token,
       pStealthAddress := Split recipient CHR '','' ! 0, pH0 := Some (x, y), pTimeStamp := ts\<rparr>) = Ok c"
  using assms by (auto simp: verify_recipient_output_def Let_def rbind_Ok_iff split: if_splits)

section \<open>A concrete instance\<close>

text \<open>Small primitives and one request with its honest response, on which the properties are evaluated.\<close>

definition mini :: primitives where
  "mini = toy\<lparr>keccak256 := (\<lambda>_. []), sha256 := (\<lambda>_. []), abiPack := (\<lambda>_. Ok [])\<rparr>"

lemma mini_simps [simp]:
  "fieldP mini = 101" "keccak256 mini = (\<lambda>_. [])" "sha256 mini = (\<lambda>_. [])" "abiPack mini = (\<lambda>_. Ok [])" "jubMul mini k P = (k * fst P mod 13, k * snd P mod 13)"
  "poseidon mini xs = (if xs = [] then Err (External ''poseidon'') else Ok ((7 + foldl (\<lambda>a x. 3 * a + x) 0 xs) mod 101))"
  by (simp_all add: mini_def toy_def split: prod.splits)

abbreviation num :: "int \<Rightarrow> string" where "num \<equiv> int_String"
abbreviation hex :: "int \<Rightarrow> string" where "hex n \<equiv> ToBeHex (Some n)"

definition mini_request :: "string slice \<Rightarrow> prepare_tx_request" where
  "mini_request cs =
     \<lparr>qChainID = ''1'', qHinkalAddress = ''0x01'', qErc20Addresses = Some [hex 3], qAmountChanges = Some [num (- 12)],
      qExternalAddress = ''0x09'', qOriginalSender = [], qRelay = [], qAutoSelectRelay = False, qSkipRelayReservation = False,
      qFeeStructure = None, qExternalActionID = [], qExternalActionMetadata = [], qOnChainCreation = None,
      qRecipientAddress = None, qRecipientAmounts = None, qSelfOutputAmounts = None, qInputCommitments = cs,
      qUseBlockedUtxos = False, qCreateBlockedUtxos = False, qForceEmptyUtxos = False, qSkipLock = False, qMessageSeed = [],
      qSpeculative = None, qSlippageValues = None, qReceiveVaultAddress = [], qNullifyingKey = hex 7,
      qSpendingPublicKey = (num 1, num 2)\<rparr>"

definition mini_response :: "string slice \<Rightarrow> prepare_tx_response" where
  "mini_response cs =
     \<lparr>JobID = [], SignedMessageHash = num 0, RootHashHinkal = num 5, OutTimeStamp = num 6, OutH1Ax = num 1, OutH1Ay = num 1,
      H0Ax = num 1, H0Ay = num 1, OutAmounts = [[num 8]], OutNoteH0Ax = [[num 4]], OutNoteH0Ay = [[num 8]], MessageSeed = num 9,
      EncryptedOutputs = [], OnChainEncryptedOutput = [], InAmounts = [[num 10, num 10, num 0]],
      InH0Ax = [[num 4, num 5, num 0]], InH0Ay = [[num 8, num 10, num 0]], InTimeStamps = [[num 5, num 5, num 0]], Relay = [],
      Request = expected_echo (mini_request cs)\<rparr>"

lemma NewUtxo_given_point:
  "pH0 p = Some h \<Longrightarrow> pTimeStamp p \<noteq> [] \<Longrightarrow> NewUtxo E now seed p =
   Ok \<lparr>Amount = pAmount p, Erc20TokenAddress = pErc20TokenAddress p, MintAddress = pMintAddress p, TimeStamp = pTimeStamp p,
     NullifyingKey = pNullifyingKey p, SpendingPublicKey = pSpendingPublicKey p, H0 = Some h, StealthAddress = pStealthAddress p,
     EncryptionKey = pEncryptionKey p, IsBlocked = pIsBlocked p, commitment = pCommitment p, nullifier = pNullifier p\<rparr>"
  by (simp add: NewUtxo_def)

lemmas mini_eval = verify_in_slot_def NewUtxo_given_point no_params_def GetCommitment_def GetNullifier_def GetStealthAddress_def
  DeriveStealthAddress_def GetH1FromH0_def getCircomSign_def isCircomNegative_def PoseidonBig_def ParseBigInt_ToBeHex

lemma s1: "verify_in_slot mini 0 (hex 7) [1, 2] (hex 3) (num 10, num 4, num 8, num 5) = Ok (hex 86, Some (hex 38))"
  by (simp add: mini_eval)
lemma s2: "verify_in_slot mini 0 (hex 7) [1, 2] (hex 3) (num 10, num 5, num 10, num 5) = Ok (hex 31, Some (hex 100))"
  by (simp add: mini_eval)
lemma s3: "verify_in_slot mini 0 (hex 7) [1, 2] (hex 3) (num 0, a) = Ok (''0'', None)"
  by (cases a) (simp add: mini_eval)


lemma mini_nullifiers:
  assumes "auth = None \<or> (\<exists>cs. auth = Some cs \<and> length cs = 2 \<and> set cs \<subseteq> {hex 38, hex 100})"
  shows "verifyComputeInNullifiers mini 0 [hex 3] [[num 10, num 10, num 0]] [[num 4, num 5, num 0]] [[num 8, num 10, num 0]]
     [[num 5, num 5, num 0]] (hex 7) (num 1, num 2) auth = Ok [[hex 86, hex 31, ''0'']]"
proof -
  let ?rows = "[[(hex 86, Some (hex 38)), (hex 31, Some (hex 100)), (''0'', None)]]"
  have spent: "spent_commitments ?rows = [hex 100, hex 38]"
    by (simp add: spent_commitments_def ToBeHex_inject List.insert_def)
  have row: "verify_in_row mini 0 (hex 7) [1, 2] (hex 3, [num 10, num 10, num 0], [num 4, num 5, num 0], [num 8, num 10, num 0],
      [num 5, num 5, num 0]) = Ok (hd ?rows)"
    by (simp add: verify_in_row_def in_row_def s1 s2 s3)
  have "\<not> (case auth of None \<Rightarrow> False | Some cs \<Rightarrow> length [hex 100, hex 38] \<noteq> length cs \<or> list_ex (\<lambda>c. c \<notin> set [hex 100, hex 38]) cs)"
    using assms by (auto simp: list_ex_iff simp del: mini_simps)
  then show ?thesis
    by (simp add: verifyComputeInNullifiers_def stringsToBigInts_def row spent)
qed

lemma mini_self_output: "verify_self_output mini 0 (hex 7) [1, 2] (num 6) (hex 3) (num 8, num 4, num 8) = Ok (hex 86)"
proof -
  have "snd (GetCommitment mini \<lparr>Amount = Some 8, Erc20TokenAddress = hex 3, MintAddress = [], TimeStamp = num 6,
     NullifyingKey = hex 7, SpendingPublicKey = Some [1, 2], H0 = Some (4, 8), StealthAddress = [], EncryptionKey = [],
     IsBlocked = False, commitment = [], nullifier = []\<rparr>) = Ok (hex 86)" (is "snd (GetCommitment mini ?u) = _")
  proof -
    have "GetStealthAddress mini ?u = (?u\<lparr>StealthAddress := hex 78\<rparr>, Ok (hex 78))"
      by (simp add: GetStealthAddress_def DeriveStealthAddress_def GetH1FromH0_def getCircomSign_def isCircomNegative_def
          PoseidonBig_def ParseBigInt_ToBeHex)
    then show ?thesis by (simp add: GetCommitment_def PoseidonBig_def ParseBigInt_ToBeHex)
  qed
  then show ?thesis
    by (simp add: verify_self_output_def verifyExpectedOutputCommitment_def NewUtxo_given_point no_params_def)
qed

lemma mini_outputs: "verifyComputeOutCommitments mini 0 [hex 3] None [[num 8]] [[num 4]] [[num 8]] (num 6) (hex 7) (num 1, num 2) [] [] = Ok [[hex 86]]"
  by (simp add: verifyComputeOutCommitments_def stringsToBigInts_def verify_out_row_def self_slot_count_def mini_self_output)

lemma mini_conserves: "verifyAssertAmountsConserve [hex 3] [[num 10, num 10, num 0]] [[num 8]] None [num (- 12)] = Ok ()"
  by (simp add: verifyAssertAmountsConserve_def verify_token_conserves_def self_slot_count_def parsed_total_sum ParseBigInt_int_String)

lemma mini_accepts:
  assumes "cs = None \<or> (\<exists>xs. cs = Some xs \<and> length xs = 2 \<and> set xs \<subseteq> {hex 38, hex 100})"
  shows "verifyPrepareTxResponse mini 0 1 (mini_request cs) (mini_response cs) = Ok ()"
proof -
  have auth: "authorized_inputs mini 0 (mini_request cs) = Ok cs"
    by (simp add: authorized_inputs_def mini_request_def verifyCollectSpeculativeInputCommitments_def split: option.splits)
  have z: "ParseBigInt ''0'' = Ok 0" by code_simp
  have "\<exists>c m w. verifyComputeCalldataHashAndMessage mini 1 (mini_request cs) (mini_response cs) [[hex 86, hex 31, ''0'']] [[hex 86]] = Ok (c, m, w)"
    by (simp add: verifyComputeCalldataHashAndMessage_def mini_request_def mini_response_def Let_def PoseidonBig_def resolve_fee_def
        verifyComputeAmountChangesSigned_def index_at_def verifyFlatToBigInts_rmap ParseBigInt_ToBeHex z verifyCreateCallDataHash_def)
  then obtain c m w where cm: "verifyComputeCalldataHashAndMessage mini 1 (mini_request cs) (mini_response cs) [[hex 86, hex 31, ''0'']] [[hex 86]] = Ok (c, m, w)"
    by blast
  have "verifyAssertSignedMessageHashMatches mini 1 a (mini_response cs) [[hex 86, hex 31, ''0'']] [[hex 86]] c m w = Ok ()" for a
    by (simp add: verifyAssertSignedMessageHashMatches_def mini_response_def verifyFlatToBigInts_rmap ParseBigInt_ToBeHex z
        recomputed_hash_def IsTronLike_def TronChainIDs_def verifyComputeSignedMessageHashEvm_def verifyPackAndHash_def keccak_int_def SetBytes_def)
  with cm auth show ?thesis
    using mini_nullifiers [OF assms] mini_outputs mini_conserves
    by (simp add: verifyPrepareTxResponse_def mini_request_def mini_response_def verifyAssertTxLevelStealthPairOwnedByCaller_def anyTrue_def)
qed

section \<open>Properties\<close>

text \<open>C2. A response the caller accepts spends exactly the notes the caller authorised, by its own list, by its
  speculative notes or by asking for none, provided that list has no repetition.\<close>

theorem accepted_spends_authorised:
  assumes "verifyPrepareTxResponse E now chain q r = Ok u"
    and "authorized_inputs E now q = Ok (Some cs)" "distinct cs"
  shows "{c. spends E now (qNullifyingKey q) (qSpendingPublicKey q) (elems (qErc20Addresses q)) r c} = set cs"
proof (rule accepted_inversion [OF assms(1)])
  fix auth nuls
  let ?S = "{c. spends E now (qNullifyingKey q) (qSpendingPublicKey q) (elems (qErc20Addresses q)) r c}"
  assume "authorized_inputs E now q = Ok auth" and
    "verifyComputeInNullifiers E now (elems (qErc20Addresses q)) (InAmounts r) (InH0Ax r) (InH0Ay r) (InTimeStamps r)
       (qNullifyingKey q) (qSpendingPublicKey q) auth = Ok nuls"
  with assms(2) have "verifyComputeInNullifiers E now (elems (qErc20Addresses q)) (InAmounts r) (InH0Ax r) (InH0Ay r) (InTimeStamps r)
       (qNullifyingKey q) (qSpendingPublicKey q) (Some cs) = Ok nuls" by simp
  from authorised_spends [OF this] have s: "set cs \<subseteq> ?S" "card ?S = length cs" by simp_all
  have "card ?S = card (set cs)" using s(2) assms(3) by (simp add: distinct_card)
  moreover have "finite ?S"
  proof (cases "cs = []")
    case False
    then show ?thesis using s(2) by (metis card.infinite length_0_conv)
  next
    case True
    with s(2) show ?thesis using spends_finite by blast
  qed
  ultimately show "?S = set cs" using s(1) by (metis card_subset_eq)
qed

lemma accepted_spends_authorised_witness:
  "{c. spends mini 0 (hex 7) (num 1, num 2) [hex 3] (mini_response (Some [hex 38, hex 100])) c} = {hex 38, hex 100}"
proof -
  have "verifyPrepareTxResponse mini 0 1 (mini_request (Some [hex 38, hex 100])) (mini_response (Some [hex 38, hex 100])) = Ok ()"
    by (rule mini_accepts) simp
  moreover have "authorized_inputs mini 0 (mini_request (Some [hex 38, hex 100])) = Ok (Some [hex 38, hex 100])"
    by (simp add: authorized_inputs_def mini_request_def)
  ultimately show ?thesis using accepted_spends_authorised by (fastforce simp: mini_request_def ToBeHex_inject)
qed

text \<open>C17. A repetition in the caller's list opens the check: the sizes and the inclusion it compares are also
  satisfied by a response that spends a note that is not in the list.\<close>

theorem repeated_authorisation_admits_other_notes:
  "\<exists>E now chain q r cs c. qInputCommitments q = Some cs \<and> verifyPrepareTxResponse E now chain q r = Ok () \<and>
     spends E now (qNullifyingKey q) (qSpendingPublicKey q) (elems (qErc20Addresses q)) r c \<and> c \<notin> set cs"
proof -
  let ?cs = "Some [hex 38, hex 38]"
  have "verifyPrepareTxResponse mini 0 1 (mini_request ?cs) (mini_response ?cs) = Ok ()" by (rule mini_accepts) simp
  moreover have "spends mini 0 (hex 7) (num 1, num 2) [hex 3] (mini_response ?cs) (hex 100)"
    using verify_in_slot_some(1) [OF s2]
    by (auto simp: spends_def mini_response_def stringsToBigInts_def intro!: exI [of _ "Suc 0"])
  moreover have "hex 100 \<notin> set [hex 38, hex 38]" by (simp add: ToBeHex_inject)
  ultimately show ?thesis by (intro exI [of _ mini] exI [of _ 0] exI [of _ 1] exI [of _ "mini_request ?cs"]
      exI [of _ "mini_response ?cs"] exI [of _ "[hex 38, hex 38]"] exI [of _ "hex 100"]) (simp add: mini_request_def)
qed

text \<open>C3. In an accepted response every token balances: the input amounts plus the requested change equal the
  amounts of the caller's own outputs, and the caller's outputs of the first token are the requested ones.\<close>

theorem accepted_tx_conserves:
  assumes "verifyPrepareTxResponse E now chain q r = Ok u"
  shows "(\<forall>i < length (elems (qErc20Addresses q)). \<exists>ins outs change.
      rmap ParseBigInt (InAmounts r ! i) = Ok ins \<and>
      rmap ParseBigInt (take (self_slot_count (qSelfOutputAmounts q)) (OutAmounts r ! i)) = Ok outs \<and>
      ParseBigInt (elems (qAmountChanges q) ! i) = Ok change \<and> sum_list ins + change = sum_list outs) \<and>
    (\<forall>slot < length (elems (qSelfOutputAmounts q)). OutAmounts r ! 0 ! slot = elems (qSelfOutputAmounts q) ! slot)"
  by (rule accepted_inversion [OF assms]) (use conserve_inversion in blast)

lemma accepted_tx_conserves_witness: "\<exists>ins. rmap ParseBigInt [num 10, num 10, num 0] = Ok ins \<and> sum_list ins - 12 = 8"
proof -
  have "verifyPrepareTxResponse mini 0 1 (mini_request None) (mini_response None) = Ok ()" by (rule mini_accepts) simp
  from accepted_tx_conserves [OF this] show ?thesis by (simp add: mini_request_def mini_response_def self_slot_count_def)
qed



text \<open>What the check does not see: the relay and the message seed the caller asked for. The response's own
  values enter the recomputed hash, so a response with another relay or another seed passes as well.\<close>

theorem requested_relay_not_checked:
  "verifyPrepareTxResponse E now chain (q\<lparr>qRelay := relay, qAutoSelectRelay := auto_select, qMessageSeed := seed\<rparr>) r =
   verifyPrepareTxResponse E now chain q r"
proof -
  let ?q = "q\<lparr>qRelay := relay, qAutoSelectRelay := auto_select, qMessageSeed := seed\<rparr>"
  have "resolve_fee ?q = resolve_fee q" by (rule ext) (simp add: resolve_fee_def)
  note fee = this
  have "verifyComputeCalldataHashAndMessage E chain ?q r = verifyComputeCalldataHashAndMessage E chain q r"
    by (intro ext) (simp add: verifyComputeCalldataHashAndMessage_def fee cong del: if_weak_cong)
  moreover have "authorized_inputs E now ?q = authorized_inputs E now q" by (simp add: authorized_inputs_def split: option.splits)
  ultimately show ?thesis by (simp add: verifyPrepareTxResponse_def)
qed

end
