(* ===== verification/EnclaveSolana.thy ===== *)
theory EnclaveSolana
  imports EnclaveVerify
begin

text \<open>
  The Solana route: the byte encodings of \<open>internal/functions/solana/solana.go\<close> and the checks of
  \<open>construct_tx_enclave_verify.go\<close> and \<open>construct_solana_tx_enclave.go\<close> that use them.
\<close>

section \<open>Fixed-width integers\<close>

text \<open>\<open>big.Int.FillBytes\<close>: the absolute value in big endian; it panics when the value does not fit.\<close>

definition be_bytes :: "nat \<Rightarrow> int \<Rightarrow> byte list" where
  "be_bytes n v = map (\<lambda>i. word_of_int (v div 256 ^ (n - 1 - i))) [0 ..< n]"

definition FillBytes :: "int \<Rightarrow> nat \<Rightarrow> byte list result" where
  "FillBytes v n = (if \<bar>v\<bar> < 256 ^ n then Ok (be_bytes n \<bar>v\<bar>) else Err Panic)"

definition EncodeToByte32Array :: "int option \<Rightarrow> byte list result" where
  "EncodeToByte32Array value = (case value of None \<Rightarrow> Ok (replicate 32 0) | Some v \<Rightarrow> FillBytes v 32)"

definition bigToBE :: "int option \<Rightarrow> nat \<Rightarrow> byte list result" where
  "bigToBE value n = (case value of None \<Rightarrow> Ok (replicate n 0) | Some v \<Rightarrow> FillBytes v n)"

definition appendBE :: "byte list \<Rightarrow> int \<Rightarrow> nat \<Rightarrow> byte list result" where
  "appendBE dst value n = rbind (FillBytes value n) (\<lambda>b. Ok (dst @ b))"

section \<open>Mint addresses\<close>

record formatted_mint =
  MintAccountPart1 :: int
  MintAccountPart2 :: int
  CompressedAddress :: string

definition FormatMintAddress :: "primitives \<Rightarrow> string \<Rightarrow> formatted_mint result" where
  "FormatMintAddress E mint =
     rbind (rwrap ''formatMintAddress: decode'' (base58Decode E mint)) (\<lambda>keyBytes.
     let n = SetBytes keyBytes; divisor = push_bit 128 1; part1 = n div divisor; part2 = n mod divisor in
     rbind (PoseidonBig E [part1, part2]) (\<lambda>compressed.
     Ok \<lparr>MintAccountPart1 = part1, MintAccountPart2 = part2, CompressedAddress = ToBeHex (Some compressed)\<rparr>))"

section \<open>The calldata hash\<close>

record hinkal_instruction =
  AccountIndexes :: "byte list"
  Data :: "byte list"
  ProgramIndex :: int

record account_meta =
  PublicKey :: "byte list"
  IsWritable :: bool
  IsSigner :: bool

definition append_output :: "byte list \<Rightarrow> byte list \<Rightarrow> byte list result" where
  "append_output bytes cur = rbind (appendBE bytes (int (length cur)) 8) (\<lambda>b. Ok (b @ cur))"

definition append_instruction :: "byte list \<Rightarrow> hinkal_instruction \<Rightarrow> byte list result" where
  "append_instruction bytes ins =
     rbind (appendBE bytes (ProgramIndex ins) 1) (\<lambda>b1.
     rbind (appendBE b1 (int (length (AccountIndexes ins))) 8) (\<lambda>b2.
     rbind (appendBE (b2 @ AccountIndexes ins) (int (length (Data ins))) 8) (\<lambda>b3.
     Ok (b3 @ Data ins))))"

definition account_bytes :: "account_meta \<Rightarrow> byte list" where
  "account_bytes acc = (if IsWritable acc then 1 else 0) # PublicKey acc"

definition solana_calldata_bytes ::
    "dim_data \<Rightarrow> byte list \<Rightarrow> byte list \<Rightarrow> byte list list \<Rightarrow> byte list \<Rightarrow> int \<Rightarrow> int
       \<Rightarrow> hinkal_instruction list \<Rightarrow> account_meta list \<Rightarrow> byte list result" where
  "solana_calldata_bytes dims recipient signer outputs onChainOutput relayerFee variableRate instructions accounts =
     (let start = [word_of_int (TokenNumber dims), word_of_int (NullifierAmount dims), word_of_int (OutputAmount dims)]
                  @ recipient @ signer
      in rbind (rfold append_output start outputs) (\<lambda>b1.
         rbind (bigToBE (Some relayerFee) 8) (\<lambda>fee.
         rbind (bigToBE (Some variableRate) 8) (\<lambda>rate.
         rbind (rfold append_instruction (b1 @ onChainOutput @ fee @ rate) instructions) (\<lambda>b2.
         Ok (b2 @ concat (map account_bytes accounts)))))))"

definition GetSolanaCalldataHash ::
    "primitives \<Rightarrow> dim_data \<Rightarrow> byte list \<Rightarrow> byte list \<Rightarrow> byte list list \<Rightarrow> byte list \<Rightarrow> int \<Rightarrow> int
       \<Rightarrow> hinkal_instruction list \<Rightarrow> account_meta list \<Rightarrow> int result" where
  "GetSolanaCalldataHash E dims recipient signer outputs onChainOutput relayerFee variableRate instructions accounts =
     rbind (solana_calldata_bytes dims recipient signer outputs onChainOutput relayerFee variableRate instructions accounts)
       (\<lambda>bytes. Ok (SetBytes (sha256 E bytes) mod fieldP E))"

section \<open>The signed message hash\<close>

record solana_hash_params =
  hRootHashHinkal :: int
  hMintAccountPart1 :: "int list"
  hMintAccountPart2 :: "int list"
  hAmountChanges :: "int list"
  hOutTimeStamp :: int
  hInNullifiers :: "string list list"
  hOutCommitments :: "string list list"
  hCalldataHash :: int
  hMessage :: int
  hSwapperAccountAdditionalSeed :: int
  hOutH1Ay :: int
  hH0Ax :: int
  hH0Ay :: int

definition verifyAppendBytes32 :: "byte list \<Rightarrow> int \<Rightarrow> byte list result" where
  "verifyAppendBytes32 dst value = rbind (FillBytes value 32) (\<lambda>b. Ok (dst @ b))"

definition verifyAppendLengthPrefixedBytes32Array :: "byte list \<Rightarrow> int list \<Rightarrow> byte list result" where
  "verifyAppendLengthPrefixedBytes32Array dst values =
     rbind (FillBytes (int (length values)) 8) (\<lambda>len. rfold verifyAppendBytes32 (dst @ len) values)"

definition solana_message_bytes :: "solana_hash_params \<Rightarrow> int list \<Rightarrow> int list \<Rightarrow> byte list result" where
  "solana_message_bytes p nullifiers commitments =
     rbind (verifyAppendBytes32 [] (hRootHashHinkal p)) (\<lambda>b.
     rbind (verifyAppendLengthPrefixedBytes32Array b (hMintAccountPart1 p)) (\<lambda>b.
     rbind (verifyAppendLengthPrefixedBytes32Array b (hMintAccountPart2 p)) (\<lambda>b.
     rbind (verifyAppendLengthPrefixedBytes32Array b (hAmountChanges p)) (\<lambda>b.
     rbind (verifyAppendBytes32 b (hOutTimeStamp p)) (\<lambda>b.
     rbind (verifyAppendLengthPrefixedBytes32Array b nullifiers) (\<lambda>b.
     rbind (verifyAppendLengthPrefixedBytes32Array b commitments) (\<lambda>b.
     rbind (verifyAppendBytes32 b (hCalldataHash p)) (\<lambda>b.
     rbind (verifyAppendBytes32 b (hMessage p)) (\<lambda>b.
     rbind (verifyAppendBytes32 b (hSwapperAccountAdditionalSeed p)) (\<lambda>b.
     rbind (verifyAppendBytes32 b (hOutH1Ay p)) (\<lambda>b.
     rbind (verifyAppendBytes32 b (hH0Ax p)) (\<lambda>b.
     verifyAppendBytes32 b (hH0Ay p)))))))))))))"

definition verifyComputeSignedMessageHashSolana :: "primitives \<Rightarrow> solana_hash_params \<Rightarrow> int result" where
  "verifyComputeSignedMessageHashSolana E p =
     rbind (verifyFlatToBigInts (hInNullifiers p)) (\<lambda>nullifiers.
     rbind (verifyFlatToBigInts (hOutCommitments p)) (\<lambda>commitments.
     rbind (solana_message_bytes p nullifiers commitments) (\<lambda>bytes.
     Ok (SetBytes (sha256 E bytes) mod fieldP E))))"

section \<open>Dimensions\<close>

definition verifyComputeExpectedDimensions :: "nat \<Rightarrow> string list list \<Rightarrow> string list list \<Rightarrow> dim_data" where
  "verifyComputeExpectedDimensions tokenCount inNullifiers outCommitments =
     \<lparr>TokenNumber = int tokenCount,
      NullifierAmount = (case inNullifiers of [] \<Rightarrow> 0 | row # _ \<Rightarrow> int (length row)),
      OutputAmount = (case outCommitments of [] \<Rightarrow> 0 | row # _ \<Rightarrow> int (length row))\<rparr>"

definition verifyAssertDimensionsMatch :: "dim_data \<Rightarrow> dim_data \<Rightarrow> string \<Rightarrow> unit result" where
  "verifyAssertDimensionsMatch dimensions expected route =
     ensure (\<not> (TokenNumber dimensions \<noteq> TokenNumber expected \<or>
                NullifierAmount dimensions \<noteq> NullifierAmount expected \<or>
                OutputAmount dimensions \<noteq> OutputAmount expected))
       (Errorf (''enclave: '' @ route @ '' dimensions do not match the caller's own data - refusing to sign''))"

section \<open>prepare-solana-tx\<close>

record solana_instruction =
  siAccountIndexes :: "int slice"
  siData :: "int slice"
  siProgramIndex :: int

record solana_account_meta =
  saPubkey :: string
  saIsSigner :: bool
  saIsWritable :: bool

text \<open>\<open>Accounts\<close> is raw JSON: opaque bytes, compared by \<open>jsonEqual\<close>.\<close>

record prepare_solana_tx_params =
  lpChainID :: int
  lpMintAddresses :: "string slice"
  lpAmountChanges :: "int slice"
  lpRelayAddress :: string
  lpAutoSelectRelay :: bool
  lpSkipRelayReservation :: bool
  lpRecipient :: string
  lpSigner :: string
  lpFunctionName :: string
  lpAccounts :: string
  lpOnChainCreation :: "bool slice"
  lpRelayerFee :: "int option"
  lpVariableRate :: "int option"
  lpSwapperAccountSalt :: "int option"
  lpHinkalInstructions :: "solana_instruction slice"
  lpRemainingAccounts :: "solana_account_meta slice"
  lpRecipientAddress :: string
  lpRecipientAmounts :: "int slice"
  lpInputCommitments :: "string slice"
  lpUseBlockedUtxos :: bool
  lpMessageSeed :: "int option"
  lpRecipientAmount :: string
  lpDisplayRecipient :: string
  lpSpeculative :: "speculative_params option"

record prepare_solana_tx_request =
  lqChainID :: string
  lqMintAddresses :: "string slice"
  lqAmountChanges :: "string slice"
  lqRelayAddress :: string
  lqAutoSelectRelay :: bool
  lqSkipRelayReservation :: bool
  lqRecipient :: string
  lqSigner :: string
  lqFunctionName :: string
  lqAccounts :: string
  lqOnChainCreation :: "bool slice"
  lqRelayerFee :: string
  lqVariableRate :: string
  lqHinkalInstructions :: "solana_instruction slice"
  lqRemainingAccounts :: "solana_account_meta slice"
  lqSwapperAccountSalt :: string
  lqRecipientAddress :: string
  lqRecipientAmounts :: "string slice"
  lqInputCommitments :: "string slice"
  lqUseBlockedUtxos :: bool
  lqMessageSeed :: string
  lqRecipientAmount :: string
  lqDisplayRecipient :: string
  lqSpeculative :: "speculative_params option"
  lqNullifyingKey :: string
  lqSpendingPublicKey :: "string \<times> string"

record echoed_prepare_solana_tx_request =
  leChainID :: string
  leMintAddresses :: "string slice"
  leAmountChanges :: "string slice"
  leRelayAddress :: string
  leRecipient :: string
  leSigner :: string
  leFunctionName :: string
  leAccounts :: string
  leOnChainCreation :: "bool slice"
  leRelayerFee :: string
  leVariableRate :: string
  leHinkalInstructions :: "solana_instruction slice"
  leRemainingAccounts :: "solana_account_meta slice"
  leSwapperAccountSalt :: string
  leRecipientAddress :: string
  leRecipientAmounts :: "string slice"
  leInputCommitments :: "string slice"
  leUseBlockedUtxos :: bool
  leMessageSeed :: string
  leRecipientAmount :: string
  leDisplayRecipient :: string
  leSpeculative :: "speculative_params option"

record prepare_solana_tx_response = witness_preimage +
  lRequest :: echoed_prepare_solana_tx_request
  lDimensions :: dim_data

definition amount_text :: "int option \<Rightarrow> string" where
  "amount_text v = (case v of None \<Rightarrow> [] | Some n \<Rightarrow> int_String n)"

definition buildPrepareSolanaTxRequest ::
    "prepare_solana_tx_params \<Rightarrow> string \<Rightarrow> string \<times> string \<Rightarrow> prepare_solana_tx_request" where
  "buildPrepareSolanaTxRequest p nk spendingPublicKey =
     \<lparr>lqChainID = int_String (lpChainID p), lqMintAddresses = lpMintAddresses p,
      lqAmountChanges = bigIntStrings (lpAmountChanges p), lqRelayAddress = lpRelayAddress p,
      lqAutoSelectRelay = lpAutoSelectRelay p, lqSkipRelayReservation = lpSkipRelayReservation p,
      lqRecipient = lpRecipient p, lqSigner = lpSigner p, lqFunctionName = lpFunctionName p,
      lqAccounts = lpAccounts p, lqOnChainCreation = lpOnChainCreation p,
      lqRelayerFee = amount_text (lpRelayerFee p), lqVariableRate = amount_text (lpVariableRate p),
      lqHinkalInstructions = lpHinkalInstructions p, lqRemainingAccounts = lpRemainingAccounts p,
      lqSwapperAccountSalt = amount_text (lpSwapperAccountSalt p), lqRecipientAddress = lpRecipientAddress p,
      lqRecipientAmounts = bigIntStrings (lpRecipientAmounts p), lqInputCommitments = lpInputCommitments p,
      lqUseBlockedUtxos = lpUseBlockedUtxos p, lqMessageSeed = amount_text (lpMessageSeed p),
      lqRecipientAmount = lpRecipientAmount p, lqDisplayRecipient = lpDisplayRecipient p,
      lqSpeculative = lpSpeculative p, lqNullifyingKey = nk, lqSpendingPublicKey = spendingPublicKey\<rparr>"

text \<open>\<open>decode\<close> is \<open>json.Unmarshal\<close> into \<open>any\<close>.\<close>

definition jsonEqual :: "(string \<Rightarrow> 'j option) \<Rightarrow> string \<Rightarrow> string \<Rightarrow> bool" where
  "jsonEqual decode a b =
     (if a = [] \<or> b = [] then a = [] \<and> b = []
      else (case decode a of None \<Rightarrow> False
            | Some l \<Rightarrow> (case decode b of None \<Rightarrow> False | Some r \<Rightarrow> l = r)))"

definition defaultZeroAmount :: "string \<Rightarrow> string" where
  "defaultZeroAmount value = (if value = [] then ''0'' else value)"

definition expected_solana_echo :: "prepare_solana_tx_request \<Rightarrow> echoed_prepare_solana_tx_request" where
  "expected_solana_echo q =
     \<lparr>leChainID = lqChainID q, leMintAddresses = lqMintAddresses q, leAmountChanges = lqAmountChanges q,
      leRelayAddress = lqRelayAddress q, leRecipient = lqRecipient q,
      leSigner = (if lqSigner q = [] then lqRelayAddress q else lqSigner q),
      leFunctionName = (if lqFunctionName q = [] then ''transact'' else lqFunctionName q),
      leAccounts = [], leOnChainCreation = lqOnChainCreation q,
      leRelayerFee = defaultZeroAmount (lqRelayerFee q), leVariableRate = defaultZeroAmount (lqVariableRate q),
      leHinkalInstructions = lqHinkalInstructions q, leRemainingAccounts = lqRemainingAccounts q,
      leSwapperAccountSalt = defaultZeroAmount (lqSwapperAccountSalt q), leRecipientAddress = lqRecipientAddress q,
      leRecipientAmounts = lqRecipientAmounts q, leInputCommitments = lqInputCommitments q,
      leUseBlockedUtxos = lqUseBlockedUtxos q, leMessageSeed = lqMessageSeed q,
      leRecipientAmount = lqRecipientAmount q, leDisplayRecipient = lqDisplayRecipient q,
      leSpeculative = lqSpeculative q\<rparr>"

definition assertPrepareSolanaTxEchoMatches ::
    "(string \<Rightarrow> 'j option) \<Rightarrow> prepare_solana_tx_request \<Rightarrow> echoed_prepare_solana_tx_request \<Rightarrow> unit result" where
  "assertPrepareSolanaTxEchoMatches decode payload echoed =
     ensure (expected_solana_echo payload = echoed\<lparr>leAccounts := []\<rparr> \<and> jsonEqual decode (lqAccounts payload) (leAccounts echoed))
       (Errorf ''enclave: prepare-solana-tx response does not match the request sent - refusing to sign'')"

definition intsToBytes :: "int list \<Rightarrow> byte list" where
  "intsToBytes values = map word_of_int values"

definition solana_outputs_for_hash :: "primitives \<Rightarrow> bool list \<Rightarrow> string list list \<Rightarrow> byte list list" where
  "solana_outputs_for_hash E onChainCreation rows =
     concat (map (\<lambda>(tokenIndex, row).
       map (\<lambda>hexStr. if tokenIndex < length onChainCreation \<and> onChainCreation ! tokenIndex then [] else fromHex E hexStr) row)
       (enumerate 0 rows))"

definition solana_signer :: "prepare_solana_tx_request \<Rightarrow> 'a witness_preimage_scheme \<Rightarrow> string" where
  "solana_signer payload response =
     (let s = (if lqSigner payload = [] then lqRelayAddress payload else lqSigner payload)
      in if s = [] then Relay response else s)"

definition optional_amount :: "string \<Rightarrow> int result" where
  "optional_amount s = (if s = [] then Ok 0 else ParseBigInt s)"

definition verifyComputeSolanaCalldataHashAndMessage ::
    "primitives \<Rightarrow> prepare_solana_tx_request \<Rightarrow> prepare_solana_tx_response \<Rightarrow> string list list \<Rightarrow> string list list
       \<Rightarrow> (int \<times> int) result" where
  "verifyComputeSolanaCalldataHashAndMessage E payload response inNullifiers outCommitments =
     rbind (ParseBigInt (MessageSeed response)) (\<lambda>messageSeed.
     rbind (PoseidonBig E [messageSeed]) (\<lambda>message.
     let n = length (elems (lqMintAddresses payload)) in
     rbind (verifyAssertDimensionsMatch (lDimensions response)
              (verifyComputeExpectedDimensions n inNullifiers outCommitments) ''prepare-solana-tx'') (\<lambda>_.
     let onChainCreation = expandBoolPerToken (elems (lqOnChainCreation payload)) n;
         outputs = solana_outputs_for_hash E onChainCreation (EncryptedOutputs response);
         onChainOutputHex = (if anyTrue onChainCreation then OnChainEncryptedOutput response else ''0x'');
         instructions = map (\<lambda>ins. \<lparr>AccountIndexes = intsToBytes (elems (siAccountIndexes ins)),
                          Data = intsToBytes (elems (siData ins)), ProgramIndex = siProgramIndex ins\<rparr>)
                          (elems (lqHinkalInstructions payload))
     in
     rbind (rmap (\<lambda>acc. rbind (publicKeyFromBase58 E (saPubkey acc)) (\<lambda>pk.
              Ok \<lparr>PublicKey = pk, IsWritable = saIsWritable acc, IsSigner = saIsSigner acc\<rparr>))
              (elems (lqRemainingAccounts payload))) (\<lambda>accounts.
     rbind (publicKeyFromBase58 E (lqRecipient payload)) (\<lambda>recipient.
     rbind (publicKeyFromBase58 E (solana_signer payload response)) (\<lambda>signer.
     rbind (optional_amount (lqRelayerFee payload)) (\<lambda>relayerFee.
     rbind (optional_amount (lqVariableRate payload)) (\<lambda>variableRate.
     rbind (GetSolanaCalldataHash E (lDimensions response) recipient signer outputs (fromHex E onChainOutputHex)
              relayerFee variableRate instructions accounts) (\<lambda>calldataHash.
     Ok (calldataHash, message))))))))))"

definition verifyComputeSolanaAmountChangesSigned :: "prepare_solana_tx_request \<Rightarrow> int list result" where
  "verifyComputeSolanaAmountChangesSigned payload =
     rmap (\<lambda>tokenIndex.
       rbind (index_at (elems (lqAmountChanges payload)) tokenIndex) (\<lambda>s.
       rbind (ParseBigInt s) (\<lambda>selfDelta.
       rbind (case lqRecipientAmounts payload of
                None \<Rightarrow> Ok 0
              | Some amounts \<Rightarrow> rbind (index_at amounts tokenIndex) ParseBigInt) (\<lambda>recipientAmount.
       Ok (selfDelta + recipientAmount))))) [0 ..< length (elems (lqMintAddresses payload))]"

definition verifyAssertSolanaSignedMessageHashMatches ::
    "primitives \<Rightarrow> prepare_solana_tx_response \<Rightarrow> int list \<Rightarrow> int list \<Rightarrow> string list list \<Rightarrow> string list list
       \<Rightarrow> int \<Rightarrow> int \<Rightarrow> int list \<Rightarrow> int \<Rightarrow> unit result" where
  "verifyAssertSolanaSignedMessageHashMatches E response part1 part2 inNullifiers outCommitments calldataHash message wrapped seed =
     rbind (ParseBigInt (RootHashHinkal response)) (\<lambda>rootHash.
     rbind (ParseBigInt (OutTimeStamp response)) (\<lambda>outTimeStamp.
     rbind (ParseBigInt (OutH1Ay response)) (\<lambda>outH1Ay.
     rbind (ParseBigInt (H0Ax response)) (\<lambda>h0Ax.
     rbind (ParseBigInt (H0Ay response)) (\<lambda>h0Ay.
     rbind (verifyComputeSignedMessageHashSolana E \<lparr>hRootHashHinkal = rootHash, hMintAccountPart1 = part1,
              hMintAccountPart2 = part2, hAmountChanges = wrapped, hOutTimeStamp = outTimeStamp,
              hInNullifiers = inNullifiers, hOutCommitments = outCommitments, hCalldataHash = calldataHash,
              hMessage = message, hSwapperAccountAdditionalSeed = seed, hOutH1Ay = outH1Ay,
              hH0Ax = h0Ax, hH0Ay = h0Ay\<rparr>) (\<lambda>recomputed.
     rbind (ParseBigInt (SignedMessageHash response)) (\<lambda>expected.
     ensure (recomputed = expected)
       (Errorf ''enclave: prepare-solana-tx signedMessageHash does not match one built from the caller's own data - refusing to sign''))))))))"

definition solana_authorized_inputs :: "primitives \<Rightarrow> int \<Rightarrow> prepare_solana_tx_request \<Rightarrow> string slice result" where
  "solana_authorized_inputs E now payload =
     (case lqInputCommitments payload of
        Some cs \<Rightarrow> Ok (Some cs)
      | None \<Rightarrow> verifyCollectSpeculativeInputCommitments E now (lqSpeculative payload))"

definition verifyPrepareSolanaTxResponse ::
    "primitives \<Rightarrow> int \<Rightarrow> prepare_solana_tx_request \<Rightarrow> prepare_solana_tx_response \<Rightarrow> unit result" where
  "verifyPrepareSolanaTxResponse E now payload response =
     rbind (rmap (FormatMintAddress E) (elems (lqMintAddresses payload))) (\<lambda>mints.
     let tokens = map CompressedAddress mints;
         recipientAddress = (if lqRecipientAddress payload = [] then [] else [lqRecipientAddress payload]);
         recipientAmounts = (case lqRecipientAmounts payload of None \<Rightarrow> [] | Some amounts \<Rightarrow> [amounts])
     in
     rbind (solana_authorized_inputs E now payload) (\<lambda>authorized.
     rbind (verifyComputeInNullifiers E now tokens (InAmounts response) (InH0Ax response) (InH0Ay response)
              (InTimeStamps response) (lqNullifyingKey payload) (lqSpendingPublicKey payload) authorized) (\<lambda>inNullifiers.
     rbind (verifyComputeOutCommitments E now tokens None (OutAmounts response) (OutNoteH0Ax response)
              (OutNoteH0Ay response) (OutTimeStamp response) (lqNullifyingKey payload) (lqSpendingPublicKey payload)
              recipientAddress recipientAmounts) (\<lambda>outCommitments.
     rbind (verifyAssertAmountsConserve tokens (InAmounts response) (OutAmounts response) None
              (elems (lqAmountChanges payload))) (\<lambda>_.
     rbind (verifyComputeSolanaCalldataHashAndMessage E payload response inNullifiers outCommitments)
       (\<lambda>(calldataHash, message).
     rbind (verifyComputeSolanaAmountChangesSigned payload) (\<lambda>amountChangesSigned.
     rbind (optional_amount (lqSwapperAccountSalt payload)) (\<lambda>salt.
     rbind (PoseidonBig E [salt]) (\<lambda>seed.
     verifyAssertSolanaSignedMessageHashMatches E response (map MintAccountPart1 mints) (map MintAccountPart2 mints)
       inNullifiers outCommitments calldataHash message (map (verifyWrapAmountChange E) amountChangesSigned) seed)))))))))"

section \<open>prepare-solana-stuck-withdraw\<close>

definition verifySolanaStuckWithdrawJobSignedMessageHash ::
    "primitives \<Rightarrow> int \<Rightarrow> string \<Rightarrow> string \<Rightarrow> fee_structure \<Rightarrow> string \<Rightarrow> string \<times> string \<Rightarrow> stuck_job \<Rightarrow> string list
       \<Rightarrow> string list result" where
  "verifySolanaStuckWithdrawJobSignedMessageHash E now mintAddress recipient fee nk spendingPublicKey job spent =
     rbind (FormatMintAddress E mintAddress) (\<lambda>formatted.
     let token = CompressedAddress formatted in
     rbind (verifyComputeInNullifiers E now [token] (InAmounts job) (InH0Ax job) (InH0Ay job) (InTimeStamps job)
              nk spendingPublicKey None) (\<lambda>inNullifiers.
     rbind (verifyNoRepeatedStuckNotes inNullifiers spent) (\<lambda>spent'.
     rbind (verifyComputeOutCommitments E now [token] None (OutAmounts job) (OutNoteH0Ax job) (OutNoteH0Ay job)
              (OutTimeStamp job) nk spendingPublicKey [] []) (\<lambda>outCommitments.
     rbind (rbind (index_at (InAmounts job) 0) parsed_total) (\<lambda>inputTotal.
     rbind (verifyStuckWithdrawJobCoversFee inputTotal (FlatFee fee)) (\<lambda>_.
     let amountChangesSigned = - inputTotal in
     rbind (verifyAssertAmountsConserve [token] (InAmounts job) (OutAmounts job) None [int_String amountChangesSigned]) (\<lambda>_.
     let wrapped = verifyWrapAmountChange E amountChangesSigned in
     rbind (ParseBigInt (MessageSeed job)) (\<lambda>messageSeed.
     rbind (PoseidonBig E [messageSeed]) (\<lambda>message.
     rbind (publicKeyFromBase58 E recipient) (\<lambda>recipientPk.
     rbind (publicKeyFromBase58 E (Relay job)) (\<lambda>signerPk.
     rbind (verifyAssertDimensionsMatch (Dimensions job) (verifyComputeExpectedDimensions 1 inNullifiers outCommitments)
              ''prepare-solana-stuck-withdraw'') (\<lambda>_.
     rbind (GetSolanaCalldataHash E (Dimensions job) recipientPk signerPk (concat (map (map (fromHex E)) (EncryptedOutputs job)))
              [] (FlatFee fee) (VariableRate fee) [] []) (\<lambda>calldataHash.
     rbind (ParseBigInt (RootHashHinkal job)) (\<lambda>rootHash.
     rbind (ParseBigInt (OutTimeStamp job)) (\<lambda>outTimeStamp.
     rbind (ParseBigInt (OutH1Ay job)) (\<lambda>outH1Ay.
     rbind (ParseBigInt (H0Ax job)) (\<lambda>h0Ax.
     rbind (ParseBigInt (H0Ay job)) (\<lambda>h0Ay.
     rbind (PoseidonBig E [0]) (\<lambda>zeroSeed.
     rbind (verifyComputeSignedMessageHashSolana E \<lparr>hRootHashHinkal = rootHash,
              hMintAccountPart1 = [MintAccountPart1 formatted], hMintAccountPart2 = [MintAccountPart2 formatted],
              hAmountChanges = [wrapped], hOutTimeStamp = outTimeStamp, hInNullifiers = inNullifiers,
              hOutCommitments = outCommitments, hCalldataHash = calldataHash, hMessage = message,
              hSwapperAccountAdditionalSeed = zeroSeed, hOutH1Ay = outH1Ay, hH0Ax = h0Ax, hH0Ay = h0Ay\<rparr>) (\<lambda>recomputed.
     rbind (ParseBigInt (SignedMessageHash job)) (\<lambda>expected.
     rbind (ensure (recomputed = expected)
              (Errorf ''enclave: prepare-solana-stuck-withdraw job signedMessageHash does not match one built from the caller's own data - refusing to sign'')) (\<lambda>_.
     Ok spent'))))))))))))))))))))))"

section \<open>The calls\<close>

definition PrepareSolanaTxEnclaveCall ::
    "primitives \<Rightarrow> int \<Rightarrow> (string \<Rightarrow> 'j option) \<Rightarrow> (prepare_solana_tx_request \<Rightarrow> prepare_solana_tx_response result)
       \<Rightarrow> user_keys \<Rightarrow> prepare_solana_tx_params \<Rightarrow> user_keys \<times> prepare_solana_tx_response result" where
  "PrepareSolanaTxEnclaveCall E now decode post uk params =
     (case GetShieldedPrivateKey E uk of (uk', key) \<Rightarrow>
       (uk',
        rbind key (\<lambda>nk.
        rbind (GetSpendingKeyPair E uk') (\<lambda>pair.
        let point = PubSpendingBJJPoint pair;
            payload = buildPrepareSolanaTxRequest params nk (int_String (fst point), int_String (snd point))
        in
        rbind (post payload) (\<lambda>resp.
        rbind (assertPrepareSolanaTxEchoMatches decode payload (lRequest resp)) (\<lambda>_.
        rbind (verifyPrepareSolanaTxResponse E now payload resp) (\<lambda>_.
        Ok resp)))))))"

record solana_stuck_withdraw_request =
  lsChainID :: string
  lsMintAddress :: string
  lsRecipient :: string
  lsRelayAddress :: string
  lsAutoSelectRelay :: bool
  lsAccounts :: string
  lsFeeStructures :: "(string, fee_structure_json) gomap"
  lsHashedEthereumAddress :: string
  lsNullifyingKey :: string
  lsSpendingPublicKey :: "string \<times> string"

record echoed_solana_stuck_withdraw_request =
  lwChainID :: string
  lwMintAddress :: string
  lwRecipient :: string
  lwRelayAddress :: string
  lwSigner :: string
  lwAccounts :: string
  lwFeeStructures :: "(string, fee_structure_json) gomap"
  lwHashedEthereumAddress :: string

record solana_stuck_withdraw_response =
  lwJobs :: "stuck_job list"
  lwRequest :: echoed_solana_stuck_withdraw_request

record solana_stuck_withdraw_params =
  lvChainID :: int
  lvMintAddress :: string
  lvRecipient :: string
  lvRelayAddress :: string
  lvAutoSelectRelay :: bool
  lvAccounts :: string
  lvFeeStructures :: "(string, fee_structure) gomap"
  lvHashedEthereumAddress :: string

text \<open>The maps of fee structures are compared as maps: by their entries, in any order.\<close>

definition assertPrepareSolanaStuckWithdrawEchoMatches ::
    "(string \<Rightarrow> 'j option) \<Rightarrow> solana_stuck_withdraw_request \<Rightarrow> echoed_solana_stuck_withdraw_request \<Rightarrow> unit result" where
  "assertPrepareSolanaStuckWithdrawEchoMatches decode payload echoed =
     ensure (\<lparr>lwChainID = lsChainID payload, lwMintAddress = lsMintAddress payload, lwRecipient = lsRecipient payload,
              lwRelayAddress = lsRelayAddress payload, lwSigner = lsRelayAddress payload, lwAccounts = [],
              lwFeeStructures = [], lwHashedEthereumAddress = lsHashedEthereumAddress payload\<rparr>
             = echoed\<lparr>lwAccounts := [], lwFeeStructures := []\<rparr> \<and>
             set (lsFeeStructures payload) = set (lwFeeStructures echoed) \<and> jsonEqual decode (lsAccounts payload) (lwAccounts echoed))
       (Errorf ''enclave: prepare-solana-stuck-withdraw response does not match the request sent - refusing to sign'')"

text \<open>The number of positive input amounts of a job chooses its fee.\<close>

definition job_nullifier_count :: "stuck_job \<Rightarrow> nat result" where
  "job_nullifier_count job =
     rbind (index_at (InAmounts job) 0) (\<lambda>amounts.
     rfold (\<lambda>n amount. rbind (ParseBigInt amount) (\<lambda>v. Ok (if v > 0 then n + 1 else n))) 0 amounts)"

definition verify_solana_stuck_job ::
    "primitives \<Rightarrow> int \<Rightarrow> solana_stuck_withdraw_params \<Rightarrow> string \<Rightarrow> string \<times> string \<Rightarrow> string list \<Rightarrow> stuck_job
       \<Rightarrow> string list result" where
  "verify_solana_stuck_job E now params nk spk spent job =
     rbind (job_nullifier_count job) (\<lambda>n.
     case mget (lvFeeStructures params) (int_String (int n)) of
       None \<Rightarrow> Err (Errorf ''enclave: no feeStructure supplied for nullifierCount'')
     | Some fee \<Rightarrow>
         verifySolanaStuckWithdrawJobSignedMessageHash E now (lvMintAddress params) (lvRecipient params) fee nk spk job spent)"

definition PrepareSolanaStuckWithdrawEnclaveCall ::
    "primitives \<Rightarrow> int \<Rightarrow> (string \<Rightarrow> 'j option)
       \<Rightarrow> (solana_stuck_withdraw_request \<Rightarrow> solana_stuck_withdraw_response result)
       \<Rightarrow> user_keys \<Rightarrow> solana_stuck_withdraw_params \<Rightarrow> user_keys \<times> stuck_job list result" where
  "PrepareSolanaStuckWithdrawEnclaveCall E now decode post uk params =
     (case GetShieldedPrivateKey E uk of (uk', key) \<Rightarrow>
       (uk',
        rbind key (\<lambda>nk.
        rbind (GetSpendingKeyPair E uk') (\<lambda>pair.
        let spk = (int_String (fst (PubSpendingBJJPoint pair)), int_String (snd (PubSpendingBJJPoint pair)));
            payload = \<lparr>lsChainID = int_String (lvChainID params), lsMintAddress = lvMintAddress params,
              lsRecipient = lvRecipient params, lsRelayAddress = lvRelayAddress params,
              lsAutoSelectRelay = lvAutoSelectRelay params, lsAccounts = lvAccounts params,
              lsFeeStructures = map (\<lambda>(k, fee). (k, fee_json fee)) (lvFeeStructures params),
              lsHashedEthereumAddress = lvHashedEthereumAddress params, lsNullifyingKey = nk, lsSpendingPublicKey = spk\<rparr>
        in
        rbind (post payload) (\<lambda>resp.
        rbind (assertPrepareSolanaStuckWithdrawEchoMatches decode payload (lwRequest resp)) (\<lambda>_.
        rbind (rfold (verify_solana_stuck_job E now params nk spk) [] (lwJobs resp)) (\<lambda>_.
        Ok (lwJobs resp))))))))"

end
