(* ===== verification/EnclaveCalls.thy ===== *)
theory EnclaveCalls
  imports EnclaveCorrect EnclaveSolana
begin

text \<open>
  The calls as a whole: what the caller holds when \<open>PrepareTxEnclaveCall\<close> returns a response to sign, and
  when the stuck-withdraw calls return their jobs.
\<close>

section \<open>Jobs that share a set of spent notes\<close>

text \<open>A check of one job that adds the nullifiers of the job to the set of the earlier ones and refuses
  repetitions, for any contract \<open>good\<close> the check enforces besides.\<close>

definition spent_nullifiers :: "string list \<Rightarrow> string list" where
  "spent_nullifiers row = filter (\<lambda>n. n \<noteq> ''0'') row"

locale stuck_checker =
  fixes check :: "string list \<Rightarrow> 'j \<Rightarrow> string list result"
    and nullifiers :: "'j \<Rightarrow> string list \<Rightarrow> bool"
    and good :: "'j \<Rightarrow> bool"
  assumes check_ok: "check spent j = Ok spent' \<Longrightarrow>
      good j \<and> (\<exists>row. nullifiers j row \<and> set spent' = set spent \<union> set (spent_nullifiers row) \<and>
        distinct (spent_nullifiers row) \<and> set spent \<inter> set (spent_nullifiers row) = {})"
begin

lemma jobs_disjoint:
  assumes "rfold check spent jobs = Ok spent'"
  shows "(\<forall>j \<in> set jobs. good j) \<and> (\<exists>rows. list_all2 nullifiers jobs rows \<and>
     distinct (concat (map spent_nullifiers rows)) \<and> set spent \<inter> set (concat (map spent_nullifiers rows)) = {})"
  using assms
proof (induction jobs arbitrary: spent)
  case Nil
  then show ?case by (auto intro: exI [of _ "[]"])
next
  case (Cons j jobs)
  then obtain s where s: "check spent j = Ok s" "rfold check s jobs = Ok spent'" by (auto simp: rbind_Ok_iff)
  obtain row where row: "nullifiers j row" "set s = set spent \<union> set (spent_nullifiers row)"
    "distinct (spent_nullifiers row)" "set spent \<inter> set (spent_nullifiers row) = {}" and g: "good j"
    using check_ok [OF s(1)] by blast
  obtain rows where rows: "list_all2 nullifiers jobs rows" "distinct (concat (map spent_nullifiers rows))"
    "set s \<inter> set (concat (map spent_nullifiers rows)) = {}" and gs: "\<forall>j \<in> set jobs. good j"
    using Cons.IH [OF s(2)] by blast
  have "list_all2 nullifiers (j # jobs) (row # rows)" using row rows by simp
  moreover have "distinct (concat (map spent_nullifiers (row # rows)))"
    "set spent \<inter> set (concat (map spent_nullifiers (row # rows))) = {}"
    using row rows by auto
  ultimately show ?case using g gs by (metis set_ConsD)
qed

end

section \<open>The check of one job\<close>

lemma no_repeated_fold:
  "rfold (\<lambda>spent nul. if nul = ''0'' then Ok spent else if nul \<in> set spent then Err e else Ok (nul # spent)) spent row = Ok spent'
   \<Longrightarrow> set spent' = set spent \<union> set (spent_nullifiers row) \<and> distinct (spent_nullifiers row) \<and> set spent \<inter> set (spent_nullifiers row) = {}"
proof (induction row arbitrary: spent)
  case (Cons n row)
  show ?case
  proof (cases "n = ''0''")
    case True
    then show ?thesis using Cons by (simp add: spent_nullifiers_def)
  next
    case False
    with Cons.prems have n: "n \<notin> set spent" by (auto split: if_splits)
    with False Cons.prems have "set spent' = set (n # spent) \<union> set (spent_nullifiers row) \<and>
        distinct (spent_nullifiers row) \<and> set (n # spent) \<inter> set (spent_nullifiers row) = {}"
      by (intro Cons.IH) simp
    with n False show ?thesis by (auto simp: spent_nullifiers_def)
  qed
qed (simp add: spent_nullifiers_def)

lemma no_repeated_inversion:
  assumes "verifyNoRepeatedStuckNotes rows spent = Ok spent'"
  shows "rows \<noteq> [] \<and> set spent' = set spent \<union> set (spent_nullifiers (rows ! 0)) \<and>
    distinct (spent_nullifiers (rows ! 0)) \<and> set spent \<inter> set (spent_nullifiers (rows ! 0)) = {}"
proof -
  have "rows \<noteq> []" using assms by (auto simp: verifyNoRepeatedStuckNotes_def rbind_Ok_iff)
  moreover from this have "rfold (\<lambda>spent nul. if nul = ''0'' then Ok spent
       else if nul \<in> set spent then Err (Errorf ''enclave: stuck withdraw jobs spend the same note twice - refusing to sign'')
       else Ok (nul # spent)) spent (rows ! 0) = Ok spent'"
    using assms by (simp add: verifyNoRepeatedStuckNotes_def index_at_def)
  ultimately show ?thesis using no_repeated_fold by blast
qed

text \<open>What both routes ask of a job: it pays more than its fee and leaves nothing behind for the caller.\<close>

definition withdraws_all :: "int \<Rightarrow> stuck_job \<Rightarrow> bool" where
  "withdraws_all fee job \<longleftrightarrow>
     (\<exists>ins. InAmounts job \<noteq> [] \<and> rmap ParseBigInt (InAmounts job ! 0) = Ok ins \<and> fee < sum_list ins \<and>
        ParseBigInt (OutAmounts job ! 0 ! 0) = Ok 0)"

lemma withdraws_allI:
  assumes "rbind (index_at (InAmounts job) 0) parsed_total = Ok tot"
    and "verifyStuckWithdrawJobCoversFee tot fee = Ok u"
    and "verifyAssertAmountsConserve [token] (InAmounts job) (OutAmounts job) None [int_String (- tot)] = Ok v"
  shows "withdraws_all fee job"
proof -
  obtain ins where ins: "InAmounts job \<noteq> []" "rmap ParseBigInt (InAmounts job ! 0) = Ok ins" "tot = sum_list ins"
    using assms(1) by (auto simp: rbind_Ok_iff parsed_total_sum)
  have "fee < tot" using assms(2) by (simp add: verifyStuckWithdrawJobCoversFee_def)
  moreover have "ParseBigInt (OutAmounts job ! 0 ! 0) = Ok 0"
  proof -
    obtain outs where "rmap ParseBigInt (take 1 (OutAmounts job ! 0)) = Ok outs" "sum_list outs = 0" "1 \<le> length (OutAmounts job ! 0)"
      using conserve_inversion [OF assms(3)] ins by (auto simp: self_slot_count_def)
    moreover from this obtain x xs where "OutAmounts job ! 0 = x # xs" by (cases "OutAmounts job ! 0") auto
    ultimately show ?thesis by (auto simp: rbind_Ok_iff)
  qed
  ultimately show ?thesis using ins unfolding withdraws_all_def by blast
qed

definition evm_nullifiers :: "primitives \<Rightarrow> int \<Rightarrow> string \<Rightarrow> string \<Rightarrow> string \<times> string \<Rightarrow> stuck_job \<Rightarrow> string list \<Rightarrow> bool" where
  "evm_nullifiers E now token nk spk job row \<longleftrightarrow>
     (\<exists>rows. verifyComputeInNullifiers E now [token] (InAmounts job) (InH0Ax job) (InH0Ay job) (InTimeStamps job) nk spk None = Ok rows
        \<and> rows \<noteq> [] \<and> row = rows ! 0)"

lemma evm_job_inversion:
  assumes "verifyStuckWithdrawJobSignedMessageHash E now chain addr token ext fee nk spk job spent = Ok spent'"
  shows "withdraws_all (FlatFee fee) job \<and> (\<exists>row. evm_nullifiers E now token nk spk job row \<and>
     set spent' = set spent \<union> set (spent_nullifiers row) \<and> distinct (spent_nullifiers row) \<and> set spent \<inter> set (spent_nullifiers row) = {})"
proof -
  obtain rows tot where
    rows: "verifyComputeInNullifiers E now [token] (InAmounts job) (InH0Ax job) (InH0Ay job) (InTimeStamps job) nk spk None = Ok rows"
    and rep: "verifyNoRepeatedStuckNotes rows spent = Ok spent'"
    and tot: "rbind (index_at (InAmounts job) 0) parsed_total = Ok tot"
      "verifyStuckWithdrawJobCoversFee tot (FlatFee fee) = Ok ()"
      "verifyAssertAmountsConserve [token] (InAmounts job) (OutAmounts job) None [int_String (- tot)] = Ok ()"
    using assms by (auto simp: verifyStuckWithdrawJobSignedMessageHash_def Let_def rbind_Ok_iff)
  show ?thesis using withdraws_allI [OF tot] no_repeated_inversion [OF rep] rows unfolding evm_nullifiers_def by blast
qed

interpretation evm_stuck: stuck_checker
  "\<lambda>spent job. verifyStuckWithdrawJobSignedMessageHash E now chain addr token ext fee nk spk job spent"
  "evm_nullifiers E now token nk spk" "withdraws_all (FlatFee fee)"
  for E now chain addr token ext fee nk spk
  by unfold_locales (rule evm_job_inversion)

definition solana_nullifiers :: "primitives \<Rightarrow> int \<Rightarrow> string \<Rightarrow> string \<Rightarrow> string \<times> string \<Rightarrow> stuck_job \<Rightarrow> string list \<Rightarrow> bool" where
  "solana_nullifiers E now mint nk spk job row \<longleftrightarrow>
     (\<exists>formatted. FormatMintAddress E mint = Ok formatted \<and> evm_nullifiers E now (CompressedAddress formatted) nk spk job row)"

definition solana_good :: "solana_stuck_withdraw_params \<Rightarrow> stuck_job \<Rightarrow> bool" where
  "solana_good p job \<longleftrightarrow>
     (\<exists>n fee. job_nullifier_count job = Ok n \<and> mget (lvFeeStructures p) (int_String (int n)) = Some fee \<and>
        withdraws_all (FlatFee fee) job)"

lemma solana_job_inversion:
  assumes "verify_solana_stuck_job E now p nk spk spent job = Ok spent'"
  shows "solana_good p job \<and> (\<exists>row. solana_nullifiers E now (lvMintAddress p) nk spk job row \<and>
     set spent' = set spent \<union> set (spent_nullifiers row) \<and> distinct (spent_nullifiers row) \<and> set spent \<inter> set (spent_nullifiers row) = {})"
proof -
  obtain n fee where n: "job_nullifier_count job = Ok n" "mget (lvFeeStructures p) (int_String (int n)) = Some fee"
    and v: "verifySolanaStuckWithdrawJobSignedMessageHash E now (lvMintAddress p) (lvRecipient p) fee nk spk job spent = Ok spent'"
    using assms by (auto simp: verify_solana_stuck_job_def rbind_Ok_iff split: option.splits)
  obtain formatted rows tot where f: "FormatMintAddress E (lvMintAddress p) = Ok formatted"
    and rows: "verifyComputeInNullifiers E now [CompressedAddress formatted] (InAmounts job) (InH0Ax job) (InH0Ay job) (InTimeStamps job) nk spk None = Ok rows"
    and rep: "verifyNoRepeatedStuckNotes rows spent = Ok spent'"
    and tot: "rbind (index_at (InAmounts job) 0) parsed_total = Ok tot"
      "verifyStuckWithdrawJobCoversFee tot (FlatFee fee) = Ok ()"
      "verifyAssertAmountsConserve [CompressedAddress formatted] (InAmounts job) (OutAmounts job) None [int_String (- tot)] = Ok ()"
    using v by (auto simp: verifySolanaStuckWithdrawJobSignedMessageHash_def Let_def rbind_Ok_iff)
  have "solana_good p job" using n withdraws_allI [OF tot] unfolding solana_good_def by blast
  moreover have "solana_nullifiers E now (lvMintAddress p) nk spk job (rows ! 0)"
    using f rows no_repeated_inversion [OF rep] unfolding solana_nullifiers_def evm_nullifiers_def by blast
  ultimately show ?thesis using no_repeated_inversion [OF rep] by blast
qed

interpretation solana_stuck: stuck_checker
  "verify_solana_stuck_job E now p nk spk" "solana_nullifiers E now (lvMintAddress p) nk spk" "solana_good p"
  for E now p nk spk
  by unfold_locales (rule solana_job_inversion)

section \<open>The request behind a response\<close>

lemma prepare_tx_inversion:
  assumes "snd (PrepareTxEnclaveCall E now addr post uk p) = Ok r"
  obtains q where "post q = Ok r" "Request r = expected_echo q" "verifyPrepareTxResponse E now (pChainID p) q r = Ok ()"
    "qErc20Addresses q = pErc20Addresses p" "qAmountChanges q = bigIntStrings (pAmountChanges p)"
    "qSelfOutputAmounts q = nilIfEmpty (bigIntStrings (pSelfOutputAmounts p))"
    "qInputCommitments q = nilIfEmpty (pInputCommitments p)"
proof -
  obtain uk' key where k: "GetShieldedPrivateKey E uk = (uk', key)" by (cases "GetShieldedPrivateKey E uk")
  then obtain nk and pair :: spending_key_pair and q where
    q: "buildPrepareTxRequest addr p nk (int_String (fst (PubSpendingBJJPoint pair)), int_String (snd (PubSpendingBJJPoint pair))) = Ok q"
    and r: "post q = Ok r" "assertPrepareTxEchoMatches q (Request r) = Ok ()" "verifyPrepareTxResponse E now (pChainID p) q r = Ok ()"
    using assms by (auto simp: PrepareTxEnclaveCall_def Let_def rbind_Ok_iff)
  from q have "qErc20Addresses q = pErc20Addresses p" "qAmountChanges q = bigIntStrings (pAmountChanges p)"
    "qSelfOutputAmounts q = nilIfEmpty (bigIntStrings (pSelfOutputAmounts p))" "qInputCommitments q = nilIfEmpty (pInputCommitments p)"
    by (auto simp: buildPrepareTxRequest_def rbind_Ok_iff)
  with r show ?thesis by (intro that) (simp_all add: assertPrepareTxEchoMatches_def)
qed

lemma elems_bigIntStrings [simp]: "elems (bigIntStrings s) = map int_String (elems s)"
  by (cases s) (simp_all add: bigIntStrings_def)

lemma elems_nilIfEmpty [simp]: "elems (nilIfEmpty s) = elems s"
  by (simp add: nilIfEmpty_def)

lemma self_slots_nilIfEmpty: "self_slot_count (nilIfEmpty (bigIntStrings s)) = max 1 (length (elems s))"
  by (cases s) (auto simp: self_slot_count_def nilIfEmpty_def bigIntStrings_def Suc_le_eq max_def)

section \<open>Properties\<close>

text \<open>What a returned response guarantees.\<close>

lemma prepared_tx_facts:
  assumes "snd (PrepareTxEnclaveCall E now addr post uk p) = Ok r"
  shows "\<exists>q. post q = Ok r \<and> Request r = expected_echo q \<and>
    (\<forall>i < length (elems (pErc20Addresses p)). \<exists>ins outs. rmap ParseBigInt (InAmounts r ! i) = Ok ins \<and>
       rmap ParseBigInt (take (max 1 (length (elems (pSelfOutputAmounts p)))) (OutAmounts r ! i)) = Ok outs \<and>
       sum_list ins + elems (pAmountChanges p) ! i = sum_list outs) \<and>
    (\<forall>j < length (elems (pSelfOutputAmounts p)). ParseBigInt (OutAmounts r ! 0 ! j) = Ok (elems (pSelfOutputAmounts p) ! j)) \<and>
    (distinct (elems (pInputCommitments p)) \<and> elems (pInputCommitments p) \<noteq> [] \<longrightarrow>
       {c. spends E now (qNullifyingKey q) (qSpendingPublicKey q) (elems (pErc20Addresses p)) r c} = set (elems (pInputCommitments p)))"
proof (rule prepare_tx_inversion [OF assms])
  fix q
  assume q: "post q = Ok r" "Request r = expected_echo q" "verifyPrepareTxResponse E now (pChainID p) q r = Ok ()"
    "qErc20Addresses q = pErc20Addresses p" "qAmountChanges q = bigIntStrings (pAmountChanges p)"
    "qSelfOutputAmounts q = nilIfEmpty (bigIntStrings (pSelfOutputAmounts p))"
    "qInputCommitments q = nilIfEmpty (pInputCommitments p)"
  from q(3) obtain auth nuls where auth: "authorized_inputs E now q = Ok auth" and nuls:
    "verifyComputeInNullifiers E now (elems (qErc20Addresses q)) (InAmounts r) (InH0Ax r) (InH0Ay r) (InTimeStamps r)
       (qNullifyingKey q) (qSpendingPublicKey q) auth = Ok nuls"
    and cons: "verifyAssertAmountsConserve (elems (qErc20Addresses q)) (InAmounts r) (OutAmounts r) (qSelfOutputAmounts q)
       (elems (qAmountChanges q)) = Ok ()"
    using accepted_inversion by metis
  note c = conserve_inversion [OF cons]
  have len: "length (elems (pAmountChanges p)) = length (elems (pErc20Addresses p))" using c q(4,5) by simp
  have balance: "\<exists>ins outs. rmap ParseBigInt (InAmounts r ! i) = Ok ins \<and>
       rmap ParseBigInt (take (max 1 (length (elems (pSelfOutputAmounts p)))) (OutAmounts r ! i)) = Ok outs \<and>
       sum_list ins + elems (pAmountChanges p) ! i = sum_list outs" if "i < length (elems (pErc20Addresses p))" for i
    using c that len q(4-6) by (fastforce simp: self_slots_nilIfEmpty)
  have selfs: "ParseBigInt (OutAmounts r ! 0 ! j) = Ok (elems (pSelfOutputAmounts p) ! j)"
    if "j < length (elems (pSelfOutputAmounts p))" for j
    using c that q(6) by simp
  have spent: "{c. spends E now (qNullifyingKey q) (qSpendingPublicKey q) (elems (pErc20Addresses p)) r c} = set (elems (pInputCommitments p))"
    if d: "distinct (elems (pInputCommitments p))" and ne: "elems (pInputCommitments p) \<noteq> []"
  proof -
    obtain cs where "pInputCommitments p = Some cs" "cs \<noteq> []"
      using ne by (cases "pInputCommitments p") auto
    then have cs: "pInputCommitments p = Some cs" "qInputCommitments q = Some cs" using q(7) by (simp_all add: nilIfEmpty_def)
    then have "auth = Some cs" using auth by (simp add: authorized_inputs_def)
    then have "auth = Some (elems (pInputCommitments p))" using cs by simp
    with nuls q(4) have "set (elems (pInputCommitments p)) \<subseteq> {c. spends E now (qNullifyingKey q) (qSpendingPublicKey q) (elems (pErc20Addresses p)) r c}"
      "card {c. spends E now (qNullifyingKey q) (qSpendingPublicKey q) (elems (pErc20Addresses p)) r c} = length (elems (pInputCommitments p))"
      using authorised_spends [of E now "elems (qErc20Addresses q)" r] by auto
    with d show ?thesis using spends_finite by (metis card_subset_eq distinct_card)
  qed
  show ?thesis using q(1,2) balance selfs spent by blast
qed

text \<open>C1. A response that \<open>PrepareTxEnclaveCall\<close> returns to be signed is for the very request that was sent:
  the enclave echoes it, every token balances in the integers the caller asked for, and the first
  token's outputs to the caller are the requested amounts. When the caller lists input commitments,
  without repetition, exactly those notes are spent.\<close>

theorem prepared_tx_as_requested:
  assumes "snd (PrepareTxEnclaveCall E now addr post uk p) = Ok r"
  shows "\<exists>q. post q = Ok r \<and> Request r = expected_echo q \<and>
    (\<forall>i < length (elems (pErc20Addresses p)). \<exists>ins outs. rmap ParseBigInt (InAmounts r ! i) = Ok ins \<and>
       rmap ParseBigInt (take (max 1 (length (elems (pSelfOutputAmounts p)))) (OutAmounts r ! i)) = Ok outs \<and>
       sum_list ins + elems (pAmountChanges p) ! i = sum_list outs) \<and>
    (\<forall>j < length (elems (pSelfOutputAmounts p)). ParseBigInt (OutAmounts r ! 0 ! j) = Ok (elems (pSelfOutputAmounts p) ! j)) \<and>
    (distinct (elems (pInputCommitments p)) \<and> elems (pInputCommitments p) \<noteq> [] \<longrightarrow>
       {c. spends E now (qNullifyingKey q) (qSpendingPublicKey q) (elems (pErc20Addresses p)) r c} = set (elems (pInputCommitments p)))"
  using prepared_tx_facts [OF assms] .

text \<open>A request without notes, for the witnesses: its response has one empty slot.\<close>

definition empty_params :: prepare_tx_params where
  "empty_params = \<lparr>pChainID = 1, pErc20Addresses = Some [hex 3], pAmountChanges = Some [0], pExternalAddress = [], pOriginalSender = [],
     pRelay = [], pAutoSelectRelay = False, pSkipRelayReservation = False, pFeeStructure = None, pExternalActionID = [],
     pExternalActionMetadata = [], pOnChainCreation = None, pRecipientAddress = None, pRecipientAmounts = None,
     pSelfOutputAmounts = None, pInputCommitments = None, pUseBlockedUtxos = False, pCreateBlockedUtxos = False,
     pForceEmptyUtxos = True, pSkipLock = False, pMessageSeed = None, pSpeculative = None, pSlippageValues = None,
     pReceiveVaultAddress = []\<rparr>"

definition empty_post :: "prepare_tx_request \<Rightarrow> prepare_tx_response result" where
  "empty_post q = Ok \<lparr>JobID = [], SignedMessageHash = num 0, RootHashHinkal = num 5, OutTimeStamp = num 6, OutH1Ax = num 1, OutH1Ay = num 1,
      H0Ax = num 1, H0Ay = num 1, OutAmounts = [[num 0]], OutNoteH0Ax = [[num 4]], OutNoteH0Ay = [[num 8]], MessageSeed = num 9,
      EncryptedOutputs = [], OnChainEncryptedOutput = [], InAmounts = [[num 0]],
      InH0Ax = [[num 0]], InH0Ay = [[num 0]], InTimeStamps = [[num 0]], Relay = [], Request = expected_echo q\<rparr>"

lemma mini_spending_pair: "\<exists>pair :: spending_key_pair. GetSpendingKeyPair mini \<lparr>signature = num 5, nullifyingKey = hex 7\<rparr> = Ok pair"
  by (simp add: GetSpendingKeyPair_def requireSignature_def PoseidonBig_def Let_def)

lemma zero_text: "ParseBigInt ''0'' = Ok 0"
  by code_simp

lemma empty_accepted: "\<exists>r. snd (PrepareTxEnclaveCall mini 0 (\<lambda>_. Ok ''0x01'') empty_post \<lparr>signature = num 5, nullifyingKey = hex 7\<rparr> empty_params) = Ok r
    \<and> InAmounts r = [[num 0]]"
proof -
  obtain pair :: spending_key_pair where pair: "GetSpendingKeyPair mini \<lparr>signature = num 5, nullifyingKey = hex 7\<rparr> = Ok pair"
    using mini_spending_pair by blast
  let ?spk = "(num (fst (PubSpendingBJJPoint pair)), num (snd (PubSpendingBJJPoint pair)))"
  obtain q where q: "buildPrepareTxRequest (\<lambda>_. Ok ''0x01'') empty_params (hex 7) ?spk = Ok q" by (simp add: buildPrepareTxRequest_def)
  obtain r where r: "empty_post q = Ok r" by (simp add: empty_post_def)
  have nuls: "verifyComputeInNullifiers mini 0 [hex 3] [[num 0]] [[num 0]] [[num 0]] [[num 0]] (hex 7) ?spk (Some []) = Ok [[''0'']]"
    by (simp add: verifyComputeInNullifiers_def stringsToBigInts_def verify_in_row_def in_row_def verify_in_slot_def spent_commitments_def)
  have outs: "verifyComputeOutCommitments mini 0 [hex 3] None [[num 0]] [[num 4]] [[num 8]] (num 6) (hex 7) ?spk [] [] = Ok [[''0'']]"
    by (simp add: verifyComputeOutCommitments_def stringsToBigInts_def verify_out_row_def self_slot_count_def verify_self_output_def
        verifyExpectedOutputCommitment_def)
  have cons: "verifyAssertAmountsConserve [hex 3] [[num 0]] [[num 0]] None [num 0] = Ok ()"
    by (simp add: verifyAssertAmountsConserve_def verify_token_conserves_def self_slot_count_def parsed_total_sum)
  have qf: "qErc20Addresses q = Some [hex 3]" "qAmountChanges q = Some [num 0]" "qSelfOutputAmounts q = None" "qRecipientAddress q = None"
    "qRecipientAmounts q = None" "qOnChainCreation q = None" "qInputCommitments q = None" "qSpeculative q = None" "qForceEmptyUtxos q"
    "qNullifyingKey q = hex 7" "qSpendingPublicKey q = ?spk" "qFeeStructure q = None" "qSlippageValues q = None"
    using q by (auto simp: buildPrepareTxRequest_def empty_params_def nilIfEmpty_def bigIntStrings_def bigIntStringsNested_def)
  have rf: "InAmounts r = [[num 0]]" "InH0Ax r = [[num 0]]" "InH0Ay r = [[num 0]]" "InTimeStamps r = [[num 0]]" "OutAmounts r = [[num 0]]"
    "OutNoteH0Ax r = [[num 4]]" "OutNoteH0Ay r = [[num 8]]" "OutTimeStamp r = num 6" "Request r = expected_echo q" "MessageSeed r = num 9"
    "SignedMessageHash r = num 0" "RootHashHinkal r = num 5" "OutH1Ax r = num 1" "OutH1Ay r = num 1" "H0Ax r = num 1" "H0Ay r = num 1"
    using r by (auto simp: empty_post_def)
  have "\<exists>c m w. verifyComputeCalldataHashAndMessage mini 1 q r [[''0'']] [[''0'']] = Ok (c, m, w)"
    by (simp add: verifyComputeCalldataHashAndMessage_def Let_def PoseidonBig_def resolve_fee_def qf rf
        verifyComputeAmountChangesSigned_def index_at_def verifyFlatToBigInts_rmap zero_text verifyCreateCallDataHash_def)
  then obtain c m w where cm: "verifyComputeCalldataHashAndMessage mini 1 q r [[''0'']] [[''0'']] = Ok (c, m, w)" by blast
  have "verifyAssertSignedMessageHashMatches mini 1 a r [[''0'']] [[''0'']] c m w = Ok ()" for a
    by (simp add: verifyAssertSignedMessageHashMatches_def rf verifyFlatToBigInts_rmap zero_text recomputed_hash_def IsTronLike_def
        TronChainIDs_def verifyComputeSignedMessageHashEvm_def verifyPackAndHash_def keccak_int_def SetBytes_def)
  then have "verifyPrepareTxResponse mini 0 1 q r = Ok ()"
    using nuls outs cons cm
    by (simp add: verifyPrepareTxResponse_def qf rf authorized_inputs_def verifyCollectSpeculativeInputCommitments_def
        verifyAssertTxLevelStealthPairOwnedByCaller_def anyTrue_def)
  then have "snd (PrepareTxEnclaveCall mini 0 (\<lambda>_. Ok ''0x01'') empty_post \<lparr>signature = num 5, nullifyingKey = hex 7\<rparr> empty_params) = Ok r"
    using pair q r rf(9) by (simp add: PrepareTxEnclaveCall_def GetShieldedPrivateKey_def assertPrepareTxEchoMatches_def empty_params_def)
  with rf(1) show ?thesis by blast
qed

lemma prepared_tx_as_requested_witness:
  "\<exists>r ins outs. snd (PrepareTxEnclaveCall mini 0 (\<lambda>_. Ok ''0x01'') empty_post \<lparr>signature = num 5, nullifyingKey = hex 7\<rparr> empty_params) = Ok r
     \<and> rmap ParseBigInt (InAmounts r ! 0) = Ok ins \<and> sum_list ins = sum_list (outs :: int list)"
proof -
  obtain r where r: "snd (PrepareTxEnclaveCall mini 0 (\<lambda>_. Ok ''0x01'') empty_post \<lparr>signature = num 5, nullifyingKey = hex 7\<rparr> empty_params) = Ok r"
    using empty_accepted by blast
  have "0 < length (elems (pErc20Addresses empty_params))" "elems (pAmountChanges empty_params) ! 0 = 0" by (simp_all add: empty_params_def)
  with prepared_tx_as_requested [OF r] r show ?thesis by (metis add.right_neutral)
qed

text \<open>C11. The jobs a stuck withdraw returns never spend a note twice, neither within a job nor across jobs; each
  pays more than the relayer fee from its inputs and keeps no change.\<close>

theorem stuck_jobs_disjoint:
  assumes "snd (PrepareStuckWithdrawEnclaveCall E now addr post uk p) = Ok jobs"
  shows "\<exists>nk spk rows. list_all2 (evm_nullifiers E now (swErc20Address p) nk spk) jobs rows \<and>
    distinct (concat (map spent_nullifiers rows)) \<and> (\<forall>job \<in> set jobs. withdraws_all (FlatFee (swFeeStructure p)) job)"
proof -
  obtain nk spk a spent where "rfold (\<lambda>spent job. verifyStuckWithdrawJobSignedMessageHash E now (swChainID p) a
      (swErc20Address p) (swExternalAddress p) (swFeeStructure p) nk spk job spent) [] jobs = Ok spent"
    using assms by (auto simp: PrepareStuckWithdrawEnclaveCall_def Let_def rbind_Ok_iff split: prod.splits)
  from evm_stuck.jobs_disjoint [OF this] show ?thesis by blast
qed

definition one_job :: stuck_job where
  "one_job = \<lparr>JobID = [], SignedMessageHash = num 0, RootHashHinkal = num 5, OutTimeStamp = num 6, OutH1Ax = num 1, OutH1Ay = num 1,
      H0Ax = num 1, H0Ay = num 1, OutAmounts = [[num 0]], OutNoteH0Ax = [[num 4]], OutNoteH0Ay = [[num 8]], MessageSeed = num 9,
      EncryptedOutputs = [], OnChainEncryptedOutput = [], InAmounts = [[num 10]],
      InH0Ax = [[num 4]], InH0Ay = [[num 8]], InTimeStamps = [[num 5]], Relay = [],
      Dimensions = \<lparr>TokenNumber = 0, NullifierAmount = 0, OutputAmount = 0\<rparr>\<rparr>"

definition one_job_params :: stuck_withdraw_params where
  "one_job_params = \<lparr>swChainID = 1, swErc20Address = hex 3, swExternalAddress = ''0x09'', swRelay = [], swAutoSelectRelay = False,
     swFeeStructure = \<lparr>FeeToken = [], FlatFee = 4, VariableRate = 0\<rparr>, swHashedEthereumAddress = []\<rparr>"

definition one_job_post :: "stuck_withdraw_request \<Rightarrow> stuck_withdraw_response result" where
  "one_job_post q = Ok \<lparr>Jobs = [one_job], sRequest = \<lparr>seChainID = sqChainID q, seHinkalAddress = sqHinkalAddress q,
     seErc20Address = sqErc20Address q, seExternalAddress = sqExternalAddress q, seRelay = sqRelay q,
     seFeeStructure = sqFeeStructure q, seHashedEthereumAddress = sqHashedEthereumAddress q\<rparr>\<rparr>"

lemma one_slot_bound: "0 \<le> t \<Longrightarrow> \<exists>n c. verify_in_slot mini 0 (hex 7) [x, y] (hex t) (num 10, num 4, num 8, num 5) = Ok (hex n, Some c) \<and> 0 \<le> n \<and> n < 101"
proof -
  assume t: "0 \<le> t"
  define u where "u = \<lparr>Amount = Some 10, Erc20TokenAddress = hex t, MintAddress = [], TimeStamp = num 5,
     NullifyingKey = hex 7, SpendingPublicKey = Some [x, y], H0 = Some (4, 8), StealthAddress = [], EncryptionKey = [],
     IsBlocked = False, commitment = [], nullifier = []\<rparr>"
  have new: "NewUtxo mini 0 (Err Panic) (no_params\<lparr>pAmount := Some 10, pErc20TokenAddress := hex t, pNullifyingKey := hex 7,
      pSpendingPublicKey := Some [x, y], pH0 := Some (4, 8), pTimeStamp := num 5\<rparr>) = Ok u"
    by (simp add: NewUtxo_given_point no_params_def u_def)
  have h: "\<exists>h. PoseidonBig mini (a # as) = Ok h \<and> 0 \<le> h \<and> h < 101" for a as by (simp add: PoseidonBig_def)
  obtain st where st: "GetStealthAddress mini u = (u\<lparr>StealthAddress := hex st\<rparr>, Ok (hex st))" "0 \<le> st"
  proof -
    obtain st where "PoseidonBig mini [0, 8, 4, x, y, 7] = Ok st" "0 \<le> st" using h by blast
    then have "DeriveStealthAddress mini (4, 8) (hex 7) (Some [x, y]) = Ok (hex st)"
      by (simp add: DeriveStealthAddress_def GetH1FromH0_def getCircomSign_def isCircomNegative_def ParseBigInt_ToBeHex)
    with that \<open>0 \<le> st\<close> show ?thesis by (simp add: GetStealthAddress_def u_def)
  qed
  obtain c where c: "PoseidonBig mini [10, t, st, 5] = Ok c" "0 \<le> c" using h by blast
  then have com: "GetCommitment mini u = (u\<lparr>StealthAddress := hex st, commitment := hex c\<rparr>, Ok (hex c))"
    using st t by (simp add: GetCommitment_def) (simp add: u_def ParseBigInt_ToBeHex)
  obtain sig where sig: "PoseidonBig mini [7, c] = Ok sig" using h by blast
  obtain n where n: "PoseidonBig mini [c, sig] = Ok n" "0 \<le> n" "n < 101" using h by blast
  have "snd (GetNullifier mini (u\<lparr>StealthAddress := hex st, commitment := hex c\<rparr>)) = Ok (hex n)"
    using sig n c by (simp add: GetNullifier_def GetCommitment_def u_def ParseBigInt_ToBeHex)
  with com new n(2,3) show ?thesis by (auto simp: verify_in_slot_def)
qed

lemma one_job_accepted: "\<exists>s. verifyStuckWithdrawJobSignedMessageHash mini 0 1 a (hex 3) ''0x09'' (swFeeStructure one_job_params) (hex 7) (num x, num y) one_job [] = Ok s"
proof -
  obtain n c where slot: "verify_in_slot mini 0 (hex 7) [x, y] (hex 3) (num 10, num 4, num 8, num 5) = Ok (hex n, Some c)" "0 \<le> n"
    using one_slot_bound [of 3 x y] by auto
  have nuls: "verifyComputeInNullifiers mini 0 [hex 3] [[num 10]] [[num 4]] [[num 8]] [[num 5]] (hex 7) (num x, num y) None = Ok [[hex n]]"
    by (simp add: verifyComputeInNullifiers_def stringsToBigInts_def verify_in_row_def in_row_def slot(1))
  have outs: "verifyComputeOutCommitments mini 0 [hex 3] None [[num 0]] [[num 4]] [[num 8]] (num 6) (hex 7) (num x, num y) [] [] = Ok [[''0'']]"
    by (simp add: verifyComputeOutCommitments_def stringsToBigInts_def verify_out_row_def self_slot_count_def verify_self_output_def
        verifyExpectedOutputCommitment_def)
  have cons: "verifyAssertAmountsConserve [hex 3] [[num 10]] [[num 0]] None [num (- 10)] = Ok ()"
    by (simp add: verifyAssertAmountsConserve_def verify_token_conserves_def self_slot_count_def parsed_total_sum)
  have rep: "\<exists>s. verifyNoRepeatedStuckNotes [[hex n]] [] = Ok s" by (simp add: verifyNoRepeatedStuckNotes_def index_at_def)
  have jf: "InAmounts one_job = [[num 10]]" "InH0Ax one_job = [[num 4]]" "InH0Ay one_job = [[num 8]]" "InTimeStamps one_job = [[num 5]]"
    "OutAmounts one_job = [[num 0]]" "OutNoteH0Ax one_job = [[num 4]]" "OutNoteH0Ay one_job = [[num 8]]" "OutTimeStamp one_job = num 6"
    "MessageSeed one_job = num 9" "SignedMessageHash one_job = num 0" "RootHashHinkal one_job = num 5" "OutH1Ax one_job = num 1"
    "OutH1Ay one_job = num 1" "H0Ax one_job = num 1" "H0Ay one_job = num 1" by (simp_all add: one_job_def)
  have fee: "FlatFee (swFeeStructure one_job_params) = 4" by (simp add: one_job_params_def)
  obtain s where "verifyNoRepeatedStuckNotes [[hex n]] [] = Ok s" using rep by blast
  with nuls outs cons slot(2) show ?thesis
    by (simp add: verifyStuckWithdrawJobSignedMessageHash_def jf fee index_at_def parsed_total_sum verifyStuckWithdrawJobCoversFee_def
        PoseidonBig_def verifyFlatToBigInts_rmap zero_text ParseBigInt_ToBeHex verifyCreateCallDataHash_def Let_def recomputed_hash_def
        IsTronLike_def TronChainIDs_def verifyComputeSignedMessageHashEvm_def verifyPackAndHash_def keccak_int_def SetBytes_def)
qed

lemma stuck_jobs_disjoint_witness:
  "snd (PrepareStuckWithdrawEnclaveCall mini 0 (\<lambda>_. Ok ''0x01'') one_job_post \<lparr>signature = num 5, nullifyingKey = hex 7\<rparr> one_job_params) = Ok [one_job]
     \<and> withdraws_all 4 one_job"
proof -
  obtain pair :: spending_key_pair where "GetSpendingKeyPair mini \<lparr>signature = num 5, nullifyingKey = hex 7\<rparr> = Ok pair"
    using mini_spending_pair by blast
  moreover obtain s where "verifyStuckWithdrawJobSignedMessageHash mini 0 1 ''0x01'' (hex 3) ''0x09'' (swFeeStructure one_job_params) (hex 7)
      (num (fst (PubSpendingBJJPoint pair)), num (snd (PubSpendingBJJPoint pair))) one_job [] = Ok s"
    using one_job_accepted by blast
  moreover have "swChainID one_job_params = 1" "swErc20Address one_job_params = hex 3" "swExternalAddress one_job_params = ''0x09''"
    "FlatFee (swFeeStructure one_job_params) = 4" by (simp_all add: one_job_params_def)
  ultimately have "snd (PrepareStuckWithdrawEnclaveCall mini 0 (\<lambda>_. Ok ''0x01'') one_job_post \<lparr>signature = num 5, nullifyingKey = hex 7\<rparr> one_job_params) = Ok [one_job]"
    by (simp add: PrepareStuckWithdrawEnclaveCall_def GetShieldedPrivateKey_def one_job_post_def assertPrepareStuckWithdrawEchoMatches_def Let_def)
  moreover have "FlatFee (swFeeStructure one_job_params) = 4" by (simp add: one_job_params_def)
  ultimately show ?thesis using stuck_jobs_disjoint by (metis list.set_intros(1))
qed

text \<open>The same for Solana: the jobs spend disjoint notes, and each pays more than the fee that the caller set
  for exactly its number of spent notes.\<close>

theorem solana_stuck_jobs_disjoint:
  assumes "rfold (verify_solana_stuck_job E now p nk spk) [] jobs = Ok spent"
  shows "\<exists>rows. list_all2 (solana_nullifiers E now (lvMintAddress p) nk spk) jobs rows \<and>
    distinct (concat (map spent_nullifiers rows)) \<and> (\<forall>job \<in> set jobs. solana_good p job)"
  using solana_stuck.jobs_disjoint [OF assms] by blast

definition one_solana_params :: solana_stuck_withdraw_params where
  "one_solana_params = \<lparr>lvChainID = 501, lvMintAddress = ''A'', lvRecipient = ''B'', lvRelayAddress = ''C'', lvAutoSelectRelay = False,
     lvAccounts = [], lvFeeStructures = [(num 1, \<lparr>FeeToken = [], FlatFee = 4, VariableRate = 0\<rparr>)], lvHashedEthereumAddress = []\<rparr>"

lemma one_solana_job_accepted:
  "\<exists>s. verify_solana_stuck_job mini 0 one_solana_params (hex 7) (num x, num y) []
     (one_job\<lparr>Dimensions := \<lparr>TokenNumber = 1, NullifierAmount = 1, OutputAmount = 1\<rparr>\<rparr>) = Ok s"
proof -
  let ?job = "one_job\<lparr>Dimensions := \<lparr>TokenNumber = 1, NullifierAmount = 1, OutputAmount = 1\<rparr>\<rparr>"
  obtain n c where slot: "verify_in_slot mini 0 (hex 7) [x, y] (hex 72) (num 10, num 4, num 8, num 5) = Ok (hex n, Some c)" "0 \<le> n" "n < 101"
    using one_slot_bound [of 72 x y] by auto
  have nuls: "verifyComputeInNullifiers mini 0 [hex 72] [[num 10]] [[num 4]] [[num 8]] [[num 5]] (hex 7) (num x, num y) None = Ok [[hex n]]"
    by (simp add: verifyComputeInNullifiers_def stringsToBigInts_def verify_in_row_def in_row_def slot(1))
  have outs: "verifyComputeOutCommitments mini 0 [hex 72] None [[num 0]] [[num 4]] [[num 8]] (num 6) (hex 7) (num x, num y) [] [] = Ok [[''0'']]"
    by (simp add: verifyComputeOutCommitments_def stringsToBigInts_def verify_out_row_def self_slot_count_def verify_self_output_def
        verifyExpectedOutputCommitment_def)
  have cons: "verifyAssertAmountsConserve [hex 72] [[num 10]] [[num 0]] None [num (- 10)] = Ok ()"
    by (simp add: verifyAssertAmountsConserve_def verify_token_conserves_def self_slot_count_def parsed_total_sum)
  have "\<exists>s. verifyNoRepeatedStuckNotes [[hex n]] [] = Ok s" by (simp add: verifyNoRepeatedStuckNotes_def index_at_def)
  then obtain s where rep: "verifyNoRepeatedStuckNotes [[hex n]] [] = Ok s" by blast
  have b58: "base58Decode mini a = Ok (string_bytes a)" "publicKeyFromBase58 mini a = Ok (string_bytes a)" for a
    by (simp_all add: mini_def toy_def)
  have mint: "FormatMintAddress mini ''A'' = Ok \<lparr>MintAccountPart1 = 0, MintAccountPart2 = 65, CompressedAddress = hex 72\<rparr>"
    by (simp add: b58 FormatMintAddress_def PoseidonBig_def string_bytes_def SetBytes_def push_bit_eq_mult Let_def)
  have jf: "InAmounts ?job = [[num 10]]" "InH0Ax ?job = [[num 4]]" "InH0Ay ?job = [[num 8]]" "InTimeStamps ?job = [[num 5]]"
    "OutAmounts ?job = [[num 0]]" "OutNoteH0Ax ?job = [[num 4]]" "OutNoteH0Ay ?job = [[num 8]]" "OutTimeStamp ?job = num 6"
    "MessageSeed ?job = num 9" "SignedMessageHash ?job = num 0" "RootHashHinkal ?job = num 5" "OutH1Ax ?job = num 1"
    "OutH1Ay ?job = num 1" "H0Ax ?job = num 1" "H0Ay ?job = num 1" "EncryptedOutputs ?job = []" "Relay ?job = []"
    "Dimensions ?job = \<lparr>TokenNumber = 1, NullifierAmount = 1, OutputAmount = 1\<rparr>" by (simp_all add: one_job_def)
  define fee where "fee = \<lparr>FeeToken = [], FlatFee = 4, VariableRate = 0\<rparr>"
  have cd: "GetSolanaCalldataHash mini \<lparr>TokenNumber = 1, NullifierAmount = 1, OutputAmount = 1\<rparr> rp sp [] [] 4 0 [] [] = Ok 0" for rp sp
    by (simp add: GetSolanaCalldataHash_def solana_calldata_bytes_def FillBytes_def SetBytes_def bigToBE_def)
  have job: "\<exists>s. verifySolanaStuckWithdrawJobSignedMessageHash mini 0 ''A'' ''B'' fee (hex 7) (num x, num y) ?job [] = Ok s"
    using nuls outs cons rep slot(2,3)
    by (simp only: verifySolanaStuckWithdrawJobSignedMessageHash_def jf mint) 
      (simp add: fee_def index_at_def parsed_total_sum verifyStuckWithdrawJobCoversFee_def cd b58
        PoseidonBig_def verifyFlatToBigInts_rmap zero_text ParseBigInt_ToBeHex Let_def verifyAssertDimensionsMatch_def
        verifyComputeExpectedDimensions_def verifyComputeSignedMessageHashSolana_def solana_message_bytes_def
        verifyAppendBytes32_def verifyAppendLengthPrefixedBytes32Array_def FillBytes_def SetBytes_def verifyWrapAmountChange_def)
  have "job_nullifier_count ?job = Ok 1" by (simp add: job_nullifier_count_def jf index_at_def)
  with job show ?thesis
    by (simp add: verify_solana_stuck_job_def one_solana_params_def fee_def mget_def)
qed

lemma solana_stuck_jobs_disjoint_witness:
  "\<exists>job. InAmounts job = [[num 10]] \<and> solana_good one_solana_params job"
proof -
  let ?job = "one_job\<lparr>Dimensions := \<lparr>TokenNumber = 1, NullifierAmount = 1, OutputAmount = 1\<rparr>\<rparr>"
  obtain s where "rfold (verify_solana_stuck_job mini 0 one_solana_params (hex 7) (num 1, num 2)) [] [?job] = Ok s"
    using one_solana_job_accepted [of 1 2] by auto
  from solana_stuck_jobs_disjoint [OF this] have "solana_good one_solana_params ?job" by auto
  moreover have "InAmounts ?job = [[num 10]]" by (simp add: one_job_def)
  ultimately show ?thesis by blast
qed

end
