(* ===== verification/SolanaEncoding.thy ===== *)
theory SolanaEncoding
  imports EnclaveSolana KeysCorrect
begin

text \<open>
  What the Solana byte encodings determine: the preimage of the signed message hash determines every value
  it is built from, up to the signs that \<open>FillBytes\<close> drops; the calldata preimage does so only for a
  fixed shape, because it separates neither the outputs from the on-chain output nor that from the fees.
\<close>

section \<open>Big endian\<close>

lemma length_be_bytes [simp]: "length (be_bytes n v) = n"
  by (simp add: be_bytes_def)

lemma be_bytes_Suc: "be_bytes (Suc n) v = be_bytes n (v div 256) @ [word_of_int v]"
proof -
  have "map (\<lambda>i. word_of_int (v div 256 ^ (n - i))) [0..<n] = map (\<lambda>i. word_of_int (v div 256 div 256 ^ (n - 1 - i)) :: byte) [0..<n]"
  proof (rule map_cong [OF refl])
    fix i assume "i \<in> set [0..<n]"
    then have "n - i = Suc (n - 1 - i)" by auto
    then show "word_of_int (v div 256 ^ (n - i)) = (word_of_int (v div 256 div 256 ^ (n - 1 - i)) :: byte)"
      by (simp add: zdiv_zmult2_eq)
  qed
  then show ?thesis by (simp add: be_bytes_def)
qed

lemma SetBytes_be_bytes: "0 \<le> v \<Longrightarrow> v < 256 ^ n \<Longrightarrow> SetBytes (be_bytes n v) = v"
proof (induction n arbitrary: v)
  case 0
  then show ?case by (simp add: be_bytes_def SetBytes_def)
next
  case (Suc n)
  have "0 \<le> v div 256" "v div 256 < 256 ^ n" using Suc.prems by (simp_all add: div_less_iff_less_mult mult.commute)
  then have "SetBytes (be_bytes n (v div 256)) = v div 256" by (rule Suc.IH)
  moreover have "int (unat (word_of_int v :: byte)) = v mod 256" by (simp add: unsigned_of_int take_bit_eq_mod)
  ultimately show ?case by (simp add: be_bytes_Suc SetBytes_snoc)
qed

lemma FillBytes_Ok: "FillBytes v n = Ok b \<Longrightarrow> length b = n \<and> SetBytes b = \<bar>v\<bar>"
  by (auto simp: FillBytes_def SetBytes_be_bytes split: if_splits)

lemma FillBytes_inject: "FillBytes v n = Ok b \<Longrightarrow> FillBytes v' n = Ok b \<Longrightarrow> \<bar>v\<bar> = \<bar>v'\<bar>"
  using FillBytes_Ok by metis

text \<open>Reading a fixed-width number off the front.\<close>

lemma FillBytes_prefix:
  assumes "FillBytes v n = Ok b" "FillBytes v' n = Ok b'" "b @ r = b' @ r'"
  shows "\<bar>v\<bar> = \<bar>v'\<bar>" "r = r'"
proof -
  have "length b = length b'" using FillBytes_Ok assms(1,2) by metis
  with assms(3) have b: "b = b'" and r: "r = r'" by auto
  show "\<bar>v\<bar> = \<bar>v'\<bar>" by (rule FillBytes_inject [OF assms(1)]) (simp add: assms(2) b)
  show "r = r'" by (rule r)
qed

section \<open>Length-prefixed arrays\<close>

definition enc_array :: "int list \<Rightarrow> byte list result" where
  "enc_array values =
     rbind (FillBytes (int (length values)) 8) (\<lambda>len. rbind (rmap (\<lambda>v. FillBytes v 32) values) (\<lambda>bs. Ok (len @ concat bs)))"

lemma append32_Ok: "verifyAppendBytes32 dst v = Ok out \<longleftrightarrow> (\<exists>b. FillBytes v 32 = Ok b \<and> out = dst @ b)"
  by (auto simp: verifyAppendBytes32_def rbind_Ok_iff)

lemma rfold_append32: "rfold verifyAppendBytes32 dst vs = rbind (rmap (\<lambda>v. FillBytes v 32) vs) (\<lambda>bs. Ok (dst @ concat bs))"
proof (induction vs arbitrary: dst)
  case (Cons v vs)
  then show ?case by (cases "FillBytes v 32"; cases "rmap (\<lambda>v. FillBytes v 32) vs") (auto simp: verifyAppendBytes32_def)
qed simp

lemma append_array_Ok:
  "verifyAppendLengthPrefixedBytes32Array dst vs = Ok out \<longleftrightarrow> (\<exists>b. enc_array vs = Ok b \<and> out = dst @ b)"
  by (auto simp: verifyAppendLengthPrefixedBytes32Array_def enc_array_def rfold_append32 rbind_Ok_iff)

lemma concat32_prefix:
  assumes "rmap (\<lambda>v. FillBytes v 32) vs = Ok bs" "rmap (\<lambda>v. FillBytes v 32) vs' = Ok bs'" "length vs = length vs'"
    and "concat bs @ r = concat bs' @ r'"
  shows "map abs vs = map abs vs' \<and> r = r'"
  using assms(3,1,2,4)
proof (induction vs vs' arbitrary: bs bs' rule: list_induct2)
  case (Cons v vs v' vs')
  obtain b bt where b: "FillBytes v 32 = Ok b" "rmap (\<lambda>v. FillBytes v 32) vs = Ok bt" "bs = b # bt"
    using Cons.prems(1) by (auto simp: rbind_Ok_iff)
  obtain b' bt' where b': "FillBytes v' 32 = Ok b'" "rmap (\<lambda>v. FillBytes v 32) vs' = Ok bt'" "bs' = b' # bt'"
    using Cons.prems(2) by (auto simp: rbind_Ok_iff)
  have "b @ (concat bt @ r) = b' @ (concat bt' @ r')" using Cons.prems(3) b(3) b'(3) by simp
  from FillBytes_prefix [OF b(1) b'(1) this] Cons.IH [OF b(2) b'(2)] show ?case by simp
qed simp

lemma enc_array_prefix:
  assumes "enc_array vs = Ok b" "enc_array vs' = Ok b'" "b @ r = b' @ r'"
  shows "map abs vs = map abs vs'" "r = r'"
proof -
  obtain len bs where l: "FillBytes (int (length vs)) 8 = Ok len" "rmap (\<lambda>v. FillBytes v 32) vs = Ok bs" "b = len @ concat bs"
    using assms(1) by (auto simp: enc_array_def rbind_Ok_iff)
  obtain len' bs' where l': "FillBytes (int (length vs')) 8 = Ok len'" "rmap (\<lambda>v. FillBytes v 32) vs' = Ok bs'" "b' = len' @ concat bs'"
    using assms(2) by (auto simp: enc_array_def rbind_Ok_iff)
  have eq: "len @ (concat bs @ r) = len' @ (concat bs' @ r')" using assms(3) l(3) l'(3) by simp
  have "length vs = length vs'" using FillBytes_prefix(1) [OF l(1) l'(1) eq] by simp
  from concat32_prefix [OF l(2) l'(2) this FillBytes_prefix(2) [OF l(1) l'(1) eq]]
  show "map abs vs = map abs vs'" "r = r'" by simp_all
qed

section \<open>The whole preimage\<close>

text \<open>The layout, as the list of its pieces.\<close>

lemma message_bytes_layout:
  assumes "solana_message_bytes p ns cs = Ok out"
  obtains b1 a1 a2 a3 b2 a4 a5 b3 b4 b5 b6 b7 b8 where
    "FillBytes (hRootHashHinkal p) 32 = Ok b1" "enc_array (hMintAccountPart1 p) = Ok a1" "enc_array (hMintAccountPart2 p) = Ok a2"
    "enc_array (hAmountChanges p) = Ok a3" "FillBytes (hOutTimeStamp p) 32 = Ok b2" "enc_array ns = Ok a4" "enc_array cs = Ok a5"
    "FillBytes (hCalldataHash p) 32 = Ok b3" "FillBytes (hMessage p) 32 = Ok b4"
    "FillBytes (hSwapperAccountAdditionalSeed p) 32 = Ok b5" "FillBytes (hOutH1Ay p) 32 = Ok b6"
    "FillBytes (hH0Ax p) 32 = Ok b7" "FillBytes (hH0Ay p) 32 = Ok b8"
    "out = b1 @ (a1 @ (a2 @ (a3 @ (b2 @ (a4 @ (a5 @ (b3 @ (b4 @ (b5 @ (b6 @ (b7 @ (b8 @ []))))))))))))"
  using assms by (auto simp: solana_message_bytes_def rbind_Ok_iff append32_Ok append_array_Ok)

lemma message_bytes_inject:
  assumes "solana_message_bytes p ns cs = Ok out" "solana_message_bytes p' ns' cs' = Ok out"
  shows "\<bar>hRootHashHinkal p\<bar> = \<bar>hRootHashHinkal p'\<bar> \<and> map abs (hMintAccountPart1 p) = map abs (hMintAccountPart1 p') \<and>
    map abs (hMintAccountPart2 p) = map abs (hMintAccountPart2 p') \<and> map abs (hAmountChanges p) = map abs (hAmountChanges p') \<and>
    \<bar>hOutTimeStamp p\<bar> = \<bar>hOutTimeStamp p'\<bar> \<and> map abs ns = map abs ns' \<and> map abs cs = map abs cs' \<and>
    \<bar>hCalldataHash p\<bar> = \<bar>hCalldataHash p'\<bar> \<and> \<bar>hMessage p\<bar> = \<bar>hMessage p'\<bar> \<and>
    \<bar>hSwapperAccountAdditionalSeed p\<bar> = \<bar>hSwapperAccountAdditionalSeed p'\<bar> \<and> \<bar>hOutH1Ay p\<bar> = \<bar>hOutH1Ay p'\<bar> \<and>
    \<bar>hH0Ax p\<bar> = \<bar>hH0Ax p'\<bar> \<and> \<bar>hH0Ay p\<bar> = \<bar>hH0Ay p'\<bar>"
proof (rule message_bytes_layout [OF assms(1)], rule message_bytes_layout [OF assms(2)])
  fix b1 a1 a2 a3 b2 a4 a5 b3 b4 b5 b6 b7 b8 b1' a1' a2' a3' b2' a4' a5' b3' b4' b5' b6' b7' b8'
  assume e: "FillBytes (hRootHashHinkal p) 32 = Ok b1" "enc_array (hMintAccountPart1 p) = Ok a1" "enc_array (hMintAccountPart2 p) = Ok a2"
    "enc_array (hAmountChanges p) = Ok a3" "FillBytes (hOutTimeStamp p) 32 = Ok b2" "enc_array ns = Ok a4" "enc_array cs = Ok a5"
    "FillBytes (hCalldataHash p) 32 = Ok b3" "FillBytes (hMessage p) 32 = Ok b4"
    "FillBytes (hSwapperAccountAdditionalSeed p) 32 = Ok b5" "FillBytes (hOutH1Ay p) 32 = Ok b6"
    "FillBytes (hH0Ax p) 32 = Ok b7" "FillBytes (hH0Ay p) 32 = Ok b8"
    and o1: "out = b1 @ (a1 @ (a2 @ (a3 @ (b2 @ (a4 @ (a5 @ (b3 @ (b4 @ (b5 @ (b6 @ (b7 @ (b8 @ []))))))))))))"
  assume e': "FillBytes (hRootHashHinkal p') 32 = Ok b1'" "enc_array (hMintAccountPart1 p') = Ok a1'" "enc_array (hMintAccountPart2 p') = Ok a2'"
    "enc_array (hAmountChanges p') = Ok a3'" "FillBytes (hOutTimeStamp p') 32 = Ok b2'" "enc_array ns' = Ok a4'" "enc_array cs' = Ok a5'"
    "FillBytes (hCalldataHash p') 32 = Ok b3'" "FillBytes (hMessage p') 32 = Ok b4'"
    "FillBytes (hSwapperAccountAdditionalSeed p') 32 = Ok b5'" "FillBytes (hOutH1Ay p') 32 = Ok b6'"
    "FillBytes (hH0Ax p') 32 = Ok b7'" "FillBytes (hH0Ay p') 32 = Ok b8'"
    and o2: "out = b1' @ (a1' @ (a2' @ (a3' @ (b2' @ (a4' @ (a5' @ (b3' @ (b4' @ (b5' @ (b6' @ (b7' @ (b8' @ []))))))))))))"
  note s1 = FillBytes_prefix [OF e(1) e'(1) trans [OF o1 [symmetric] o2]]
  note s2 = enc_array_prefix [OF e(2) e'(2) s1(2)]
  note s3 = enc_array_prefix [OF e(3) e'(3) s2(2)]
  note s4 = enc_array_prefix [OF e(4) e'(4) s3(2)]
  note s5 = FillBytes_prefix [OF e(5) e'(5) s4(2)]
  note s6 = enc_array_prefix [OF e(6) e'(6) s5(2)]
  note s7 = enc_array_prefix [OF e(7) e'(7) s6(2)]
  note s8 = FillBytes_prefix [OF e(8) e'(8) s7(2)]
  note s9 = FillBytes_prefix [OF e(9) e'(9) s8(2)]
  note s10 = FillBytes_prefix [OF e(10) e'(10) s9(2)]
  note s11 = FillBytes_prefix [OF e(11) e'(11) s10(2)]
  note s12 = FillBytes_prefix [OF e(12) e'(12) s11(2)]
  note s13 = FillBytes_prefix [OF e(13) e'(13) s12(2)]
  show ?thesis using s1(1) s2(1) s3(1) s4(1) s5(1) s6(1) s7(1) s8(1) s9(1) s10(1) s11(1) s12(1) s13(1) by blast
qed

section \<open>The calldata preimage\<close>

lemma appendBE_Ok: "appendBE dst v n = Ok out \<longleftrightarrow> (\<exists>b. FillBytes v n = Ok b \<and> out = dst @ b)"
  by (auto simp: appendBE_def rbind_Ok_iff)

lemma bigToBE_Some [simp]: "bigToBE (Some v) n = FillBytes v n"
  by (simp add: bigToBE_def)

definition enc_output :: "byte list \<Rightarrow> byte list result" where
  "enc_output cur = rbind (FillBytes (int (length cur)) 8) (\<lambda>len. Ok (len @ cur))"

definition enc_instruction :: "hinkal_instruction \<Rightarrow> byte list result" where
  "enc_instruction ins =
     rbind (FillBytes (ProgramIndex ins) 1) (\<lambda>i.
     rbind (FillBytes (int (length (AccountIndexes ins))) 8) (\<lambda>l1.
     rbind (FillBytes (int (length (Data ins))) 8) (\<lambda>l2. Ok (i @ l1 @ AccountIndexes ins @ l2 @ Data ins))))"

lemma rfold_enc:
  assumes "\<And>dst x. f dst x = rbind (g x) (\<lambda>b. Ok (dst @ b))"
  shows "rfold f dst xs = rbind (rmap g xs) (\<lambda>bs. Ok (dst @ concat bs))"
proof (induction xs arbitrary: dst)
  case (Cons x xs)
  then show ?case by (cases "g x"; cases "rmap g xs") (auto simp: assms)
qed simp

lemma append_output_enc: "append_output dst cur = rbind (enc_output cur) (\<lambda>b. Ok (dst @ b))"
  by (simp add: append_output_def enc_output_def appendBE_def rbind_assoc)

lemma append_instruction_enc: "append_instruction dst ins = rbind (enc_instruction ins) (\<lambda>b. Ok (dst @ b))"
  by (simp add: append_instruction_def enc_instruction_def appendBE_def rbind_assoc)

text \<open>An encoding that can be read off the front, in a row of known length.\<close>

lemma rmap_prefix:
  assumes "\<And>x x' b b' r r'. g x = Ok b \<Longrightarrow> g x' = Ok b' \<Longrightarrow> b @ r = b' @ r' \<Longrightarrow> R x x' \<and> r = r'"
    and "length xs = length xs'" "rmap g xs = Ok bs" "rmap g xs' = Ok bs'" "concat bs @ r = concat bs' @ r'"
  shows "list_all2 R xs xs' \<and> r = r'"
  using assms(2-)
proof (induction xs xs' arbitrary: bs bs' rule: list_induct2)
  case (Cons x xs x' xs')
  obtain b bt where b: "g x = Ok b" "rmap g xs = Ok bt" "bs = b # bt" using Cons.prems(1) by (auto simp: rbind_Ok_iff)
  obtain b' bt' where b': "g x' = Ok b'" "rmap g xs' = Ok bt'" "bs' = b' # bt'" using Cons.prems(2) by (auto simp: rbind_Ok_iff)
  have "b @ (concat bt @ r) = b' @ (concat bt' @ r')" using Cons.prems(3) b(3) b'(3) by simp
  from assms(1) [OF b(1) b'(1) this] Cons.IH [OF b(2) b'(2)] show ?case by simp
qed simp

lemma enc_output_prefix:
  assumes "enc_output x = Ok b" "enc_output x' = Ok b'" "b @ r = b' @ r'"
  shows "x = x' \<and> r = r'"
proof -
  obtain l where l: "FillBytes (int (length x)) 8 = Ok l" "b = l @ x" using assms(1) by (auto simp: enc_output_def rbind_Ok_iff)
  obtain l' where l': "FillBytes (int (length x')) 8 = Ok l'" "b' = l' @ x'" using assms(2) by (auto simp: enc_output_def rbind_Ok_iff)
  have "l @ (x @ r) = l' @ (x' @ r')" using assms(3) l(2) l'(2) by simp
  from FillBytes_prefix [OF l(1) l'(1) this] have "length x = length x'" "x @ r = x' @ r'" by simp_all
  then show ?thesis by simp
qed

definition same_instruction :: "hinkal_instruction \<Rightarrow> hinkal_instruction \<Rightarrow> bool" where
  "same_instruction a b \<longleftrightarrow> \<bar>ProgramIndex a\<bar> = \<bar>ProgramIndex b\<bar> \<and> AccountIndexes a = AccountIndexes b \<and> Data a = Data b"

lemma enc_instruction_prefix:
  assumes "enc_instruction x = Ok b" "enc_instruction x' = Ok b'" "b @ r = b' @ r'"
  shows "same_instruction x x' \<and> r = r'"
proof -
  obtain i l1 l2 where l: "FillBytes (ProgramIndex x) 1 = Ok i" "FillBytes (int (length (AccountIndexes x))) 8 = Ok l1"
    "FillBytes (int (length (Data x))) 8 = Ok l2" "b = i @ l1 @ AccountIndexes x @ l2 @ Data x"
    using assms(1) by (auto simp: enc_instruction_def rbind_Ok_iff)
  obtain i' l1' l2' where l': "FillBytes (ProgramIndex x') 1 = Ok i'" "FillBytes (int (length (AccountIndexes x'))) 8 = Ok l1'"
    "FillBytes (int (length (Data x'))) 8 = Ok l2'" "b' = i' @ l1' @ AccountIndexes x' @ l2' @ Data x'"
    using assms(2) by (auto simp: enc_instruction_def rbind_Ok_iff)
  have "i @ (l1 @ (AccountIndexes x @ l2 @ Data x @ r)) = i' @ (l1' @ (AccountIndexes x' @ l2' @ Data x' @ r'))"
    using assms(3) l(4) l'(4) by simp
  note s1 = FillBytes_prefix [OF l(1) l'(1) this]
  note s2 = FillBytes_prefix [OF l(2) l'(2) s1(2)]
  from s2 have a: "AccountIndexes x = AccountIndexes x'" "l2 @ (Data x @ r) = l2' @ (Data x' @ r')" by simp_all
  note s3 = FillBytes_prefix [OF l(3) l'(3) a(2)]
  from s3 have "Data x = Data x'" "r = r'" by simp_all
  with s1(1) a(1) show ?thesis by (simp add: same_instruction_def)
qed

lemma accounts_inject:
  assumes "\<forall>a \<in> set xs. length (PublicKey a) = 32" "\<forall>a \<in> set ys. length (PublicKey a) = 32"
    and "concat (map account_bytes xs) = concat (map account_bytes ys)"
  shows "map (\<lambda>a. (IsWritable a, PublicKey a)) xs = map (\<lambda>a. (IsWritable a, PublicKey a)) ys"
  using assms
proof (induction xs arbitrary: ys)
  case Nil
  then show ?case by (cases ys) (auto simp: account_bytes_def)
next
  case (Cons x xs)
  then obtain y ys' where ys: "ys = y # ys'" by (cases ys) (auto simp: account_bytes_def)
  have l: "length (account_bytes x) = 33" "length (account_bytes y) = 33"
    using Cons.prems ys by (simp_all add: account_bytes_def)
  then have eq: "account_bytes x = account_bytes y" "concat (map account_bytes xs) = concat (map account_bytes ys')"
    using Cons.prems(3) ys by auto
  have "IsWritable x = IsWritable y \<and> PublicKey x = PublicKey y" using eq(1) by (auto simp: account_bytes_def split: if_splits)
  moreover have "map (\<lambda>a. (IsWritable a, PublicKey a)) xs = map (\<lambda>a. (IsWritable a, PublicKey a)) ys'"
    using Cons.prems ys eq(2) by (intro Cons.IH) auto
  ultimately show ?case by (simp add: ys)
qed

lemma calldata_layout:
  assumes "solana_calldata_bytes dims rc sg outputs onchain fee rate ins accs = Ok out"
  obtains os bf br js where "rmap enc_output outputs = Ok os" "FillBytes fee 8 = Ok bf" "FillBytes rate 8 = Ok br"
    "rmap enc_instruction ins = Ok js"
    "out = [word_of_int (TokenNumber dims), word_of_int (NullifierAmount dims), word_of_int (OutputAmount dims)] @ (rc @ (sg @
       (concat os @ (onchain @ (bf @ (br @ (concat js @ concat (map account_bytes accs))))))))"
  using assms by (auto simp: solana_calldata_bytes_def Let_def rbind_Ok_iff rfold_enc [OF append_output_enc] rfold_enc [OF append_instruction_enc])

section \<open>Properties\<close>

text \<open>The bytes hashed into a Solana signed message determine what is signed: root, mint parts, amount
  changes, time stamp, nullifiers, commitments, calldata hash, message, seed and stealth coordinates are
  equal in absolute value whenever the bytes are equal; the signs are what \<open>FillBytes\<close> drops.\<close>

theorem solana_message_injective:
  assumes "solana_message_bytes p ns cs = Ok out" "solana_message_bytes p' ns' cs' = Ok out"
  shows "\<bar>hRootHashHinkal p\<bar> = \<bar>hRootHashHinkal p'\<bar> \<and> map abs (hMintAccountPart1 p) = map abs (hMintAccountPart1 p') \<and>
    map abs (hMintAccountPart2 p) = map abs (hMintAccountPart2 p') \<and> map abs (hAmountChanges p) = map abs (hAmountChanges p') \<and>
    \<bar>hOutTimeStamp p\<bar> = \<bar>hOutTimeStamp p'\<bar> \<and> map abs ns = map abs ns' \<and> map abs cs = map abs cs' \<and>
    \<bar>hCalldataHash p\<bar> = \<bar>hCalldataHash p'\<bar> \<and> \<bar>hMessage p\<bar> = \<bar>hMessage p'\<bar> \<and>
    \<bar>hSwapperAccountAdditionalSeed p\<bar> = \<bar>hSwapperAccountAdditionalSeed p'\<bar> \<and> \<bar>hOutH1Ay p\<bar> = \<bar>hOutH1Ay p'\<bar> \<and>
    \<bar>hH0Ax p\<bar> = \<bar>hH0Ax p'\<bar> \<and> \<bar>hH0Ay p\<bar> = \<bar>hH0Ay p'\<bar>"
  by (rule message_bytes_inject [OF assms])

definition sample_hash_params :: "int \<Rightarrow> solana_hash_params" where
  "sample_hash_params n = \<lparr>hRootHashHinkal = n, hMintAccountPart1 = [3], hMintAccountPart2 = [4], hAmountChanges = [5], hOutTimeStamp = 6,
     hInNullifiers = [], hOutCommitments = [], hCalldataHash = 7, hMessage = 8, hSwapperAccountAdditionalSeed = 9,
     hOutH1Ay = 10, hH0Ax = 11, hH0Ay = 12\<rparr>"

lemma solana_message_injective_witness:
  "\<exists>out. solana_message_bytes (sample_hash_params 1) [2] [] = Ok out \<and> solana_message_bytes (sample_hash_params 2) [2] [] \<noteq> Ok out"
proof -
  have "\<exists>out. solana_message_bytes (sample_hash_params 1) [2] [] = Ok out"
    by (simp add: solana_message_bytes_def sample_hash_params_def verifyAppendBytes32_def verifyAppendLengthPrefixedBytes32Array_def FillBytes_def)
  then obtain out where out: "solana_message_bytes (sample_hash_params 1) [2] [] = Ok out" by blast
  have "hRootHashHinkal (sample_hash_params n) = n" for n by (simp add: sample_hash_params_def)
  then have "solana_message_bytes (sample_hash_params 2) [2] [] \<noteq> Ok out"
    using solana_message_injective [OF out, of "sample_hash_params 2" "[2]" "[]"] by auto
  with out show ?thesis by blast
qed

text \<open>For a known shape, that is the number of outputs and of instructions, the length of the on-chain output
  and 32-byte keys, the bytes hashed into the Solana calldata determine the calldata: dimensions modulo
  256, recipient, signer, outputs, on-chain output, fees, instructions and accounts (not the signer flags).\<close>

theorem solana_calldata_injective_for_shape:
  assumes "solana_calldata_bytes dims rc sg outputs onchain fee rate ins accs = Ok out"
    and "solana_calldata_bytes dims' rc' sg' outputs' onchain' fee' rate' ins' accs' = Ok out"
    and "length rc = 32" "length sg = 32" "length rc' = 32" "length sg' = 32"
    and "\<forall>a \<in> set accs. length (PublicKey a) = 32" "\<forall>a \<in> set accs'. length (PublicKey a) = 32"
    and "length outputs = length outputs'" "length onchain = length onchain'" "length ins = length ins'"
  shows "TokenNumber dims mod 256 = TokenNumber dims' mod 256 \<and> rc = rc' \<and> sg = sg' \<and> outputs = outputs' \<and> onchain = onchain' \<and>
    \<bar>fee\<bar> = \<bar>fee'\<bar> \<and> \<bar>rate\<bar> = \<bar>rate'\<bar> \<and> list_all2 same_instruction ins ins' \<and>
    map (\<lambda>a. (IsWritable a, PublicKey a)) accs = map (\<lambda>a. (IsWritable a, PublicKey a)) accs'"
proof (rule calldata_layout [OF assms(1)], rule calldata_layout [OF assms(2)])
  fix os bf br js os' bf' br' js'
  assume e: "rmap enc_output outputs = Ok os" "FillBytes fee 8 = Ok bf" "FillBytes rate 8 = Ok br" "rmap enc_instruction ins = Ok js"
    and o1: "out = [word_of_int (TokenNumber dims), word_of_int (NullifierAmount dims), word_of_int (OutputAmount dims)] @ (rc @ (sg @
       (concat os @ (onchain @ (bf @ (br @ (concat js @ concat (map account_bytes accs))))))))"
    and e': "rmap enc_output outputs' = Ok os'" "FillBytes fee' 8 = Ok bf'" "FillBytes rate' 8 = Ok br'" "rmap enc_instruction ins' = Ok js'"
    and o2: "out = [word_of_int (TokenNumber dims'), word_of_int (NullifierAmount dims'), word_of_int (OutputAmount dims')] @ (rc' @ (sg' @
       (concat os' @ (onchain' @ (bf' @ (br' @ (concat js' @ concat (map account_bytes accs'))))))))"
  have "(word_of_int (TokenNumber dims) :: byte) = word_of_int (TokenNumber dims')" using o1 o2 by simp
  then have dims: "TokenNumber dims mod 256 = TokenNumber dims' mod 256"
    by (simp add: word_of_int_eq_iff take_bit_eq_mod)
  have keys: "rc = rc'" "sg = sg'" and r0: "concat os @ (onchain @ (bf @ (br @ (concat js @ concat (map account_bytes accs)))))
      = concat os' @ (onchain' @ (bf' @ (br' @ (concat js' @ concat (map account_bytes accs')))))"
    using o1 o2 assms(3-6) by simp_all
  have "list_all2 (=) outputs outputs' \<and> onchain @ (bf @ (br @ (concat js @ concat (map account_bytes accs))))
      = onchain' @ (bf' @ (br' @ (concat js' @ concat (map account_bytes accs'))))"
    by (rule rmap_prefix [OF _ assms(9) e(1) e'(1) r0]) (rule enc_output_prefix)
  then have outs: "outputs = outputs'" and r1: "onchain @ (bf @ (br @ (concat js @ concat (map account_bytes accs))))
      = onchain' @ (bf' @ (br' @ (concat js' @ concat (map account_bytes accs'))))" by (simp_all add: list.rel_eq)
  from r1 assms(10) have oc: "onchain = onchain'" and r2: "bf @ (br @ (concat js @ concat (map account_bytes accs)))
      = bf' @ (br' @ (concat js' @ concat (map account_bytes accs')))" by simp_all
  note s1 = FillBytes_prefix [OF e(2) e'(2) r2]
  note s2 = FillBytes_prefix [OF e(3) e'(3) s1(2)]
  have ins: "list_all2 same_instruction ins ins' \<and> concat (map account_bytes accs) = concat (map account_bytes accs')"
    by (rule rmap_prefix [OF _ assms(11) e(4) e'(4) s2(2)]) (rule enc_instruction_prefix)
  with accounts_inject [OF assms(7,8)] dims keys outs oc s1(1) s2(1) show ?thesis by blast
qed

lemma solana_calldata_injective_for_shape_witness:
  "\<exists>out. solana_calldata_bytes \<lparr>TokenNumber = 1, NullifierAmount = 1, OutputAmount = 1\<rparr> (replicate 32 1) (replicate 32 2) [[3]] [] 5 6 [] [] = Ok out \<and>
     solana_calldata_bytes \<lparr>TokenNumber = 1, NullifierAmount = 1, OutputAmount = 1\<rparr> (replicate 32 1) (replicate 32 2) [[4]] [] 5 6 [] [] \<noteq> Ok out"
proof -
  let ?bytes = "\<lambda>o1. solana_calldata_bytes \<lparr>TokenNumber = 1, NullifierAmount = 1, OutputAmount = 1\<rparr> (replicate 32 1) (replicate 32 2) [[o1]] [] 5 6 [] []"
  have "\<exists>out. ?bytes 3 = Ok out"
    by (simp add: solana_calldata_bytes_def append_output_def appendBE_def FillBytes_def)
  then obtain out where out: "?bytes 3 = Ok out" by blast
  have "?bytes 4 \<noteq> Ok out"
  proof
    assume "?bytes 4 = Ok out"
    from solana_calldata_injective_for_shape [OF out this] show False by simp
  qed
  with out show ?thesis by blast
qed

text \<open>Without the shape the bytes are ambiguous: an empty last output in front of an on-chain output hashes like
  no output in front of an on-chain output that starts with eight zero bytes.\<close>

theorem solana_calldata_ambiguous:
  "solana_calldata_bytes dims rc sg (outputs @ [[]]) onchain fee rate ins accs =
   solana_calldata_bytes dims rc sg outputs (replicate 8 0 @ onchain) fee rate ins accs"
proof -
  have "be_bytes 8 0 = replicate 8 0" by (simp add: be_bytes_def numeral_eq_Suc)
  then have "append_output b [] = Ok (b @ replicate 8 0)" for b by (simp add: append_output_def appendBE_def FillBytes_def)
  then show ?thesis
    by (cases "rfold append_output ([word_of_int (TokenNumber dims), word_of_int (NullifierAmount dims), word_of_int (OutputAmount dims)] @ rc @ sg) outputs")
      (simp_all add: solana_calldata_bytes_def Let_def rfold_append)
qed

end
