(* ===== verification/CacheDevice.thy ===== *)
theory CacheDevice
  imports Snapshots
begin

text \<open>
  \<open>internal/cache\<close>: the key/value devices in which a wallet keeps what it has already decrypted (in
  memory, in a JSON file, nowhere), the in-process cache with its compute-once operation, and the
  wallet's cache entry. The interface \<open>types.ICacheDevice\<close> is a locale: whatever a device answers was
  stored under that key or was already there.
\<close>

section \<open>The interface\<close>

text \<open>\<open>holds d k v\<close>: the device can come to answer \<open>v\<close> for the key \<open>k\<close>, now or after it has read its file
  again. \<open>ok\<close> tells whether writing to the file succeeds.\<close>

locale cache_interface =
  fixes get :: "'d \<Rightarrow> string \<Rightarrow> string option"
    and set_value :: "bool \<Rightarrow> string \<Rightarrow> string \<Rightarrow> 'd \<Rightarrow> 'd result"
    and holds :: "'d \<Rightarrow> string \<Rightarrow> string \<Rightarrow> bool"
  assumes get_holds: "get d k = Some v \<Longrightarrow> holds d k v"
    and set_holds: "set_value ok k v d = Ok d' \<Longrightarrow> holds d' k' v' \<Longrightarrow> holds d k' v' \<or> k' = k \<and> v' = v"
begin

definition all_entries :: "(string \<Rightarrow> string \<Rightarrow> bool) \<Rightarrow> 'd \<Rightarrow> bool" where
  "all_entries P d \<longleftrightarrow> (\<forall>k v. holds d k v \<longrightarrow> P k v)"

lemma all_entries_get: "all_entries P d \<Longrightarrow> get d k = Some v \<Longrightarrow> P k v"
  using get_holds by (auto simp: all_entries_def)

lemma all_entries_set: "all_entries P d \<Longrightarrow> P k v \<Longrightarrow> set_value ok k v d = Ok d' \<Longrightarrow> all_entries P d'"
  using set_holds unfolding all_entries_def by blast

end

section \<open>Memory and no device\<close>

definition memory_get :: "(string, string) gomap \<Rightarrow> string \<Rightarrow> string option" where
  "memory_get store key = mget store key"

definition memory_set :: "string \<Rightarrow> string \<Rightarrow> (string, string) gomap \<Rightarrow> (string, string) gomap" where
  "memory_set key v store = mput key v store"

definition NewMemoryCacheDeviceWithSerialized :: "(string, string) gomap \<Rightarrow> (string, string) gomap" where
  "NewMemoryCacheDeviceWithSerialized serialized = foldl (\<lambda>d (k, v). mput k v d) [] serialized"

interpretation memory_device: cache_interface memory_get "\<lambda>ok k v d. Ok (memory_set k v d)"
  "\<lambda>d k v. memory_get d k = Some v"
  by unfold_locales (auto simp: memory_get_def memory_set_def split: if_splits)

definition noop_get :: "unit \<Rightarrow> string \<Rightarrow> string option" where
  "noop_get d key = None"

definition noop_set :: "string \<Rightarrow> string \<Rightarrow> unit \<Rightarrow> unit" where
  "noop_set key v d = ()"

interpretation noop_device: cache_interface noop_get "\<lambda>ok k v d. Ok (noop_set k v d)" "\<lambda>d k v. False"
  by unfold_locales (auto simp: noop_get_def)

section \<open>A JSON file\<close>

text \<open>What the file contains: nothing readable, text that is not a JSON object of strings, the document
  \<open>null\<close>, or a table.\<close>

datatype file_content = Absent | Malformed | NullDocument | Document "(string, string) gomap"

text \<open>The map of the device is nil (\<open>None\<close>) after the document \<open>null\<close> was read.\<close>

record file_device =
  fstore :: "(string, string) gomap option"
  ffile :: file_content

definition readFileLocked :: "file_device \<Rightarrow> file_device" where
  "readFileLocked d =
     (case ffile d of
        NullDocument \<Rightarrow> d\<lparr>fstore := None\<rparr>
      | Document m \<Rightarrow> d\<lparr>fstore := Some m\<rparr>
      | _ \<Rightarrow> d)"

definition writeFileLocked :: "bool \<Rightarrow> file_device \<Rightarrow> file_device" where
  "writeFileLocked ok d =
     (if \<not> ok then d
      else d\<lparr>ffile := (case fstore d of None \<Rightarrow> NullDocument | Some m \<Rightarrow> Document m)\<rparr>)"

definition NewFileCacheDevice :: "file_content \<Rightarrow> file_device" where
  "NewFileCacheDevice content = readFileLocked \<lparr>fstore = Some [], ffile = content\<rparr>"

definition file_get :: "file_device \<Rightarrow> string \<Rightarrow> string option" where
  "file_get d key = (case fstore d of None \<Rightarrow> None | Some m \<Rightarrow> mget m key)"

text \<open>Assigning to an entry of a nil map panics.\<close>

definition file_set :: "bool \<Rightarrow> string \<Rightarrow> string \<Rightarrow> file_device \<Rightarrow> file_device result" where
  "file_set ok key v d0 =
     (let d = readFileLocked d0
      in case fstore d of
           None \<Rightarrow> Err Panic
         | Some m \<Rightarrow> Ok (writeFileLocked ok (d\<lparr>fstore := Some (mput key v m)\<rparr>)))"

definition file_holds :: "file_device \<Rightarrow> string \<Rightarrow> string \<Rightarrow> bool" where
  "file_holds d k v \<longleftrightarrow> file_get d k = Some v \<or> (\<exists>m. ffile d = Document m \<and> mget m k = Some v)"

interpretation file_cache: cache_interface file_get file_set file_holds
proof
  show "file_holds d k v" if "file_get d k = Some v" for d k v
    using that by (simp add: file_holds_def)
  show "file_holds d k' v' \<or> k' = k \<and> v' = v"
    if s: "file_set ok k v d = Ok d'" and h: "file_holds d' k' v'" for ok k v d d' k' v'
  proof -
    obtain m where m: "fstore (readFileLocked d) = Some m"
      and d': "d' = writeFileLocked ok ((readFileLocked d)\<lparr>fstore := Some (mput k v m)\<rparr>)"
      using s by (auto simp: file_set_def Let_def split: option.splits)
    have "file_holds d k' v'" if "mget m k' = Some v'"
      using m that by (auto simp: file_holds_def file_get_def readFileLocked_def split: file_content.splits)
    moreover have "ffile (readFileLocked d) = ffile d" by (simp add: readFileLocked_def split: file_content.split)
    ultimately show ?thesis
      using h d' m by (auto simp: file_holds_def file_get_def writeFileLocked_def split: if_splits)
  qed
qed

section \<open>The dispatch\<close>

datatype cache_device =
    MemoryCacheDevice "(string, string) gomap"
  | NoopCacheDevice
  | FileCacheDevice file_device

fun device_get :: "cache_device \<Rightarrow> string \<Rightarrow> string option" where
  "device_get (MemoryCacheDevice m) key = memory_get m key"
| "device_get NoopCacheDevice key = noop_get () key"
| "device_get (FileCacheDevice d) key = file_get d key"

fun device_set :: "bool \<Rightarrow> string \<Rightarrow> string \<Rightarrow> cache_device \<Rightarrow> cache_device result" where
  "device_set ok key v (MemoryCacheDevice m) = Ok (MemoryCacheDevice (memory_set key v m))"
| "device_set ok key v NoopCacheDevice = (let _ = noop_set key v () in Ok NoopCacheDevice)"
| "device_set ok key v (FileCacheDevice d) = rbind (file_set ok key v d) (\<lambda>d'. Ok (FileCacheDevice d'))"

fun device_holds :: "cache_device \<Rightarrow> string \<Rightarrow> string \<Rightarrow> bool" where
  "device_holds (MemoryCacheDevice m) k v = (memory_get m k = Some v)"
| "device_holds NoopCacheDevice k v = False"
| "device_holds (FileCacheDevice d) k v = file_holds d k v"

interpretation device: cache_interface device_get device_set device_holds
proof
  show "device_holds d k v" if "device_get d k = Some v" for d k v
    using that by (cases d) (auto simp: noop_get_def dest: file_cache.get_holds)
  show "device_holds d k' v' \<or> k' = k \<and> v' = v"
    if st: "device_set ok k v d = Ok d'" and h: "device_holds d' k' v'" for ok k v d d' k' v'
  proof (cases d)
    case (FileCacheDevice f)
    then obtain f' where "file_set ok k v f = Ok f'" "d' = FileCacheDevice f'"
      using st by (auto simp: rbind_Ok_iff)
    then show ?thesis using h FileCacheDevice file_cache.set_holds [of ok k v f f' k' v'] by simp
  qed (use that in \<open>auto simp: memory_get_def memory_set_def split: if_splits\<close>)
qed

section \<open>The in-process cache\<close>

text \<open>\<open>AttachableMemoryCacheDevice\<close>: a failed computation is not stored.\<close>

definition GetOrSet :: "(string, 'v) gomap \<Rightarrow> string \<Rightarrow> 'v result \<Rightarrow> (string, 'v) gomap \<times> 'v result" where
  "GetOrSet store key compute =
     (case mget store key of
        Some v \<Rightarrow> (store, Ok v)
      | None \<Rightarrow> (case compute of Inl err \<Rightarrow> (store, Err err) | Inr v \<Rightarrow> (mput key v store, Ok v)))"

section \<open>The wallet's entry\<close>

record hinkal_cache =
  cachedOutputs :: "enc_output list"
  LastOutput :: string

definition emptyHinkalCache :: hinkal_cache where
  "emptyHinkalCache = \<lparr>cachedOutputs = [], LastOutput = []\<rparr>"

text \<open>\<open>encoding/json\<close> on the entry: printing, and reading a text that may be anything.\<close>

record cache_codec =
  Marshal :: "hinkal_cache \<Rightarrow> string result"
  Unmarshal :: "string \<Rightarrow> hinkal_cache option"

definition shortString :: "string \<Rightarrow> string" where
  "shortString s = (if length s < 25 then s else take 25 s)"

definition GetFilePath :: "int \<Rightarrow> string \<Rightarrow> string \<Rightarrow> string" where
  "GetFilePath chainID shortPublicKey shortHinkalAddress =
     ''hinkalCache-'' @ int_String chainID @ ''-'' @ shortPublicKey @ ''-'' @ shortHinkalAddress"

definition cache_key :: "int \<Rightarrow> string \<Rightarrow> string \<Rightarrow> string" where
  "cache_key chainID shieldedPublicKey hinkalAddress =
     GetFilePath chainID (shortString shieldedPublicKey) (shortString hinkalAddress)"

definition GetHinkalCache :: "cache_codec \<Rightarrow> cache_device \<Rightarrow> string \<Rightarrow> int \<Rightarrow> string \<Rightarrow> hinkal_cache result" where
  "GetHinkalCache J d hinkalAddress chainID shieldedPublicKey =
     (if chainID = 0 \<or> shieldedPublicKey = [] \<or> hinkalAddress = []
      then Err (Errorf ''GetHinkalCache: incorrect arguments'')
      else Ok (case device_get d (cache_key chainID shieldedPublicKey hinkalAddress) of
                 None \<Rightarrow> emptyHinkalCache
               | Some raw \<Rightarrow> (case Unmarshal J raw of None \<Rightarrow> emptyHinkalCache | Some c \<Rightarrow> c)))"

definition SetHinkalCache ::
    "cache_codec \<Rightarrow> bool \<Rightarrow> hinkal_cache \<Rightarrow> cache_device \<Rightarrow> string \<Rightarrow> int \<Rightarrow> string \<Rightarrow> cache_device result" where
  "SetHinkalCache J ok c d hinkalAddress chainID shieldedPublicKey =
     (if chainID = 0 \<or> shieldedPublicKey = [] \<or> hinkalAddress = []
      then Err (Errorf ''SetHinkalCache: incorrect arguments'')
      else rbind (Marshal J c) (\<lambda>raw.
           device_set ok (cache_key chainID shieldedPublicKey hinkalAddress) raw d))"

definition ResetCache :: "cache_codec \<Rightarrow> bool \<Rightarrow> cache_device \<Rightarrow> string \<Rightarrow> int \<Rightarrow> string \<Rightarrow> cache_device result" where
  "ResetCache J ok d hinkalAddress chainID shieldedPublicKey =
     SetHinkalCache J ok emptyHinkalCache d hinkalAddress chainID shieldedPublicKey"

section \<open>What the cache can answer\<close>

text \<open>Documented behaviour of \<open>encoding/json\<close>: what it prints for an entry reads back as that entry.\<close>

definition codec_laws :: "cache_codec \<Rightarrow> bool" where
  "codec_laws J \<longleftrightarrow> (\<forall>c raw. Marshal J c = Ok raw \<longrightarrow> Unmarshal J raw = Some c)"

text \<open>Every entry the device can answer for the key of the wallet decodes to one that satisfies \<open>P\<close>.\<close>

definition cache_sound :: "cache_codec \<Rightarrow> (hinkal_cache \<Rightarrow> bool) \<Rightarrow> string \<Rightarrow> cache_device \<Rightarrow> bool" where
  "cache_sound J P key d \<longleftrightarrow>
     device.all_entries (\<lambda>k raw. k = key \<longrightarrow> (\<forall>c. Unmarshal J raw = Some c \<longrightarrow> P c)) d"

lemma cache_sound_get:
  assumes "cache_sound J P (cache_key chainID pub addr) d" "P emptyHinkalCache"
    and "GetHinkalCache J d addr chainID pub = Ok c"
  shows "P c"
  using assms device.all_entries_get
  by (fastforce simp: cache_sound_def GetHinkalCache_def split: if_splits option.splits)

lemma cache_sound_set:
  assumes "codec_laws J" "cache_sound J P key d" "P c"
    and "SetHinkalCache J ok c d addr chainID pub = Ok d'"
  shows "cache_sound J P key d'"
proof -
  obtain raw where "Marshal J c = Ok raw" and s: "device_set ok (cache_key chainID pub addr) raw d = Ok d'"
    using assms(4) by (auto simp: SetHinkalCache_def rbind_Ok_iff split: if_splits)
  then have "Unmarshal J raw = Some c" using assms(1) by (simp add: codec_laws_def)
  then show ?thesis
    using device.all_entries_set [OF assms(2) [unfolded cache_sound_def] _ s] assms(3)
    by (simp add: cache_sound_def)
qed

section \<open>Properties\<close>

text \<open>A cache device invents nothing: after the wallet's entry was stored, whatever the device then
  answers for that entry, from memory or from a file that was read again, is the entry just stored or
  one that it could have answered before.\<close>

theorem cache_answers_stored_entries:
  assumes "codec_laws J" "SetHinkalCache J ok c d addr chainID pub = Ok d'"
    and "GetHinkalCache J d' addr chainID pub = Ok c'"
  shows "c' = c \<or> c' = emptyHinkalCache \<or>
    (\<exists>raw. device_holds d (cache_key chainID pub addr) raw \<and> Unmarshal J raw = Some c')"
proof -
  let ?P = "\<lambda>x. x = c \<or> x = emptyHinkalCache \<or>
    (\<exists>raw. device_holds d (cache_key chainID pub addr) raw \<and> Unmarshal J raw = Some x)"
  have "cache_sound J ?P (cache_key chainID pub addr) d"
    by (auto simp: cache_sound_def device.all_entries_def)
  then have "cache_sound J ?P (cache_key chainID pub addr) d'"
    by (rule cache_sound_set [OF assms(1) _ _ assms(2)]) simp
  from cache_sound_get [OF this _ assms(3)] show ?thesis by simp
qed

definition toy_codec :: cache_codec where
  "toy_codec = \<lparr>Marshal = (\<lambda>c. if cachedOutputs c = [] then Ok (LastOutput c) else Err (External ''json'')),
     Unmarshal = (\<lambda>s. Some \<lparr>cachedOutputs = [], LastOutput = s\<rparr>)\<rparr>"

lemma toy_codec_laws: "codec_laws toy_codec"
  by (auto simp: codec_laws_def toy_codec_def split: if_splits)

lemma cache_answers_stored_entries_witness:
  "\<exists>d'. SetHinkalCache toy_codec True \<lparr>cachedOutputs = [], LastOutput = ''b''\<rparr>
      (FileCacheDevice (NewFileCacheDevice (Document [(''x'', ''y'')]))) ''addr'' 1 ''key'' = Ok d' \<and>
    GetHinkalCache toy_codec d' ''addr'' 1 ''key'' = Ok \<lparr>cachedOutputs = [], LastOutput = ''b''\<rparr>"
proof -
  let ?c = "\<lparr>cachedOutputs = [], LastOutput = ''b''\<rparr>" and ?k = "cache_key 1 ''key'' ''addr''"
  let ?d = "FileCacheDevice (NewFileCacheDevice (Document [(''x'', ''y'')]))"
  let ?m = "mput ?k ''b'' [(''x'', ''y'')]"
  have s: "SetHinkalCache toy_codec True ?c ?d ''addr'' 1 ''key''
      = Ok (FileCacheDevice \<lparr>fstore = Some ?m, ffile = Document ?m\<rparr>)"
    by (simp add: SetHinkalCache_def toy_codec_def NewFileCacheDevice_def readFileLocked_def file_set_def
      writeFileLocked_def Let_def)
  have g: "GetHinkalCache toy_codec (FileCacheDevice \<lparr>fstore = Some ?m, ffile = Document ?m\<rparr>) ''addr'' 1 ''key'' = Ok ?c"
    by (simp add: GetHinkalCache_def toy_codec_def file_get_def)
  show ?thesis using cache_answers_stored_entries [OF toy_codec_laws s g] s g by blast
qed

text \<open>A cache file that contains the JSON document \<open>null\<close> makes the file device unusable: it is read
  into a nil map, every lookup misses, and every store panics, whether or not the file could be
  written.\<close>

theorem null_cache_file_panics:
  "file_get (NewFileCacheDevice NullDocument) key = None \<and>
   device_set ok key v (FileCacheDevice (NewFileCacheDevice NullDocument)) = Err Panic"
  by (simp add: NewFileCacheDevice_def readFileLocked_def file_get_def file_set_def Let_def)

end
