(* ===== verification/SealedNotes.thy ===== *)
theory SealedNotes
  imports UtxoCorrect EnclaveTypes
begin

text \<open>
  How a note travels to its owner. \<open>crypto-keys/ecdh.go\<close>: a message sealed for several public keys;
  \<open>utxo/encrypt.go\<close>: the text of a note, sealed for its owner and the enclave;
  \<open>functions/balance/decrypt.go\<close>: opening and reading that text, and the two unencrypted on-chain
  forms. The boxes of \<open>nacl\<close>, SHA-512, X25519, base58 printing and the ABI decoder are the fields of
  one record.
\<close>

section \<open>Primitives\<close>

record onchain_tuple =
  otAmount :: int
  otErc20Address :: "byte list"
  otH0x :: int
  otH0y :: int
  otH1x :: int
  otH1y :: int
  otStealthAddress :: int
  otTimeStamp :: int

text \<open>\<open>sealAnonymous i m pk\<close> is the box made with the randomness that the \<open>i\<close>th recipient's box
  consumes.\<close>

record sealing =
  sha512 :: "byte list \<Rightarrow> byte list"
  x25519Base :: "byte list \<Rightarrow> byte list result"
  sealAnonymous :: "nat \<Rightarrow> byte list \<Rightarrow> byte list \<Rightarrow> byte list result"
  openAnonymous :: "byte list \<Rightarrow> byte list \<Rightarrow> byte list \<Rightarrow> byte list option"
  secretboxSeal :: "byte list \<Rightarrow> byte list \<Rightarrow> byte list \<Rightarrow> byte list"
  secretboxOpen :: "byte list \<Rightarrow> byte list \<Rightarrow> byte list \<Rightarrow> byte list option"
  base58Encode :: "byte list \<Rightarrow> string"
  addressHex :: "byte list \<Rightarrow> string"
  unpackOnChainUtxo :: "byte list \<Rightarrow> onchain_tuple result"

section \<open>hex.DecodeString\<close>

definition hex_val :: "char \<Rightarrow> nat option" where
  "hex_val c = (case digit_val c of Some d \<Rightarrow> if d < 16 then Some d else None | None \<Rightarrow> None)"

fun hex_DecodeString :: "string \<Rightarrow> byte list result" where
  "hex_DecodeString [] = Ok []"
| "hex_DecodeString [c] = Err (External ''hex: odd length'')"
| "hex_DecodeString (a # b # cs) =
     (case (hex_val a, hex_val b) of
        (Some x, Some y) \<Rightarrow> rbind (hex_DecodeString cs) (\<lambda>bs. Ok (word_of_nat (16 * x + y) # bs))
      | _ \<Rightarrow> Err (External ''hex: invalid byte''))"

definition bytes_string :: "byte list \<Rightarrow> string" where
  "bytes_string bs = map (\<lambda>b. char_of (unat b)) bs"

section \<open>crypto-keys/ecdh.go\<close>

definition secretKeyBytes :: nat where "secretKeyBytes = 32"
definition secretNonceBytes :: nat where "secretNonceBytes = 24"
definition sealedKeyLen :: nat where "sealedKeyLen = 48 + secretKeyBytes"

definition DecryptBoxSeal :: "sealing \<Rightarrow> byte list \<Rightarrow> byte list \<Rightarrow> byte list \<Rightarrow> byte list result" where
  "DecryptBoxSeal S ciphertext pk sk =
     (case openAnonymous S ciphertext pk sk of
        None \<Rightarrow> Err (Errorf ''cryptokeys: box seal open failed'')
      | Some msg \<Rightarrow> Ok msg)"

definition DecryptSealedKeys :: "sealing \<Rightarrow> byte list \<Rightarrow> byte list \<Rightarrow> byte list \<Rightarrow> int \<Rightarrow> byte list result" where
  "DecryptSealedKeys S packed pk sk recipientIndex =
     (if length packed < 1 + secretNonceBytes then Err (Errorf ''cryptokeys: sealed keys too short'')
      else
        let count = unat (packed ! 0);
            nonce = take secretNonceBytes (drop 1 packed);
            off = 1 + secretNonceBytes
        in if recipientIndex < 0 \<or> recipientIndex \<ge> int count
           then Err (Errorf ''cryptokeys: recipient index out of range'')
           else if length packed < off + count * sealedKeyLen
           then Err (Errorf ''cryptokeys: sealed keys truncated'')
           else
             let sealedStart = off + nat recipientIndex * sealedKeyLen;
                 sealedKey = take sealedKeyLen (drop sealedStart packed);
                 ciphertext = drop (off + count * sealedKeyLen) packed
             in case openAnonymous S sealedKey pk sk of
                  None \<Rightarrow> Err (Errorf ''cryptokeys: sealed content key open failed'')
                | Some contentKey \<Rightarrow>
                    if length contentKey \<noteq> secretKeyBytes
                    then Err (Errorf ''cryptokeys: sealed content key open failed'')
                    else (case secretboxOpen S ciphertext nonce contentKey of
                            None \<Rightarrow> Err (Errorf ''cryptokeys: secretbox open failed'')
                          | Some msg \<Rightarrow> Ok msg))"

text \<open>\<open>contentKey\<close> and \<open>nonce\<close> are the outcomes of the two \<open>rand.Read\<close>; a slice of keys longer than
  255 wraps in the count byte.\<close>

definition EncryptSealedKeys ::
    "sealing \<Rightarrow> byte list result \<Rightarrow> byte list result \<Rightarrow> byte list \<Rightarrow> byte list list \<Rightarrow> byte list result" where
  "EncryptSealedKeys S contentKey nonce msg recipientPubKeys =
     rbind contentKey (\<lambda>key.
     rbind nonce (\<lambda>n.
     let ciphertext = secretboxSeal S msg n key
     in rbind (rmap (\<lambda>(i, pk). sealAnonymous S i key pk) (enumerate 0 recipientPubKeys)) (\<lambda>sealed.
        Ok (word_of_nat (length recipientPubKeys) # n @ concat sealed @ ciphertext))))"

section \<open>Encryption key pairs\<close>

text \<open>\<open>EncryptionKeyPair\<close> of \<open>keys.go\<close> returns the secret and the public key.\<close>

definition EncryptionKeyPair :: "primitives \<Rightarrow> sealing \<Rightarrow> string \<Rightarrow> (byte list \<times> byte list) result" where
  "EncryptionKeyPair E S seedHex =
     (let seed = keccak256 E (fromHex E seedHex);
          sk = take 32 (sha512 S seed)
      in rbind (x25519Base S sk) (\<lambda>pk. Ok (sk, pk)))"

definition GetEncryptionKeyPair :: "primitives \<Rightarrow> sealing \<Rightarrow> string \<Rightarrow> (string \<times> string) result" where
  "GetEncryptionKeyPair E S privateKey =
     rbind (EncryptionKeyPair E S privateKey) (\<lambda>(sk, pk).
     Ok (''0x'' @ hex_EncodeToString sk, ''0x'' @ hex_EncodeToString pk))"

definition GetEncryptionKey :: "primitives \<Rightarrow> sealing \<Rightarrow> utxo \<Rightarrow> string result" where
  "GetEncryptionKey E S u =
     (if NullifyingKey u = [] then
        (if EncryptionKey u = [] then Err (Errorf ''no encryption key provided in UTXO'')
         else Ok (EncryptionKey u))
      else rbind (GetEncryptionKeyPair E S (NullifyingKey u)) (\<lambda>(_, pk). Ok pk))"

section \<open>utxo/encrypt.go\<close>

definition EnclavePubkey :: string where
  "EnclavePubkey = ''0x566de53cee38c8e4e87636e137b206b4799ae79b87d563f416008946bdf14427''"

definition ensure0x :: "string \<Rightarrow> string" where
  "ensure0x value = (if has_prefix value ''0x'' then value else ''0x'' @ value)"

definition encryptionRecipients :: "primitives \<Rightarrow> string \<Rightarrow> byte list list result" where
  "encryptionRecipients E encryptionKeyHex =
     (let keys = encryptionKeyHex # (if EnclavePubkey \<noteq> [] then [EnclavePubkey] else [])
      in rmap (\<lambda>k. let pk = fromHex E k
                   in if length pk \<noteq> 32 then Err (Errorf ''utxo: encryption public key is not 32 bytes'')
                      else Ok pk) keys)"

definition EncryptEncryptionKeyAndStealthAddress ::
    "primitives \<Rightarrow> sealing \<Rightarrow> byte list result \<Rightarrow> byte list result \<Rightarrow> string \<Rightarrow> int option \<Rightarrow> byte list result" where
  "EncryptEncryptionKeyAndStealthAddress E S contentKey nonce encryptionKeyHex stealthAddress =
     (let buf = string_bytes (ensure0x encryptionKeyHex) @ string_bytes (ToBeHex stealthAddress)
      in rbind (encryptionRecipients E encryptionKeyHex) (\<lambda>recipients.
         EncryptSealedKeys S contentKey nonce buf recipients))"

definition note_text :: "primitives \<Rightarrow> utxo \<Rightarrow> string \<Rightarrow> int \<Rightarrow> string \<Rightarrow> string result" where
  "note_text E u stealth ts encKeyHex =
     (let (h0x, h0y) = (case H0 u of None \<Rightarrow> (0, 0) | Some h \<Rightarrow> h);
          parts = [ToBeHex (Amount u), ensure0x (Erc20TokenAddress u), ensure0x stealth,
                   ToBeHex (Some ts), ToBeHex (Some h0x), ToBeHex (Some h0y), ensure0x encKeyHex]
      in if MintAddress u \<noteq> [] then
           rbind (base58Decode E (MintAddress u)) (\<lambda>mintBytes.
           Ok (concat (parts @ [''0x'' @ hex_EncodeToString mintBytes])))
         else Ok (concat parts))"

definition EncryptUtxo ::
    "primitives \<Rightarrow> sealing \<Rightarrow> byte list result \<Rightarrow> byte list result \<Rightarrow> utxo \<Rightarrow> utxo \<times> byte list result" where
  "EncryptUtxo E S contentKey nonce u =
     (case GetStealthAddress E u of
        (u1, Inl err) \<Rightarrow> (u1, Err err)
      | (u1, Inr stealth) \<Rightarrow>
          (u1, rbind (ParseBigInt (TimeStamp u1)) (\<lambda>ts.
               rbind (GetEncryptionKey E S u1) (\<lambda>encKeyHex.
               rbind (note_text E u1 stealth ts encKeyHex) (\<lambda>buf.
               rbind (encryptionRecipients E encKeyHex) (\<lambda>recipients.
               EncryptSealedKeys S contentKey nonce (string_bytes buf) recipients))))))"

section \<open>balance/decrypt.go\<close>

text \<open>\<open>strings.Split(s, "0x")\<close>, and \<open>splitHexParts\<close>, which drops the empty parts.\<close>

function split_0x :: "string \<Rightarrow> string list" where
  "split_0x [] = [[]]"
| "split_0x (c # cs) =
     (if has_prefix (c # cs) ''0x'' then [] # split_0x (tl cs)
      else (case split_0x cs of [] \<Rightarrow> [[c]] | p # ps \<Rightarrow> (c # p) # ps))"
  by pat_completeness auto
termination
  by (relation "measure length") auto

definition splitHexParts :: "string \<Rightarrow> string list" where
  "splitHexParts s = filter (\<lambda>p. p \<noteq> []) (split_0x s)"

text \<open>The decoders give \<open>NewUtxo\<close> a point and a time stamp, so neither the clock nor the entropy source is
  read: see \<open>NewUtxo_given\<close>.\<close>

definition decoded_note :: "primitives \<Rightarrow> utxo_params \<Rightarrow> utxo result" where
  "decoded_note E p = NewUtxo E 0 (Err Panic) p"

text \<open>\<open>spk\<close> is the outcome of \<open>uk.GetShieldedPrivateKey()\<close>.\<close>

definition DecryptUtxo :: "primitives \<Rightarrow> sealing \<Rightarrow> string result \<Rightarrow> byte list \<Rightarrow> utxo result" where
  "DecryptUtxo E S spk0 encryptedData =
     rbind spk0 (\<lambda>spk.
     rbind (EncryptionKeyPair E S spk) (\<lambda>(sk, pk).
     rbind (DecryptSealedKeys S encryptedData pk sk 0) (\<lambda>plain.
     let parts = splitHexParts (bytes_string plain)
     in if length parts < 7 then Err (Errorf ''decrypt utxo: too few fields'')
        else
          rbind (ParseBigInt (''0x'' @ parts ! 0)) (\<lambda>amount.
          rbind (ParseBigInt (''0x'' @ parts ! 3)) (\<lambda>ts.
          rbind (ParseBigInt (''0x'' @ parts ! 4)) (\<lambda>h0x.
          rbind (ParseBigInt (''0x'' @ parts ! 5)) (\<lambda>h0y.
          let mint = (if length parts > 7 then
                        (case hex_DecodeString (parts ! 7) of
                           Inl _ \<Rightarrow> []
                         | Inr bs \<Rightarrow> if length bs = 32 then base58Encode S bs else [])
                      else [])
          in decoded_note E (no_params\<lparr>pAmount := Some amount, pErc20TokenAddress := ''0x'' @ parts ! 1,
               pMintAddress := mint, pTimeStamp := int_String ts, pNullifyingKey := spk,
               pStealthAddress := ''0x'' @ parts ! 2, pH0 := Some (h0x, h0y)\<rparr>))))))))"

definition DecryptUtxoHex :: "primitives \<Rightarrow> sealing \<Rightarrow> string result \<Rightarrow> string \<Rightarrow> utxo result" where
  "DecryptUtxoHex E S spk0 encryptedHex = DecryptUtxo E S spk0 (fromHex E encryptedHex)"

definition checkUtxoSignature :: "primitives \<Rightarrow> int \<Rightarrow> int \<Rightarrow> int \<Rightarrow> string \<Rightarrow> bool result" where
  "checkUtxoSignature E h0x h0y h1y privateKey =
     VerifyStealthPair E (h0x, h0y) (0, h1y) privateKey True"

definition DecodeEvmUtxo :: "primitives \<Rightarrow> sealing \<Rightarrow> string result \<Rightarrow> byte list \<Rightarrow> utxo result" where
  "DecodeEvmUtxo E S spk0 encodedData =
     rbind (rwrap ''decode evm utxo'' (unpackOnChainUtxo S encodedData)) (\<lambda>d.
     rbind spk0 (\<lambda>spk.
     rbind (checkUtxoSignature E (otH0x d) (otH0y d) (otH1y d) spk) (\<lambda>ok.
     if \<not> ok then Err (Errorf ''UTXO doesn't belong to user'')
     else decoded_note E (no_params\<lparr>pAmount := Some (otAmount d),
            pErc20TokenAddress := addressHex S (otErc20Address d),
            pTimeStamp := int_String (otTimeStamp d), pNullifyingKey := spk,
            pStealthAddress := ToBeHex (Some (otStealthAddress d)), pH0 := Some (otH0x d, otH0y d)\<rparr>))))"

definition DecodeEvmUtxoHex :: "primitives \<Rightarrow> sealing \<Rightarrow> string result \<Rightarrow> string \<Rightarrow> utxo result" where
  "DecodeEvmUtxoHex E S spk0 encodedHex = DecodeEvmUtxo E S spk0 (fromHex E encodedHex)"

definition DecodeSolanaOnChainUtxo :: "primitives \<Rightarrow> sealing \<Rightarrow> string result \<Rightarrow> string \<Rightarrow> utxo result" where
  "DecodeSolanaOnChainUtxo E S spk0 encodedOutput =
     (if \<not> has_prefix encodedOutput solanaOnChainUtxoPrefix
      then Err (Errorf ''invalid encoded Solana UTXO payload'')
      else
        let encodedData = fromHex E (drop (length solanaOnChainUtxoPrefix) encodedOutput)
        in if length encodedData \<noteq> 32 * 9 then Err (Errorf ''malformed encoded Solana UTXO payload'')
           else rbind spk0 (\<lambda>spk.
             let wordBytes = (\<lambda>i. take 32 (drop (i * 32) encodedData));
                 wordAt = (\<lambda>i. SetBytes (wordBytes i))
             in rbind (checkUtxoSignature E (wordAt 3) (wordAt 4) (wordAt 6) spk) (\<lambda>ok.
                if \<not> ok then Err (Errorf ''UTXO doesn't belong to user'')
                else
                  let mintBytes = drop 16 (wordBytes 1) @ drop 16 (wordBytes 2)
                  in rbind (PoseidonBig E [wordAt 1, wordAt 2]) (\<lambda>tokenHash.
                     decoded_note E (no_params\<lparr>pAmount := Some (wordAt 0),
                       pErc20TokenAddress := ToBeHex (Some tokenHash),
                       pMintAddress := base58Encode S mintBytes,
                       pTimeStamp := int_String (wordAt 8), pNullifyingKey := spk,
                       pStealthAddress := ToBeHex (Some (wordAt 7)),
                       pH0 := Some (wordAt 3, wordAt 4)\<rparr>)))))"

definition DecodeUtxo :: "primitives \<Rightarrow> sealing \<Rightarrow> int \<Rightarrow> string result \<Rightarrow> string \<Rightarrow> utxo result" where
  "DecodeUtxo E S chainID spk0 encodedOutput =
     (if IsSolanaLike chainID then DecodeSolanaOnChainUtxo E S spk0 encodedOutput
      else DecodeEvmUtxoHex E S spk0 encodedOutput)"


section \<open>Texts\<close>

lemma unat_of_char: "unat (of_char c :: byte) = (of_char c :: nat)"
proof -
  have "(of_char c :: byte) = of_nat (of_char c)" by (rule of_nat_of_char [symmetric])
  moreover have "of_char c < (256 :: nat)" by simp
  ultimately show ?thesis by (simp only: unat_of_nat) simp
qed

lemma bytes_string_bytes [simp]: "bytes_string (string_bytes s) = s"
  by (simp add: bytes_string_def string_bytes_def comp_def unat_of_char map_idI)

lemma hex_val_digit: "d < 16 \<Longrightarrow> hex_val (digit_char d) = Some d"
  by (simp add: hex_val_def)

lemma hex_Decode_Encode [simp]: "hex_DecodeString (hex_EncodeToString bs) = Ok bs"
proof (induction bs)
  case (Cons b bs)
  have "unat b < 256" using unsigned_less [of b, where ?'a = nat] by simp
  then have "unat b div 16 < 16" "unat b mod 16 < 16" by auto
  then have "hex_val (digit_char (unat b div 16)) = Some (unat b div 16)"
    "hex_val (digit_char (unat b mod 16)) = Some (unat b mod 16)" by (simp_all add: hex_val_digit)
  moreover have "word_of_nat (16 * (unat b div 16) + unat b mod 16) = b" by simp
  ultimately show ?case using Cons by (simp add: hex_EncodeToString_def hex_byte_def)
qed (simp add: hex_EncodeToString_def)

definition no_x :: "string \<Rightarrow> bool" where
  "no_x s = (CHR ''x'' \<notin> set s)"

lemma no_x_hex [simp]: "no_x (hex_EncodeToString bs)"
proof -
  have "digit_char d \<noteq> CHR ''x''" if "d < 16" for d
  proof
    assume "digit_char d = CHR ''x''"
    then have "(of_char (digit_char d) :: nat) = 120" by simp
    with that show False by (simp add: digit_char_code split: if_splits)
  qed
  note d = this
  have "CHR ''x'' \<notin> set (hex_byte b)" for b
  proof -
    have "unat b div 16 < 16" "unat b mod 16 < 16" using unat_byte [of b] by auto
    then have "digit_char (unat b div 16) \<noteq> CHR ''x''" "digit_char (unat b mod 16) \<noteq> CHR ''x''"
      by (simp_all add: d)
    then show ?thesis by (simp add: hex_byte_def)
  qed
  then show ?thesis by (simp add: no_x_def hex_EncodeToString_def)
qed

lemma ToBeHex_text: "0 \<le> n \<Longrightarrow> \<exists>d. ToBeHex (Some n) = ''0x'' @ d \<and> d \<noteq> [] \<and> no_x d"
  using nat_text_no_x [of 16 "nat n"]
  by (auto simp: ToBeHex_def int_text_def Let_def no_x_def)

lemma split_0x_nonempty: "split_0x s \<noteq> []"
  by (cases s) (auto split: list.splits)

lemma split_0x_part: "no_x p \<Longrightarrow> split_0x (p @ ''0x'' @ s) = p # split_0x s"
proof (induction p)
  case Nil
  show ?case by (subst append_Nil, subst append.simps, subst split_0x.simps) (simp add: has_prefix_def)
next
  case (Cons c p)
  have "\<not> has_prefix ((c # p) @ ''0x'' @ s) ''0x''"
    using Cons.prems by (cases p) (auto simp: has_prefix_def no_x_def)
  with Cons show ?case by (simp add: no_x_def del: append_assoc)
qed

lemma split_0x_last: "no_x p \<Longrightarrow> split_0x p = [p]"
proof (induction p)
  case (Cons c p)
  have "\<not> has_prefix (c # p) ''0x''"
    using Cons.prems by (cases p) (auto simp: has_prefix_def no_x_def)
  with Cons show ?case by (simp add: no_x_def)
qed simp

definition marked :: "string list \<Rightarrow> string" where
  "marked ps = concat (map (\<lambda>p. ''0x'' @ p) ps)"

lemma split_0x_marked: "no_x q \<Longrightarrow> list_all no_x ps \<Longrightarrow> split_0x (q @ marked ps) = q # ps"
proof (induction ps arbitrary: q)
  case Nil
  then show ?case by (simp add: marked_def split_0x_last)
next
  case (Cons p ps)
  have "split_0x (q @ ''0x'' @ (p @ marked ps)) = q # split_0x (p @ marked ps)"
    using Cons.prems by (intro split_0x_part)
  with Cons show ?case by (simp add: marked_def)
qed

text \<open>A concatenation of hexadecimal texts is read back part by part.\<close>

lemma splitHexParts_marked:
  assumes "list_all (\<lambda>p. p \<noteq> [] \<and> no_x p) ps"
  shows "splitHexParts (marked ps) = ps"
proof -
  have "list_all no_x ps" "filter (\<lambda>p. p \<noteq> []) ps = ps"
    using assms by (auto simp: list_all_iff filter_id_conv)
  then show ?thesis using split_0x_marked [of "[]" ps] by (simp add: splitHexParts_def no_x_def)
qed

lemma NewUtxo_given: "pH0 p \<noteq> None \<Longrightarrow> pTimeStamp p \<noteq> [] \<Longrightarrow> NewUtxo E now seed p = decoded_note E p"
  by (auto simp: NewUtxo_def decoded_note_def)

lemma hex_concat: "hex_EncodeToString (concat rows) = concat (map hex_EncodeToString rows)"
  by (induction rows) (simp_all add: hex_EncodeToString_def)

section \<open>Sealed keys\<close>

text \<open>Documented behaviour: a box made for the public key of a secret key is opened by that key and is
  48 bytes longer than its content, a secret box is opened by its key and nonce, and \<open>FromHex\<close> reads
  what \<open>hex.EncodeToString\<close> prints.\<close>

definition sealing_laws :: "primitives \<Rightarrow> sealing \<Rightarrow> bool" where
  "sealing_laws E S \<longleftrightarrow>
     (\<forall>bs. fromHex E (''0x'' @ hex_EncodeToString bs) = bs) \<and>
     (\<forall>i m pk c. sealAnonymous S i m pk = Ok c \<longrightarrow>
        length c = length m + 48 \<and> (\<forall>sk. x25519Base S sk = Ok pk \<longrightarrow> openAnonymous S c pk sk = Some m)) \<and>
     (\<forall>m n k. secretboxOpen S (secretboxSeal S m n k) n k = Some m)"

lemma concat_fixed_nth:
  assumes "\<forall>x \<in> set xs. length x = k" "i < length xs"
  shows "take k (drop (i * k) (concat xs @ ys)) = xs ! i" "length (concat xs) = length xs * k"
proof -
  show l: "length (concat xs) = length xs * k"
    using assms(1) by (induction xs) auto
  show "take k (drop (i * k) (concat xs @ ys)) = xs ! i" using assms
  proof (induction xs arbitrary: i)
    case (Cons x xs)
    then show ?case by (cases i) auto
  qed simp
qed

lemma sealed_keys_roundtrip:
  assumes "sealing_laws E S" "length key = 32" "length nonce = 24"
    and "EncryptSealedKeys S (Ok key) (Ok nonce) msg pks = Ok packed"
    and "i < length pks" "length pks < 256" "x25519Base S sk = Ok (pks ! i)"
  shows "DecryptSealedKeys S packed (pks ! i) sk (int i) = Ok msg"
proof -
  let ?c = "secretboxSeal S msg nonce key"
  obtain boxes where boxes: "rmap (\<lambda>(i, pk). sealAnonymous S i key pk) (enumerate 0 pks) = Ok boxes"
    and packed: "packed = word_of_nat (length pks) # nonce @ concat boxes @ ?c"
    using assms(4) by (auto simp: EncryptSealedKeys_def Let_def rbind_Ok_iff)
  have lb: "length boxes = length pks" using rmap_Ok_length [OF boxes] by simp
  have nth: "sealAnonymous S j key (pks ! j) = Ok (boxes ! j)" if "j < length pks" for j
    using rmap_Ok_nth [OF boxes, of j] that by (simp add: nth_enumerate_eq)
  have len: "\<forall>b \<in> set boxes. length b = 80"
  proof
    fix b assume "b \<in> set boxes"
    then obtain j where "j < length pks" "b = boxes ! j" using lb by (auto simp: in_set_conv_nth)
    then show "length b = 80" using nth [of j] assms(1,2) unfolding sealing_laws_def by fastforce
  qed
  note box = concat_fixed_nth [OF len, of i]
  have count: "unat (packed ! 0) = length pks" using assms(6) by (simp add: packed unat_of_nat)
  have off: "drop (25 + k) packed = drop k (concat boxes @ ?c)" for k
  proof -
    have "drop 25 packed = concat boxes @ ?c" using assms(3) by (simp add: packed)
    moreover have "drop (25 + k) packed = drop k (drop 25 packed)" by (simp add: add.commute)
    ultimately show ?thesis by simp
  qed
  have "take 24 (drop 1 packed) = nonce" using assms(3) by (simp add: packed)
  moreover have "take 80 (drop (25 + i * 80) packed) = boxes ! i"
    using box(1) [of ?c] assms(5) lb by (simp only: off)
  moreover have "drop (25 + length pks * 80) packed = ?c"
    using box(2) assms(5) lb by (simp only: off) simp
  moreover have "length packed = 25 + length pks * 80 + length ?c"
    using box(2) assms(3,5) lb by (simp add: packed)
  moreover have "openAnonymous S (boxes ! i) (pks ! i) sk = Some key" "secretboxOpen S ?c nonce key = Some msg"
    using assms(1,7) nth [OF assms(5)] by (auto simp: sealing_laws_def)
  ultimately show ?thesis
    using assms(2,5) count
    by (simp add: DecryptSealedKeys_def secretNonceBytes_def sealedKeyLen_def secretKeyBytes_def Let_def)
qed


section \<open>Notes in transit\<close>

text \<open>The texts of addresses: the prefix and at least one digit, no second prefix.\<close>

definition hex_text :: "string \<Rightarrow> bool" where
  "hex_text s \<longleftrightarrow> (\<exists>d. s = ''0x'' @ d \<and> d \<noteq> [] \<and> no_x d)"

lemma hex_text_ToBeHex: "0 \<le> n \<Longrightarrow> hex_text (ToBeHex (Some n))"
  using ToBeHex_text by (simp add: hex_text_def)

lemma hex_textE:
  assumes "hex_text s"
  obtains d where "s = ''0x'' @ d" "d \<noteq> []" "no_x d" "ensure0x s = ''0x'' @ d"
  using assms by (auto simp: hex_text_def ensure0x_def has_prefix_def)

definition mint_text :: "primitives \<Rightarrow> sealing \<Rightarrow> string \<Rightarrow> bool" where
  "mint_text E S mint \<longleftrightarrow>
     mint = [] \<or> (\<exists>bs. base58Decode E mint = Ok bs \<and> length bs = 32 \<and> base58Encode S bs = mint)"

text \<open>The message of a note is a concatenation of seven or eight hexadecimal texts.\<close>

lemma note_text_marked:
  assumes "hex_text (Erc20TokenAddress u)" "hex_text stealth" "hex_text enc" "mint_text E S (MintAddress u)"
    and "Amount u = Some a" "0 \<le> a" "0 \<le> ts" "H0 u = Some (x, y)" "0 \<le> x" "0 \<le> y"
  obtains ps ds where "note_text E u stealth ts enc = Ok (marked ps)" "list_all (\<lambda>p. p \<noteq> [] \<and> no_x p) ps"
    "''0x'' @ ps ! 0 = ToBeHex (Some a)" "''0x'' @ ps ! 1 = Erc20TokenAddress u" "''0x'' @ ps ! 2 = stealth"
    "''0x'' @ ps ! 3 = ToBeHex (Some ts)" "''0x'' @ ps ! 4 = ToBeHex (Some x)" "''0x'' @ ps ! 5 = ToBeHex (Some y)"
    "7 \<le> length ps" "MintAddress u = [] \<Longrightarrow> length ps = 7"
    "MintAddress u \<noteq> [] \<Longrightarrow> 7 < length ps \<and> ps ! 7 = hex_EncodeToString ds \<and> length ds = 32 \<and> base58Encode S ds = MintAddress u"
proof -
  obtain pa px py pt where p: "ToBeHex (Some a) = ''0x'' @ pa" "pa \<noteq> []" "no_x pa"
    "ToBeHex (Some x) = ''0x'' @ px" "px \<noteq> []" "no_x px" "ToBeHex (Some y) = ''0x'' @ py" "py \<noteq> []" "no_x py"
    "ToBeHex (Some ts) = ''0x'' @ pt" "pt \<noteq> []" "no_x pt"
    using ToBeHex_text [OF assms(6)] ToBeHex_text [OF assms(7)] ToBeHex_text [OF assms(9)] ToBeHex_text [OF assms(10)]
    by metis
  obtain tk where tk: "Erc20TokenAddress u = ''0x'' @ tk" "tk \<noteq> []" "no_x tk" "ensure0x (Erc20TokenAddress u) = ''0x'' @ tk"
    using assms(1) by (rule hex_textE)
  obtain st where st: "stealth = ''0x'' @ st" "st \<noteq> []" "no_x st" "ensure0x stealth = ''0x'' @ st"
    using assms(2) by (rule hex_textE)
  obtain en where en: "enc = ''0x'' @ en" "en \<noteq> []" "no_x en" "ensure0x enc = ''0x'' @ en"
    using assms(3) by (rule hex_textE)
  let ?ps = "[pa, tk, st, pt, px, py, en]"
  show thesis
  proof (cases "MintAddress u = []")
    case True
    have "note_text E u stealth ts enc = Ok (marked ?ps)"
      using True assms(5,8) p tk(4) st(4) en(4) by (simp add: note_text_def marked_def)
    then show ?thesis using True p tk st en by (intro that [of ?ps]) auto
  next
    case False
    then obtain bs where bs: "base58Decode E (MintAddress u) = Ok bs" "length bs = 32" "base58Encode S bs = MintAddress u"
      using assms(4) by (auto simp: mint_text_def)
    have "note_text E u stealth ts enc = Ok (marked (?ps @ [hex_EncodeToString bs]))"
      using False assms(5,8) p tk(4) st(4) en(4) bs by (simp add: note_text_def marked_def)
    moreover have "hex_EncodeToString bs \<noteq> []" using bs(2) by (metis length_hex list.size(3) mult_eq_0_iff zero_neq_numeral)
    ultimately show ?thesis using False p tk st en bs by (intro that [of "?ps @ [hex_EncodeToString bs]" bs]) auto
  qed
qed

lemma stealthed_more [simp]:
  "MintAddress (stealthed E u) = MintAddress u" "EncryptionKey (stealthed E u) = EncryptionKey u"
  "H0 (stealthed E u) = H0 u" "SpendingPublicKey (stealthed E u) = SpendingPublicKey u"
  using stealthed_cases [of E u] by auto

lemma commitment_from_fields:
  assumes "commitment u = []" "commitment v = []" "snd (GetStealthAddress E u) = Ok st"
    and "StealthAddress v = st" "st \<noteq> []" "Amount v = Amount u" "Erc20TokenAddress v = Erc20TokenAddress u"
    and "ParseBigInt (TimeStamp v) = ParseBigInt (TimeStamp u)"
  shows "snd (GetCommitment E v) = snd (GetCommitment E u)"
proof -
  have "snd (GetStealthAddress E v) = Ok st" using assms by (simp add: GetStealthAddress_def)
  moreover have "commitment_hash E v st = commitment_hash E u st"
    using assms by (simp add: commitment_hash_def)
  ultimately show ?thesis using assms(1-3) by (simp add: GetCommitment_alt split: sum.split)
qed

section \<open>Properties\<close>

text \<open>C18. A note sealed for its owner is recovered by its owner: whoever holds the key whose public half
  is the note's encryption key decrypts the message into a note with the same amount, token, mint,
  stealth address and point, and with the same commitment, so it finds the note in the tree.\<close>

theorem sealed_note_recovered:
  assumes laws: "sealing_laws E S" and key: "length key = 32" "length nonce = 24"
    and enc: "snd (EncryptUtxo E S (Ok key) (Ok nonce) u) = Ok sealed"
    and own: "EncryptionKeyPair E S spk = Ok (sk, pk)" "GetEncryptionKey E S u = Ok (''0x'' @ hex_EncodeToString pk)"
    and st: "snd (GetStealthAddress E u) = Ok st" "hex_text st"
    and u: "Amount u = Some a" "0 \<le> a" "H0 u = Some (x, y)" "0 \<le> x" "0 \<le> y" "ParseBigInt (TimeStamp u) = Ok ts"
      "0 \<le> ts" "hex_text (Erc20TokenAddress u)" "mint_text E S (MintAddress u)" "commitment u = []"
  shows "\<exists>v. DecryptUtxo E S (Ok spk) sealed = Ok v \<and> Amount v = Amount u \<and>
    Erc20TokenAddress v = Erc20TokenAddress u \<and> MintAddress v = MintAddress u \<and> StealthAddress v = st \<and>
    H0 v = H0 u \<and> NullifyingKey v = spk \<and> snd (GetCommitment E v) = snd (GetCommitment E u)"
proof -
  let ?enc = "''0x'' @ hex_EncodeToString pk"
  have fh: "fromHex E (''0x'' @ hex_EncodeToString bs) = bs" for bs using laws by (simp add: sealing_laws_def)
  have gs: "GetStealthAddress E u = (stealthed E u, Ok st)"
    using st(1) by (metis prod.collapse stealthed_def)
  have "GetEncryptionKey E S (stealthed E u) = GetEncryptionKey E S u"
    by (simp add: GetEncryptionKey_def)
  then have ge: "GetEncryptionKey E S (stealthed E u) = Ok ?enc" using own(2) by simp
  obtain buf recipients where t: "note_text E (stealthed E u) st ts ?enc = Ok buf"
    and r: "encryptionRecipients E ?enc = Ok recipients"
    and p: "EncryptSealedKeys S (Ok key) (Ok nonce) (string_bytes buf) recipients = Ok sealed"
    using enc u(6) ge by (auto simp: EncryptUtxo_def gs rbind_Ok_iff)
  have r0: "recipients = [pk, fromHex E EnclavePubkey]" and lp: "length pk = 32"
    using r fh [of pk] by (auto simp: encryptionRecipients_def EnclavePubkey_def Let_def rbind_Ok_iff split: if_splits)
  have he: "hex_text ?enc"
  proof -
    have "hex_EncodeToString pk \<noteq> []" using lp by (metis length_hex list.size(3) mult_eq_0_iff zero_neq_numeral)
    then show ?thesis by (auto simp: hex_text_def)
  qed
  from note_text_marked [of "stealthed E u" st ?enc E S a ts x y]
  obtain ps ds where ps: "note_text E (stealthed E u) st ts ?enc = Ok (marked ps)"
    "list_all (\<lambda>p. p \<noteq> [] \<and> no_x p) ps"
    "''0x'' @ ps ! 0 = ToBeHex (Some a)" "''0x'' @ ps ! 1 = Erc20TokenAddress u" "''0x'' @ ps ! 2 = st"
    "''0x'' @ ps ! 3 = ToBeHex (Some ts)" "''0x'' @ ps ! 4 = ToBeHex (Some x)" "''0x'' @ ps ! 5 = ToBeHex (Some y)"
    "7 \<le> length ps" "MintAddress u = [] \<Longrightarrow> length ps = 7"
    "MintAddress u \<noteq> [] \<Longrightarrow> 7 < length ps \<and> ps ! 7 = hex_EncodeToString ds \<and> length ds = 32 \<and> base58Encode S ds = MintAddress u"
    using u st(2) he by auto
  have "x25519Base S sk = Ok pk" using own(1) by (auto simp: EncryptionKeyPair_def Let_def rbind_Ok_iff)
  then have "DecryptSealedKeys S sealed pk sk 0 = Ok (string_bytes (marked ps))"
    using sealed_keys_roundtrip [OF laws key p, of 0 sk] t ps(1) r0 by simp
  then have plain: "rbind (DecryptSealedKeys S sealed pk sk 0) f = f (string_bytes (marked ps))" for f :: "byte list \<Rightarrow> utxo result"
    by simp
  have n: "ParseBigInt (''0x'' @ ps ! 0) = Ok a" "ParseBigInt (''0x'' @ ps ! 3) = Ok ts"
    "ParseBigInt (''0x'' @ ps ! 4) = Ok x" "ParseBigInt (''0x'' @ ps ! 5) = Ok y"
    using u by (simp_all only: ps(3,6,7,8) ParseBigInt_ToBeHex)
  let ?mint = "if length ps > 7 then (case hex_DecodeString (ps ! 7) of Inl _ \<Rightarrow> [] | Inr bs \<Rightarrow> if length bs = 32 then base58Encode S bs else []) else []"
  have mint: "?mint = MintAddress u" using ps(10,11) by (cases "MintAddress u = []") auto
  let ?p = "no_params\<lparr>pAmount := Some a, pErc20TokenAddress := Erc20TokenAddress u, pMintAddress := MintAddress u,
    pTimeStamp := int_String ts, pNullifyingKey := spk, pStealthAddress := st, pH0 := Some (x, y)\<rparr>"
  have d: "DecryptUtxo E S (Ok spk) sealed = decoded_note E ?p"
  proof -
    have "\<not> length ps < 7" using ps(9) by simp
    then show ?thesis
      by (simp only: DecryptUtxo_def rbind_simps own(1) prod.case plain bytes_string_bytes
        splitHexParts_marked [OF ps(2)] Let_def n mint ps(4,5) if_False)
  qed
  obtain v where v: "decoded_note E ?p = Ok v" and f: "Amount v = Some a" "Erc20TokenAddress v = Erc20TokenAddress u"
    "MintAddress v = MintAddress u" "StealthAddress v = st" "H0 v = Some (x, y)" "NullifyingKey v = spk"
    "TimeStamp v = int_String ts" "commitment v = []"
    by (auto simp: decoded_note_def NewUtxo_def no_params_def Let_def)
  have "st \<noteq> []" using st(2) by (auto simp: hex_text_def)
  then have "snd (GetCommitment E v) = snd (GetCommitment E u)"
    using f u by (intro commitment_from_fields [OF u(10) f(8) st(1) f(4)]) simp_all
  with d v f u show ?thesis by auto
qed

text \<open>An instance of the boxes: they add 48 bytes and hide nothing.\<close>

definition toy_hex :: primitives where
  "toy_hex = toy\<lparr>fromHex := (\<lambda>s. case hex_DecodeString (drop 2 s) of Inl _ \<Rightarrow> [] | Inr bs \<Rightarrow> bs)\<rparr>"

definition toy_sealing :: sealing where
  "toy_sealing = \<lparr>sha512 = (\<lambda>bs. replicate 64 7), x25519Base = (\<lambda>sk. Ok sk),
     sealAnonymous = (\<lambda>i m pk. Ok (replicate 48 0 @ m)), openAnonymous = (\<lambda>c pk sk. Some (drop 48 c)),
     secretboxSeal = (\<lambda>m n k. m), secretboxOpen = (\<lambda>c n k. Some c), base58Encode = bytes_string,
     addressHex = bytes_string, unpackOnChainUtxo = (\<lambda>bs. Err (External ''abi''))\<rparr>"

lemma toy_sealing_laws: "sealing_laws toy_hex toy_sealing"
  by (auto simp: sealing_laws_def toy_hex_def toy_sealing_def)

definition travelling_note :: utxo where
  "travelling_note = \<lparr>Amount = Some 10, Erc20TokenAddress = ''0x03'', MintAddress = [], TimeStamp = ''5'',
     NullifyingKey = [], SpendingPublicKey = None, H0 = Some (4, 8), StealthAddress = ''0x4e'',
     EncryptionKey = ''0x'' @ hex_EncodeToString (replicate 32 7), IsBlocked = False, commitment = [], nullifier = []\<rparr>"

lemma sealed_note_recovered_witness:
  "\<exists>sealed v. snd (EncryptUtxo toy_hex toy_sealing (Ok (replicate 32 1)) (Ok (replicate 24 2)) travelling_note) = Ok sealed \<and>
     DecryptUtxo toy_hex toy_sealing (Ok ''0x07'') sealed = Ok v \<and> Amount v = Some 10"
proof -
  have "case snd (EncryptUtxo toy_hex toy_sealing (Ok (replicate 32 1)) (Ok (replicate 24 2)) travelling_note) of
      Inl _ \<Rightarrow> False | Inr _ \<Rightarrow> True" by code_simp
  then obtain sealed where e: "snd (EncryptUtxo toy_hex toy_sealing (Ok (replicate 32 1)) (Ok (replicate 24 2)) travelling_note) = Ok sealed"
    by (auto split: sum.splits)
  have own: "EncryptionKeyPair toy_hex toy_sealing ''0x07'' = Ok (replicate 32 7, replicate 32 7)"
    "GetEncryptionKey toy_hex toy_sealing travelling_note = Ok (''0x'' @ hex_EncodeToString (replicate 32 7))"
    by (simp_all add: EncryptionKeyPair_def toy_sealing_def GetEncryptionKey_def travelling_note_def Let_def)
  have st: "snd (GetStealthAddress toy_hex travelling_note) = Ok ''0x4e''" "hex_text ''0x4e''" "hex_text (Erc20TokenAddress travelling_note)"
    by (simp_all add: GetStealthAddress_def travelling_note_def hex_text_def no_x_def)
  have ts: "ParseBigInt (TimeStamp travelling_note) = Ok 5" by code_simp
  have f: "Amount travelling_note = Some 10" "H0 travelling_note = Some (4, 8)" "commitment travelling_note = []"
    "mint_text toy_hex toy_sealing (MintAddress travelling_note)"
    by (simp_all add: travelling_note_def mint_text_def)
  show ?thesis
    using sealed_note_recovered [OF toy_sealing_laws _ _ e own st(1,2) f(1) _ f(2) _ _ ts _ st(3) f(4) f(3)] e f by auto
qed

text \<open>A note deposited openly on Solana is taken by exactly the wallets that can spend it: the encoding of
  nine 32-byte words is decoded into the note the words describe when the second point is the key's
  multiple of the first (its y coordinate is compared), and is refused otherwise.\<close>

theorem solana_onchain_note_owner:
  assumes hex: "\<forall>bs. fromHex E (''0x'' @ hex_EncodeToString bs) = bs"
    and rows: "EncodeSolanaOnChainUtxo rows = Ok encoded" and spk: "ParseBigInt spk = Ok k"
  defines "w \<equiv> \<lambda>i. SetBytes (rows ! i)"
  shows "(snd (jubMul E k (w 3, w 4)) \<noteq> w 6 \<longrightarrow>
      DecodeSolanaOnChainUtxo E S (Ok spk) encoded = Err (Errorf ''UTXO doesn't belong to user'')) \<and>
    (snd (jubMul E k (w 3, w 4)) = w 6 \<and> PoseidonBig E [w 1, w 2] = Ok tokenHash \<longrightarrow>
      (\<exists>v. DecodeSolanaOnChainUtxo E S (Ok spk) encoded = Ok v \<and> Amount v = Some (w 0) \<and>
         Erc20TokenAddress v = ToBeHex (Some tokenHash) \<and> NullifyingKey v = spk \<and>
         MintAddress v = base58Encode S (drop 16 (rows ! 1) @ drop 16 (rows ! 2)) \<and>
         H0 v = Some (w 3, w 4) \<and> StealthAddress v = ToBeHex (Some (w 7)) \<and> TimeStamp v = int_String (w 8)))"
proof -
  have l: "length rows = 9" "\<forall>r \<in> set rows. length r = 32"
    and e: "encoded = solanaOnChainUtxoPrefix @ ''0x'' @ hex_EncodeToString (concat rows)"
    using rows EncodeSolanaOnChainUtxo_Ok [of rows encoded] hex_concat by auto
  have data: "fromHex E (drop (length solanaOnChainUtxoPrefix) encoded) = concat rows"
    using hex by (simp add: e)
  have pre: "has_prefix encoded solanaOnChainUtxoPrefix" by (simp add: e has_prefix_def)
  have len: "length (concat rows) = 32 * 9" using concat_fixed_nth(2) [OF l(2), of 0] l(1) by simp
  have at: "take 32 (drop (i * 32) (concat rows)) = rows ! i" if "i < 9" for i
    using concat_fixed_nth(1) [OF l(2), of i "[]"] that l(1) by simp
  have sig: "checkUtxoSignature E (w 3) (w 4) (w 6) spk = Ok (snd (jubMul E k (w 3, w 4)) = w 6)"
    by (simp add: checkUtxoSignature_def VerifyStealthPair_def GetH1FromH0_def spk)
  have D: "DecodeSolanaOnChainUtxo E S (Ok spk) encoded =
      (if snd (jubMul E k (w 3, w 4)) \<noteq> w 6 then Err (Errorf ''UTXO doesn't belong to user'')
       else rbind (PoseidonBig E [w 1, w 2]) (\<lambda>tokenHash.
            decoded_note E (no_params\<lparr>pAmount := Some (w 0), pErc20TokenAddress := ToBeHex (Some tokenHash),
              pMintAddress := base58Encode S (drop 16 (rows ! 1) @ drop 16 (rows ! 2)),
              pTimeStamp := int_String (w 8), pNullifyingKey := spk,
              pStealthAddress := ToBeHex (Some (w 7)), pH0 := Some (w 3, w 4)\<rparr>)))"
    using sig by (simp only: DecodeSolanaOnChainUtxo_def Let_def data pre len at rbind_simps w_def) simp
  show ?thesis by (auto simp: D decoded_note_def NewUtxo_def no_params_def Let_def)
qed

lemma solana_onchain_note_owner_witness:
  "\<exists>encoded v. EncodeSolanaOnChainUtxo (replicate 9 (replicate 32 0)) = Ok encoded \<and>
     DecodeSolanaOnChainUtxo toy_hex toy_sealing (Ok ''0x07'') encoded = Ok v \<and> Amount v = Some 0"
proof -
  have h: "\<forall>bs. fromHex toy_hex (''0x'' @ hex_EncodeToString bs) = bs"
    using toy_sealing_laws by (simp add: sealing_laws_def)
  let ?rows = "replicate 9 (replicate 32 0) :: byte list list"
  obtain encoded where e: "EncodeSolanaOnChainUtxo ?rows = Ok encoded" by (simp add: EncodeSolanaOnChainUtxo_Ok)
  have k: "ParseBigInt ''0x07'' = Ok 7" by code_simp
  have z: "SetBytes (replicate 32 0) = 0" by code_simp
  have j: "jubMul toy_hex 7 (0, 0) = (0, 0)" by (simp add: toy_hex_def toy_def)
  obtain t where t: "PoseidonBig toy_hex [0, 0] = Ok t" by (simp add: PoseidonBig_def toy_hex_def toy_def)
  show ?thesis
    using solana_onchain_note_owner [OF h e k, of toy_sealing t] e z j t by (auto simp: nth_replicate)
qed

end
