(* ===== verification/Fees.thy ===== *)
theory Fees
  imports EnclaveTypes "HOL-Library.Signed_Division"
begin

text \<open>
  \<open>internal/functions/fees/fees.go\<close>, \<open>internal/functions/web3/ether.go\<close> and the token lookup of
  \<open>internal/functions/web3/erc20.go\<close>: what a transaction costs, and the amounts that leave a
  recipient with what was promised. A \<open>*big.Int\<close> that the code never leaves nil is an \<open>int\<close>; the
  token server is a parameter.
\<close>

section \<open>Division of math/big\<close>

text \<open>\<open>big.Int.Quo\<close> truncates towards zero and panics on a zero divisor; \<open>QuoRem\<close> also returns the
  remainder, which has the sign of the dividend.\<close>

definition Quo :: "int \<Rightarrow> int \<Rightarrow> int result" where
  "Quo x y = (if y = 0 then Err Panic else Ok (x sdiv y))"

definition QuoRem :: "int \<Rightarrow> int \<Rightarrow> (int \<times> int) result" where
  "QuoRem x y = (if y = 0 then Err Panic else Ok (x sdiv y, x smod y))"

section \<open>Tokens\<close>

record erc20_token =
  ChainID :: int
  TokenAddress :: string
  TokenName :: string
  Symbol :: string
  Decimals :: int
  IsVolatile :: bool
  BalanceStorageOffset :: "int option"
  AllowanceStorageOffset :: "int option"

text \<open>\<open>GetTokensInfo\<close> answers with one entry per address, nil where the token is unknown.\<close>

type_synonym token_server = "int \<Rightarrow> string list \<Rightarrow> erc20_token option list result"

definition GetErc20TokenFromAPI :: "token_server \<Rightarrow> int \<Rightarrow> string \<Rightarrow> erc20_token option result" where
  "GetErc20TokenFromAPI server chainID address =
     rbind (server chainID [address]) (\<lambda>tokens.
     case tokens of
       Some token # _ \<Rightarrow> Ok (Some (token\<lparr>ChainID := chainID\<rparr>))
     | _ \<Rightarrow> Ok None)"

definition ResolveERC20TokensStrict :: "token_server \<Rightarrow> int \<Rightarrow> string list \<Rightarrow> erc20_token list result" where
  "ResolveERC20TokensStrict server chainID addresses =
     (if addresses = [] then Ok []
      else rbind (server chainID addresses) (\<lambda>tokens.
           if length tokens \<noteq> length addresses then Err (Errorf ''web3: expected token records'')
           else rmap (\<lambda>t. case t of None \<Rightarrow> Err (Errorf ''web3: token not found'')
                                  | Some token \<Rightarrow> Ok (token\<lparr>ChainID := chainID\<rparr>)) tokens))"

definition ResolveERC20TokenStrict :: "token_server \<Rightarrow> int \<Rightarrow> string \<Rightarrow> erc20_token result" where
  "ResolveERC20TokenStrict server chainID address =
     rbind (ResolveERC20TokensStrict server chainID [address]) (\<lambda>tokens. index_at tokens 0)"

definition unknown_token :: "int \<Rightarrow> string \<Rightarrow> erc20_token" where
  "unknown_token chainID address =
     \<lparr>ChainID = chainID, TokenAddress = address, TokenName = [], Symbol = [], Decimals = 0,
      IsVolatile = False, BalanceStorageOffset = None, AllowanceStorageOffset = None\<rparr>"

definition ResolveERC20Tokens :: "token_server \<Rightarrow> int \<Rightarrow> string list \<Rightarrow> erc20_token list result" where
  "ResolveERC20Tokens server chainID addresses =
     (if addresses = [] then Ok []
      else rbind (server chainID addresses) (\<lambda>apiTokens.
           Ok (map (\<lambda>i. if i < length apiTokens \<and> apiTokens ! i \<noteq> None
                        then (the (apiTokens ! i))\<lparr>ChainID := chainID\<rparr>
                        else unknown_token chainID (addresses ! i)) [0 ..< length addresses])))"

section \<open>Token amounts\<close>

text \<open>
  \<open>Exp(10, n, nil)\<close> is 1 for a negative \<open>n\<close>. \<open>FormatUnits\<close> takes a natural number of decimals (a
  negative one makes the code panic).
\<close>

definition ten_to :: "int \<Rightarrow> int" where
  "ten_to n = (if n \<le> 0 then 1 else 10 ^ nat n)"

definition GetAmountInToken :: "erc20_token \<Rightarrow> int \<Rightarrow> string" where
  "GetAmountInToken token amount = FormatUnits (Some amount) (nat (Decimals token))"

definition DecimalsLimit :: string where
  "DecimalsLimit = ''number of decimals exceed maximum''"

definition parse_units18 :: "string \<Rightarrow> int result" where
  "parse_units18 amount = (case ParseUnits amount 18 of Inl _ \<Rightarrow> Err (Errorf DecimalsLimit) | Inr n \<Rightarrow> Ok n)"

definition GetAmountInWei :: "erc20_token \<Rightarrow> string \<Rightarrow> int result" where
  "GetAmountInWei token amount =
     rbind (parse_units18 amount) (\<lambda>parsed. Quo parsed (ten_to (18 - Decimals token)))"

definition GetAmountWithPrecision :: "int \<Rightarrow> erc20_token \<Rightarrow> nat \<Rightarrow> string result" where
  "GetAmountWithPrecision balance token precision =
     rbind (parse_units18 (FormatUnits (Some balance) (nat (Decimals token)))) (\<lambda>parsed.
     rbind (Quo parsed (ten_to (18 - int precision))) (\<lambda>precise.
     Ok (FormatUnits (Some precise) precision)))"

section \<open>Fees\<close>

definition BPSDenominator :: int where "BPSDenominator = 10000"

definition AssertSolanaFeeTokenMatchesMint :: "fee_structure \<Rightarrow> string \<Rightarrow> unit result" where
  "AssertSolanaFeeTokenMatchesMint fee mint =
     ensure (FeeToken fee = mint)
       (Errorf ''solana fee token mismatch: fee must be paid in the token being sent'')"

definition CalculateTotalFee :: "int \<Rightarrow> fee_structure \<Rightarrow> int" where
  "CalculateTotalFee amount fee = FlatFee fee + (amount * VariableRate fee) sdiv BPSDenominator"

text \<open>
  The prices are 64-bit floating point numbers. The code only multiplies, divides, scans and prints
  them; those operations of the processor and of \<open>strconv\<close> are the fields of one record over an
  uninterpreted type: \<open>FormatFloat\<close> prints with the format \<open>f\<close>, \<open>FormatShortest\<close> with \<open>g\<close> and precision -1.
\<close>

record 'f float64 =
  fzero :: 'f
  fmul :: "'f \<Rightarrow> 'f \<Rightarrow> 'f"
  fdiv :: "'f \<Rightarrow> 'f \<Rightarrow> 'f"
  fOfInt :: "int \<Rightarrow> 'f"
  ParseFloat :: "string \<Rightarrow> 'f result"
  FormatFloat :: "'f \<Rightarrow> int \<Rightarrow> string"
  FormatShortest :: "'f \<Rightarrow> string"

type_synonym 'f price_server = "int \<Rightarrow> string list \<Rightarrow> 'f list result"

definition tokenPricePair ::
    "'f float64 \<Rightarrow> 'f price_server \<Rightarrow> int \<Rightarrow> erc20_token \<Rightarrow> erc20_token \<Rightarrow> ('f \<times> 'f) result" where
  "tokenPricePair fl prices chainID amountToken feeToken =
     (if ChainID amountToken = chainID then
        rbind (prices chainID [TokenAddress amountToken, TokenAddress feeToken]) (\<lambda>ps.
        if length ps < 2 \<or> ps ! 0 = fzero fl \<or> ps ! 1 = fzero fl
        then Err (Errorf ''failed to get token prices'') else Ok (ps ! 0, ps ! 1))
      else
        rbind (prices (ChainID amountToken) [TokenAddress amountToken]) (\<lambda>as.
        rbind (prices chainID [TokenAddress feeToken]) (\<lambda>fs.
        if as = [] \<or> fs = [] \<or> as ! 0 = fzero fl \<or> fs ! 0 = fzero fl
        then Err (Errorf ''failed to get token prices'') else Ok (as ! 0, fs ! 0))))"

definition crossTokenVariableFee ::
    "'f float64 \<Rightarrow> 'f price_server \<Rightarrow> int \<Rightarrow> erc20_token \<Rightarrow> int \<Rightarrow> fee_structure \<Rightarrow> erc20_token \<Rightarrow> int result" where
  "crossTokenVariableFee fl prices chainID amountToken amount fee feeToken =
     rbind (tokenPricePair fl prices chainID amountToken feeToken) (\<lambda>(amountTokenPrice, feeTokenPrice).
     rbind (ParseFloat fl (GetAmountInToken amountToken amount)) (\<lambda>amountInToken.
     let amountValueUsd = fmul fl amountInToken amountTokenPrice;
         variableFeeUsd = fdiv fl (fmul fl amountValueUsd (fOfInt fl (VariableRate fee)))
                            (fOfInt fl BPSDenominator)
     in GetAmountInWei feeToken (FormatFloat fl (fdiv fl variableFeeUsd feeTokenPrice) (Decimals feeToken))))"

definition CalculateModifiedFeeStructure ::
    "'f float64 \<Rightarrow> token_server \<Rightarrow> 'f price_server \<Rightarrow> int \<Rightarrow> erc20_token \<Rightarrow> int \<Rightarrow> fee_structure \<Rightarrow> fee_structure" where
  "CalculateModifiedFeeStructure fl server prices chainID amountToken amount fee =
     (let feeToken = (case GetErc20TokenFromAPI server chainID (FeeToken fee) of
                        Inl _ \<Rightarrow> None | Inr t \<Rightarrow> t);
          totalFee =
            (case feeToken of
               None \<Rightarrow> CalculateTotalFee amount fee
             | Some t \<Rightarrow>
                 if EqualFold (FeeToken fee) (TokenAddress amountToken) \<or> VariableRate fee = 0
                 then CalculateTotalFee amount fee
                 else FlatFee fee
                      + (case crossTokenVariableFee fl prices chainID amountToken amount fee t of
                           Inl _ \<Rightarrow> 0 | Inr vf \<Rightarrow> vf))
      in \<lparr>FeeToken = FeeToken fee, FlatFee = totalFee, VariableRate = 0\<rparr>)"

text \<open>The goroutines write disjoint entries of one slice, so they are evaluated in order; a missing or
  nil amount counts as zero.\<close>

definition CalculateModifiedFeeStructureForTokens ::
    "'f float64 \<Rightarrow> token_server \<Rightarrow> 'f price_server \<Rightarrow> int \<Rightarrow> erc20_token list \<Rightarrow> int option list \<Rightarrow>
     fee_structure \<Rightarrow> fee_structure" where
  "CalculateModifiedFeeStructureForTokens fl server prices chainID amountTokens amounts fee =
     (let variableOnly = fee\<lparr>FlatFee := 0\<rparr>;
          amountAt = (\<lambda>i. if i < length amounts
                          then (case amounts ! i of None \<Rightarrow> 0 | Some a \<Rightarrow> a) else 0);
          variableFees = map (\<lambda>i. CalculateModifiedFeeStructure fl server prices chainID
                                    (amountTokens ! i) (amountAt i) variableOnly)
                           [0 ..< length amountTokens]
      in \<lparr>FeeToken = FeeToken fee,
          FlatFee = foldl (\<lambda>acc vf. acc + FlatFee vf) (FlatFee fee) variableFees,
          VariableRate = 0\<rparr>)"

definition CalculateWithdrawalAmount :: "int \<Rightarrow> fee_structure \<Rightarrow> int result" where
  "CalculateWithdrawalAmount amountWithFee fee =
     (let positiveAmountWithFee = - amountWithFee in
      if VariableRate fee = 0 then Ok (positiveAmountWithFee - FlatFee fee)
      else Quo ((positiveAmountWithFee - FlatFee fee) * BPSDenominator)
               (BPSDenominator + VariableRate fee))"

definition CalculateGrossAmountWithFee :: "int \<Rightarrow> fee_structure \<Rightarrow> int result" where
  "CalculateGrossAmountWithFee netAmount fee =
     (if VariableRate fee = 0 then Ok (netAmount + FlatFee fee)
      else
        let numerator = (netAmount + FlatFee fee) * BPSDenominator;
            denominator = BPSDenominator - VariableRate fee
        in Quo (numerator + (denominator - 1)) denominator)"

definition divideRoundingUp :: "int \<Rightarrow> int \<Rightarrow> int result" where
  "divideRoundingUp dividend divisor =
     rbind (QuoRem dividend divisor) (\<lambda>(quotient, remainder).
     Ok (if remainder \<noteq> 0 then quotient + 1 else quotient))"

definition CalculateVariableFeeGrossUp :: "int \<Rightarrow> int \<Rightarrow> int result" where
  "CalculateVariableFeeGrossUp netAmount variableRate =
     (if netAmount \<le> 0 \<or> variableRate \<le> 0 then Ok 0
      else divideRoundingUp (netAmount * variableRate) (BPSDenominator - variableRate))"

definition CalculateGrossUtxoAmounts :: "int list \<Rightarrow> fee_structure \<Rightarrow> (int list \<times> int) result" where
  "CalculateGrossUtxoAmounts recipientAmounts fee =
     rfold (\<lambda>(utxoAmounts, totalAmount) amount.
        rbind (CalculateVariableFeeGrossUp amount (VariableRate fee)) (\<lambda>grossUp.
        let a = amount + grossUp + FlatFee fee
        in Ok (utxoAmounts @ [a], totalAmount + a))) ([], 0) recipientAmounts"

section \<open>Gas tokens\<close>

definition SolanaNativeAddress :: string where
  "SolanaNativeAddress = ''11111111111111111111111111111111''"

definition IsTempo :: "int \<Rightarrow> bool" where
  "IsTempo chainID = (chainID = 4217)"

definition ExtendedNonNativeGasCostTokenSymbolOptions :: "string list" where
  "ExtendedNonNativeGasCostTokenSymbolOptions = [''USDC'', ''USDT'', ''DAI'']"

definition TempoGasCostTokenSymbolOptions :: "string list" where
  "TempoGasCostTokenSymbolOptions = [''pathUSD'', ''USDT0'', ''USDC.e'']"

definition NonNativeGasCostTokenSymbolOptions :: "int \<Rightarrow> string list" where
  "NonNativeGasCostTokenSymbolOptions chainID =
     (if IsTronLike chainID then [''USDT'']
      else if IsTempo chainID then TempoGasCostTokenSymbolOptions
      else ExtendedNonNativeGasCostTokenSymbolOptions)"

definition GetGasTokenSymbols :: "token_server \<Rightarrow> int \<Rightarrow> string list result" where
  "GetGasTokenSymbols server chainID =
     (if chainID = 0 then Ok ExtendedNonNativeGasCostTokenSymbolOptions
      else
        let nativeTokenAddress = (if IsSolanaLike chainID then SolanaNativeAddress else ZeroAddress)
        in rbind (GetErc20TokenFromAPI server chainID nativeTokenAddress) (\<lambda>nativeToken.
           let symbol = (case nativeToken of None \<Rightarrow> [] | Some t \<Rightarrow> Symbol t);
               options = NonNativeGasCostTokenSymbolOptions chainID
           in if IsSolanaLike chainID \<and> symbol \<noteq> [] then Ok [symbol]
              else if symbol \<noteq> [] \<and> symbol \<notin> set options then Ok (symbol # options)
              else Ok options))"


section \<open>Lemmas\<close>

lemma sdiv_nonneg: "0 \<le> x \<Longrightarrow> 0 < y \<Longrightarrow> x sdiv y = (x :: int) div y"
  by (cases "x = 0") (simp_all add: signed_divide_int_def)

lemma smod_nonneg: "0 \<le> x \<Longrightarrow> 0 < y \<Longrightarrow> x smod y = (x :: int) mod y"
  by (cases "x = 0") (simp_all add: signed_modulo_int_def)

lemma Quo_nonneg: "0 \<le> x \<Longrightarrow> 0 < y \<Longrightarrow> Quo x y = Ok (x div y)"
  by (simp add: Quo_def sdiv_nonneg)

text \<open>The gross amount is the rounded-up quotient; the on-chain cut rounds down.\<close>

lemma gross_covers:
  fixes r D n g :: int
  assumes "0 \<le> r" "r < D" "n * D \<le> g * (D - r)" "g * (D - r) < n * D + (D - r)"
  shows "n \<le> g - (g * r) div D \<and> g - (g * r) div D \<le> n + 1"
proof -
  have D: "0 < D" using assms by simp
  have "(g * r) div D \<le> g - n"
  proof -
    have "g * r \<le> (g - n) * D" using assms(3) by (simp add: algebra_simps)
    then have "(g * r) div D \<le> ((g - n) * D) div D" using D by (intro zdiv_mono1)
    then show ?thesis using D by simp
  qed
  moreover have "g - n - 1 \<le> (g * r) div D"
  proof -
    have "(g - n - 1) * D \<le> g * r" using assms(1,4) by (simp add: algebra_simps)
    then have "((g - n - 1) * D) div D \<le> (g * r) div D" using D by (intro zdiv_mono1)
    then show ?thesis using D by simp
  qed
  ultimately show ?thesis by simp
qed

lemma divideRoundingUp_nonneg:
  assumes "0 \<le> x" "0 < y"
  obtains q where "divideRoundingUp x y = Ok q" "x \<le> q * y" "q * y < x + y" "0 \<le> q"
proof
  let ?q = "x div y + (if x mod y \<noteq> 0 then 1 else 0)"
  show "divideRoundingUp x y = Ok ?q"
    using assms by (simp add: divideRoundingUp_def QuoRem_def sdiv_nonneg smod_nonneg)
  have e: "x = x div y * y + x mod y" by simp
  have m: "0 \<le> x mod y" "x mod y < y" using assms by auto
  have q: "?q * y = x div y * y + (if x mod y \<noteq> 0 then y else 0)" by (simp add: distrib_right)
  show "x \<le> ?q * y" "?q * y < x + y" unfolding q using e m assms(2) by (cases "x mod y = 0"; simp; linarith)+
  show "0 \<le> ?q" using assms by (auto simp: pos_imp_zdiv_nonneg_iff)
qed

definition on_chain_cut :: "int \<Rightarrow> int \<Rightarrow> int" where
  "on_chain_cut gross rate = (gross * rate) div BPSDenominator"

lemma gross_up_covers:
  assumes "0 \<le> n" "0 \<le> r" "r < BPSDenominator"
  obtains g where "CalculateVariableFeeGrossUp n r = Ok g" "0 \<le> g"
    "n \<le> (n + g) - on_chain_cut (n + g) r" "(n + g) - on_chain_cut (n + g) r \<le> n + 1"
proof (cases "n \<le> 0 \<or> r \<le> 0")
  case True
  then have "on_chain_cut n r = 0" using assms by (auto simp: on_chain_cut_def)
  with True show ?thesis using assms by (intro that [of 0]) (auto simp: CalculateVariableFeeGrossUp_def)
next
  case False
  let ?D = BPSDenominator
  have p: "0 \<le> n * r" "0 < ?D - r" using assms by auto
  obtain q where q: "divideRoundingUp (n * r) (?D - r) = Ok q" "n * r \<le> q * (?D - r)"
    "q * (?D - r) < n * r + (?D - r)" "0 \<le> q"
    using divideRoundingUp_nonneg [OF p] by blast
  have "n * ?D \<le> (n + q) * (?D - r)" "(n + q) * (?D - r) < n * ?D + (?D - r)"
    using q by (simp_all add: algebra_simps)
  from gross_covers [OF assms(2,3) this] False q show ?thesis
    by (intro that [of q]) (auto simp: CalculateVariableFeeGrossUp_def on_chain_cut_def)
qed

text \<open>The batch runs the single computation on every amount.\<close>

lemma gross_utxo_fold:
  assumes "\<And>a. a \<in> set amounts \<Longrightarrow> CalculateVariableFeeGrossUp a (VariableRate fee) = Ok (g a)"
  shows "rfold (\<lambda>(utxoAmounts, totalAmount) amount.
        rbind (CalculateVariableFeeGrossUp amount (VariableRate fee)) (\<lambda>grossUp.
        let a = amount + grossUp + FlatFee fee
        in Ok (utxoAmounts @ [a], totalAmount + a))) (us, t) amounts
    = Ok (us @ map (\<lambda>a. a + g a + FlatFee fee) amounts, t + (\<Sum>a\<leftarrow>amounts. a + g a + FlatFee fee))"
  using assms by (induction amounts arbitrary: us t) (auto simp: Let_def)

section \<open>Properties\<close>

text \<open>The amounts deposited for a batch of recipients cover what each of them was promised: after
  the flat fee and the contract's percentage cut (rounded down) are taken from a deposit, its
  recipient is left with the requested amount, at most one base unit more, and the total the caller
  is charged is the sum of the deposits.\<close>

theorem gross_amounts_cover_recipients:
  assumes "\<forall>a \<in> set amounts. 0 \<le> a" "0 \<le> VariableRate fee" "VariableRate fee < BPSDenominator"
  shows "\<exists>deposits. CalculateGrossUtxoAmounts amounts fee = Ok (deposits, sum_list deposits) \<and>
    list_all2 (\<lambda>a d. let gross = d - FlatFee fee; received = gross - on_chain_cut gross (VariableRate fee)
                    in a \<le> received \<and> received \<le> a + 1) amounts deposits"
proof -
  have "\<forall>a \<in> set amounts. \<exists>g. CalculateVariableFeeGrossUp a (VariableRate fee) = Ok g \<and>
      a \<le> (a + g) - on_chain_cut (a + g) (VariableRate fee) \<and>
      (a + g) - on_chain_cut (a + g) (VariableRate fee) \<le> a + 1"
  proof
    fix a assume "a \<in> set amounts"
    then have "0 \<le> a" using assms(1) by blast
    from gross_up_covers [OF this assms(2,3)] show "\<exists>g. CalculateVariableFeeGrossUp a (VariableRate fee) = Ok g \<and>
      a \<le> (a + g) - on_chain_cut (a + g) (VariableRate fee) \<and>
      (a + g) - on_chain_cut (a + g) (VariableRate fee) \<le> a + 1" by metis
  qed
  then obtain g where g: "\<forall>a \<in> set amounts. CalculateVariableFeeGrossUp a (VariableRate fee) = Ok (g a) \<and>
      a \<le> (a + g a) - on_chain_cut (a + g a) (VariableRate fee) \<and>
      (a + g a) - on_chain_cut (a + g a) (VariableRate fee) \<le> a + 1" using bchoice by metis
  have "CalculateGrossUtxoAmounts amounts fee
      = Ok (map (\<lambda>a. a + g a + FlatFee fee) amounts, (\<Sum>a\<leftarrow>amounts. a + g a + FlatFee fee))"
    using gross_utxo_fold [of amounts fee g "[]" 0] g by (simp add: CalculateGrossUtxoAmounts_def)
  then show ?thesis using g
    by (intro exI [of _ "map (\<lambda>a. a + g a + FlatFee fee) amounts"])
       (auto simp: list_all2_map2 list_all2_same Let_def)
qed

lemma gross_amounts_cover_recipients_witness:
  "\<exists>deposits. CalculateGrossUtxoAmounts [1000, 0] \<lparr>FeeToken = [], FlatFee = 7, VariableRate = 25\<rparr>
     = Ok (deposits, sum_list deposits)"
  using gross_amounts_cover_recipients [of "[1000, 0]" "\<lparr>FeeToken = [], FlatFee = 7, VariableRate = 25\<rparr>"]
  by (auto simp: BPSDenominator_def)

text \<open>A withdrawal and its fee never exceed what the notes lose, and waste at most two base units:
  the amount computed from a balance change, plus the total fee on that amount, is at most the change.\<close>

theorem withdrawal_and_fee_fit:
  assumes "FlatFee fee \<le> - change" "0 \<le> VariableRate fee" "VariableRate fee \<le> BPSDenominator"
  shows "\<exists>w. CalculateWithdrawalAmount change fee = Ok w \<and> 0 \<le> w \<and>
    w + CalculateTotalFee w fee \<le> - change \<and> - change - 2 \<le> w + CalculateTotalFee w fee"
proof (cases "VariableRate fee = 0")
  case True
  then show ?thesis using assms by (simp add: CalculateWithdrawalAmount_def CalculateTotalFee_def)
next
  case False
  let ?D = BPSDenominator and ?r = "VariableRate fee"
  define x where "x = - change - FlatFee fee"
  define w where "w = (x * ?D) div (?D + ?r)"
  have D: "0 < ?D" by (simp add: BPSDenominator_def)
  have x: "0 \<le> x" using assms(1) by (simp add: x_def)
  have W: "CalculateWithdrawalAmount change fee = Ok w"
    using False assms D x by (simp add: CalculateWithdrawalAmount_def Let_def Quo_nonneg w_def x_def)
  have w0: "0 \<le> w" using x D assms by (simp add: w_def pos_imp_zdiv_nonneg_iff)
  have e: "x * ?D = w * (?D + ?r) + (x * ?D) mod (?D + ?r)"
    unfolding w_def by (rule div_mult_mod_eq [symmetric])
  have m: "0 \<le> (x * ?D) mod (?D + ?r)" "(x * ?D) mod (?D + ?r) < ?D + ?r" using D assms by simp_all
  have up: "w * (?D + ?r) \<le> x * ?D" using e m by simp
  have lo: "x * ?D < (w + 1) * (?D + ?r)" using e m by (simp add: distrib_right)
  have T: "CalculateTotalFee w fee = FlatFee fee + (w * ?r) div ?D"
    using w0 assms(2) D by (simp add: CalculateTotalFee_def sdiv_nonneg)
  have "(w * ?r) div ?D \<le> x - w"
  proof -
    have "w * ?r \<le> (x - w) * ?D" using up by (simp add: algebra_simps)
    then have "(w * ?r) div ?D \<le> ((x - w) * ?D) div ?D" using D by (intro zdiv_mono1)
    then show ?thesis using D by simp
  qed
  moreover have "x - w - 2 \<le> (w * ?r) div ?D"
  proof -
    have "(x - w - 2) * ?D \<le> w * ?r" using lo assms(3) by (simp add: algebra_simps)
    then have "((x - w - 2) * ?D) div ?D \<le> (w * ?r) div ?D" using D by (intro zdiv_mono1)
    then show ?thesis using D by simp
  qed
  ultimately show ?thesis using W w0 T by (simp add: x_def)
qed

lemma withdrawal_and_fee_fit_witness:
  "\<exists>w. CalculateWithdrawalAmount (-1000) \<lparr>FeeToken = [], FlatFee = 7, VariableRate = 25\<rparr> = Ok w \<and> 0 \<le> w"
  using withdrawal_and_fee_fit [of "\<lparr>FeeToken = [], FlatFee = 7, VariableRate = 25\<rparr>" "-1000"]
  by (auto simp: BPSDenominator_def)

text \<open>An amount printed for the user and read back is unchanged for every token of at most 18
  decimals. For a token with more decimals \<open>GetAmountInWei\<close> still reads the text as a number of
  \<open>10 ^ 18\<close>ths: the result is too small by the factor \<open>10 ^ (decimals - 18)\<close>.\<close>

theorem token_amount_roundtrip:
  assumes "0 \<le> Decimals t"
  shows "if Decimals t \<le> 18 then GetAmountInWei t (GetAmountInToken t v) = Ok v
    else GetAmountInWei t (GetAmountInToken t (v * 10 ^ nat (Decimals t))) = Ok (v * 10 ^ 18)"
proof (cases "Decimals t \<le> 18")
  case True
  define k where "k = nat (18 - Decimals t)"
  have k: "18 - nat (Decimals t) = k" "nat (Decimals t) \<le> 18" using True assms by (simp_all add: k_def nat_diff_distrib)
  have t: "ten_to (18 - Decimals t) = 10 ^ k" using True by (simp add: ten_to_def k_def)
  have "Quo (v * 10 ^ k) (10 ^ k) = Ok v"
    by (simp add: Quo_def signed_divide_int_def sgn_mult abs_mult sgn_mult_abs)
  then show ?thesis
    using True k by (simp add: GetAmountInWei_def parse_units18_def GetAmountInToken_def units_rescaled t)
next
  case False
  define d where "d = nat (Decimals t)"
  have "0 < d" using False by (simp add: d_def)
  then have "ParseUnits (FormatUnits (Some (v * 10 ^ d)) d) 18 = Ok (v * 10 ^ 18)"
    by (rule whole_units_rescaled) simp
  then show ?thesis
    using False by (simp add: GetAmountInWei_def parse_units18_def GetAmountInToken_def d_def Quo_def
      ten_to_def signed_divide_int_def sgn_mult_abs)
qed

lemma token_amount_roundtrip_witness:
  "GetAmountInWei ((unknown_token 1 [])\<lparr>Decimals := 24\<rparr>) (GetAmountInToken ((unknown_token 1 [])\<lparr>Decimals := 24\<rparr>) (10 ^ 24))
   = Ok (10 ^ 18)"
  using token_amount_roundtrip [of "(unknown_token 1 [])\<lparr>Decimals := 24\<rparr>" 1] by (simp add: unknown_token_def)

end
