(* ===== verification/Balances.thy ===== *)
theory Balances
  imports CacheDevice SealedNotes Fees EnclaveSolana
begin

text \<open>
  \<open>internal/functions/balance\<close>: which notes a wallet can spend. The encrypted outputs of the chain are
  decoded with the wallet's keys, incrementally through the cache device; spent, blocked and identity
  notes are dropped; the rest is grouped by token, sorted and padded with zero notes to the width of a
  circuit. The wallet's provider, the scheduled-transactions server, the clock and the entropy source
  are parameters.
\<close>

section \<open>Decoding outputs\<close>

text \<open>\<open>spk\<close> is the outcome of \<open>uk.GetShieldedPrivateKey()\<close>, which the key caches after the first call.\<close>

definition decodeOutput :: "primitives \<Rightarrow> sealing \<Rightarrow> int \<Rightarrow> string result \<Rightarrow> enc_output \<Rightarrow> utxo result" where
  "decodeOutput E S chainID spk out =
     (if isPositive out then DecryptUtxoHex E S spk (outValue out)
      else DecodeUtxo E S chainID spk (outValue out))"

definition decoded_outputs :: "primitives \<Rightarrow> sealing \<Rightarrow> int \<Rightarrow> string result \<Rightarrow> enc_output \<Rightarrow> utxo list" where
  "decoded_outputs E S chainID spk out =
     (case decodeOutput E S chainID spk out of Inl _ \<Rightarrow> [] | Inr u \<Rightarrow> [u\<lparr>IsBlocked := isBlocked out\<rparr>])"

definition DecodeOutputs :: "primitives \<Rightarrow> sealing \<Rightarrow> int \<Rightarrow> string result \<Rightarrow> enc_output list \<Rightarrow> utxo list" where
  "DecodeOutputs E S chainID spk outs = concat (map (decoded_outputs E S chainID spk) outs)"

section \<open>balance.go\<close>

record balance_result =
  ResBalances :: "(string, int) gomap"
  ResUtxos :: "utxo list"

definition balanceTokenKey :: "primitives \<Rightarrow> sealing \<Rightarrow> int \<Rightarrow> utxo \<Rightarrow> string result" where
  "balanceTokenKey E S chainID u =
     (if IsSolanaLike chainID \<or> IsTronLike chainID then GetTokenAddress (IsSolanaLike chainID) u
      else Ok (addressHex S (hexToAddress E (Erc20TokenAddress u))))"

text \<open>One pass of the loop of \<open>Compute\<close>. Adding a nil amount would panic.\<close>

definition compute_step ::
    "primitives \<Rightarrow> sealing \<Rightarrow> int \<Rightarrow> string result \<Rightarrow> string list \<Rightarrow> balance_result \<Rightarrow> enc_output \<Rightarrow> balance_result result" where
  "compute_step E S chainID spk nullifiers res out =
     (case decodeOutput E S chainID spk out of
        Inl _ \<Rightarrow> Ok res
      | Inr u0 \<Rightarrow>
          (let u1 = u0\<lparr>IsBlocked := isBlocked out\<rparr> in
           case GetNullifier E u1 of
             (_, Inl _) \<Rightarrow> Ok res
           | (u, Inr nul) \<Rightarrow>
               if nul \<in> set nullifiers then Ok res
               else if IsBlocked u then Ok res
               else
                 (case balanceTokenKey E S chainID u of
                    Inl _ \<Rightarrow> Ok res
                  | Inr token \<Rightarrow>
                      (case Amount u of
                         None \<Rightarrow> Err Panic
                       | Some a \<Rightarrow>
                           let old = (case mget (ResBalances res) token of None \<Rightarrow> 0 | Some b \<Rightarrow> b)
                           in Ok \<lparr>ResBalances = mput token (old + a) (ResBalances res),
                                  ResUtxos = ResUtxos res @ [u]\<rparr>))))"

definition Compute ::
    "primitives \<Rightarrow> sealing \<Rightarrow> int \<Rightarrow> string result \<Rightarrow> string list \<Rightarrow> enc_output list \<Rightarrow> balance_result result" where
  "Compute E S chainID spk nullifiers outs =
     rfold (compute_step E S chainID spk nullifiers) \<lparr>ResBalances = [], ResUtxos = []\<rparr> outs"

section \<open>input_utxos.go: the wallet's notes\<close>

text \<open>
  What one run sees of its surroundings: the JSON codec; the outcome of the \<open>i\<close>th call of
  \<open>GetEthereumAddress\<close>; whether the \<open>i\<close>th write of the cache file succeeds; the number of processors
  and the order in which the scheduler lets the goroutines process the outputs.
\<close>

record balance_env =
  codec :: cache_codec
  addressAt :: "nat \<Rightarrow> string result"
  writeOk :: "nat \<Rightarrow> bool"
  numCPU :: nat
  schedule :: "nat list \<Rightarrow> nat list"

record wallet =
  keys :: user_keys
  hinkalAddress :: string
  chainOutputs :: "enc_output list"
  chainNullifiers :: "string list"
  updatesDisabled :: bool

record input_params =
  PassedShieldedPublicKey :: string
  EthAddress :: string
  ResetCacheBefore :: bool
  UseBlockedUtxos :: bool

definition error_text :: "go_error \<Rightarrow> string" where
  "error_text err = (case err of Errorf s \<Rightarrow> s | External s \<Rightarrow> s | CannotParse s \<Rightarrow> s | _ \<Rightarrow> [])"

definition errProviderAdapterNotInitializedText :: string where
  "errProviderAdapterNotInitializedText = ''ProviderAdapter is not initialized''"

definition ErrCodeChainAddressChanged :: string where
  "ErrCodeChainAddressChanged = ''Chain/address changed: balance updated canceled''"

definition checkAddressNotUpdated :: "string result \<Rightarrow> string \<Rightarrow> unit result" where
  "checkAddressNotUpdated current oldEthAddress =
     (case current of
        Inl err \<Rightarrow> if error_text err = errProviderAdapterNotInitializedText then Ok () else Err err
      | Inr newEthAddress \<Rightarrow> ensure (EqualFold newEthAddress oldEthAddress) (Errorf ErrCodeChainAddressChanged))"

definition isIdentityPoint :: "jub_point option \<Rightarrow> bool" where
  "isIdentityPoint h0 = (h0 = Some (0, 1))"

definition filterSpentUtxos :: "primitives \<Rightarrow> string list \<Rightarrow> utxo list \<Rightarrow> utxo list" where
  "filterSpentUtxos E nullifiers us =
     concat (map (\<lambda>u. case GetNullifier E u of
        (_, Inl _) \<Rightarrow> []
      | (u1, Inr nul) \<Rightarrow> if nul \<in> set nullifiers then [] else [u1]) us)"

fun index_of_output :: "nat \<Rightarrow> enc_output list \<Rightarrow> string \<Rightarrow> int" where
  "index_of_output i [] v = -1"
| "index_of_output i (out # outs) v = (if outValue out = v then int i else index_of_output (Suc i) outs v)"

definition indexOfOutput :: "enc_output list \<Rightarrow> string \<Rightarrow> int" where
  "indexOfOutput outs v = index_of_output 0 outs v"

definition parallelDecryptThreshold :: nat where "parallelDecryptThreshold = 256"

text \<open>The index ranges of the workers: \<open>chunk\<close> indices each, the last one shorter.\<close>

definition worker_ranges :: "nat \<Rightarrow> nat \<Rightarrow> (nat \<times> nat) list" where
  "worker_ranges n cpus =
     (let workers = min cpus n;
          chunk = (n + workers - 1) div workers
      in map (\<lambda>w. (w * chunk, min (w * chunk + chunk) n)) (takeWhile (\<lambda>w. w * chunk < n) [0 ..< workers]))"

definition worker_indices :: "nat \<Rightarrow> nat \<Rightarrow> nat list" where
  "worker_indices n cpus = concat (map (\<lambda>(a, b). [a ..< b]) (worker_ranges n cpus))"

text \<open>Every processed index sets its own flag when the output decodes.\<close>

definition set_flags :: "(enc_output \<Rightarrow> bool) \<Rightarrow> enc_output list \<Rightarrow> nat list \<Rightarrow> bool list" where
  "set_flags ok outs order =
     foldl (\<lambda>flags i. if ok (outs ! i) then flags[i := True] else flags) (replicate (length outs) False) order"

definition filterOwnedOutputs ::
    "primitives \<Rightarrow> sealing \<Rightarrow> balance_env \<Rightarrow> int \<Rightarrow> string result \<Rightarrow> enc_output list \<Rightarrow> enc_output list result" where
  "filterOwnedOutputs E S env chainID spk outs =
     rbind spk (\<lambda>_.
     let ok = (\<lambda>out. case decodeOutput E S chainID spk out of Inl _ \<Rightarrow> False | Inr _ \<Rightarrow> True);
         order = (if length outs < parallelDecryptThreshold then [0 ..< length outs]
                  else schedule env (worker_indices (length outs) (numCPU env)));
         flags = set_flags ok outs order
     in Ok (map fst (filter snd (zip outs flags))))"

definition getInputUtxosLocally ::
    "primitives \<Rightarrow> sealing \<Rightarrow> balance_env \<Rightarrow> wallet \<Rightarrow> cache_device \<Rightarrow> int \<Rightarrow> string \<Rightarrow> string \<Rightarrow>
     hinkal_cache \<Rightarrow> int \<Rightarrow> cache_device \<times> utxo list result" where
  "getInputUtxosLocally E S env w d chainID ethereumAddress pub entry lastOutputIndex0 =
     (let spk = snd (GetShieldedPrivateKey E (keys w));
          outs = chainOutputs w;
          lastOutputIndex = nat (lastOutputIndex0 + 1);
          outputsSlice = (if lastOutputIndex < length outs then drop lastOutputIndex outs else [])
      in case rbind (filterOwnedOutputs E S env chainID spk outputsSlice) (\<lambda>additional.
              let lastOutputNew = (if outs \<noteq> [] then outValue (last outs) else LastOutput entry);
                  newOutputs = cachedOutputs entry @ additional
              in rbind (checkAddressNotUpdated (addressAt env 2) ethereumAddress) (\<lambda>_.
                 rbind (SetHinkalCache (codec env) (writeOk env 1)
                          \<lparr>cachedOutputs = newOutputs, LastOutput = lastOutputNew\<rparr> d (hinkalAddress w) chainID pub) (\<lambda>d'.
                 Ok (d', DecodeOutputs E S chainID spk newOutputs)))) of
           Inl err \<Rightarrow> (d, Err err)
         | Inr (d', us) \<Rightarrow> (d', Ok us))"

definition spendable :: "bool \<Rightarrow> utxo \<Rightarrow> bool" where
  "spendable useBlocked u \<longleftrightarrow> IsBlocked u = useBlocked \<and> \<not> isIdentityPoint (H0 u)"

definition orElse :: "string \<Rightarrow> string result \<Rightarrow> string result" where
  "orElse given other = (if given = [] then other else Ok given)"

definition load_cached :: "balance_env \<Rightarrow> wallet \<Rightarrow> cache_device \<Rightarrow> int \<Rightarrow> string \<Rightarrow> bool \<Rightarrow>
    cache_device \<times> hinkal_cache result" where
  "load_cached env w d0 chainID pub reset =
     (case (if reset then ResetCache (codec env) (writeOk env 0) d0 (hinkalAddress w) chainID pub else Ok d0) of
        Inl err \<Rightarrow> (d0, Err err)
      | Inr d \<Rightarrow> (d, GetHinkalCache (codec env) d (hinkalAddress w) chainID pub))"

definition GetInputUtxoAndBalance ::
    "primitives \<Rightarrow> sealing \<Rightarrow> balance_env \<Rightarrow> wallet \<Rightarrow> cache_device \<Rightarrow> int \<Rightarrow> input_params \<Rightarrow>
     cache_device \<times> utxo list result" where
  "GetInputUtxoAndBalance E S env w d0 chainID p =
     (case rbind (orElse (EthAddress p) (addressAt env 0)) (\<lambda>eth.
           rbind (orElse (PassedShieldedPublicKey p) (snd (GetShieldedPublicKey E (keys w)))) (\<lambda>pub. Ok (eth, pub))) of
        Inl err \<Rightarrow> (d0, Err err)
      | Inr (eth, pub) \<Rightarrow>
          (case load_cached env w d0 chainID pub (ResetCacheBefore p) of
             (d, Inl err) \<Rightarrow> (d, Err err)
           | (d, Inr entry) \<Rightarrow>
               (case checkAddressNotUpdated (addressAt env 1) eth of
                  Inl err \<Rightarrow> (d, Err err)
                | Inr _ \<Rightarrow>
                    (let lastOutputExist = (LastOutput entry \<noteq> []);
                         lastOutputIndex = indexOfOutput (chainOutputs w) (LastOutput entry);
                         case1 = (lastOutputIndex > -1);
                         case2 = (\<not> lastOutputExist \<and> lastOutputIndex = -1);
                         decryptLocally = (\<not> updatesDisabled w \<and> (case1 \<or> case2));
                         spk = snd (GetShieldedPrivateKey E (keys w));
                         (d', all) = (if decryptLocally
                                      then getInputUtxosLocally E S env w d chainID eth pub entry lastOutputIndex
                                      else (d, Ok (DecodeOutputs E S chainID spk (cachedOutputs entry))))
                     in (d', rbind all (\<lambda>us.
                             rbind (checkAddressNotUpdated (addressAt env 3) eth) (\<lambda>_.
                             Ok (filter (spendable (UseBlockedUtxos p))
                                   (filterSpentUtxos E (chainNullifiers w) us)))))))))"

section \<open>stuck_utxos.go\<close>

text \<open>\<open>GetScheduledTransactionsNullifierIndexes\<close> answers with positions in the list it was sent.\<close>

type_synonym stuck_server = "string list \<Rightarrow> int list result"

definition select_stuck :: "primitives \<Rightarrow> stuck_server \<Rightarrow> utxo list \<Rightarrow> utxo list result" where
  "select_stuck E server us =
     (if us = [] then Ok []
      else rbind (rmap (\<lambda>u. snd (GetNullifier E u)) us) (\<lambda>nullifiers.
           rbind (server nullifiers) (\<lambda>indexes.
           Ok (map (\<lambda>i. fst (GetNullifier E (us ! nat i)))
                 (filter (\<lambda>i. 0 \<le> i \<and> i < int (length us)) indexes)))))"

definition GetInputUtxoAndBalanceOfStuckUtxos ::
    "primitives \<Rightarrow> sealing \<Rightarrow> balance_env \<Rightarrow> stuck_server \<Rightarrow> wallet \<Rightarrow> cache_device \<Rightarrow> int \<Rightarrow> input_params \<Rightarrow>
     cache_device \<times> utxo list result" where
  "GetInputUtxoAndBalanceOfStuckUtxos E S env server w d chainID p =
     (case GetInputUtxoAndBalance E S env w d chainID (p\<lparr>UseBlockedUtxos := True\<rparr>) of
        (d', us) \<Rightarrow> (d', rbind us (select_stuck E server)))"

end
