(* ===== verification/BalancesCorrect.thy ===== *)
theory BalancesCorrect
  imports Balances
begin

text \<open>
  What the wallet's view of its notes guarantees: decrypting in parallel gives what decrypting in order
  gives, the cached and incremental computation agrees with decoding everything from scratch and keeps
  the cache consistent, and the balance per token is the sum of the notes that can be spent.
\<close>

section \<open>What a getter leaves alone\<close>

lemma stealthed_blocked [simp]: "IsBlocked (stealthed E u) = IsBlocked u"
  using stealthed_cases [of E u] by auto

lemma committed_more [simp]:
  "MintAddress (committed E u) = MintAddress u" "H0 (committed E u) = H0 u" "IsBlocked (committed E u) = IsBlocked u"
  by (auto simp: committed_def GetCommitment_alt split: sum.splits)

lemma nullified_fields [simp]:
  "Amount (nullified E u) = Amount u" "Erc20TokenAddress (nullified E u) = Erc20TokenAddress u"
  "MintAddress (nullified E u) = MintAddress u" "H0 (nullified E u) = H0 u" "IsBlocked (nullified E u) = IsBlocked u"
  by (auto simp: nullified_def GetNullifier_alt split: sum.splits)

lemma GetNullifier_split: "GetNullifier E u = (nullified E u, snd (GetNullifier E u))"
  by (simp add: nullified_def)

text \<open>The filter keeps the notes whose nullifier is known and not spent, with their caches filled.\<close>

lemma filterSpentUtxos_split:
  "filterSpentUtxos E nullifiers us =
     concat (map (\<lambda>u. case snd (GetNullifier E u) of Inl _ \<Rightarrow> []
                       | Inr nul \<Rightarrow> if nul \<in> set nullifiers then [] else [nullified E u]) us)"
  unfolding filterSpentUtxos_def
  by (rule arg_cong [where f = concat], rule map_cong [OF refl]) (subst GetNullifier_split, simp)

section \<open>Parallel decryption\<close>

definition owned :: "primitives \<Rightarrow> sealing \<Rightarrow> int \<Rightarrow> string result \<Rightarrow> enc_output \<Rightarrow> bool" where
  "owned E S chainID spk out = (case decodeOutput E S chainID spk out of Inl _ \<Rightarrow> False | Inr _ \<Rightarrow> True)"

lemma set_flags_spec:
  "set_flags ok outs order = map (\<lambda>i. i \<in> set order \<and> ok (outs ! i)) [0 ..< length outs]"
proof (induction order rule: rev_induct)
  case Nil
  then show ?case by (simp add: set_flags_def map_replicate_const)
next
  case (snoc j order)
  have "set_flags ok outs (order @ [j]) = (if ok (outs ! j) then (set_flags ok outs order)[j := True] else set_flags ok outs order)"
    by (simp add: set_flags_def)
  also have "\<dots> = map (\<lambda>i. i \<in> set (order @ [j]) \<and> ok (outs ! i)) [0 ..< length outs]"
  proof (rule nth_equalityI)
    fix i assume "i < length (if ok (outs ! j) then (set_flags ok outs order)[j := True] else set_flags ok outs order)"
    then have "i < length outs" by (simp add: snoc split: if_splits)
    then show "(if ok (outs ! j) then (set_flags ok outs order)[j := True] else set_flags ok outs order) ! i
        = map (\<lambda>i. i \<in> set (order @ [j]) \<and> ok (outs ! i)) [0 ..< length outs] ! i"
      by (cases "i = j") (simp_all add: snoc)
  qed (simp add: snoc)
  finally show ?case .
qed

lemma concat_takeWhile:
  assumes "\<And>w. \<not> P w \<Longrightarrow> f w = []" "\<And>w v. \<not> P w \<Longrightarrow> w \<le> v \<Longrightarrow> \<not> P v"
  shows "concat (map f (takeWhile P [0 ..< k])) = concat (map f [0 ..< k])"
proof (induction k)
  case (Suc k)
  show ?case
  proof (cases "\<forall>w < k. P w")
    case True
    then have "takeWhile P ([0 ..< k] @ [k]) = [0 ..< k] @ takeWhile P [k]"
      by (intro takeWhile_append2) auto
    then show ?thesis using assms(1) [of k] by auto
  next
    case False
    then obtain w where "w < k" "\<not> P w" by blast
    then have "f k = []" "takeWhile P ([0 ..< k] @ [k]) = takeWhile P [0 ..< k]"
      using assms(1) assms(2) [of w k] by (auto intro: takeWhile_append1)
    then show ?thesis using Suc by simp
  qed
qed simp

lemma upt_join: "a \<le> b \<Longrightarrow> [0 ..< a] @ [a ..< b] = [0 ..< b]"
  by (metis le_Suc_ex upt_add_eq_append zero_le)

lemma concat_ranges: "concat (map (\<lambda>w. [w * c ..< min (w * c + c) n]) [0 ..< k]) = [0 ..< min (k * c) n]"
proof (induction k)
  case (Suc k)
  have "[0 ..< min (k * c) n] @ [k * c ..< min (k * c + c) n] = [0 ..< min (Suc k * c) n]"
  proof (cases "k * c \<le> n")
    case True
    then have "[0 ..< k * c] @ [k * c ..< min (k * c + c) n] = [0 ..< min (k * c + c) n]"
      by (intro upt_join) simp
    with True show ?thesis by (simp add: min_absorb1 add.commute)
  qed (simp add: min_def)
  with Suc show ?case by simp
qed simp

text \<open>The workers cover every output exactly once, in order.\<close>

lemma worker_indices_all:
  assumes "0 < cpus"
  shows "worker_indices n cpus = [0 ..< n]"
proof (cases "n = 0")
  case True
  then show ?thesis by (simp add: worker_indices_def worker_ranges_def)
next
  case False
  define k where "k = min cpus n"
  define c where "c = (n + k - 1) div k"
  have k: "0 < k" using assms False by (simp add: k_def)
  have "n + k - 1 < (c + 1) * k"
    using k by (metis c_def add.commute dividend_less_div_times mult_Suc plus_1_eq_Suc)
  then have cover: "n \<le> k * c" by (simp add: algebra_simps)
  have "worker_indices n cpus
      = concat (map (\<lambda>w. [w * c ..< min (w * c + c) n]) (takeWhile (\<lambda>w. w * c < n) [0 ..< k]))"
    by (simp only: worker_indices_def worker_ranges_def Let_def k_def [symmetric] c_def [symmetric]
      map_map comp_def prod.case)
  also have "\<dots> = concat (map (\<lambda>w. [w * c ..< min (w * c + c) n]) [0 ..< k])"
  proof (rule concat_takeWhile)
    show "[w * c ..< min (w * c + c) n] = []" if "\<not> w * c < n" for w using that by simp
    show "\<not> v * c < n" if "\<not> w * c < n" "w \<le> v" for w v
      using that by (meson le_trans mult_le_mono1 not_le)
  qed
  also have "\<dots> = [0 ..< n]" using cover by (simp add: concat_ranges min_absorb2)
  finally show ?thesis .
qed

definition fair_env :: "balance_env \<Rightarrow> bool" where
  "fair_env env \<longleftrightarrow> 0 < numCPU env \<and> (\<forall>xs. mset (schedule env xs) = mset xs)"

lemma filter_flags: "map fst (filter snd (zip xs (map (\<lambda>i. ok (xs ! i)) [0 ..< length xs]))) = filter ok xs"
proof -
  have "map (\<lambda>i. ok (xs ! i)) [0 ..< length xs] = map ok xs" by (rule nth_equalityI) simp_all
  moreover have "map fst (filter snd (zip xs (map ok xs))) = filter ok xs" by (induction xs) auto
  ultimately show ?thesis by simp
qed

lemma filterOwnedOutputs_eq:
  assumes "fair_env env"
  shows "filterOwnedOutputs E S env chainID (Ok spk) outs = Ok (filter (owned E S chainID (Ok spk)) outs)"
proof -
  let ?order = "if length outs < parallelDecryptThreshold then [0 ..< length outs]
    else schedule env (worker_indices (length outs) (numCPU env))"
  have "set ?order = {0 ..< length outs}"
  proof -
    have "mset (schedule env (worker_indices (length outs) (numCPU env))) = mset [0 ..< length outs]"
      using assms worker_indices_all [of "numCPU env" "length outs"] by (simp add: fair_env_def)
    from mset_eq_setD [OF this] show ?thesis by simp
  qed
  then have "map (\<lambda>i. i \<in> set ?order \<and> ok (outs ! i)) [0 ..< length outs]
      = map (\<lambda>i. ok (outs ! i)) [0 ..< length outs]" for ok by (intro map_cong) auto
  then show ?thesis
    by (simp only: filterOwnedOutputs_def rbind_simps Let_def set_flags_spec filter_flags owned_def [abs_def])
qed


section \<open>The incremental computation\<close>

lemma DecodeOutputs_append:
  "DecodeOutputs E S chainID spk (a @ b) = DecodeOutputs E S chainID spk a @ DecodeOutputs E S chainID spk b"
  by (simp add: DecodeOutputs_def)

lemma DecodeOutputs_owned:
  "DecodeOutputs E S chainID spk (filter (owned E S chainID spk) outs) = DecodeOutputs E S chainID spk outs"
  by (induction outs) (auto simp: DecodeOutputs_def decoded_outputs_def owned_def split: sum.splits)

lemma index_of_output_nth:
  assumes "distinct (map outValue outs)" "j < length outs"
  shows "index_of_output i outs (outValue (outs ! j)) = int (i + j)"
  using assms
proof (induction outs arbitrary: i j)
  case (Cons out outs)
  then show ?case
  proof (cases j)
    case (Suc k)
    then have "outValue out \<noteq> outValue (outs ! k)" using Cons.prems by (auto simp: image_iff)
    with Suc Cons show ?thesis by simp
  qed simp
qed simp

lemma index_of_output_absent: "v \<notin> outValue ` set outs \<Longrightarrow> index_of_output i outs v = -1"
  by (induction outs arbitrary: i) auto

text \<open>A cache entry that agrees with a prefix of the chain: empty, or the owned outputs up to the last
  output it names.\<close>

definition entry_of :: "(enc_output \<Rightarrow> bool) \<Rightarrow> enc_output list \<Rightarrow> hinkal_cache \<Rightarrow> bool" where
  "entry_of own outs c \<longleftrightarrow> (LastOutput c = [] \<and> cachedOutputs c = []) \<or>
     (\<exists>n < length outs. LastOutput c = outValue (outs ! n) \<and> cachedOutputs c = filter own (take (Suc n) outs))"

lemma entry_of_extend: "entry_of own outs c \<Longrightarrow> entry_of own (outs @ later) c"
  by (fastforce simp: entry_of_def nth_append)

lemma entry_of_empty [simp]: "entry_of own outs emptyHinkalCache"
  by (simp add: entry_of_def emptyHinkalCache_def)

lemma entry_of_all:
  "outs \<noteq> [] \<Longrightarrow> entry_of own outs \<lparr>cachedOutputs = filter own outs, LastOutput = outValue (last outs)\<rparr>"
  by (auto simp: entry_of_def last_conv_nth intro!: exI [of _ "length outs - 1"])

text \<open>The values of the outputs tell them apart.\<close>

definition values_distinct :: "enc_output list \<Rightarrow> bool" where
  "values_distinct outs \<longleftrightarrow> distinct (map outValue outs) \<and> [] \<notin> outValue ` set outs"

lemma locally_complete:
  assumes "values_distinct (chainOutputs w)" "fair_env env" "codec_laws (codec env)"
    and "entry_of (owned E S chainID spk) (chainOutputs w) entry"
    and "spk = snd (GetShieldedPrivateKey E (keys w))"
    and "getInputUtxosLocally E S env w d chainID eth pub entry
           (indexOfOutput (chainOutputs w) (LastOutput entry)) = (d', Ok us)"
  shows "us = DecodeOutputs E S chainID spk (chainOutputs w) \<and>
    (\<exists>c. SetHinkalCache (codec env) (writeOk env 1) c d (hinkalAddress w) chainID pub = Ok d' \<and>
         entry_of (owned E S chainID spk) (chainOutputs w) c)"
proof -
  let ?outs = "chainOutputs w" and ?own = "owned E S chainID spk"
  define k where "k = nat (indexOfOutput ?outs (LastOutput entry) + 1)"
  have k: "cachedOutputs entry = filter ?own (take k ?outs) \<and> k \<le> length ?outs"
    using assms(4)
  proof (unfold entry_of_def, elim disjE exE conjE)
    assume "LastOutput entry = []" "cachedOutputs entry = []"
    then show ?thesis
      using assms(1) index_of_output_absent [of "[]" ?outs 0] by (simp add: k_def indexOfOutput_def values_distinct_def)
  next
    fix n assume "n < length ?outs" "LastOutput entry = outValue (?outs ! n)" "cachedOutputs entry = filter ?own (take (Suc n) ?outs)"
    moreover from this have "k = Suc n"
      using assms(1) index_of_output_nth [of ?outs n 0] by (simp add: k_def indexOfOutput_def values_distinct_def)
    ultimately show ?thesis by simp
  qed
  have slice: "(if k < length ?outs then drop k ?outs else []) = drop k ?outs" by simp
  obtain key where key: "spk = Ok key"
    using assms(6) assms(5) [symmetric]
    by (cases spk) (auto simp: getInputUtxosLocally_def Let_def filterOwnedOutputs_def)
  have all: "cachedOutputs entry @ filter ?own (drop k ?outs) = filter ?own ?outs"
    using k by (metis append_take_drop_id filter_append)
  define c where "c = \<lparr>cachedOutputs = filter ?own ?outs,
    LastOutput = (if ?outs \<noteq> [] then outValue (last ?outs) else LastOutput entry)\<rparr>"
  have run: "SetHinkalCache (codec env) (writeOk env 1) c d (hinkalAddress w) chainID pub = Ok d'"
    and us: "us = DecodeOutputs E S chainID spk (filter ?own ?outs)"
    using assms(6) all key
    by (auto simp: getInputUtxosLocally_def Let_def assms(5) [symmetric] k_def [symmetric] slice
      filterOwnedOutputs_eq [OF assms(2)] rbind_Ok_iff c_def split: sum.splits)
  have "entry_of ?own ?outs c"
  proof (cases "?outs = []")
    case True
    then show ?thesis using assms(4) by (auto simp: c_def entry_of_def)
  next
    case False
    then show ?thesis using entry_of_all [OF False, of ?own] by (simp add: c_def)
  qed
  with run us show ?thesis by (auto simp: DecodeOutputs_owned)
qed

lemma ResetCache_sound:
  assumes "codec_laws J" "cache_sound J (entry_of own outs) key d" "ResetCache J ok d addr chainID pub = Ok d'"
  shows "cache_sound J (entry_of own outs) key d'"
  using cache_sound_set [OF assms(1,2) _ assms(3) [unfolded ResetCache_def]] by simp

text \<open>The reference: decode every output of the chain, drop what is spent, keep what can be spent.\<close>

definition notes_from_scratch ::
    "primitives \<Rightarrow> sealing \<Rightarrow> int \<Rightarrow> string result \<Rightarrow> enc_output list \<Rightarrow> string list \<Rightarrow> bool \<Rightarrow> utxo list" where
  "notes_from_scratch E S chainID spk outs nullifiers useBlocked =
     filter (spendable useBlocked) (filterSpentUtxos E nullifiers (DecodeOutputs E S chainID spk outs))"

section \<open>Balances per token\<close>

lemma decoded_amount: "decodeOutput E S chainID spk out = Ok u \<Longrightarrow> \<exists>a. Amount u = Some a"
  by (auto simp: decodeOutput_def DecryptUtxoHex_def DecryptUtxo_def DecodeUtxo_def DecodeEvmUtxoHex_def
      DecodeEvmUtxo_def DecodeSolanaOnChainUtxo_def decoded_note_def Let_def rbind_Ok_iff
      split: if_splits dest!: NewUtxo_fields(1))

text \<open>The note an output contributes, with the token it counts for.\<close>

definition counted :: "primitives \<Rightarrow> sealing \<Rightarrow> int \<Rightarrow> string result \<Rightarrow> string list \<Rightarrow> enc_output \<Rightarrow> (string \<times> utxo) list" where
  "counted E S chainID spk nullifiers out =
     concat (map (\<lambda>u0.
       let u = nullified E u0 in
       case (snd (GetNullifier E u0), balanceTokenKey E S chainID u) of
         (Inr nul, Inr token) \<Rightarrow> if nul \<in> set nullifiers \<or> isBlocked out then [] else [(token, u)]
       | _ \<Rightarrow> []) (decoded_outputs E S chainID spk out))"

definition total_of :: "(string \<times> utxo) list \<Rightarrow> string \<Rightarrow> int option" where
  "total_of notes token =
     (if token \<in> fst ` set notes
      then Some (\<Sum>(t, u)\<leftarrow>notes. if t = token then (case Amount u of None \<Rightarrow> 0 | Some a \<Rightarrow> a) else 0)
      else None)"

lemma total_of_snoc:
  assumes "Amount u = Some a"
  shows "total_of (notes @ [(t, u)]) token =
    (if t = token then Some ((case total_of notes t of None \<Rightarrow> 0 | Some b \<Rightarrow> b) + a) else total_of notes token)"
proof -
  have "(\<Sum>(t', v)\<leftarrow>notes. if t' = t then (case Amount v of None \<Rightarrow> 0 | Some a \<Rightarrow> a) else 0) = 0"
    if "t \<notin> fst ` set notes"
    using that by (induction "notes") (auto split: if_splits)
  then show ?thesis using assms by (auto simp: total_of_def)
qed

lemma compute_step_counted:
  assumes "ResUtxos r = map snd ns" "\<forall>token. mget (ResBalances r) token = total_of ns token"
  shows "\<exists>r'. compute_step E S chainID spk nullifiers r out = Ok r' \<and>
    ResUtxos r' = map snd (ns @ counted E S chainID spk nullifiers out) \<and>
    (\<forall>token. mget (ResBalances r') token = total_of (ns @ counted E S chainID spk nullifiers out) token)"
proof (cases "decodeOutput E S chainID spk out")
  case (Inl err)
  then show ?thesis using assms by (simp add: compute_step_def counted_def decoded_outputs_def)
next
  case (Inr u0)
  let ?u = "u0\<lparr>IsBlocked := isBlocked out\<rparr>"
  obtain a where a: "Amount u0 = Some a" using decoded_amount [OF Inr] by blast
  obtain v n where g: "GetNullifier E ?u = (v, n)" by fastforce
  then have v: "nullified E ?u = v" "Amount v = Some a" "IsBlocked v = isBlocked out"
    using a nullified_fields [of E ?u] by (auto simp: nullified_def)
  have c: "counted E S chainID spk nullifiers out =
      (case (n, balanceTokenKey E S chainID v) of
         (Inr nul, Inr token) \<Rightarrow> if nul \<in> set nullifiers \<or> isBlocked out then [] else [(token, v)]
       | _ \<Rightarrow> [])"
    using Inr g v(1) by (simp add: counted_def decoded_outputs_def)
  have s: "compute_step E S chainID spk nullifiers r out =
      (case (n, balanceTokenKey E S chainID v) of
         (Inr nul, Inr token) \<Rightarrow>
           if nul \<in> set nullifiers \<or> isBlocked out then Ok r
           else Ok \<lparr>ResBalances = mput token ((case mget (ResBalances r) token of None \<Rightarrow> 0 | Some b \<Rightarrow> b) + a) (ResBalances r),
             ResUtxos = ResUtxos r @ [v]\<rparr>
       | _ \<Rightarrow> Ok r)"
    using Inr g v(2,3) by (simp add: compute_step_def Let_def split: sum.split)
  show ?thesis
  proof (cases "\<exists>nul token. n = Inr nul \<and> balanceTokenKey E S chainID v = Inr token \<and> nul \<notin> set nullifiers \<and> \<not> isBlocked out")
    case True
    then obtain nul token where "n = Inr nul" "balanceTokenKey E S chainID v = Inr token" "nul \<notin> set nullifiers" "\<not> isBlocked out"
      by blast
    then show ?thesis using assms v(2) by (simp add: s c total_of_snoc)
  next
    case False
    then have "counted E S chainID spk nullifiers out = []" "compute_step E S chainID spk nullifiers r out = Ok r"
      by (auto simp: s c split: sum.split)
    then show ?thesis using assms by simp
  qed
qed



section \<open>Properties\<close>

text \<open>C19. Refreshing the wallet's notes through the cache gives what decoding the whole chain from scratch
  gives, and leaves the cache ready for the next refresh. This holds for every cache device, also one
  whose writes are lost or whose file is read again later, whenever the entries it can answer come from
  an earlier state of the chain; for every number of processors and every scheduling of the decrypting
  goroutines.\<close>

theorem incremental_refresh_complete:
  assumes "values_distinct (chainOutputs w)" "fair_env env" "codec_laws (codec env)" "\<not> updatesDisabled w"
    and "chainOutputs w = old @ new"
    and "\<forall>pub. cache_sound (codec env) (entry_of (owned E S chainID (snd (GetShieldedPrivateKey E (keys w)))) old)
           (cache_key chainID pub (hinkalAddress w)) d"
    and "GetInputUtxoAndBalance E S env w d chainID p = (d', Ok us)"
  shows "us = notes_from_scratch E S chainID (snd (GetShieldedPrivateKey E (keys w))) (chainOutputs w)
      (chainNullifiers w) (UseBlockedUtxos p) \<and>
    (\<forall>pub. cache_sound (codec env)
        (entry_of (owned E S chainID (snd (GetShieldedPrivateKey E (keys w)))) (chainOutputs w))
        (cache_key chainID pub (hinkalAddress w)) d')"
proof -
  define spk where "spk = snd (GetShieldedPrivateKey E (keys w))"
  let ?own = "owned E S chainID spk" and ?J = "codec env"
  have sound: "cache_sound ?J (entry_of ?own (chainOutputs w)) (cache_key chainID q (hinkalAddress w)) d" for q
    using assms(5,6) entry_of_extend [of ?own old _ new]
    by (fastforce simp: cache_sound_def device.all_entries_def spk_def)
  obtain eth pub d1 entry where load: "load_cached env w d chainID pub (ResetCacheBefore p) = (d1, Ok entry)"
    and run: "(let lastOutputExist = (LastOutput entry \<noteq> []);
         lastOutputIndex = indexOfOutput (chainOutputs w) (LastOutput entry);
         case1 = (lastOutputIndex > -1);
         case2 = (\<not> lastOutputExist \<and> lastOutputIndex = -1);
         decryptLocally = (\<not> updatesDisabled w \<and> (case1 \<or> case2));
         (d', all) = (if decryptLocally
                      then getInputUtxosLocally E S env w d1 chainID eth pub entry lastOutputIndex
                      else (d1, Ok (DecodeOutputs E S chainID spk (cachedOutputs entry))))
     in (d', rbind all (\<lambda>us. rbind (checkAddressNotUpdated (addressAt env 3) eth) (\<lambda>_.
             Ok (filter (spendable (UseBlockedUtxos p)) (filterSpentUtxos E (chainNullifiers w) us)))))) = (d', Ok us)"
    using assms(7) by (auto simp: GetInputUtxoAndBalance_def spk_def [symmetric] Let_def split: sum.splits prod.splits)
  have d1: "cache_sound ?J (entry_of ?own (chainOutputs w)) (cache_key chainID q (hinkalAddress w)) d1" for q
    using load sound [of q] ResetCache_sound [OF assms(3)]
    by (auto simp: load_cached_def split: if_splits sum.splits)
  have "GetHinkalCache ?J d1 (hinkalAddress w) chainID pub = Ok entry"
    using load by (auto simp: load_cached_def split: if_splits sum.splits)
  from cache_sound_get [OF d1 _ this] have entry: "entry_of ?own (chainOutputs w) entry" by simp
  have loc: "indexOfOutput (chainOutputs w) (LastOutput entry) > -1 \<or>
      \<not> LastOutput entry \<noteq> [] \<and> indexOfOutput (chainOutputs w) (LastOutput entry) = -1"
    using entry assms(1) index_of_output_nth [of "chainOutputs w" _ 0] index_of_output_absent [of "[]" "chainOutputs w" 0]
    by (auto simp: entry_of_def values_distinct_def indexOfOutput_def)
  obtain all where l: "getInputUtxosLocally E S env w d1 chainID eth pub entry
      (indexOfOutput (chainOutputs w) (LastOutput entry)) = (d', Ok all)"
    and us: "us = filter (spendable (UseBlockedUtxos p)) (filterSpentUtxos E (chainNullifiers w) all)"
    using run loc assms(4) by (auto simp: Let_def rbind_Ok_iff split: prod.splits)
  from locally_complete [OF assms(1-3) entry spk_def l]
  obtain c where all: "all = DecodeOutputs E S chainID spk (chainOutputs w)"
    and set: "SetHinkalCache ?J (writeOk env 1) c d1 (hinkalAddress w) chainID pub = Ok d'"
    and c: "entry_of ?own (chainOutputs w) c" by blast
  have "cache_sound ?J (entry_of ?own (chainOutputs w)) (cache_key chainID q (hinkalAddress w)) d'" for q
    by (rule cache_sound_set [OF assms(3) d1 c set])
  then show ?thesis using us all by (simp add: notes_from_scratch_def spk_def)
qed

text \<open>A chain with one note, deposited openly.\<close>

definition toy_onchain :: sealing where
  "toy_onchain = toy_sealing\<lparr>unpackOnChainUtxo := (\<lambda>bs. Ok \<lparr>otAmount = 5, otErc20Address = [], otH0x = 0, otH0y = 0,
     otH1x = 0, otH1y = 0, otStealthAddress = 3, otTimeStamp = 2\<rparr>), addressHex := (\<lambda>bs. ''0x04'')\<rparr>"

definition toy_output :: enc_output where
  "toy_output = \<lparr>outValue = ''0x01'', isPositive = False, isBlocked = False, encryptedBlob = []\<rparr>"

definition toy_entry :: hinkal_cache where
  "toy_entry = \<lparr>cachedOutputs = [toy_output], LastOutput = ''0x01''\<rparr>"

definition toy_env :: balance_env where
  "toy_env = \<lparr>codec = \<lparr>Marshal = (\<lambda>c. if c = toy_entry then Ok ''1'' else Err (External ''json'')),
       Unmarshal = (\<lambda>s. if s = ''1'' then Some toy_entry else None)\<rparr>,
     addressAt = (\<lambda>i. Ok ''a''), writeOk = (\<lambda>i. True), numCPU = 4, schedule = (\<lambda>xs. xs)\<rparr>"

definition toy_wallet :: wallet where
  "toy_wallet = \<lparr>keys = \<lparr>signature = ''5'', nullifyingKey = ''7''\<rparr>, hinkalAddress = ''H'',
     chainOutputs = [toy_output], chainNullifiers = [], updatesDisabled = False\<rparr>"

definition toy_input :: input_params where
  "toy_input = \<lparr>PassedShieldedPublicKey = ''2'', EthAddress = ''a'', ResetCacheBefore = False, UseBlockedUtxos = False\<rparr>"

definition toy_seen :: utxo where
  "toy_seen = \<lparr>Amount = Some 5, Erc20TokenAddress = ''0x04'', MintAddress = [], TimeStamp = ''2'', NullifyingKey = ''7'',
     SpendingPublicKey = None, H0 = Some (0, 0), StealthAddress = ''0x03'', EncryptionKey = [], IsBlocked = False,
     commitment = [], nullifier = []\<rparr>"

lemma toy_chain: "chainOutputs toy_wallet = [toy_output]" and toy_value: "outValue toy_output = ''0x01''"
  by (simp_all add: toy_wallet_def toy_output_def)

lemma toy_decoded: "decodeOutput toy_hex toy_onchain 1 (Ok ''7'') toy_output = Ok toy_seen"
  by code_simp

lemma toy_nullifier: "\<exists>n. snd (GetNullifier toy_hex toy_seen) = Ok n"
proof -
  have "case snd (GetNullifier toy_hex toy_seen) of Inl _ \<Rightarrow> False | Inr _ \<Rightarrow> True" by code_simp
  then show ?thesis by (auto split: sum.splits)
qed

lemma toy_run:
  assumes "orElse (EthAddress p) (addressAt toy_env 0) = Ok ''a''" "\<not> ResetCacheBefore p" "\<not> UseBlockedUtxos p"
    and pub: "orElse (PassedShieldedPublicKey p) (snd (GetShieldedPublicKey toy_hex (keys toy_wallet))) = Ok pub" "pub \<noteq> []"
  shows "\<exists>d'. GetInputUtxoAndBalance toy_hex toy_onchain toy_env toy_wallet (MemoryCacheDevice []) 1 p =
     (d', Ok [nullified toy_hex toy_seen])"
proof -
  obtain n where n: "snd (GetNullifier toy_hex toy_seen) = Ok n" using toy_nullifier by blast
  have f: "Amount (nullified toy_hex toy_seen) = Some 5" "spendable False (nullified toy_hex toy_seen)"
    by (simp_all add: toy_seen_def spendable_def isIdentityPoint_def)
  have k: "snd (GetShieldedPrivateKey toy_hex (keys toy_wallet)) = Ok ''7''"
    by (simp add: toy_wallet_def GetShieldedPrivateKey_def)
  have fair: "fair_env toy_env" by (simp add: fair_env_def toy_env_def)
  have own: "owned toy_hex toy_onchain 1 (Ok ''7'') toy_output" by (simp add: owned_def toy_decoded)
  have dec: "DecodeOutputs toy_hex toy_onchain 1 (Ok ''7'') [toy_output] = [toy_seen]"
    by (simp add: DecodeOutputs_def decoded_outputs_def toy_decoded) (simp add: toy_seen_def toy_output_def)
  have load: "load_cached toy_env toy_wallet (MemoryCacheDevice []) 1 pub False = (MemoryCacheDevice [], Ok emptyHinkalCache)"
    using pub(2) by (simp add: load_cached_def GetHinkalCache_def toy_wallet_def memory_get_def)
  have addr: "checkAddressNotUpdated (addressAt toy_env i) ''a'' = Ok ()" for i
    by (simp add: checkAddressNotUpdated_def toy_env_def ensure_def EqualFold_def ToLower_def to_lower_def)
  have toy_enabled: "\<not> updatesDisabled toy_wallet" by (simp add: toy_wallet_def)
  have empty_last: "LastOutput emptyHinkalCache = []" by (simp add: emptyHinkalCache_def)
  have idx: "indexOfOutput (chainOutputs toy_wallet) [] = -1"
    by (simp add: indexOfOutput_def toy_wallet_def toy_output_def)
  obtain d' where st: "SetHinkalCache (codec toy_env) (writeOk toy_env 1) toy_entry (MemoryCacheDevice []) (hinkalAddress toy_wallet) 1 pub = Ok d'"
    using pub(2) by (simp add: SetHinkalCache_def toy_env_def toy_wallet_def)
  have loc: "getInputUtxosLocally toy_hex toy_onchain toy_env toy_wallet (MemoryCacheDevice []) 1 ''a'' pub emptyHinkalCache (-1) = (d', Ok [toy_seen])"
    using st [unfolded toy_entry_def] filterOwnedOutputs_eq [OF fair, of toy_hex toy_onchain 1 "''7''" "[toy_output]"] own
    by (simp add: getInputUtxosLocally_def k addr Let_def dec emptyHinkalCache_def toy_chain toy_value)
  have "filterSpentUtxos toy_hex (chainNullifiers toy_wallet) [toy_seen] = [nullified toy_hex toy_seen]"
    using n by (simp add: filterSpentUtxos_split toy_wallet_def)
  then have "GetInputUtxoAndBalance toy_hex toy_onchain toy_env toy_wallet (MemoryCacheDevice []) 1 p
      = (d', Ok [nullified toy_hex toy_seen])"
    using f(2) assms
    by (simp add: GetInputUtxoAndBalance_def Let_def load addr toy_enabled empty_last idx loc)
  then show ?thesis by blast
qed

lemma incremental_refresh_complete_witness:
  "\<exists>d' us. GetInputUtxoAndBalance toy_hex toy_onchain toy_env toy_wallet (MemoryCacheDevice []) 1 toy_input = (d', Ok us) \<and>
     map Amount us = [Some 5] \<and>
     us = notes_from_scratch toy_hex toy_onchain 1 (snd (GetShieldedPrivateKey toy_hex (keys toy_wallet)))
        (chainOutputs toy_wallet) (chainNullifiers toy_wallet) False"
proof -
  obtain d' us where run: "GetInputUtxoAndBalance toy_hex toy_onchain toy_env toy_wallet (MemoryCacheDevice []) 1 toy_input = (d', Ok us)"
    and a: "map Amount us = [Some 5]"
    using toy_run [of toy_input "''2''"] by (fastforce simp: toy_input_def orElse_def toy_env_def toy_seen_def)
  have w: "values_distinct (chainOutputs toy_wallet)"
    by (simp add: values_distinct_def toy_wallet_def toy_output_def)
  have e: "fair_env toy_env" "codec_laws (codec toy_env)" "\<not> updatesDisabled toy_wallet"
    by (auto simp: fair_env_def toy_env_def codec_laws_def toy_wallet_def split: if_splits)
  have o: "chainOutputs toy_wallet = [toy_output] @ []" by (simp add: toy_wallet_def)
  have c: "\<forall>pub. cache_sound (codec toy_env) (entry_of (owned toy_hex toy_onchain 1 (snd (GetShieldedPrivateKey toy_hex (keys toy_wallet)))) [toy_output])
           (cache_key 1 pub (hinkalAddress toy_wallet)) (MemoryCacheDevice [])"
    by (simp add: cache_sound_def device.all_entries_def memory_get_def)
  show ?thesis
    using incremental_refresh_complete [OF w e o c run] run a by (auto simp: toy_input_def)
qed

text \<open>C20. The balance a wallet shows for a token is the sum of the notes it can spend: \<open>Compute\<close> always
  returns, lists exactly the notes that decode with the wallet's keys, are not blocked and whose
  nullifier has not been seen, in chain order, and maps each of their tokens to the sum of their
  amounts and every other token to nothing.\<close>

theorem balance_sums_spendable_notes:
  "\<exists>r. Compute E S chainID spk nullifiers outs = Ok r \<and>
     ResUtxos r = map snd (concat (map (counted E S chainID spk nullifiers) outs)) \<and>
     (\<forall>token. mget (ResBalances r) token = total_of (concat (map (counted E S chainID spk nullifiers) outs)) token)"
  unfolding Compute_def
proof (induction outs rule: rev_induct)
  case Nil
  show ?case by (simp add: total_of_def)
next
  case (snoc out outs)
  then obtain r where r: "rfold (compute_step E S chainID spk nullifiers) \<lparr>ResBalances = [], ResUtxos = []\<rparr> outs = Ok r"
    and inv: "ResUtxos r = map snd (concat (map (counted E S chainID spk nullifiers) outs))"
      "\<forall>token. mget (ResBalances r) token = total_of (concat (map (counted E S chainID spk nullifiers) outs)) token"
    by blast
  from compute_step_counted [OF inv, of E S chainID spk nullifiers out] r show ?case
    by (auto simp: rfold_append rbind_Ok_iff)
qed

end
