(* ===== verification/Padding.thy ===== *)
theory Padding
  imports BalancesCorrect
begin

text \<open>
  \<open>internal/functions/balance/input_utxos_per_token.go\<close> and \<open>add_padding_to_utxos.go\<close>: the spendable notes
  grouped by token, sorted by amount and padded with zero notes, and the rectangular array of input
  notes a circuit takes.
\<close>

section \<open>Tokens as keys\<close>

definition encodeTokenWithID :: "int \<Rightarrow> string \<Rightarrow> string" where
  "encodeTokenWithID chainID address = (if IsSolanaLike chainID then address else ToLower address)"

definition anyTokenAddressMatches :: "string list \<Rightarrow> string \<Rightarrow> bool" where
  "anyTokenAddressMatches tokens address = list_ex (\<lambda>t. EqualFold t address) tokens"

section \<open>Zero notes\<close>

text \<open>What constructing a zero note reads: the clock and the random seed.\<close>

type_synonym fresh = "int \<times> int result"

definition zero_params :: "string \<Rightarrow> string \<Rightarrow> string \<Rightarrow> int list \<Rightarrow> utxo_params" where
  "zero_params erc20 mint nk spendingPublicKey =
     no_params\<lparr>pAmount := Some 0, pErc20TokenAddress := erc20, pMintAddress := mint,
       pNullifyingKey := nk, pSpendingPublicKey := Some spendingPublicKey\<rparr>"

definition zero_note :: "primitives \<Rightarrow> fresh \<Rightarrow> string \<Rightarrow> string \<Rightarrow> string \<Rightarrow> int list \<Rightarrow> utxo result" where
  "zero_note E f erc20 mint nk spendingPublicKey =
     NewUtxo E (fst f) (snd f) (zero_params erc20 mint nk spendingPublicKey)"

definition buildZeroUtxo :: "primitives \<Rightarrow> fresh \<Rightarrow> int \<Rightarrow> string \<Rightarrow> string \<Rightarrow> int list \<Rightarrow> utxo result" where
  "buildZeroUtxo E f chainID address nk spendingPublicKey =
     (if IsSolanaLike chainID then
        rbind (FormatMintAddress E address) (\<lambda>formatted.
        zero_note E f (CompressedAddress formatted) address nk spendingPublicKey)
      else zero_note E f address [] nk spendingPublicKey)"

definition buildZeroUtxos ::
    "primitives \<Rightarrow> (nat \<Rightarrow> fresh) \<Rightarrow> int \<Rightarrow> string \<Rightarrow> string \<Rightarrow> int list \<Rightarrow> nat \<Rightarrow> utxo list result" where
  "buildZeroUtxos E f chainID address nk spendingPublicKey k =
     rmap (\<lambda>i. buildZeroUtxo E (f i) chainID address nk spendingPublicKey) [0 ..< k]"

section \<open>Sorting and padding one token\<close>

definition amount_of :: "utxo \<Rightarrow> int" where
  "amount_of u = (case Amount u of None \<Rightarrow> 0 | Some a \<Rightarrow> a)"

text \<open>\<open>sort.SliceStable\<close>, largest amount first; comparing a nil amount panics.\<close>

definition sort_by_amount :: "utxo list \<Rightarrow> utxo list result" where
  "sort_by_amount us =
     (if length us > 1 \<and> list_ex (\<lambda>u. Amount u = None) us then Err Panic
      else Ok (sort_key (\<lambda>u. - amount_of u) us))"

text \<open>The loop; cutting to six inside it may undo its progress, so it need not end (\<open>None\<close>).\<close>

partial_function (option) pad_loop ::
    "(nat \<Rightarrow> utxo result) \<Rightarrow> nat \<Rightarrow> bool \<Rightarrow> nat \<Rightarrow> utxo list \<Rightarrow> utxo list result option" where
  "pad_loop pad minInput sliceIfMore6 i us =
     (if length us < minInput \<or> (length us > minInput \<and> length us < 6) then
        (case pad i of
           Inl err \<Rightarrow> Some (Err err)
         | Inr u \<Rightarrow>
             let us1 = us @ [u]; us2 = (if sliceIfMore6 \<and> length us1 > 6 then take 6 us1 else us1)
             in pad_loop pad minInput sliceIfMore6 (Suc i) us2)
      else Some (Ok us))"

declare pad_loop.simps [code]

definition sortAndPadUtxos ::
    "primitives \<Rightarrow> (nat \<Rightarrow> fresh) \<Rightarrow> utxo list \<Rightarrow> nat \<Rightarrow> bool \<Rightarrow> string \<Rightarrow> int list \<Rightarrow> string \<Rightarrow> string \<Rightarrow> utxo list result" where
  "sortAndPadUtxos E f us minInput sliceIfMore6 nk spendingPublicKey erc20 mint =
     rbind (sort_by_amount us) (\<lambda>sorted.
     case pad_loop (\<lambda>i. zero_note E (f i) erc20 mint nk spendingPublicKey) minInput sliceIfMore6 0 sorted of
       None \<Rightarrow> Err Diverges
     | Some r \<Rightarrow> r)"

section \<open>Grouping by token\<close>

text \<open>\<open>tokens\<close> is the optional filter, nil when every token is wanted. The keys stay in the order in which
  they first appear.\<close>

definition group_step :: "int \<Rightarrow> string slice \<Rightarrow> (string, utxo list) gomap \<Rightarrow> utxo \<Rightarrow> (string, utxo list) gomap" where
  "group_step chainID tokens m u =
     (case GetTokenAddress (IsSolanaLike chainID) u of
        Inl _ \<Rightarrow> m
      | Inr address \<Rightarrow>
          if tokens \<noteq> None \<and> \<not> anyTokenAddressMatches (elems tokens) address then m
          else
            let key = encodeTokenWithID chainID address;
                old = (case mget m key of None \<Rightarrow> [] | Some us \<Rightarrow> us)
            in mput key (old @ [u]) m)"

definition add_key :: "int \<Rightarrow> (string, utxo list) gomap \<Rightarrow> string \<Rightarrow> (string, utxo list) gomap" where
  "add_key chainID m item =
     (let key = encodeTokenWithID chainID item
      in case mget m key of None \<Rightarrow> mput key [] m | Some _ \<Rightarrow> m)"

definition group_by_token :: "int \<Rightarrow> string slice \<Rightarrow> string list \<Rightarrow> utxo list \<Rightarrow> (string, utxo list) gomap" where
  "group_by_token chainID tokens ensured us =
     foldl (add_key chainID) (foldl (group_step chainID tokens) [] us) ensured"

definition pad_key ::
    "primitives \<Rightarrow> (string \<Rightarrow> nat \<Rightarrow> fresh) \<Rightarrow> int \<Rightarrow> nat \<Rightarrow> bool \<Rightarrow> string \<Rightarrow> int list \<Rightarrow> string \<times> utxo list \<Rightarrow> (string \<times> utxo list) result" where
  "pad_key E f chainID minInput sliceIfMore6 nk spendingPublicKey = (\<lambda>(key, us).
     rbind (if IsSolanaLike chainID
            then rbind (FormatMintAddress E key) (\<lambda>formatted. Ok (ToLower (CompressedAddress formatted), key))
            else Ok (ToLower key, [])) (\<lambda>(erc20, mint).
     rbind (sortAndPadUtxos E (f key) us minInput sliceIfMore6 nk spendingPublicKey erc20 mint) (\<lambda>padded.
     Ok (key, padded))))"

text \<open>The shielded private key and the public spending point, asked for in either order.\<close>

definition wallet_keys :: "primitives \<Rightarrow> user_keys \<Rightarrow> (string \<times> int list) result" where
  "wallet_keys E uk =
     rbind (snd (GetShieldedPrivateKey E uk)) (\<lambda>spk.
     rbind (GetSpendingKeyPair E uk) (\<lambda>pair.
     Ok (spk, [fst (PubSpendingBJJPoint pair), snd (PubSpendingBJJPoint pair)])))"

definition keys_of_wallet :: "primitives \<Rightarrow> user_keys \<Rightarrow> (string \<times> int list) result" where
  "keys_of_wallet E uk =
     rbind (GetSpendingKeyPair E uk) (\<lambda>pair.
     rbind (snd (GetShieldedPrivateKey E uk)) (\<lambda>spk.
     Ok (spk, [fst (PubSpendingBJJPoint pair), snd (PubSpendingBJJPoint pair)])))"

definition fetch_notes ::
    "primitives \<Rightarrow> sealing \<Rightarrow> balance_env \<Rightarrow> stuck_server \<Rightarrow> wallet \<Rightarrow> cache_device \<Rightarrow> int \<Rightarrow> input_params \<Rightarrow>
     cache_device \<times> utxo list result" where
  "fetch_notes E S env server w d chainID p =
     (if UseBlockedUtxos p then GetInputUtxoAndBalanceOfStuckUtxos E S env server w d chainID p
      else GetInputUtxoAndBalance E S env w d chainID p)"

text \<open>The cache device is returned with the result.\<close>

definition GetInputUtxoAndBalancePerToken ::
    "primitives \<Rightarrow> sealing \<Rightarrow> balance_env \<Rightarrow> stuck_server \<Rightarrow> (string \<Rightarrow> nat \<Rightarrow> fresh) \<Rightarrow> wallet \<Rightarrow> cache_device \<Rightarrow> int \<Rightarrow>
     input_params \<Rightarrow> nat \<Rightarrow> bool \<Rightarrow> string slice \<Rightarrow> string list \<Rightarrow> cache_device \<times> (string, utxo list) gomap result" where
  "GetInputUtxoAndBalancePerToken E S env server f w d chainID p minInput sliceIfMore6 tokens ensured =
     (case wallet_keys E (keys w) of
        Inl err \<Rightarrow> (d, Err err)
      | Inr (spk, spendingPublicKey) \<Rightarrow>
          (case fetch_notes E S env server w d chainID p of
             (d', r) \<Rightarrow>
               (d', rbind r (\<lambda>us.
                    rmap (pad_key E f chainID minInput sliceIfMore6 spk spendingPublicKey)
                      (group_by_token chainID tokens ensured us)))))"

section \<open>The input array of a circuit\<close>

text \<open>The error that reports how much can be spent at once; only its text is kept, not the number beside it.\<close>

definition ErrorWithAmount :: "string \<Rightarrow> go_error" where
  "ErrorWithAmount message = Wrapped ''ErrorWithAmount'' (Errorf message)"

definition ErrCodeUtxoLimitations :: string where
  "ErrCodeUtxoLimitations = ''Your transaction exceeds the UTXO limit''"

definition overLimitError :: "'f float64 \<Rightarrow> token_server \<Rightarrow> int \<Rightarrow> string \<Rightarrow> int \<Rightarrow> go_error" where
  "overLimitError fl server firstSixAmount erc20Address chainID =
     (case GetErc20TokenFromAPI server chainID erc20Address of
        Inr (Some token) \<Rightarrow>
          (let hintPrecision = (if Decimals token = 18 then 6 else 2)
           in case rbind (GetAmountWithPrecision firstSixAmount token hintPrecision) (ParseFloat fl) of
                Inl err \<Rightarrow> err
              | Inr amountInToken \<Rightarrow>
                  ErrorWithAmount (ErrCodeUtxoLimitations @ ''. Please try again with '' @
                    FormatShortest fl amountInToken @ '' '' @ Symbol token @ '', including gas fees.''))
      | _ \<Rightarrow> ErrorWithAmount ErrCodeUtxoLimitations)"

text \<open>Adding a nil amount panics.\<close>

definition countTotalAmount :: "utxo list \<Rightarrow> int result" where
  "countTotalAmount us =
     rbind (rmap (\<lambda>u. case Amount u of None \<Rightarrow> Err Panic | Some a \<Rightarrow> Ok a) us) (\<lambda>as. Ok (sum_list as))"

definition pad_row ::
    "primitives \<Rightarrow> 'f float64 \<Rightarrow> token_server \<Rightarrow> (nat \<Rightarrow> fresh) \<Rightarrow> int \<Rightarrow> nat \<Rightarrow> string \<Rightarrow> int list \<Rightarrow> string \<Rightarrow> int result \<Rightarrow> utxo list \<Rightarrow> utxo list result" where
  "pad_row E fl server f chainID maxInput spk spendingPublicKey address amountChange us =
     (if length us > maxInput then
        let firstSixUtxos = take maxInput us in
        rbind (countTotalAmount firstSixUtxos) (\<lambda>firstSixAmount.
        rbind amountChange (\<lambda>change.
           if change < 0 \<and> firstSixAmount < - change then Err (overLimitError fl server firstSixAmount address chainID)
           else Ok firstSixUtxos))
      else
        rbind (buildZeroUtxos E f chainID address spk spendingPublicKey (maxInput - length us)) (\<lambda>pads.
        Ok (us @ pads)))"

definition choose_row ::
    "primitives \<Rightarrow> (nat \<Rightarrow> fresh) \<Rightarrow> int \<Rightarrow> string \<Rightarrow> int list \<Rightarrow> bool \<Rightarrow> bool list \<Rightarrow> (string, utxo list) gomap \<Rightarrow> nat \<times> string \<Rightarrow> utxo list result" where
  "choose_row E f chainID spk spendingPublicKey forceEmptyUtxos onChainCreation perToken = (\<lambda>(i, address).
     if forceEmptyUtxos then Ok []
     else if i < length onChainCreation \<and> onChainCreation ! i
     then buildZeroUtxos E f chainID address spk spendingPublicKey 2
     else Ok (case mget perToken (encodeTokenWithID chainID address) of None \<Rightarrow> [] | Some us \<Rightarrow> us))"

definition pad_array ::
    "primitives \<Rightarrow> 'f float64 \<Rightarrow> token_server \<Rightarrow> (string \<Rightarrow> nat \<Rightarrow> nat \<Rightarrow> fresh) \<Rightarrow> int \<Rightarrow> nat \<Rightarrow> string \<Rightarrow> int list \<Rightarrow>
     string list \<Rightarrow> int list \<Rightarrow> bool \<Rightarrow> bool list \<Rightarrow> (string, utxo list) gomap \<Rightarrow> utxo list list result" where
  "pad_array E fl server f chainID maxInput spk spendingPublicKey addresses amountChanges forceEmptyUtxos onChainCreation perToken =
     rbind (rmap (\<lambda>(i, a). choose_row E (f ''row'' i) chainID spk spendingPublicKey forceEmptyUtxos onChainCreation perToken (i, a))
              (enumerate 0 addresses)) (\<lambda>rows.
     let maxUtxoNum = foldl max 0 (map length rows)
     in if maxUtxoNum = 2 then Ok rows
        else rmap (\<lambda>(i, us). pad_row E fl server (f ''pad'' i) chainID maxInput spk spendingPublicKey (addresses ! i)
                               (index_at amountChanges i) us) (enumerate 0 rows))"

definition AddPaddingToUtxos ::
    "primitives \<Rightarrow> sealing \<Rightarrow> 'f float64 \<Rightarrow> balance_env \<Rightarrow> token_server \<Rightarrow> stuck_server \<Rightarrow> string result \<Rightarrow>
     (string \<Rightarrow> nat \<Rightarrow> fresh) \<Rightarrow> (string \<Rightarrow> nat \<Rightarrow> nat \<Rightarrow> fresh) \<Rightarrow> wallet \<Rightarrow> cache_device \<Rightarrow> int \<Rightarrow>
     string list \<Rightarrow> int list \<Rightarrow> nat \<Rightarrow> bool \<Rightarrow> bool \<Rightarrow> bool list \<Rightarrow> cache_device \<times> utxo list list result" where
  "AddPaddingToUtxos E S fl env server stuck ethAddress f g w d chainID addresses amountChanges maxInput0
       forceEmptyUtxos useBlockedUtxos onChainCreation =
     (let maxInput = (if maxInput0 = 0 then 6 else maxInput0) in
      case keys_of_wallet E (keys w) of
        Inl err \<Rightarrow> (d, Err err)
      | Inr (spk, spendingPublicKey) \<Rightarrow>
          if addresses = [] then (d, Ok [])
          else
            case (if useBlockedUtxos then ethAddress else Ok []) of
              Inl err \<Rightarrow> (d, Err err)
            | Inr eth \<Rightarrow>
                (case GetInputUtxoAndBalancePerToken E S env stuck f w d chainID
                        \<lparr>PassedShieldedPublicKey = [], EthAddress = eth, ResetCacheBefore = False, UseBlockedUtxos = useBlockedUtxos\<rparr>
                        2 False None addresses of
                   (d', r) \<Rightarrow>
                     (d', rbind r (\<lambda>perToken.
                          pad_array E fl server g chainID maxInput spk spendingPublicKey addresses amountChanges
                            forceEmptyUtxos onChainCreation perToken))))"


section \<open>The padding loop\<close>

definition padded_length :: "nat \<Rightarrow> nat \<Rightarrow> nat" where
  "padded_length minInput n = (if n \<le> minInput then minInput else max n 6)"

lemma pad_loop_stop:
  "\<not> (length us < m \<or> length us > m \<and> length us < 6) \<Longrightarrow> pad_loop pad m trim i us = Some (Ok us)"
  by (subst pad_loop.simps) auto

lemma pad_loop_step:
  assumes "length us < m \<or> length us > m \<and> length us < 6"
  shows "pad_loop pad m trim i us =
    (case pad i of Inl err \<Rightarrow> Some (Err err)
     | Inr u \<Rightarrow> pad_loop pad m trim (Suc i) (if trim \<and> length us \<ge> 6 then take 6 (us @ [u]) else us @ [u]))"
  using assms by (subst pad_loop.simps) (auto simp: Let_def not_less split: sum.split)

text \<open>While the cut cannot undo a step, the loop ends, having only added pads.\<close>

lemma pad_loop_ends:
  assumes "trim \<longrightarrow> m \<le> 6"
  shows "(\<exists>err. pad_loop pad m trim i us = Some (Err err)) \<or>
    (\<exists>zs. pad_loop pad m trim i us = Some (Ok (us @ zs)) \<and> length (us @ zs) = padded_length m (length us) \<and>
       (\<forall>z \<in> set zs. \<exists>j. pad j = Ok z))"
proof (induction "max m 6 - length us" arbitrary: us i rule: less_induct)
  case less
  show ?case
  proof (cases "length us < m \<or> length us > m \<and> length us < 6")
    case False
    then have "padded_length m (length us) = length us" by (auto simp: padded_length_def)
    then show ?thesis using pad_loop_stop [OF False, of pad trim i] by (intro disjI2 exI [of _ "[]"]) simp
  next
    case True
    show ?thesis
    proof (cases "pad i")
      case (Inl err)
      then show ?thesis by (simp add: pad_loop_step [OF True])
    next
      case (Inr u)
      have nocut: "\<not> (trim \<and> length us \<ge> 6)" using True assms by auto
      have len: "padded_length m (length (us @ [u])) = padded_length m (length us)"
        using True by (auto simp: padded_length_def)
      have "max m 6 - length (us @ [u]) < max m 6 - length us" using True by auto
      from less [OF this, of "Suc i"] show ?thesis
      proof (elim disjE exE conjE)
        fix zs assume z: "pad_loop pad m trim (Suc i) (us @ [u]) = Some (Ok ((us @ [u]) @ zs))"
          "length ((us @ [u]) @ zs) = padded_length m (length (us @ [u]))" "\<forall>z \<in> set zs. \<exists>j. pad j = Ok z"
        then show ?thesis using Inr nocut len
          by (intro disjI2 exI [of _ "u # zs"]) (auto simp: pad_loop_step [OF True])
      qed (use Inr nocut in \<open>auto simp: pad_loop_step [OF True]\<close>)
    qed
  qed
qed

text \<open>Cutting to six while more than six notes are asked for never ends.\<close>

lemma pad_loop_no_result:
  assumes "pad_loop pad m trim i us = Some r"
  shows "\<not> (trim \<and> 6 < m \<and> length us < m \<and> (\<forall>j. \<exists>u. pad j = Ok u))"
proof (rule pad_loop.raw_induct [of "\<lambda>pad m trim i us r. \<not> (trim \<and> 6 < m \<and> length us < m \<and> (\<forall>j. \<exists>u. pad j = Ok u))", OF _ assms])
  fix loop and pad :: "nat \<Rightarrow> utxo result" and m trim i us r
  assume IH: "\<And>pad m trim i us r. loop pad m trim i us = Some r \<Longrightarrow>
      \<not> (trim \<and> 6 < m \<and> length us < m \<and> (\<forall>j. \<exists>u. pad j = Ok u))"
    and body: "(if length us < m \<or> (length us > m \<and> length us < 6) then
        (case pad i of
           Inl err \<Rightarrow> Some (Err err)
         | Inr u \<Rightarrow>
             let us1 = us @ [u]; us2 = (if trim \<and> length us1 > 6 then take 6 us1 else us1)
             in loop pad m trim (Suc i) us2)
      else Some (Ok us)) = Some r"
  show "\<not> (trim \<and> 6 < m \<and> length us < m \<and> (\<forall>j. \<exists>u. pad j = Ok u))"
  proof
    assume a: "trim \<and> 6 < m \<and> length us < m \<and> (\<forall>j. \<exists>u. pad j = Ok u)"
    then obtain u where u: "pad i = Ok u" by blast
    let ?us = "if trim \<and> length (us @ [u]) > 6 then take 6 (us @ [u]) else us @ [u]"
    have "loop pad m trim (Suc i) ?us = Some r" using body a u by (simp add: Let_def)
    moreover have "length ?us < m" using a by (cases "6 \<le> length us") auto
    ultimately show False using IH [of pad m trim "Suc i" ?us r] a by blast
  qed
qed

lemma pad_loop_diverges:
  assumes "trim" "6 < m" "length us < m" "\<forall>j. \<exists>u. pad j = Ok u"
  shows "pad_loop pad m trim i us = None"
  using assms pad_loop_no_result [of pad m trim i us] by (cases "pad_loop pad m trim i us") auto

text \<open>The only errors are those of the pads.\<close>

lemma pad_loop_no_error:
  assumes pads: "\<forall>i. \<exists>z. pad i = Ok z"
  shows "pad_loop pad m trim i us \<noteq> Some (Err err)"
proof
  assume e: "pad_loop pad m trim i us = Some (Err err)"
  have "(\<forall>i. \<exists>z. pad i = Ok z) \<longrightarrow> (\<exists>zs. Err err = Ok (zs :: utxo list))"
  proof (rule pad_loop.raw_induct [of "\<lambda>pad m trim i us r. (\<forall>i. \<exists>z. pad i = Ok z) \<longrightarrow> (\<exists>zs. r = Ok zs)", OF _ e])
    fix loop and pad :: "nat \<Rightarrow> utxo result" and m trim i us r
    assume IH: "\<And>pad m trim i us r. loop pad m trim i us = Some r \<Longrightarrow> (\<forall>i. \<exists>z. pad i = Ok z) \<longrightarrow> (\<exists>zs. r = Ok zs)"
      and body: "(if length us < m \<or> (length us > m \<and> length us < 6) then
        (case pad i of
           Inl err \<Rightarrow> Some (Err err)
         | Inr u \<Rightarrow>
             let us1 = us @ [u]; us2 = (if trim \<and> length us1 > 6 then take 6 us1 else us1)
             in loop pad m trim (Suc i) us2)
      else Some (Ok us)) = Some r"
    show "(\<forall>i. \<exists>z. pad i = Ok z) \<longrightarrow> (\<exists>zs. r = Ok zs)"
    proof
      assume pads: "\<forall>i. \<exists>z. pad i = Ok z"
      then obtain u where "pad i = Ok u" by blast
      then show "\<exists>zs. r = Ok zs" using body IH pads by (auto simp: Let_def split: if_splits)
    qed
  qed
  then show False using pads by simp
qed

lemma zero_note_amount:
  "zero_note E f erc20 mint nk spk = Ok u \<Longrightarrow> Amount u = Some 0 \<and> Erc20TokenAddress u = erc20 \<and> MintAddress u = mint"
  unfolding zero_note_def zero_params_def no_params_def
  by (frule NewUtxo_fields(1), frule NewUtxo_fields(2), drule NewUtxo_fields(3)) simp

lemma sort_by_amount_Ok:
  "sort_by_amount us = Ok s \<longleftrightarrow> \<not> (length us > 1 \<and> list_ex (\<lambda>u. Amount u = None) us) \<and> s = sort_key (\<lambda>u. - amount_of u) us"
  by (auto simp: sort_by_amount_def)

lemma sortAndPadUtxos_two:
  assumes "sortAndPadUtxos E f us 2 False nk spk erc20 mint = Ok padded"
  obtains zs where "padded = sort_key (\<lambda>u. - amount_of u) us @ zs" "length padded = padded_length 2 (length us)"
    "\<forall>z \<in> set zs. Amount z = Some 0"
proof -
  define pad where "pad = (\<lambda>i. zero_note E (f i) erc20 mint nk spk)"
  let ?s = "sort_key (\<lambda>u. - amount_of u) us"
  have "(case pad_loop pad 2 False 0 ?s of None \<Rightarrow> Err Diverges | Some r \<Rightarrow> r) = Ok padded"
    using assms by (auto simp: sortAndPadUtxos_def rbind_Ok_iff sort_by_amount_Ok pad_def)
  with pad_loop_ends [of False 2 pad 0 ?s] obtain zs where
    "padded = ?s @ zs" "length padded = padded_length 2 (length us)" "\<forall>z \<in> set zs. \<exists>j. pad j = Ok z" by auto
  then show thesis using that zero_note_amount unfolding pad_def by metis
qed

section \<open>Grouping\<close>

definition token_notes :: "int \<Rightarrow> string \<Rightarrow> utxo list \<Rightarrow> utxo list" where
  "token_notes chainID address us =
     filter (\<lambda>u. \<exists>a. GetTokenAddress (IsSolanaLike chainID) u = Ok a \<and> encodeTokenWithID chainID a = encodeTokenWithID chainID address) us"

lemma group_step_notes:
  "mget (foldl (group_step chainID None) [] us) (encodeTokenWithID chainID address) =
     (let ns = token_notes chainID address us in if ns = [] then None else Some ns)"
proof (induction us rule: rev_induct)
  case (snoc u us)
  then show ?case
    by (cases "GetTokenAddress (IsSolanaLike chainID) u")
       (auto simp: group_step_def token_notes_def Let_def split: if_splits)
qed (simp add: token_notes_def)

lemma add_key_mget:
  "mget (foldl (add_key chainID) m ensured) k =
     (if mget m k = None \<and> k \<in> encodeTokenWithID chainID ` set ensured then Some [] else mget m k)"
proof (induction ensured arbitrary: m)
  case (Cons item ensured)
  then show ?case by (cases "mget m (encodeTokenWithID chainID item)") (auto simp: add_key_def Let_def)
qed simp

lemma group_by_token_notes:
  assumes "address \<in> set ensured"
  shows "mget (group_by_token chainID None ensured us) (encodeTokenWithID chainID address) = Some (token_notes chainID address us)"
  using assms by (auto simp: group_by_token_def add_key_mget group_step_notes Let_def)

lemma rmap_pairs_mget:
  assumes "rmap f m = Ok m'" "\<And>k v k' v'. f (k, v) = Ok (k', v') \<Longrightarrow> k' = k" "mget m k = Some v"
  shows "\<exists>v'. f (k, v) = Ok (k, v') \<and> mget m' k = Some v'"
  using assms
proof (induction m arbitrary: m')
  case (Cons kv m)
  obtain k0 v0 where kv: "kv = (k0, v0)" by fastforce
  obtain y ys where y: "f (k0, v0) = Ok y" "rmap f m = Ok ys" "m' = y # ys"
    using Cons.prems(1) by (auto simp: kv rbind_Ok_iff)
  then obtain v0' where v0': "y = (k0, v0')" using Cons.prems(2) by (metis surj_pair)
  show ?case
  proof (cases "k = k0")
    case True
    then show ?thesis using Cons.prems(3) y v0' by (simp add: kv mget_def)
  next
    case False
    then show ?thesis using Cons.IH [OF y(2) Cons.prems(2)] Cons.prems(3) y v0' by (simp add: kv mget_def)
  qed
qed simp


section \<open>One token's row\<close>

lemma pad_key_two:
  assumes "pad_key E f chainID 2 False spk pub (key, us) = Ok (k', padded)"
  shows "k' = key" and "\<exists>zs. padded = sort_key (\<lambda>u. - amount_of u) us @ zs \<and> length padded = padded_length 2 (length us) \<and>
    (\<forall>z \<in> set zs. Amount z = Some 0)"
proof -
  from assms obtain erc20 mint where k: "k' = key"
    and s: "sortAndPadUtxos E (f key) us 2 False spk pub erc20 mint = Ok padded"
    by (auto simp: pad_key_def rbind_Ok_iff split: if_splits prod.splits)
  show "k' = key" by (rule k)
  from sortAndPadUtxos_two [OF s] show "\<exists>zs. padded = sort_key (\<lambda>u. - amount_of u) us @ zs \<and>
      length padded = padded_length 2 (length us) \<and> (\<forall>z \<in> set zs. Amount z = Some 0)" by metis
qed

lemma zero_notes:
  assumes "buildZeroUtxos E f chainID address spk pub k = Ok zs"
  shows "length zs = k" "\<forall>z \<in> set zs. Amount z = Some 0"
proof -
  have r: "rmap (\<lambda>i. buildZeroUtxo E (f i) chainID address spk pub) [0 ..< k] = Ok zs"
    using assms by (simp add: buildZeroUtxos_def)
  from rmap_Ok_length [OF r] show "length zs = k" by simp
  show "\<forall>z \<in> set zs. Amount z = Some 0"
  proof
    fix z assume "z \<in> set zs"
    then obtain i where "buildZeroUtxo E (f i) chainID address spk pub = Ok z"
      using r by (auto simp: rmap_Ok_iff list_all2_conv_all_nth in_set_conv_nth)
    then show "Amount z = Some 0"
      by (auto simp: buildZeroUtxo_def rbind_Ok_iff split: if_splits dest: zero_note_amount)
  qed
qed

lemma foldl_max: "foldl max (a :: nat) xs = fold max xs a"
  by (induction xs arbitrary: a) (simp_all add: max.commute)

lemma fold_max_bounds: "(\<forall>x \<in> set xs. x \<le> fold max xs a) \<and> a \<le> fold max xs (a :: nat)"
  by (induction xs arbitrary: a) (auto intro: order_trans [OF max.cobounded1] order_trans [OF max.cobounded2])

lemma fold_max_zero: "\<forall>x \<in> set xs. x = 0 \<Longrightarrow> fold max xs (0 :: nat) = 0"
  by (induction xs) auto

text \<open>Before the last step every row is empty (when forced), a pair, or at least six notes long.\<close>

definition row_shape :: "bool \<Rightarrow> utxo list \<Rightarrow> bool" where
  "row_shape force row \<longleftrightarrow> (if force then row = [] else length row = 2 \<or> 6 \<le> length row)"

lemma pad_row_length:
  assumes "pad_row E fl server f chainID maxInput spk pub address change us = Ok row"
  shows "length row = maxInput"
  using assms zero_notes(1)
  by (fastforce simp: pad_row_def rbind_Ok_iff Let_def split: if_splits)

lemma pad_array_rectangular:
  assumes "pad_array E fl server g chainID maxInput spk pub addresses changes force onChain perToken = Ok rows"
    and "\<And>i row. i < length addresses \<Longrightarrow>
      choose_row E (g ''row'' i) chainID spk pub force onChain perToken (i, addresses ! i) = Ok row \<Longrightarrow> row_shape force row"
  shows "length rows = length addresses \<and> (\<exists>k \<in> {2, maxInput}. \<forall>row \<in> set rows. length row = k)"
proof -
  obtain rows0 where r0: "rmap (\<lambda>(i, a). choose_row E (g ''row'' i) chainID spk pub force onChain perToken (i, a)) (enumerate 0 addresses) = Ok rows0"
    and r: "(let maxUtxoNum = foldl max 0 (map length rows0) in if maxUtxoNum = 2 then Ok rows0
        else rmap (\<lambda>(i, us). pad_row E fl server (g ''pad'' i) chainID maxInput spk pub (addresses ! i) (index_at changes i) us)
               (enumerate 0 rows0)) = Ok rows"
    using assms(1) by (auto simp: pad_array_def rbind_Ok_iff)
  have l0: "length rows0 = length addresses" using rmap_Ok_length [OF r0] by simp
  have shape: "row_shape force row" if "row \<in> set rows0" for row
  proof -
    obtain i where i: "i < length rows0" "row = rows0 ! i" using \<open>row \<in> set rows0\<close> by (auto simp: in_set_conv_nth)
    then have "choose_row E (g ''row'' i) chainID spk pub force onChain perToken (i, addresses ! i) = Ok row"
      using rmap_Ok_nth [OF r0, of i] l0 by (simp add: nth_enumerate_eq)
    then show ?thesis using assms(2) i l0 by simp
  qed
  show ?thesis
  proof (cases "foldl max 0 (map length rows0) = 2")
    case True
    then have "length row \<le> 2" if "row \<in> set rows0" for row
      using that fold_max_bounds [of "map length rows0" 0] by (auto simp: foldl_max)
    moreover have "rows = rows0" using r True by simp
    moreover have "\<not> (force \<and> rows0 \<noteq> [])"
    proof
      assume f: "force \<and> rows0 \<noteq> []"
      then have "\<forall>x \<in> set (map length rows0). x = 0" using shape by (auto simp: row_shape_def)
      then have "fold max (map length rows0) 0 = 0" by (rule fold_max_zero)
      then show False using True by (simp add: foldl_max)
    qed
    ultimately have "length row = 2" if "row \<in> set rows" for row
      using that shape [of row] by (cases force) (fastforce simp: row_shape_def)+
    then show ?thesis using l0 \<open>rows = rows0\<close> by simp
  next
    case False
    then have r': "rmap (\<lambda>(i, us). pad_row E fl server (g ''pad'' i) chainID maxInput spk pub (addresses ! i) (index_at changes i) us)
               (enumerate 0 rows0) = Ok rows" using r by simp
    have l: "length rows = length rows0" using rmap_Ok_length [OF r'] by simp
    have "length row = maxInput" if "row \<in> set rows" for row
    proof -
      obtain i where i: "i < length rows" "row = rows ! i" using \<open>row \<in> set rows\<close> by (auto simp: in_set_conv_nth)
      then have "pad_row E fl server (g ''pad'' i) chainID maxInput spk pub (addresses ! i) (index_at changes i) (rows0 ! i) = Ok row"
        using rmap_Ok_nth [OF r', of i] l by (simp add: nth_enumerate_eq)
      then show ?thesis by (rule pad_row_length)
    qed
    then show ?thesis using l l0 by auto
  qed
qed


lemma countTotalAmount_sum:
  assumes "countTotalAmount us = Ok t"
  shows "t = sum_list (map amount_of us)"
proof -
  obtain as where "rmap (\<lambda>u. case Amount u of None \<Rightarrow> Err Panic | Some a \<Rightarrow> Ok a) us = Ok as" "t = sum_list as"
    using assms by (auto simp: countTotalAmount_def rbind_Ok_iff)
  moreover from this(1) have "as = map amount_of us"
    by (induction us arbitrary: as) (auto simp: rbind_Ok_iff amount_of_def split: option.splits)
  ultimately show ?thesis by simp
qed

section \<open>The whole array\<close>

lemma padded_rows:
  assumes "rmap (pad_key E f chainID 2 False spk pub) (group_by_token chainID None addresses us) = Ok perToken"
    and "address \<in> set addresses"
  obtains zs row where "mget perToken (encodeTokenWithID chainID address) = Some row"
    "row = sort_key (\<lambda>u. - amount_of u) (token_notes chainID address us) @ zs" "\<forall>z \<in> set zs. Amount z = Some 0"
    "length row = padded_length 2 (length (token_notes chainID address us))"
proof -
  let ?key = "encodeTokenWithID chainID address"
  have "\<exists>row. pad_key E f chainID 2 False spk pub (?key, token_notes chainID address us) = Ok (?key, row) \<and> mget perToken ?key = Some row"
    using rmap_pairs_mget [OF assms(1) _ group_by_token_notes [OF assms(2)]] pad_key_two(1) by blast
  then obtain row where k: "pad_key E f chainID 2 False spk pub (?key, token_notes chainID address us) = Ok (?key, row)"
    and m: "mget perToken ?key = Some row" by blast
  from pad_key_two(2) [OF k] m show thesis using that by blast
qed

text \<open>What a successful run consists of.\<close>

lemma AddPadding_run:
  assumes "AddPaddingToUtxos E S fl env server stuck ethAddress f g w d chainID addresses changes maxInput0 force useBlocked onChain = (d', Ok rows)"
    and "addresses \<noteq> []"
  obtains spk pub eth us perToken where
    "fetch_notes E S env stuck w d chainID \<lparr>PassedShieldedPublicKey = [], EthAddress = eth, ResetCacheBefore = False, UseBlockedUtxos = useBlocked\<rparr> = (d', Ok us)"
    "rmap (pad_key E f chainID 2 False spk pub) (group_by_token chainID None addresses us) = Ok perToken"
    "pad_array E fl server g chainID (if maxInput0 = 0 then 6 else maxInput0) spk pub addresses changes force onChain perToken = Ok rows"
proof -
  obtain spk pub where k: "keys_of_wallet E (keys w) = Ok (spk, pub)"
    using assms by (cases "keys_of_wallet E (keys w)") (auto simp: AddPaddingToUtxos_def Let_def)
  then have k': "wallet_keys E (keys w) = Ok (spk, pub)"
    by (auto simp: keys_of_wallet_def wallet_keys_def rbind_Ok_iff)
  obtain eth where e: "(if useBlocked then ethAddress else Ok []) = Ok eth"
    using assms k by (cases "if useBlocked then ethAddress else Ok []") (auto simp: AddPaddingToUtxos_def Let_def)
  let ?p = "\<lparr>PassedShieldedPublicKey = [], EthAddress = eth, ResetCacheBefore = False, UseBlockedUtxos = useBlocked\<rparr>"
  obtain d1 r where fetch: "fetch_notes E S env stuck w d chainID ?p = (d1, r)" by fastforce
  obtain us perToken where "d1 = d'" "r = Ok us"
    "rmap (pad_key E f chainID 2 False spk pub) (group_by_token chainID None addresses us) = Ok perToken"
    "pad_array E fl server g chainID (if maxInput0 = 0 then 6 else maxInput0) spk pub addresses changes force onChain perToken = Ok rows"
    using assms k k' e fetch
    by (auto simp: AddPaddingToUtxos_def Let_def GetInputUtxoAndBalancePerToken_def rbind_Ok_iff split: if_splits)
  with fetch show thesis by (intro that [of eth us spk pub perToken]) auto
qed

section \<open>A run\<close>

lemma toy_zero: "\<exists>z. zero_note toy_hex (5, Ok 3) erc20 mint ''7'' pub = Ok z"
proof -
  have "case rbind (FindCorrectRandomization toy_hex 3 ''7'') (\<lambda>r. FindH0 toy_hex r ''7'') of Inr (Some h) \<Rightarrow> True | _ \<Rightarrow> False"
    by code_simp
  then obtain r h where "FindCorrectRandomization toy_hex 3 ''7'' = Ok r" "FindH0 toy_hex r ''7'' = Ok (Some h)"
    by (auto simp: rbind_def split: sum.splits option.splits)
  then show ?thesis by (simp add: zero_note_def NewUtxo_def zero_params_def no_params_def Let_def)
qed

lemma toy_poseidon_hex: "xs \<noteq> [] \<Longrightarrow> \<exists>h \<ge> 0. PoseidonBig toy_hex xs = Ok h"
  by (simp add: PoseidonBig_def toy_hex_def toy_def)

lemma toy_keys: "\<exists>pub. keys_of_wallet toy_hex (keys toy_wallet) = Ok (''7'', pub)"
proof -
  have "ParseBigInt ''5'' = Ok 5" by code_simp
  moreover obtain h where "PoseidonBig toy_hex [1, 5] = Ok h" using toy_poseidon_hex [of "[1, 5]"] by auto
  ultimately show ?thesis
    by (simp add: keys_of_wallet_def GetSpendingKeyPair_def requireSignature_def toy_wallet_def GetShieldedPrivateKey_def Let_def)
qed

lemma toy_public: "\<exists>pub. snd (GetShieldedPublicKey toy_hex (keys toy_wallet)) = Ok pub \<and> pub \<noteq> []"
proof -
  have "ParseBigInt ''7'' = Ok 7" by code_simp
  moreover obtain h where "PoseidonBig toy_hex [7] = Ok h" using toy_poseidon_hex [of "[7]"] by auto
  ultimately show ?thesis
    by (simp add: GetShieldedPublicKey_def GetShieldedPrivateKey_def toy_wallet_def ToBeHex_nonempty)
qed

lemma toy_rows:
  "\<exists>d' z. AddPaddingToUtxos toy_hex toy_onchain fl toy_env server stuck ethAddress (\<lambda>t i. (5, Ok 3)) g toy_wallet (MemoryCacheDevice []) 1
     [''0x04''] [-3] 0 False False [] = (d', Ok [[nullified toy_hex toy_seen, z]])"
proof -
  obtain pub where k: "keys_of_wallet toy_hex (keys toy_wallet) = Ok (''7'', pub)" using toy_keys by blast
  then have k': "wallet_keys toy_hex (keys toy_wallet) = Ok (''7'', pub)"
    by (auto simp: keys_of_wallet_def wallet_keys_def rbind_Ok_iff)
  obtain pk where pk: "snd (GetShieldedPublicKey toy_hex (keys toy_wallet)) = Ok pk" "pk \<noteq> []" using toy_public by blast
  let ?p = "\<lparr>PassedShieldedPublicKey = [], EthAddress = [], ResetCacheBefore = False, UseBlockedUtxos = False\<rparr>"
  obtain d' where fetch: "GetInputUtxoAndBalance toy_hex toy_onchain toy_env toy_wallet (MemoryCacheDevice []) 1 ?p = (d', Ok [nullified toy_hex toy_seen])"
    using toy_run [of ?p pk] pk by (auto simp: orElse_def toy_env_def)
  obtain z where z: "zero_note toy_hex (5, Ok 3) ''0x04'' [] ''7'' pub = Ok z" using toy_zero by blast
  have sol: "\<not> IsSolanaLike 1" by code_simp
  have low: "ToLower ''0x04'' = ''0x04''" by (simp add: ToLower_def to_lower_def)
  have grp: "group_by_token 1 None [''0x04''] [nullified toy_hex toy_seen] = [(''0x04'', [nullified toy_hex toy_seen])]"
    using sol by (simp add: group_by_token_def group_step_def GetTokenAddress_def toy_seen_def Let_def encodeTokenWithID_def low mget_def mput_def add_key_def)
  have pad: "sortAndPadUtxos toy_hex (\<lambda>i. (5, Ok 3)) [nullified toy_hex toy_seen] 2 False ''7'' pub ''0x04'' [] =
      Ok [nullified toy_hex toy_seen, z]"
    using z by (simp add: sortAndPadUtxos_def sort_by_amount_def pad_loop.simps Let_def)
  have per: "rmap (pad_key toy_hex (\<lambda>t i. (5, Ok 3)) 1 2 False ''7'' pub) [(''0x04'', [nullified toy_hex toy_seen])]
      = Ok [(''0x04'', [nullified toy_hex toy_seen, z])]"
    using sol pad by (simp add: pad_key_def low)
  have arr: "pad_array toy_hex fl server g 1 6 ''7'' pub [''0x04''] [-3] False [] [(''0x04'', [nullified toy_hex toy_seen, z])]
      = Ok [[nullified toy_hex toy_seen, z]]"
    using sol by (simp add: pad_array_def choose_row_def encodeTokenWithID_def low mget_def Let_def enumerate_eq_zip)
  show ?thesis
    using fetch grp per arr
    by (simp add: AddPaddingToUtxos_def k GetInputUtxoAndBalancePerToken_def k' fetch_notes_def Let_def)
qed

section \<open>Properties\<close>



text \<open>C22. Padding keeps what can be spent: the row of a token consists of the largest notes the wallet has
  for it, largest first, and zero notes after them; notes are only left out when the row is full, and
  then the notes kept cover the amount to be spent whenever all notes together would, or the run
  stops with an error.\<close>

theorem padding_keeps_largest_notes:
  assumes "AddPaddingToUtxos E S fl env server stuck ethAddress f g w d chainID addresses changes maxInput False useBlocked onChain = (d', Ok rows)"
    and "i < length addresses" "i < length changes" "\<not> (i < length onChain \<and> onChain ! i)"
  shows "\<exists>eth us k zs.
    fetch_notes E S env stuck w d chainID \<lparr>PassedShieldedPublicKey = [], EthAddress = eth, ResetCacheBefore = False, UseBlockedUtxos = useBlocked\<rparr> = (d', Ok us) \<and>
    (let sorted = sort_key (\<lambda>u. - amount_of u) (token_notes chainID (addresses ! i) us) in
     rows ! i = take k sorted @ zs \<and> (\<forall>z \<in> set zs. Amount z = Some 0) \<and>
     (k < length sorted \<longrightarrow> length (rows ! i) = k \<and> (changes ! i < 0 \<longrightarrow> - changes ! i \<le> sum_list (map amount_of (rows ! i)))))"
proof -
  have ne: "addresses \<noteq> []" using assms(2) by auto
  obtain spk pub eth us perToken where
    fetch: "fetch_notes E S env stuck w d chainID \<lparr>PassedShieldedPublicKey = [], EthAddress = eth, ResetCacheBefore = False, UseBlockedUtxos = useBlocked\<rparr> = (d', Ok us)" and
    per: "rmap (pad_key E f chainID 2 False spk pub) (group_by_token chainID None addresses us) = Ok perToken" and
    arr: "pad_array E fl server g chainID (if maxInput = 0 then 6 else maxInput) spk pub addresses changes False onChain perToken = Ok rows"
    by (rule AddPadding_run [OF assms(1) ne])
  define sorted where "sorted = sort_key (\<lambda>u. - amount_of u) (token_notes chainID (addresses ! i) us)"
  obtain r0 zs0 where m: "mget perToken (encodeTokenWithID chainID (addresses ! i)) = Some r0"
    and r0: "r0 = sorted @ zs0" "\<forall>z \<in> set zs0. Amount z = Some 0"
    using padded_rows [OF per nth_mem [OF assms(2)]] unfolding sorted_def by metis
  obtain rows0 where rows0: "rmap (\<lambda>(i, a). choose_row E (g ''row'' i) chainID spk pub False onChain perToken (i, a)) (enumerate 0 addresses) = Ok rows0"
    and r: "(let maxUtxoNum = foldl max 0 (map length rows0) in if maxUtxoNum = 2 then Ok rows0
        else rmap (\<lambda>(i, us). pad_row E fl server (g ''pad'' i) chainID (if maxInput = 0 then 6 else maxInput) spk pub (addresses ! i) (index_at changes i) us)
               (enumerate 0 rows0)) = Ok rows"
    using arr by (auto simp: pad_array_def rbind_Ok_iff)
  have l0: "length rows0 = length addresses" using rmap_Ok_length [OF rows0] by simp
  have row0: "rows0 ! i = r0"
    using rmap_Ok_nth [OF rows0, of i] assms(2,4) m by (simp add: nth_enumerate_eq choose_row_def)
  have "\<exists>k zs. rows ! i = take k sorted @ zs \<and> (\<forall>z \<in> set zs. Amount z = Some 0) \<and>
     (k < length sorted \<longrightarrow> length (rows ! i) = k \<and> (changes ! i < 0 \<longrightarrow> - changes ! i \<le> sum_list (map amount_of (rows ! i))))"
  proof (cases "foldl max 0 (map length rows0) = 2")
    case True
    then have "rows ! i = sorted @ zs0" using r row0 r0(1) by simp
    then show ?thesis using r0(2) by (intro exI [of _ "length sorted"] exI [of _ zs0]) simp
  next
    case False
    let ?m = "if maxInput = 0 then 6 else maxInput"
    have r': "rmap (\<lambda>(i, us). pad_row E fl server (g ''pad'' i) chainID ?m spk pub (addresses ! i) (index_at changes i) us)
               (enumerate 0 rows0) = Ok rows" using r False by simp
    have p: "pad_row E fl server (g ''pad'' i) chainID ?m spk pub (addresses ! i) (index_at changes i) r0 = Ok (rows ! i)"
      using rmap_Ok_nth [OF r', of i] l0 assms(2) row0 by (simp add: nth_enumerate_eq)
    show ?thesis
    proof (cases "length r0 > ?m")
      case True
      have t: "rows ! i = take ?m r0" "countTotalAmount (take ?m r0) = Ok (sum_list (map amount_of (take ?m r0))) \<Longrightarrow>
          changes ! i < 0 \<Longrightarrow> - changes ! i \<le> sum_list (map amount_of (take ?m r0))"
        using p True assms(3) unfolding pad_row_def by (auto simp: Let_def rbind_Ok_iff simp del: length_take split: if_splits)
      obtain total where c: "countTotalAmount (take ?m r0) = Ok total"
        using p True unfolding pad_row_def by (auto simp: Let_def rbind_Ok_iff)
      have "total = sum_list (map amount_of (take ?m r0))" using countTotalAmount_sum [OF c] .
      with t c have "changes ! i < 0 \<longrightarrow> - changes ! i \<le> sum_list (map amount_of (rows ! i))" by simp
      moreover have "rows ! i = take ?m sorted @ take (?m - length sorted) zs0" using t(1) r0(1) by simp
      moreover have "\<forall>z \<in> set (take (?m - length sorted) zs0). Amount z = Some 0" using r0(2) by (auto dest: in_set_takeD)
      moreover have "?m < length sorted \<longrightarrow> length (rows ! i) = ?m" using t(1) True by (simp del: length_append add: min_def)
      ultimately show ?thesis by blast
    next
      case False
      then obtain pads where "buildZeroUtxos E (g ''pad'' i) chainID (addresses ! i) spk pub (?m - length r0) = Ok pads"
        "rows ! i = r0 @ pads"
        using p by (auto simp: pad_row_def rbind_Ok_iff)
      then show ?thesis using r0 zero_notes(2)
        by (intro exI [of _ "length sorted"] exI [of _ "zs0 @ pads"]) fastforce
    qed
  qed
  then show ?thesis using fetch unfolding sorted_def Let_def by blast
qed

lemma padding_keeps_largest_notes_witness:
  "\<forall>fl :: unit float64. \<forall>server g. \<exists>d' row eth us k zs.
     AddPaddingToUtxos toy_hex toy_onchain fl toy_env server (\<lambda>ns. Ok []) (Ok []) (\<lambda>t i. (5, Ok 3)) g
       toy_wallet (MemoryCacheDevice []) 1 [''0x04''] [-3] 0 False False [] = (d', Ok [row]) \<and>
     fetch_notes toy_hex toy_onchain toy_env (\<lambda>ns. Ok []) toy_wallet (MemoryCacheDevice []) 1
       \<lparr>PassedShieldedPublicKey = [], EthAddress = eth, ResetCacheBefore = False, UseBlockedUtxos = False\<rparr> = (d', Ok us) \<and>
     row = take k (sort_key (\<lambda>u. - amount_of u) (token_notes 1 ''0x04'' us)) @ zs \<and> (\<forall>z \<in> set zs. Amount z = Some 0)"
proof (intro allI)
  fix fl :: "unit float64" and server g
  obtain d' row where run: "AddPaddingToUtxos toy_hex toy_onchain fl toy_env server (\<lambda>ns. Ok []) (Ok []) (\<lambda>t i. (5, Ok 3)) g
       toy_wallet (MemoryCacheDevice []) 1 [''0x04''] [-3] 0 False False [] = (d', Ok [row])"
    using toy_rows by blast
  show "\<exists>d' row eth us k zs.
     AddPaddingToUtxos toy_hex toy_onchain fl toy_env server (\<lambda>ns. Ok []) (Ok []) (\<lambda>t i. (5, Ok 3)) g
       toy_wallet (MemoryCacheDevice []) 1 [''0x04''] [-3] 0 False False [] = (d', Ok [row]) \<and>
     fetch_notes toy_hex toy_onchain toy_env (\<lambda>ns. Ok []) toy_wallet (MemoryCacheDevice []) 1
       \<lparr>PassedShieldedPublicKey = [], EthAddress = eth, ResetCacheBefore = False, UseBlockedUtxos = False\<rparr> = (d', Ok us) \<and>
     row = take k (sort_key (\<lambda>u. - amount_of u) (token_notes 1 ''0x04'' us)) @ zs \<and> (\<forall>z \<in> set zs. Amount z = Some 0)"
    using padding_keeps_largest_notes [OF run, of 0] run unfolding Let_def by (simp, blast)
qed

text \<open>C23. Padding one token's notes ends for every list of notes unless the list is cut to six while a longer
  one is wanted: then each cut undoes the step before it and the call never returns. Otherwise the
  result is the sorted notes followed by zero notes, and its length is the wanted one, or six, or the
  number of notes when there are more.\<close>

theorem padding_ends:
  assumes "\<forall>u \<in> set us. Amount u \<noteq> None" "\<forall>i. \<exists>z. zero_note E (f i) erc20 mint nk spk = Ok z"
  shows "if trim \<and> 6 < minInput \<and> length us < minInput
         then sortAndPadUtxos E f us minInput trim nk spk erc20 mint = Err Diverges
         else \<exists>zs. sortAndPadUtxos E f us minInput trim nk spk erc20 mint = Ok (sort_key (\<lambda>u. - amount_of u) us @ zs) \<and>
                length us + length zs = padded_length minInput (length us) \<and> (\<forall>z \<in> set zs. Amount z = Some 0)"
proof -
  define pad where "pad = (\<lambda>i. zero_note E (f i) erc20 mint nk spk)"
  let ?s = "sort_key (\<lambda>u. - amount_of u) us"
  have s: "sort_by_amount us = Ok ?s" using assms(1) by (auto simp: sort_by_amount_Ok list_ex_iff)
  have pads: "\<forall>i. \<exists>z. pad i = Ok z" using assms(2) by (simp add: pad_def)
  show ?thesis
  proof (cases "trim \<and> 6 < minInput \<and> length us < minInput")
    case True
    then have "pad_loop pad minInput trim 0 ?s = None" using pads by (intro pad_loop_diverges) simp_all
    then show ?thesis using True s by (simp add: sortAndPadUtxos_def pad_def)
  next
    case False
    have "\<exists>zs. pad_loop pad minInput trim 0 ?s = Some (Ok (?s @ zs)) \<and>
        length (?s @ zs) = padded_length minInput (length ?s) \<and> (\<forall>z \<in> set zs. \<exists>j. pad j = Ok z)"
    proof (cases "trim \<and> 6 < minInput")
      case True
      then have "pad_loop pad minInput trim 0 ?s = Some (Ok ?s)" "padded_length minInput (length us) = length us"
        using False by (auto intro!: pad_loop_stop simp: padded_length_def)
      then show ?thesis by (intro exI [of _ "[]"]) simp
    next
      case False
      then have "trim \<longrightarrow> minInput \<le> 6" by auto
      from pad_loop_ends [OF this, of pad 0 ?s] pad_loop_no_error [OF pads] show ?thesis by blast
    qed
    then obtain zs where zs: "pad_loop pad minInput trim 0 ?s = Some (Ok (?s @ zs))"
      "length (?s @ zs) = padded_length minInput (length ?s)" "\<forall>z \<in> set zs. \<exists>j. pad j = Ok z" by blast
    have "sortAndPadUtxos E f us minInput trim nk spk erc20 mint = Ok (?s @ zs)"
      using zs(1) s by (simp add: sortAndPadUtxos_def pad_def)
    moreover have "\<forall>z \<in> set zs. Amount z = Some 0" using zs(3) zero_note_amount unfolding pad_def by blast
    ultimately show ?thesis using False zs(2) by auto
  qed
qed

lemma padding_ends_witness:
  "\<exists>z. sortAndPadUtxos toy_hex (\<lambda>i. (5, Ok 3)) [toy_seen] 2 True ''7'' [] ''0x04'' [] = Ok [toy_seen, z] \<and> Amount z = Some 0"
proof -
  have a: "\<forall>u \<in> set [toy_seen]. Amount u \<noteq> None" by (simp add: toy_seen_def)
  have z: "\<forall>i :: nat. \<exists>z. zero_note toy_hex (5, Ok 3) ''0x04'' [] ''7'' [] = Ok z" using toy_zero by blast
  from padding_ends [OF a z, of True 2] obtain zs where
    "sortAndPadUtxos toy_hex (\<lambda>i. (5, Ok 3)) [toy_seen] 2 True ''7'' [] ''0x04'' [] = Ok ([toy_seen] @ zs)"
    "length zs = 1" "\<forall>z \<in> set zs. Amount z = Some 0" by (auto simp: padded_length_def)
  then show ?thesis by (cases zs) auto
qed

end
