(* ===== verification/Recipients.thy ===== *)
theory Recipients
  imports Padding
begin

text \<open>
  \<open>internal/functions/pre-transaction/recipient.go\<close> and \<open>recipient_utxo_processing.go\<close>: the text a
  recipient publishes to be paid privately (stealth address, two curve points and an encryption key,
  separated by commas), and the notes made for it.
\<close>

section \<open>The recipient text\<close>

definition strings_contains :: "string \<Rightarrow> string \<Rightarrow> bool" where
  "strings_contains s sub = list_ex (\<lambda>i. has_prefix (drop i s) sub) [0 ..< length s + 1]"

definition rejectURLs :: "string list" where
  "rejectURLs = [''http://'', ''https://'', ''/payment/'', ''.app/'', ''.com/'', ''.netlify.'']"

definition IsValidPrivateAddress :: "string \<Rightarrow> bool" where
  "IsValidPrivateAddress address =
     (if list_ex (strings_contains address) rejectURLs then False
      else
        let parts = Split address CHR '','' in
        if length parts < 6 then False
        else if list_ex (\<lambda>p. p = []) (take 6 parts) then False
        else if \<not> has_prefix (parts ! 0) ''0x'' \<or> \<not> has_prefix (parts ! 5) ''0x'' then False
        else if length (parts ! 5) \<noteq> 66 \<or> length (parts ! 0) > 66 \<or> length (parts ! 0) < 64 then False
        else \<not> strings_contains address [CHR 0x22])"

record stealth_structure =
  ssH0x :: int
  ssH0y :: int
  ssH1x :: int
  ssH1y :: int
  ssStealthAddress :: int

definition ConstructStealthAddressStructure :: "string \<Rightarrow> stealth_structure result" where
  "ConstructStealthAddressStructure recipientInfo =
     (let parts = Split recipientInfo CHR '','' in
      if length parts < 5 then Err (Errorf ''constructStealthAddressStructure: malformed recipient info'')
      else
        rbind (ParseBigInt (parts ! 0)) (\<lambda>stealthAddress.
        rbind (ParseBigInt (parts ! 1)) (\<lambda>h00.
        rbind (ParseBigInt (parts ! 2)) (\<lambda>h01.
        rbind (ParseBigInt (parts ! 3)) (\<lambda>h10.
        rbind (ParseBigInt (parts ! 4)) (\<lambda>h11.
        Ok \<lparr>ssH0x = h00, ssH0y = h01, ssH1x = h10, ssH1y = h11, ssStealthAddress = stealthAddress\<rparr>))))))"

definition GetEncryptionKeyFromRecipientInfo :: "string \<Rightarrow> string result" where
  "GetEncryptionKeyFromRecipientInfo recipientInfo =
     (let parts = Split recipientInfo CHR '','' in
      if length parts < 6 \<or> parts ! 5 = []
      then Err (Errorf ''getEncryptionKeyFromRecipientInfo: recipient info is missing an encryption key'')
      else Ok (parts ! 5))"

fun join_comma :: "string list \<Rightarrow> string" where
  "join_comma [] = []"
| "join_comma [p] = p"
| "join_comma (p # ps) = p @ [CHR '',''] @ join_comma ps"

definition GetRecipientInfoFromUserKeys :: "primitives \<Rightarrow> sealing \<Rightarrow> fresh \<Rightarrow> user_keys \<Rightarrow> string result" where
  "GetRecipientInfoFromUserKeys E S f uk =
     rbind (snd (GetShieldedPrivateKey E uk)) (\<lambda>nk.
     rbind (GetEncryptionKeyPair E S nk) (\<lambda>encPair.
     rbind (GetSpendingKeyPair E uk) (\<lambda>pair.
     rbind (zero_note E f ZeroAddress [] nk [fst (PubSpendingBJJPoint pair), snd (PubSpendingBJJPoint pair)]) (\<lambda>u.
     case H0 u of
       None \<Rightarrow> Err (Errorf ''getRecipientInfoFromUserKeys: H0 is not set'')
     | Some h0 \<Rightarrow>
         rbind (snd (GetStealthAddress E u)) (\<lambda>stealthAddress.
         rbind (GetH1FromH0 E h0 nk) (\<lambda>h1.
         Ok (join_comma [stealthAddress, int_String (fst h0), int_String (snd h0),
                         int_String (fst h1), int_String (snd h1), snd encPair])))))))"

definition GetStealthAddressStructureFromUserKeys :: "primitives \<Rightarrow> sealing \<Rightarrow> fresh \<Rightarrow> user_keys \<Rightarrow> stealth_structure result" where
  "GetStealthAddressStructureFromUserKeys E S f uk =
     rbind (GetRecipientInfoFromUserKeys E S f uk) ConstructStealthAddressStructure"

section \<open>Notes for a recipient\<close>

text \<open>The point and the two texts a note for the recipient takes from the recipient text.\<close>

definition recipient_parts :: "string \<Rightarrow> string \<Rightarrow> (string \<times> jub_point \<times> string) result" where
  "recipient_parts malformed recipientInfo =
     (let parts = Split recipientInfo CHR '','' in
      if length parts < 6 then Err (Errorf malformed)
      else rbind (ParseBigInt (parts ! 1)) (\<lambda>h00.
           rbind (ParseBigInt (parts ! 2)) (\<lambda>h01.
           Ok (parts ! 0, (h00, h01), parts ! 5))))"

definition recipient_params :: "int \<Rightarrow> string \<Rightarrow> string \<Rightarrow> string \<Rightarrow> string \<times> jub_point \<times> string \<Rightarrow> utxo_params" where
  "recipient_params amount erc20 mint ts = (\<lambda>(stealthAddress, h0, encryptionKey).
     no_params\<lparr>pAmount := Some amount, pErc20TokenAddress := erc20, pMintAddress := mint, pTimeStamp := ts,
       pH0 := Some h0, pStealthAddress := stealthAddress, pEncryptionKey := encryptionKey\<rparr>)"

definition recipient_note :: "primitives \<Rightarrow> fresh \<Rightarrow> int \<Rightarrow> string \<Rightarrow> string \<Rightarrow> string \<Rightarrow> string \<times> jub_point \<times> string \<Rightarrow> utxo result" where
  "recipient_note E f amount erc20 mint ts r = NewUtxo E (fst f) (snd f) (recipient_params amount erc20 mint ts r)"

record private_recipient_info =
  RecipientInfo :: string
  RecipientAmount :: int
  RecipientToken :: erc20_token

fun row_with_token :: "nat \<Rightarrow> utxo list list \<Rightarrow> string \<Rightarrow> nat option" where
  "row_with_token i [] token = None"
| "row_with_token i (row # rows) token =
     (if list_ex (\<lambda>u. EqualFold (Erc20TokenAddress u) token) row then Some i
      else row_with_token (Suc i) rows token)"

text \<open>The code changes \<open>outputUtxosArray\<close> and \<open>deltaChanges\<close> in place; here both are returned. When a later
  note cannot be made the caller gives the arrays up with the error.\<close>

definition recipient_row ::
    "primitives \<Rightarrow> fresh \<Rightarrow> private_recipient_info \<Rightarrow> string \<Rightarrow> string \<times> jub_point \<times> string \<Rightarrow> utxo \<Rightarrow> nat \<Rightarrow>
     utxo list list \<times> int list \<Rightarrow> nat \<Rightarrow> (utxo list list \<times> int list) result" where
  "recipient_row E f info ts r recipientUtxo index = (\<lambda>(rows, deltas) i.
     if i = index then
       rbind (index_at deltas i) (\<lambda>d.
       Ok (rows[i := rows ! i @ [recipientUtxo]], deltas[i := d + RecipientAmount info]))
     else
       rbind (index_at (rows ! i) 0) (\<lambda>u.
       rbind (recipient_note E f 0 (Erc20TokenAddress u) [] ts r) (\<lambda>zeroUtxo.
       Ok (rows[i := rows ! i @ [zeroUtxo]], deltas))))"

definition RecipientUtxoProcessing ::
    "primitives \<Rightarrow> (nat \<Rightarrow> fresh) \<Rightarrow> private_recipient_info \<Rightarrow> utxo list list \<Rightarrow> int list \<Rightarrow> string \<Rightarrow>
     (utxo list list \<times> int list) result" where
  "RecipientUtxoProcessing E f info outputUtxosArray deltaChanges ts =
     rbind (recipient_parts ''recipientUtxoProcessing: malformed recipient info'' (RecipientInfo info)) (\<lambda>r.
     case row_with_token 0 outputUtxosArray (TokenAddress (RecipientToken info)) of
       None \<Rightarrow> Err (Errorf ''recipientUtxoProcessing: private recipient index not found'')
     | Some index \<Rightarrow>
         rbind (recipient_note E (f 0) (RecipientAmount info) (TokenAddress (RecipientToken info)) [] ts r) (\<lambda>recipientUtxo.
         rfold (\<lambda>st i. recipient_row E (f (Suc i)) info ts r recipientUtxo index st i)
           (outputUtxosArray, deltaChanges) [0 ..< length outputUtxosArray]))"


section \<open>Lemmas about the texts\<close>

lemma Split_single: "sep \<notin> set p \<Longrightarrow> Split p sep = [p]"
  by (induction p) auto

lemma Split_append: "sep \<notin> set p \<Longrightarrow> Split (p @ sep # rest) sep = p # Split rest sep"
  by (induction p) auto

lemma Split_join: "ps \<noteq> [] \<Longrightarrow> \<forall>p \<in> set ps. CHR '','' \<notin> set p \<Longrightarrow> Split (join_comma ps) CHR '','' = ps"
  by (induction ps rule: join_comma.induct) (auto simp: Split_single Split_append)

lemma strings_contains_subset: "strings_contains s sub \<Longrightarrow> set sub \<subseteq> set s"
  by (auto simp: strings_contains_def list_ex_iff has_prefix_def) (metis in_set_dropD in_set_takeD)

lemma set_join_comma: "set (join_comma ps) \<subseteq> insert CHR '','' (\<Union> (set ` set ps))"
  by (induction ps rule: join_comma.induct) auto

text \<open>Digits, lower case letters and the sign: what the printed numbers and keys consist of.\<close>

definition plain :: "char \<Rightarrow> bool" where
  "plain c \<longleftrightarrow> (of_char c :: nat) \<in> {48..57} \<union> {97..122} \<union> {45}"

lemma plain_digit: "d < 36 \<Longrightarrow> plain (digit_char d)"
  by (auto simp: plain_def digit_char_code)

lemma plain_nat_text: "2 \<le> b \<Longrightarrow> b \<le> 36 \<Longrightarrow> list_all plain (nat_text b n)"
  by (metis plain_digit list_all_iff nat_text_chars order_less_le_trans)

lemma plain_int_text: "2 \<le> b \<Longrightarrow> b \<le> 36 \<Longrightarrow> list_all plain (int_text b n)"
  by (auto simp: int_text_def plain_nat_text) (simp add: plain_def)

lemma plain_int_String [simp]: "list_all plain (int_String n)"
  by (simp add: int_String_def plain_int_text)

lemma plain_ToBeHex [simp]: "list_all plain (ToBeHex n)"
proof -
  have "plain CHR ''0''" "plain CHR ''x''" by (simp_all add: plain_def)
  then show ?thesis using plain_int_text [of 16] by (auto simp: ToBeHex_def Let_def)
qed

lemma plain_hex [simp]: "list_all plain (hex_EncodeToString bs)"
proof -
  have "list_all plain (hex_byte b)" for b
  proof -
    have "unat b < 256" using unsigned_less [of b, where ?'a = nat] by simp
    then have "unat b div 16 < 36" "unat b mod 16 < 36" by linarith+
    then show ?thesis by (simp add: hex_byte_def plain_digit)
  qed
  then show ?thesis by (auto simp: hex_EncodeToString_def list_all_iff)
qed

lemma plain_no_comma: "list_all plain s \<Longrightarrow> CHR '','' \<notin> set s"
  by (auto simp: list_all_iff plain_def)

lemma plain_not_contains:
  assumes "\<forall>p \<in> set ps. list_all plain p" "c \<in> set sub" "\<not> plain c" "c \<noteq> CHR '',''"
  shows "\<not> strings_contains (join_comma ps) sub"
  using assms strings_contains_subset [of "join_comma ps" sub] set_join_comma [of ps]
  by (fastforce simp: list_all_iff)

lemma length_nat_text: "2 \<le> b \<Longrightarrow> 0 < k \<Longrightarrow> length (nat_text b n) \<le> k \<longleftrightarrow> n < b ^ k"
proof (induction b n arbitrary: k rule: nat_text.induct)
  case (1 b n)
  show ?case
  proof (cases "n < b")
    case True
    moreover have "b \<le> b ^ k" using 1(2,3) by (simp add: self_le_power)
    ultimately show ?thesis using 1(3) by (simp add: nat_text.simps [of b n])
  next
    case False
    then have len: "length (nat_text b n) = Suc (length (nat_text b (n div b)))"
      using 1(2) by (simp add: nat_text.simps [of b n])
    show ?thesis
    proof (cases "k = 1")
      case True
      then show ?thesis using False len by (cases "nat_text b (n div b)") (auto simp: nat_text.simps [of b "n div b"] split: if_splits)
    next
      case k: False
      then obtain j where j: "k = Suc j" "0 < j" using 1(3) by (cases k) auto
      have "length (nat_text b (n div b)) \<le> j \<longleftrightarrow> n div b < b ^ j" using 1(1) False 1(2) j(2) by simp
      also have "\<dots> \<longleftrightarrow> n < b ^ k" using 1(2) by (simp add: j(1) div_less_iff_less_mult mult.commute)
      finally show ?thesis using len j(1) by simp
    qed
  qed
qed

lemma length_ToBeHex:
  assumes "0 \<le> n"
  shows "length (ToBeHex (Some n)) \<le> 66 \<longleftrightarrow> n < 2 ^ 256" "64 \<le> length (ToBeHex (Some n)) \<longleftrightarrow> 2 ^ 240 \<le> n"
proof -
  let ?k = "length (nat_text 16 (nat n))"
  have len: "length (ToBeHex (Some n)) = 2 + (if odd ?k then Suc ?k else ?k)"
    using assms by (auto simp: ToBeHex_def int_text_def Let_def odd_iff_mod_2_eq_one)
  have p: "(16::nat) ^ 64 = 2 ^ 256" "(16::nat) ^ 60 = 2 ^ 240" by simp_all
  have "?k \<le> 64 \<longleftrightarrow> n < 2 ^ 256" using length_nat_text [of 16 64 "nat n"] assms unfolding p by (simp add: nat_less_iff)
  moreover have "2 + (if odd ?k then Suc ?k else ?k) \<le> 66 \<longleftrightarrow> ?k \<le> 64" by (auto elim!: oddE)
  ultimately show "length (ToBeHex (Some n)) \<le> 66 \<longleftrightarrow> n < 2 ^ 256" unfolding len by blast
  have "?k \<le> 60 \<longleftrightarrow> n < 2 ^ 240" using length_nat_text [of 16 60 "nat n"] assms unfolding p by (simp add: nat_less_iff)
  moreover have "64 \<le> 2 + (if odd ?k then Suc ?k else ?k) \<longleftrightarrow> \<not> ?k \<le> 60" by (auto elim!: oddE)
  ultimately show "64 \<le> length (ToBeHex (Some n)) \<longleftrightarrow> 2 ^ 240 \<le> n" unfolding len by auto
qed

section \<open>What a recipient text promises\<close>

text \<open>The printed points are read back, so a structure can be rebuilt from the text.\<close>

lemma recipient_text:
  fixes st a b c d :: int and pk :: "byte list"
  assumes "0 \<le> st" "st < 2 ^ 256" "length pk = 32"
  defines "key \<equiv> ''0x'' @ hex_EncodeToString pk"
  defines "info \<equiv> join_comma [ToBeHex (Some st), int_String a, int_String b, int_String c, int_String d, key]"
  shows "ConstructStealthAddressStructure info =
      Ok \<lparr>ssH0x = a, ssH0y = b, ssH1x = c, ssH1y = d, ssStealthAddress = st\<rparr>"
    and "GetEncryptionKeyFromRecipientInfo info = Ok key"
    and "IsValidPrivateAddress info \<longleftrightarrow> 2 ^ 240 \<le> st"
    and "recipient_parts m info = Ok (ToBeHex (Some st), (a, b), key)"
proof -
  let ?ps = "[ToBeHex (Some st), int_String a, int_String b, int_String c, int_String d, key]"
  have "plain CHR ''0''" "plain CHR ''x''" by (simp_all add: plain_def)
  then have plain: "\<forall>p \<in> set ?ps. list_all plain p" by (simp add: key_def)
  then have parts: "Split info CHR '','' = ?ps"
    unfolding info_def by (intro Split_join ballI plain_no_comma) auto
  show "ConstructStealthAddressStructure info =
      Ok \<lparr>ssH0x = a, ssH0y = b, ssH1x = c, ssH1y = d, ssStealthAddress = st\<rparr>"
    using assms(1) by (simp add: ConstructStealthAddressStructure_def parts ParseBigInt_ToBeHex)
  show "GetEncryptionKeyFromRecipientInfo info = Ok key"
    by (simp add: GetEncryptionKeyFromRecipientInfo_def parts) (simp add: key_def)
  show "recipient_parts m info = Ok (ToBeHex (Some st), (a, b), key)"
    by (simp add: recipient_parts_def parts)
  have no: "\<not> strings_contains info sub" if "ch \<in> set sub" "\<not> plain ch" "ch \<noteq> CHR '',''" for ch sub
    unfolding info_def by (rule plain_not_contains [OF plain that])
  have "\<not> plain CHR ''/''" "\<not> plain CHR ''.''" "\<not> plain CHR 0x22" by (simp_all add: plain_def)
  then have urls: "\<not> list_ex (strings_contains info) rejectURLs" "\<not> strings_contains info [CHR 0x22]"
    using no [of "CHR ''/''"] no [of "CHR ''.''"] no [of "CHR 0x22"] by (simp_all add: rejectURLs_def)
  have pre: "has_prefix (ToBeHex (Some st)) ''0x''" "has_prefix key ''0x''" "int_String n \<noteq> []" "length key = 66" for n
    using assms(3) by (simp_all add: has_prefix_def ToBeHex_def Let_def key_def int_String_def int_text_def length_hex)
  have "key \<noteq> []" by (simp add: key_def)
  then show "IsValidPrivateAddress info \<longleftrightarrow> 2 ^ 240 \<le> st"
    using urls pre length_ToBeHex [OF assms(1)] assms(2)
    by (auto simp: IsValidPrivateAddress_def parts Let_def)
qed


lemma recipient_note_amount:
  "recipient_note E f amount erc20 mint ts r = Ok u \<Longrightarrow> Amount u = Some amount \<and> Erc20TokenAddress u = erc20 \<and> NullifyingKey u = []"
  unfolding recipient_note_def recipient_params_def no_params_def
  by (frule NewUtxo_fields(1), frule NewUtxo_fields(2), drule NewUtxo_fields(4)) (simp split: prod.splits)

text \<open>After the first \<open>n\<close> rows.\<close>

definition rows_extended :: "private_recipient_info \<Rightarrow> nat \<Rightarrow> utxo list list \<Rightarrow> int list \<Rightarrow> nat \<Rightarrow> utxo list list \<times> int list \<Rightarrow> bool" where
  "rows_extended info index outs deltas n = (\<lambda>(rows, ds).
     length rows = length outs \<and>
     (\<forall>i < length outs. if i < n then \<exists>z. rows ! i = outs ! i @ [z] \<and> Amount z = Some (if i = index then RecipientAmount info else 0)
                        else rows ! i = outs ! i) \<and>
     (index < n \<longrightarrow> index < length deltas) \<and>
     ds = (if index < n then deltas[index := deltas ! index + RecipientAmount info] else deltas))"

lemma rows_extended_step:
  assumes "rows_extended info index outs deltas n (rows, ds)" "n < length outs" "Amount u = Some (RecipientAmount info)"
    and "recipient_row E f info ts r u index (rows, ds) n = Ok st"
  shows "rows_extended info index outs deltas (Suc n) st"
proof (cases "n = index")
  case True
  then have ds: "ds = deltas" using assms(1) by (simp add: rows_extended_def)
  then have "index < length deltas" "st = (rows[n := rows ! n @ [u]], deltas[n := deltas ! n + RecipientAmount info])"
    using assms(4) True by (auto simp: recipient_row_def rbind_Ok_iff)
  moreover have "\<exists>z. rows ! i = outs ! i @ [z] \<and> Amount z = Some 0" if "i < index" for i
  proof -
    have "\<forall>i < length outs. if i < n then \<exists>z. rows ! i = outs ! i @ [z] \<and> Amount z = Some (if i = index then RecipientAmount info else 0)
        else rows ! i = outs ! i" using assms(1) by (simp add: rows_extended_def)
    then show ?thesis using that True assms(2) by (elim allE [of _ i]) auto
  qed
  ultimately show ?thesis using assms(1-3) True by (auto simp: rows_extended_def nth_list_update less_Suc_eq)
next
  case False
  then obtain token z where "recipient_note E f 0 token [] ts r = Ok z" "st = (rows[n := rows ! n @ [z]], ds)"
  proof -
    have "rbind (index_at (rows ! n) 0) (\<lambda>u. rbind (recipient_note E f 0 (Erc20TokenAddress u) [] ts r) (\<lambda>zeroUtxo.
        Ok (rows[n := rows ! n @ [zeroUtxo]], ds))) = Ok st"
      using assms(4) False by (simp add: recipient_row_def)
    then show thesis unfolding rbind_Ok_iff by (elim exE conjE) (rule that, auto)
  qed
  then show ?thesis using recipient_note_amount assms(1,2) False
    by (auto simp: rows_extended_def nth_list_update less_Suc_eq)
qed

lemma rows_extended_all:
  assumes "Amount u = Some (RecipientAmount info)" "n \<le> length outs"
    and "rfold (\<lambda>st i. recipient_row E (f (Suc i)) info ts r u index st i) (outs, deltas) [0 ..< n] = Ok st"
  shows "rows_extended info index outs deltas n st"
  using assms(2,3)
proof (induction n arbitrary: st)
  case 0
  then show ?case by (auto simp: rows_extended_def)
next
  case (Suc n)
  then obtain st0 where "rfold (\<lambda>st i. recipient_row E (f (Suc i)) info ts r u index st i) (outs, deltas) [0 ..< n] = Ok st0"
    "recipient_row E (f (Suc n)) info ts r u index st0 n = Ok st"
    by (auto simp: rfold_append rbind_Ok_iff)
  with Suc show ?case using rows_extended_step [OF _ _ assms(1)] by (cases st0) auto
qed

lemma row_with_token_found:
  "row_with_token k rows token = Some i \<Longrightarrow> k \<le> i \<and> i < k + length rows \<and> list_ex (\<lambda>u. EqualFold (Erc20TokenAddress u) token) (rows ! (i - k))"
  by (induction rows arbitrary: k) (fastforce split: if_splits simp: nth_Cons')+

section \<open>A run\<close>

definition toy_box :: sealing where
  "toy_box = toy_sealing\<lparr>x25519Base := (\<lambda>sk. Ok (replicate 32 9))\<rparr>"

lemma toy_seven: "ParseBigInt ''7'' = Ok 7"
  by code_simp

lemma toy_new:
  assumes "pNullifyingKey p = ''7''" "pRandomization p = None"
  shows "\<exists>u. NewUtxo toy_hex 5 (Ok 3) p = Ok u"
proof -
  have "case rbind (FindCorrectRandomization toy_hex 3 ''7'') (\<lambda>r. FindH0 toy_hex r ''7'') of Inr (Some h) \<Rightarrow> True | _ \<Rightarrow> False"
    by code_simp
  then obtain r h where "FindCorrectRandomization toy_hex 3 ''7'' = Ok r" "FindH0 toy_hex r ''7'' = Ok (Some h)"
    by (auto simp: rbind_def split: sum.splits option.splits)
  then show ?thesis using assms by (auto simp: NewUtxo_def Let_def split: option.split)
qed

lemma toy_pair: "\<exists>pair :: spending_key_pair. GetSpendingKeyPair toy_hex (keys toy_wallet) = Ok pair"
proof -
  have "ParseBigInt ''5'' = Ok 5" by code_simp
  moreover obtain h where "PoseidonBig toy_hex [1, 5] = Ok h" using toy_poseidon_hex [of "[1, 5]"] by auto
  ultimately show ?thesis by (simp add: GetSpendingKeyPair_def requireSignature_def toy_wallet_def Let_def)
qed

lemma toy_shielded: "snd (GetShieldedPrivateKey toy_hex (keys toy_wallet)) = Ok ''7''"
  by (simp add: GetShieldedPrivateKey_def toy_wallet_def)

lemma toy_stealth:
  assumes "StealthAddress u = []" "NullifyingKey u = ''7''" "SpendingPublicKey u = Some [x, y]" "H0 u = Some h0"
  shows "\<exists>s. snd (GetStealthAddress toy_hex u) = Ok s"
proof -
  obtain h where "PoseidonBig toy_hex [2 * getCircomSign toy_hex (fst h0) + getCircomSign toy_hex (fst (jubMul toy_hex 7 h0)),
      snd h0, snd (jubMul toy_hex 7 h0), x, y, 7] = Ok h"
    using toy_poseidon_hex [of "[2 * getCircomSign toy_hex (fst h0) + getCircomSign toy_hex (fst (jubMul toy_hex 7 h0)),
      snd h0, snd (jubMul toy_hex 7 h0), x, y, 7]"] by auto
  then show ?thesis using assms
    by (simp add: GetStealthAddress_def DeriveStealthAddress_def GetH1FromH0_def toy_seven Let_def)
qed

lemma toy_recipient: "\<exists>info. GetRecipientInfoFromUserKeys toy_hex toy_box (5, Ok 3) (keys toy_wallet) = Ok info"
proof -
  obtain pair :: spending_key_pair where pair: "GetSpendingKeyPair toy_hex (keys toy_wallet) = Ok pair" using toy_pair by blast
  let ?pub = "[fst (PubSpendingBJJPoint pair), snd (PubSpendingBJJPoint pair)]"
  obtain u where u: "zero_note toy_hex (5, Ok 3) ZeroAddress [] ''7'' ?pub = Ok u" using toy_zero by blast
  note f = NewUtxo_fields [OF u [unfolded zero_note_def]]
  obtain h0 where h0: "H0 u = Some h0" using f(13) by blast
  have "\<exists>s. snd (GetStealthAddress toy_hex u) = Ok s"
    using f h0 by (intro toy_stealth) (simp_all add: zero_params_def no_params_def)
  then obtain s where s: "snd (GetStealthAddress toy_hex u) = Ok s" by blast
  have e: "GetEncryptionKeyPair toy_hex toy_box ''7'' =
      Ok (''0x'' @ hex_EncodeToString (take 32 (sha512 toy_box (keccak256 toy_hex (fromHex toy_hex ''7'')))), ''0x'' @ hex_EncodeToString (replicate 32 9))"
    by (simp add: GetEncryptionKeyPair_def EncryptionKeyPair_def toy_box_def Let_def)
  show ?thesis
    by (simp add: GetRecipientInfoFromUserKeys_def toy_shielded e pair u h0 s GetH1FromH0_def toy_seven)
qed

definition toy_payment :: private_recipient_info where
  "toy_payment = \<lparr>RecipientInfo = ''0x03,1,2,3,4,0x05'', RecipientAmount = 7,
     RecipientToken = \<lparr>ChainID = 1, TokenAddress = ''0x04'', TokenName = ''T'', Symbol = ''T'', Decimals = 18,
       IsVolatile = False, BalanceStorageOffset = None, AllowanceStorageOffset = None\<rparr>\<rparr>"

section \<open>Properties\<close>

text \<open>A published recipient text is understood by the payer: parsed, it gives back a stealth address
  that is the one derived from the wallet's keys, two points of which the second is the wallet's
  multiple of the first, and the wallet's encryption key. It passes the validity check exactly when
  the stealth address is at least 2^240: a smaller one prints with fewer than 62 digits and the check
  refuses the wallet's own text.\<close>

theorem recipient_info_understood:
  assumes "GetRecipientInfoFromUserKeys E S f uk = Ok info" "field_hash E" "fieldP E \<le> 2 ^ 256"
    and "\<forall>sk pk. x25519Base S sk = Ok pk \<longrightarrow> length pk = 32"
  shows "\<exists>nk sk pk pub st. snd (GetShieldedPrivateKey E uk) = Ok nk \<and> GetEncryptionKeyPair E S nk = Ok (sk, pk) \<and>
    ConstructStealthAddressStructure info = Ok st \<and>
    VerifyStealthPair E (ssH0x st, ssH0y st) (ssH1x st, ssH1y st) nk False = Ok True \<and>
    DeriveStealthAddress E (ssH0x st, ssH0y st) nk (Some pub) = Ok (ToBeHex (Some (ssStealthAddress st))) \<and>
    GetEncryptionKeyFromRecipientInfo info = Ok pk \<and>
    (IsValidPrivateAddress info \<longleftrightarrow> 2 ^ 240 \<le> ssStealthAddress st)"
proof -
  obtain nk encPair and pair :: spending_key_pair and u where nk: "snd (GetShieldedPrivateKey E uk) = Ok nk" and e: "GetEncryptionKeyPair E S nk = Ok encPair"
    and u: "zero_note E f ZeroAddress [] nk [fst (PubSpendingBJJPoint pair), snd (PubSpendingBJJPoint pair)] = Ok u"
    and rest: "(case H0 u of None \<Rightarrow> Err (Errorf ''getRecipientInfoFromUserKeys: H0 is not set'')
      | Some h0 \<Rightarrow> rbind (snd (GetStealthAddress E u)) (\<lambda>stealthAddress. rbind (GetH1FromH0 E h0 nk) (\<lambda>h1.
          Ok (join_comma [stealthAddress, int_String (fst h0), int_String (snd h0),
                          int_String (fst h1), int_String (snd h1), snd encPair])))) = Ok info"
    using assms(1) unfolding GetRecipientInfoFromUserKeys_def rbind_Ok_iff
    by (elim exE conjE) (rule that; assumption)
  then obtain h0 where h0: "H0 u = Some h0"
    and rest: "rbind (snd (GetStealthAddress E u)) (\<lambda>stealthAddress. rbind (GetH1FromH0 E h0 nk) (\<lambda>h1.
          Ok (join_comma [stealthAddress, int_String (fst h0), int_String (snd h0),
                          int_String (fst h1), int_String (snd h1), snd encPair]))) = Ok info"
    by (cases "H0 u") auto
  then obtain stealth h1 where st: "snd (GetStealthAddress E u) = Ok stealth" and h1: "GetH1FromH0 E h0 nk = Ok h1"
    and info: "Ok (join_comma [stealth, int_String (fst h0), int_String (snd h0), int_String (fst h1), int_String (snd h1),
      snd encPair]) = Ok info"
    unfolding rbind_Ok_iff by blast
  obtain sk pkb where enc: "EncryptionKeyPair E S nk = Ok (sk, pkb)"
    and encPair: "encPair = (''0x'' @ hex_EncodeToString sk, ''0x'' @ hex_EncodeToString pkb)"
    using e by (auto simp: GetEncryptionKeyPair_def rbind_Ok_iff)
  let ?pub = "[fst (PubSpendingBJJPoint pair), snd (PubSpendingBJJPoint pair)]"
  have f: "StealthAddress u = []" "NullifyingKey u = nk" "SpendingPublicKey u = Some ?pub"
    using NewUtxo_fields [OF u [unfolded zero_note_def]] by (simp_all add: zero_params_def no_params_def)
  have d: "DeriveStealthAddress E h0 nk (Some ?pub) = Ok stealth"
    using st f h0 by (auto simp: GetStealthAddress_def split: if_splits sum.splits)
  then obtain h where h: "stealth = ToBeHex (Some h)" "0 \<le> h" "h < 2 ^ 256"
    using PoseidonBig_field [OF assms(2)] assms(3)
    by (fastforce simp: DeriveStealthAddress_def rbind_Ok_iff Let_def)
  have "length pkb = 32" using enc assms(4) by (auto simp: EncryptionKeyPair_def rbind_Ok_iff Let_def)
  note t = recipient_text [OF h(2,3) this, where a = "fst h0" and b = "snd h0" and c = "fst h1" and d = "snd h1"]
  have "VerifyStealthPair E h0 h1 nk False = Ok True" using h1 by (simp add: VerifyStealthPair_def)
  then show ?thesis using nk enc d h t info encPair
    by (intro exI [of _ nk] exI [of _ "''0x'' @ hex_EncodeToString sk"] exI [of _ "''0x'' @ hex_EncodeToString pkb"]
        exI [of _ ?pub] exI [of _ "\<lparr>ssH0x = fst h0, ssH0y = snd h0, ssH1x = fst h1, ssH1y = snd h1, ssStealthAddress = h\<rparr>"])
      (simp add: GetEncryptionKeyPair_def)
qed

lemma recipient_info_understood_witness:
  "\<exists>info st. GetRecipientInfoFromUserKeys toy_hex toy_box (5, Ok 3) (keys toy_wallet) = Ok info \<and>
     ConstructStealthAddressStructure info = Ok st \<and> IsValidPrivateAddress info = (2 ^ 240 \<le> ssStealthAddress st)"
proof -
  obtain info where i: "GetRecipientInfoFromUserKeys toy_hex toy_box (5, Ok 3) (keys toy_wallet) = Ok info"
    using toy_recipient by blast
  have "field_hash toy_hex" using toy_field_hash by (simp add: field_hash_def toy_hex_def)
  moreover have "fieldP toy_hex \<le> 2 ^ 256" by (simp add: toy_hex_def toy_def)
  moreover have "\<forall>sk pk. x25519Base toy_box sk = Ok pk \<longrightarrow> length pk = 32" by (simp add: toy_box_def)
  ultimately show ?thesis using recipient_info_understood [OF i] i by blast
qed

text \<open>Paying a private recipient keeps the outputs of a transaction rectangular and its balance in step:
  every row gets exactly one more note, of the recipient's amount in one row that carries the
  recipient's token and of amount zero in the others, and exactly the change of that row grows by the
  amount.\<close>

theorem recipient_note_keeps_balance:
  assumes "RecipientUtxoProcessing E f info outs deltas ts = Ok (outs', deltas')"
  shows "\<exists>index < length outs. list_ex (\<lambda>u. EqualFold (Erc20TokenAddress u) (TokenAddress (RecipientToken info))) (outs ! index) \<and>
    length outs' = length outs \<and> index < length deltas \<and>
    deltas' = deltas[index := deltas ! index + RecipientAmount info] \<and>
    (\<forall>i < length outs. \<exists>z. outs' ! i = outs ! i @ [z] \<and> Amount z = Some (if i = index then RecipientAmount info else 0))"
proof -
  obtain r index u where i: "row_with_token 0 outs (TokenAddress (RecipientToken info)) = Some index"
    and u: "recipient_note E (f 0) (RecipientAmount info) (TokenAddress (RecipientToken info)) [] ts r = Ok u"
    and fold: "rfold (\<lambda>st i. recipient_row E (f (Suc i)) info ts r u index st i) (outs, deltas) [0 ..< length outs] = Ok (outs', deltas')"
    using assms by (auto simp: RecipientUtxoProcessing_def rbind_Ok_iff split: option.splits)
  have "rows_extended info index outs deltas (length outs) (outs', deltas')"
    using rows_extended_all [OF _ order.refl fold] recipient_note_amount [OF u] by simp
  with row_with_token_found [OF i] show ?thesis by (intro exI [of _ index]) (auto simp: rows_extended_def)
qed

lemma recipient_note_keeps_balance_witness:
  "\<exists>rows z. RecipientUtxoProcessing toy_hex (\<lambda>i. (5, Ok 3)) toy_payment [[toy_seen]] [-3] ''2'' = Ok (rows, [4]) \<and>
     rows = [[toy_seen, z]] \<and> Amount z = Some 7"
proof -
  have "case RecipientUtxoProcessing toy_hex (\<lambda>i. (5, Ok 3)) toy_payment [[toy_seen]] [-3] ''2'' of
      Inr (rows, ds) \<Rightarrow> ds = [4] | _ \<Rightarrow> False" by code_simp
  then obtain rows where "RecipientUtxoProcessing toy_hex (\<lambda>i. (5, Ok 3)) toy_payment [[toy_seen]] [-3] ''2'' = Ok (rows, [4])"
    by (auto split: sum.splits)
  from this recipient_note_keeps_balance [OF this] show ?thesis
    by (auto simp: toy_payment_def length_Suc_conv)
qed

end
