(* ===== verification/Outputs.thy ===== *)
theory Outputs
  imports Recipients MerkleCorrect
begin

text \<open>
  \<open>internal/functions/pre-transaction\<close>: the notes a transaction leaves behind
  (\<open>output_utxo_processing.go\<close>), the check that they add up (\<open>ensure_amount_changes.go\<close>, with
  \<open>CalcAmountChanges\<close> of \<open>snarkjs/common.go\<close>), the fee folded into the changes
  (\<open>merge_with_fee_structure.go\<close>) and the tree a transaction proves against while its deposit is still
  in flight (\<open>speculative_utxo.go\<close>).
\<close>

section \<open>Amount changes\<close>

text \<open>\<open>CalcAmountChanges\<close>: per token, what goes out minus what comes in; outside circuit data a negative
  one is shifted by the field modulus. A nil amount panics.\<close>

definition CalcAmountChanges :: "primitives \<Rightarrow> utxo list list \<Rightarrow> utxo list list \<Rightarrow> bool \<Rightarrow> int list result" where
  "CalcAmountChanges E inputUtxos outputUtxos forCircomData =
     rmap (\<lambda>(i, ins).
       rbind (countTotalAmount ins) (\<lambda>inTotal.
       rbind (if i < length outputUtxos then countTotalAmount (outputUtxos ! i) else Ok 0) (\<lambda>outTotal.
       let diff = outTotal - inTotal
       in Ok (if diff < 0 \<and> \<not> forCircomData then fieldP E + diff else diff)))) (enumerate 0 inputUtxos)"

definition EnsureAmountChanges :: "primitives \<Rightarrow> utxo list list \<Rightarrow> utxo list list \<Rightarrow> int list \<Rightarrow> unit result" where
  "EnsureAmountChanges E inputUtxos outputUtxos amountChanges =
     rbind (CalcAmountChanges E inputUtxos outputUtxos False) (\<lambda>diffAmountChanges.
     if length diffAmountChanges \<noteq> length amountChanges then Err (Errorf ''amount changes are not equal'')
     else if \<forall>i < length amountChanges.
         diffAmountChanges ! i = (if amountChanges ! i < 0 then fieldP E + amountChanges ! i else amountChanges ! i)
     then Ok () else Err (Errorf ''amount changes are not equal''))"

section \<open>Output notes\<close>

definition ErrCodeInsufficientFundsToTransact :: string where
  "ErrCodeInsufficientFundsToTransact = ''not enough funds to transact''"

text \<open>The amounts of \<open>recipientAmounts\<close> may be nil, and so is the result when nobody is paid.\<close>

definition recipientAmountAt :: "string \<Rightarrow> int option list \<Rightarrow> nat \<Rightarrow> int option" where
  "recipientAmountAt recipientAddress recipientAmounts index =
     (if recipientAddress = [] then None
      else if index < length recipientAmounts \<and> recipientAmounts ! index \<noteq> None then recipientAmounts ! index
      else Some 0)"

definition change_params :: "int option \<Rightarrow> utxo \<Rightarrow> string \<Rightarrow> string \<Rightarrow> spending_key_pair \<Rightarrow> utxo_params" where
  "change_params amount first nk ts pair =
     no_params\<lparr>pAmount := amount, pErc20TokenAddress := Erc20TokenAddress first, pMintAddress := MintAddress first,
       pNullifyingKey := nk, pTimeStamp := ts,
       pSpendingPublicKey := Some [fst (PubSpendingBJJPoint pair), snd (PubSpendingBJJPoint pair)]\<rparr>"

definition OutputUtxoProcessing ::
    "primitives \<Rightarrow> (nat \<Rightarrow> fresh) \<Rightarrow> user_keys \<Rightarrow> utxo list \<Rightarrow> int \<Rightarrow> string \<Rightarrow> bool \<Rightarrow> string \<Rightarrow> int option \<Rightarrow> utxo list result" where
  "OutputUtxoProcessing E f uk inputUtxos amountChange ts revertIfNegative recipientAddress recipientAmountChange =
     rbind (countTotalAmount inputUtxos) (\<lambda>totalAmount.
     rbind (index_at inputUtxos 0) (\<lambda>first.
     if revertIfNegative \<and> amountChange < 0 \<and> totalAmount + amountChange < 0
     then Err (Errorf ErrCodeInsufficientFundsToTransact)
     else
       rbind (snd (GetShieldedPrivateKey E uk)) (\<lambda>nk.
       rbind (GetSpendingKeyPair E uk) (\<lambda>pair.
       rbind (NewUtxo E (fst (f 0)) (snd (f 0)) (change_params (BigintMax [totalAmount + amountChange, 0]) first nk ts pair)) (\<lambda>changeUtxo.
       case recipientAmountChange of
         None \<Rightarrow> Ok [changeUtxo]
       | Some amount \<Rightarrow>
           if recipientAddress = [] then Ok [changeUtxo]
           else
             rbind (recipient_parts ''outputUtxoProcessing: malformed recipient address'' recipientAddress) (\<lambda>r.
             rbind (recipient_note E (f 1) amount (Erc20TokenAddress first) (MintAddress first) ts r) (\<lambda>recipientUtxo.
             Ok [changeUtxo, recipientUtxo])))))))"

definition BuildOutputUtxos ::
    "primitives \<Rightarrow> (nat \<Rightarrow> nat \<Rightarrow> fresh) \<Rightarrow> int \<Rightarrow> user_keys \<Rightarrow> utxo list list \<Rightarrow> int list \<Rightarrow> string \<Rightarrow> int option list \<Rightarrow>
     utxo list list result" where
  "BuildOutputUtxos E f now uk inputUtxosArray amountChanges recipientAddress recipientAmounts =
     rmap (\<lambda>(i, inputUtxos).
       rbind (index_at amountChanges i) (\<lambda>amountChange.
       OutputUtxoProcessing E (f i) uk inputUtxos amountChange (int_String now) True recipientAddress
         (recipientAmountAt recipientAddress recipientAmounts i))) (enumerate 0 inputUtxosArray)"

section \<open>The fee\<close>

definition ErrCodeFeesOverTransactionValue :: string where
  "ErrCodeFeesOverTransactionValue = ''Fees are over transaction value. Please, increase the amount''"

fun fee_token_index :: "nat \<Rightarrow> string list \<Rightarrow> string \<Rightarrow> nat option" where
  "fee_token_index i [] feeToken = None"
| "fee_token_index i (a # as) feeToken = (if EqualFold a feeToken then Some i else fee_token_index (Suc i) as feeToken)"

text \<open>The code changes the two slices of the caller in place; here they are returned.\<close>

definition MergeWithFeeStructure ::
    "token_server \<Rightarrow> int \<Rightarrow> string list \<Rightarrow> int list \<Rightarrow> fee_structure \<Rightarrow> (string list \<times> int list) result" where
  "MergeWithFeeStructure server chainID erc20Addresses amountChanges fee =
     (case fee_token_index 0 erc20Addresses (FeeToken fee) of
        None \<Rightarrow> Ok (erc20Addresses @ [FeeToken fee], amountChanges @ [- FlatFee fee])
      | Some i \<Rightarrow>
          rbind (index_at amountChanges i) (\<lambda>change.
          if change > 0 \<and> change < FlatFee fee
          then rbind (GetErc20TokenFromAPI server chainID (FeeToken fee)) (\<lambda>feeUnit.
               Err (Wrapped ''FeeOverTransactionValueError'' (Errorf ErrCodeFeesOverTransactionValue)))
          else Ok (erc20Addresses, amountChanges[i := change - FlatFee fee])))"

section \<open>Proving against notes that are not mined yet\<close>

definition nilable_String :: "int option \<Rightarrow> string" where
  "nilable_String n = (case n of None \<Rightarrow> ''<nil>'' | Some a \<Rightarrow> int_String a)"

definition ToSpeculativeUtxo :: "primitives \<Rightarrow> utxo \<Rightarrow> speculative_utxo result" where
  "ToSpeculativeUtxo E u =
     rbind (snd (GetStealthAddress E u)) (\<lambda>stealthAddress.
     rbind (ParseBigInt stealthAddress) (\<lambda>stealthAddressBig.
     Ok \<lparr>suAmount = nilable_String (Amount u), suErc20TokenAddress = Erc20TokenAddress u, suMintAddress = MintAddress u,
         suTimeStamp = TimeStamp u, suStealthAddress = int_String stealthAddressBig, suIsBlocked = IsBlocked u,
         suH0 = (case H0 u of None \<Rightarrow> (''0'', ''0'') | Some h \<Rightarrow> (int_String (fst h), int_String (snd h)))\<rparr>))"

definition ToSpeculativeUtxos :: "primitives \<Rightarrow> utxo list list \<Rightarrow> speculative_utxo list list result" where
  "ToSpeculativeUtxos E inputUtxosArray = rmap (rmap (ToSpeculativeUtxo E)) inputUtxosArray"

definition errPartialPendingLeaves :: go_error where
  "errPartialPendingLeaves = Errorf ''only some pending leaves are already in the Merkle tree''"

definition append_leaf :: "merkle \<Rightarrow> int \<Rightarrow> merkle result" where
  "append_leaf m leaf = Insert m leaf (GetIndex m)"

definition check_input :: "primitives \<Rightarrow> merkle \<Rightarrow> utxo \<Rightarrow> unit result" where
  "check_input E m u =
     (case Amount u of
        None \<Rightarrow> Ok ()
      | Some a \<Rightarrow>
          if a \<le> 0 then Ok ()
          else
            rbind (snd (GetCommitment E u)) (\<lambda>c.
            rbind (ParseBigInt c) (\<lambda>commitmentBig.
            ensure (Contains m commitmentBig) (Errorf ''input commitment is not in the speculative Merkle tree''))))"

definition SpeculativeMerkleTree :: "primitives \<Rightarrow> merkle option \<Rightarrow> utxo list list \<Rightarrow> string list \<Rightarrow> merkle result" where
  "SpeculativeMerkleTree E given inputUtxosArray pendingCommitments =
     (case given of
        None \<Rightarrow> Err (Errorf ''pre-transaction: no merkle tree to build a speculative tree from'')
      | Some live \<Rightarrow>
          rbind (rmap ParseBigInt pendingCommitments) (\<lambda>pendingLeaves.
          let presentLeafCount = length (filter (Contains live) pendingLeaves) in
          if presentLeafCount > 0 \<and> presentLeafCount \<noteq> length pendingLeaves then Err errPartialPendingLeaves
          else
            rbind (if presentLeafCount \<noteq> length pendingLeaves then rfold append_leaf (Clone live) pendingLeaves else Ok live) (\<lambda>tree.
            rbind (rfold (\<lambda>_ u. check_input E tree u) () (concat inputUtxosArray)) (\<lambda>_.
            Ok tree))))"

section \<open>Lemmas\<close>

lemma rmap_enumerate_Ok:
  assumes "rmap f (enumerate 0 xs) = Ok ys"
  shows "length ys = length xs" "\<And>i. i < length xs \<Longrightarrow> f (i, xs ! i) = Ok (ys ! i)"
proof -
  show "length ys = length xs" using rmap_Ok_length [OF assms] by simp
  show "f (i, xs ! i) = Ok (ys ! i)" if "i < length xs" for i
    using rmap_Ok_nth [OF assms, of i] that by (simp add: nth_enumerate_eq)
qed

lemma rmap_enumerate_OkI:
  assumes "\<And>i. i < length xs \<Longrightarrow> f (i, xs ! i) = Ok (g i)"
  shows "rmap f (enumerate 0 xs) = Ok (map g [0 ..< length xs])"
proof -
  have "rmap f (enumerate 0 xs) = Ok (map (\<lambda>(i, x). g i) (enumerate 0 xs))"
    using assms by (intro rmap_OkI) (auto simp: in_set_enumerate_eq)
  also have "map (\<lambda>(i, x). g i) (enumerate 0 xs) = map g [0 ..< length xs]"
    by (intro nth_equalityI) (simp_all add: nth_enumerate_eq)
  finally show ?thesis .
qed

lemma countTotalAmount_single: "Amount u = Some a \<Longrightarrow> countTotalAmount [u] = Ok a"
  and countTotalAmount_pair: "Amount u = Some a \<Longrightarrow> Amount v = Some b \<Longrightarrow> countTotalAmount [u, v] = Ok (a + b)"
  by (simp_all add: countTotalAmount_def)

lemma countTotalAmount_nonneg:
  assumes "countTotalAmount us = Ok t" "\<forall>u \<in> set us. \<forall>a. Amount u = Some a \<longrightarrow> 0 \<le> a"
  shows "0 \<le> t"
proof -
  obtain as where as: "rmap (\<lambda>u. case Amount u of None \<Rightarrow> Err Panic | Some a \<Rightarrow> Ok a) us = Ok as" "t = sum_list as"
    using assms(1) by (auto simp: countTotalAmount_def rbind_Ok_iff)
  have "\<forall>a \<in> set as. 0 \<le> a"
  proof
    fix a assume "a \<in> set as"
    then obtain i where i: "i < length as" "a = as ! i" by (auto simp: in_set_conv_nth)
    have l: "length as = length us" using rmap_Ok_length [OF as(1)] .
    then have "Amount (us ! i) = Some a"
      using rmap_Ok_nth [OF as(1), of i] i by (auto split: option.splits)
    then show "0 \<le> a" using assms(2) i l by (metis nth_mem)
  qed
  then show ?thesis using as(2) by (simp add: sum_list_nonneg)
qed

text \<open>What one token's notes amount to.\<close>

definition paid_at :: "string \<Rightarrow> int option list \<Rightarrow> nat \<Rightarrow> int" where
  "paid_at recipient amounts i = (case recipientAmountAt recipient amounts i of None \<Rightarrow> 0 | Some a \<Rightarrow> a)"

lemma BigintMax_two: "BigintMax [a, 0] = Some (max a 0)"
  by (simp add: BigintMax_def max_def)

lemma output_notes_total:
  assumes "OutputUtxoProcessing E f uk ins change ts True recipient amount = Ok outs"
    and "recipient = [] \<longrightarrow> amount = None"
    and "\<forall>u \<in> set ins. \<forall>a. Amount u = Some a \<longrightarrow> 0 \<le> a"
  shows "\<exists>t. countTotalAmount ins = Ok t \<and> 0 \<le> t + change \<and>
    countTotalAmount outs = Ok (t + change + (case amount of None \<Rightarrow> 0 | Some a \<Rightarrow> a)) \<and>
    (\<forall>u \<in> set outs. Erc20TokenAddress u = Erc20TokenAddress (hd ins)) \<and>
    length outs = (if amount = None then 1 else 2)"
proof -
  obtain t where t: "countTotalAmount ins = Ok t" and ne: "ins \<noteq> []" and enough: "\<not> (change < 0 \<and> t + change < 0)"
    and rest: "rbind (snd (GetShieldedPrivateKey E uk)) (\<lambda>nk.
       rbind (GetSpendingKeyPair E uk) (\<lambda>pair.
       rbind (NewUtxo E (fst (f 0)) (snd (f 0)) (change_params (BigintMax [t + change, 0]) (ins ! 0) nk ts pair)) (\<lambda>changeUtxo.
       case amount of
         None \<Rightarrow> Ok [changeUtxo]
       | Some amount \<Rightarrow>
           if recipient = [] then Ok [changeUtxo]
           else
             rbind (recipient_parts ''outputUtxoProcessing: malformed recipient address'' recipient) (\<lambda>r.
             rbind (recipient_note E (f 1) amount (Erc20TokenAddress (ins ! 0)) (MintAddress (ins ! 0)) ts r) (\<lambda>recipientUtxo.
             Ok [changeUtxo, recipientUtxo]))))) = Ok outs"
    using assms(1) unfolding OutputUtxoProcessing_def by (auto simp: rbind_Ok_iff split: if_splits)
  have "0 \<le> t + change" using enough countTotalAmount_nonneg [OF t assms(3)] by linarith
  then have m: "BigintMax [t + change, 0] = Some (t + change)" by (simp add: BigintMax_two)
  have hd: "hd ins = ins ! 0" using ne by (simp add: hd_conv_nth)
  obtain nk and pair :: spending_key_pair and u where u: "NewUtxo E (fst (f 0)) (snd (f 0)) (change_params (Some (t + change)) (ins ! 0) nk ts pair) = Ok u"
    and more: "(case amount of
         None \<Rightarrow> Ok [u]
       | Some amount \<Rightarrow>
           if recipient = [] then Ok [u]
           else
             rbind (recipient_parts ''outputUtxoProcessing: malformed recipient address'' recipient) (\<lambda>r.
             rbind (recipient_note E (f 1) amount (Erc20TokenAddress (ins ! 0)) (MintAddress (ins ! 0)) ts r) (\<lambda>recipientUtxo.
             Ok [u, recipientUtxo]))) = Ok outs"
    using rest unfolding m rbind_Ok_iff by (elim exE conjE) (rule that)
  have a: "Amount u = Some (t + change)" "Erc20TokenAddress u = Erc20TokenAddress (ins ! 0)"
    using NewUtxo_fields [OF u] by (simp_all add: change_params_def no_params_def)
  show ?thesis
  proof (cases amount)
    case None
    then show ?thesis using more t a hd \<open>0 \<le> t + change\<close> countTotalAmount_single [OF a(1)] by auto
  next
    case (Some p)
    then obtain r v where v: "recipient_note E (f 1) p (Erc20TokenAddress (ins ! 0)) (MintAddress (ins ! 0)) ts r = Ok v" "outs = [u, v]"
      using more assms(2) by (auto simp: rbind_Ok_iff split: if_splits)
    have "Amount v = Some p" "Erc20TokenAddress v = Erc20TokenAddress (ins ! 0)"
      using NewUtxo_fields [OF v(1) [unfolded recipient_note_def]]
      by (simp_all add: recipient_params_def no_params_def split: prod.splits)
    then show ?thesis using Some t a v hd \<open>0 \<le> t + change\<close> countTotalAmount_pair [OF a(1)] by simp
  qed
qed

definition normalised :: "primitives \<Rightarrow> int \<Rightarrow> int" where
  "normalised E a = (if a < 0 then fieldP E + a else a)"

lemma CalcAmountChanges_totals:
  assumes "\<And>i. i < length ins \<Longrightarrow> countTotalAmount (ins ! i) = Ok (a i)"
    and "\<And>i. i < length ins \<Longrightarrow> i < length outs \<and> countTotalAmount (outs ! i) = Ok (b i)"
  shows "CalcAmountChanges E ins outs False = Ok (map (\<lambda>i. normalised E (b i - a i)) [0 ..< length ins])"
  unfolding CalcAmountChanges_def using assms by (intro rmap_enumerate_OkI) (simp add: normalised_def Let_def)

lemma EnsureAmountChanges_totals:
  assumes "\<And>i. i < length ins \<Longrightarrow> countTotalAmount (ins ! i) = Ok (a i)"
    and "\<And>i. i < length ins \<Longrightarrow> i < length outs \<and> countTotalAmount (outs ! i) = Ok (b i)"
  shows "EnsureAmountChanges E ins outs changes = Ok () \<longleftrightarrow>
    length changes = length ins \<and> (\<forall>i < length ins. normalised E (b i - a i) = normalised E (changes ! i))"
proof -
  have "CalcAmountChanges E ins outs False = Ok (map (\<lambda>i. normalised E (b i - a i)) [0 ..< length ins])"
    by (rule CalcAmountChanges_totals) (use assms in auto)
  moreover have "(if a < 0 then fieldP E + a else a) = normalised E a" for a by (simp add: normalised_def)
  ultimately show ?thesis unfolding EnsureAmountChanges_def by auto
qed

lemma fee_token_index_found:
  "fee_token_index k as fee = Some i \<Longrightarrow> k \<le> i \<and> i < k + length as \<and> EqualFold (as ! (i - k)) fee"
  by (induction as arbitrary: k) (fastforce split: if_splits simp: nth_Cons')+

lemma fee_token_index_none: "fee_token_index k as fee = None \<longleftrightarrow> (\<forall>a \<in> set as. \<not> EqualFold a fee)"
  by (induction as arbitrary: k) auto

lemma sum_list_update_int: "i < length xs \<Longrightarrow> sum_list (xs[i := x]) = sum_list xs - xs ! i + (x :: int)"
  by (induction xs arbitrary: i) (auto split: nat.split)

section \<open>The speculative tree\<close>

lemma Clone_same [simp]: "Clone m = m"
  by (simp add: Clone_def case_prod_unfold)

text \<open>A tree that holds exactly the leaves \<open>xs\<close>, in this order.\<close>

definition holds_leaves :: "merkle \<Rightarrow> int list \<Rightarrow> bool" where
  "holds_leaves m xs \<longleftrightarrow> merkle_inv m \<and> complete m \<and> leaf_values m = xs"

lemma append_leaf_holds:
  assumes "holds_leaves m xs" "length xs < 2 ^ (levels m - 1)"
  shows "\<exists>t. append_leaf m v = Ok t \<and> holds_leaves t (xs @ [v]) \<and> same_shape t m \<and>
    (\<forall>w. Contains t w \<longleftrightarrow> w = v \<or> Contains m w)"
proof -
  have inv: "merkle_inv m" and c: "complete m" and xs: "leaf_values m = xs" using assms(1) by (simp_all add: holds_leaves_def)
  let ?j = "width m"
  have j: "?j = length xs" using xs length_leaf_values [of m] by simp
  have fit: "fits m ?j" using inv assms(2) j by (simp add: fits_def)
  let ?t = "result_tree m v ?j"
  have idx: "GetIndex m = node_at (levels m) 0 ?j"
    using inv by (simp add: merkle_inv_def GetIndex_def startIdx_node_at)
  have app: "append_leaf m v = Ok ?t" using Insert_result [OF fit] idx by (simp add: append_leaf_def)
  have w: "width ?t = Suc ?j" using result_width [OF fit] by simp
  have l: "leaves_in ?t = {..< Suc ?j}" using result_leaves [OF fit] c by (auto simp: complete_def)
  then have c': "complete ?t" using w by (simp add: complete_def)
  have vals: "leaf_values ?t = xs @ [v]"
  proof (rule nth_equalityI)
    fix i assume "i < length (leaf_values ?t)"
    then have i: "i < Suc ?j" using w by simp
    then have "i < 2 ^ (levels m - 1)" using assms(2) j by linarith
    then have "GetValue ?t (node_at (levels m) 0 i) = (if i = ?j then Some v else GetValue m (node_at (levels m) 0 i))"
      by (rule result_leaf_value [OF fit])
    moreover have "i < ?j \<Longrightarrow> GetValue m (node_at (levels m) 0 i) = Some (xs ! i)" using complete_leaf [OF c] xs by simp
    ultimately have "GetValue ?t (node_at (levels m) 0 i) = Some ((xs @ [v]) ! i)" using i j by (auto simp: nth_append)
    then show "leaf_values ?t ! i = (xs @ [v]) ! i" using complete_leaf [OF c', of i] i w by simp
  qed (use w j in simp)
  have "Contains ?t x \<longleftrightarrow> x = v \<or> Contains m x" for x
    by (auto simp: Contains_def)
  then show ?thesis using app result_inv [OF fit] c' vals by (auto simp: holds_leaves_def same_shape_def)
qed

lemma append_leaves_hold:
  assumes "holds_leaves m xs" "length xs + length vs \<le> 2 ^ (levels m - 1)"
  shows "\<exists>t. rfold append_leaf m vs = Ok t \<and> holds_leaves t (xs @ vs) \<and> same_shape t m \<and>
    (\<forall>w. Contains t w \<longleftrightarrow> w \<in> set vs \<or> Contains m w)"
  using assms
proof (induction vs arbitrary: m xs)
  case Nil
  then show ?case by (simp add: same_shape_def)
next
  case (Cons v vs)
  obtain m1 where m1: "append_leaf m v = Ok m1" "holds_leaves m1 (xs @ [v])" "same_shape m1 m"
    "\<forall>w. Contains m1 w \<longleftrightarrow> w = v \<or> Contains m w"
    using append_leaf_holds [OF Cons.prems(1), of v] Cons.prems(2) by auto
  have "length (xs @ [v]) + length vs \<le> 2 ^ (levels m1 - 1)" using Cons.prems(2) m1(3) by (simp add: same_shape_def)
  from Cons.IH [OF m1(2) this] m1 show ?case by (auto simp: same_shape_def)
qed

lemma check_inputs_Ok:
  "rfold (\<lambda>_ u. check_input E t u) () us = Ok () \<longleftrightarrow> (\<forall>u \<in> set us. check_input E t u = Ok ())"
  by (induction us) (auto simp: rbind_Ok_iff)

section \<open>Properties\<close>


lemma toy_outputs:
  "\<exists>outs. BuildOutputUtxos toy_hex (\<lambda>i j. (5, Ok 3)) 9 (keys toy_wallet) [[toy_seen]] [-3] ''0x03,1,2,3,4,0x05'' [Some 2] = Ok outs"
proof -
  obtain pair :: spending_key_pair where pair: "GetSpendingKeyPair toy_hex (keys toy_wallet) = Ok pair" using toy_pair by blast
  have total: "countTotalAmount [toy_seen] = Ok 5" by (simp add: countTotalAmount_def toy_seen_def)
  obtain u where u: "NewUtxo toy_hex 5 (Ok 3) (change_params (BigintMax [5 + - 3, 0]) toy_seen ''7'' (int_String 9) pair) = Ok u"
    using toy_new [of "change_params (BigintMax [5 + - 3, 0]) toy_seen ''7'' (int_String 9) pair"]
    by (auto simp: change_params_def no_params_def)
  have r: "recipient_parts m ''0x03,1,2,3,4,0x05'' = Ok (''0x03'', (1, 2), ''0x05'')" for m
  proof -
    have "Split ''0x03,1,2,3,4,0x05'' CHR '','' = [''0x03'', ''1'', ''2'', ''3'', ''4'', ''0x05'']" by code_simp
    moreover have "ParseBigInt ''1'' = Ok 1" "ParseBigInt ''2'' = Ok 2" by code_simp+
    ultimately show ?thesis by (simp add: recipient_parts_def)
  qed
  obtain v where v: "recipient_note toy_hex (5, Ok 3) 2 (Erc20TokenAddress toy_seen) (MintAddress toy_seen) (int_String 9)
      (''0x03'', (1, 2), ''0x05'') = Ok v"
    by (simp add: recipient_note_def NewUtxo_def recipient_params_def Let_def)
  show ?thesis
    using total u r v pair
    by (simp add: BuildOutputUtxos_def OutputUtxoProcessing_def recipientAmountAt_def toy_shielded index_at_def)
qed


text \<open>The check of the amounts is exact as long as no total is half the field or more: it accepts the
  input and output notes of a transaction just when every token's notes differ by the change asked
  for.\<close>

theorem amount_check_exact:
  assumes "\<forall>i < length ins. countTotalAmount (ins ! i) = Ok (a i)"
    and "\<forall>i < length ins. i < length outs \<and> countTotalAmount (outs ! i) = Ok (b i)"
    and "\<forall>i < length ins. 2 * \<bar>b i - a i\<bar> < fieldP E" "\<forall>c \<in> set changes. 2 * \<bar>c\<bar> < fieldP E"
  shows "EnsureAmountChanges E ins outs changes = Ok () \<longleftrightarrow>
    length changes = length ins \<and> (\<forall>i < length ins. b i - a i = changes ! i)"
proof -
  have inj: "normalised E x = normalised E y \<longleftrightarrow> x = y" if "2 * \<bar>x\<bar> < fieldP E" "2 * \<bar>y\<bar> < fieldP E" for x y
    using that by (auto simp: normalised_def)
  have "EnsureAmountChanges E ins outs changes = Ok () \<longleftrightarrow>
    length changes = length ins \<and> (\<forall>i < length ins. normalised E (b i - a i) = normalised E (changes ! i))"
    by (rule EnsureAmountChanges_totals) (use assms(1,2) in auto)
  then show ?thesis using inj assms(3,4) by (metis nth_mem)
qed

lemma amount_check_exact_witness:
  "EnsureAmountChanges toy_hex [[toy_seen]] [[toy_seen, toy_seen]] [5] = Ok () \<and>
   EnsureAmountChanges toy_hex [[toy_seen]] [[toy_seen, toy_seen]] [6] \<noteq> Ok ()"
  using amount_check_exact [of "[[toy_seen]]" "\<lambda>_. 5" "[[toy_seen, toy_seen]]" "\<lambda>_. 10" toy_hex "[5]"]
    amount_check_exact [of "[[toy_seen]]" "\<lambda>_. 5" "[[toy_seen, toy_seen]]" "\<lambda>_. 10" toy_hex "[6]"]
  by (simp add: countTotalAmount_def toy_seen_def toy_hex_def toy_def)

lemma fee_merge_facts:
  assumes "length toks = length changes" "MergeWithFeeStructure server chainID toks changes fee = Ok (toks', changes')"
  shows "length toks' = length changes' \<and> take (length toks) toks' = toks \<and>
    sum_list changes' = sum_list changes - FlatFee fee \<and>
    (\<exists>k < length toks'. EqualFold (toks' ! k) (FeeToken fee) \<and>
       changes' ! k = (if k < length changes then changes ! k else 0) - FlatFee fee \<and>
       \<not> (k < length changes \<and> 0 < changes ! k \<and> changes' ! k < 0) \<and>
       (\<forall>i < length changes. i \<noteq> k \<longrightarrow> changes' ! i = changes ! i))"
proof (cases "fee_token_index 0 toks (FeeToken fee)")
  case None
  then have "toks' = toks @ [FeeToken fee]" "changes' = changes @ [- FlatFee fee]"
    using assms(2) by (simp_all add: MergeWithFeeStructure_def)
  then show ?thesis using assms(1)
    by (intro conjI exI [of _ "length toks"]) (simp_all add: nth_append EqualFold_def)
next
  case (Some i)
  from fee_token_index_found [OF this] have i: "i < length toks" "EqualFold (toks ! i) (FeeToken fee)" by simp_all
  have "toks' = toks" "changes' = changes[i := changes ! i - FlatFee fee]" "\<not> (changes ! i > 0 \<and> changes ! i < FlatFee fee)"
    using assms(2) Some by (auto simp: MergeWithFeeStructure_def rbind_Ok_iff split: if_splits)
  then show ?thesis using assms(1) i
    by (intro conjI exI [of _ i]) (auto simp: sum_list_update_int)
qed

text \<open>The flat fee is taken exactly once: after merging, the token list and the changes have the same
  length, begin with the tokens of the transaction, and differ from the changes given only at one entry, of
  the fee's token, that has become smaller by the fee; a fee larger than what the transaction would bring
  in that token is refused.\<close>

theorem fee_merged_once:
  assumes "length toks = length changes" "MergeWithFeeStructure server chainID toks changes fee = Ok (toks', changes')"
  shows "length toks' = length changes' \<and> take (length toks) toks' = toks \<and>
    sum_list changes' = sum_list changes - FlatFee fee \<and>
    (\<exists>k < length toks'. EqualFold (toks' ! k) (FeeToken fee) \<and>
       changes' ! k = (if k < length changes then changes ! k else 0) - FlatFee fee \<and>
       \<not> (k < length changes \<and> 0 < changes ! k \<and> changes' ! k < 0) \<and>
       (\<forall>i < length changes. i \<noteq> k \<longrightarrow> changes' ! i = changes ! i))"
  by (rule fee_merge_facts [OF assms])

lemma fee_merged_once_witness:
  "MergeWithFeeStructure (\<lambda>c a. Ok []) 1 [''0xA''] [-3] \<lparr>FeeToken = ''0xa'', FlatFee = 2, VariableRate = 0\<rparr> = Ok ([''0xA''], [-5]) \<and>
   sum_list [-5 :: int] = sum_list [-3] - 2"
proof -
  have m: "MergeWithFeeStructure (\<lambda>c a. Ok []) 1 [''0xA''] [-3] \<lparr>FeeToken = ''0xa'', FlatFee = 2, VariableRate = 0\<rparr> = Ok ([''0xA''], [-5])"
    by code_simp
  show ?thesis using fee_merged_once [OF _ m] m by simp
qed

text \<open>While a deposit is in flight a transaction is proved against the live tree with the pending leaves
  appended in order, and against the live tree itself once they are all there; either way every positive
  input note is a leaf of that tree, and the root of the tree is the root of those leaves.\<close>

theorem speculative_tree_holds_leaves:
  assumes "holds_leaves live xs" "rmap ParseBigInt pending = Ok vs" "length xs + length vs \<le> 2 ^ (levels live - 1)"
    and "SpeculativeMerkleTree E (Some live) ins pending = Ok t"
  shows "(t = live \<and> (\<forall>v \<in> set vs. Contains live v) \<or>
      vs \<noteq> [] \<and> (\<forall>v \<in> set vs. \<not> Contains live v) \<and> holds_leaves t (xs @ vs) \<and> same_shape t live) \<and>
    (\<forall>us \<in> set ins. \<forall>u \<in> set us. \<forall>a > 0. Amount u = Some a \<longrightarrow>
       (\<exists>c v. snd (GetCommitment E u) = Ok c \<and> ParseBigInt c = Ok v \<and> Contains t v)) \<and>
    (let h = logarithm2 (int (width t)); r = merkle_root (hashFn live) (defaultValue live) h (leaf_values t)
     in 0 < width t \<and> r \<noteq> 0 \<longrightarrow> GetRootHash t = Ok r)"
proof -
  let ?n = "length (filter (Contains live) vs)"
  obtain t' where t': "(if ?n \<noteq> length vs then rfold append_leaf (Clone live) vs else Ok live) = Ok t'"
    and chk: "rfold (\<lambda>_ u. check_input E t' u) () (concat ins) = Ok ()" and tt: "t = t'" and part: "\<not> (?n > 0 \<and> ?n \<noteq> length vs)"
    using assms(2,4) by (auto simp: SpeculativeMerkleTree_def rbind_Ok_iff Let_def split: if_splits)
  obtain t1 where t1: "rfold append_leaf live vs = Ok t1" "holds_leaves t1 (xs @ vs)" "same_shape t1 live"
    using append_leaves_hold [OF assms(1,3)] by blast
  have one: "t = live \<and> (\<forall>v \<in> set vs. Contains live v) \<or>
      vs \<noteq> [] \<and> (\<forall>v \<in> set vs. \<not> Contains live v) \<and> holds_leaves t (xs @ vs) \<and> same_shape t live"
  proof (cases "?n = length vs")
    case True
    then have "\<forall>v \<in> set vs. Contains live v" using length_filter_less [of _ vs "Contains live"] by force
    then show ?thesis using True t' tt by simp
  next
    case False
    then have "?n = 0" using part by simp
    then have "\<forall>v \<in> set vs. \<not> Contains live v" by (simp add: filter_empty_conv)
    then show ?thesis using False t' tt t1 by auto
  qed
  then have shape: "merkle_inv t" "complete t" "hashFn t = hashFn live" "defaultValue t = defaultValue live"
    using assms(1) by (auto simp: holds_leaves_def same_shape_def)
  have two: "\<exists>c v. snd (GetCommitment E u) = Ok c \<and> ParseBigInt c = Ok v \<and> Contains t v"
    if "us \<in> set ins" "u \<in> set us" "a > 0" "Amount u = Some a" for us u a
  proof -
    have "check_input E t u = Ok ()" using chk that tt by (auto simp: check_inputs_Ok)
    then show ?thesis using that by (auto simp: check_input_def rbind_Ok_iff)
  qed
  have "GetRootHash t = Ok (merkle_root (hashFn live) (defaultValue live) (logarithm2 (int (width t))) (leaf_values t))"
    if "0 < width t" "merkle_root (hashFn live) (defaultValue live) (logarithm2 (int (width t))) (leaf_values t) \<noteq> 0"
    using GetRootHash_complete [OF shape(1,2) refl that(1)] that(2) shape(3,4) by simp
  with one two show ?thesis by (auto simp: Let_def)
qed

lemma speculative_tree_holds_leaves_witness:
  "\<exists>t. SpeculativeMerkleTree toy (Some (New (\<lambda>x y. x + y) 0 4)) [] [''7''] = Ok t \<and> leaf_values t = [7]"
proof -
  let ?live = "New (\<lambda>x y. x + y) 0 4"
  have live: "holds_leaves ?live []"
    by (simp add: holds_leaves_def merkle_inv_New complete_def leaf_values_def)
  have p: "rmap ParseBigInt [''7''] = Ok [7]" by code_simp
  have none: "\<not> Contains ?live 7" by (simp add: Contains_def New_def)
  obtain t where t: "rfold append_leaf ?live [7] = Ok t" using append_leaves_hold [OF live, of "[7]"] by auto
  then have s: "SpeculativeMerkleTree toy (Some ?live) [] [''7''] = Ok t"
    using p none by (simp add: SpeculativeMerkleTree_def)
  have "length [] + length [7 :: int] \<le> 2 ^ (levels ?live - 1)" by simp
  from speculative_tree_holds_leaves [OF live p this s] none s show ?thesis by (auto simp: holds_leaves_def)
qed

end
