(* ===== verification/ProofInputs.thy ===== *)
theory ProofInputs
  imports Outputs EnclaveSolana
begin

text \<open>
  \<open>internal/functions/snarkjs\<close>, the data a proof is built from: nullifiers, commitments and sealed outputs
  of the notes (\<open>common.go\<close>), Merkle paths and roots (\<open>get_data_from_workers.go\<close>,
  \<open>fetch_merkle_tree_siblings.go\<close>), the calldata hash and the signed message hash
  (\<open>calldata_hash.go\<close>, \<open>signed_message_hash.go\<close>), and the input of the commitment circuit
  (\<open>build_commitment_validation_data.go\<close>).
\<close>

section \<open>Notes\<close>

text \<open>The sign of a nil amount panics.\<close>

definition amount_sign :: "utxo \<Rightarrow> int result" where
  "amount_sign u = (case Amount u of None \<Rightarrow> Err Panic | Some a \<Rightarrow> Ok (sgn a))"

fun all_zero :: "utxo list \<Rightarrow> bool result" where
  "all_zero [] = Ok True"
| "all_zero (u # us) = rbind (amount_sign u) (\<lambda>s. if s \<noteq> 0 then Ok False else all_zero us)"

definition HasOnlyZeroAmounts :: "utxo list list \<Rightarrow> bool result" where
  "HasOnlyZeroAmounts inputUtxos = (if inputUtxos = [] then Ok False else all_zero (concat inputUtxos))"

definition GetUtxoCircuitH0Coords :: "utxo \<Rightarrow> jub_point result" where
  "GetUtxoCircuitH0Coords u =
     (case H0 u of Some h \<Rightarrow> Ok h
      | None \<Rightarrow> Err (Errorf ''snarkjs: UTXO missing H0 coordinates for proof input''))"

definition zeroMerkleSiblings :: "string list" where
  "zeroMerkleSiblings = replicate CircomMerkleLength ''0''"

definition BuildInNullifiers :: "primitives \<Rightarrow> utxo list list \<Rightarrow> bool list \<Rightarrow> string list list result" where
  "BuildInNullifiers E inputUtxos onChainCreation =
     rmap (\<lambda>(i, token). rmap (\<lambda>u. rbind (index_at onChainCreation i) (\<lambda>created.
       if created then Ok ''0'' else snd (GetNullifier E u))) token) (enumerate 0 inputUtxos)"

definition BuildInNullifiersByAmount :: "primitives \<Rightarrow> utxo list list \<Rightarrow> string list list result" where
  "BuildInNullifiersByAmount E inputUtxos =
     rmap (rmap (\<lambda>u. rbind (amount_sign u) (\<lambda>s. if s = 0 then Ok ''0'' else snd (GetNullifier E u)))) inputUtxos"

definition BuildOutCommitments :: "primitives \<Rightarrow> utxo list list \<Rightarrow> string list list result" where
  "BuildOutCommitments E outputUtxos =
     rmap (rmap (\<lambda>u. rbind (amount_sign u) (\<lambda>s. if s = 0 then Ok ''0'' else snd (GetCommitment E u)))) outputUtxos"

definition GetSlippageValues :: "int list \<Rightarrow> int list" where
  "GetSlippageValues amountChanges = map (\<lambda>am. if am \<ge> 0 then 0 else am) amountChanges"

text \<open>\<open>bps\<close> is \<open>math.Round(slippagePercentage * 100)\<close>; \<open>Div\<close> by a positive number is \<open>div\<close>.\<close>

definition BuildSwapSlippageValues :: "int list \<Rightarrow> int \<Rightarrow> int list" where
  "BuildSwapSlippageValues deltaAmounts bps =
     map (\<lambda>amount. if amount < 0 then amount else amount - (amount * bps) div BPSDenominator) deltaAmounts"

text \<open>The keys and nonces drawn for note \<open>(i, j)\<close> are \<open>r i j\<close>.\<close>

type_synonym sealing_draw = "byte list result \<times> byte list result"

definition CalcEncryptedOutputs ::
    "primitives \<Rightarrow> sealing \<Rightarrow> (nat \<Rightarrow> nat \<Rightarrow> sealing_draw) \<Rightarrow> utxo list list \<Rightarrow> string list list result" where
  "CalcEncryptedOutputs E S r outputUtxos =
     rmap (\<lambda>(i, token). rmap (\<lambda>(j, u).
       rbind (snd (EncryptUtxo E S (fst (r i j)) (snd (r i j)) u)) (\<lambda>enc. Ok (''0x'' @ hex_EncodeToString enc)))
       (enumerate 0 token)) (enumerate 0 outputUtxos)"

definition CalcPublicSignalCount :: "string \<Rightarrow> string list \<Rightarrow> int list \<Rightarrow> string list list \<Rightarrow> string list list \<Rightarrow> nat" where
  "CalcPublicSignalCount verifierName erc20TokenAddresses amountChanges inNullifiers outCommitments =
     (if has_prefix verifierName ''mainEVMCircuitMin0'' then 3
      else 1 + 1 + length erc20TokenAddresses + length amountChanges + 1 + length (concat inNullifiers) +
           length (concat outCommitments) + 1 + 1 + 1 + 1 + 1 + 1 + 1)"

definition dims_text :: "nat \<Rightarrow> nat \<Rightarrow> nat \<Rightarrow> string" where
  "dims_text a b c = int_String (int a) @ ''x'' @ int_String (int b) @ ''x'' @ int_String (int c)"

definition GetZkProofVerifierName :: "utxo list list \<Rightarrow> utxo list list \<Rightarrow> string result" where
  "GetZkProofVerifierName inputUtxos outputUtxos =
     (if outputUtxos = [] then Ok ''mainEVMCircuitMin0''
      else rbind (index_at inputUtxos 0) (\<lambda>ins. rbind (index_at outputUtxos 0) (\<lambda>outs.
           Ok (''mainEVMCircuit'' @ dims_text (length inputUtxos) (length ins) (length outs)))))"

section \<open>Stealth address of the transaction\<close>

definition CalcStealthAddressStructureFromH0 :: "primitives \<Rightarrow> jub_point \<Rightarrow> string \<Rightarrow> int list \<Rightarrow> stealth_structure result" where
  "CalcStealthAddressStructureFromH0 E h0 nullifyingPrivateKey spendingPublicKey =
     rbind (GetH1FromH0 E h0 nullifyingPrivateKey) (\<lambda>h1.
     rbind (DeriveStealthAddress E h0 nullifyingPrivateKey (Some spendingPublicKey)) (\<lambda>stealthStr.
     rbind (ParseBigInt stealthStr) (\<lambda>stealthAddress.
     Ok \<lparr>ssH0x = fst h0, ssH0y = snd h0, ssH1x = fst h1, ssH1y = snd h1, ssStealthAddress = stealthAddress\<rparr>)))"

definition CalcStealthAddressStructure :: "primitives \<Rightarrow> int \<Rightarrow> string \<Rightarrow> int list \<Rightarrow> stealth_structure result" where
  "CalcStealthAddressStructure E extraRandomization nullifyingPrivateKey spendingPublicKey =
     rbind (GetRandomizedStealthPair E extraRandomization nullifyingPrivateKey) (\<lambda>(h0, _).
     CalcStealthAddressStructureFromH0 E h0 nullifyingPrivateKey spendingPublicKey)"

section \<open>Merkle paths\<close>

definition check_in_tree :: "primitives \<Rightarrow> merkle \<Rightarrow> utxo \<Rightarrow> unit result" where
  "check_in_tree E t u =
     (if Amount u = None \<or> Amount u = Some 0 then Ok ()
      else
        rbind (snd (GetCommitment E u)) (\<lambda>c.
        rbind (ParseBigInt c) (\<lambda>commitmentBig.
        ensure (Contains t commitmentBig) (Errorf ''input commitment is not in the merkle tree''))))"

definition note_path :: "primitives \<Rightarrow> merkle \<Rightarrow> utxo \<Rightarrow> (string list \<times> string list) result" where
  "note_path E t u =
     rbind (snd (GetCommitment E u)) (\<lambda>c.
     rbind (ParseBigInt c) (\<lambda>commitmentBig.
     rbind (GetSiblingHashesForVerification t commitmentBig) (\<lambda>siblings.
     rbind (GetSiblingSides t commitmentBig) (\<lambda>sides.
     Ok (map int_String siblings, map int_String sides)))))"

definition CalcCommitmentsSiblingAndSides ::
    "primitives \<Rightarrow> utxo list list \<Rightarrow> merkle \<Rightarrow> (string list list list \<times> string list list list) result" where
  "CalcCommitmentsSiblingAndSides E inputUtxos t =
     rbind (rfold (\<lambda>_ u. check_in_tree E t u) () (concat inputUtxos)) (\<lambda>_.
     rbind (rmap (rmap (note_path E t)) inputUtxos) (\<lambda>paths.
     Ok (map (map fst) paths, map (map snd) paths)))"

record merkle_data =
  mdSiblings :: "string list list list"
  mdSides :: "string list list list"
  mdRootHash :: int
  mdRootHashIndex :: int

definition handleLocalMerkleTrees :: "primitives \<Rightarrow> merkle option \<Rightarrow> utxo list list \<Rightarrow> merkle_data result" where
  "handleLocalMerkleTrees E given inputUtxos =
     (case given of
        None \<Rightarrow> Err (Errorf ''root hash not available from hinkal merkle tree'')
      | Some t \<Rightarrow>
          rbind (GetRootHash t) (\<lambda>rootHash.
          rbind (CalcCommitmentsSiblingAndSides E inputUtxos t) (\<lambda>(siblings, sides).
          Ok \<lparr>mdSiblings = siblings, mdSides = sides, mdRootHash = rootHash, mdRootHashIndex = GetIndex t - 1\<rparr>)))"

text \<open>The snapshot server's answer: siblings, sides, root hash and its index.\<close>

type_synonym siblings_server =
  "string list list \<Rightarrow> (string list list list \<times> string list list list \<times> string \<times> string) result"

definition FetchMerkleTreeSiblings ::
    "primitives \<Rightarrow> siblings_server \<Rightarrow> utxo list list \<Rightarrow> (string list list list \<times> string list list list \<times> string \<times> string) result" where
  "FetchMerkleTreeSiblings E server inputUtxos =
     rbind (rmap (rmap (\<lambda>u. if Amount u = None \<or> Amount u = Some 0 then Ok ''0''
                          else rbind (snd (GetCommitment E u)) (\<lambda>c.
                               rbind (ParseBigInt c) (\<lambda>n. Ok (int_String n))))) inputUtxos) server"

definition handleRemoteMerkleTrees :: "primitives \<Rightarrow> siblings_server \<Rightarrow> utxo list list \<Rightarrow> merkle_data result" where
  "handleRemoteMerkleTrees E server inputUtxos =
     rbind (FetchMerkleTreeSiblings E server inputUtxos) (\<lambda>(siblings, sides, root, index).
     rbind (ParseBigInt root) (\<lambda>rootHash.
     rbind (ParseBigInt index) (\<lambda>rootHashIndex.
     Ok \<lparr>mdSiblings = siblings, mdSides = sides, mdRootHash = rootHash, mdRootHashIndex = rootHashIndex\<rparr>)))"

definition IsLocalNetwork :: "int \<Rightarrow> bool" where
  "IsLocalNetwork chainID = (chainID \<in> {31337, 103, 102})"

text \<open>\<open>onChainRoot\<close> is \<open>FetchOnChainRootHashAndIndex\<close>.\<close>

definition areLocalTreesUpToDate :: "(int \<times> int) result \<Rightarrow> merkle option \<Rightarrow> bool" where
  "areLocalTreesUpToDate onChainRoot given =
     (case given of
        None \<Rightarrow> False
      | Some t \<Rightarrow> (case (GetRootHash t, onChainRoot) of
                     (Inr localRoot, Inr (root, _)) \<Rightarrow> localRoot = root | _ \<Rightarrow> False))"

definition GetMerkleTreeSiblingsAndRootHashes ::
    "primitives \<Rightarrow> (int \<times> int) result \<Rightarrow> siblings_server \<Rightarrow> int \<Rightarrow> merkle option \<Rightarrow> utxo list list \<Rightarrow> bool \<Rightarrow> merkle_data result" where
  "GetMerkleTreeSiblingsAndRootHashes E onChainRoot server chainID given inputUtxos isSpeculativeTree =
     (if isSpeculativeTree then handleLocalMerkleTrees E given inputUtxos
      else if areLocalTreesUpToDate onChainRoot given \<or> IsLocalNetwork chainID
      then handleLocalMerkleTrees E given inputUtxos
      else handleRemoteMerkleTrees E server inputUtxos)"

definition zero_paths :: "utxo list list \<Rightarrow> string list list list" where
  "zero_paths inputUtxos = map (map (\<lambda>_. zeroMerkleSiblings)) inputUtxos"

definition GetDataFromWorkers ::
    "primitives \<Rightarrow> (int \<times> int) result \<Rightarrow> siblings_server \<Rightarrow> int \<Rightarrow> merkle option \<Rightarrow> utxo list list \<Rightarrow> bool \<Rightarrow>
     (merkle_data \<times> string list list) result" where
  "GetDataFromWorkers E onChainRoot server chainID given inputUtxos isSpeculativeTree =
     rbind (HasOnlyZeroAmounts inputUtxos) (\<lambda>zero.
     if zero then
       rbind (case (IsLocalNetwork chainID, given) of
                (True, Some t) \<Rightarrow> rbind (GetRootHash t) (\<lambda>rootHash. Ok (rootHash, GetIndex t - 1))
              | _ \<Rightarrow> onChainRoot) (\<lambda>(rootHash, rootHashIndex).
       Ok (\<lparr>mdSiblings = zero_paths inputUtxos, mdSides = zero_paths inputUtxos,
            mdRootHash = rootHash, mdRootHashIndex = rootHashIndex\<rparr>, map (map (\<lambda>_. ''0'')) inputUtxos))
     else
       rbind (GetMerkleTreeSiblingsAndRootHashes E onChainRoot server chainID given inputUtxos isSpeculativeTree) (\<lambda>d.
       rbind (BuildInNullifiersByAmount E inputUtxos) (\<lambda>nullifiers.
       Ok (d, nullifiers))))"

section \<open>The calldata hash\<close>

record hook_data =
  PreHookContract :: string
  PostHookContract :: string
  PreHookMetadata :: string
  PostHookMetadata :: string

definition DefaultHookData :: hook_data where
  "DefaultHookData = \<lparr>PreHookContract = ZeroAddress, PostHookContract = ZeroAddress,
     PreHookMetadata = ''0x00'', PostHookMetadata = ''0x00''\<rparr>"

definition hookDataValues :: "primitives \<Rightarrow> hook_data option \<Rightarrow> abi_value" where
  "hookDataValues E hookData =
     (let d = (case hookData of None \<Rightarrow> DefaultHookData | Some h \<Rightarrow> h)
      in ATuple [AAddress (hexToAddress E (PreHookContract d)), AAddress (hexToAddress E (PostHookContract d)),
           ABytes (fromHex E (PreHookMetadata d)), ABytes (fromHex E (PostHookMetadata d))])"

definition encryptedOutputsToBytes :: "primitives \<Rightarrow> string list list \<Rightarrow> byte list list list" where
  "encryptedOutputsToBytes E encryptedOutputs = map (map (fromHex E)) encryptedOutputs"

definition GetOriginalSender :: "string \<Rightarrow> string \<Rightarrow> string" where
  "GetOriginalSender externalAddress relay =
     (if relay = ZeroAddress then (if externalAddress = [] then ZeroAddress else externalAddress) else ZeroAddress)"

definition GetExternalActionIDHash :: "primitives \<Rightarrow> string \<Rightarrow> int" where
  "GetExternalActionIDHash E externalActionID =
     (if externalActionID = [] then 0
      else SetBytes (keccak256 E (string_bytes externalActionID)) mod fieldP E)"

definition CreateCallDataHash ::
    "primitives \<Rightarrow> int \<Rightarrow> int \<Rightarrow> string \<Rightarrow> string \<Rightarrow> string \<Rightarrow> int \<Rightarrow> string \<Rightarrow> string list list \<Rightarrow> string \<Rightarrow>
     hook_data option \<Rightarrow> int list \<Rightarrow> bool list \<Rightarrow> fee_structure \<Rightarrow> string \<Rightarrow> string \<Rightarrow> int result" where
  "CreateCallDataHash E chainID publicSignalCount relay externalAddress0 externalActionID emporiumMessage
       externalActionMetadata encryptedOutputs onChainEncryptedOutput hookData slippageValues onChainCreation
       feeStructure originalSender0 extraData =
     (let originalSender = (if originalSender0 = [] then GetOriginalSender externalAddress0 relay else originalSender0);
          externalAddress = (if externalAddress0 = [] then ZeroAddress else externalAddress0);
          isTron = IsTronLike chainID;
          values1 = [AUint16 (word_of_int publicSignalCount), AAddress (hexToAddress E relay), AUint256 emporiumMessage,
                     ATuple [AAddress (hexToAddress E externalAddress), AUint256 (GetExternalActionIDHash E externalActionID),
                             ABytes (fromHex E externalActionMetadata)]]
                    @ (if \<not> isTron then [AInt256Arr slippageValues] else []);
          feeStructureValue = ATuple [AAddress (hexToAddress E (FeeToken feeStructure)), AUint256 (FlatFee feeStructure),
                                      AUint256 (VariableRate feeStructure)];
          values2 = [hookDataValues E hookData, ABytesArr2 (encryptedOutputsToBytes E encryptedOutputs)]
                    @ (if isTron then [feeStructureValue, AInt256Arr slippageValues]
                       else [ABytes (fromHex E onChainEncryptedOutput), feeStructureValue])
                    @ [ABoolArr onChainCreation, AAddress (hexToAddress E originalSender), ABytes (fromHex E extraData)]
      in rbind (rwrap ''calldata encode 1'' (abiPack E values1)) (\<lambda>encodedValues1.
         rbind (rwrap ''calldata encode 2'' (abiPack E values2)) (\<lambda>encodedValues2.
         rbind (rwrap ''calldata encode final''
                  (abiPack E [AUint256 (SetBytes (keccak256 E encodedValues1)), AUint256 (SetBytes (keccak256 E encodedValues2))]))
           (\<lambda>encodedValues. Ok (SetBytes (keccak256 E encodedValues) mod fieldP E)))))"

section \<open>The signed message hash\<close>

record evm_hash_params =
  ehRootHashHinkal :: int
  ehErc20TokenAddresses :: "string list"
  ehAmountChanges :: "int list"
  ehOutTimeStamp :: int
  ehInNullifiers :: "string list list"
  ehOutCommitments :: "string list list"
  ehCalldataHash :: int
  ehMessage :: int
  ehOutH1Ax :: int
  ehOutH1Ay :: int
  ehH0Ax :: int
  ehH0Ay :: int

definition addressesToBigInts :: "string list \<Rightarrow> int list result" where
  "addressesToBigInts addresses = rmap ParseBigInt addresses"

definition flatToBigInts :: "string list list \<Rightarrow> int list result" where
  "flatToBigInts values = rmap ParseBigInt (concat values)"

definition ComputeSignedMessageHashEvm :: "primitives \<Rightarrow> evm_hash_params \<Rightarrow> int result" where
  "ComputeSignedMessageHashEvm E p =
     rbind (addressesToBigInts (ehErc20TokenAddresses p)) (\<lambda>tokens.
     rbind (flatToBigInts (ehInNullifiers p)) (\<lambda>nullifiers.
     rbind (flatToBigInts (ehOutCommitments p)) (\<lambda>commitments.
     rbind (rwrap ''signed message hash encode'' (abiPack E
              [AUint256 (ehRootHashHinkal p), AUint256Arr tokens, AUint256Arr (ehAmountChanges p), AUint256 (ehOutTimeStamp p),
               AUint256Arr nullifiers, AUint256Arr commitments, AUint256 (ehCalldataHash p), AUint256 (ehMessage p),
               AUint256 (ehOutH1Ax p), AUint256 (ehOutH1Ay p), AUint256 (ehH0Ax p), AUint256 (ehH0Ay p)])) (\<lambda>packed.
     Ok (SetBytes (keccak256 E packed) mod fieldP E)))))"

definition appendBytes32 :: "byte list \<Rightarrow> int \<Rightarrow> byte list result" where
  "appendBytes32 dst value = rbind (FillBytes value 32) (\<lambda>b. Ok (dst @ b))"

definition appendLengthPrefixedBytes32Array :: "byte list \<Rightarrow> int list \<Rightarrow> byte list result" where
  "appendLengthPrefixedBytes32Array dst values =
     rbind (FillBytes (int (length values)) 8) (\<lambda>len. rfold appendBytes32 (dst @ len) values)"

definition ComputeSignedMessageHashSolana :: "primitives \<Rightarrow> solana_hash_params \<Rightarrow> int result" where
  "ComputeSignedMessageHashSolana E p =
     rbind (flatToBigInts (hInNullifiers p)) (\<lambda>nullifiers.
     rbind (flatToBigInts (hOutCommitments p)) (\<lambda>commitments.
     rbind (appendBytes32 [] (hRootHashHinkal p)) (\<lambda>b.
     rbind (appendLengthPrefixedBytes32Array b (hMintAccountPart1 p)) (\<lambda>b.
     rbind (appendLengthPrefixedBytes32Array b (hMintAccountPart2 p)) (\<lambda>b.
     rbind (appendLengthPrefixedBytes32Array b (hAmountChanges p)) (\<lambda>b.
     rbind (appendBytes32 b (hOutTimeStamp p)) (\<lambda>b.
     rbind (appendLengthPrefixedBytes32Array b nullifiers) (\<lambda>b.
     rbind (appendLengthPrefixedBytes32Array b commitments) (\<lambda>b.
     rbind (appendBytes32 b (hCalldataHash p)) (\<lambda>b.
     rbind (appendBytes32 b (hMessage p)) (\<lambda>b.
     rbind (appendBytes32 b (hSwapperAccountAdditionalSeed p)) (\<lambda>b.
     rbind (appendBytes32 b (hOutH1Ay p)) (\<lambda>b.
     rbind (appendBytes32 b (hH0Ax p)) (\<lambda>b.
     rbind (appendBytes32 b (hH0Ay p)) (\<lambda>bytes.
     Ok (SetBytes (sha256 E bytes) mod fieldP E))))))))))))))))"

section \<open>The commitment circuit\<close>

record commitment_input =
  ciNullifyingPrivateKey :: string
  ciSpendingPublicKey :: jub_point
  ciErc20TokenAddresses :: "string list"
  ciInAmounts :: "string list list"
  ciInH0Ax :: "string list list"
  ciInH0Ay :: "string list list"
  ciInTimeStamps :: "string list list"
  ciInCommitments :: "string list list"
  ciInNullifiers :: "string list list"

record commitment_build =
  cbVerifierName :: string
  cbInput :: commitment_input

definition validateUtxoStealth :: "primitives \<Rightarrow> utxo \<Rightarrow> string \<Rightarrow> int list \<Rightarrow> unit result" where
  "validateUtxoStealth E u nullifyingPrivateKey defaultSpendingPublicKey =
     rbind (snd (GetStealthAddress E u)) (\<lambda>utxoStealth.
     let spendingPublicKey = (case SpendingPublicKey u of None \<Rightarrow> defaultSpendingPublicKey | Some k \<Rightarrow> k) in
     case H0 u of
       None \<Rightarrow> Err (Errorf ''snarkjs: commitment validation missing H0'')
     | Some h0 \<Rightarrow>
         rbind (DeriveStealthAddress E h0 nullifyingPrivateKey (Some spendingPublicKey)) (\<lambda>derived.
         rbind (ParseBigInt utxoStealth) (\<lambda>utxoStealthBig.
         rbind (ParseBigInt derived) (\<lambda>derivedBig.
         ensure (utxoStealthBig = derivedBig) (Errorf ''snarkjs: commitment validation stealth mismatch'')))))"

definition circuit_token :: "primitives \<Rightarrow> int \<Rightarrow> string \<Rightarrow> string result" where
  "circuit_token E chainID addr =
     rbind (if IsSolanaLike chainID
            then rbind (FormatMintAddress E addr) (\<lambda>formatted. ParseBigInt (CompressedAddress formatted))
            else ParseBigInt addr) (\<lambda>n. Ok (int_String n))"

text \<open>Amount, \<open>H0\<close>, commitment and time stamp of one note, as texts.\<close>

definition circuit_note :: "primitives \<Rightarrow> string \<Rightarrow> int list \<Rightarrow> utxo \<Rightarrow> (string \<times> string \<times> string \<times> string \<times> string) result" where
  "circuit_note E nullifyingPrivateKey defaultSpendingPublicKey u =
     rbind (GetUtxoCircuitH0Coords u) (\<lambda>h0.
     rbind (amount_sign u) (\<lambda>s.
     rbind (if s = 0 then Ok ''0''
            else rbind (snd (GetCommitment E u)) (\<lambda>c. rbind (ParseBigInt c) (\<lambda>n. Ok (int_String n)))) (\<lambda>commitment.
     rbind (validateUtxoStealth E u nullifyingPrivateKey defaultSpendingPublicKey) (\<lambda>_.
     Ok (nilable_String (Amount u), int_String (fst h0), int_String (snd h0), TimeStamp u, commitment)))))"

definition BuildCommitmentValidationData ::
    "primitives \<Rightarrow> int \<Rightarrow> user_keys \<Rightarrow> string list \<Rightarrow> utxo list list \<Rightarrow> commitment_build option result" where
  "BuildCommitmentValidationData E chainID uk erc20Addresses inputUtxosArray =
     rbind (HasOnlyZeroAmounts inputUtxosArray) (\<lambda>zero.
     if zero then Ok None
     else if erc20Addresses = [] \<or> inputUtxosArray = [] \<or> hd inputUtxosArray = [] then Ok None
     else
       rbind (snd (GetShieldedPrivateKey E uk)) (\<lambda>nk.
       rbind (GetSpendingKeyPair E uk) (\<lambda>pair.
       let spk = [fst (PubSpendingBJJPoint pair), snd (PubSpendingBJJPoint pair)] in
       rbind (rmap (circuit_token E chainID) erc20Addresses) (\<lambda>tokens.
       rbind (rmap (rmap (circuit_note E nk spk)) inputUtxosArray) (\<lambda>notes.
       rbind (BuildInNullifiersByAmount E inputUtxosArray) (\<lambda>inNullifiers.
       Ok (Some \<lparr>
         cbVerifierName = ''commitmentCalculator'' @ int_String (int (length erc20Addresses)) @ ''x'' @
           int_String (int (length (hd inputUtxosArray))),
         cbInput = \<lparr>ciNullifyingPrivateKey = nk, ciSpendingPublicKey = PubSpendingBJJPoint pair,
           ciErc20TokenAddresses = tokens,
           ciInAmounts = map (map (\<lambda>(a, x, y, t, c). a)) notes,
           ciInH0Ax = map (map (\<lambda>(a, x, y, t, c). x)) notes,
           ciInH0Ay = map (map (\<lambda>(a, x, y, t, c). y)) notes,
           ciInTimeStamps = map (map (\<lambda>(a, x, y, t, c). t)) notes,
           ciInCommitments = map (map (\<lambda>(a, x, y, t, c). c)) notes,
           ciInNullifiers = inNullifiers\<rparr>\<rparr>)))))))"

end
