(* ===== verification/Proofs.thy ===== *)
theory Proofs
  imports ProofInputs
begin

text \<open>
  \<open>internal/functions/snarkjs\<close>, the construction of a proof: \<open>construct_general_zk_proof.go\<close> (EVM and
  Tron), \<open>construct_solana_zk_proof.go\<close>, \<open>generate_circom_data.go\<close>,
  \<open>generate_main_and_commitment_zk_proof.go\<close>, \<open>generate_zk_proof.go\<close> and \<open>generate_zk_proof_self.go\<close>.
  The remote prover (\<open>GenerateZkProofEnclave\<close>) is a function of the circuits' names and inputs.
\<close>

section \<open>Circuit inputs and provers\<close>

record evm_input =
  eiRootHashHinkal :: int
  eiSpendingPublicKey :: jub_point
  eiNullifyingPrivateKey :: string
  eiErc20TokenAddresses :: "string list"
  eiAmountChanges :: "int list"
  eiInAmounts :: "string list list"
  eiInH0Ax :: "string list list"
  eiInH0Ay :: "string list list"
  eiInTimeStamps :: "string list list"
  eiInNullifiers :: "string list list"
  eiInCommitmentSiblings :: "string list list list"
  eiInCommitmentSiblingSides :: "string list list list"
  eiOutAmounts :: "string list list"
  eiOutTimeStamp :: int
  eiOutPublicKeys :: "string list list"
  eiOutCommitments :: "string list list"
  eiMessageSeed :: int
  eiH0Ax :: int
  eiH0Ay :: int
  eiCalldataHash :: int
  eiEddsaSignature :: "jub_point \<times> int"
  eiSignedMessageHash :: int

record solana_input =
  siRootHashHinkal :: int
  siSpendingPublicKey :: jub_point
  siEddsaSignature :: "jub_point \<times> int"
  siSignedMessageHash :: int
  siNullifyingPrivateKey :: string
  siMintAccountPart1 :: "int list"
  siMintAccountPart2 :: "int list"
  siAmountChanges :: "int list"
  siInAmounts :: "string list list"
  siInH0Ax :: "string list list"
  siInH0Ay :: "string list list"
  siInTimeStamps :: "string list list"
  siInNullifiers :: "string list list"
  siInCommitmentSiblings :: "string list list list"
  siInCommitmentSiblingSides :: "string list list list"
  siOutAmounts :: "string list list"
  siOutTimeStamp :: int
  siOutPublicKeys :: "string list list"
  siOutCommitments :: "string list list"
  siCalldataHash :: int
  siMessageSeed :: int
  siSwapperAccountSalt :: int
  siH0Ax :: int
  siH0Ay :: int

text \<open>\<open>Min0Circuit\<close>: the time stamp, the calldata hash and the message seed.\<close>

datatype circuit_input =
    EvmCircuit evm_input
  | Min0Circuit int int int
  | SolanaCircuit solana_input
  | CommitmentCircuit commitment_input

record zk_proof =
  zkA :: "string \<times> string"
  zkB :: "(string \<times> string) \<times> (string \<times> string)"
  zkC :: "string \<times> string"
  zkPublicSignals :: "string list"

type_synonym prover = "string list \<Rightarrow> circuit_input list \<Rightarrow> zk_proof list result"

definition ErrSelfProvingNotImplemented :: go_error where
  "ErrSelfProvingNotImplemented = Errorf ''snarkjs: local (self) proving not implemented; use the remote/enclave path''"

definition GenerateZkProofSelf :: "string \<Rightarrow> circuit_input \<Rightarrow> zk_proof result" where
  "GenerateZkProofSelf verifierName input = Err ErrSelfProvingNotImplemented"

definition generateZkProofSelfBatch :: "string list \<Rightarrow> circuit_input list \<Rightarrow> zk_proof list result" where
  "generateZkProofSelfBatch verifierNames inputs =
     rmap (\<lambda>(i, name). rbind (index_at inputs i) (GenerateZkProofSelf name)) (enumerate 0 verifierNames)"

text \<open>\<open>errors.Join\<close> keeps both errors; the first one is kept here.\<close>

definition GenerateZkProof :: "prover \<Rightarrow> string list \<Rightarrow> circuit_input list \<Rightarrow> bool \<Rightarrow> zk_proof list result" where
  "GenerateZkProof prove verifierNames inputs remotely =
     (if remotely then
        case prove verifierNames inputs of
          Inr results \<Rightarrow> Ok results
        | Inl err \<Rightarrow>
            (case generateZkProofSelfBatch verifierNames inputs of
               Inr selfResults \<Rightarrow> Ok selfResults
             | Inl selfErr \<Rightarrow> Err (Wrapped ''errors.Join'' err))
      else generateZkProofSelfBatch verifierNames inputs)"

text \<open>The commitment data travel with the proof that validates them.\<close>

type_synonym commitment_validation = "commitment_input \<times> zk_proof"

definition BuildCommitmentValidationDataFromProof :: "commitment_build option \<Rightarrow> zk_proof option \<Rightarrow> commitment_validation option" where
  "BuildCommitmentValidationDataFromProof build proofResult =
     (case (build, proofResult) of (Some b, Some p) \<Rightarrow> Some (cbInput b, p) | _ \<Rightarrow> None)"

definition GenerateMainAndCommitmentZkProof ::
    "primitives \<Rightarrow> prover \<Rightarrow> int \<Rightarrow> user_keys \<Rightarrow> string list \<Rightarrow> utxo list list \<Rightarrow> string \<Rightarrow> circuit_input \<Rightarrow> bool \<Rightarrow>
     (zk_proof \<times> commitment_validation option) result" where
  "GenerateMainAndCommitmentZkProof E prove chainID uk tokenAddresses inputUtxos mainVerifierName mainCircuitInput remotely =
     rbind (BuildCommitmentValidationData E chainID uk tokenAddresses inputUtxos) (\<lambda>build.
     let verifierNames = mainVerifierName # (case build of None \<Rightarrow> [] | Some b \<Rightarrow> [cbVerifierName b]);
         inputs = mainCircuitInput # (case build of None \<Rightarrow> [] | Some b \<Rightarrow> [CommitmentCircuit (cbInput b)])
     in rbind (GenerateZkProof prove verifierNames inputs remotely) (\<lambda>proofResponses.
        let commitmentProof = (if build \<noteq> None \<and> length proofResponses > 1 then Some (proofResponses ! 1) else None)
        in rbind (index_at proofResponses 0) (\<lambda>main.
           Ok (main, BuildCommitmentValidationDataFromProof build commitmentProof))))"

section \<open>Circom data\<close>

record circom_data =
  cdRootHashHinkal :: "int option"
  cdRootHashHinkalIndex :: "int option"
  cdErc20TokenAddresses :: "string list"
  cdAmountChanges :: "int list"
  cdInputNullifiers :: "string list list"
  cdOutCommitments :: "string list list"
  cdEncryptedOutputs :: "string list list"
  cdOnChainEncryptedOutput :: string
  cdTimeStamp :: string
  cdStealthAddressStructure :: stealth_structure
  cdRelay :: string
  cdExternalAddress :: string
  cdExternalActionID :: int
  cdExternalActionMetadata :: string
  cdHookData :: hook_data
  cdCalldataHash :: int
  cdEmporiumMessage :: int
  cdPublicSignalCount :: int
  cdOnChainCreation :: "bool list"
  cdSlippageValues :: "int list"
  cdFeeStructure :: fee_structure
  cdOriginalSender :: string
  cdExtraData :: string
  cdNewRootHash :: "int option"
  cdInsertedLeafIndex :: "int option"
  cdCreateBlockedUtxos :: bool

text \<open>The time stamp of the first note (an empty first row panics), or the given one.\<close>

definition circom_time_stamp :: "utxo list list \<Rightarrow> string option \<Rightarrow> string result" where
  "circom_time_stamp outputUtxos timeStampFallback =
     (if outputUtxos \<noteq> [] then rbind (index_at (hd outputUtxos) 0) (\<lambda>u. Ok (TimeStamp u))
      else Ok (case timeStampFallback of None \<Rightarrow> [] | Some s \<Rightarrow> s))"

text \<open>\<open>timeStamp\<close> is \<open>circom_time_stamp\<close> of the output notes and the fallback.\<close>

definition GenerateCircomData ::
    "primitives \<Rightarrow> string list list \<Rightarrow> string list list \<Rightarrow> int \<Rightarrow> int \<Rightarrow> int list \<Rightarrow> string list \<Rightarrow> string list list \<Rightarrow> string \<Rightarrow>
     int \<Rightarrow> string \<Rightarrow> string \<Rightarrow> int \<Rightarrow> string \<Rightarrow> string \<Rightarrow> int \<Rightarrow> stealth_structure \<Rightarrow> bool list \<Rightarrow> hook_data option \<Rightarrow> string \<Rightarrow>
     int list \<Rightarrow> fee_structure \<Rightarrow> string \<Rightarrow> string \<Rightarrow> circom_data" where
  "GenerateCircomData E outCommitments inputNullifiers rootHashHinkal rootHashHinkalIndex amountChanges erc20TokenAddresses
       encryptedOutputs onChainEncryptedOutput publicSignalCount externalActionID externalAddress emporiumMessage
       externalActionMetadata relay calldataHash st onChainCreation hookData timeStamp slippageValues
       feeStructure originalSender extraData =
     (let externalAddressOrZero = (if externalAddress = [] then ZeroAddress else externalAddress) in
      \<lparr>cdRootHashHinkal = Some rootHashHinkal, cdRootHashHinkalIndex = Some rootHashHinkalIndex,
       cdErc20TokenAddresses = erc20TokenAddresses, cdAmountChanges = amountChanges,
       cdInputNullifiers = inputNullifiers, cdOutCommitments = outCommitments, cdEncryptedOutputs = encryptedOutputs,
       cdOnChainEncryptedOutput = onChainEncryptedOutput, cdTimeStamp = timeStamp, cdStealthAddressStructure = st,
       cdRelay = relay, cdExternalAddress = externalAddressOrZero,
       cdExternalActionID = GetExternalActionIDHash E externalActionID, cdExternalActionMetadata = externalActionMetadata,
       cdHookData = (case hookData of None \<Rightarrow> DefaultHookData | Some h \<Rightarrow> h), cdCalldataHash = calldataHash,
       cdEmporiumMessage = emporiumMessage, cdPublicSignalCount = publicSignalCount,
       cdOnChainCreation = onChainCreation, cdSlippageValues = slippageValues, cdFeeStructure = feeStructure,
       cdOriginalSender = (if originalSender = [] then GetOriginalSender externalAddressOrZero relay else originalSender),
       cdExtraData = extraData, cdNewRootHash = None, cdInsertedLeafIndex = None, cdCreateBlockedUtxos = False\<rparr>)"

section \<open>EVM and Tron\<close>

record zk_params =
  zpMerkleTree :: "merkle option"
  zpInputUtxos :: "utxo list list"
  zpOutputUtxos :: "utxo list list"
  zpUserKeys :: user_keys
  zpExternalActionID :: string
  zpExternalAddress :: string
  zpExternalActionMetadata :: "string list"
  zpGenerateProofRemotely :: bool
  zpFeeStructure :: fee_structure
  zpRelay :: string
  zpChainID :: int
  zpOnChainCreation :: "bool list option"
  zpHookData :: "hook_data option"
  zpOriginalSender :: string
  zpSubAccountPrivateKey :: string
  zpExtraData :: string
  zpIsSpeculativeTree :: bool
  zpSlippageValues :: "int list option"

text \<open>What a construction draws and reads: the two random numbers, the clock, the keys and nonces of the
  sealed outputs and of the transaction's own output.\<close>

record draws =
  drRandomization :: "int result"
  drMessageSeed :: "int result"
  drNow :: int
  drOutputs :: "nat \<Rightarrow> nat \<Rightarrow> sealing_draw"
  drOwn :: sealing_draw

definition mapUtxoStrings :: "utxo list list \<Rightarrow> (utxo \<Rightarrow> string result) \<Rightarrow> string list list result" where
  "mapUtxoStrings us fn = rmap (rmap fn) us"

definition amount_text_of :: "utxo \<Rightarrow> string result" where
  "amount_text_of u = Ok (nilable_String (Amount u))"

definition h0_text :: "(jub_point \<Rightarrow> int) \<Rightarrow> utxo \<Rightarrow> string result" where
  "h0_text coordinate u = rbind (GetUtxoCircuitH0Coords u) (\<lambda>h0. Ok (int_String (coordinate h0)))"

definition ExternalActionEmporium :: string where "ExternalActionEmporium = ''Emporium''"

text \<open>\<open>EncodeEmporiumMetadata\<close> of the private wallet, with the address of the sub-account's key: chain,
  emporium, key, operations, message and flat fee.\<close>

type_synonym emporium_encoder = "int \<Rightarrow> string \<Rightarrow> string \<Rightarrow> string list \<Rightarrow> int \<Rightarrow> int \<Rightarrow> string result"

definition action_metadata :: "emporium_encoder \<Rightarrow> int \<Rightarrow> zk_params \<Rightarrow> int \<Rightarrow> string result" where
  "action_metadata emporium chainID p emporiumMessage =
     (if zpExternalActionID p = ExternalActionEmporium then
        emporium chainID (if zpExternalAddress p = [] then ZeroAddress else zpExternalAddress p)
          (zpSubAccountPrivateKey p) (zpExternalActionMetadata p) emporiumMessage (FlatFee (zpFeeStructure p))
      else if zpExternalActionID p = [] \<or> zpExternalActionMetadata p = [] then Ok ''0x''
      else Ok (hd (zpExternalActionMetadata p)))"

text \<open>The pair of the transaction and its sealed key, drawn before the Merkle data are fetched.\<close>

definition own_stealth ::
    "primitives \<Rightarrow> draws \<Rightarrow> string \<Rightarrow> int list \<Rightarrow> stealth_structure result" where
  "own_stealth E dr nk spk =
     rbind (drRandomization dr) (\<lambda>randSeed.
     rbind (FindCorrectRandomization E randSeed nk) (\<lambda>extraRandomization.
     CalcStealthAddressStructure E extraRandomization nk spk))"

definition own_output :: "primitives \<Rightarrow> sealing \<Rightarrow> draws \<Rightarrow> string \<Rightarrow> stealth_structure \<Rightarrow> byte list result" where
  "own_output E S dr nk st =
     rbind (GetEncryptionKeyPair E S nk) (\<lambda>(_, ownKey).
     EncryptEncryptionKeyAndStealthAddress E S (fst (drOwn dr)) (snd (drOwn dr)) ownKey (Some (ssStealthAddress st)))"

text \<open>The texts of the notes the circuit takes.\<close>

record note_texts =
  ntInAmounts :: "string list list"
  ntInH0Ax :: "string list list"
  ntInH0Ay :: "string list list"
  ntInTimeStamps :: "string list list"
  ntOutAmounts :: "string list list"
  ntOutPublicKeys :: "string list list"

definition circuit_texts :: "primitives \<Rightarrow> utxo list list \<Rightarrow> utxo list list \<Rightarrow> note_texts result" where
  "circuit_texts E inputUtxos outputUtxos =
     rbind (mapUtxoStrings inputUtxos amount_text_of) (\<lambda>inAmounts.
     rbind (mapUtxoStrings inputUtxos (h0_text fst)) (\<lambda>inH0Ax.
     rbind (mapUtxoStrings inputUtxos (h0_text snd)) (\<lambda>inH0Ay.
     rbind (mapUtxoStrings inputUtxos (\<lambda>u. Ok (TimeStamp u))) (\<lambda>inTimeStamps.
     rbind (mapUtxoStrings outputUtxos amount_text_of) (\<lambda>outAmounts.
     rbind (mapUtxoStrings outputUtxos (\<lambda>u. snd (GetStealthAddress E u))) (\<lambda>outPublicKeys.
     Ok \<lparr>ntInAmounts = inAmounts, ntInH0Ax = inH0Ax, ntInH0Ay = inH0Ay, ntInTimeStamps = inTimeStamps,
         ntOutAmounts = outAmounts, ntOutPublicKeys = outPublicKeys\<rparr>))))))"

record evm_proof =
  epVerifierName :: string
  epInput :: evm_input
  epCircom :: circom_data

text \<open>Everything up to the call of the prover: the input of the main circuit and the circom data.\<close>

definition evm_proof_data ::
    "primitives \<Rightarrow> sealing \<Rightarrow> (int \<times> int) result \<Rightarrow> siblings_server \<Rightarrow> emporium_encoder \<Rightarrow> draws \<Rightarrow> zk_params \<Rightarrow> evm_proof result" where
  "evm_proof_data E S onChainRoot server emporium dr p =
     (let relay = (if zpRelay p = [] then ZeroAddress else zpRelay p);
          chainID = (if zpChainID p = 0 then 31337 else zpChainID p);
          inputUtxos = zpInputUtxos p; outputUtxos = zpOutputUtxos p;
          onChainCreation = (case zpOnChainCreation p of None \<Rightarrow> map (\<lambda>_. False) inputUtxos | Some c \<Rightarrow> c) in
      rbind (GetZkProofVerifierName inputUtxos outputUtxos) (\<lambda>verifierName.
      rbind (CalcAmountChanges E inputUtxos outputUtxos False) (\<lambda>amountChanges.
      rbind (rmap (\<lambda>token. rbind (index_at token 0) (\<lambda>u. Ok (Erc20TokenAddress u))) inputUtxos) (\<lambda>erc20TokenAddresses.
      rbind (CalcEncryptedOutputs E S (drOutputs dr) outputUtxos) (\<lambda>encryptedOutputs.
      rbind (snd (GetShieldedPrivateKey E (zpUserKeys p))) (\<lambda>nk.
      rbind (GetSpendingKeyPair E (zpUserKeys p)) (\<lambda>pair.
      rbind (own_stealth E dr nk [fst (PubSpendingBJJPoint pair), snd (PubSpendingBJJPoint pair)]) (\<lambda>st.
      rbind (own_output E S dr nk st) (\<lambda>ownBytes.
      rbind (GetDataFromWorkers E onChainRoot server chainID (zpMerkleTree p) inputUtxos (zpIsSpeculativeTree p)) (\<lambda>(d, inNullifiers).
      rbind (BuildOutCommitments E outputUtxos) (\<lambda>outCommitments.
      rbind (drMessageSeed dr) (\<lambda>messageSeed.
      rbind (PoseidonBig E [messageSeed]) (\<lambda>emporiumMessage.
      rbind (if outputUtxos = [] then Ok (drNow dr)
             else rbind (index_at (hd outputUtxos) 0) (\<lambda>u. ParseBigInt (TimeStamp u))) (\<lambda>outTimeStamp.
      rbind (circuit_texts E inputUtxos outputUtxos) (\<lambda>texts.
      let publicSignalCount = CalcPublicSignalCount verifierName erc20TokenAddresses amountChanges inNullifiers outCommitments in
      rbind (CalcAmountChanges E inputUtxos outputUtxos True) (\<lambda>amountChangesBased.
      let slippageValues = (case zpSlippageValues p of None \<Rightarrow> GetSlippageValues amountChangesBased | Some v \<Rightarrow> v) in
      rbind (action_metadata emporium chainID p emporiumMessage) (\<lambda>metadata.
      let extraData = (if zpExtraData p = [] then ''0x'' else zpExtraData p);
          onChainEncryptedOutput = ''0x'' @ hex_EncodeToString ownBytes in
      rbind (CreateCallDataHash E chainID (int publicSignalCount) relay (zpExternalAddress p) (zpExternalActionID p)
               emporiumMessage metadata encryptedOutputs onChainEncryptedOutput (zpHookData p) slippageValues
               onChainCreation (zpFeeStructure p) (zpOriginalSender p) extraData) (\<lambda>calldataHash.
      rbind (ComputeSignedMessageHashEvm E
               \<lparr>ehRootHashHinkal = mdRootHash d, ehErc20TokenAddresses = erc20TokenAddresses, ehAmountChanges = amountChanges,
                ehOutTimeStamp = outTimeStamp, ehInNullifiers = inNullifiers, ehOutCommitments = outCommitments,
                ehCalldataHash = calldataHash, ehMessage = emporiumMessage, ehOutH1Ax = ssH1x st, ehOutH1Ay = ssH1y st,
                ehH0Ax = ssH0x st, ehH0Ay = ssH0y st\<rparr>) (\<lambda>signedMessageHash.
      rbind (SignEddsa E (zpUserKeys p) signedMessageHash) (\<lambda>sig.
      rbind (circom_time_stamp outputUtxos
               (if has_prefix verifierName ''mainEVMCircuitMin0'' then Some (int_String outTimeStamp) else None)) (\<lambda>timeStamp.
      Ok \<lparr>epVerifierName = verifierName,
         epInput = \<lparr>eiRootHashHinkal = mdRootHash d, eiSpendingPublicKey = PubSpendingBJJPoint pair,
           eiNullifyingPrivateKey = nk, eiErc20TokenAddresses = erc20TokenAddresses, eiAmountChanges = amountChanges,
           eiInAmounts = ntInAmounts texts, eiInH0Ax = ntInH0Ax texts, eiInH0Ay = ntInH0Ay texts,
           eiInTimeStamps = ntInTimeStamps texts, eiInNullifiers = inNullifiers,
           eiInCommitmentSiblings = mdSiblings d, eiInCommitmentSiblingSides = mdSides d,
           eiOutAmounts = ntOutAmounts texts, eiOutTimeStamp = outTimeStamp, eiOutPublicKeys = ntOutPublicKeys texts,
           eiOutCommitments = outCommitments, eiMessageSeed = messageSeed, eiH0Ax = ssH0x st, eiH0Ay = ssH0y st,
           eiCalldataHash = calldataHash, eiEddsaSignature = sig, eiSignedMessageHash = signedMessageHash\<rparr>,
         epCircom = GenerateCircomData E outCommitments inNullifiers (mdRootHash d) (mdRootHashIndex d) amountChangesBased
           erc20TokenAddresses encryptedOutputs onChainEncryptedOutput (int publicSignalCount) (zpExternalActionID p)
           (zpExternalAddress p) emporiumMessage metadata relay calldataHash st onChainCreation (zpHookData p) timeStamp
           slippageValues (zpFeeStructure p) (zpOriginalSender p) extraData\<rparr>)))))))))))))))))))))"

record zk_result =
  zrZkCallData :: zk_proof
  zrCircomData :: circom_data
  zrDimData :: dim_data
  zrEncryptedOutputs :: "string list list"
  zrCommitmentValidationData :: "commitment_validation option"

definition row_count :: "utxo list list \<Rightarrow> int" where
  "row_count us = (case us of [] \<Rightarrow> 0 | row # _ \<Rightarrow> int (length row))"

definition main_circuit_input :: "string \<Rightarrow> evm_input \<Rightarrow> circuit_input" where
  "main_circuit_input verifierName input =
     (if has_prefix verifierName ''mainEVMCircuitMin0''
      then Min0Circuit (eiOutTimeStamp input) (eiCalldataHash input) (eiMessageSeed input)
      else EvmCircuit input)"

definition ConstructZkProof ::
    "primitives \<Rightarrow> sealing \<Rightarrow> (int \<times> int) result \<Rightarrow> siblings_server \<Rightarrow> emporium_encoder \<Rightarrow> prover \<Rightarrow> draws \<Rightarrow> zk_params \<Rightarrow> zk_result result" where
  "ConstructZkProof E S onChainRoot server emporium prove dr p =
     rbind (evm_proof_data E S onChainRoot server emporium dr p) (\<lambda>ep.
     rbind (GenerateMainAndCommitmentZkProof E prove (if zpChainID p = 0 then 31337 else zpChainID p) (zpUserKeys p)
              (eiErc20TokenAddresses (epInput ep)) (zpInputUtxos p) (epVerifierName ep)
              (main_circuit_input (epVerifierName ep) (epInput ep)) (zpGenerateProofRemotely p)) (\<lambda>(main, validation).
     Ok \<lparr>zrZkCallData = main, zrCircomData = epCircom ep,
         zrDimData = \<lparr>TokenNumber = int (length (zpInputUtxos p)), NullifierAmount = row_count (zpInputUtxos p),
                      OutputAmount = row_count (zpOutputUtxos p)\<rparr>,
         zrEncryptedOutputs = cdEncryptedOutputs (epCircom ep), zrCommitmentValidationData = validation\<rparr>))"

section \<open>Solana\<close>

text \<open>A number as 32 bytes, each an \<open>int\<close>.\<close>

definition byte32Ints :: "int \<Rightarrow> int list result" where
  "byte32Ints value = rbind (FillBytes value 32) (\<lambda>bs. Ok (map (\<lambda>b. int (unat b)) bs))"

definition parseProofValues :: "string list \<Rightarrow> int list result" where
  "parseProofValues values = rmap ParseBigInt values"

definition flattenProofB :: "(string \<times> string) \<times> (string \<times> string) \<Rightarrow> string list" where
  "flattenProofB values = [fst (fst values), snd (fst values), fst (snd values), snd (snd values)]"

definition proofByteArray :: "string list \<Rightarrow> int list result" where
  "proofByteArray values =
     rbind (parseProofValues values) (\<lambda>parsed.
     rfold (\<lambda>out value. rbind (byte32Ints value) (\<lambda>bs. Ok (out @ bs))) [] parsed)"

definition publicInputsByteArrays :: "string list \<Rightarrow> int list list result" where
  "publicInputsByteArrays values = rbind (parseProofValues values) (rmap byte32Ints)"

record solana_zk_params =
  spGenerateProofRemotely :: bool
  spMerkleTree :: "merkle option"
  spUserKeys :: user_keys
  spMintAddresses :: "string list"
  spInputUtxos :: "utxo list list"
  spOutputUtxos :: "utxo list list"
  spRelayerFee :: "int option"
  spVariableRate :: "int option"
  spRecipientAddress :: string
  spSignerAddress :: string
  spDimensions :: dim_data
  spOnChainCreation :: "bool list"
  spChainID :: int
  spInstructions :: "hinkal_instruction list"
  spRemainingAccounts :: "account_meta list"
  spSwapperAccountSalt :: "int option"
  spIsSpeculativeTree :: bool

text \<open>One entry per sealed output; a token created on chain has one empty entry.\<close>

definition solana_outputs :: "primitives \<Rightarrow> bool list \<Rightarrow> string list list \<Rightarrow> byte list list" where
  "solana_outputs E onChainCreation outputs =
     concat (map (\<lambda>(i, tokenOutputs). if i < length onChainCreation \<and> onChainCreation ! i then [[]]
                                      else map (fromHex E) tokenOutputs) (enumerate 0 outputs))"

definition or_zero :: "int option \<Rightarrow> int" where
  "or_zero n = (case n of None \<Rightarrow> 0 | Some v \<Rightarrow> v)"

record solana_proof =
  slVerifierName :: string
  slInput :: solana_input
  slEncryptedOutputs :: "byte list list"
  slOnChainEncryptedOutput :: "byte list"
  slRootHashIndex :: int

definition solana_proof_data ::
    "primitives \<Rightarrow> sealing \<Rightarrow> (int \<times> int) result \<Rightarrow> siblings_server \<Rightarrow> draws \<Rightarrow> solana_zk_params \<Rightarrow> solana_proof result" where
  "solana_proof_data E S onChainRoot server dr p =
     (let inputUtxos = spInputUtxos p; outputUtxos = spOutputUtxos p; dims = spDimensions p in
      rbind (publicKeyFromBase58 E (spRecipientAddress p)) (\<lambda>recipient.
      rbind (publicKeyFromBase58 E (spSignerAddress p)) (\<lambda>signer.
      rbind (snd (GetShieldedPrivateKey E (spUserKeys p))) (\<lambda>nk.
      rbind (GetSpendingKeyPair E (spUserKeys p)) (\<lambda>pair.
      rbind (own_stealth E dr nk [fst (PubSpendingBJJPoint pair), snd (PubSpendingBJJPoint pair)]) (\<lambda>st.
      rbind (if anyTrue (spOnChainCreation p) then own_output E S dr nk st else Ok []) (\<lambda>onChainEncryptedOutput.
      rbind (CalcEncryptedOutputs E S (drOutputs dr) outputUtxos) (\<lambda>outputs.
      let encryptedOutputs = solana_outputs E (spOnChainCreation p) outputs in
      rbind (drMessageSeed dr) (\<lambda>messageSeed.
      rbind (PoseidonBig E [messageSeed]) (\<lambda>message.
      rbind (PoseidonBig E [or_zero (spSwapperAccountSalt p)]) (\<lambda>swapperSeed.
      rbind (rmap (FormatMintAddress E) (spMintAddresses p)) (\<lambda>mints.
      rbind (GetSolanaCalldataHash E dims recipient signer encryptedOutputs onChainEncryptedOutput
               (or_zero (spRelayerFee p)) (or_zero (spVariableRate p)) (spInstructions p) (spRemainingAccounts p)) (\<lambda>calldataHash.
      rbind (CalcAmountChanges E inputUtxos outputUtxos False) (\<lambda>amountChanges.
      rbind (GetDataFromWorkers E onChainRoot server (spChainID p) (spMerkleTree p) inputUtxos (spIsSpeculativeTree p)) (\<lambda>(d, inNullifiers).
      rbind (BuildOutCommitments E outputUtxos) (\<lambda>outCommitments.
      rbind (rbind (index_at outputUtxos 0) (\<lambda>row. index_at row 0)) (\<lambda>first.
      rbind (ParseBigInt (TimeStamp first)) (\<lambda>outTimeStamp.
      rbind (ComputeSignedMessageHashSolana E
               \<lparr>hRootHashHinkal = mdRootHash d, hMintAccountPart1 = map MintAccountPart1 mints,
                hMintAccountPart2 = map MintAccountPart2 mints, hAmountChanges = amountChanges, hOutTimeStamp = outTimeStamp,
                hInNullifiers = inNullifiers, hOutCommitments = outCommitments, hCalldataHash = calldataHash,
                hMessage = message, hSwapperAccountAdditionalSeed = swapperSeed, hOutH1Ay = ssH1y st,
                hH0Ax = ssH0x st, hH0Ay = ssH0y st\<rparr>) (\<lambda>signedMessageHash.
      rbind (SignEddsa E (spUserKeys p) signedMessageHash) (\<lambda>sig.
      rbind (circuit_texts E inputUtxos outputUtxos) (\<lambda>texts.
      Ok \<lparr>slVerifierName = ''mainSolanaCircuit'' @ int_String (TokenNumber dims) @ ''x'' @
             int_String (NullifierAmount dims) @ ''x'' @ int_String (OutputAmount dims),
         slInput = \<lparr>siRootHashHinkal = mdRootHash d, siSpendingPublicKey = PubSpendingBJJPoint pair, siEddsaSignature = sig,
           siSignedMessageHash = signedMessageHash, siNullifyingPrivateKey = nk,
           siMintAccountPart1 = map MintAccountPart1 mints, siMintAccountPart2 = map MintAccountPart2 mints,
           siAmountChanges = amountChanges, siInAmounts = ntInAmounts texts, siInH0Ax = ntInH0Ax texts,
           siInH0Ay = ntInH0Ay texts, siInTimeStamps = ntInTimeStamps texts, siInNullifiers = inNullifiers,
           siInCommitmentSiblings = mdSiblings d, siInCommitmentSiblingSides = mdSides d,
           siOutAmounts = ntOutAmounts texts, siOutTimeStamp = outTimeStamp, siOutPublicKeys = ntOutPublicKeys texts,
           siOutCommitments = outCommitments, siCalldataHash = calldataHash, siMessageSeed = messageSeed,
           siSwapperAccountSalt = or_zero (spSwapperAccountSalt p), siH0Ax = ssH0x st, siH0Ay = ssH0y st\<rparr>,
         slEncryptedOutputs = encryptedOutputs, slOnChainEncryptedOutput = onChainEncryptedOutput,
         slRootHashIndex = mdRootHashIndex d\<rparr>)))))))))))))))))))))"

record solana_zk_result =
  szProofAArr :: "int list"
  szProofBArr :: "int list"
  szProofCArr :: "int list"
  szPublicInputsArr :: "int list list"
  szCommitmentValidationData :: "commitment_validation option"
  szEncryptedOutputs :: "byte list list"
  szOnChainEncryptedOutput :: "byte list"
  szRootHashHinkalIndex :: int

definition ConstructSolanaZkProof ::
    "primitives \<Rightarrow> sealing \<Rightarrow> (int \<times> int) result \<Rightarrow> siblings_server \<Rightarrow> prover \<Rightarrow> draws \<Rightarrow> solana_zk_params \<Rightarrow> solana_zk_result result" where
  "ConstructSolanaZkProof E S onChainRoot server prove dr p =
     rbind (solana_proof_data E S onChainRoot server dr p) (\<lambda>sp.
     rbind (GenerateMainAndCommitmentZkProof E prove (spChainID p) (spUserKeys p) (spMintAddresses p) (spInputUtxos p)
              (slVerifierName sp) (SolanaCircuit (slInput sp)) (spGenerateProofRemotely p)) (\<lambda>(main, validation).
     rbind (proofByteArray [fst (zkA main), snd (zkA main)]) (\<lambda>a.
     rbind (proofByteArray (flattenProofB (zkB main))) (\<lambda>b.
     rbind (proofByteArray [fst (zkC main), snd (zkC main)]) (\<lambda>c.
     rbind (publicInputsByteArrays (zkPublicSignals main)) (\<lambda>inputs.
     Ok \<lparr>szProofAArr = a, szProofBArr = b, szProofCArr = c, szPublicInputsArr = inputs,
         szCommitmentValidationData = validation, szEncryptedOutputs = slEncryptedOutputs sp,
         szOnChainEncryptedOutput = slOnChainEncryptedOutput sp, szRootHashHinkalIndex = slRootHashIndex sp\<rparr>))))))"

section \<open>Public signals of the Solana circuit\<close>

record 'a solana_signals =
  sgOutH1Ax :: 'a
  sgOutH1Ay :: 'a
  sgOutStealthAddress :: 'a
  sgMessage :: 'a
  sgSwapperSeed :: 'a
  sgRootHash :: 'a
  sgSignedMessageHash :: 'a
  sgMintAccountPart1 :: "'a list"
  sgMintAccountPart2 :: "'a list"
  sgAmountChanges :: "'a list"
  sgInNullifiers :: "'a list list"
  sgOutTimestamp :: 'a
  sgOutCommitments :: "'a list list"
  sgCalldataHash :: 'a
  sgH0Ax :: 'a
  sgH0Ay :: 'a

definition SolanaPublicSignalCount :: "dim_data \<Rightarrow> int result" where
  "SolanaPublicSignalCount dims =
     (let t = TokenNumber dims; i = NullifierAmount dims; out = OutputAmount dims in
      if t < 0 \<or> i < 0 \<or> out < 0 then Err (Errorf ''solana public signals: negative dimensions'')
      else Ok (7 + 3 * t + t * i + 1 + t * out + 1 + 2))"

text \<open>\<open>take()\<close> is called in order: a row of \<open>n\<close> entries, and \<open>k\<close> such rows.\<close>

fun take_rows :: "nat \<Rightarrow> nat \<Rightarrow> 'a list \<Rightarrow> 'a list list \<times> 'a list" where
  "take_rows 0 n xs = ([], xs)"
| "take_rows (Suc k) n xs = (let (rows, rest) = take_rows k n (drop n xs) in (take n xs # rows, rest))"

definition ConvertSolanaPublicSignals :: "'a list \<Rightarrow> dim_data \<Rightarrow> 'a solana_signals result" where
  "ConvertSolanaPublicSignals arr dims =
     rbind (SolanaPublicSignalCount dims) (\<lambda>expected.
     if int (length arr) \<noteq> expected then Err (Errorf ''solana public signals: invalid length'')
     else
       let t = nat (TokenNumber dims); i = nat (NullifierAmount dims); out = nat (OutputAmount dims);
           r0 = drop 7 arr; part1 = take t r0; r1 = drop t r0; part2 = take t r1; r2 = drop t r1;
           changes = take t r2; r3 = drop t r2; (nullifiers, r4) = take_rows t i r3;
           timestamp = hd r4; (commitments, r5) = take_rows t out (drop 1 r4)
       in Ok \<lparr>sgOutH1Ax = arr ! 0, sgOutH1Ay = arr ! 1, sgOutStealthAddress = arr ! 2, sgMessage = arr ! 3,
              sgSwapperSeed = arr ! 4, sgRootHash = arr ! 5, sgSignedMessageHash = arr ! 6,
              sgMintAccountPart1 = part1, sgMintAccountPart2 = part2, sgAmountChanges = changes,
              sgInNullifiers = nullifiers, sgOutTimestamp = timestamp, sgOutCommitments = commitments,
              sgCalldataHash = r5 ! 0, sgH0Ax = r5 ! 1, sgH0Ay = r5 ! 2\<rparr>)"

end
