(* ===== verification/ProofsCorrect.thy ===== *)
theory ProofsCorrect
  imports Proofs EnclaveVerify
begin

text \<open>
  What the construction of a proof guarantees: the Merkle paths it hands to the prover lead to the root it
  names, the prover and the contract are told the same things, the two implementations of the hashes (the
  SDK's and the check of the enclave's answer) agree, and without a remote prover nothing is ever proved.
\<close>

section \<open>Merkle paths\<close>

text \<open>The reverse map of a tree names leaves, and only by their value.\<close>

definition indexed :: "merkle \<Rightarrow> bool" where
  "indexed m \<longleftrightarrow> (\<forall>v i. mget (reverseTree m) (int_String v) = Some i \<longrightarrow>
     (\<exists>j < width m. i = node_at (levels m) 0 j \<and> leaf_values m ! j = v))"

lemma indexed_append:
  assumes "holds_leaves m xs" "indexed m" "length xs < 2 ^ (levels m - 1)" "append_leaf m v = Ok t"
  shows "indexed t"
proof -
  have inv: "merkle_inv m" and xs: "leaf_values m = xs" using assms(1) by (simp_all add: holds_leaves_def)
  have j: "width m = length xs" using xs length_leaf_values [of m] by simp
  have fit: "fits m (width m)" using inv assms(3) j by (simp add: fits_def)
  have idx: "GetIndex m = node_at (levels m) 0 (width m)"
    using inv by (simp add: merkle_inv_def GetIndex_def startIdx_node_at)
  have t: "t = result_tree m v (width m)" using Insert_result [OF fit] idx assms(4) by (simp add: append_leaf_def)
  have hold: "holds_leaves t (xs @ [v])" using append_leaf_holds [OF assms(1,3), of v] assms(4) by auto
  then have vals: "leaf_values t = xs @ [v]" by (simp add: holds_leaves_def)
  have w: "width t = Suc (width m)" using vals length_leaf_values [of t] j by simp
  show ?thesis unfolding indexed_def
  proof (intro allI impI)
    fix x i assume "mget (reverseTree t) (int_String x) = Some i"
    then have "(x = v \<and> i = node_at (levels m) 0 (width m)) \<or> (x \<noteq> v \<and> mget (reverseTree m) (int_String x) = Some i)"
      by (auto simp: t split: if_splits)
    then show "\<exists>j < width t. i = node_at (levels t) 0 j \<and> leaf_values t ! j = x"
    proof
      assume "x = v \<and> i = node_at (levels m) 0 (width m)"
      then show ?thesis using w vals j by (intro exI [of _ "width m"]) (simp add: t)
    next
      assume "x \<noteq> v \<and> mget (reverseTree m) (int_String x) = Some i"
      then obtain k where k: "k < width m" "i = node_at (levels m) 0 k" "leaf_values m ! k = x"
        using assms(2) unfolding indexed_def by blast
      then show ?thesis using w vals xs j by (intro exI [of _ k]) (simp add: t nth_append)
    qed
  qed
qed

lemma indexed_New: "indexed (New H d l)"
  by (simp add: indexed_def New_def)

text \<open>A path handed to the prover: it carries the note's commitment to the root.\<close>

definition path_proves :: "merkle \<Rightarrow> int \<Rightarrow> string list \<Rightarrow> string list \<Rightarrow> int \<Rightarrow> bool" where
  "path_proves t v siblings sides root \<longleftrightarrow>
     (\<exists>ss ds. siblings = map int_String ss \<and> sides = map int_String ds \<and>
        length ss = CircomMerkleLength \<and> length ds = CircomMerkleLength \<and>
        climb (hashFn t) v (take (logarithm2 (int (width t))) (zip ss ds)) = root)"

lemma note_path_proves:
  assumes "holds_leaves t xs" "indexed t" "CircomMerkleLength \<le> levels t" "length xs \<le> 2 ^ CircomMerkleLength"
    and "note_path E t u = Ok (siblings, sides)" "snd (GetCommitment E u) = Ok c" "ParseBigInt c = Ok v" "Contains t v"
    and root: "GetRootHash t = Ok root"
    and "merkle_root (hashFn t) (defaultValue t) (logarithm2 (int (length xs))) xs \<noteq> 0"
  shows "path_proves t v siblings sides root"
proof -
  have inv: "merkle_inv t" "complete t" and xs: "leaf_values t = xs" using assms(1) by (simp_all add: holds_leaves_def)
  have w: "width t = length xs" using xs length_leaf_values [of t] by simp
  obtain i where i: "mget (reverseTree t) (int_String v) = Some i" using assms(8) by (auto simp: Contains_def)
  then obtain j where j: "j < width t" "i = node_at (levels t) 0 j" "leaf_values t ! j = v"
    using assms(2) unfolding indexed_def by blast
  have T: "logarithm2 (int (width t)) \<le> CircomMerkleLength"
    using logarithm2_ge [of CircomMerkleLength "width t"] assms(4) w by (simp add: not_less_eq_eq)
  obtain ss ds where q: "GetSiblingHashesForVerification t v = Ok ss" "GetSiblingSides t v = Ok ds"
    "length ss = CircomMerkleLength" "length ds = CircomMerkleLength"
    "climb (hashFn t) (leaf_values t ! j) (take (logarithm2 (int (width t))) (zip ss ds)) =
       merkle_root (hashFn t) (defaultValue t) (logarithm2 (int (width t))) (leaf_values t)"
    using path_queries [OF inv j(1) refl i [unfolded j(2)] assms(3) T] by blast
  have "siblings = map int_String ss" "sides = map int_String ds"
    using assms(5,6,7) q(1,2) by (auto simp: note_path_def)
  moreover have "root = merkle_root (hashFn t) (defaultValue t) (logarithm2 (int (width t))) (leaf_values t)"
    using GetRootHash_complete [OF inv refl] root assms(10) w xs j(1) by (cases "xs = []") simp_all
  ultimately show ?thesis using q(3,4,5) j(3) unfolding path_proves_def by blast
qed

lemma check_in_tree_all:
  "rfold (\<lambda>_ u. check_in_tree E t u) () us = Ok () \<longleftrightarrow> (\<forall>u \<in> set us. check_in_tree E t u = Ok ())"
  by (induction us) (auto simp: rbind_Ok_iff)

lemma local_paths:
  assumes "handleLocalMerkleTrees E (Some t) ins = Ok d"
  shows "GetRootHash t = Ok (mdRootHash d)" "mdRootHashIndex d = GetIndex t - 1"
    "\<And>i j. i < length ins \<Longrightarrow> j < length (ins ! i) \<Longrightarrow> note_path E t (ins ! i ! j) = Ok (mdSiblings d ! i ! j, mdSides d ! i ! j)"
    "\<And>u a us. us \<in> set ins \<Longrightarrow> u \<in> set us \<Longrightarrow> Amount u = Some a \<Longrightarrow> a \<noteq> 0 \<Longrightarrow>
       \<exists>c v. snd (GetCommitment E u) = Ok c \<and> ParseBigInt c = Ok v \<and> Contains t v"
proof -
  obtain root siblings sides paths where r: "GetRootHash t = Ok root" "d = \<lparr>mdSiblings = siblings, mdSides = sides, mdRootHash = root, mdRootHashIndex = GetIndex t - 1\<rparr>"
    and chk: "rfold (\<lambda>_ u. check_in_tree E t u) () (concat ins) = Ok ()"
    and paths: "rmap (rmap (note_path E t)) ins = Ok paths" "siblings = map (map fst) paths" "sides = map (map snd) paths"
    using assms by (auto simp: handleLocalMerkleTrees_def CalcCommitmentsSiblingAndSides_def rbind_Ok_iff)
  show "GetRootHash t = Ok (mdRootHash d)" "mdRootHashIndex d = GetIndex t - 1" using r by simp_all
  show "note_path E t (ins ! i ! j) = Ok (mdSiblings d ! i ! j, mdSides d ! i ! j)"
    if "i < length ins" "j < length (ins ! i)" for i j
  proof -
    have row: "rmap (note_path E t) (ins ! i) = Ok (paths ! i)" using rmap_Ok_nth [OF paths(1) that(1)] .
    have "i < length paths" "j < length (paths ! i)"
      using rmap_Ok_length [OF paths(1)] rmap_Ok_length [OF row] that by simp_all
    then show ?thesis using rmap_Ok_nth [OF row that(2)] r(2) paths(2,3) by simp
  qed
  show "\<exists>c v. snd (GetCommitment E u) = Ok c \<and> ParseBigInt c = Ok v \<and> Contains t v"
    if "us \<in> set ins" "u \<in> set us" "Amount u = Some a" "a \<noteq> 0" for u a us
  proof -
    have "check_in_tree E t u = Ok ()" using chk that(1,2) by (auto simp: check_in_tree_all)
    then show ?thesis using that(3,4) by (auto simp: check_in_tree_def rbind_Ok_iff)
  qed
qed

section \<open>The data of a proof\<close>

lemma all_zero_iff: "all_zero us = Ok True \<longleftrightarrow> (\<forall>u \<in> set us. Amount u = Some 0)"
  by (induction us) (auto simp: amount_sign_def sgn_0_0 rbind_Ok_iff split: option.splits)

lemma HasOnlyZeroAmounts_iff: "HasOnlyZeroAmounts ins = Ok True \<longleftrightarrow> ins \<noteq> [] \<and> (\<forall>us \<in> set ins. \<forall>u \<in> set us. Amount u = Some 0)"
  by (auto simp: HasOnlyZeroAmounts_def all_zero_iff)

text \<open>The steps of \<open>evm_proof_data\<close> the properties need.\<close>

lemma evm_proof_data_steps:
  assumes "evm_proof_data E S onChainRoot server emporium dr p = Ok ep"
  obtains nk pair st d where
    "GetZkProofVerifierName (zpInputUtxos p) (zpOutputUtxos p) = Ok (epVerifierName ep)"
    "snd (GetShieldedPrivateKey E (zpUserKeys p)) = Ok nk" "GetSpendingKeyPair E (zpUserKeys p) = Ok (pair :: spending_key_pair)"
    "own_stealth E dr nk [fst (PubSpendingBJJPoint pair), snd (PubSpendingBJJPoint pair)] = Ok st"
    "GetDataFromWorkers E onChainRoot server (if zpChainID p = 0 then 31337 else zpChainID p) (zpMerkleTree p)
       (zpInputUtxos p) (zpIsSpeculativeTree p) = Ok (d, eiInNullifiers (epInput ep))"
    "CalcAmountChanges E (zpInputUtxos p) (zpOutputUtxos p) False = Ok (eiAmountChanges (epInput ep))"
    "CalcAmountChanges E (zpInputUtxos p) (zpOutputUtxos p) True = Ok (cdAmountChanges (epCircom ep))"
    "BuildOutCommitments E (zpOutputUtxos p) = Ok (eiOutCommitments (epInput ep))"
    "PoseidonBig E [eiMessageSeed (epInput ep)] = Ok (cdEmporiumMessage (epCircom ep))"
    "CreateCallDataHash E (if zpChainID p = 0 then 31337 else zpChainID p) (cdPublicSignalCount (epCircom ep)) (cdRelay (epCircom ep))
       (zpExternalAddress p) (zpExternalActionID p) (cdEmporiumMessage (epCircom ep)) (cdExternalActionMetadata (epCircom ep))
       (cdEncryptedOutputs (epCircom ep)) (cdOnChainEncryptedOutput (epCircom ep)) (zpHookData p) (cdSlippageValues (epCircom ep))
       (cdOnChainCreation (epCircom ep)) (cdFeeStructure (epCircom ep)) (zpOriginalSender p) (cdExtraData (epCircom ep)) =
       Ok (eiCalldataHash (epInput ep))"
    "ComputeSignedMessageHashEvm E
       \<lparr>ehRootHashHinkal = eiRootHashHinkal (epInput ep), ehErc20TokenAddresses = eiErc20TokenAddresses (epInput ep),
        ehAmountChanges = eiAmountChanges (epInput ep), ehOutTimeStamp = eiOutTimeStamp (epInput ep),
        ehInNullifiers = eiInNullifiers (epInput ep), ehOutCommitments = eiOutCommitments (epInput ep),
        ehCalldataHash = eiCalldataHash (epInput ep), ehMessage = cdEmporiumMessage (epCircom ep),
        ehOutH1Ax = ssH1x st, ehOutH1Ay = ssH1y st, ehH0Ax = eiH0Ax (epInput ep), ehH0Ay = eiH0Ay (epInput ep)\<rparr> =
       Ok (eiSignedMessageHash (epInput ep))"
    "SignEddsa E (zpUserKeys p) (eiSignedMessageHash (epInput ep)) = Ok (eiEddsaSignature (epInput ep))"
    "(if zpOutputUtxos p = [] then Ok (drNow dr) else rbind (index_at (hd (zpOutputUtxos p)) 0) (\<lambda>u. ParseBigInt (TimeStamp u))) =
       Ok (eiOutTimeStamp (epInput ep))"
    "circom_time_stamp (zpOutputUtxos p)
       (if has_prefix (epVerifierName ep) ''mainEVMCircuitMin0'' then Some (int_String (eiOutTimeStamp (epInput ep))) else None) =
       Ok (cdTimeStamp (epCircom ep))"
    "eiRootHashHinkal (epInput ep) = mdRootHash d" "eiInCommitmentSiblings (epInput ep) = mdSiblings d"
    "eiInCommitmentSiblingSides (epInput ep) = mdSides d" "eiNullifyingPrivateKey (epInput ep) = nk"
    "eiSpendingPublicKey (epInput ep) = PubSpendingBJJPoint pair"
    "eiH0Ax (epInput ep) = ssH0x st" "eiH0Ay (epInput ep) = ssH0y st"
    "cdStealthAddressStructure (epCircom ep) = st" "cdRootHashHinkal (epCircom ep) = Some (mdRootHash d)"
    "cdRootHashHinkalIndex (epCircom ep) = Some (mdRootHashIndex d)"
    "cdErc20TokenAddresses (epCircom ep) = eiErc20TokenAddresses (epInput ep)"
    "cdInputNullifiers (epCircom ep) = eiInNullifiers (epInput ep)" "cdOutCommitments (epCircom ep) = eiOutCommitments (epInput ep)"
    "cdCalldataHash (epCircom ep) = eiCalldataHash (epInput ep)"
    "length (eiErc20TokenAddresses (epInput ep)) = length (zpInputUtxos p)"
    "cdPublicSignalCount (epCircom ep) = int (CalcPublicSignalCount (epVerifierName ep) (eiErc20TokenAddresses (epInput ep))
       (eiAmountChanges (epInput ep)) (eiInNullifiers (epInput ep)) (eiOutCommitments (epInput ep)))"
  using assms unfolding evm_proof_data_def Let_def rbind_Ok_iff prod.case_eq_if
  apply (elim exE conjE)
  subgoal for vn ac toks eo nk pair st own x oc seed msg ts texts acb md ch sh sig tstamp
    apply (simp only: sum.inject GenerateCircomData_def Let_def, hypsubst)
    apply (rule that [of nk pair st "fst x"])
    apply simp_all
    apply (auto dest: rmap_Ok_length)
    done
  done

text \<open>Of the hash of the calldata, only the resolved addresses matter.\<close>

lemma calldata_hash_resolved:
  "CreateCallDataHash E chain n relay (if ext = [] then ZeroAddress else ext) action msg md outs own (Some (case hooks of None \<Rightarrow> DefaultHookData | Some h \<Rightarrow> h))
     slip created fee (if sender = [] then GetOriginalSender (if ext = [] then ZeroAddress else ext) relay else sender) extra =
   CreateCallDataHash E chain n relay ext action msg md outs own hooks slip created fee sender extra"
proof -
  have z: "ZeroAddress \<noteq> []" by (simp add: ZeroAddress_def)
  have "hookDataValues E (Some (case hooks of None \<Rightarrow> DefaultHookData | Some h \<Rightarrow> h)) = hookDataValues E hooks"
    by (cases hooks) (simp_all add: hookDataValues_def)
  moreover have "GetOriginalSender (if ext = [] then ZeroAddress else ext) relay = GetOriginalSender ext relay"
    using z by (simp add: GetOriginalSender_def)
  moreover have "GetOriginalSender ext relay \<noteq> []" using z by (simp add: GetOriginalSender_def)
  moreover have "GetOriginalSender ZeroAddress relay = GetOriginalSender [] relay" using z by (simp add: GetOriginalSender_def)
  ultimately show ?thesis using z by (cases "ext = []") (simp_all add: CreateCallDataHash_def Let_def)
qed

text \<open>The steps again, for the fields that \<open>evm_proof_data\<close> resolves.\<close>

lemma evm_proof_data_resolved:
  assumes "evm_proof_data E S onChainRoot server emporium dr p = Ok ep"
  shows "cdExternalAddress (epCircom ep) = (if zpExternalAddress p = [] then ZeroAddress else zpExternalAddress p) \<and>
    cdHookData (epCircom ep) = (case zpHookData p of None \<Rightarrow> DefaultHookData | Some h \<Rightarrow> h) \<and>
    cdOriginalSender (epCircom ep) = (if zpOriginalSender p = [] then
       GetOriginalSender (if zpExternalAddress p = [] then ZeroAddress else zpExternalAddress p) (cdRelay (epCircom ep))
       else zpOriginalSender p) \<and>
    cdExternalActionID (epCircom ep) = GetExternalActionIDHash E (zpExternalActionID p) \<and>
    cdFeeStructure (epCircom ep) = zpFeeStructure p"
  using assms unfolding evm_proof_data_def Let_def rbind_Ok_iff prod.case_eq_if
  by (elim exE conjE) (auto simp: GenerateCircomData_def Let_def)

lemma CalcAmountChanges_normalised:
  assumes "CalcAmountChanges E ins outs False = Ok a" "CalcAmountChanges E ins outs True = Ok b"
  shows "a = map (normalised E) b"
proof (rule nth_equalityI)
  note A = rmap_enumerate_Ok [OF assms(1) [unfolded CalcAmountChanges_def]]
  note B = rmap_enumerate_Ok [OF assms(2) [unfolded CalcAmountChanges_def]]
  show "length a = length (map (normalised E) b)" using A(1) B(1) by simp
  fix i assume "i < length a"
  then have i: "i < length ins" "i < length b" using A(1) B(1) by simp_all
  show "a ! i = map (normalised E) b ! i" using A(2) [OF i(1)] B(2) [OF i(1)] i(2)
    by (auto simp: rbind_Ok_iff Let_def normalised_def split: if_splits)
qed

lemma min0_name: "GetZkProofVerifierName ins outs = Ok name \<Longrightarrow> has_prefix name ''mainEVMCircuitMin0'' \<longleftrightarrow> outs = []"
proof -
  assume n: "GetZkProofVerifierName ins outs = Ok name"
  show ?thesis
  proof (cases "outs = []")
    case True
    then show ?thesis using n by (simp add: GetZkProofVerifierName_def has_prefix_def)
  next
    case False
    then obtain a b c where name: "name = ''mainEVMCircuit'' @ dims_text a b c"
      using n by (auto simp: GetZkProofVerifierName_def rbind_Ok_iff)
    have d: "list_all dec_digit (int_String (int a))" "int_String (int a) \<noteq> []" 
      using nat_text_digits [of a] by (simp_all add: int_String_def int_text_def nat_text_nonempty)
    then obtain x xs where "int_String (int a) = x # xs" "dec_digit x" by (cases "int_String (int a)") auto
    then have "name = ''mainEVMCircuit'' @ x # xs @ ''x'' @ int_String (int b) @ ''x'' @ int_String (int c)" "x \<noteq> CHR ''M''"
      using name by (auto simp: dims_text_def dec_digit_def)
    then show ?thesis using False by (simp add: has_prefix_def)
  qed
qed

lemma flat_agree: "verifyFlatToBigInts vs = flatToBigInts vs"
proof -
  have row: "rfold (\<lambda>out v. rbind (ParseBigInt v) (\<lambda>n. Ok (out @ [n]))) out r = rbind (rmap ParseBigInt r) (\<lambda>ns. Ok (out @ ns))" for out r
  proof (induction r arbitrary: out)
    case (Cons v r)
    then show ?case by (cases "ParseBigInt v"; cases "rmap ParseBigInt r") simp_all
  qed simp
  have "rfold (\<lambda>out row. rfold (\<lambda>out v. rbind (ParseBigInt v) (\<lambda>n. Ok (out @ [n]))) out row) out vs =
    rbind (rmap ParseBigInt (concat vs)) (\<lambda>ns. Ok (out @ ns))" for out
  proof (induction vs arbitrary: out)
    case (Cons r vs)
    then show ?case unfolding rfold.simps row concat.simps rmap_append
      by (cases "rmap ParseBigInt r"; cases "rmap ParseBigInt (concat vs)") simp_all
  qed simp
  from this [of "[]"] show ?thesis unfolding verifyFlatToBigInts_def flatToBigInts_def
    by (cases "rmap ParseBigInt (concat vs)") simp_all
qed

text \<open>The value of a result, whatever its error says.\<close>

definition value_of :: "'a result \<Rightarrow> 'a option" where
  "value_of r = (case r of Inl _ \<Rightarrow> None | Inr x \<Rightarrow> Some x)"

lemma value_of_bind: "value_of (rbind r f) = Option.bind (value_of r) (\<lambda>x. value_of (f x))"
  by (cases r) (simp_all add: value_of_def)

lemma value_of_wrap [simp]: "value_of (rwrap s r) = value_of r"
  by (cases r) (simp_all add: value_of_def)

section \<open>Properties\<close>

text \<open>C8. The Merkle data of a proof are right: when a proof is built against a local tree that holds the
  leaves it was given in order (any number up to 2^25), every input note of a non-zero amount has its
  commitment in the tree, and the sibling hashes and sides handed to the prover for it lead from that
  commitment to the very root the proof names.\<close>

theorem proof_inputs_reach_root:
  assumes "handleLocalMerkleTrees E (Some t) ins = Ok d" "holds_leaves t xs" "indexed t"
    and "CircomMerkleLength \<le> levels t" "length xs \<le> 2 ^ CircomMerkleLength"
    and "merkle_root (hashFn t) (defaultValue t) (logarithm2 (int (length xs))) xs \<noteq> 0"
    and "i < length ins" "j < length (ins ! i)" "Amount (ins ! i ! j) = Some a" "a \<noteq> 0"
  shows "\<exists>c v. snd (GetCommitment E (ins ! i ! j)) = Ok c \<and> ParseBigInt c = Ok v \<and> v \<in> set xs \<and>
    path_proves t v (mdSiblings d ! i ! j) (mdSides d ! i ! j) (mdRootHash d)"
proof -
  obtain c v where c: "snd (GetCommitment E (ins ! i ! j)) = Ok c" "ParseBigInt c = Ok v" "Contains t v"
    using local_paths(4) [OF assms(1) nth_mem [OF assms(7)] nth_mem [OF assms(8)] assms(9,10)] by blast
  obtain k where "k < width t" "leaf_values t ! k = v"
    using c(3) assms(3) unfolding Contains_def indexed_def by blast
  then have "v \<in> set xs" using assms(2) length_leaf_values [of t] by (auto simp: holds_leaves_def)
  with c note_path_proves [OF assms(2-5) local_paths(3) [OF assms(1,7,8)] c local_paths(1) [OF assms(1)] assms(6)]
  show ?thesis by blast
qed

text \<open>C7. The prover and the contract are told the same things. Recomputed from the circom data alone, the
  calldata hash and the signed message hash are the ones the circuit's input carries and the wallet has
  signed; root, tokens, nullifiers and commitments are shared, the changes differ only by the field
  representation, the time stamps agree, and the transaction's own stealth pair belongs to the wallet's key.\<close>

theorem circom_data_matches_proof:
  assumes "evm_proof_data E S onChainRoot server emporium dr p = Ok ep"
  defines "c \<equiv> epCircom ep" and "i \<equiv> epInput ep"
  shows "cdRootHashHinkal c = Some (eiRootHashHinkal i) \<and> cdErc20TokenAddresses c = eiErc20TokenAddresses i \<and>
    cdInputNullifiers c = eiInNullifiers i \<and> cdOutCommitments c = eiOutCommitments i \<and>
    eiAmountChanges i = map (normalised E) (cdAmountChanges c) \<and> ParseBigInt (cdTimeStamp c) = Ok (eiOutTimeStamp i) \<and>
    CreateCallDataHash E (if zpChainID p = 0 then 31337 else zpChainID p) (cdPublicSignalCount c) (cdRelay c)
      (cdExternalAddress c) (zpExternalActionID p) (cdEmporiumMessage c) (cdExternalActionMetadata c)
      (cdEncryptedOutputs c) (cdOnChainEncryptedOutput c) (Some (cdHookData c)) (cdSlippageValues c) (cdOnChainCreation c)
      (cdFeeStructure c) (cdOriginalSender c) (cdExtraData c) = Ok (cdCalldataHash c) \<and>
    cdCalldataHash c = eiCalldataHash i \<and>
    (let st = cdStealthAddressStructure c in
     ComputeSignedMessageHashEvm E
      \<lparr>ehRootHashHinkal = eiRootHashHinkal i, ehErc20TokenAddresses = cdErc20TokenAddresses c,
       ehAmountChanges = map (normalised E) (cdAmountChanges c), ehOutTimeStamp = eiOutTimeStamp i,
       ehInNullifiers = cdInputNullifiers c, ehOutCommitments = cdOutCommitments c, ehCalldataHash = cdCalldataHash c,
       ehMessage = cdEmporiumMessage c, ehOutH1Ax = ssH1x st, ehOutH1Ay = ssH1y st, ehH0Ax = ssH0x st, ehH0Ay = ssH0y st\<rparr> =
      Ok (eiSignedMessageHash i) \<and>
     VerifyStealthPair E (ssH0x st, ssH0y st) (ssH1x st, ssH1y st) (eiNullifyingPrivateKey i) False = Ok True) \<and>
    SignEddsa E (zpUserKeys p) (eiSignedMessageHash i) = Ok (eiEddsaSignature i)"
proof -
  obtain nk and pair :: spending_key_pair and st :: stealth_structure and d :: merkle_data where s:
    "GetZkProofVerifierName (zpInputUtxos p) (zpOutputUtxos p) = Ok (epVerifierName ep)"
    "own_stealth E dr nk [fst (PubSpendingBJJPoint pair), snd (PubSpendingBJJPoint pair)] = Ok st"
    "CalcAmountChanges E (zpInputUtxos p) (zpOutputUtxos p) False = Ok (eiAmountChanges i)"
    "CalcAmountChanges E (zpInputUtxos p) (zpOutputUtxos p) True = Ok (cdAmountChanges c)"
    and hash: "CreateCallDataHash E (if zpChainID p = 0 then 31337 else zpChainID p) (cdPublicSignalCount c) (cdRelay c)
       (zpExternalAddress p) (zpExternalActionID p) (cdEmporiumMessage c) (cdExternalActionMetadata c)
       (cdEncryptedOutputs c) (cdOnChainEncryptedOutput c) (zpHookData p) (cdSlippageValues c)
       (cdOnChainCreation c) (cdFeeStructure c) (zpOriginalSender p) (cdExtraData c) = Ok (eiCalldataHash i)"
    and msg: "ComputeSignedMessageHashEvm E
       \<lparr>ehRootHashHinkal = eiRootHashHinkal i, ehErc20TokenAddresses = eiErc20TokenAddresses i,
        ehAmountChanges = eiAmountChanges i, ehOutTimeStamp = eiOutTimeStamp i,
        ehInNullifiers = eiInNullifiers i, ehOutCommitments = eiOutCommitments i,
        ehCalldataHash = eiCalldataHash i, ehMessage = cdEmporiumMessage c,
        ehOutH1Ax = ssH1x st, ehOutH1Ay = ssH1y st, ehH0Ax = eiH0Ax i, ehH0Ay = eiH0Ay i\<rparr> = Ok (eiSignedMessageHash i)"
    and sig: "SignEddsa E (zpUserKeys p) (eiSignedMessageHash i) = Ok (eiEddsaSignature i)"
    and ts: "(if zpOutputUtxos p = [] then Ok (drNow dr) else rbind (index_at (hd (zpOutputUtxos p)) 0) (\<lambda>u. ParseBigInt (TimeStamp u))) =
       Ok (eiOutTimeStamp i)"
    and cts: "circom_time_stamp (zpOutputUtxos p)
       (if has_prefix (epVerifierName ep) ''mainEVMCircuitMin0'' then Some (int_String (eiOutTimeStamp i)) else None) = Ok (cdTimeStamp c)"
    and f: "eiRootHashHinkal i = mdRootHash d" "eiNullifyingPrivateKey i = nk" "eiH0Ax i = ssH0x st" "eiH0Ay i = ssH0y st"
    "cdStealthAddressStructure c = st" "cdRootHashHinkal c = Some (mdRootHash d)" "cdErc20TokenAddresses c = eiErc20TokenAddresses i"
    "cdInputNullifiers c = eiInNullifiers i" "cdOutCommitments c = eiOutCommitments i" "cdCalldataHash c = eiCalldataHash i"
    by (rule evm_proof_data_steps [OF assms(1), folded c_def i_def]) (rule that, assumption+)
  note r = evm_proof_data_resolved [OF assms(1), folded c_def]
  have am: "eiAmountChanges i = map (normalised E) (cdAmountChanges c)" by (rule CalcAmountChanges_normalised [OF s(3,4)])
  have time: "ParseBigInt (cdTimeStamp c) = Ok (eiOutTimeStamp i)"
  proof (cases "zpOutputUtxos p = []")
    case True
    then have "cdTimeStamp c = int_String (eiOutTimeStamp i)" using cts min0_name [OF s(1)] by (simp add: circom_time_stamp_def)
    then show ?thesis by simp
  next
    case False
    then show ?thesis using ts cts by (auto simp: circom_time_stamp_def rbind_Ok_iff)
  qed
  have own: "VerifyStealthPair E (ssH0x st, ssH0y st) (ssH1x st, ssH1y st) nk False = Ok True"
    using s(2) by (auto simp: own_stealth_def CalcStealthAddressStructure_def CalcStealthAddressStructureFromH0_def
      VerifyStealthPair_def rbind_Ok_iff)
  have ch: "CreateCallDataHash E (if zpChainID p = 0 then 31337 else zpChainID p) (cdPublicSignalCount c) (cdRelay c)
      (cdExternalAddress c) (zpExternalActionID p) (cdEmporiumMessage c) (cdExternalActionMetadata c)
      (cdEncryptedOutputs c) (cdOnChainEncryptedOutput c) (Some (cdHookData c)) (cdSlippageValues c) (cdOnChainCreation c)
      (cdFeeStructure c) (cdOriginalSender c) (cdExtraData c) = Ok (cdCalldataHash c)"
    using hash r f(10) by (simp only: calldata_hash_resolved)
  show ?thesis using f am time own ch msg sig by (simp add: Let_def)
qed

text \<open>C9. The two implementations of the calldata hash agree: outside Tron, what the SDK hashes for a
  transaction without hooks is what it recomputes when it checks the enclave's answer to the same
  transaction, value for value, and so is the message signed for a Solana transaction.\<close>

theorem hashes_agree_with_enclave_check:
  assumes "\<not> IsTronLike chainID" "hexToAddress E ZeroAddress = replicate 20 0"
  shows "value_of (CreateCallDataHash E chainID n relay ext action msg md outs own None slip created fee [] ''0x'') =
     value_of (verifyCreateCallDataHash E chainID n relay (externalAddressOrZero ext) (verifyGetExternalActionIDHash E action)
       md msg outs own slip created fee (verifyGetOriginalSender ext relay) blocked) \<and>
    ComputeSignedMessageHashSolana E q = verifyComputeSignedMessageHashSolana E q"
proof
  show "value_of (CreateCallDataHash E chainID n relay ext action msg md outs own None slip created fee [] ''0x'') =
     value_of (verifyCreateCallDataHash E chainID n relay (externalAddressOrZero ext) (verifyGetExternalActionIDHash E action)
       md msg outs own slip created fee (verifyGetOriginalSender ext relay) blocked)"
    using assms unfolding CreateCallDataHash_def verifyCreateCallDataHash_def Let_def value_of_bind value_of_wrap
    by (simp add: hookDataValues_def DefaultHookData_def noHooks_def externalActionTuple_def feeStructureTuple_def
        encryptedOutputsToBytes_def externalAddressOrZero_def verifyGetExternalActionIDHash_def GetExternalActionIDHash_def
        verifyGetOriginalSender_def GetOriginalSender_def keccak_int_def)
  have a: "appendBytes32 = verifyAppendBytes32" by (intro ext) (simp add: appendBytes32_def verifyAppendBytes32_def)
  have b: "appendLengthPrefixedBytes32Array = verifyAppendLengthPrefixedBytes32Array"
    by (intro ext) (simp add: appendLengthPrefixedBytes32Array_def verifyAppendLengthPrefixedBytes32Array_def a)
  show "ComputeSignedMessageHashSolana E q = verifyComputeSignedMessageHashSolana E q"
    unfolding ComputeSignedMessageHashSolana_def verifyComputeSignedMessageHashSolana_def solana_message_bytes_def
      flat_agree a b by (simp add: rbind_assoc)
qed


definition toy_zk :: zk_params where
  "toy_zk = \<lparr>zpMerkleTree = None, zpInputUtxos = [], zpOutputUtxos = [], zpUserKeys = keys toy_wallet, zpExternalActionID = [],
     zpExternalAddress = [], zpExternalActionMetadata = [], zpGenerateProofRemotely = True, zpFeeStructure = ZeroFeeStructure,
     zpRelay = [], zpChainID = 1, zpOnChainCreation = None, zpHookData = None, zpOriginalSender = [], zpSubAccountPrivateKey = [],
     zpExtraData = [], zpIsSpeculativeTree = False, zpSlippageValues = None\<rparr>"

definition toy_draws :: draws where
  "toy_draws = \<lparr>drRandomization = Ok 3, drMessageSeed = Ok 4, drNow = 9, drOutputs = (\<lambda>i j. (Ok (replicate 32 1), Ok (replicate 24 2))),
     drOwn = (Ok (replicate 32 1), Ok (replicate 24 2))\<rparr>"

lemma toy_own_stealth: "\<exists>st. own_stealth toy_hex toy_draws ''7'' [x, y] = Ok st"
proof -
  have "case FindCorrectRandomization toy_hex 3 ''7'' of Inr r \<Rightarrow> True | _ \<Rightarrow> False" by code_simp
  then obtain r where r: "FindCorrectRandomization toy_hex 3 ''7'' = Ok r" by (auto split: sum.splits)
  let ?h0 = "jubMul toy_hex r (jubB8 toy_hex)"
  let ?in = "[2 * getCircomSign toy_hex (fst ?h0) + getCircomSign toy_hex (fst (jubMul toy_hex 7 ?h0)),
      snd ?h0, snd (jubMul toy_hex 7 ?h0), x, y, 7]"
  obtain h where h: "0 \<le> h" "PoseidonBig toy_hex ?in = Ok h" using toy_poseidon_hex [of ?in] by auto
  then have "ParseBigInt (ToBeHex (Some h)) = Ok h" by (simp add: ParseBigInt_ToBeHex)
  with r h show ?thesis
    by (simp add: own_stealth_def toy_draws_def CalcStealthAddressStructure_def GetRandomizedStealthPair_def Let_def
        CalcStealthAddressStructureFromH0_def DeriveStealthAddress_def GetH1FromH0_def toy_seven)
qed

lemma toy_own_output: "\<exists>bs. own_output toy_hex toy_box toy_draws ''7'' st = Ok bs"
proof -
  have k: "GetEncryptionKeyPair toy_hex toy_box ''7'' =
      Ok (''0x'' @ hex_EncodeToString (take 32 (sha512 toy_box (keccak256 toy_hex (fromHex toy_hex ''7'')))), ''0x'' @ hex_EncodeToString (replicate 32 9))"
    by (simp add: GetEncryptionKeyPair_def EncryptionKeyPair_def toy_box_def Let_def)
  have l: "length (fromHex toy_hex (''0x'' @ hex_EncodeToString (replicate 32 9))) = 32" by (simp add: toy_hex_def)
  have e: "length (fromHex toy_hex EnclavePubkey) = 32" by code_simp
  have "encryptionRecipients toy_hex (''0x'' @ hex_EncodeToString (replicate 32 9)) =
      Ok [fromHex toy_hex (''0x'' @ hex_EncodeToString (replicate 32 9)), fromHex toy_hex EnclavePubkey]"
    using l e by (simp add: encryptionRecipients_def Let_def EnclavePubkey_def)
  then show ?thesis using k
    by (simp add: own_output_def EncryptEncryptionKeyAndStealthAddress_def EncryptSealedKeys_def toy_draws_def toy_box_def toy_sealing_def Let_def)
qed

lemma toy_packs: "\<exists>bs. abiPack toy_hex vs = Ok bs"
  by (simp add: toy_hex_def toy_def)

lemma toy_signature: "\<exists>s. SignEddsa toy_hex (keys toy_wallet) m = Ok s"
proof -
  obtain pair :: spending_key_pair where pair: "GetSpendingKeyPair toy_hex (keys toy_wallet) = Ok pair" using toy_pair by blast
  have "requireSignature (keys toy_wallet) = Ok ()" by (simp add: requireSignature_def toy_wallet_def)
  moreover obtain r8 sig where "EddsaSignPoseidon toy_hex (fromHex toy_hex (PrivSpendingKey pair)) (m mod fieldP toy_hex) = Ok (r8, sig)"
    using EddsaSign_returns [of toy_hex] toy_poseidon_hex by blast
  ultimately show ?thesis using pair by (simp add: SignEddsa_def)
qed

lemma toy_proof_data:
  "\<exists>ep. evm_proof_data toy_hex toy_box (Err Panic) (\<lambda>c. Ok ([], [], ''1'', ''1'')) (\<lambda>a b c d e f. Ok []) toy_draws toy_zk = Ok ep"
proof -
  obtain pair :: spending_key_pair where pair: "GetSpendingKeyPair toy_hex (keys toy_wallet) = Ok pair" using toy_pair by blast
  obtain st where st: "own_stealth toy_hex toy_draws ''7'' [fst (PubSpendingBJJPoint pair), snd (PubSpendingBJJPoint pair)] = Ok st"
    using toy_own_stealth by blast
  obtain own where own: "own_output toy_hex toy_box toy_draws ''7'' st = Ok own" using toy_own_output by blast
  have one: "ParseBigInt ''1'' = Ok 1" by code_simp
  obtain msg where msg: "PoseidonBig toy_hex [4] = Ok msg" using toy_poseidon_hex [of "[4]"] by auto
  obtain pk where pk: "\<And>vs. abiPack toy_hex vs = Ok (pk vs)" using toy_packs by metis
  obtain sg where sg: "\<And>m. SignEddsa toy_hex (keys toy_wallet) m = Ok (sg m)" using toy_signature by metis
  have name: "has_prefix ''mainEVMCircuitMin0'' ''mainEVMCircuitMin0''" by (simp add: has_prefix_def)
  have loc: "\<not> IsLocalNetwork 1" by (simp add: IsLocalNetwork_def)
  have seed: "drMessageSeed toy_draws = Ok 4" by (simp add: toy_draws_def)
  show ?thesis unfolding evm_proof_data_def Let_def
    by (simp add: seed toy_zk_def GetZkProofVerifierName_def CalcAmountChanges_def CalcEncryptedOutputs_def toy_shielded pair st own
        GetDataFromWorkers_def HasOnlyZeroAmounts_def GetMerkleTreeSiblingsAndRootHashes_def areLocalTreesUpToDate_def loc
        handleRemoteMerkleTrees_def FetchMerkleTreeSiblings_def one BuildInNullifiersByAmount_def BuildOutCommitments_def
        circuit_texts_def mapUtxoStrings_def CalcPublicSignalCount_def name GetSlippageValues_def action_metadata_def
        ExternalActionEmporium_def CreateCallDataHash_def Let_def ComputeSignedMessageHashEvm_def addressesToBigInts_def flatToBigInts_def pk sg
        circom_time_stamp_def msg)
qed

lemma circom_data_matches_proof_witness:
  "\<exists>ep. evm_proof_data toy_hex toy_box (Err Panic) (\<lambda>c. Ok ([], [], ''1'', ''1'')) (\<lambda>a b c d e f. Ok []) toy_draws toy_zk = Ok ep \<and>
     cdCalldataHash (epCircom ep) = eiCalldataHash (epInput ep)"
  using toy_proof_data circom_data_matches_proof by blast

lemma take_rows_spec:
  "k * n \<le> length xs \<Longrightarrow> length (fst (take_rows k n xs)) = k \<and> (\<forall>r \<in> set (fst (take_rows k n xs)). length r = n) \<and>
     concat (fst (take_rows k n xs)) @ snd (take_rows k n xs) = xs \<and> length (snd (take_rows k n xs)) = length xs - k * n"
proof (induction k arbitrary: xs)
  case (Suc k)
  then have "k * n \<le> length (drop n xs)" by simp
  from Suc.IH [OF this] Suc.prems show ?case by (auto simp: case_prod_unfold Let_def)
qed simp

definition signal_list :: "'a solana_signals \<Rightarrow> 'a list" where
  "signal_list s = [sgOutH1Ax s, sgOutH1Ay s, sgOutStealthAddress s, sgMessage s, sgSwapperSeed s, sgRootHash s, sgSignedMessageHash s] @
     sgMintAccountPart1 s @ sgMintAccountPart2 s @ sgAmountChanges s @ concat (sgInNullifiers s) @ [sgOutTimestamp s] @
     concat (sgOutCommitments s) @ [sgCalldataHash s, sgH0Ax s, sgH0Ay s]"

lemma seven: "7 \<le> length xs \<Longrightarrow> [xs ! 0, xs ! 1, xs ! 2, xs ! 3, xs ! 4, xs ! 5, xs ! 6] @ drop 7 xs = xs"
  by (auto simp: numeral_eq_Suc Suc_le_length_iff)

lemma three: "length xs = 3 \<Longrightarrow> [xs ! 0, xs ! 1, xs ! 2] = xs"
  by (simp add: list_eq_iff_nth_eq less_Suc_eq numeral_eq_Suc)

definition signals_fit :: "dim_data \<Rightarrow> nat \<Rightarrow> bool" where
  "signals_fit dims n \<longleftrightarrow> 0 \<le> TokenNumber dims \<and> 0 \<le> NullifierAmount dims \<and> 0 \<le> OutputAmount dims \<and>
     int n = 11 + TokenNumber dims * (3 + NullifierAmount dims + OutputAmount dims)"

definition signals_shaped :: "dim_data \<Rightarrow> 'a solana_signals \<Rightarrow> bool" where
  "signals_shaped dims s \<longleftrightarrow> (let t = nat (TokenNumber dims) in
     length (sgMintAccountPart1 s) = t \<and> length (sgMintAccountPart2 s) = t \<and> length (sgAmountChanges s) = t \<and>
     length (sgInNullifiers s) = t \<and> (\<forall>r \<in> set (sgInNullifiers s). length r = nat (NullifierAmount dims)) \<and>
     length (sgOutCommitments s) = t \<and> (\<forall>r \<in> set (sgOutCommitments s). length r = nat (OutputAmount dims)))"

text \<open>The public signals of a Solana proof are read back without loss: for dimensions that are not
  negative, a list of exactly the announced length is cut into fields that, put one after the other, give
  the list again, with one entry per token and one row of the announced width per token; every other list is
  refused.\<close>

theorem solana_signals_in_order:
  "if signals_fit dims (length arr)
   then \<exists>s. ConvertSolanaPublicSignals arr dims = Ok s \<and> signal_list s = arr \<and> signals_shaped dims s
   else \<exists>err. ConvertSolanaPublicSignals arr dims = Err err"
proof (cases "signals_fit dims (length arr)")
  case False
  then show ?thesis
    by (auto simp: ConvertSolanaPublicSignals_def SolanaPublicSignalCount_def signals_fit_def Let_def algebra_simps)
next
  case True
  define t i out where "t = nat (TokenNumber dims)" and "i = nat (NullifierAmount dims)" and "out = nat (OutputAmount dims)"
  have d: "TokenNumber dims = int t" "NullifierAmount dims = int i" "OutputAmount dims = int out"
    using True by (simp_all add: signals_fit_def t_def i_def out_def)
  have "int (length arr) = int (11 + t * (3 + i + out))" using True by (simp add: signals_fit_def d)
  then have n: "length arr = 11 + t * (3 + i + out)" by linarith
  have count: "SolanaPublicSignalCount dims = Ok (int (length arr))"
    by (simp add: SolanaPublicSignalCount_def Let_def d n algebra_simps)
  define r3 where "r3 = drop t (drop t (drop t (drop 7 arr)))"
  have l3: "length r3 = 4 + t * i + t * out" by (simp add: r3_def n algebra_simps)
  obtain nulls r4 where q4: "take_rows t i r3 = (nulls, r4)" by fastforce
  have n4: "length nulls = t" "\<forall>r \<in> set nulls. length r = i" "concat nulls @ r4 = r3" "length r4 = 4 + t * out"
    using take_rows_spec [of t i r3] q4 l3 by simp_all
  obtain ts r4' where ts: "r4 = ts # r4'" using n4(4) by (cases r4) auto
  obtain coms r5 where q5: "take_rows t out r4' = (coms, r5)" by fastforce
  have n5: "length coms = t" "\<forall>r \<in> set coms. length r = out" "concat coms @ r5 = r4'" "length r5 = 3"
    using take_rows_spec [of t out r4'] q5 n4(4) ts by simp_all
  let ?s = "\<lparr>sgOutH1Ax = arr ! 0, sgOutH1Ay = arr ! 1, sgOutStealthAddress = arr ! 2, sgMessage = arr ! 3,
              sgSwapperSeed = arr ! 4, sgRootHash = arr ! 5, sgSignedMessageHash = arr ! 6,
              sgMintAccountPart1 = take t (drop 7 arr), sgMintAccountPart2 = take t (drop t (drop 7 arr)),
              sgAmountChanges = take t (drop t (drop t (drop 7 arr))),
              sgInNullifiers = nulls, sgOutTimestamp = ts, sgOutCommitments = coms,
              sgCalldataHash = r5 ! 0, sgH0Ax = r5 ! 1, sgH0Ay = r5 ! 2\<rparr>"
  have ok: "ConvertSolanaPublicSignals arr dims = Ok ?s"
    unfolding ConvertSolanaPublicSignals_def count rbind_simps Let_def d nat_int r3_def [symmetric] q4 prod.case ts list.sel
    using q5 by simp
  have seven': "[arr ! 0, arr ! 1, arr ! 2, arr ! 3, arr ! 4, arr ! 5, arr ! 6] @ drop 7 arr = arr"
    using n by (intro seven) simp
  have rest: "take t (drop 7 arr) @ take t (drop t (drop 7 arr)) @ take t (drop t (drop t (drop 7 arr))) @ r3 = drop 7 arr"
    unfolding r3_def by (simp only: append_take_drop_id)
  have "signal_list ?s = [arr ! 0, arr ! 1, arr ! 2, arr ! 3, arr ! 4, arr ! 5, arr ! 6] @
      take t (drop 7 arr) @ take t (drop t (drop 7 arr)) @ take t (drop t (drop t (drop 7 arr))) @
      concat nulls @ [ts] @ concat coms @ [r5 ! 0, r5 ! 1, r5 ! 2]"
    by (simp only: signal_list_def solana_signals.simps)
  also have "concat nulls @ [ts] @ concat coms @ [r5 ! 0, r5 ! 1, r5 ! 2] = r3"
    unfolding three [OF n5(4)] n5(3) using n4(3) ts by simp
  finally have list: "signal_list ?s = arr" unfolding rest using seven' by simp
  have "signals_shaped dims ?s" using n4 n5 n by (simp add: signals_shaped_def Let_def d algebra_simps)
  with True ok list show ?thesis by auto
qed

text \<open>No proof without the remote prover: a construction succeeds only when it is asked to prove remotely
  and the prover has answered, and the proof it returns is the prover's answer for the circuit's name and
  input, in the first place.\<close>

theorem proofs_are_remote:
  assumes "ConstructZkProof E S onChainRoot server emporium prove dr p = Ok r"
  shows "zpGenerateProofRemotely p \<and>
    (\<exists>ep names inputs results. evm_proof_data E S onChainRoot server emporium dr p = Ok ep \<and>
       prove (epVerifierName ep # names) (main_circuit_input (epVerifierName ep) (epInput ep) # inputs) = Ok results \<and>
       results \<noteq> [] \<and> zrZkCallData r = hd results \<and> zrCircomData r = epCircom ep)"
proof -
  obtain ep main validation where ep: "evm_proof_data E S onChainRoot server emporium dr p = Ok ep"
    and g: "GenerateMainAndCommitmentZkProof E prove (if zpChainID p = 0 then 31337 else zpChainID p) (zpUserKeys p)
              (eiErc20TokenAddresses (epInput ep)) (zpInputUtxos p) (epVerifierName ep)
              (main_circuit_input (epVerifierName ep) (epInput ep)) (zpGenerateProofRemotely p) = Ok (main, validation)"
    and r: "zrZkCallData r = main" "zrCircomData r = epCircom ep"
    using assms by (auto simp: ConstructZkProof_def rbind_Ok_iff)
  have self: "generateZkProofSelfBatch (a # as) xs \<noteq> Ok rs" for a as xs rs
    by (cases xs) (auto simp: generateZkProofSelfBatch_def GenerateZkProofSelf_def index_at_def rbind_Ok_iff)
  obtain names inputs results where res: "GenerateZkProof prove (epVerifierName ep # names)
      (main_circuit_input (epVerifierName ep) (epInput ep) # inputs) (zpGenerateProofRemotely p) = Ok results"
      "results \<noteq> []" "main = results ! 0"
    using g by (auto simp: GenerateMainAndCommitmentZkProof_def rbind_Ok_iff Let_def)
  then have "zpGenerateProofRemotely p" "prove (epVerifierName ep # names)
      (main_circuit_input (epVerifierName ep) (epInput ep) # inputs) = Ok results"
    using self by (auto simp: GenerateZkProof_def split: if_splits sum.splits)
  moreover have "zrZkCallData r = hd results" using res(2,3) r(1) by (simp add: hd_conv_nth)
  ultimately show ?thesis using ep res(2) r(2) by blast
qed

lemma proofs_are_remote_witness:
  "\<exists>r. ConstructZkProof toy_hex toy_box (Err Panic) (\<lambda>c. Ok ([], [], ''1'', ''1'')) (\<lambda>a b c d e f. Ok [])
       (\<lambda>names inputs. Ok [\<lparr>zkA = ([], []), zkB = (([], []), ([], [])), zkC = ([], []), zkPublicSignals = []\<rparr>]) toy_draws toy_zk = Ok r \<and>
     zpGenerateProofRemotely toy_zk"
proof -
  let ?prove = "\<lambda>names inputs. Ok [\<lparr>zkA = ([], []), zkB = (([], []), ([], [])), zkC = ([], []), zkPublicSignals = []\<rparr>]"
  obtain ep where "evm_proof_data toy_hex toy_box (Err Panic) (\<lambda>c. Ok ([], [], ''1'', ''1'')) (\<lambda>a b c d e f. Ok []) toy_draws toy_zk = Ok ep"
    using toy_proof_data by blast
  then obtain r where r: "ConstructZkProof toy_hex toy_box (Err Panic) (\<lambda>c. Ok ([], [], ''1'', ''1'')) (\<lambda>a b c d e f. Ok [])
      ?prove toy_draws toy_zk = Ok r"
    by (simp add: ConstructZkProof_def GenerateMainAndCommitmentZkProof_def BuildCommitmentValidationData_def toy_zk_def
        HasOnlyZeroAmounts_def GenerateZkProof_def index_at_def)
  from proofs_are_remote [OF r] r show ?thesis by blast
qed

lemma hashes_agree_with_enclave_check_witness:
  "value_of (CreateCallDataHash (toy\<lparr>hexToAddress := (\<lambda>s. replicate 20 0)\<rparr>) 1 8 ZeroAddress [] [] 5 ''0x'' [] ''0x'' None [-3] [False]
      ZeroFeeStructure [] ''0x'') =
   value_of (verifyCreateCallDataHash (toy\<lparr>hexToAddress := (\<lambda>s. replicate 20 0)\<rparr>) 1 8 ZeroAddress ZeroAddress 0 ''0x'' 5 [] ''0x'' [-3] [False]
      ZeroFeeStructure (verifyGetOriginalSender [] ZeroAddress) True)"
proof -
  have "\<not> IsTronLike 1" by code_simp
  from hashes_agree_with_enclave_check [OF this, of "toy\<lparr>hexToAddress := (\<lambda>s. replicate 20 0)\<rparr>" 8 ZeroAddress "[]" "[]" 5 "''0x''" "[]" "''0x''" "[-3]" "[False]"
      ZeroFeeStructure True]
  show ?thesis by (simp add: externalAddressOrZero_def verifyGetExternalActionIDHash_def)
qed

lemma proof_inputs_reach_root_witness:
  "\<exists>t d v. handleLocalMerkleTrees toy_hex (Some t) [[toy_seen]] = Ok d \<and> path_proves t v (mdSiblings d ! 0 ! 0) (mdSides d ! 0 ! 0) (mdRootHash d)"
proof -
  have "case snd (GetCommitment toy_hex toy_seen) of Inl _ \<Rightarrow> False
      | Inr c \<Rightarrow> (case ParseBigInt c of Inl _ \<Rightarrow> False | Inr v \<Rightarrow> v \<noteq> 0)" by code_simp
  then obtain c v where c: "snd (GetCommitment toy_hex toy_seen) = Ok c" "ParseBigInt c = Ok v" "v \<noteq> 0"
    by (auto split: sum.splits)
  let ?N = "New (\<lambda>x y. x + y) 0 0"
  have N: "holds_leaves ?N []" by (simp add: holds_leaves_def merkle_inv_New complete_def leaf_values_def)
  have cap: "length ([] :: int list) < 2 ^ (levels ?N - 1)" by simp
  obtain t where t: "append_leaf ?N v = Ok t" "holds_leaves t [v]" "same_shape t ?N" "\<forall>w. Contains t w \<longleftrightarrow> w = v \<or> Contains ?N w"
    using append_leaf_holds [OF N cap, of v] by auto
  have ix: "indexed t" by (rule indexed_append [OF N indexed_New cap t(1)])
  have inv: "merkle_inv t" "complete t" and lv: "leaf_values t = [v]" using t(2) by (simp_all add: holds_leaves_def)
  have w: "width t = 1" using lv length_leaf_values [of t] by simp
  have T: "logarithm2 (int (width t)) = 0" by (simp add: w logarithm2_def BitLen.simps)
  have L: "CircomMerkleLength \<le> levels t" using t(3) by (simp add: same_shape_def MerkleLevels_def CircomMerkleLength_def)
  have root: "GetRootHash t = Ok v" using GetRootHash_complete [OF inv refl] c(3) unfolding T lv by (simp add: w)
  have cont: "Contains t v" using t(4) by simp
  then obtain i where i: "mget (reverseTree t) (int_String v) = Some i" by (auto simp: Contains_def)
  then obtain j where j: "j < width t" "i = node_at (levels t) 0 j" using ix unfolding indexed_def by blast
  obtain ss ds where q: "GetSiblingHashesForVerification t v = Ok ss" "GetSiblingSides t v = Ok ds"
    by (rule path_queries [OF inv j(1) refl i [unfolded j(2)] L]) (simp add: T)
  have chk: "check_in_tree toy_hex t toy_seen = Ok ()" using c cont by (simp add: check_in_tree_def)
  have path: "note_path toy_hex t toy_seen = Ok (map int_String ss, map int_String ds)" using c q by (simp add: note_path_def)
  obtain d where d: "handleLocalMerkleTrees toy_hex (Some t) [[toy_seen]] = Ok d"
    using root chk path by (simp add: handleLocalMerkleTrees_def CalcCommitmentsSiblingAndSides_def)
  have size: "length [v] \<le> 2 ^ CircomMerkleLength" by (simp add: CircomMerkleLength_def)
  have nz: "merkle_root (hashFn t) (defaultValue t) (logarithm2 (int (length [v]))) [v] \<noteq> 0" using c(3) T unfolding w by simp
  have a: "Amount ([[toy_seen]] ! 0 ! 0) = Some 5" by (simp add: toy_seen_def)
  from proof_inputs_reach_root [OF d t(2) ix L size nz _ _ a] d show ?thesis by fastforce
qed

end
