(* ===== verification/ProverInterface.thy ===== *)
theory ProverInterface
  imports ProofsCorrect
begin

text \<open>
  \<open>internal/functions/snarkjs\<close>, what crosses the wire around a proof: the JSON form of the circom data
  (\<open>serialize.go\<close>, \<open>deserialize_circom_data.go\<close>), the table of circuit files (\<open>zk_files.go\<close>) and the call of
  the remote prover (\<open>generate_zk_proof_enclave.go\<close>), whose encrypted HTTP exchange is a function.
\<close>

section \<open>The JSON form of the circom data\<close>

record stealth_structure_json =
  sjH0x :: string
  sjH0y :: string
  sjH1x :: string
  sjH1y :: string
  sjStealthAddress :: string

record circom_json =
  cjRootHashHinkal :: "string option"
  cjRootHashHinkalIndex :: "string option"
  cjErc20TokenAddresses :: "string list"
  cjAmountChanges :: "string list"
  cjInputNullifiers :: "string list list"
  cjOutCommitments :: "string list list"
  cjEncryptedOutputs :: "string list list"
  cjOnChainEncryptedOutput :: string
  cjStealthAddressStructure :: stealth_structure_json
  cjTimeStamp :: string
  cjRelay :: string
  cjExternalAddress :: string
  cjExternalActionID :: string
  cjExternalActionMetadata :: string
  cjHookData :: hook_data
  cjCalldataHash :: string
  cjEmporiumMessage :: string
  cjPublicSignalCount :: int
  cjOnChainCreation :: "bool list"
  cjSlippageValues :: "string list"
  cjFeeStructure :: fee_structure_json
  cjOriginalSender :: string
  cjExtraData :: string
  cjNewRootHash :: "string option"
  cjInsertedLeafIndex :: "string option"
  cjCreateBlockedUtxos :: bool

definition bigIntPtrString :: "int option \<Rightarrow> string option" where
  "bigIntPtrString n = map_option int_String n"

definition bigIntSliceStrings :: "int list \<Rightarrow> string list" where
  "bigIntSliceStrings values = map int_String values"

definition SerializeCircomData :: "circom_data \<Rightarrow> circom_json" where
  "SerializeCircomData c =
     (let st = cdStealthAddressStructure c; fee = cdFeeStructure c in
      \<lparr>cjRootHashHinkal = bigIntPtrString (cdRootHashHinkal c), cjRootHashHinkalIndex = bigIntPtrString (cdRootHashHinkalIndex c),
       cjErc20TokenAddresses = cdErc20TokenAddresses c, cjAmountChanges = bigIntSliceStrings (cdAmountChanges c),
       cjInputNullifiers = cdInputNullifiers c, cjOutCommitments = cdOutCommitments c,
       cjEncryptedOutputs = cdEncryptedOutputs c, cjOnChainEncryptedOutput = cdOnChainEncryptedOutput c,
       cjStealthAddressStructure = \<lparr>sjH0x = int_String (ssH0x st), sjH0y = int_String (ssH0y st), sjH1x = int_String (ssH1x st),
         sjH1y = int_String (ssH1y st), sjStealthAddress = int_String (ssStealthAddress st)\<rparr>,
       cjTimeStamp = cdTimeStamp c, cjRelay = cdRelay c, cjExternalAddress = cdExternalAddress c,
       cjExternalActionID = int_String (cdExternalActionID c), cjExternalActionMetadata = cdExternalActionMetadata c,
       cjHookData = cdHookData c, cjCalldataHash = int_String (cdCalldataHash c), cjEmporiumMessage = int_String (cdEmporiumMessage c),
       cjPublicSignalCount = cdPublicSignalCount c, cjOnChainCreation = cdOnChainCreation c,
       cjSlippageValues = bigIntSliceStrings (cdSlippageValues c),
       cjFeeStructure = \<lparr>jFeeToken = FeeToken fee, jFlatFee = int_String (FlatFee fee), jVariableRate = int_String (VariableRate fee)\<rparr>,
       cjOriginalSender = cdOriginalSender c, cjExtraData = cdExtraData c, cjNewRootHash = bigIntPtrString (cdNewRootHash c),
       cjInsertedLeafIndex = bigIntPtrString (cdInsertedLeafIndex c), cjCreateBlockedUtxos = cdCreateBlockedUtxos c\<rparr>)"

definition parseBigInts :: "string list \<Rightarrow> int list result" where
  "parseBigInts values = rmap ParseBigInt values"

definition deserializeStealthAddressStructure :: "stealth_structure_json \<Rightarrow> stealth_structure result" where
  "deserializeStealthAddressStructure s =
     rbind (ParseBigInt (sjH0x s)) (\<lambda>h0x.
     rbind (ParseBigInt (sjH0y s)) (\<lambda>h0y.
     rbind (ParseBigInt (sjH1x s)) (\<lambda>h1x.
     rbind (ParseBigInt (sjH1y s)) (\<lambda>h1y.
     rbind (ParseBigInt (sjStealthAddress s)) (\<lambda>stealthAddress.
     Ok \<lparr>ssH0x = h0x, ssH0y = h0y, ssH1x = h1x, ssH1y = h1y, ssStealthAddress = stealthAddress\<rparr>)))))"

definition deserializeFeeStructure :: "fee_structure_json \<Rightarrow> fee_structure result" where
  "deserializeFeeStructure f =
     rbind (ParseBigInt (jFlatFee f)) (\<lambda>flatFee.
     rbind (ParseBigInt (jVariableRate f)) (\<lambda>variableRate.
     Ok \<lparr>FeeToken = jFeeToken f, FlatFee = flatFee, VariableRate = variableRate\<rparr>))"

definition parse_ptr :: "string option \<Rightarrow> int option result" where
  "parse_ptr s = (case s of None \<Rightarrow> Ok None | Some t \<Rightarrow> rbind (ParseBigInt t) (\<lambda>n. Ok (Some n)))"

definition DeserializeCircomData :: "circom_json \<Rightarrow> circom_data result" where
  "DeserializeCircomData d =
     rbind (parseBigInts (cjAmountChanges d)) (\<lambda>amountChanges.
     rbind (parseBigInts (cjSlippageValues d)) (\<lambda>slippageValues.
     rbind (ParseBigInt (cjCalldataHash d)) (\<lambda>calldataHash.
     rbind (ParseBigInt (cjEmporiumMessage d)) (\<lambda>emporiumMessage.
     rbind (ParseBigInt (cjExternalActionID d)) (\<lambda>externalActionID.
     rbind (deserializeStealthAddressStructure (cjStealthAddressStructure d)) (\<lambda>stealth.
     rbind (deserializeFeeStructure (cjFeeStructure d)) (\<lambda>fee.
     rbind (parse_ptr (cjNewRootHash d)) (\<lambda>newRootHash.
     rbind (parse_ptr (cjInsertedLeafIndex d)) (\<lambda>insertedLeafIndex.
     rbind (parse_ptr (cjRootHashHinkal d)) (\<lambda>rootHashHinkal.
     rbind (parse_ptr (cjRootHashHinkalIndex d)) (\<lambda>rootHashHinkalIndex.
     Ok \<lparr>cdRootHashHinkal = rootHashHinkal, cdRootHashHinkalIndex = rootHashHinkalIndex,
         cdErc20TokenAddresses = cjErc20TokenAddresses d, cdAmountChanges = amountChanges,
         cdInputNullifiers = cjInputNullifiers d, cdOutCommitments = cjOutCommitments d,
         cdEncryptedOutputs = cjEncryptedOutputs d, cdOnChainEncryptedOutput = cjOnChainEncryptedOutput d,
         cdTimeStamp = cjTimeStamp d, cdStealthAddressStructure = stealth, cdRelay = cjRelay d,
         cdExternalAddress = cjExternalAddress d, cdExternalActionID = externalActionID,
         cdExternalActionMetadata = cjExternalActionMetadata d, cdHookData = cjHookData d,
         cdCalldataHash = calldataHash, cdEmporiumMessage = emporiumMessage,
         cdPublicSignalCount = cjPublicSignalCount d, cdOnChainCreation = cjOnChainCreation d,
         cdSlippageValues = slippageValues, cdFeeStructure = fee, cdOriginalSender = cjOriginalSender d,
         cdExtraData = cjExtraData d, cdNewRootHash = newRootHash, cdInsertedLeafIndex = insertedLeafIndex,
         cdCreateBlockedUtxos = cjCreateBlockedUtxos d\<rparr>)))))))))))"

section \<open>Circuit files\<close>

definition ProverVersion :: string where "ProverVersion = ''v4''"

text \<open>The table, one circuit at a time.\<close>

definition main_files :: "string \<Rightarrow> (string, string) gomap" where
  "main_files name = [(name @ ''v4Wasm'', name @ ''-4.wasm''), (name @ ''v4Zkey'', name @ ''_final-4.zkey'')]"

definition commitment_files :: "string \<Rightarrow> (string, string) gomap" where
  "commitment_files name = main_files name @ [(name @ ''v4VK'', name @ ''_final-4_verification_key.json'')]"

definition main_circuits :: "string list" where
  "main_circuits = map ((@) ''mainEVMCircuit'')
       [''1x2x1'', ''1x6x1'', ''2x2x1'', ''2x6x1'', ''3x2x1'', ''3x6x1'', ''4x2x1'', ''4x6x1'', ''5x2x1'', ''5x6x1'',
        ''1x2x2'', ''1x6x2'', ''2x2x2'', ''2x6x2'', ''Min0''] @
     map ((@) ''mainSolanaCircuit'') [''1x2x1'', ''1x2x2'', ''1x6x1'', ''1x6x2'', ''2x2x1'', ''2x6x1'']"

definition commitment_circuits :: "string list" where
  "commitment_circuits = map ((@) ''commitmentCalculator'')
     [''1x2'', ''1x6'', ''2x2'', ''2x6'', ''3x2'', ''3x6'', ''4x2'', ''4x6'', ''5x2'', ''5x6'']"

definition localVerifiers :: "(string, string) gomap" where
  "localVerifiers = concat (map main_files main_circuits) @ concat (map commitment_files commitment_circuits)"

definition getProdVerifiers :: "string \<Rightarrow> (string, string) gomap" where
  "getProdVerifiers backend = map (\<lambda>(key, name). (key, (backend @ ''/verifiers-v4/'') @ name)) localVerifiers"

definition isLocalProverChain :: "int \<Rightarrow> bool" where
  "isLocalProverChain chainID = (chainID = 31337 \<or> chainID = 102 \<or> chainID = 103)"

text \<open>A missing key reads as the empty text.\<close>

definition verifier_file :: "string \<Rightarrow> string \<Rightarrow> int \<Rightarrow> string" where
  "verifier_file backend key chainID =
     (case mget (if isLocalProverChain chainID then localVerifiers else getProdVerifiers backend) key of
        None \<Rightarrow> [] | Some name \<Rightarrow> name)"

definition GetWASMFile :: "string \<Rightarrow> string \<Rightarrow> int \<Rightarrow> string" where
  "GetWASMFile backend filename chainID = verifier_file backend (filename @ ProverVersion @ ''Wasm'') chainID"

definition GetZKeyFile :: "string \<Rightarrow> string \<Rightarrow> int \<Rightarrow> string" where
  "GetZKeyFile backend filename chainID = verifier_file backend (filename @ ProverVersion @ ''Zkey'') chainID"

definition GetVKFile :: "string \<Rightarrow> string \<Rightarrow> int \<Rightarrow> string" where
  "GetVKFile backend filename chainID = verifier_file backend (filename @ ProverVersion @ ''VK'') chainID"

section \<open>The remote prover\<close>

definition retrieveVerifierFilename :: "string \<Rightarrow> string result" where
  "retrieveVerifierFilename verifierName =
     (if has_prefix verifierName ''http'' then
        let file = last (Split verifierName CHR ''/'')
        in if file = [] then Err (Errorf ''snarkjs: invalid verifierName'') else Ok file
      else Ok verifierName)"

text \<open>\<open>call\<close> seals the inputs for the enclave, posts them with the two lists of file names, and returns the
  proofs of the answer.\<close>

type_synonym prover_call = "string list \<Rightarrow> string list \<Rightarrow> circuit_input list \<Rightarrow> zk_proof list result"

definition circuit_files :: "string \<Rightarrow> int \<Rightarrow> string \<Rightarrow> (string \<times> string) result" where
  "circuit_files backend chainID name =
     rbind (retrieveVerifierFilename (GetWASMFile backend name chainID)) (\<lambda>wasm.
     rbind (retrieveVerifierFilename (GetZKeyFile backend name chainID)) (\<lambda>zkey. Ok (wasm, zkey)))"

definition GenerateZkProofEnclave :: "string \<Rightarrow> prover_call \<Rightarrow> int \<Rightarrow> prover" where
  "GenerateZkProofEnclave backend call chainID verifierNames inputs =
     rbind (rmap (circuit_files backend chainID) verifierNames) (\<lambda>files. call (map fst files) (map snd files) inputs)"

section \<open>Lemmas\<close>

lemma rmap_int_String [simp]: "rmap ParseBigInt (map int_String ns) = Ok ns"
  by (induction ns) simp_all

text \<open>The circom data survive their JSON form: what the relayer reads back from the request is what the
  proof was built for, nil root hashes and optional fields included.\<close>

theorem circom_json_roundtrip: "DeserializeCircomData (SerializeCircomData c) = Ok c"
proof -
  have p: "parse_ptr (bigIntPtrString n) = Ok n" for n by (cases n) (simp_all add: parse_ptr_def bigIntPtrString_def)
  have st: "deserializeStealthAddressStructure (cjStealthAddressStructure (SerializeCircomData c)) = Ok (cdStealthAddressStructure c)"
    by (simp add: deserializeStealthAddressStructure_def SerializeCircomData_def Let_def)
  have fee: "deserializeFeeStructure (cjFeeStructure (SerializeCircomData c)) = Ok (cdFeeStructure c)"
    by (simp add: deserializeFeeStructure_def SerializeCircomData_def Let_def)
  show ?thesis
    unfolding DeserializeCircomData_def st fee
    by (simp add: SerializeCircomData_def Let_def parseBigInts_def bigIntSliceStrings_def p)
qed

lemma mget_append: "mget (a @ b) k = (case mget a k of None \<Rightarrow> mget b k | Some v \<Rightarrow> Some v)"
  unfolding mget_def map_of_append map_add_def ..

text \<open>Keys differ by their suffix.\<close>

lemma suffix_keys [simp]:
  "a @ ''v4Wasm'' \<noteq> b @ ''v4Zkey''" "a @ ''v4Zkey'' \<noteq> b @ ''v4Wasm''" "a @ ''v4VK'' \<noteq> b @ ''v4Wasm''" "a @ ''v4VK'' \<noteq> b @ ''v4Zkey''"
  by (auto dest: arg_cong [where f = last])

lemma wasm_key:
  "mget (concat (map main_files names)) (name @ ''v4Wasm'') = (if name \<in> set names then Some (name @ ''-4.wasm'') else None)"
  "mget (concat (map commitment_files names)) (name @ ''v4Wasm'') = (if name \<in> set names then Some (name @ ''-4.wasm'') else None)"
  by (induction names) (auto simp: main_files_def commitment_files_def mget_append mget_def)

lemma zkey_key:
  "mget (concat (map main_files names)) (name @ ''v4Zkey'') = (if name \<in> set names then Some (name @ ''_final-4.zkey'') else None)"
  "mget (concat (map commitment_files names)) (name @ ''v4Zkey'') = (if name \<in> set names then Some (name @ ''_final-4.zkey'') else None)"
  by (induction names) (auto simp: main_files_def commitment_files_def mget_append mget_def)

text \<open>The texts of the dimensions name exactly one triple.\<close>

lemma int_String_no_x: "CHR ''x'' \<notin> set (int_String n)"
  using nat_text_no_x [of 10] by (auto simp: int_String_def int_text_def)

lemma before_x: "takeWhile (\<lambda>c. c \<noteq> CHR ''x'') (int_String n @ CHR ''x'' # r) = int_String n"
  using int_String_no_x [of n] by (subst takeWhile_append2) auto

lemma x_separates: "int_String m @ CHR ''x'' # r = int_String n @ CHR ''x'' # r' \<longleftrightarrow> m = n \<and> r = r'"
proof
  assume e: "int_String m @ CHR ''x'' # r = int_String n @ CHR ''x'' # r'"
  then have "int_String m = int_String n" using before_x by metis
  with e show "m = n \<and> r = r'" by simp
qed simp

lemma dims_inject: "dims_text a b c = dims_text a' b' c' \<longleftrightarrow> a = a' \<and> b = b' \<and> c = c'"
  by (auto simp: dims_text_def x_separates)

lemma dims_x: "CHR ''x'' \<in> set (dims_text a b c)"
  by (simp add: dims_text_def)

definition evm_dims :: "(nat \<times> nat \<times> nat) list" where
  "evm_dims = [(1,2,1), (1,6,1), (2,2,1), (2,6,1), (3,2,1), (3,6,1), (4,2,1), (4,6,1), (5,2,1), (5,6,1),
     (1,2,2), (1,6,2), (2,2,2), (2,6,2)]"

lemma main_circuits_dims:
  "main_circuits = map (\<lambda>(a, b, c). ''mainEVMCircuit'' @ dims_text a b c) evm_dims @ [''mainEVMCircuitMin0''] @
     map ((@) ''mainSolanaCircuit'') [''1x2x1'', ''1x2x2'', ''1x6x1'', ''1x6x2'', ''2x2x1'', ''2x6x1'']"
  by code_simp

definition known_circuits :: "string set" where
  "known_circuits = set main_circuits \<union> set commitment_circuits"

lemma evm_circuit_known:
  "''mainEVMCircuit'' @ dims_text a b c \<in> known_circuits \<longleftrightarrow> (a, b, c) \<in> set evm_dims"
proof -
  have m: "''mainEVMCircuit'' @ dims_text a b c \<noteq> ''mainEVMCircuitMin0''" using dims_x [of a b c] by auto
  have s: "''mainEVMCircuit'' @ r \<noteq> ''mainSolanaCircuit'' @ r'" "''mainEVMCircuit'' @ r \<noteq> ''commitmentCalculator'' @ r'" for r r' by simp_all
  have "''mainEVMCircuit'' @ dims_text a b c \<in> set (map (\<lambda>(a, b, c). ''mainEVMCircuit'' @ dims_text a b c) evm_dims) \<longleftrightarrow> (a, b, c) \<in> set evm_dims"
    by (auto simp: dims_inject image_iff split: prod.splits simp del: append.simps)
  then show ?thesis
    using m s unfolding known_circuits_def main_circuits_dims commitment_circuits_def
    by (simp add: image_iff del: append.simps)
qed

lemma min0_known: "''mainEVMCircuitMin0'' \<in> known_circuits"
  by (simp add: known_circuits_def main_circuits_dims)

lemma known_wasm: "mget localVerifiers (name @ ''v4Wasm'') = (if name \<in> known_circuits then Some (name @ ''-4.wasm'') else None)"
  by (simp add: localVerifiers_def mget_append wasm_key known_circuits_def)

lemma known_zkey: "mget localVerifiers (name @ ''v4Zkey'') = (if name \<in> known_circuits then Some (name @ ''_final-4.zkey'') else None)"
  by (simp add: localVerifiers_def mget_append zkey_key known_circuits_def)

lemma known_texts:
  assumes "name \<in> known_circuits"
  shows "CHR ''/'' \<notin> set name" "\<not> has_prefix (name @ s) ''http''"
proof -
  have "list_all (\<lambda>n. CHR ''/'' \<notin> set n \<and> n \<noteq> [] \<and> hd n \<noteq> CHR ''h'') (main_circuits @ commitment_circuits)" by code_simp
  then have n: "CHR ''/'' \<notin> set name \<and> name \<noteq> [] \<and> hd name \<noteq> CHR ''h''"
    using assms by (auto simp: known_circuits_def list_all_iff)
  then show "CHR ''/'' \<notin> set name" by simp
  show "\<not> has_prefix (name @ s) ''http''" using n by (cases name) (auto simp: has_prefix_def)
qed

lemma Split_ends: "sep \<notin> set p \<Longrightarrow> \<exists>f fs. Split (s @ sep # p) sep = (f # fs) @ [p]"
proof (induction s)
  case Nil
  then show ?case by (simp add: Split_single)
next
  case (Cons c s)
  then show ?case by (cases "c = sep") auto
qed

lemma last_Split: "sep \<notin> set p \<Longrightarrow> last (Split (s @ sep # p) sep) = p"
  using Split_ends [of sep p s] by auto

lemma has_prefix_append: "has_prefix s p \<Longrightarrow> has_prefix (s @ t) p"
  by (metis append.assoc append_take_drop_id append_eq_conv_conj has_prefix_def)

lemma gateway_file:
  assumes "has_prefix backend ''http''" "CHR ''/'' \<notin> set file" "file \<noteq> []"
  shows "retrieveVerifierFilename ((backend @ ''/verifiers-v4/'') @ file) = Ok file"
proof -
  have "last (Split ((backend @ ''/verifiers-v4'') @ CHR ''/'' # file) CHR ''/'') = file" by (rule last_Split [OF assms(2)])
  then have "last (Split ((backend @ ''/verifiers-v4/'') @ file) CHR ''/'') = file" by simp
  moreover have "has_prefix ((backend @ ''/verifiers-v4/'') @ file) ''http''"
    using has_prefix_append [OF assms(1)] by (metis append_assoc)
  ultimately show ?thesis using assms(3) by (simp add: retrieveVerifierFilename_def)
qed

lemma local_file: "name \<in> known_circuits \<Longrightarrow> retrieveVerifierFilename (name @ s) = Ok (name @ s)"
  using known_texts(2) by (simp add: retrieveVerifierFilename_def)

lemma no_file: "retrieveVerifierFilename [] = Ok []"
  by (simp add: retrieveVerifierFilename_def has_prefix_def)

lemma verifier_file_known:
  assumes "has_prefix backend ''http''" "mget localVerifiers key = (if name \<in> known_circuits then Some (name @ s) else None)"
    and "CHR ''/'' \<notin> set s"
  shows "retrieveVerifierFilename (verifier_file backend key chainID) = Ok (if name \<in> known_circuits then name @ s else [])"
proof (cases "name \<in> known_circuits")
  case True
  have "name \<noteq> []" using True by (auto simp: known_circuits_def main_circuits_dims commitment_circuits_def)
  then show ?thesis
    using True assms(2,3) known_texts(1) [OF True] gateway_file [OF assms(1), of "name @ s"] local_file [OF True, of s]
    by (simp add: verifier_file_def getProdVerifiers_def mget_map_values)
next
  case False
  then show ?thesis using assms(2) by (simp add: verifier_file_def getProdVerifiers_def mget_map_values no_file)
qed

lemma circuit_files_known:
  assumes "has_prefix backend ''http''"
  shows "circuit_files backend chainID name =
    Ok (if name \<in> known_circuits then (name @ ''-4.wasm'', name @ ''_final-4.zkey'') else ([], []))"
  using verifier_file_known [OF assms known_wasm, where chainID = chainID and name = name]
    verifier_file_known [OF assms known_zkey, where chainID = chainID and name = name]
  by (simp add: circuit_files_def GetWASMFile_def GetZKeyFile_def ProverVersion_def)

definition provable :: "utxo list list \<Rightarrow> utxo list list \<Rightarrow> bool" where
  "provable inputUtxos outputUtxos \<longleftrightarrow> outputUtxos = [] \<or>
     (let t = length inputUtxos; n = length (hd inputUtxos); o' = length (hd outputUtxos)
      in 1 \<le> t \<and> t \<le> 5 \<and> n \<in> {2, 6} \<and> (o' = 1 \<or> o' = 2 \<and> t \<le> 2))"

text \<open>Which transactions have a circuit: the remote prover is asked for the same two files on every chain,
  named after the circuit, exactly when there are no outputs, or one to five tokens of two or six input notes
  each with one output note per token, or with two when there are at most two tokens; for every other shape it
  is sent empty file names, and no error is raised.\<close>

theorem provable_transactions:
  assumes "has_prefix backend ''http''" "GetZkProofVerifierName ins outs = Ok name"
  shows "circuit_files backend chainID name =
    Ok (if provable ins outs then (name @ ''-4.wasm'', name @ ''_final-4.zkey'') else ([], []))"
proof -
  have "name \<in> known_circuits \<longleftrightarrow> provable ins outs"
  proof (cases "outs = []")
    case True
    then show ?thesis using assms(2) min0_known by (simp add: GetZkProofVerifierName_def provable_def)
  next
    case False
    then have name: "name = ''mainEVMCircuit'' @ dims_text (length ins) (length (hd ins)) (length (hd outs))" and ne: "ins \<noteq> []"
      using assms(2) by (auto simp: GetZkProofVerifierName_def rbind_Ok_iff hd_conv_nth)
    have "(t, n, k) \<in> set evm_dims \<longleftrightarrow> 1 \<le> t \<and> t \<le> 5 \<and> n \<in> {2, 6} \<and> (k = 1 \<or> k = 2 \<and> t \<le> 2)" for t n k
      unfolding evm_dims_def by simp arith
    then show ?thesis using False unfolding name evm_circuit_known provable_def Let_def by simp
  qed
  then show ?thesis using circuit_files_known [OF assms(1)] by simp
qed

lemma provable_transactions_witness:
  "circuit_files ''https://h'' 1 ''mainEVMCircuit3x2x2'' = Ok ([], [])"
proof -
  have n: "GetZkProofVerifierName [[u, u], [u, u], [u, u]] [[u, u], [u, u], [u, u]] = Ok ''mainEVMCircuit3x2x2''" for u :: utxo
  proof -
    have "dims_text 3 2 2 = ''3x2x2''" by code_simp
    then show ?thesis by (simp add: GetZkProofVerifierName_def index_at_def numeral_eq_Suc)
  qed
  show ?thesis
    using provable_transactions [OF _ n [of toy_seen], of "''https://h''" 1] by (simp add: has_prefix_def provable_def)
qed

end
