(* ===== verification/PreTransaction.thy ===== *)
theory PreTransaction
  imports Recipients EnclaveSolana
begin

text \<open>
  The rest of \<open>internal/functions/pre-transaction\<close>: the chain of a set of tokens, the relay and the swap
  contract, gas estimates and the fee, the simulated transfer of volatile tokens (with the predicates of
  \<open>data-structures/token-checker\<close>), the data reported with a transaction, and the swap instructions of an
  aggregator turned into those of the Solana program.
\<close>

section \<open>Tokens, relay and swap contract\<close>

definition ErrEmptyTokenArray :: go_error where "ErrEmptyTokenArray = Errorf ''token array cannot be empty''"
definition ErrTokensDifferentChains :: go_error where "ErrTokensDifferentChains = Errorf ''tokens belong to different chains. All tokens must belong to the same chain''"

definition ValidateAndGetChainID :: "erc20_token list \<Rightarrow> int result" where
  "ValidateAndGetChainID tokens =
     (case tokens of
        [] \<Rightarrow> Err ErrEmptyTokenArray
      | first # _ \<Rightarrow>
          if list_ex (\<lambda>t. ChainID t \<noteq> ChainID first) tokens then Err ErrTokensDifferentChains
          else Ok (ChainID first))"

definition ErrRelayerNotAvailable :: go_error where "ErrRelayerNotAvailable = Errorf ''all relayers are busy, please try in a few seconds''"

record resolved_relay =
  Relay :: string
  AutoSelectRelay :: bool

text \<open>\<open>remote\<close> is \<open>GenerateProofRemotely()\<close>; \<open>randomRelay reserve\<close> is \<open>GetRandomRelay\<close>.\<close>

definition ResolveRelay :: "bool \<Rightarrow> (bool \<Rightarrow> string result) \<Rightarrow> bool \<Rightarrow> resolved_relay result" where
  "ResolveRelay remote randomRelay skipReservation =
     (if remote then Ok \<lparr>Relay = [], AutoSelectRelay = True\<rparr>
      else
        rbind (randomRelay (\<not> skipReservation)) (\<lambda>relay.
        if relay = [] then Err ErrRelayerNotAvailable
        else Ok \<lparr>Relay = relay, AutoSelectRelay = False\<rparr>))"

text \<open>\<open>lifiAddress\<close> is the field \<open>LifiExternalActionInstanceAddress\<close> of the chain's contract data.\<close>

definition ExternalActionLifi :: string where "ExternalActionLifi = ''Lifi''"

definition GetExternalSwapAddress :: "(int \<Rightarrow> string result) \<Rightarrow> int \<Rightarrow> string \<Rightarrow> string result" where
  "GetExternalSwapAddress lifiAddress chainID externalActionID =
     (if externalActionID \<noteq> ExternalActionLifi then Err (Errorf ''unsupported swap external action'')
      else
        rbind (lifiAddress chainID) (\<lambda>externalAddress.
        if externalAddress = [] then Err (Errorf ''no external Address set during swap'') else Ok externalAddress))"

section \<open>Gas estimates and the fee\<close>

text \<open>\<open>numStr[:endPosition]\<close> of a negative position panics.\<close>

fun index_byte :: "nat \<Rightarrow> char \<Rightarrow> string \<Rightarrow> nat option" where
  "index_byte i c [] = None"
| "index_byte i c (x # xs) = (if x = c then Some i else index_byte (Suc i) c xs)"

definition GetValueFirstNDigit :: "'f float64 \<Rightarrow> 'f \<Rightarrow> int \<Rightarrow> string result" where
  "GetValueFirstNDigit fl num numberOfDigits =
     (let numStr = FormatFloat fl num 20 in
      case index_byte 0 CHR ''.'' numStr of
        None \<Rightarrow> Ok numStr
      | Some indexOfDecimal \<Rightarrow>
          let endPosition = min (int indexOfDecimal + numberOfDigits + 1) (int (length numStr))
          in if endPosition < 0 then Err Panic else Ok (take (nat endPosition) numStr))"

record call_info =
  callFrom :: string
  callTo :: string
  callCalldata :: string
  callValue :: "int option"

text \<open>The gas server: token, external action, number of tokens, calls (with the value as a text); it answers
  with the price in dollars and in the token, either of which may be missing.\<close>

type_synonym 'f gas_server =
  "string \<Rightarrow> string \<Rightarrow> nat \<Rightarrow> (string \<times> string \<times> string \<times> string) list \<Rightarrow> ('f option \<times> 'f option) result"

definition ProcessGasEstimates ::
    "'f float64 \<Rightarrow> 'f gas_server \<Rightarrow> erc20_token \<Rightarrow> string \<Rightarrow> nat \<Rightarrow> call_info list \<Rightarrow> ('f option \<times> int option) result" where
  "ProcessGasEstimates fl gas tokenForGasFee externalActionID erc20TokenAddressLength calls =
     (let apiCalls = map (\<lambda>c. (callFrom c, callTo c, callCalldata c,
                                case callValue c of None \<Rightarrow> ''0'' | Some v \<Rightarrow> int_String v)) calls in
      case gas (TokenAddress tokenForGasFee) externalActionID erc20TokenAddressLength apiCalls of
        Inl _ \<Rightarrow> Ok (None, None)
      | Inr (usd, price) \<Rightarrow>
          (case price of
             None \<Rightarrow> Ok (usd, None)
           | Some p \<Rightarrow>
               if p = fzero fl then Ok (usd, None)
               else
                 rbind (GetValueFirstNDigit fl p (Decimals tokenForGasFee)) (\<lambda>weiInput.
                 rbind (GetAmountInWei tokenForGasFee weiInput) (\<lambda>wei.
                 Ok (usd, Some wei)))))"

definition DefaultFeeToken :: string where "DefaultFeeToken = ZeroAddress"

definition GetFeeStructure ::
    "'f float64 \<Rightarrow> token_server \<Rightarrow> 'f gas_server \<Rightarrow> int \<Rightarrow> string \<Rightarrow> string list \<Rightarrow> string \<Rightarrow> call_info list \<Rightarrow> int option \<Rightarrow>
     fee_structure result" where
  "GetFeeStructure fl server gas chainID feeTokenAddress erc20Addresses externalActionID calls variableRate =
     (let lookupAddress = (if feeTokenAddress = [] then DefaultFeeToken else feeTokenAddress) in
      rbind (server chainID [lookupAddress]) (\<lambda>feeTokens.
      case feeTokens of
        Some feeToken # _ \<Rightarrow>
          (let numberOfInputs = (if list_ex (\<lambda>a. EqualFold a feeTokenAddress) erc20Addresses
                                 then length erc20Addresses + 1 else length erc20Addresses)
           in rbind (ProcessGasEstimates fl gas feeToken externalActionID numberOfInputs calls) (\<lambda>(usd, price).
              case price of
                None \<Rightarrow> Err (Errorf ''failed to process gas estimates'')
              | Some p \<Rightarrow> Ok \<lparr>FeeToken = TokenAddress feeToken, FlatFee = p,
                              VariableRate = (case variableRate of None \<Rightarrow> 0 | Some r \<Rightarrow> r)\<rparr>))
      | _ \<Rightarrow> Err (Errorf ''failed to find feeToken'')))"

section \<open>Volatile tokens\<close>

definition nonStandardStorageTokens :: "string list" where
  "nonStandardStorageTokens =
     [''0x23d7cffd0876f3abb6b074287ba2aeefbc83825d'', ''0xd2a530170d71a9cfe1651fb468e2b98f7ed7456b'',
      ''0xcec185eb182c47d1ba1efc84e6959e18cd620be4'', ''0x2dc99af320bc317c567f24ee95811dcbd5983dfd'',
      ''0x322f0929c4625ed5bad873c95208d54e1c003b2d'', ''0xaf3d76f1834a1d425780943c99ea8a608f8a93f9'',
      ''0xd0601ce157db5bdc3162bbac2a2c8af5320d9eec'', ''0x12f190a9f9d7d37a250758b26824b97ce941bf54'',
      ''0xe93237c50d904957cf27e7b1133b510c669c2e74'', ''0x2e0847e8910a9732eb3fb1bb4b70a580adad4fe3'',
      ''0xc0d6457c16cc70d6790dd43521c899c87ce02f35'', ''0xec262a75e413fafd0df80480274532c79d42da09'',
      ''0x117cc2133c37b721f49de2a7a74833232b3b4c0c'', ''0x0f17206447090e464c277571124dd2688e48aea9'',
      ''0x0dc4f92879b7670e5f4e4e6e3c801d229129d90d'', ''0xd76f5faf6888e24d9f04bf92a0c8b921fe4390e0'',
      ''0x337e7456b420bd3481e7fa61fa9850343d610d34'', ''0x8a1d45e102e886510e891d2ec656a708991e2d76'',
      ''0x4f34c8b3b5fb6d98da888f0fea543d4d9c9f2ebe'', ''0x61d450a098b6a7f69fc4b98ce68198fe59768651'']"

definition IsNonStandardStorageToken :: "string \<Rightarrow> bool" where
  "IsNonStandardStorageToken address = (ToLower address \<in> set nonStandardStorageTokens)"

definition IsBeefyStakeToken :: "erc20_token \<Rightarrow> bool" where
  "IsBeefyStakeToken token = (strings_contains (TokenName token) ''-Boost'' \<and> strings_contains (Symbol token) ''-Boost'')"

definition IsStakeToken :: "erc20_token \<Rightarrow> bool" where
  "IsStakeToken token = IsBeefyStakeToken token"

definition IsKinzaToken :: "erc20_token \<Rightarrow> bool" where
  "IsKinzaToken token = has_prefix (TokenName token) ''Kinza''"

definition IsPotentiallyVolatile :: "erc20_token \<Rightarrow> bool" where
  "IsPotentiallyVolatile token =
     (if TokenAddress token = ZeroAddress then False
      else if IsNonStandardStorageToken (TokenAddress token) then False
      else IsVolatile token \<or>
        (\<not> IsSolanaLike (ChainID token) \<and> \<not> IsTronLike (ChainID token) \<and>
         (BalanceStorageOffset token = None \<or> AllowanceStorageOffset token = None)))"

record volatile_change =
  vcTokenAddress :: string
  vcAmount :: string
  vcTargetAddress :: string
  vcOriginalIndex :: nat

record volatile_result =
  vrSuccess :: bool
  vrBalanceDifference :: string

type_synonym volatile_server = "int \<Rightarrow> volatile_change list \<Rightarrow> volatile_result list result"

definition volatile_spends :: "erc20_token list \<Rightarrow> int list \<Rightarrow> string \<Rightarrow> volatile_change list result" where
  "volatile_spends tokens amountChanges targetAddress =
     rfold (\<lambda>spends (index, token).
       if \<not> IsPotentiallyVolatile token then Ok spends
       else
         rbind (index_at amountChanges index) (\<lambda>amount.
         Ok (spends @ [\<lparr>vcTokenAddress = TokenAddress token, vcAmount = int_String amount,
                        vcTargetAddress = targetAddress, vcOriginalIndex = index\<rparr>]))) [] (enumerate 0 tokens)"

fun index_of_spend :: "nat \<Rightarrow> volatile_change list \<Rightarrow> nat \<Rightarrow> nat option" where
  "index_of_spend j [] index = None"
| "index_of_spend j (s # ss) index = (if vcOriginalIndex s = index then Some j else index_of_spend (Suc j) ss index)"

definition isWithinOriginalSpend :: "int \<Rightarrow> int \<Rightarrow> bool" where
  "isWithinOriginalSpend original simulated = ((original < 0) = (simulated < 0) \<and> \<bar>simulated\<bar> \<le> \<bar>original\<bar>)"

definition volatile_amount :: "volatile_change list \<Rightarrow> volatile_result list \<Rightarrow> nat \<Rightarrow> int \<Rightarrow> int" where
  "volatile_amount spends results index amount =
     (case index_of_spend 0 spends index of
        None \<Rightarrow> amount
      | Some j \<Rightarrow>
          if j \<ge> length results \<or> \<not> vrSuccess (results ! j) then amount
          else if vrBalanceDifference (results ! j) = [] then amount
          else (case ParseBigInt (vrBalanceDifference (results ! j)) of
                  Inl _ \<Rightarrow> amount
                | Inr parsed \<Rightarrow> if isWithinOriginalSpend amount parsed then parsed else amount))"

definition ModifyVolatileTokenAmountChanges ::
    "volatile_server \<Rightarrow> int \<Rightarrow> erc20_token list \<Rightarrow> int list \<Rightarrow> string \<Rightarrow> int list result" where
  "ModifyVolatileTokenAmountChanges server chainID tokens amountChanges targetAddress =
     rbind (volatile_spends tokens amountChanges targetAddress) (\<lambda>spends.
     if spends = [] then Ok amountChanges
     else
       case server chainID spends of
         Inl _ \<Rightarrow> Ok amountChanges
       | Inr results \<Rightarrow> Ok (map (\<lambda>(index, amount). volatile_amount spends results index amount) (enumerate 0 amountChanges)))"

section \<open>Data reported with a transaction\<close>

definition SdkFunctions :: "string list" where
  "SdkFunctions =
     [''deposit'', ''deposit_for_other'', ''deposit_solana'', ''deposit_solana_for_other'', ''proofless_deposit'', ''withdraw'',
      ''transfer'', ''deposit_and_withdraw'', ''deposit_and_bridge'', ''deposit_and_bridge_with_quote'',
      ''near_deposit_and_bridge'', ''bridge_private_to_private'', ''swap'', ''proxy_to_private'',
      ''solana_sponsored_shield'', ''solana_sponsored_proxy_send'']"

definition sdkFunctionsWithoutOwner :: "string list" where
  "sdkFunctionsWithoutOwner = [''withdraw'', ''transfer'', ''bridge_private_to_private'']"

definition sdkProductPrefixForOS :: "string \<Rightarrow> string" where
  "sdkProductPrefixForOS goos =
     (if goos = ''android'' then ''go_android_sdk'' else if goos = ''ios'' then ''go_ios_sdk'' else ''go_sdk'')"

text \<open>\<open>goos\<close> is \<open>runtime.GOOS\<close>.\<close>

definition SdkAction :: "string \<Rightarrow> string \<Rightarrow> string" where
  "SdkAction goos fn = sdkProductPrefixForOS goos @ ''_'' @ fn"

definition TrimPrefix :: "string \<Rightarrow> string \<Rightarrow> string" where
  "TrimPrefix s p = (if has_prefix s p then drop (length p) s else s)"

definition isPrivateTransferOrWithdraw :: "string \<Rightarrow> string \<Rightarrow> bool" where
  "isPrivateTransferOrWithdraw goos action =
     (TrimPrefix action (sdkProductPrefixForOS goos @ ''_'') \<in> set sdkFunctionsWithoutOwner)"

definition HashEthereumAddress :: "primitives \<Rightarrow> string \<Rightarrow> string" where
  "HashEthereumAddress E ethereumAddress =
     ''0x'' @ hex_EncodeToString (keccak256 E (string_bytes (ToLower ethereumAddress)))"

record admin_data =
  adHashedOwner :: string
  adChainID :: int
  adTimestamp :: int
  adAction :: string
  adErc20TokenAddresses :: "string list"
  adErc20TokenAmount :: "string list"
  adSwapPair :: "((string \<times> string) \<times> (string \<times> string)) option"
  adVariableRateOverride :: string

definition swap_pair_token :: "erc20_token \<Rightarrow> string \<times> string" where
  "swap_pair_token t = (Symbol t, ToLower (TokenAddress t))"

definition ConstructAdminData ::
    "primitives \<Rightarrow> string \<Rightarrow> int \<Rightarrow> string \<Rightarrow> int \<Rightarrow> string list \<Rightarrow> int list \<Rightarrow> string \<Rightarrow> erc20_token list \<Rightarrow> int option \<Rightarrow>
     admin_data option" where
  "ConstructAdminData E goos nowMillis action chainID erc20TokenAddresses amountChanges ethereumAddress swapPairTokens variableRate =
     (if action = [] then None
      else Some \<lparr>
        adHashedOwner = (if \<not> isPrivateTransferOrWithdraw goos action then HashEthereumAddress E ethereumAddress else []),
        adChainID = chainID, adTimestamp = nowMillis, adAction = action,
        adErc20TokenAddresses = erc20TokenAddresses, adErc20TokenAmount = map int_String amountChanges,
        adSwapPair = (case swapPairTokens of
                        a # b # _ \<Rightarrow> Some (swap_pair_token a, swap_pair_token b) | _ \<Rightarrow> None),
        adVariableRateOverride = (case variableRate of None \<Rightarrow> [] | Some r \<Rightarrow> if r > 0 then int_String r else [])\<rparr>)"

section \<open>Aggregator instructions for the Solana program\<close>

text \<open>\<open>base64.StdEncoding.DecodeString\<close>: line breaks are skipped, padding is required, bits beyond the last
  byte are ignored.\<close>

definition b64_val :: "char \<Rightarrow> nat option" where
  "b64_val c =
     (let n = of_char c :: nat in
      if 65 \<le> n \<and> n \<le> 90 then Some (n - 65) else if 97 \<le> n \<and> n \<le> 122 then Some (n - 71)
      else if 48 \<le> n \<and> n \<le> 57 then Some (n + 4) else if n = 43 then Some 62 else if n = 47 then Some 63 else None)"

fun b64_groups :: "string \<Rightarrow> byte list option" where
  "b64_groups [] = Some []"
| "b64_groups (a # b # c # d # rest) =
     (case (b64_val a, b64_val b) of
        (Some x, Some y) \<Rightarrow>
          if c = CHR ''='' \<and> d = CHR ''='' then
            (if rest = [] then Some [word_of_nat ((x * 64 + y) div 16)] else None)
          else
            (case b64_val c of
               None \<Rightarrow> None
             | Some z \<Rightarrow>
                 if d = CHR ''='' then
                   (if rest = [] then
                      (let m = x * 4096 + y * 64 + z in Some [word_of_nat (m div 1024), word_of_nat (m div 4 mod 256)])
                    else None)
                 else
                   (case b64_val d of
                      None \<Rightarrow> None
                    | Some w \<Rightarrow>
                        (let m = x * 262144 + y * 4096 + z * 64 + w in
                         map_option ((@) [word_of_nat (m div 65536), word_of_nat (m div 256 mod 256), word_of_nat (m mod 256)])
                           (b64_groups rest))))
      | _ \<Rightarrow> None)"
| "b64_groups _ = None"

definition base64_DecodeString :: "string \<Rightarrow> byte list result" where
  "base64_DecodeString s =
     (case b64_groups (filter (\<lambda>c. c \<noteq> CHR 0x0A \<and> c \<noteq> CHR 0x0D) s) of
        None \<Rightarrow> Err (External ''illegal base64 data'') | Some bs \<Rightarrow> Ok bs)"

definition hinkalInstructionUseCPISigner :: byte where "hinkalInstructionUseCPISigner = 255"

record okx_account =
  okIsSigner :: bool
  okIsWritable :: bool
  okPubkey :: string

record okx_instruction =
  okData :: string
  okAccounts :: "okx_account list"
  okProgramID :: string

fun find_account :: "sealing \<Rightarrow> nat \<Rightarrow> account_meta list \<Rightarrow> string \<Rightarrow> nat option" where
  "find_account S j [] pubkey = None"
| "find_account S j (acc # accs) pubkey =
     (if base58Encode S (PublicKey acc) = pubkey then Some j else find_account S (Suc j) accs pubkey)"

text \<open>One account of an instruction: the accounts so far and the indexes of this instruction so far.\<close>

definition convert_account ::
    "primitives \<Rightarrow> sealing \<Rightarrow> byte list \<Rightarrow> account_meta list \<times> byte list \<Rightarrow> okx_account \<Rightarrow> (account_meta list \<times> byte list) result" where
  "convert_account E S cpiSignerAccount = (\<lambda>(accs, idxs) account.
     if okPubkey account = base58Encode S cpiSignerAccount then Ok (accs, idxs @ [hinkalInstructionUseCPISigner])
     else
       case find_account S 0 accs (okPubkey account) of
         Some j \<Rightarrow>
           Ok (if IsWritable (accs ! j) \<noteq> okIsWritable account then accs[j := (accs ! j)\<lparr>IsWritable := True\<rparr>] else accs,
               idxs @ [word_of_nat j])
       | None \<Rightarrow>
           rbind (publicKeyFromBase58 E (okPubkey account)) (\<lambda>pubkey.
           Ok (accs @ [\<lparr>PublicKey = pubkey, IsWritable = okIsWritable account, IsSigner = False\<rparr>],
               idxs @ [word_of_nat (length accs)])))"

definition convert_instruction ::
    "primitives \<Rightarrow> sealing \<Rightarrow> byte list \<Rightarrow> hinkal_instruction list \<times> account_meta list \<Rightarrow> okx_instruction \<Rightarrow>
     (hinkal_instruction list \<times> account_meta list) result" where
  "convert_instruction E S cpiSignerAccount = (\<lambda>(out, accs) ins.
     rbind (rfold (convert_account E S cpiSignerAccount) (accs, []) (okAccounts ins)) (\<lambda>(accs1, idxs).
     rbind (base64_DecodeString (okData ins)) (\<lambda>data.
     case find_account S 0 accs1 (okProgramID ins) of
       Some j \<Rightarrow> Ok (out @ [\<lparr>AccountIndexes = idxs, Data = data, ProgramIndex = int j\<rparr>], accs1)
     | None \<Rightarrow>
         rbind (publicKeyFromBase58 E (okProgramID ins)) (\<lambda>programID.
         Ok (out @ [\<lparr>AccountIndexes = idxs, Data = data, ProgramIndex = int (length accs1)\<rparr>],
             accs1 @ [\<lparr>PublicKey = programID, IsWritable = False, IsSigner = False\<rparr>])))))"

definition ConvertOKXToHinkalInstructions ::
    "primitives \<Rightarrow> sealing \<Rightarrow> okx_instruction list \<Rightarrow> byte list \<Rightarrow> (hinkal_instruction list \<times> account_meta list) result" where
  "ConvertOKXToHinkalInstructions E S okxInstructions cpiSignerAccount =
     rfold (convert_instruction E S cpiSignerAccount) ([], []) okxInstructions"

section \<open>Counting unspent notes on Solana\<close>

text \<open>\<open>paddedInputs\<close> is what \<open>AddPaddingToUtxos\<close> returned, \<open>derivePDA\<close> the derivation of a nullifier's account,
  \<open>accounts\<close> the accounts the node knows (\<open>None\<close>: no such account).\<close>

definition nonzero_inputs :: "utxo list list \<Rightarrow> utxo list" where
  "nonzero_inputs groups = filter (\<lambda>u. Amount u \<noteq> None \<and> Amount u \<noteq> Some 0) (concat groups)"

definition solanaNullifierCount ::
    "primitives \<Rightarrow> utxo list list result \<Rightarrow> (unit \<Rightarrow> (int \<Rightarrow> 'p result) result) \<Rightarrow> ('p list \<Rightarrow> 'a option list result) \<Rightarrow> nat result" where
  "solanaNullifierCount E paddedInputs derivePDA accounts =
     rbind paddedInputs (\<lambda>inputUtxosArray.
     let nonZeroUtxos = nonzero_inputs inputUtxosArray in
     if nonZeroUtxos = [] then Ok 0
     else
       rbind (derivePDA ()) (\<lambda>pdaOf.
       rbind (rmap (\<lambda>u. rbind (snd (GetNullifier E u)) (\<lambda>n. rbind (ParseBigInt n) pdaOf)) nonZeroUtxos) (\<lambda>pdas.
       rbind (accounts pdas) (\<lambda>res.
       Ok (length (filter (\<lambda>a. a = None) res))))))"

text \<open>The error that reports a transaction over the note limit counts as six notes, any other as none.\<close>

fun is_limit_error :: "go_error \<Rightarrow> bool" where
  "is_limit_error (Wrapped s err) = (s = ''ErrorWithAmount'' \<or> is_limit_error err)"
| "is_limit_error _ = False"

definition CalculateSolanaNullifierCount ::
    "primitives \<Rightarrow> utxo list list result \<Rightarrow> (unit \<Rightarrow> (int \<Rightarrow> 'p result) result) \<Rightarrow> ('p list \<Rightarrow> 'a option list result) \<Rightarrow>
     int \<Rightarrow> string list \<Rightarrow> int list \<Rightarrow> nat" where
  "CalculateSolanaNullifierCount E paddedInputs derivePDA accounts chainID mintAddresses amountChanges =
     (if \<not> IsSolanaLike chainID \<or> mintAddresses = [] \<or> amountChanges = [] then 0
      else
        case solanaNullifierCount E paddedInputs derivePDA accounts of
          Inl err \<Rightarrow> if is_limit_error err then 6 else 0
        | Inr n \<Rightarrow> n)"

section \<open>Lemmas\<close>

lemma volatile_amount_cases:
  "volatile_amount spends results i amount = amount \<or>
   (\<exists>j < length results. index_of_spend 0 spends i = Some j \<and> vrSuccess (results ! j) \<and>
      ParseBigInt (vrBalanceDifference (results ! j)) = Ok (volatile_amount spends results i amount) \<and>
      isWithinOriginalSpend amount (volatile_amount spends results i amount))"
  by (auto simp: volatile_amount_def not_le split: option.split sum.split)

lemma index_of_spend_found:
  "index_of_spend k ss i = Some j \<Longrightarrow> k \<le> j \<and> j < k + length ss \<and> vcOriginalIndex (ss ! (j - k)) = i"
  by (induction ss arbitrary: k) (fastforce split: if_splits simp: nth_Cons')+

definition good_spend :: "erc20_token list \<Rightarrow> int list \<Rightarrow> volatile_change \<Rightarrow> bool" where
  "good_spend tokens changes s \<longleftrightarrow>
     vcOriginalIndex s < length tokens \<and> vcOriginalIndex s < length changes \<and>
     IsPotentiallyVolatile (tokens ! vcOriginalIndex s) \<and>
     vcTokenAddress s = TokenAddress (tokens ! vcOriginalIndex s) \<and> vcAmount s = int_String (changes ! vcOriginalIndex s)"

lemma volatile_spends_good:
  assumes "volatile_spends tokens changes target = Ok spends"
  shows "\<forall>s \<in> set spends. good_spend tokens changes s"
  using assms unfolding volatile_spends_def
proof (rule rfold_invariant)
  fix s x s'
  assume mem: "x \<in> set (enumerate 0 tokens)" and P: "\<forall>s \<in> set s. good_spend tokens changes s"
    and step: "(\<lambda>spends (index, token).
       if \<not> IsPotentiallyVolatile token then Ok spends
       else
         rbind (index_at changes index) (\<lambda>amount.
         Ok (spends @ [\<lparr>vcTokenAddress = TokenAddress token, vcAmount = int_String amount,
                        vcTargetAddress = target, vcOriginalIndex = index\<rparr>]))) s x = Ok s'"
  obtain i where x: "x = (i, tokens ! i)" "i < length tokens"
    using mem unfolding in_set_enumerate_eq by (cases x) auto
  from step P show "\<forall>s \<in> set s'. good_spend tokens changes s" using x(2) unfolding x(1)
    by (auto simp: rbind_Ok_iff good_spend_def split: if_splits)
qed simp

text \<open>The accounts of a swap only grow: keys stay where they are, and a writable account stays writable.\<close>

definition grows :: "account_meta list \<Rightarrow> account_meta list \<Rightarrow> bool" where
  "grows a b \<longleftrightarrow> length a \<le> length b \<and>
     (\<forall>j < length a. PublicKey (b ! j) = PublicKey (a ! j) \<and> (IsWritable (a ! j) \<longrightarrow> IsWritable (b ! j)))"

lemma grows_refl [simp]: "grows a a"
  by (simp add: grows_def)

lemma grows_trans: "grows a b \<Longrightarrow> grows b c \<Longrightarrow> grows a c"
  by (auto simp: grows_def)

lemma grows_append [simp]: "grows a (a @ b)"
  by (simp add: grows_def nth_append)

lemma grows_writable [simp]: "grows a (a[j := (a ! j)\<lparr>IsWritable := True\<rparr>])"
  by (cases "j < length a") (auto simp: grows_def nth_list_update)

text \<open>What an index byte of an instruction stands for.\<close>

definition index_ok :: "sealing \<Rightarrow> byte list \<Rightarrow> account_meta list \<Rightarrow> okx_account \<Rightarrow> byte \<Rightarrow> bool" where
  "index_ok S signer accs a b \<longleftrightarrow>
     (if okPubkey a = base58Encode S signer then b = hinkalInstructionUseCPISigner
      else \<exists>j < length accs. b = word_of_nat j \<and> base58Encode S (PublicKey (accs ! j)) = okPubkey a \<and>
             (okIsWritable a \<longrightarrow> IsWritable (accs ! j)))"

lemma index_ok_grows: "grows accs accs' \<Longrightarrow> index_ok S signer accs a b \<Longrightarrow> index_ok S signer accs' a b"
  unfolding index_ok_def grows_def by (metis order_less_le_trans)

definition instruction_ok ::
    "sealing \<Rightarrow> byte list \<Rightarrow> account_meta list \<Rightarrow> okx_instruction \<Rightarrow> hinkal_instruction \<Rightarrow> bool" where
  "instruction_ok S signer accs ins h \<longleftrightarrow>
     base64_DecodeString (okData ins) = Ok (Data h) \<and>
     list_all2 (index_ok S signer accs) (okAccounts ins) (AccountIndexes h) \<and>
     (\<exists>j < length accs. ProgramIndex h = int j \<and> base58Encode S (PublicKey (accs ! j)) = okProgramID ins)"

lemma instruction_ok_grows:
  assumes "grows accs accs'" "instruction_ok S signer accs ins h"
  shows "instruction_ok S signer accs' ins h"
proof -
  have "list_all2 (index_ok S signer accs') (okAccounts ins) (AccountIndexes h)"
    using assms(2) index_ok_grows [OF assms(1)] by (auto simp: instruction_ok_def elim: list_all2_mono)
  moreover obtain j where "j < length accs" "ProgramIndex h = int j" "base58Encode S (PublicKey (accs ! j)) = okProgramID ins"
    using assms(2) by (auto simp: instruction_ok_def)
  moreover from this have "j < length accs'" "PublicKey (accs' ! j) = PublicKey (accs ! j)"
    using assms(1) by (auto simp: grows_def)
  ultimately show ?thesis using assms(2) unfolding instruction_ok_def by metis
qed

lemma find_account_found:
  "find_account S k accs p = Some j \<Longrightarrow> k \<le> j \<and> j < k + length accs \<and> base58Encode S (PublicKey (accs ! (j - k))) = p"
  by (induction accs arbitrary: k) (fastforce split: if_splits simp: nth_Cons')+

lemma convert_account_ok:
  assumes "convert_account E S signer (accs, idxs) a = Ok (accs', idxs')"
    and key: "\<And>s k. publicKeyFromBase58 E s = Ok k \<Longrightarrow> base58Encode S k = s"
  obtains b where "grows accs accs'" "idxs' = idxs @ [b]" "index_ok S signer accs' a b"
proof (cases "okPubkey a = base58Encode S signer")
  case True
  then show thesis using assms(1) by (intro that) (auto simp: convert_account_def index_ok_def)
next
  case False
  show thesis
  proof (cases "find_account S 0 accs (okPubkey a)")
    case None
    then obtain k where "publicKeyFromBase58 E (okPubkey a) = Ok k" "idxs' = idxs @ [word_of_nat (length accs)]"
      "accs' = accs @ [\<lparr>PublicKey = k, IsWritable = okIsWritable a, IsSigner = False\<rparr>]"
      using assms(1) False by (auto simp: convert_account_def rbind_Ok_iff)
    with key [of "okPubkey a" k] show thesis using False by (intro that) (auto simp: index_ok_def intro!: exI [of _ "length accs"])
  next
    case (Some j)
    note f = find_account_found [OF Some]
    have e: "accs' = (if IsWritable (accs ! j) \<noteq> okIsWritable a then accs[j := (accs ! j)\<lparr>IsWritable := True\<rparr>] else accs)"
      "idxs' = idxs @ [word_of_nat j]"
      using assms(1) False Some by (auto simp: convert_account_def)
    have "index_ok S signer accs' a (word_of_nat j)"
      using f False unfolding index_ok_def e(1) by (auto intro!: exI [of _ j])
    then show thesis using e by (intro that) auto
  qed
qed

lemma convert_accounts_ok:
  assumes "rfold (convert_account E S signer) (accs, idxs) as = Ok (accs', idxs')"
    and key: "\<And>s k. publicKeyFromBase58 E s = Ok k \<Longrightarrow> base58Encode S k = s"
  shows "grows accs accs' \<and> (\<exists>bs. idxs' = idxs @ bs \<and> list_all2 (index_ok S signer accs') as bs)"
  using assms(1)
proof (induction as arbitrary: accs idxs)
  case (Cons a as)
  obtain accs1 idxs1 where one: "convert_account E S signer (accs, idxs) a = Ok (accs1, idxs1)"
    and rest: "rfold (convert_account E S signer) (accs1, idxs1) as = Ok (accs', idxs')"
    using Cons.prems by (auto simp: rbind_Ok_iff)
  obtain b where b: "grows accs accs1" "idxs1 = idxs @ [b]" "index_ok S signer accs1 a b"
    using convert_account_ok [OF one key] by blast
  obtain bs where bs: "grows accs1 accs'" "idxs' = idxs1 @ bs" "list_all2 (index_ok S signer accs') as bs"
    using Cons.IH [OF rest] by blast
  show ?case using b bs grows_trans index_ok_grows [OF bs(1) b(3)] by (intro conjI exI [of _ "b # bs"]) auto
qed simp

lemma convert_instruction_ok:
  assumes "convert_instruction E S signer (out, accs) ins = Ok (out', accs')"
    and key: "\<And>s k. publicKeyFromBase58 E s = Ok k \<Longrightarrow> base58Encode S k = s"
  obtains h where "grows accs accs'" "out' = out @ [h]" "instruction_ok S signer accs' ins h"
proof -
  obtain accs1 idxs data where a: "rfold (convert_account E S signer) (accs, []) (okAccounts ins) = Ok (accs1, idxs)"
    and d: "base64_DecodeString (okData ins) = Ok data"
    and rest: "(case find_account S 0 accs1 (okProgramID ins) of
       Some j \<Rightarrow> Ok (out @ [\<lparr>AccountIndexes = idxs, Data = data, ProgramIndex = int j\<rparr>], accs1)
     | None \<Rightarrow>
         rbind (publicKeyFromBase58 E (okProgramID ins)) (\<lambda>programID.
         Ok (out @ [\<lparr>AccountIndexes = idxs, Data = data, ProgramIndex = int (length accs1)\<rparr>],
             accs1 @ [\<lparr>PublicKey = programID, IsWritable = False, IsSigner = False\<rparr>]))) = Ok (out', accs')"
    using assms(1) by (auto simp: convert_instruction_def rbind_Ok_iff)
  have g: "grows accs accs1" and l: "list_all2 (index_ok S signer accs1) (okAccounts ins) idxs"
    using convert_accounts_ok [OF a key] by auto
  show thesis
  proof (cases "find_account S 0 accs1 (okProgramID ins)")
    case None
    then obtain p where p: "publicKeyFromBase58 E (okProgramID ins) = Ok p"
      "out' = out @ [\<lparr>AccountIndexes = idxs, Data = data, ProgramIndex = int (length accs1)\<rparr>]"
      "accs' = accs1 @ [\<lparr>PublicKey = p, IsWritable = False, IsSigner = False\<rparr>]"
      using rest by (auto simp: rbind_Ok_iff)
    then have g': "grows accs1 accs'" by simp
    have "list_all2 (index_ok S signer accs') (okAccounts ins) idxs"
      using l index_ok_grows [OF g'] by (auto elim: list_all2_mono)
    then show thesis using p d key [OF p(1)] grows_trans [OF g g']
      by (intro that) (auto simp: instruction_ok_def intro!: exI [of _ "length accs1"])
  next
    case (Some j)
    then show thesis using rest g l d find_account_found [OF Some]
      by (intro that) (auto simp: instruction_ok_def intro!: exI [of _ j])
  qed
qed

lemma convert_instructions_ok:
  assumes "rfold (convert_instruction E S signer) (out, accs) inss = Ok (out', accs')"
    and key: "\<And>s k. publicKeyFromBase58 E s = Ok k \<Longrightarrow> base58Encode S k = s"
  shows "grows accs accs' \<and> (\<exists>hs. out' = out @ hs \<and> list_all2 (instruction_ok S signer accs') inss hs)"
  using assms(1)
proof (induction inss arbitrary: out accs)
  case (Cons ins inss)
  obtain out1 accs1 where one: "convert_instruction E S signer (out, accs) ins = Ok (out1, accs1)"
    and rest: "rfold (convert_instruction E S signer) (out1, accs1) inss = Ok (out', accs')"
    using Cons.prems by (auto simp: rbind_Ok_iff)
  obtain h where h: "grows accs accs1" "out1 = out @ [h]" "instruction_ok S signer accs1 ins h"
    using convert_instruction_ok [OF one key] by blast
  obtain hs where hs: "grows accs1 accs'" "out' = out1 @ hs" "list_all2 (instruction_ok S signer accs') inss hs"
    using Cons.IH [OF rest] by blast
  show ?case using h hs grows_trans instruction_ok_grows [OF hs(1) h(3)] by (intro conjI exI [of _ "h # hs"]) auto
qed simp

section \<open>Properties\<close>

text \<open>Whatever the simulation of volatile tokens answers, the changes of a transaction keep their number
  and, one by one, their sign, never grow in size, and change only for tokens that may be volatile and whose
  own simulation succeeded.\<close>

theorem volatile_changes_bounded:
  assumes "ModifyVolatileTokenAmountChanges server chainID tokens changes target = Ok changes'"
  shows "length changes' = length changes \<and>
    (\<forall>i < length changes. (changes' ! i < 0 \<longleftrightarrow> changes ! i < 0) \<and> \<bar>changes' ! i\<bar> \<le> \<bar>changes ! i\<bar> \<and>
       (changes' ! i \<noteq> changes ! i \<longrightarrow> i < length tokens \<and> IsPotentiallyVolatile (tokens ! i)))"
proof -
  obtain spends where sp: "volatile_spends tokens changes target = Ok spends"
    and e: "changes' = changes \<or>
      (\<exists>results. changes' = map (\<lambda>(i, amount). volatile_amount spends results i amount) (enumerate 0 changes))"
    using assms by (auto simp: ModifyVolatileTokenAmountChanges_def rbind_Ok_iff split: if_splits sum.splits)
  have one: "(v < 0 \<longleftrightarrow> a < 0) \<and> \<bar>v\<bar> \<le> \<bar>a\<bar> \<and> (v \<noteq> a \<longrightarrow> i < length tokens \<and> IsPotentiallyVolatile (tokens ! i))"
    if v: "v = volatile_amount spends results i a" for v results i a
  proof -
    have "index_of_spend 0 spends i = Some j \<Longrightarrow> i < length tokens \<and> IsPotentiallyVolatile (tokens ! i)" for j
      using index_of_spend_found [of 0 spends i j] volatile_spends_good [OF sp]
      by (auto simp: good_spend_def dest!: bspec [OF _ nth_mem])
    then show ?thesis using volatile_amount_cases [of spends results i a] unfolding v
      by (auto simp: isWithinOriginalSpend_def)
  qed
  from e show ?thesis
  proof (elim disjE exE)
    fix results assume m: "changes' = map (\<lambda>(i, amount). volatile_amount spends results i amount) (enumerate 0 changes)"
    then have "changes' ! i = volatile_amount spends results i (changes ! i)" if "i < length changes" for i
      using that by (simp add: nth_enumerate_eq)
    then show ?thesis using one m by auto
  qed simp
qed

definition toy_volatile :: erc20_token where
  "toy_volatile = \<lparr>ChainID = 1, TokenAddress = ''0x04'', TokenName = ''T'', Symbol = ''T'', Decimals = 18,
     IsVolatile = True, BalanceStorageOffset = None, AllowanceStorageOffset = None\<rparr>"

lemma volatile_changes_bounded_witness:
  "ModifyVolatileTokenAmountChanges (\<lambda>c ss. Ok [\<lparr>vrSuccess = True, vrBalanceDifference = ''-4''\<rparr>]) 1 [toy_volatile] [-5] [] = Ok [-4] \<and>
   \<bar>[-4 :: int] ! 0\<bar> \<le> \<bar>[-5] ! 0\<bar>"
proof -
  have m: "ModifyVolatileTokenAmountChanges (\<lambda>c ss. Ok [\<lparr>vrSuccess = True, vrBalanceDifference = ''-4''\<rparr>]) 1 [toy_volatile] [-5] [] = Ok [-4]"
    by code_simp
  from volatile_changes_bounded [OF m] m show ?thesis by simp
qed

text \<open>The instructions of an aggregator survive their translation as long as they name fewer than 256
  accounts: the data are the decoded data, the program index and every account index resolve to the very
  key the aggregator named, with write access wherever it asked for it, and the marker 255 stands for the
  signer of the program and for nothing else.\<close>

theorem okx_accounts_resolve:
  assumes "ConvertOKXToHinkalInstructions E S inss signer = Ok (hs, accs)" "length accs \<le> 255"
    and "\<forall>s k. publicKeyFromBase58 E s = Ok k \<longrightarrow> base58Encode S k = s"
  shows "length hs = length inss \<and> (\<forall>n < length inss.
    base64_DecodeString (okData (inss ! n)) = Ok (Data (hs ! n)) \<and>
    (\<exists>j < length accs. ProgramIndex (hs ! n) = int j \<and> base58Encode S (PublicKey (accs ! j)) = okProgramID (inss ! n)) \<and>
    length (AccountIndexes (hs ! n)) = length (okAccounts (inss ! n)) \<and>
    (\<forall>i < length (okAccounts (inss ! n)).
       let a = okAccounts (inss ! n) ! i; b = AccountIndexes (hs ! n) ! i
       in (b = 255 \<longleftrightarrow> okPubkey a = base58Encode S signer) \<and>
          (b \<noteq> 255 \<longrightarrow> unat b < length accs \<and> base58Encode S (PublicKey (accs ! unat b)) = okPubkey a \<and>
             (okIsWritable a \<longrightarrow> IsWritable (accs ! unat b)))))"
proof -
  have key: "\<And>s k. publicKeyFromBase58 E s = Ok k \<Longrightarrow> base58Encode S k = s" using assms(3) by blast
  have all: "list_all2 (instruction_ok S signer accs) inss hs"
    using convert_instructions_ok [OF assms(1) [unfolded ConvertOKXToHinkalInstructions_def] key] by auto
  have byte: "(b = 255 \<longleftrightarrow> okPubkey a = base58Encode S signer) \<and>
          (b \<noteq> 255 \<longrightarrow> unat b < length accs \<and> base58Encode S (PublicKey (accs ! unat b)) = okPubkey a \<and>
             (okIsWritable a \<longrightarrow> IsWritable (accs ! unat b)))"
    if ok: "index_ok S signer accs a b" for a b
  proof (cases "okPubkey a = base58Encode S signer")
    case True
    then show ?thesis using ok by (simp add: index_ok_def hinkalInstructionUseCPISigner_def)
  next
    case False
    then obtain j where j: "j < length accs" "b = word_of_nat j" "base58Encode S (PublicKey (accs ! j)) = okPubkey a"
      "okIsWritable a \<longrightarrow> IsWritable (accs ! j)" using ok by (auto simp: index_ok_def)
    have u: "unat b = j" using j(1,2) assms(2) by (simp add: unat_of_nat)
    have "b \<noteq> 255"
    proof
      assume "b = 255"
      then have "unat b = 255" by simp
      then show False using u j(1) assms(2) by simp
    qed
    then show ?thesis using u j False by simp
  qed
  have one: "instruction_ok S signer accs (inss ! n) (hs ! n)" if "n < length inss" for n
    using list_all2_nthD [OF all that] .
  have accounts: "list_all2 (index_ok S signer accs) (okAccounts (inss ! n)) (AccountIndexes (hs ! n))" if "n < length inss" for n
    using one [OF that] by (simp add: instruction_ok_def)
  show ?thesis
  proof (intro conjI allI impI)
    show "length hs = length inss" using list_all2_lengthD [OF all] by simp
  next
    fix n i assume n: "n < length inss" and i: "i < length (okAccounts (inss ! n))"
    from byte [OF list_all2_nthD [OF accounts [OF n] i]]
    show "let a = okAccounts (inss ! n) ! i; b = AccountIndexes (hs ! n) ! i
       in (b = 255 \<longleftrightarrow> okPubkey a = base58Encode S signer) \<and>
          (b \<noteq> 255 \<longrightarrow> unat b < length accs \<and> base58Encode S (PublicKey (accs ! unat b)) = okPubkey a \<and>
             (okIsWritable a \<longrightarrow> IsWritable (accs ! unat b)))"
      by (simp add: Let_def)
  qed (use one list_all2_lengthD [OF accounts] in \<open>auto simp: instruction_ok_def\<close>)
qed

definition toy_instruction :: okx_instruction where
  "toy_instruction = \<lparr>okData = ''AQ=='', okAccounts = [\<lparr>okIsSigner = True, okIsWritable = True, okPubkey = ''S''\<rparr>,
     \<lparr>okIsSigner = False, okIsWritable = True, okPubkey = ''A''\<rparr>], okProgramID = ''P''\<rparr>"

lemma okx_accounts_resolve_witness:
  "\<exists>hs accs. ConvertOKXToHinkalInstructions toy_hex toy_sealing [toy_instruction] (string_bytes ''S'') = Ok (hs, accs) \<and>
     AccountIndexes (hs ! 0) ! 0 = 255 \<and> base58Encode toy_sealing (PublicKey (accs ! unat (AccountIndexes (hs ! 0) ! 1))) = ''A''"
proof -
  have "case ConvertOKXToHinkalInstructions toy_hex toy_sealing [toy_instruction] (string_bytes ''S'') of
      Inr (hs, accs) \<Rightarrow> length accs \<le> 255 | _ \<Rightarrow> False" by code_simp
  then obtain hs accs where c: "ConvertOKXToHinkalInstructions toy_hex toy_sealing [toy_instruction] (string_bytes ''S'') = Ok (hs, accs)"
    "length accs \<le> 255" by (auto split: sum.splits)
  have "\<forall>s k. publicKeyFromBase58 toy_hex s = Ok k \<longrightarrow> base58Encode toy_sealing k = s"
    by (auto simp: toy_hex_def toy_def toy_sealing_def)
  from okx_accounts_resolve [OF c this] c(1) show ?thesis
    by (fastforce simp: toy_instruction_def toy_sealing_def Let_def nth_Cons' less_Suc_eq)
qed

text \<open>A transaction that moves private funds names no owner: the reported hash of the wallet's address is
  empty exactly for the private withdrawal, transfer and bridge of the kit, whatever platform it runs on;
  every other operation reports the hash of the address.\<close>

theorem private_transactions_name_no_owner:
  assumes "fn \<in> set SdkFunctions"
    and "ConstructAdminData E goos now (SdkAction goos fn) chainID toks changes address pair rate = Some d"
  shows "adHashedOwner d = (if fn \<in> {''withdraw'', ''transfer'', ''bridge_private_to_private''} then []
      else HashEthereumAddress E address) \<and>
    adErc20TokenAmount d = map int_String changes \<and> adAction d = SdkAction goos fn"
proof -
  have "isPrivateTransferOrWithdraw goos (SdkAction goos fn) \<longleftrightarrow> fn \<in> set sdkFunctionsWithoutOwner"
    by (simp add: isPrivateTransferOrWithdraw_def SdkAction_def TrimPrefix_def has_prefix_def)
  then show ?thesis using assms by (auto simp: ConstructAdminData_def sdkFunctionsWithoutOwner_def split: if_splits)
qed

lemma private_transactions_name_no_owner_witness:
  "\<exists>d. ConstructAdminData toy ''ios'' 0 (SdkAction ''ios'' ''transfer'') 1 [] [] ''0xA'' [] None = Some d \<and> adHashedOwner d = []"
proof -
  obtain d where d: "ConstructAdminData toy ''ios'' 0 (SdkAction ''ios'' ''transfer'') 1 [] [] ''0xA'' [] None = Some d"
    by (simp add: ConstructAdminData_def SdkAction_def)
  have "''transfer'' \<in> set SdkFunctions" by (simp add: SdkFunctions_def)
  from private_transactions_name_no_owner [OF this d] d show ?thesis by simp
qed

end
