(* ===== verification/Addresses.thy ===== *)
theory Addresses
  imports PreTransaction
begin

text \<open>
  \<open>internal/functions/utils/tron.go\<close> and \<open>addresses.go\<close>: the three spellings of a Tron address (base58 with
  a checksum, hexadecimal with the prefix 41, EVM hexadecimal) and the tests for the addresses of the other
  chains. Base58 is the package's; \<open>checksumHex\<close> is \<open>common.HexToAddress(a).Hex()\<close>.
\<close>

section \<open>Tron\<close>

definition tronAddressPrefix :: byte where "tronAddressPrefix = 0x41"

definition tronChecksum :: "primitives \<Rightarrow> byte list \<Rightarrow> byte list" where
  "tronChecksum E payload = take 4 (sha256 E (sha256 E payload))"

definition sameBytes :: "byte list \<Rightarrow> byte list \<Rightarrow> bool" where
  "sameBytes a b = (length a = length b \<and> list_all (\<lambda>i. a ! i = b ! i) [0 ..< length a])"

definition decodeTronBase58Check :: "primitives \<Rightarrow> string \<Rightarrow> byte list result" where
  "decodeTronBase58Check E addr =
     rbind (rwrap ''invalid Tron base58 address'' (base58Decode E addr)) (\<lambda>decoded.
     if length decoded \<noteq> 25 then Err (Errorf ''invalid Tron base58 address length'')
     else
       let payload = take 21 decoded in
       if hd payload \<noteq> tronAddressPrefix then Err (Errorf ''invalid Tron base58 address prefix'')
       else if \<not> sameBytes (drop 21 decoded) (tronChecksum E payload) then Err (Errorf ''invalid Tron base58 address checksum'')
       else Ok payload)"

definition encodeTronBase58Check :: "primitives \<Rightarrow> sealing \<Rightarrow> byte list \<Rightarrow> string" where
  "encodeTronBase58Check E S payload = base58Encode S (payload @ tronChecksum E payload)"

definition tronPayloadFromPrefixedHex :: "string \<Rightarrow> byte list result" where
  "tronPayloadFromPrefixedHex addr =
     rbind (rwrap ''invalid Tron hex address'' (hex_DecodeString addr)) (\<lambda>bytes.
     if length bytes \<noteq> 21 then Err (Errorf ''invalid Tron prefixed hex address length'')
     else if hd bytes \<noteq> tronAddressPrefix then Err (Errorf ''invalid Tron hex address prefix'')
     else Ok bytes)"

definition tronPayloadFromHex :: "string \<Rightarrow> byte list result" where
  "tronPayloadFromHex addr =
     rbind (rwrap ''invalid Tron hex address'' (hex_DecodeString (TrimPrefix (TrimPrefix addr ''0x'') ''0X''))) (\<lambda>bytes.
     if length bytes = 20 then Ok (tronAddressPrefix # bytes)
     else if length bytes = 21 then
       (if hd bytes \<noteq> tronAddressPrefix then Err (Errorf ''invalid Tron hex address prefix'') else Ok bytes)
     else Err (Errorf ''invalid Tron hex address length''))"

definition EVMHexToTronBase58Address :: "primitives \<Rightarrow> sealing \<Rightarrow> string \<Rightarrow> string result" where
  "EVMHexToTronBase58Address E S addr =
     (if has_prefix addr ''T'' then Ok addr
      else rbind (tronPayloadFromHex addr) (\<lambda>payload. Ok (encodeTronBase58Check E S payload)))"

definition has_0x :: "string \<Rightarrow> bool" where
  "has_0x addr = (has_prefix addr ''0x'' \<or> has_prefix addr ''0X'')"

definition ToTronBase58IfHex :: "primitives \<Rightarrow> sealing \<Rightarrow> string \<Rightarrow> string result" where
  "ToTronBase58IfHex E S addr = (if has_0x addr then EVMHexToTronBase58Address E S addr else Ok addr)"

definition AddressToHexFormat :: "primitives \<Rightarrow> string \<Rightarrow> string result" where
  "AddressToHexFormat E addr =
     (if has_0x addr then Ok addr
      else if has_prefix addr ''41'' then
        rbind (tronPayloadFromPrefixedHex addr) (\<lambda>payload. Ok (''0x'' @ hex_EncodeToString (tl payload)))
      else if has_prefix addr ''T'' then
        rbind (decodeTronBase58Check E addr) (\<lambda>payload. Ok (''0x'' @ hex_EncodeToString (tl payload)))
      else Err (Errorf ''failed to convert address to hex format''))"

definition TronAddressBytes :: "primitives \<Rightarrow> string \<Rightarrow> byte list result" where
  "TronAddressBytes E addr = (if has_prefix addr ''T'' then decodeTronBase58Check E addr else tronPayloadFromHex addr)"

definition NormalizeTronAddr :: "primitives \<Rightarrow> string \<Rightarrow> string result" where
  "NormalizeTronAddr E addr = (if has_prefix addr ''T'' then AddressToHexFormat E addr else Ok addr)"

text \<open>\<open>tronHexPrefixed\<close> of \<open>functions/tron/fees.go\<close> cuts two characters off whatever text it got; a text of
  fewer panics.\<close>

definition tronHexPrefixed :: "primitives \<Rightarrow> string \<Rightarrow> string result" where
  "tronHexPrefixed E addr =
     rbind (AddressToHexFormat E addr) (\<lambda>hexAddr.
     if length hexAddr < 2 then Err Panic else Ok (''41'' @ drop 2 hexAddr))"

section \<open>Tests\<close>

definition IsValidTronAddress :: "primitives \<Rightarrow> string \<Rightarrow> bool" where
  "IsValidTronAddress E address =
     (if length address = 42
      then (case hex_DecodeString address of Inl _ \<Rightarrow> False | Inr payload \<Rightarrow> hd payload = tronAddressPrefix)
      else (case decodeTronBase58Check E address of Inl _ \<Rightarrow> False | Inr _ \<Rightarrow> True))"

definition IsValidSolanaPublicKey :: "primitives \<Rightarrow> sealing \<Rightarrow> string \<Rightarrow> bool" where
  "IsValidSolanaPublicKey E S str =
     (case publicKeyFromBase58 E str of Inl _ \<Rightarrow> False | Inr pubkey \<Rightarrow> base58Encode S pubkey = str)"

text \<open>The two regular expressions: 40 hexadecimal digits after an optional \<open>0x\<close>; a capital and a small
  hexadecimal letter in either order.\<close>

definition evmAddressPattern :: "string \<Rightarrow> bool" where
  "evmAddressPattern address =
     (let digits = TrimPrefix address ''0x''
      in length digits = 40 \<and> list_all (\<lambda>c. hex_val c \<noteq> None) digits)"

definition mixedCaseHexPattern :: "string \<Rightarrow> bool" where
  "mixedCaseHexPattern address =
     (list_ex (\<lambda>c. c \<in> set ''ABCDEF'') address \<and> list_ex (\<lambda>c. c \<in> set ''abcdef'') address)"

definition IsEthersAddress :: "(string \<Rightarrow> string) \<Rightarrow> string \<Rightarrow> bool" where
  "IsEthersAddress checksumHex address0 =
     (if \<not> evmAddressPattern address0 then False
      else
        let address = (if has_prefix address0 ''0x'' then address0 else ''0x'' @ address0)
        in \<not> mixedCaseHexPattern address \<or> checksumHex address = address)"

section \<open>Lemmas\<close>

lemma sameBytes_iff [simp]: "sameBytes a b \<longleftrightarrow> a = b"
  unfolding sameBytes_def list_eq_iff_nth_eq [of a b] list_all_iff set_upt by auto

text \<open>A payload is what all spellings stand for: the prefix and the 20 bytes of an EVM address.\<close>

definition tron_payload :: "byte list \<Rightarrow> bool" where
  "tron_payload p \<longleftrightarrow> length p = 21 \<and> hd p = tronAddressPrefix"

lemma decoded_payload: "decodeTronBase58Check E addr = Ok p \<Longrightarrow> tron_payload p"
  by (auto simp: decodeTronBase58Check_def tron_payload_def rbind_Ok_iff Let_def split: if_splits)

lemma hex_payload: "tronPayloadFromHex addr = Ok p \<Longrightarrow> tron_payload p"
  by (auto simp: tronPayloadFromHex_def tron_payload_def rbind_Ok_iff split: if_splits)

lemma prefixed_payload: "tronPayloadFromPrefixedHex addr = Ok p \<Longrightarrow> tron_payload p"
  by (auto simp: tronPayloadFromPrefixedHex_def tron_payload_def rbind_Ok_iff split: if_splits)

definition base58_laws :: "primitives \<Rightarrow> sealing \<Rightarrow> bool" where
  "base58_laws E S \<longleftrightarrow> (\<forall>bs. base58Decode E (base58Encode S bs) = Ok bs) \<and> (\<forall>bs. length (sha256 E bs) = 32) \<and>
     (\<forall>p c. tron_payload p \<longrightarrow> length c = 4 \<longrightarrow> has_prefix (base58Encode S (p @ c)) ''T'')"

lemma checksum_length: "base58_laws E S \<Longrightarrow> length (tronChecksum E p) = 4"
  by (simp add: base58_laws_def tronChecksum_def)

lemma decode_encoded:
  assumes "base58_laws E S" "tron_payload p"
  shows "decodeTronBase58Check E (encodeTronBase58Check E S p) = Ok p"
proof -
  have d: "base58Decode E (encodeTronBase58Check E S p) = Ok (p @ tronChecksum E p)"
    using assms(1) by (simp add: encodeTronBase58Check_def base58_laws_def)
  then show ?thesis
    using assms(2) checksum_length [OF assms(1), of p]
    by (simp add: decodeTronBase58Check_def tron_payload_def Let_def)
qed

lemma encoded_prefix:
  assumes "base58_laws E S" "tron_payload p"
  shows "has_prefix (encodeTronBase58Check E S p) ''T''"
  using assms checksum_length [OF assms(1), of p] by (auto simp: encodeTronBase58Check_def base58_laws_def)

lemma starts_T: "has_prefix s ''T'' \<Longrightarrow> \<not> has_0x s \<and> \<not> has_prefix s ''41''"
  by (cases s) (auto simp: has_prefix_def has_0x_def)

lemma hex_no_0X: "\<not> has_prefix (hex_EncodeToString bs) ''0X''"
proof -
  have "list_all (\<lambda>d. digit_char d \<noteq> CHR ''X'') [0 ..< 16]" by code_simp
  then have d: "digit_char d \<noteq> CHR ''X''" if "d < 16" for d using that by (simp add: list_all_iff)
  have "CHR ''X'' \<notin> set (hex_byte b)" for b
  proof -
    have "unat b < 256" using unsigned_less [of b, where ?'a = nat] by simp
    then have a: "unat b div 16 < 16" and b: "unat b mod 16 < 16" by (simp_all add: less_mult_imp_div_less)
    then show ?thesis using d [OF a] d [OF b] unfolding hex_byte_def by auto
  qed
  then have "CHR ''X'' \<notin> set (hex_EncodeToString bs)" by (auto simp: hex_EncodeToString_def)
  then show ?thesis by (metis has_prefix_def in_set_takeD list.set_intros)
qed

text \<open>Every spelling of a Tron address stands for one 21-byte payload, and the conversions preserve it: for
  the 20 bytes of an EVM address the base58 form made from its hexadecimal text is recognised as an address,
  decodes to the payload, and converts back to that text, also by way of the prefixed form; and whatever text
  the decoder accepts has the payload's length and prefix. Base58 decoding inverts encoding, a SHA-256 digest
  has 32 bytes and the encoding of a payload with its checksum starts with T.\<close>

theorem tron_address_roundtrip:
  assumes "base58_laws E S" "length bs = 20"
  shows "\<exists>t. EVMHexToTronBase58Address E S (''0x'' @ hex_EncodeToString bs) = Ok t \<and>
    AddressToHexFormat E t = Ok (''0x'' @ hex_EncodeToString bs) \<and> NormalizeTronAddr E t = Ok (''0x'' @ hex_EncodeToString bs) \<and>
    TronAddressBytes E t = Ok (tronAddressPrefix # bs) \<and> TronAddressBytes E (''0x'' @ hex_EncodeToString bs) = Ok (tronAddressPrefix # bs) \<and>
    tronHexPrefixed E t = Ok (hex_EncodeToString (tronAddressPrefix # bs)) \<and>
    AddressToHexFormat E (hex_EncodeToString (tronAddressPrefix # bs)) = Ok (''0x'' @ hex_EncodeToString bs) \<and>
    EVMHexToTronBase58Address E S t = Ok t \<and> ToTronBase58IfHex E S t = Ok t \<and>
    (length t \<noteq> 42 \<longrightarrow> IsValidTronAddress E t) \<and> (\<forall>s p. TronAddressBytes E s = Ok p \<longrightarrow> tron_payload p)"
proof -
  let ?p = "tronAddressPrefix # bs" let ?t = "encodeTronBase58Check E S ?p"
  have p: "tron_payload ?p" using assms(2) by (simp add: tron_payload_def)
  have h: "TrimPrefix (TrimPrefix (''0x'' @ hex_EncodeToString bs) ''0x'') ''0X'' = hex_EncodeToString bs"
    using hex_no_0X by (simp add: TrimPrefix_def has_prefix_def)
  have four: "[digit_char (unat (0x41 :: byte) div 16), digit_char (unat (0x41 :: byte) mod 16)] = ''41''" by code_simp
  have x: "hex_EncodeToString ?p = ''41'' @ hex_EncodeToString bs"
    unfolding hex_EncodeToString_def hex_byte_def tronAddressPrefix_def list.map concat.simps by (simp only: four)
  have pay: "tronPayloadFromHex (''0x'' @ hex_EncodeToString bs) = Ok ?p"
    unfolding tronPayloadFromHex_def h using assms(2) by simp
  have pre: "tronPayloadFromPrefixedHex (hex_EncodeToString ?p) = Ok ?p"
    using assms(2) by (simp add: tronPayloadFromPrefixedHex_def)
  note T = encoded_prefix [OF assms(1) p] and D = decode_encoded [OF assms(1) p]
  have a: "AddressToHexFormat E ?t = Ok (''0x'' @ hex_EncodeToString bs)"
    using starts_T [OF T] T D by (simp add: AddressToHexFormat_def)
  have b: "AddressToHexFormat E (hex_EncodeToString ?p) = Ok (''0x'' @ hex_EncodeToString bs)"
    using pre x by (simp add: AddressToHexFormat_def has_0x_def has_prefix_def)
  have q: "\<forall>s p. TronAddressBytes E s = Ok p \<longrightarrow> tron_payload p"
    using decoded_payload hex_payload by (auto simp: TronAddressBytes_def split: if_splits)
  show ?thesis
    using a b q pay T D starts_T [OF T] x
    by (intro exI [of _ ?t]) (simp add: EVMHexToTronBase58Address_def NormalizeTronAddr_def TronAddressBytes_def tronHexPrefixed_def
        ToTronBase58IfHex_def IsValidTronAddress_def has_prefix_def)
qed

definition toy58 :: primitives where
  "toy58 = toy\<lparr>base58Decode := (\<lambda>s. hex_DecodeString (tl s)), sha256 := (\<lambda>_. replicate 32 0)\<rparr>"

definition toy58_box :: sealing where
  "toy58_box = toy_sealing\<lparr>base58Encode := (\<lambda>bs. CHR ''T'' # hex_EncodeToString bs)\<rparr>"

lemma toy58_laws: "base58_laws toy58 toy58_box"
  by (simp add: base58_laws_def toy58_def toy58_box_def has_prefix_def)

lemma tron_address_roundtrip_witness:
  "\<exists>t. EVMHexToTronBase58Address toy58 toy58_box (''0x'' @ hex_EncodeToString (replicate 20 7)) = Ok t \<and>
     AddressToHexFormat toy58 t = Ok (''0x'' @ hex_EncodeToString (replicate 20 7)) \<and>
     TronAddressBytes toy58 t = Ok (tronAddressPrefix # replicate 20 7)"
  using tron_address_roundtrip [OF toy58_laws, of "replicate 20 7"] by auto

end
