(* ===== verification/Effects.thy ===== *)
theory Effects
  imports CacheDevice
begin

text \<open>
  Code that talks to the outside. A computation takes the messages sent so far and the wallet's cache, and
  returns them extended with its result; the answer to a message may depend on everything sent before it.
  \<open>performs io P\<close> says what a computation sends and returns from any starting point.
\<close>

record 'm world =
  wSent :: "'m list"
  wCache :: cache_device

type_synonym ('m, 'a) io = "'m world \<Rightarrow> 'm world \<times> 'a result"

definition ilift :: "'a result \<Rightarrow> ('m, 'a) io" where
  "ilift r w = (w, r)"

abbreviation ireturn :: "'a \<Rightarrow> ('m, 'a) io" where "ireturn x \<equiv> ilift (Ok x)"
abbreviation ifail :: "go_error \<Rightarrow> ('m, 'a) io" where "ifail e \<equiv> ilift (Err e)"

definition ibind :: "('m, 'a) io \<Rightarrow> ('a \<Rightarrow> ('m, 'b) io) \<Rightarrow> ('m, 'b) io" where
  "ibind f g w = (case f w of (w', r) \<Rightarrow> (case r of Inl e \<Rightarrow> (w', Err e) | Inr x \<Rightarrow> g x w'))"

text \<open>Send a message and read the answer.\<close>

definition icall :: "'m \<Rightarrow> ('m list \<Rightarrow> 'a result) \<Rightarrow> ('m, 'a) io" where
  "icall m reply w = (w\<lparr>wSent := wSent w @ [m]\<rparr>, reply (wSent w))"

text \<open>A step that only uses the cache.\<close>

definition icache :: "(cache_device \<Rightarrow> cache_device \<times> 'a result) \<Rightarrow> ('m, 'a) io" where
  "icache f w = (case f (wCache w) of (d, r) \<Rightarrow> (w\<lparr>wCache := d\<rparr>, r))"

text \<open>The result of a computation whose error does not stop the caller.\<close>

definition iattempt :: "('m, 'a) io \<Rightarrow> ('m, 'a result) io" where
  "iattempt f w = (case f w of (w', r) \<Rightarrow> (w', Ok r))"

text \<open>\<open>fmt.Errorf\<close> around the error.\<close>

definition iwrap :: "string \<Rightarrow> ('m, 'a) io \<Rightarrow> ('m, 'a) io" where
  "iwrap s f w = (case f w of (w', r) \<Rightarrow> (w', rwrap s r))"

text \<open>A loop over a list.\<close>

fun ifold :: "('s \<Rightarrow> 'a \<Rightarrow> ('m, 's) io) \<Rightarrow> 's \<Rightarrow> 'a list \<Rightarrow> ('m, 's) io" where
  "ifold f s [] = ireturn s"
| "ifold f s (x # xs) = ibind (f s x) (\<lambda>s'. ifold f s' xs)"

fun imap :: "('a \<Rightarrow> ('m, 'b) io) \<Rightarrow> 'a list \<Rightarrow> ('m, 'b list) io" where
  "imap f [] = ireturn []"
| "imap f (x # xs) = ibind (f x) (\<lambda>y. ibind (imap f xs) (\<lambda>ys. ireturn (y # ys)))"

lemma ifold_cong [fundef_cong]:
  assumes "s = s'" "xs = ys" "\<And>st x. x \<in> set ys \<Longrightarrow> f st x = g st x"
  shows "ifold f s xs = ifold g s' ys"
proof -
  have "ifold f st zs = ifold g st zs" if "set zs \<subseteq> set ys" for st zs
    using that by (induction zs arbitrary: st) (auto simp: assms(3) ibind_def fun_eq_iff split: prod.splits sum.splits)
  then show ?thesis using assms(1,2) by simp
qed

section \<open>What a computation sends\<close>

definition performs :: "('m, 'a) io \<Rightarrow> ('m list \<Rightarrow> 'a result \<Rightarrow> bool) \<Rightarrow> bool" where
  "performs f P \<longleftrightarrow> (\<forall>w. \<exists>ms. wSent (fst (f w)) = wSent w @ ms \<and> P ms (snd (f w)))"

named_theorems performs_intro

lemma performs_mono: "performs f P \<Longrightarrow> (\<And>ms r. P ms r \<Longrightarrow> Q ms r) \<Longrightarrow> performs f Q"
  unfolding performs_def by blast

lemma performs_lift [performs_intro]: "P [] r \<Longrightarrow> performs (ilift r) P"
  by (simp add: performs_def ilift_def)

lemma performs_call [performs_intro]: "(\<And>r. P [m] r) \<Longrightarrow> performs (icall m reply) P"
  by (simp add: performs_def icall_def)

lemma performs_cache: "(\<And>d. P [] (snd (f d))) \<Longrightarrow> performs (icache f) P"
  by (auto simp: performs_def icache_def split: prod.splits) (metis append_Nil2 snd_conv)

text \<open>After a step that failed nothing more is sent; otherwise the rest follows what the step sent.\<close>

lemma performs_bind:
  assumes "performs f P" "\<And>ms e. P ms (Inl e) \<Longrightarrow> Q ms (Inl e)"
    and "\<And>ms x. P ms (Inr x) \<Longrightarrow> performs (g x) (\<lambda>ms' r. Q (ms @ ms') r)"
  shows "performs (ibind f g) Q"
  unfolding performs_def
proof
  fix w
  obtain ms where ms: "wSent (fst (f w)) = wSent w @ ms" "P ms (snd (f w))" using assms(1) by (auto simp: performs_def)
  obtain w' r where fw: "f w = (w', r)" by (cases "f w")
  show "\<exists>ms. wSent (fst (ibind f g w)) = wSent w @ ms \<and> Q ms (snd (ibind f g w))"
  proof (cases r)
    case (Inl e)
    then show ?thesis using ms assms(2) fw by (auto simp: ibind_def)
  next
    case (Inr x)
    then have "performs (g x) (\<lambda>ms' r. Q (ms @ ms') r)" using ms(2) assms(3) fw by simp
    then obtain ms' where "wSent (fst (g x w')) = wSent w' @ ms'" "Q (ms @ ms') (snd (g x w'))" by (auto simp: performs_def)
    then show ?thesis using ms fw Inr by (auto simp: ibind_def)
  qed
qed

lemma performs_attempt:
  assumes "performs f (\<lambda>ms r. P ms (Ok r))" shows "performs (iattempt f) P"
  using assms by (auto simp: performs_def iattempt_def split: prod.splits) (metis fst_conv snd_conv)

lemma performs_wrap:
  assumes "performs f (\<lambda>ms r. P ms (rwrap s r))" shows "performs (iwrap s f) P"
  using assms by (auto simp: performs_def iwrap_def split: prod.splits) (metis fst_conv snd_conv)

lemma performs_option:
  "(x = None \<Longrightarrow> performs f P) \<Longrightarrow> (\<And>y. x = Some y \<Longrightarrow> performs (g y) P) \<Longrightarrow> performs (case x of None \<Rightarrow> f | Some y \<Rightarrow> g y) P"
  by (cases x) simp_all

lemma performs_sum:
  "(\<And>e. x = Inl e \<Longrightarrow> performs (f e) P) \<Longrightarrow> (\<And>y. x = Inr y \<Longrightarrow> performs (g y) P) \<Longrightarrow>
   performs (case x of Inl e \<Rightarrow> f e | Inr y \<Rightarrow> g y) P"
  by (cases x) simp_all

lemma performs_prod: "(\<And>a b. x = (a, b) \<Longrightarrow> performs (f a b) P) \<Longrightarrow> performs (case x of (a, b) \<Rightarrow> f a b) P"
  by (cases x) simp

lemma performs_if: "(b \<Longrightarrow> performs f P) \<Longrightarrow> (\<not> b \<Longrightarrow> performs g P) \<Longrightarrow> performs (if b then f else g) P"
  by simp

text \<open>A property of every single message is enough when it holds step by step.\<close>

definition sends_only :: "('m, 'a) io \<Rightarrow> ('m \<Rightarrow> bool) \<Rightarrow> bool" where
  "sends_only f P \<longleftrightarrow> performs f (\<lambda>ms r. list_all P ms)"

lemma sends_only_lift [performs_intro]: "sends_only (ilift r) P"
  by (simp add: sends_only_def performs_intro)

lemma sends_only_call [performs_intro]: "P m \<Longrightarrow> sends_only (icall m reply) P"
  by (simp add: sends_only_def performs_intro)

lemma sends_only_cache [performs_intro]: "sends_only (icache f) P"
  by (simp add: sends_only_def performs_cache)

lemma sends_only_bind [performs_intro]:
  "sends_only f P \<Longrightarrow> (\<And>x. sends_only (g x) P) \<Longrightarrow> sends_only (ibind f g) P"
  unfolding sends_only_def by (erule performs_bind) (auto elim: performs_mono)

lemma sends_only_attempt [performs_intro]: "sends_only f P \<Longrightarrow> sends_only (iattempt f) P"
  unfolding sends_only_def by (rule performs_attempt)

lemma sends_only_wrap [performs_intro]: "sends_only f P \<Longrightarrow> sends_only (iwrap s f) P"
  unfolding sends_only_def by (rule performs_wrap)

lemma sends_only_if [performs_intro]: "(b \<Longrightarrow> sends_only f P) \<Longrightarrow> (\<not> b \<Longrightarrow> sends_only g P) \<Longrightarrow> sends_only (if b then f else g) P"
  by simp

lemma sends_only_option [performs_intro]:
  "(x = None \<Longrightarrow> sends_only f P) \<Longrightarrow> (\<And>y. x = Some y \<Longrightarrow> sends_only (g y) P) \<Longrightarrow> sends_only (case x of None \<Rightarrow> f | Some y \<Rightarrow> g y) P"
  by (cases x) simp_all

lemma sends_only_sum [performs_intro]:
  "(\<And>e. x = Inl e \<Longrightarrow> sends_only (f e) P) \<Longrightarrow> (\<And>y. x = Inr y \<Longrightarrow> sends_only (g y) P) \<Longrightarrow>
   sends_only (case x of Inl e \<Rightarrow> f e | Inr y \<Rightarrow> g y) P"
  by (cases x) simp_all

lemma sends_only_prod [performs_intro]:
  "(\<And>a b. x = (a, b) \<Longrightarrow> sends_only (f a b) P) \<Longrightarrow> sends_only (case x of (a, b) \<Rightarrow> f a b) P"
  by (cases x) simp

lemma sends_only_fold [performs_intro]: "(\<And>s x. sends_only (f s x) P) \<Longrightarrow> sends_only (ifold f s xs) P"
  by (induction xs arbitrary: s) (simp_all add: performs_intro)

lemma sends_only_map [performs_intro]: "(\<And>x. sends_only (f x) P) \<Longrightarrow> sends_only (imap f xs) P"
  by (induction xs) (simp_all add: performs_intro)

lemma sends_only_mono: "sends_only f P \<Longrightarrow> (\<And>m. P m \<Longrightarrow> Q m) \<Longrightarrow> sends_only f Q"
  unfolding sends_only_def by (erule performs_mono) (auto simp: list_all_iff)

text \<open>Running a computation, step by step.\<close>

lemma ibind_lift [simp]: "ibind (ilift (Ok x)) g = g x" "ibind (ilift (Err e)) g = ilift (Err e)"
  by (simp_all add: ibind_def ilift_def fun_eq_iff)

lemma ibind_OkE:
  assumes "snd (ibind f g w) = Ok y"
  obtains x w' where "f w = (w', Ok x)" "snd (g x w') = Ok y" "ibind f g w = g x w'"
  using assms by (cases "f w") (auto simp: ibind_def split: sum.splits)

end
