(* ===== verification/Messages.thy ===== *)
theory Messages
  imports ProverInterface Addresses Effects
begin

text \<open>
  What the SDK sends when it executes a transaction, and who answers. A message is a transaction handed to the
  wallet, a request to the relayer, to the enclave or to the data server, or a read whose answer may change
  between two reads (allowances, confirmations). The answers, and the constants and encoders of other packages,
  are the fields of \<open>network\<close>.
\<close>

section \<open>EVM and relayer requests\<close>

record tx_request =
  txTo :: string
  txData :: "byte list"
  txValue :: "int option"
  txGasLimit :: "64 word"

record tron_proof_signature =
  tpV :: int
  tpR :: string
  tpS :: string

record authorization_data =
  auV :: string
  auR :: string
  auS :: string
  auNonce :: string
  auAddress :: string
  auChainID :: string

record relay_body =
  rbChainID :: int
  rbA :: "string \<times> string"
  rbB :: "(string \<times> string) \<times> (string \<times> string)"
  rbC :: "string \<times> string"
  rbDimData :: dim_data
  rbCircomData :: circom_json
  rbCommitmentValidationData :: "commitment_validation option"
  rbWithUniswapWorkAround :: bool
  rbAuthorizationData :: "authorization_data option"
  rbRecipientAddress :: string
  rbAdminData :: "admin_data option"
  rbTronProofSignature :: "tron_proof_signature option"

record relayer_response =
  rrStatus :: string
  rrMessage :: string
  rrError :: string

record batch_body =
  bbChainID :: int
  bbTransactions :: "relay_body list"
  bbHashedEthereumAddress :: string
  bbTxCompletionTime :: "int option"
  bbRef :: string
  bbHashedDashboardAccountID :: string
  bbDependsOnTxHash :: string

text \<open>The message of a batch response is nil or carries the identifier of the schedule.\<close>

record batch_response =
  brStatus :: string
  brMessage :: "string option"
  brError :: string

record sign_proof_request =
  spqChainID :: int
  spqA :: "string list"
  spqB :: "string list list"
  spqC :: "string list"
  spqInputs :: "string list"
  spqExternalActionID :: string
  spqTokenNumber :: int
  spqNullifierAmount :: int
  spqOutputAmount :: int
  spqSkipLock :: bool

section \<open>Tron node\<close>

type_synonym sun = "64 word"

record tron_transaction =
  ttTxID :: string
  ttRawDataHex :: string
  ttSignature :: "string list"

record api_result =
  arResult :: bool
  arCode :: string
  arMessage :: string

record tron_call =
  tcOwner :: string
  tcContract :: string
  tcData :: "byte list"
  tcCallValue :: sun
  tcFeeLimit :: sun

record constant_result =
  crResult :: api_result
  crEnergyUsed :: sun
  crRawDataHex :: string

record account_resources =
  acEnergyLimit :: sun
  acEnergyUsed :: sun
  acFreeNetLimit :: sun
  acFreeNetUsed :: sun
  acNetLimit :: sun
  acNetUsed :: sun

record tx_info =
  tiID :: string
  tiResult :: string
  tiResMessage :: string
  tiBlockNumber :: sun

section \<open>Receive vaults\<close>

record vault_record =
  rvIndex :: int
  rvNetwork :: string
  rvExpiry :: string
  rvVersion :: string
  rvVaultAddress :: string

record vault_params_json =
  vjRecipient :: stealth_structure_json
  vjOwner :: string
  vjVersion :: string

record output_signature =
  osChainID :: int
  osSignature :: string

record vault_block =
  vbVaultAddress :: string
  vbChainID :: int
  vbToken :: string

record vault_account_proof =
  apAccountKey :: string
  apDeadline :: string
  apSignature :: string

record vault_account =
  vaRecords :: "vault_record list"
  vaBlocks :: "vault_block list"

record register_vault_request =
  rgVaultAddress :: string
  rgNetwork :: string
  rgIndex :: int
  rgDeploymentMode :: string
  rgParams :: vault_params_json
  rgEncryptionKey :: string
  rgEncryptedOutput :: string
  rgOutputSignatures :: "output_signature list"
  rgAccountKey :: string
  rgCreatorAddress :: string

section \<open>Solana\<close>

record solana_ix =
  ixProgram :: "byte list"
  ixAccounts :: "account_meta list"
  ixData :: "byte list"

record solana_args =
  agProofAArr :: "int list"
  agProofBArr :: "int list"
  agProofCArr :: "int list"
  agPublicInputsArr :: "int list list"
  agEncryptedOutputs :: "int list list"
  agRelayerFee :: string
  agVariableRate :: "string option"
  agDimensions :: dim_data
  agRootHashIndex :: string
  agRelayAddress :: string

text \<open>The arguments of a program call: built here, built here for a swap, or the enclave's JSON.\<close>

datatype proof_args =
    SolanaArgs solana_args
  | SolanaSwapArgs solana_args string "bool slice" "solana_instruction list"
  | RawArgs string

text \<open>\<open>Accounts\<close> is the JSON text the accounts marshal to, empty when there are none.\<close>

record solana_body =
  sbChainID :: int
  sbRelayAddress :: string
  sbFunctionName :: string
  sbArgs :: proof_args
  sbAccounts :: string
  sbCommitmentValidationData :: "commitment_validation option"
  sbAdminData :: "admin_data option"

record sponsored_request =
  sqChainID :: int
  sqKind :: string
  sqTokenAddress :: string
  sqAmount :: string
  sqSenderAddress :: string
  sqRelayAddress :: string
  sqRecipientInfo :: string
  sqRecipientAddress :: string
  sqVariableRate :: string

record sponsored_build =
  sdStatus :: string
  sdError :: string
  sdTicketID :: string
  sdSerializedTx :: string
  sdFee :: string

record sponsored_submit =
  smStatus :: string
  smError :: string
  smTxHash :: string

section \<open>Messages\<close>

datatype message =
    SendTransaction tx_request
  | ReadAllowance "byte list" "byte list" "byte list"
  | WaitForTx int string nat
  | RelayTransact relay_body
  | ScheduleTransactions batch_body
  | SignProof sign_proof_request
  | EthCall int string string "byte list" "int option"
  | TriggerContract tron_call
  | BroadcastTransaction tron_transaction
  | GetTransactionInfo string
  | GetNowBlock
  | ReserveRelay int bool
  | PrepareTx prepare_tx_request
  | FinalizeTx string "jub_point \<times> int"
  | FinalizeTxRelay string "jub_point \<times> int" string "admin_data option" "authorization_data option" bool
  | EmitPublicData admin_data string
  | FetchVaultAccount vault_account_proof string
  | FetchVaultNextIndex vault_account_proof string
  | RegisterVault register_vault_request
  | GetLatestBlockhash
  | SendSolanaTransaction "solana_ix list" string nat
  | GetBlockHeight
  | GetSignatureStatuses string
  | RelaySolana solana_body
  | PrepareSolanaTx prepare_solana_tx_request
  | FinalizeSolanaTx string "jub_point \<times> int"
  | FinalizeSolanaTxRelay string "jub_point \<times> int" string "admin_data option"
  | BuildSponsored sponsored_request
  | SubmitSponsored int string string

type_synonym 'a sent = "message list \<Rightarrow> 'a result"

record finalized =
  fzZkCallData :: zk_proof
  fzCircomData :: circom_json
  fzDimData :: dim_data
  fzCommitmentValidationData :: "commitment_validation option"
  fzTronProofSignature :: "tron_proof_signature option"

record network =
  nHinkalAddress :: "int \<Rightarrow> string result"
  nProviderAdapter :: "int \<Rightarrow> unit result"
  nTronWeb :: "unit result"
  nOwnAddress :: "string result"
  nFetchClient :: "int \<Rightarrow> unit result"
  nAllowance :: "byte list \<Rightarrow> byte list \<Rightarrow> byte list \<Rightarrow> int sent"
  nApproveCalldata :: "byte list \<Rightarrow> int \<Rightarrow> byte list result"
  nSend :: "tx_request \<Rightarrow> string sent"
  nWait :: "int \<Rightarrow> string \<Rightarrow> nat \<Rightarrow> unit sent"
  nPackTransact :: "int \<Rightarrow> zk_proof \<Rightarrow> dim_data \<Rightarrow> circom_data \<Rightarrow> byte list result"
  nEstimateGas :: "byte list \<Rightarrow> byte list \<Rightarrow> int option \<Rightarrow> byte list \<Rightarrow> 64 word result"
  nRelay :: "relay_body \<Rightarrow> relayer_response sent"
  nSchedule :: "batch_body \<Rightarrow> batch_response sent"
  nSignProof :: "sign_proof_request \<Rightarrow> string sent"
  nTronAddress :: string
  nEthCall :: "int \<Rightarrow> string \<Rightarrow> string \<Rightarrow> byte list \<Rightarrow> int option \<Rightarrow> string sent"
  nAllowanceCalldata :: "byte list \<Rightarrow> byte list \<Rightarrow> byte list result"
  nTrigger :: "tron_call \<Rightarrow> (api_result \<times> tron_transaction) sent"
  nTxCheck :: "tron_transaction \<Rightarrow> tron_call \<Rightarrow> unit result"
  nSignHash :: "byte list \<Rightarrow> byte list result"
  nBroadcast :: "tron_transaction \<Rightarrow> api_result sent"
  nTxInfo :: "string \<Rightarrow> tx_info sent"
  nNowBlock :: "sun sent"
  nConstantCall :: "tron_call \<Rightarrow> constant_result result"
  nEstimateEnergy :: "tron_call \<Rightarrow> (api_result \<times> sun) result"
  nChainParameters :: "(string \<times> sun) list result"
  nAccountResource :: "string \<Rightarrow> account_resources result"
  nBalanceSun :: "string \<Rightarrow> int result"
  nPackTronTransact :: "int \<Rightarrow> 8 word \<Rightarrow> byte list \<Rightarrow> byte list \<Rightarrow> zk_proof \<Rightarrow> dim_data \<Rightarrow> circom_data \<Rightarrow> byte list result"
  nRandomRelay :: "int \<Rightarrow> bool \<Rightarrow> string sent"
  nPrepareTx :: "prepare_tx_request \<Rightarrow> prepare_tx_response sent"
  nFinalizeTx :: "string \<Rightarrow> jub_point \<times> int \<Rightarrow> finalized sent"
  nFinalizeTxRelay :: "string \<Rightarrow> jub_point \<times> int \<Rightarrow> string \<Rightarrow> admin_data option \<Rightarrow> authorization_data option \<Rightarrow> bool \<Rightarrow> string sent"
  nEmit :: "admin_data \<Rightarrow> string \<Rightarrow> unit sent"

text \<open>The messages that move funds or have them moved.\<close>

fun executes :: "message \<Rightarrow> bool" where
  "executes (SendTransaction _) = True"
| "executes (RelayTransact _) = True"
| "executes (ScheduleTransactions _) = True"
| "executes (BroadcastTransaction _) = True"
| "executes (FinalizeTxRelay _ _ _ _ _ _) = True"
| "executes (SendSolanaTransaction _ _ _) = True"
| "executes (RelaySolana _) = True"
| "executes (FinalizeSolanaTxRelay _ _ _ _) = True"
| "executes (SubmitSponsored _ _ _) = True"
| "executes _ = False"

end
