(* ===== verification/EvmSubmit.thy ===== *)
theory EvmSubmit
  imports Messages
begin

text \<open>
  \<open>internal/functions/web3\<close>: approving tokens (\<open>approvals.go\<close>), sending a transaction from the wallet
  (\<open>transact_call_direct.go\<close>) and through the relayer, alone or in a batch (\<open>transact_call_relayer.go\<close>).
\<close>

section \<open>Approvals\<close>

definition LocalhostNetwork :: int where "LocalhostNetwork = 1"

definition GetNonLocalhostChainID :: "int \<Rightarrow> int" where
  "GetNonLocalhostChainID chainID =
     (if chainID \<noteq> 0 then (if IsLocalNetwork chainID then LocalhostNetwork else chainID) else LocalhostNetwork)"

definition Erc20Allowance :: "network \<Rightarrow> byte list \<Rightarrow> byte list \<Rightarrow> byte list \<Rightarrow> (message, int) io" where
  "Erc20Allowance N token owner spender = icall (ReadAllowance token owner spender) (nAllowance N token owner spender)"

definition SendTx :: "network \<Rightarrow> tx_request \<Rightarrow> (message, string) io" where
  "SendTx N tx = icall (SendTransaction tx) (nSend N tx)"

definition WaitForTransaction :: "network \<Rightarrow> int \<Rightarrow> string \<Rightarrow> nat \<Rightarrow> (message, unit) io" where
  "WaitForTransaction N chainID hash confirmations = icall (WaitForTx chainID hash confirmations) (nWait N chainID hash confirmations)"

definition call_request :: "string \<Rightarrow> byte list \<Rightarrow> tx_request" where
  "call_request contract data = \<lparr>txTo = contract, txData = data, txValue = None, txGasLimit = 0\<rparr>"

text \<open>USDT on mainnet takes a new allowance only from zero.\<close>

definition needs_reset :: "int \<Rightarrow> erc20_token \<Rightarrow> int \<Rightarrow> bool" where
  "needs_reset chainID token allowance =
     (GetNonLocalhostChainID chainID = 1 \<and> EqualFold (Symbol token) ''usdt'' \<and> allowance > 0)"

definition approveTokenToHinkal ::
    "primitives \<Rightarrow> sealing \<Rightarrow> network \<Rightarrow> int \<Rightarrow> byte list \<Rightarrow> int \<Rightarrow> erc20_token \<Rightarrow> (message, unit) io" where
  "approveTokenToHinkal E S N chainID spender amount token =
     ibind (ilift (nFetchClient N chainID)) (\<lambda>_.
     ibind (ilift (nOwnAddress N)) (\<lambda>ownerStr.
     let owner = hexToAddress E ownerStr; tokenAddr = hexToAddress E (TokenAddress token) in
     ibind (Erc20Allowance N tokenAddr owner spender) (\<lambda>allowance.
     if allowance \<ge> amount then ireturn ()
     else
       ibind (if needs_reset chainID token allowance then
                ibind (ilift (nApproveCalldata N spender 0)) (\<lambda>resetData.
                ibind (SendTx N (call_request (addressHex S tokenAddr) resetData)) (\<lambda>resetHash.
                WaitForTransaction N chainID resetHash 1))
              else ireturn ()) (\<lambda>_.
       ibind (ilift (nApproveCalldata N spender amount)) (\<lambda>data.
       ibind (SendTx N (call_request (addressHex S tokenAddr) data)) (\<lambda>hash.
       WaitForTransaction N chainID hash (if chainID = 8453 then 2 else 1)))))))"

definition ApproveTokensToHinkal ::
    "primitives \<Rightarrow> sealing \<Rightarrow> network \<Rightarrow> int \<Rightarrow> byte list \<Rightarrow> erc20_token list \<Rightarrow> int list \<Rightarrow> (message, unit) io" where
  "ApproveTokensToHinkal E S N chainID spender tokensToApprove amounts =
     ifold (\<lambda>_ (i, amount).
        ibind (ilift (index_at tokensToApprove i)) (\<lambda>token.
        if amount > 0 \<and> TokenAddress token \<noteq> ZeroAddress
        then approveTokenToHinkal E S N chainID spender amount token else ireturn ())) () (enumerate 0 amounts)"

text \<open>One round over the requirements, up to the first that is not met.\<close>

fun all_approved :: "primitives \<Rightarrow> network \<Rightarrow> byte list \<Rightarrow> byte list \<Rightarrow> (string \<times> int) list \<Rightarrow> (message, bool) io" where
  "all_approved E N owner spender [] = ireturn True"
| "all_approved E N owner spender ((token, required) # rs) =
     ibind (Erc20Allowance N (hexToAddress E token) owner spender) (\<lambda>allowance.
     if allowance < required then ireturn False else all_approved E N owner spender rs)"

text \<open>After the last attempt the code goes on without an error.\<close>

fun approval_rounds :: "primitives \<Rightarrow> network \<Rightarrow> byte list \<Rightarrow> byte list \<Rightarrow> (string \<times> int) list \<Rightarrow> nat \<Rightarrow> (message, unit) io" where
  "approval_rounds E N owner spender valid 0 = ireturn ()"
| "approval_rounds E N owner spender valid (Suc attempts) =
     ibind (all_approved E N owner spender valid) (\<lambda>allApproved.
     if allApproved then ireturn () else approval_rounds E N owner spender valid attempts)"

definition WaitForErc20Approvals ::
    "primitives \<Rightarrow> network \<Rightarrow> int \<Rightarrow> byte list \<Rightarrow> byte list \<Rightarrow> (string \<times> int) list \<Rightarrow> nat \<Rightarrow> (message, unit) io" where
  "WaitForErc20Approvals E N chainID owner spender requirements maxAttempts =
     (let valid = filter (\<lambda>(token, required). required > 0 \<and> \<not> EqualFold token ZeroAddress) requirements in
      if valid = [] then ireturn ()
      else ibind (ilift (nFetchClient N chainID)) (\<lambda>_. approval_rounds E N owner spender valid maxAttempts))"

section \<open>Sending from the wallet\<close>

record direct_params =
  dpAmounts :: "int list"
  dpTokensToApprove :: "erc20_token list"
  dpZkCallData :: zk_proof
  dpCircomData :: circom_data
  dpDimData :: dim_data
  dpContractApproval :: string
  dpContractTransact :: string
  dpPreEstimateGas :: bool
  dpReturnTxData :: bool

definition errTokenAmountMismatch :: go_error where "errTokenAmountMismatch = Errorf ''web3: token and amount length mismatch''"

text \<open>The native amount is that of the last native token of the list.\<close>

definition native_amount :: "erc20_token list \<Rightarrow> int list \<Rightarrow> int" where
  "native_amount tokens amounts =
     foldl (\<lambda>eth (token, amount). if TokenAddress token = ZeroAddress then amount else eth) 0 (zip tokens amounts)"

definition needs_approval :: "erc20_token list \<Rightarrow> bool" where
  "needs_approval tokens = list_ex (\<lambda>token. TokenAddress token \<noteq> ZeroAddress) tokens"

definition padded_gas :: "64 word \<Rightarrow> 64 word" where
  "padded_gas gas = (gas * 12 + 9) div 10"

text \<open>A failed estimate leaves the gas limit to the wallet.\<close>

definition with_gas :: "primitives \<Rightarrow> network \<Rightarrow> int \<Rightarrow> string \<Rightarrow> tx_request \<Rightarrow> tx_request" where
  "with_gas E N chainID ethAddr tx =
     (case nFetchClient N chainID of
        Inl _ \<Rightarrow> tx
      | Inr _ \<Rightarrow>
          (case nEstimateGas N (hexToAddress E ethAddr) (hexToAddress E (txTo tx)) (txValue tx) (txData tx) of
             Inl _ \<Rightarrow> tx | Inr gas \<Rightarrow> tx\<lparr>txGasLimit := padded_gas gas\<rparr>))"

definition direct_approvals ::
    "primitives \<Rightarrow> sealing \<Rightarrow> network \<Rightarrow> int \<Rightarrow> direct_params \<Rightarrow> string \<Rightarrow> string \<Rightarrow> (message, unit) io" where
  "direct_approvals E S N chainID p ethAddr contractForApproval =
     (let spender = hexToAddress E contractForApproval in
      ibind (ApproveTokensToHinkal E S N chainID spender (dpTokensToApprove p) (dpAmounts p)) (\<lambda>_.
      if needs_approval (dpTokensToApprove p)
      then WaitForErc20Approvals E N chainID (hexToAddress E ethAddr) spender
             (zip (map TokenAddress (dpTokensToApprove p)) (dpAmounts p)) 30
      else ireturn ()))"

definition TransactCallDirect ::
    "primitives \<Rightarrow> sealing \<Rightarrow> network \<Rightarrow> int \<Rightarrow> direct_params \<Rightarrow> (message, tx_request \<times> string) io" where
  "TransactCallDirect E S N chainID p =
     (if length (dpAmounts p) \<noteq> length (dpTokensToApprove p) then ifail errTokenAmountMismatch
      else
        ibind (ilift (nHinkalAddress N chainID)) (\<lambda>hinkalAddr.
        let contractForApproval = (if dpContractApproval p = [] then hinkalAddr else dpContractApproval p);
            contractForTransaction = (if dpContractTransact p = [] then hinkalAddr else dpContractTransact p) in
        ibind (ilift (nOwnAddress N)) (\<lambda>ethAddr.
        let ethAmount = native_amount (dpTokensToApprove p) (dpAmounts p) in
        ibind (if \<not> dpReturnTxData p then direct_approvals E S N chainID p ethAddr contractForApproval else ireturn ()) (\<lambda>_.
        ibind (ilift (nPackTransact N chainID (dpZkCallData p) (dpDimData p) (dpCircomData p))) (\<lambda>data.
        let txReq = \<lparr>txTo = contractForTransaction, txData = data, txValue = (if ethAmount > 0 then Some ethAmount else None),
                     txGasLimit = 0\<rparr> in
        if dpReturnTxData p then ireturn (txReq, [])
        else
          let tx = (if dpPreEstimateGas p then with_gas E N chainID ethAddr txReq else txReq)
          in ibind (SendTx N tx) (\<lambda>hash. ireturn (tx, hash)))))))"

section \<open>Through the relayer\<close>

definition extractTxResponse :: "relayer_response \<Rightarrow> string result" where
  "extractTxResponse resp =
     (if rrStatus resp = ''success'' then Ok (rrMessage resp)
      else if rrMessage resp \<noteq> [] \<and> rrError resp \<noteq> [] then Err (Wrapped ''ErrorWithRelayerTransaction'' (External (rrError resp)))
      else Err (External (rrError resp)))"

definition extractBatchTxResponse :: "batch_response \<Rightarrow> string result" where
  "extractBatchTxResponse resp =
     (if brStatus resp = ''success'' then
        (case brMessage resp of
           Some scheduleID \<Rightarrow> if scheduleID = [] then Err (Errorf ''relayer batch response missing scheduleId'') else Ok scheduleID
         | None \<Rightarrow> Err (Errorf ''relayer batch response missing scheduleId''))
      else if brError resp \<noteq> [] then Err (External (brError resp))
      else Err (Errorf ''batch transaction failed''))"

record batch_item =
  biZkCallData :: zk_proof
  biDimData :: dim_data
  biCircomData :: circom_data
  biCommitmentValidationData :: "commitment_validation option"
  biWithUniswapWorkAround :: bool
  biAuthorizationData :: "authorization_data option"
  biRecipientAddress :: string
  biAdminData :: "admin_data option"
  biTronProofSignature :: "tron_proof_signature option"

definition item_body :: "int \<Rightarrow> batch_item \<Rightarrow> relay_body" where
  "item_body chainID tx =
     \<lparr>rbChainID = chainID, rbA = zkA (biZkCallData tx), rbB = zkB (biZkCallData tx), rbC = zkC (biZkCallData tx),
      rbDimData = biDimData tx, rbCircomData = SerializeCircomData (biCircomData tx),
      rbCommitmentValidationData = biCommitmentValidationData tx, rbWithUniswapWorkAround = biWithUniswapWorkAround tx,
      rbAuthorizationData = biAuthorizationData tx, rbRecipientAddress = biRecipientAddress tx,
      rbAdminData = biAdminData tx, rbTronProofSignature = biTronProofSignature tx\<rparr>"

definition TransactCallRelayer ::
    "network \<Rightarrow> int \<Rightarrow> zk_proof \<Rightarrow> dim_data \<Rightarrow> circom_data \<Rightarrow> commitment_validation option \<Rightarrow> bool \<Rightarrow>
     authorization_data option \<Rightarrow> admin_data option \<Rightarrow> tron_proof_signature option \<Rightarrow> (message, string) io" where
  "TransactCallRelayer N chainID zk dim circom validation uniswap auth adminData tronSig =
     (let body = \<lparr>rbChainID = chainID, rbA = zkA zk, rbB = zkB zk, rbC = zkC zk, rbDimData = dim,
                  rbCircomData = SerializeCircomData circom, rbCommitmentValidationData = validation,
                  rbWithUniswapWorkAround = uniswap, rbAuthorizationData = auth, rbRecipientAddress = [],
                  rbAdminData = adminData, rbTronProofSignature = tronSig\<rparr>
      in ibind (icall (RelayTransact body) (nRelay N body)) (\<lambda>resp. ilift (extractTxResponse resp)))"

definition TransactCallRelayerBatch ::
    "network \<Rightarrow> int \<Rightarrow> batch_item list \<Rightarrow> string \<Rightarrow> int option \<Rightarrow> string \<Rightarrow> string \<Rightarrow> string \<Rightarrow> (message, string) io" where
  "TransactCallRelayerBatch N chainID transactions hashedEthereumAddress txCompletionTime ref dashboard dependsOn =
     (if transactions = [] then ifail (Errorf ''web3: batch transactions must not be empty'')
      else
        let body = \<lparr>bbChainID = chainID, bbTransactions = map (item_body chainID) transactions,
                    bbHashedEthereumAddress = hashedEthereumAddress, bbTxCompletionTime = txCompletionTime, bbRef = ref,
                    bbHashedDashboardAccountID = dashboard, bbDependsOnTxHash = dependsOn\<rparr>
        in ibind (icall (ScheduleTransactions body) (nSchedule N body)) (\<lambda>resp. ilift (extractBatchTxResponse resp)))"

end
