(* ===== verification/TronSubmit.thy ===== *)
theory TronSubmit
  imports Messages
begin

text \<open>
  \<open>internal/functions/tron\<close>: the proof signature of the enclave (\<open>proof_signature.go\<close>), approvals
  (\<open>approvals.go\<close>, \<open>deposit_helpers.go\<close>), calls of the node (\<open>wallet_client.go\<close>, \<open>simulation.go\<close>), the fee
  estimate (\<open>fees.go\<close>), signing, broadcasting and waiting (\<open>sign_broadcast.go\<close>), and the transaction of the
  wallet (\<open>transact_call_direct.go\<close>).
\<close>

section \<open>The proof signature\<close>

text \<open>The coordinates of the second point change places.\<close>

definition ParseZkCalldata :: "zk_proof \<Rightarrow> (int list \<times> int list list \<times> int list \<times> int list) result" where
  "ParseZkCalldata zk =
     rbind (rmap ParseBigInt [fst (zkA zk), snd (zkA zk)]) (\<lambda>a.
     rbind (rmap ParseBigInt [fst (fst (zkB zk)), snd (fst (zkB zk))]) (\<lambda>b0.
     rbind (rmap ParseBigInt [fst (snd (zkB zk)), snd (snd (zkB zk))]) (\<lambda>b1.
     rbind (rmap ParseBigInt [fst (zkC zk), snd (zkC zk)]) (\<lambda>c.
     rbind (rmap ParseBigInt (zkPublicSignals zk)) (\<lambda>publicSignals.
     Ok (a, [[b0 ! 1, b0 ! 0], [b1 ! 1, b1 ! 0]], c, publicSignals))))))"

definition GetVerifierID :: "primitives \<Rightarrow> dim_data \<Rightarrow> int \<Rightarrow> int result" where
  "GetVerifierID E dim externalActionID =
     rbind (rwrap ''tron: verifier id encode'' (abiPack E
       [AUint16 (word_of_int (TokenNumber dim)), AUint16 (word_of_int (NullifierAmount dim)),
        AUint16 (word_of_int (OutputAmount dim)), AUint256 externalActionID])) (\<lambda>packed.
     Ok (SetBytes (keccak256 E packed)))"

definition bigIntsToDecimal :: "int list \<Rightarrow> string list" where
  "bigIntsToDecimal values = map int_String values"

definition splitSignature :: "primitives \<Rightarrow> string \<Rightarrow> tron_proof_signature result" where
  "splitSignature E signatureHex =
     (let sig = fromHex E (TrimSpace signatureHex) in
      if length sig \<noteq> 65 then Err (Errorf ''tron: unexpected signature length'')
      else
        let v = int (unat (sig ! 64))
        in Ok \<lparr>tpV = (if v < 27 then v + 27 else v), tpR = ''0x'' @ hex_EncodeToString (take 32 sig),
               tpS = ''0x'' @ hex_EncodeToString (take 32 (drop 32 sig))\<rparr>)"

definition sign_proof_body ::
    "int \<Rightarrow> int list \<Rightarrow> int list list \<Rightarrow> int list \<Rightarrow> int list \<Rightarrow> dim_data \<Rightarrow> int \<Rightarrow> bool \<Rightarrow> sign_proof_request" where
  "sign_proof_body chainID a b c inputs dim externalActionID skipLock =
     \<lparr>spqChainID = chainID, spqA = bigIntsToDecimal a, spqB = map bigIntsToDecimal b, spqC = bigIntsToDecimal c,
      spqInputs = bigIntsToDecimal inputs, spqExternalActionID = int_String externalActionID,
      spqTokenNumber = TokenNumber dim, spqNullifierAmount = NullifierAmount dim, spqOutputAmount = OutputAmount dim,
      spqSkipLock = skipLock\<rparr>"

definition GenerateProofSignatureRemotely ::
    "primitives \<Rightarrow> network \<Rightarrow> int \<Rightarrow> int list \<Rightarrow> int list list \<Rightarrow> int list \<Rightarrow> int list \<Rightarrow> dim_data \<Rightarrow> int \<Rightarrow> bool \<Rightarrow>
     (message, tron_proof_signature) io" where
  "GenerateProofSignatureRemotely E N chainID a b c inputs dim externalActionID skipLock =
     (let req = sign_proof_body chainID a b c inputs dim externalActionID skipLock
      in ibind (icall (SignProof req) (nSignProof N req)) (\<lambda>signatureHex. ilift (splitSignature E signatureHex)))"

definition SwapTronBCoordinate :: "zk_proof \<Rightarrow> zk_proof" where
  "SwapTronBCoordinate zk =
     zk\<lparr>zkB := ((snd (fst (zkB zk)), fst (fst (zkB zk))), (snd (snd (zkB zk)), fst (snd (zkB zk))))\<rparr>"

text \<open>The proof as it is left behind, with the signature. The id of the action is never nil here.\<close>

definition ReorderZkCallData ::
    "primitives \<Rightarrow> network \<Rightarrow> int \<Rightarrow> zk_proof \<Rightarrow> dim_data \<Rightarrow> circom_data \<Rightarrow> bool \<Rightarrow> bool \<Rightarrow>
     (message, zk_proof \<times> tron_proof_signature) io" where
  "ReorderZkCallData E N chainID zk dim circom modify skipLock =
     ibind (ilift (ParseZkCalldata zk)) (\<lambda>(a, b, c, publicSignals).
     ibind (GenerateProofSignatureRemotely E N chainID a b c publicSignals dim (cdExternalActionID circom) skipLock) (\<lambda>sig.
     ireturn (if modify then SwapTronBCoordinate zk else zk, sig)))"

section \<open>Calls of the node\<close>

definition api_message :: "api_result \<Rightarrow> string" where
  "api_message r =
     (let msg = (case hex_DecodeString (arMessage r) of
                   Inl _ \<Rightarrow> arMessage r
                 | Inr decoded \<Rightarrow> if decoded \<noteq> [] then bytes_string decoded else arMessage r)
      in if msg = [] then arCode r else msg)"

text \<open>A contract call is built by the node; the transaction it returns must encode the call asked for.\<close>

definition TriggerSmartContract :: "network \<Rightarrow> string \<Rightarrow> string \<Rightarrow> byte list \<Rightarrow> sun \<Rightarrow> sun \<Rightarrow> (message, tron_transaction) io" where
  "TriggerSmartContract N owner contract data callValueSun feeLimitSun =
     (let call = \<lparr>tcOwner = owner, tcContract = contract, tcData = data, tcCallValue = callValueSun, tcFeeLimit = feeLimitSun\<rparr> in
      ibind (iwrap ''tron triggersmartcontract'' (icall (TriggerContract call) (nTrigger N call))) (\<lambda>(result, tx).
      ilift (if \<not> arResult result then Err (Wrapped ''tron triggersmartcontract rejected'' (External (api_message result)))
             else if ttRawDataHex tx = [] then Err (Errorf ''tron triggersmartcontract returned empty transaction'')
             else rbind (rwrap ''tron triggersmartcontract'' (nTxCheck N tx call)) (\<lambda>_. Ok tx))))"

definition tron_sha256 :: "primitives \<Rightarrow> tron_transaction \<Rightarrow> byte list result" where
  "tron_sha256 E tx = rbind (rwrap ''decode tron raw_data_hex'' (hex_DecodeString (ttRawDataHex tx))) (\<lambda>raw. Ok (sha256 E raw))"

definition SignAndBroadcast :: "primitives \<Rightarrow> network \<Rightarrow> tron_transaction \<Rightarrow> (message, string) io" where
  "SignAndBroadcast E N tx =
     ibind (ilift (tron_sha256 E tx)) (\<lambda>h.
     ibind (ilift (rwrap ''sign tron transaction'' (nSignHash N h))) (\<lambda>sig.
     let signed = tx\<lparr>ttSignature := [hex_EncodeToString sig]\<rparr> in
     ibind (icall (BroadcastTransaction signed) (nBroadcast N signed)) (\<lambda>res.
     ilift (if \<not> arResult res then Err (Wrapped ''tron broadcast rejected'' (External (api_message res)))
            else Ok (hex_EncodeToString h)))))"

section \<open>Waiting for a transaction\<close>

text \<open>Both loops end when the context is done; \<open>polls\<close> is how many rounds it grants. \<open>Some r\<close> is a return.\<close>

definition failure_message :: "tx_info \<Rightarrow> string" where
  "failure_message info =
     (let message = (case hex_DecodeString (tiResMessage info) of
                       Inl _ \<Rightarrow> tiResMessage info
                     | Inr decoded \<Rightarrow> if decoded \<noteq> [] then bytes_string decoded else tiResMessage info)
      in if message = [] then ''FAILED'' else message)"

fun wait_blocks :: "network \<Rightarrow> sun \<Rightarrow> nat \<Rightarrow> (message, bool) io" where
  "wait_blocks N targetBlock 0 = ifail (Errorf ''timeout waiting for Tron confirmations'')"
| "wait_blocks N targetBlock (Suc polls) =
     ibind (iattempt (icall GetNowBlock (nNowBlock N))) (\<lambda>number.
     case number of
       Inr b \<Rightarrow> if targetBlock \<le>s b then ireturn True else wait_blocks N targetBlock polls
     | Inl _ \<Rightarrow> wait_blocks N targetBlock polls)"

fun WaitForTronTransaction :: "network \<Rightarrow> string \<Rightarrow> 64 word \<Rightarrow> nat \<Rightarrow> (message, bool) io" where
  "WaitForTronTransaction N txHash confirmations 0 = ifail (Errorf ''timeout waiting for Tron transaction'')"
| "WaitForTronTransaction N txHash confirmations (Suc polls) =
     ibind (iattempt (icall (GetTransactionInfo txHash) (nTxInfo N txHash))) (\<lambda>answer.
     case answer of
       Inr info \<Rightarrow>
         if tiID info = [] then WaitForTronTransaction N txHash confirmations polls
         else if tiResult info = ''FAILED'' then ifail (Wrapped ''tron transaction failed'' (External (failure_message info)))
         else if confirmations \<le> 1 then ireturn True
         else wait_blocks N (tiBlockNumber info + confirmations - 1) polls
     | Inl _ \<Rightarrow> WaitForTronTransaction N txHash confirmations polls)"

section \<open>Fees\<close>

definition TronDefaultFeeLimitSun :: int where "TronDefaultFeeLimitSun = 1000000000"
definition TronFeePaddingBps :: int where "TronFeePaddingBps = 2000"

definition availableResource :: "sun \<Rightarrow> sun \<Rightarrow> int" where
  "availableResource limit used = (if used <s limit then sint (limit - used) else 0)"

definition getChainParameterValue :: "(string \<times> sun) list \<Rightarrow> string \<Rightarrow> int result" where
  "getChainParameterValue params key =
     (case find (\<lambda>(k, _). k = key) params of
        Some (_, v) \<Rightarrow> Ok (sint v) | None \<Rightarrow> Err (Errorf ''missing Tron chain parameter''))"

definition estimated_energy :: "network \<Rightarrow> tron_call \<Rightarrow> constant_result \<Rightarrow> int" where
  "estimated_energy N call constantResult =
     (case nEstimateEnergy N call of
        Inr (result, required) \<Rightarrow>
          if arResult result \<and> 0 <s required then sint required else sint (crEnergyUsed constantResult)
      | Inl _ \<Rightarrow> sint (crEnergyUsed constantResult))"

definition EstimateTronFeeSunWithPadding ::
    "primitives \<Rightarrow> network \<Rightarrow> string \<Rightarrow> string \<Rightarrow> byte list \<Rightarrow> int \<Rightarrow> int result" where
  "EstimateTronFeeSunWithPadding E N owner contract callData callValueSun =
     (let callValue = (if callValueSun > 0 then word_of_int callValueSun else 0);
          call = \<lparr>tcOwner = owner, tcContract = contract, tcData = callData, tcCallValue = callValue, tcFeeLimit = 0\<rparr> in
      rbind (rwrap ''tron constant contract call''
        (rbind (nConstantCall N call) (\<lambda>r.
         if \<not> arResult (crResult r) then Err (Wrapped ''tron triggerconstantcontract rejected'' (External (api_message (crResult r)))) else Ok r))) (\<lambda>constantResult.
      let usedEnergy = estimated_energy N call constantResult in
      rbind (rwrap ''tron chain parameters'' (nChainParameters N)) (\<lambda>params.
      rbind (getChainParameterValue params ''getEnergyFee'') (\<lambda>energyUnitPriceSun.
      rbind (getChainParameterValue params ''getTransactionFee'') (\<lambda>bandwidthUnitPriceSun.
      rbind (tronHexPrefixed E owner) (\<lambda>ownerHexPrefixed.
      rbind (rwrap ''tron account resources'' (nAccountResource N ownerHexPrefixed)) (\<lambda>resources.
      let payableEnergy = max 0 (usedEnergy - availableResource (acEnergyLimit resources) (acEnergyUsed resources));
          txSizeBytes = int (length (crRawDataHex constantResult) div 2);
          availableBandwidth = availableResource (acFreeNetLimit resources) (acFreeNetUsed resources)
                               + availableResource (acNetLimit resources) (acNetUsed resources);
          payableBandwidth = max 0 (txSizeBytes - availableBandwidth);
          estimatedFeeSun = payableEnergy * energyUnitPriceSun + payableBandwidth * bandwidthUnitPriceSun;
          paddedFeeSun = estimatedFeeSun + (estimatedFeeSun * TronFeePaddingBps) div 10000
      in Ok (if paddedFeeSun > TronDefaultFeeLimitSun then TronDefaultFeeLimitSun else paddedFeeSun))))))))"

section \<open>Simulation and allowances\<close>

text \<open>\<open>nEthCall\<close> answers with the result text, or with the revert of the node as an error.\<close>

definition ethCall :: "network \<Rightarrow> int \<Rightarrow> string \<Rightarrow> string \<Rightarrow> byte list \<Rightarrow> int option \<Rightarrow> (message, string) io" where
  "ethCall N chainID owner contract data value0 =
     (let value = (case value0 of Some v \<Rightarrow> if v > 0 then Some v else None | None \<Rightarrow> None)
      in icall (EthCall chainID owner contract data value) (nEthCall N chainID owner contract data value))"

definition SimulateTronTransaction ::
    "primitives \<Rightarrow> network \<Rightarrow> int \<Rightarrow> string \<Rightarrow> string \<Rightarrow> byte list \<Rightarrow> int \<Rightarrow> (message, unit) io" where
  "SimulateTronTransaction E N chainID contractAddress owner callData valueSun =
     ibind (ilift (AddressToHexFormat E contractAddress)) (\<lambda>contractHex.
     ibind (ilift (AddressToHexFormat E owner)) (\<lambda>ownerHex.
     ibind (iwrap ''tron transaction simulation reverted'' (ethCall N chainID ownerHex contractHex callData (Some valueSun))) (\<lambda>_.
     ireturn ())))"

definition tronAllowance :: "primitives \<Rightarrow> network \<Rightarrow> int \<Rightarrow> string \<Rightarrow> string \<Rightarrow> string \<Rightarrow> (message, int) io" where
  "tronAllowance E N chainID tokenHex ownerHex spenderHex =
     ibind (ilift (nAllowanceCalldata N (hexToAddress E ownerHex) (hexToAddress E spenderHex))) (\<lambda>data.
     ibind (ethCall N chainID ownerHex tokenHex data None) (\<lambda>result.
     ireturn (SetBytes (fromHex E result))))"

record token_approval =
  taTokenBase58 :: string
  taTokenHex :: string
  taAmount :: int

definition positiveAmount :: "int option \<Rightarrow> int" where
  "positiveAmount amount = (case amount of Some a \<Rightarrow> if a > 0 then a else 0 | None \<Rightarrow> 0)"

text \<open>The native total, the approvals in the order of their first token, and the index of each token.\<close>

type_synonym split_state = "int \<times> token_approval list \<times> (string, nat) gomap"

definition split_token ::
    "primitives \<Rightarrow> sealing \<Rightarrow> split_state \<Rightarrow> erc20_token \<times> int \<Rightarrow> split_state result" where
  "split_token E S = (\<lambda>(total, approvals, index) (token, amount).
     if EqualFold (TokenAddress token) ZeroAddress then Ok (total + amount, approvals, index)
     else
       rbind (AddressToHexFormat E (TokenAddress token)) (\<lambda>tokenHex.
       let key = ToLower tokenHex in
       rbind (case mget index key of
                Some i \<Rightarrow> Ok (i, approvals, index)
              | None \<Rightarrow>
                  rbind (EVMHexToTronBase58Address E S tokenHex) (\<lambda>tokenBase58.
                  Ok (length approvals, approvals @ [\<lparr>taTokenBase58 = tokenBase58, taTokenHex = tokenHex, taAmount = 0\<rparr>],
                      mput key (length approvals) index))) (\<lambda>(i, approvals, index).
       rbind (index_at approvals i) (\<lambda>a.
       Ok (total, approvals[i := a\<lparr>taAmount := taAmount a + amount\<rparr>], index)))))"

definition tronTokenAmountMismatch :: go_error where "tronTokenAmountMismatch = Errorf ''tron: token and amount length mismatch''"

definition SplitTokensByNative ::
    "primitives \<Rightarrow> sealing \<Rightarrow> erc20_token list \<Rightarrow> int list \<Rightarrow> (int \<times> token_approval list) result" where
  "SplitTokensByNative E S tokens amounts =
     (if length tokens \<noteq> length amounts then Err tronTokenAmountMismatch
      else
        rbind (rfold (split_token E S) (0, [], []) (zip tokens amounts)) (\<lambda>(total, approvals, _).
        Ok (positiveAmount (Some total), approvals)))"

definition NormalizedTokenAddresses :: "primitives \<Rightarrow> erc20_token list \<Rightarrow> string list result" where
  "NormalizedTokenAddresses E tokens =
     rmap (\<lambda>token. if EqualFold (TokenAddress token) ZeroAddress then Ok ZeroAddress
                   else AddressToHexFormat E (TokenAddress token)) tokens"

fun all_tron_approved ::
    "primitives \<Rightarrow> network \<Rightarrow> int \<Rightarrow> string \<Rightarrow> string \<Rightarrow> (string \<times> int) list \<Rightarrow> (message, bool) io" where
  "all_tron_approved E N chainID ownerHex spenderHex [] = ireturn True"
| "all_tron_approved E N chainID ownerHex spenderHex ((token, required) # rs) =
     ibind (ilift (AddressToHexFormat E token)) (\<lambda>tokenHex.
     ibind (tronAllowance E N chainID tokenHex ownerHex spenderHex) (\<lambda>allowance.
     if allowance < required then ireturn False else all_tron_approved E N chainID ownerHex spenderHex rs))"

fun tron_approval_rounds ::
    "primitives \<Rightarrow> network \<Rightarrow> int \<Rightarrow> string \<Rightarrow> string \<Rightarrow> (string \<times> int) list \<Rightarrow> nat \<Rightarrow> (message, unit) io" where
  "tron_approval_rounds E N chainID ownerHex spenderHex valid 0 = ireturn ()"
| "tron_approval_rounds E N chainID ownerHex spenderHex valid (Suc attempts) =
     ibind (all_tron_approved E N chainID ownerHex spenderHex valid) (\<lambda>allApproved.
     if allApproved then ireturn () else tron_approval_rounds E N chainID ownerHex spenderHex valid attempts)"

definition WaitForTronErc20Approvals ::
    "primitives \<Rightarrow> network \<Rightarrow> int \<Rightarrow> string \<Rightarrow> string \<Rightarrow> (string \<times> int) list \<Rightarrow> nat \<Rightarrow> (message, unit) io" where
  "WaitForTronErc20Approvals E N chainID owner spender requirements maxAttempts =
     ibind (ilift (AddressToHexFormat E owner)) (\<lambda>ownerHex.
     ibind (ilift (AddressToHexFormat E spender)) (\<lambda>spenderHex.
     let valid = filter (\<lambda>(token, required). required > 0 \<and> \<not> EqualFold token ZeroAddress \<and> token \<noteq> []) requirements in
     if valid = [] then ireturn ()
     else tron_approval_rounds E N chainID ownerHex spenderHex valid maxAttempts))"

text \<open>One approval: nothing when the allowance suffices; otherwise it is broadcast and waited for.\<close>

definition approve_one ::
    "primitives \<Rightarrow> network \<Rightarrow> int \<Rightarrow> string \<Rightarrow> string \<Rightarrow> string \<Rightarrow> (string \<times> int) list \<Rightarrow> token_approval \<Rightarrow>
     (message, (string \<times> int) list) io" where
  "approve_one E N chainID ownerBase58 ownerHex spenderHex requirements approval =
     (if taAmount approval \<le> 0 then ireturn requirements
      else
        ibind (tronAllowance E N chainID (taTokenHex approval) ownerHex spenderHex) (\<lambda>allowance.
        if allowance \<ge> taAmount approval then ireturn requirements
        else
          ibind (ilift (nApproveCalldata N (hexToAddress E spenderHex) (taAmount approval))) (\<lambda>approveData.
          ibind (iwrap ''tron build approve''
            (TriggerSmartContract N ownerBase58 (taTokenBase58 approval) approveData 0 (word_of_int TronDefaultFeeLimitSun))) (\<lambda>approveTx.
          ibind (iwrap ''tron token approval failed'' (SignAndBroadcast E N approveTx)) (\<lambda>_.
          ireturn (requirements @ [(taTokenBase58 approval, taAmount approval)]))))))"

definition ApproveTokens ::
    "primitives \<Rightarrow> network \<Rightarrow> int \<Rightarrow> string \<Rightarrow> string \<Rightarrow> string \<Rightarrow> token_approval list \<Rightarrow> (message, unit) io" where
  "ApproveTokens E N chainID ownerBase58 ownerHex spenderBase58 approvals =
     (if approvals = [] then ireturn ()
      else
        ibind (ilift (AddressToHexFormat E spenderBase58)) (\<lambda>spenderHex.
        ibind (ifold (approve_one E N chainID ownerBase58 ownerHex spenderHex) [] approvals) (\<lambda>requirements.
        if requirements = [] then ireturn ()
        else WaitForTronErc20Approvals E N chainID ownerBase58 spenderBase58 requirements 30)))"

section \<open>The transaction of the wallet\<close>

record tron_direct_params =
  tdAmounts :: "int list"
  tdTokensToApprove :: "erc20_token list"
  tdZkCallData :: zk_proof
  tdCircomData :: circom_data
  tdDimData :: dim_data
  tdContractApproval :: string
  tdContractTransact :: string
  tdPreEstimateGas :: bool
  tdPrecomputedProofSignature :: "tron_proof_signature option"

definition hexTo32 :: "primitives \<Rightarrow> string \<Rightarrow> byte list result" where
  "hexTo32 E s =
     (let b = fromHex E s in if length b \<noteq> 32 then Err (Errorf ''tron: expected 32-byte value'') else Ok b)"

definition ErrInsufficientTronBalance :: go_error where "ErrInsufficientTronBalance = Errorf ''INSUFFICIENT_TRON_BALANCE_FOR_FEE''"

text \<open>The simulation and the balance check before the transaction; a failed fee estimate counts as the limit.\<close>

definition pre_estimate ::
    "primitives \<Rightarrow> network \<Rightarrow> int \<Rightarrow> string \<Rightarrow> string \<Rightarrow> byte list \<Rightarrow> int \<Rightarrow> (message, unit) io" where
  "pre_estimate E N chainID contract owner callData callValueSun =
     ibind (SimulateTronTransaction E N chainID contract owner callData callValueSun) (\<lambda>_.
     ibind (ilift (rwrap ''tron get account'' (nBalanceSun N owner))) (\<lambda>senderBalanceSun.
     let estimatedFeeSun = (case EstimateTronFeeSunWithPadding E N owner contract callData callValueSun of
                              Inl _ \<Rightarrow> TronDefaultFeeLimitSun | Inr fee \<Rightarrow> fee)
     in if senderBalanceSun < callValueSun + estimatedFeeSun then ifail ErrInsufficientTronBalance else ireturn ()))"

definition TransactCallDirectTron ::
    "primitives \<Rightarrow> sealing \<Rightarrow> network \<Rightarrow> int \<Rightarrow> tron_direct_params \<Rightarrow> (message, string) io" where
  "TransactCallDirectTron E S N chainID p =
     (if length (tdAmounts p) \<noteq> length (tdTokensToApprove p) then ifail tronTokenAmountMismatch
      else
        let owner = nTronAddress N in
        ibind (ilift (AddressToHexFormat E owner)) (\<lambda>ownerHex.
        ibind (ilift (nHinkalAddress N chainID)) (\<lambda>hinkalHex.
        ibind (ilift (EVMHexToTronBase58Address E S hinkalHex)) (\<lambda>hinkalBase58.
        ibind (ilift (if tdContractApproval p \<noteq> [] then ToTronBase58IfHex E S (tdContractApproval p) else Ok hinkalBase58)) (\<lambda>contractForApproval.
        ibind (ilift (if tdContractTransact p \<noteq> [] then ToTronBase58IfHex E S (tdContractTransact p) else Ok hinkalBase58)) (\<lambda>contractForTransaction.
        ibind (ilift (SplitTokensByNative E S (tdTokensToApprove p) (tdAmounts p))) (\<lambda>(callValueSun, approvals).
        ibind (ApproveTokens E N chainID owner ownerHex contractForApproval approvals) (\<lambda>_.
        ibind (case tdPrecomputedProofSignature p of
                 Some sig \<Rightarrow> ireturn sig
               | None \<Rightarrow>
                   ibind (ReorderZkCallData E N chainID (tdZkCallData p) (tdDimData p) (tdCircomData p) False False) (\<lambda>(_, sig).
                   ireturn sig)) (\<lambda>proofSig.
        ibind (ilift (hexTo32 E (tpR proofSig))) (\<lambda>proofR.
        ibind (ilift (hexTo32 E (tpS proofSig))) (\<lambda>proofS.
        ibind (ilift (nPackTronTransact N chainID (word_of_int (tpV proofSig)) proofR proofS (tdZkCallData p) (tdDimData p) (tdCircomData p))) (\<lambda>callData.
        ibind (if tdPreEstimateGas p then pre_estimate E N chainID contractForTransaction owner callData callValueSun else ireturn ()) (\<lambda>_.
        ibind (iwrap ''tron build transact''
          (TriggerSmartContract N owner contractForTransaction callData (word_of_int callValueSun) (word_of_int TronDefaultFeeLimitSun))) (\<lambda>sendTx.
        SignAndBroadcast E N sendTx))))))))))))))"

end
