(* ===== verification/Transact.thy ===== *)
theory Transact
  imports EvmSubmit TronSubmit EnclaveCalls Padding
begin

text \<open>
  \<open>internal/functions/transactions\<close>, the execution of one transaction: \<open>transact_types.go\<close>,
  \<open>submit_proof.go\<close> and \<open>hinkal_transact.go\<close>. A proof is built here from the wallet's notes, or prepared by
  the enclave and signed; it is then returned, sent from the wallet, or handed to a relayer.
\<close>

section \<open>Types\<close>

record relayer_submit =
  rsAdminData :: "admin_data option"
  rsAuthorizationData :: "authorization_data option"
  rsWithUniswapWorkAround :: bool

record self_submit =
  ssErc20Tokens :: "erc20_token list"
  ssApprovalAmounts :: "int list"
  ssPreEstimateGas :: bool
  ssReturnTxData :: bool

text \<open>The mode is a text; the payload of a mode is a pointer.\<close>

record transact_submit =
  suMode :: string
  suRelayer :: "relayer_submit option"
  suSelf :: "self_submit option"

definition SubmitModeRelayer :: string where "SubmitModeRelayer = ''relayer''"
definition SubmitModeSelf :: string where "SubmitModeSelf = ''self''"
definition SubmitModeProofOnly :: string where "SubmitModeProofOnly = ''proof_only''"

definition NewRelayerSubmit :: "relayer_submit \<Rightarrow> transact_submit" where
  "NewRelayerSubmit submit = \<lparr>suMode = SubmitModeRelayer, suRelayer = Some submit, suSelf = None\<rparr>"

definition NewSelfSubmit :: "self_submit \<Rightarrow> transact_submit" where
  "NewSelfSubmit submit = \<lparr>suMode = SubmitModeSelf, suRelayer = None, suSelf = Some submit\<rparr>"

definition NewProofOnlySubmit :: transact_submit where
  "NewProofOnlySubmit = \<lparr>suMode = SubmitModeProofOnly, suRelayer = None, suSelf = None\<rparr>"

record transact_proof =
  tpfZkCallData :: zk_proof
  tpfCircomData :: circom_data
  tpfDimData :: dim_data
  tpfCommitmentValidationData :: "commitment_validation option"
  tpfTronProofSignature :: "tron_proof_signature option"

record transact_params =
  htChainID :: int
  htErc20Addresses :: "string slice"
  htAmountChanges :: "int slice"
  htExternalAddress :: string
  htExternalActionID :: string
  htExternalActionMetadata :: "string slice"
  htFeeStructure :: "fee_structure option"
  htRelay :: string
  htAutoSelectRelay :: bool
  htOnChainCreation :: "bool slice"
  htRecipientAddress :: string
  htRecipientAmounts :: "int slice"
  htSelfOutputAmounts :: "int slice"
  htUseBlockedUtxos :: bool
  htCreateBlockedUtxos :: bool
  htForceEmptyUtxos :: bool
  htSkipLock :: bool
  htMessageSeed :: "int option"
  htOriginalSender :: string
  htSpeculative :: "speculative_params option"
  htSlippageValues :: "int slice"
  htSubmit :: transact_submit
  htInputUtxos :: "utxo list slice"
  htUserKeys :: "user_keys option"
  htSubAccountPrivateKey :: string
  htEmporiumOps :: "string slice"
  htNeedsRelay :: bool
  htSkipRelayReservation :: bool
  htOnTxConfirm :: "(circom_data \<Rightarrow> (message, unit) io) option"

definition no_transact_params :: transact_params where
  "no_transact_params = \<lparr>htChainID = 0, htErc20Addresses = None, htAmountChanges = None, htExternalAddress = [],
     htExternalActionID = [], htExternalActionMetadata = None, htFeeStructure = None, htRelay = [],
     htAutoSelectRelay = False, htOnChainCreation = None, htRecipientAddress = [], htRecipientAmounts = None,
     htSelfOutputAmounts = None, htUseBlockedUtxos = False, htCreateBlockedUtxos = False, htForceEmptyUtxos = False,
     htSkipLock = False, htMessageSeed = None, htOriginalSender = [], htSpeculative = None, htSlippageValues = None,
     htSubmit = \<lparr>suMode = [], suRelayer = None, suSelf = None\<rparr>, htInputUtxos = None, htUserKeys = None,
     htSubAccountPrivateKey = [], htEmporiumOps = None, htNeedsRelay = False, htSkipRelayReservation = False,
     htOnTxConfirm = None\<rparr>"

text \<open>The proof of a result is absent where the code leaves the zero value.\<close>

record transact_result =
  trTxHash :: string
  trTxRequest :: "tx_request option"
  trProof :: "transact_proof option"

section \<open>Submitting a proof\<close>

definition errTronReturnTxDataNotImplemented :: go_error where
  "errTronReturnTxDataNotImplemented = Errorf ''transactions: Tron returnTxData is not implemented''"

definition deref :: "'a option \<Rightarrow> 'a result" where
  "deref x = (case x of None \<Rightarrow> Err Panic | Some v \<Rightarrow> Ok v)"

definition relay_proof :: "network \<Rightarrow> transact_params \<Rightarrow> transact_proof \<Rightarrow> tron_proof_signature option \<Rightarrow> (message, transact_result) io" where
  "relay_proof N p proof tronSig =
     ibind (ilift (deref (suRelayer (htSubmit p)))) (\<lambda>relayer.
     ibind (TransactCallRelayer N (htChainID p) (tpfZkCallData proof) (tpfDimData proof) (tpfCircomData proof)
              (tpfCommitmentValidationData proof) (rsWithUniswapWorkAround relayer) (rsAuthorizationData relayer)
              (rsAdminData relayer) tronSig) (\<lambda>txHash.
     ireturn \<lparr>trTxHash = txHash, trTxRequest = None, trProof = Some proof\<rparr>))"

definition submitEvm ::
    "primitives \<Rightarrow> sealing \<Rightarrow> network \<Rightarrow> transact_params \<Rightarrow> transact_proof \<Rightarrow> (message, transact_result) io" where
  "submitEvm E S N p proof =
     (if suMode (htSubmit p) = SubmitModeProofOnly then
        ireturn \<lparr>trTxHash = [], trTxRequest = None, trProof = Some proof\<rparr>
      else if suMode (htSubmit p) = SubmitModeSelf then
        ibind (ilift (nProviderAdapter N (htChainID p))) (\<lambda>_.
        ibind (ilift (deref (suSelf (htSubmit p)))) (\<lambda>self.
        ibind (TransactCallDirect E S N (htChainID p)
                 \<lparr>dpAmounts = ssApprovalAmounts self, dpTokensToApprove = ssErc20Tokens self,
                  dpZkCallData = tpfZkCallData proof, dpCircomData = tpfCircomData proof, dpDimData = tpfDimData proof,
                  dpContractApproval = [], dpContractTransact = [], dpPreEstimateGas = ssPreEstimateGas self,
                  dpReturnTxData = ssReturnTxData self\<rparr>) (\<lambda>(txRequest, txHash).
        ireturn \<lparr>trTxHash = txHash, trTxRequest = Some txRequest, trProof = Some proof\<rparr>)))
      else if suMode (htSubmit p) = SubmitModeRelayer then relay_proof N p proof None
      else ifail (Errorf ''transactions: submitEvm: unhandled submit mode''))"

definition submitTron ::
    "primitives \<Rightarrow> sealing \<Rightarrow> network \<Rightarrow> transact_params \<Rightarrow> transact_proof \<Rightarrow> (message, transact_result) io" where
  "submitTron E S N p proof =
     (if suMode (htSubmit p) = SubmitModeSelf then
        ibind (ilift (deref (suSelf (htSubmit p)))) (\<lambda>self.
        if ssReturnTxData self then ifail errTronReturnTxDataNotImplemented
        else
          ibind (ilift (nTronWeb N)) (\<lambda>_.
          ibind (TransactCallDirectTron E S N (htChainID p)
                   \<lparr>tdAmounts = ssApprovalAmounts self, tdTokensToApprove = ssErc20Tokens self,
                    tdZkCallData = tpfZkCallData proof, tdCircomData = tpfCircomData proof, tdDimData = tpfDimData proof,
                    tdContractApproval = [], tdContractTransact = [], tdPreEstimateGas = ssPreEstimateGas self,
                    tdPrecomputedProofSignature = tpfTronProofSignature proof\<rparr>) (\<lambda>txid.
          ireturn \<lparr>trTxHash = txid, trTxRequest = None, trProof = Some proof\<rparr>)))
      else
        ibind (case tpfTronProofSignature proof of
                 Some _ \<Rightarrow> ireturn (proof\<lparr>tpfZkCallData := SwapTronBCoordinate (tpfZkCallData proof)\<rparr>)
               | None \<Rightarrow>
                   ibind (ReorderZkCallData E N (htChainID p) (tpfZkCallData proof) (tpfDimData proof) (tpfCircomData proof)
                            True (htSkipLock p)) (\<lambda>(zk, sig).
                   ireturn (proof\<lparr>tpfZkCallData := zk, tpfTronProofSignature := Some sig\<rparr>))) (\<lambda>proof.
        if suMode (htSubmit p) = SubmitModeProofOnly then
          ireturn \<lparr>trTxHash = [], trTxRequest = None, trProof = Some proof\<rparr>
        else if suMode (htSubmit p) = SubmitModeRelayer then relay_proof N p proof (tpfTronProofSignature proof)
        else ifail (Errorf ''transactions: submitTron: unhandled submit mode'')))"

definition SubmitProof ::
    "primitives \<Rightarrow> sealing \<Rightarrow> network \<Rightarrow> transact_params \<Rightarrow> transact_proof \<Rightarrow> (message, transact_result) io" where
  "SubmitProof E S N p proof = (if IsTronLike (htChainID p) then submitTron E S N p proof else submitEvm E S N p proof)"

definition submitAndConfirm ::
    "primitives \<Rightarrow> sealing \<Rightarrow> network \<Rightarrow> transact_params \<Rightarrow> transact_proof \<Rightarrow> (message, transact_result) io" where
  "submitAndConfirm E S N p proof =
     ibind (SubmitProof E S N p proof) (\<lambda>result.
     case htOnTxConfirm p of
       Some confirm \<Rightarrow>
         if suMode (htSubmit p) \<noteq> SubmitModeProofOnly
         then ibind (confirm (tpfCircomData proof)) (\<lambda>_. ireturn result) else ireturn result
     | None \<Rightarrow> ireturn result)"

section \<open>Building the proof here\<close>

definition twoDimensionalInputCount :: nat where "twoDimensionalInputCount = 2"
definition sixDimensionalInputCount :: nat where "sixDimensionalInputCount = 6"

definition errTransactUserKeysNeedInputUtxos :: go_error where
  "errTransactUserKeysNeedInputUtxos = Errorf ''transactions: HinkalTransact: UserKeys requires explicit InputUtxos''"
definition errTransactEmptyInputUtxos :: go_error where
  "errTransactEmptyInputUtxos = Errorf ''transactions: HinkalTransact: InputUtxos must contain at least one note per token''"
definition errTransactSelfOutputShape :: go_error where
  "errTransactSelfOutputShape = Errorf ''transactions: selfOutputAmounts only supports a single token with a single self-output''"

text \<open>Padding note \<open>j\<close> of token \<open>i\<close> draws from \<open>g i j\<close>.\<close>

definition padInputUtxos :: "primitives \<Rightarrow> (nat \<Rightarrow> nat \<Rightarrow> fresh) \<Rightarrow> user_keys \<Rightarrow> utxo list list \<Rightarrow> utxo list list result" where
  "padInputUtxos E g uk inputUtxos =
     (let maxNotes = foldl max 0 (map length inputUtxos);
          targetCount = (if maxNotes \<le> twoDimensionalInputCount then twoDimensionalInputCount else sixDimensionalInputCount) in
      rbind (snd (GetShieldedPrivateKey E uk)) (\<lambda>spk.
      rbind (GetSpendingKeyPair E uk) (\<lambda>pair.
      let spendingPublicKey = [fst (PubSpendingBJJPoint pair), snd (PubSpendingBJJPoint pair)] in
      rmap (\<lambda>(i, notes).
        if notes = [] then Err errTransactEmptyInputUtxos
        else
          let reference = hd notes
          in rbind (rmap (\<lambda>j. zero_note E (g i j) (Erc20TokenAddress reference) (MintAddress reference) spk spendingPublicKey)
                      [length notes ..< targetCount]) (\<lambda>padding. Ok (notes @ padding))) (enumerate 0 inputUtxos))))"

definition splitSelfOutput :: "primitives \<Rightarrow> (nat \<Rightarrow> fresh) \<Rightarrow> user_keys \<Rightarrow> utxo list list \<Rightarrow> int list \<Rightarrow> utxo list list result" where
  "splitSelfOutput E g uk outputUtxosArray selfOutputAmounts =
     (case outputUtxosArray of
        [[selfOutput]] \<Rightarrow>
          rbind (deref (Amount selfOutput)) (\<lambda>amount.
          if foldl (+) 0 selfOutputAmounts \<noteq> amount then Err (Errorf ''transactions: selfOutputAmounts sum'')
          else
            rbind (snd (GetShieldedPrivateKey E uk)) (\<lambda>spk.
            rbind (GetSpendingKeyPair E uk) (\<lambda>pair.
            rbind (rmap (\<lambda>(i, a). NewUtxo E (fst (g i)) (snd (g i))
                      (no_params\<lparr>pAmount := Some a, pErc20TokenAddress := Erc20TokenAddress selfOutput,
                         pMintAddress := MintAddress selfOutput, pNullifyingKey := spk, pTimeStamp := TimeStamp selfOutput,
                         pSpendingPublicKey := Some [fst (PubSpendingBJJPoint pair), snd (PubSpendingBJJPoint pair)]\<rparr>))
                    (enumerate 0 selfOutputAmounts)) (\<lambda>notes.
            Ok [notes]))))
      | _ \<Rightarrow> Err errTransactSelfOutputShape)"

text \<open>What building a proof reads of the wallet and its services, and what it draws.\<close>

record 'f wallet_services =
  wsWallet :: wallet
  wsRemote :: bool
  wsTrees :: "int \<Rightarrow> merkle option"
  wsBalance :: balance_env
  wsFloat :: "'f float64"
  wsTokens :: token_server
  wsStuck :: stuck_server
  wsEthAddress :: "string result"
  wsOnChainRoot :: "(int \<times> int) result"
  wsSiblings :: siblings_server
  wsEmporium :: emporium_encoder
  wsProver :: prover
  wsNow :: int
  wsInputFresh :: "string \<Rightarrow> nat \<Rightarrow> fresh"
  wsPadFresh :: "string \<Rightarrow> nat \<Rightarrow> nat \<Rightarrow> fresh"
  wsRowFresh :: "nat \<Rightarrow> nat \<Rightarrow> fresh"
  wsOutFresh :: "nat \<Rightarrow> nat \<Rightarrow> fresh"
  wsSelfFresh :: "nat \<Rightarrow> fresh"
  wsDraws :: draws

definition proof_inputs :: "primitives \<Rightarrow> sealing \<Rightarrow> 'f wallet_services \<Rightarrow> transact_params \<Rightarrow> user_keys \<Rightarrow> (message, utxo list list) io" where
  "proof_inputs E S W p uk =
     (case htInputUtxos p of
        Some inputUtxos \<Rightarrow> ilift (padInputUtxos E (wsRowFresh W) uk inputUtxos)
      | None \<Rightarrow>
          icache (\<lambda>d. AddPaddingToUtxos E S (wsFloat W) (wsBalance W) (wsTokens W) (wsStuck W) (wsEthAddress W)
                    (wsInputFresh W) (wsPadFresh W) (wsWallet W) d (htChainID p) (elems (htErc20Addresses p))
                    (elems (htAmountChanges p)) 0 (htForceEmptyUtxos p) (htUseBlockedUtxos p) (elems (htOnChainCreation p))))"

definition proof_outputs :: "primitives \<Rightarrow> 'f wallet_services \<Rightarrow> transact_params \<Rightarrow> user_keys \<Rightarrow> utxo list list \<Rightarrow> utxo list list result" where
  "proof_outputs E W p uk inputUtxosArray =
     rbind (BuildOutputUtxos E (wsOutFresh W) (wsNow W) uk inputUtxosArray (elems (htAmountChanges p)) (htRecipientAddress p)
              (map Some (elems (htRecipientAmounts p)))) (\<lambda>outputs.
     case htSelfOutputAmounts p of
       None \<Rightarrow> Ok outputs
     | Some amounts \<Rightarrow> splitSelfOutput E (wsSelfFresh W) uk outputs amounts)"

text \<open>The tree, and whether it is another one than the live tree.\<close>

definition proof_tree :: "primitives \<Rightarrow> merkle option \<Rightarrow> utxo list list \<Rightarrow> speculative_params option \<Rightarrow> (merkle option \<times> bool) result" where
  "proof_tree E live inputUtxosArray speculative =
     (case speculative of
        None \<Rightarrow> Ok (live, False)
      | Some sp \<Rightarrow>
          rbind (SpeculativeMerkleTree E live inputUtxosArray (elems (PendingLeaves sp))) (\<lambda>tr.
          rbind (rmap ParseBigInt (elems (PendingLeaves sp))) (\<lambda>leaves.
          rbind (deref live) (\<lambda>liveTree.
          Ok (Some tr, length (filter (Contains liveTree) leaves) \<noteq> length leaves)))))"

definition feeStructureOrZero :: "fee_structure option \<Rightarrow> fee_structure" where
  "feeStructureOrZero fee = (case fee of None \<Rightarrow> ZeroFeeStructure | Some f \<Rightarrow> f)"

definition proof_params ::
    "'f wallet_services \<Rightarrow> transact_params \<Rightarrow> user_keys \<Rightarrow> utxo list list \<Rightarrow> utxo list list \<Rightarrow> merkle option \<Rightarrow> bool \<Rightarrow> zk_params" where
  "proof_params W p uk ins outs tr speculative =
     \<lparr>zpMerkleTree = tr, zpInputUtxos = ins, zpOutputUtxos = outs, zpUserKeys = uk,
      zpExternalActionID = htExternalActionID p, zpExternalAddress = htExternalAddress p,
      zpExternalActionMetadata = elems (if htEmporiumOps p \<noteq> None then htEmporiumOps p else htExternalActionMetadata p),
      zpGenerateProofRemotely = wsRemote W, zpFeeStructure = feeStructureOrZero (htFeeStructure p), zpRelay = htRelay p,
      zpChainID = htChainID p, zpOnChainCreation = htOnChainCreation p, zpHookData = None,
      zpOriginalSender = htOriginalSender p, zpSubAccountPrivateKey = htSubAccountPrivateKey p, zpExtraData = [],
      zpIsSpeculativeTree = speculative, zpSlippageValues = htSlippageValues p\<rparr>"

definition buildProofLocally ::
    "primitives \<Rightarrow> sealing \<Rightarrow> 'f wallet_services \<Rightarrow> transact_params \<Rightarrow> user_keys \<Rightarrow> (message, transact_proof) io" where
  "buildProofLocally E S W p uk =
     ibind (proof_inputs E S W p uk) (\<lambda>ins.
     ilift
       (rbind (proof_outputs E W p uk ins) (\<lambda>outs.
        rbind (proof_tree E (wsTrees W (htChainID p)) ins (htSpeculative p)) (\<lambda>(tr, speculative).
        rbind (ConstructZkProof E S (wsOnChainRoot W) (wsSiblings W) (wsEmporium W) (wsProver W) (wsDraws W)
                 (proof_params W p uk ins outs tr speculative)) (\<lambda>proof.
        Ok \<lparr>tpfZkCallData = zrZkCallData proof, tpfCircomData = zrCircomData proof, tpfDimData = zrDimData proof,
            tpfCommitmentValidationData = zrCommitmentValidationData proof, tpfTronProofSignature = None\<rparr>)))))"

section \<open>Preparing with the enclave\<close>

definition collectInputCommitments :: "primitives \<Rightarrow> utxo list list \<Rightarrow> string list result" where
  "collectInputCommitments E inputUtxos =
     rbind (rmap (\<lambda>note. case Amount note of
                     Some a \<Rightarrow> if a \<le> 0 then Ok [] else rbind (snd (GetCommitment E note)) (\<lambda>c. Ok [c])
                   | None \<Rightarrow> Ok []) (concat inputUtxos)) (\<lambda>cs. Ok (concat cs))"

definition recipientAmountsMatrix :: "int slice \<Rightarrow> int slice slice" where
  "recipientAmountsMatrix amounts = (if elems amounts = [] then None else Some [amounts])"

definition recipientAddresses :: "string \<Rightarrow> string slice" where
  "recipientAddresses recipient = (if recipient = [] then None else Some [recipient])"

text \<open>No commitment collected leaves the slice nil.\<close>

definition prepare_params :: "transact_params \<Rightarrow> string list \<Rightarrow> prepare_tx_params" where
  "prepare_params p inputCommitments =
     \<lparr>pChainID = htChainID p, pErc20Addresses = htErc20Addresses p, pAmountChanges = htAmountChanges p,
      pExternalAddress = htExternalAddress p, pOriginalSender = htOriginalSender p, pRelay = htRelay p,
      pAutoSelectRelay = htAutoSelectRelay p, pSkipRelayReservation = htSkipRelayReservation p,
      pFeeStructure = htFeeStructure p, pExternalActionID = htExternalActionID p,
      pExternalActionMetadata = (case elems (htExternalActionMetadata p) of [] \<Rightarrow> [] | m # _ \<Rightarrow> m),
      pOnChainCreation = htOnChainCreation p, pRecipientAddress = recipientAddresses (htRecipientAddress p),
      pRecipientAmounts = recipientAmountsMatrix (htRecipientAmounts p), pSelfOutputAmounts = htSelfOutputAmounts p,
      pInputCommitments = (if inputCommitments = [] then None else Some inputCommitments),
      pUseBlockedUtxos = htUseBlockedUtxos p, pCreateBlockedUtxos = htCreateBlockedUtxos p,
      pForceEmptyUtxos = htForceEmptyUtxos p, pSkipLock = htSkipLock p, pMessageSeed = htMessageSeed p,
      pSpeculative = htSpeculative p, pSlippageValues = htSlippageValues p, pReceiveVaultAddress = []\<rparr>"

text \<open>What \<open>PrepareTxEnclaveCall\<close> posts, if it gets that far; then the call with the answer to it.\<close>

definition prepare_request :: "primitives \<Rightarrow> (int \<Rightarrow> string result) \<Rightarrow> user_keys \<Rightarrow> prepare_tx_params \<Rightarrow> prepare_tx_request result" where
  "prepare_request E addressOf uk params =
     (case GetShieldedPrivateKey E uk of (uk', key) \<Rightarrow>
        rbind key (\<lambda>nk.
        rbind (GetSpendingKeyPair E uk') (\<lambda>pair.
        buildPrepareTxRequest addressOf params nk
          (int_String (fst (PubSpendingBJJPoint pair)), int_String (snd (PubSpendingBJJPoint pair))))))"

definition prepare_call ::
    "primitives \<Rightarrow> network \<Rightarrow> int \<Rightarrow> user_keys \<Rightarrow> prepare_tx_params \<Rightarrow> (message, prepare_tx_response) io" where
  "prepare_call E N now uk params w =
     ((case prepare_request E (nHinkalAddress N) uk params of
         Inl _ \<Rightarrow> w | Inr q \<Rightarrow> w\<lparr>wSent := wSent w @ [PrepareTx q]\<rparr>),
      snd (PrepareTxEnclaveCall E now (nHinkalAddress N) (\<lambda>q. nPrepareTx N q (wSent w)) uk params))"

definition prepareEnclaveJob ::
    "primitives \<Rightarrow> network \<Rightarrow> int \<Rightarrow> transact_params \<Rightarrow> user_keys \<Rightarrow> (message, string \<times> (jub_point \<times> int)) io" where
  "prepareEnclaveJob E N now p uk =
     ibind (ilift (if htSpeculative p = None then collectInputCommitments E (elems (htInputUtxos p)) else Ok [])) (\<lambda>inputCommitments.
     ibind (prepare_call E N now uk (prepare_params p inputCommitments)) (\<lambda>prepared.
     ibind (ilift (ParseBigInt (SignedMessageHash prepared))) (\<lambda>signedMessageHash.
     ibind (ilift (SignEddsa E uk signedMessageHash)) (\<lambda>sig.
     ireturn (JobID prepared, sig)))))"

section \<open>The transaction\<close>

definition resolve_relay :: "network \<Rightarrow> bool \<Rightarrow> int \<Rightarrow> bool \<Rightarrow> (message, resolved_relay) io" where
  "resolve_relay N remote chainID skipReservation w =
     ((if remote then w else w\<lparr>wSent := wSent w @ [ReserveRelay chainID (\<not> skipReservation)]\<rparr>),
      ResolveRelay remote (\<lambda>reserve. nRandomRelay N chainID reserve (wSent w)) skipReservation)"

definition resolveTransactRelay :: "network \<Rightarrow> bool \<Rightarrow> transact_params \<Rightarrow> (message, transact_params) io" where
  "resolveTransactRelay N remote p =
     (let wantsRelay = (suMode (htSubmit p) = SubmitModeRelayer \<or> htNeedsRelay p) in
      if \<not> wantsRelay \<or> htRelay p \<noteq> [] then ireturn p
      else
        ibind (resolve_relay N remote (htChainID p) (htSkipRelayReservation p)) (\<lambda>resolved.
        ireturn (p\<lparr>htRelay := resolved_relay.Relay resolved, htAutoSelectRelay := AutoSelectRelay resolved,
                   htExternalAddress := (if htExternalAddress p = [] then resolved_relay.Relay resolved else htExternalAddress p)\<rparr>)))"

definition IsEnclaveTxChain :: "int \<Rightarrow> bool" where
  "IsEnclaveTxChain chainID = (\<not> IsSolanaLike chainID)"

definition enclave_transact ::
    "primitives \<Rightarrow> sealing \<Rightarrow> network \<Rightarrow> int \<Rightarrow> transact_params \<Rightarrow> user_keys \<Rightarrow> (message, transact_result) io" where
  "enclave_transact E S N now p uk =
     ibind (prepareEnclaveJob E N now p uk) (\<lambda>(jobID, sig).
     if suMode (htSubmit p) = SubmitModeRelayer then
       ibind (ilift (deref (suRelayer (htSubmit p)))) (\<lambda>relayer.
       let chain = int_String (htChainID p); admin = rsAdminData relayer; auth = rsAuthorizationData relayer;
           uniswap = rsWithUniswapWorkAround relayer in
       ibind (icall (FinalizeTxRelay jobID sig chain admin auth uniswap) (nFinalizeTxRelay N jobID sig chain admin auth uniswap)) (\<lambda>txHash.
       ireturn \<lparr>trTxHash = txHash, trTxRequest = None, trProof = None\<rparr>))
     else
       ibind (icall (FinalizeTx jobID sig) (nFinalizeTx N jobID sig)) (\<lambda>final.
       ibind (ilift (DeserializeCircomData (fzCircomData final))) (\<lambda>circomData.
       submitAndConfirm E S N p
         \<lparr>tpfZkCallData = fzZkCallData final, tpfCircomData = circomData, tpfDimData = fzDimData final,
          tpfCommitmentValidationData = fzCommitmentValidationData final,
          tpfTronProofSignature = fzTronProofSignature final\<rparr>)))"

definition HinkalTransact ::
    "primitives \<Rightarrow> sealing \<Rightarrow> network \<Rightarrow> 'f wallet_services \<Rightarrow> transact_params \<Rightarrow> (message, transact_result) io" where
  "HinkalTransact E S N W p0 =
     (if htUserKeys p0 \<noteq> None \<and> htInputUtxos p0 = None then ifail errTransactUserKeysNeedInputUtxos
      else
        ibind (resolveTransactRelay N (wsRemote W) p0) (\<lambda>p.
        let uk = (case htUserKeys p of Some k \<Rightarrow> k | None \<Rightarrow> keys (wsWallet W)) in
        if wsRemote W \<and> IsEnclaveTxChain (htChainID p) then enclave_transact E S N (wsNow W) p uk
        else ibind (buildProofLocally E S W p uk) (\<lambda>proof. submitAndConfirm E S N p proof)))"

end
