(* ===== verification/Actions.thy ===== *)
theory Actions
  imports Transact
begin

text \<open>
  \<open>internal/functions/transactions\<close>, the actions of a wallet on EVM and Tron chains: \<open>deposit.go\<close>,
  \<open>deposit_for_other.go\<close>, \<open>withdraw.go\<close>, \<open>transfer.go\<close>, \<open>swap.go\<close>, with \<open>fee_structure.go\<close> and
  \<open>admin_data.go\<close>. Each prepares the tokens, amounts, fee and recipients of one \<open>HinkalTransact\<close>.
\<close>

section \<open>Services and helpers\<close>

record 'f action_services = "'f wallet_services" +
  asGas :: "'f gas_server"
  asPrices :: "'f price_server"
  asVolatile :: volatile_server
  asGoos :: string
  asNowMillis :: int
  asAddressByChain :: "int \<Rightarrow> string result"
  asEthereumAddress :: "string result"
  asLifiAddress :: "int \<Rightarrow> string result"
  asDefaultSlippage :: 'f
  asSlippageBps :: "'f \<Rightarrow> int"

definition HinkalPrivateSendVariableRate :: int where "HinkalPrivateSendVariableRate = 25"
definition HinkalSwapVariableRate :: int where "HinkalSwapVariableRate = 35"
definition ExternalActionTransact :: string where "ExternalActionTransact = ''Transact''"

definition errTokenAmountLengthMismatch :: go_error where
  "errTokenAmountLengthMismatch = Errorf ''erc20Tokens and amountChanges length mismatch''"
definition ErrRecipientFormatIncorrect :: go_error where
  "ErrRecipientFormatIncorrect = Errorf ''recipient information format is incorrect''"
definition errDepositNotImplemented :: go_error where
  "errDepositNotImplemented = Errorf ''transactions: deposit is not implemented for Solana chains''"
definition errWithdrawNoToken :: go_error where
  "errWithdrawNoToken = Errorf ''transactions: withdraw action: no token found''"
definition errTransferNoToken :: go_error where
  "errTransferNoToken = Errorf ''transactions: transfer action: no token found''"

definition tokenAddresses :: "erc20_token list \<Rightarrow> string list" where
  "tokenAddresses tokens = map TokenAddress tokens"

text \<open>Amounts and rates are never nil here.\<close>

definition normalizeFeeStructure :: "fee_structure \<Rightarrow> fee_structure" where
  "normalizeFeeStructure fee = (if FeeToken fee = [] then fee\<lparr>FeeToken := DefaultFeeToken\<rparr> else fee)"

definition emitDepositAdminData ::
    "primitives \<Rightarrow> network \<Rightarrow> ('f, 'm) action_services_scheme \<Rightarrow> string \<Rightarrow> int \<Rightarrow> erc20_token list \<Rightarrow> int list \<Rightarrow> int option \<Rightarrow> string \<Rightarrow>
     (message, unit) io" where
  "emitDepositAdminData E N A action chainID tokens amountChanges variableRate txHash =
     (case asEthereumAddress A of
        Inl _ \<Rightarrow> ireturn ()
      | Inr ethereumAddress \<Rightarrow>
          (case ConstructAdminData E (asGoos A) (asNowMillis A) action chainID (tokenAddresses tokens) amountChanges ethereumAddress []
                  variableRate of
             None \<Rightarrow> ireturn ()
           | Some adminData \<Rightarrow>
               ibind (iattempt (icall (EmitPublicData adminData txHash) (nEmit N adminData txHash))) (\<lambda>_. ireturn ())))"

section \<open>Deposits\<close>

definition depositExternalAddress :: "primitives \<Rightarrow> ('f, 'm) action_services_scheme \<Rightarrow> int \<Rightarrow> string result" where
  "depositExternalAddress E A chainID = rbind (asAddressByChain A chainID) (AddressToHexFormat E)"

definition self_submit_of :: "erc20_token list \<Rightarrow> int list \<Rightarrow> bool \<Rightarrow> bool \<Rightarrow> transact_submit" where
  "self_submit_of tokens amounts preEstimateGas returnTxData =
     NewSelfSubmit \<lparr>ssErc20Tokens = tokens, ssApprovalAmounts = amounts, ssPreEstimateGas = preEstimateGas, ssReturnTxData = returnTxData\<rparr>"

definition HinkalDeposit ::
    "primitives \<Rightarrow> sealing \<Rightarrow> network \<Rightarrow> ('f, 'm) action_services_scheme \<Rightarrow> erc20_token list \<Rightarrow> int list \<Rightarrow> bool \<Rightarrow> bool \<Rightarrow> string \<Rightarrow>
     (message, tx_request option \<times> string) io" where
  "HinkalDeposit E S N A tokens amountChanges preEstimateGas returnTxData action =
     ibind (ilift (ValidateAndGetChainID tokens)) (\<lambda>chainID.
     if IsSolanaLike chainID then ifail errDepositNotImplemented
     else if returnTxData \<and> IsTronLike chainID then ifail errTronReturnTxDataNotImplemented
     else
       ibind (ilift (depositExternalAddress E A chainID)) (\<lambda>ethereumAddress.
       ibind (HinkalTransact E S N (wallet_services.truncate A)
                (no_transact_params\<lparr>htChainID := chainID, htErc20Addresses := Some (tokenAddresses tokens),
                   htAmountChanges := Some amountChanges, htExternalAddress := ethereumAddress,
                   htSubmit := self_submit_of tokens amountChanges preEstimateGas returnTxData\<rparr>)) (\<lambda>result.
       ibind (if \<not> returnTxData
              then emitDepositAdminData E N A action chainID tokens amountChanges None (trTxHash result)
              else ireturn ()) (\<lambda>_.
       ireturn (trTxRequest result, trTxHash result)))))"

definition HinkalDepositForOther ::
    "primitives \<Rightarrow> sealing \<Rightarrow> network \<Rightarrow> ('f, 'm) action_services_scheme \<Rightarrow> erc20_token list \<Rightarrow> int list \<Rightarrow> string \<Rightarrow> bool \<Rightarrow> bool \<Rightarrow> string \<Rightarrow>
     (message, tx_request option \<times> string) io" where
  "HinkalDepositForOther E S N A tokens amountChanges recipientInfo preEstimateGas returnTxData action =
     ibind (ilift (ValidateAndGetChainID tokens)) (\<lambda>chainID.
     if IsSolanaLike chainID then ifail errDepositNotImplemented
     else if \<not> IsValidPrivateAddress recipientInfo then ifail ErrRecipientFormatIncorrect
     else if returnTxData \<and> IsTronLike chainID then ifail errTronReturnTxDataNotImplemented
     else
       ibind (ilift (depositExternalAddress E A chainID)) (\<lambda>ethereumAddress.
       ibind (HinkalTransact E S N (wallet_services.truncate A)
                (no_transact_params\<lparr>htChainID := chainID, htErc20Addresses := Some (tokenAddresses tokens),
                   htAmountChanges := Some (map (\<lambda>_. 0) amountChanges), htExternalAddress := ethereumAddress,
                   htRecipientAddress := recipientInfo, htRecipientAmounts := Some amountChanges, htForceEmptyUtxos := True,
                   htSubmit := self_submit_of tokens amountChanges preEstimateGas returnTxData\<rparr>)) (\<lambda>result.
       ibind (if \<not> returnTxData
              then emitDepositAdminData E N A action chainID tokens amountChanges None (trTxHash result)
              else ireturn ()) (\<lambda>_.
       ireturn (trTxRequest result, trTxHash result)))))"

section \<open>Withdrawals\<close>

definition resolveWithdrawFeeStructure ::
    "('f, 'm) action_services_scheme \<Rightarrow> int \<Rightarrow> string \<Rightarrow> string list \<Rightarrow> fee_structure option \<Rightarrow> int option \<Rightarrow> fee_structure result" where
  "resolveWithdrawFeeStructure A chainID feeToken erc20Addresses feeStructureOverride variableRateOverride =
     (case feeStructureOverride of
        Some fee \<Rightarrow> Ok (normalizeFeeStructure (case variableRateOverride of None \<Rightarrow> fee | Some r \<Rightarrow> fee\<lparr>VariableRate := r\<rparr>))
      | None \<Rightarrow>
          rbind (GetFeeStructure (wsFloat A) (wsTokens A) (asGas A) chainID feeToken erc20Addresses ExternalActionTransact []
                   variableRateOverride) (\<lambda>fee. Ok (normalizeFeeStructure fee)))"

text \<open>The sender's spend is raised so that the recipient still gets the amount after the rate is cut.\<close>

definition gross_up :: "int \<Rightarrow> int list \<Rightarrow> nat \<Rightarrow> int list \<Rightarrow> int list result" where
  "gross_up rate preFeeAmounts n amountChanges =
     rfold (\<lambda>amounts i.
       rbind (index_at amounts i) (\<lambda>amount.
       if amount \<ge> 0 then Ok amounts
       else
         rbind (index_at preFeeAmounts i) (\<lambda>pre.
         rbind (CalculateVariableFeeGrossUp (- pre) rate) (\<lambda>grossUp.
         Ok (amounts[i := amount - grossUp]))))) amountChanges [0 ..< n]"

definition withdraw_amounts ::
    "('f, 'm) action_services_scheme \<Rightarrow> int \<Rightarrow> erc20_token list \<Rightarrow> int list \<Rightarrow> fee_structure \<Rightarrow> (string list \<times> int list) result" where
  "withdraw_amounts A chainID tokens amountChanges fee =
     rbind (MergeWithFeeStructure (wsTokens A) chainID (tokenAddresses tokens) amountChanges fee) (\<lambda>(addresses, merged).
     rbind (if VariableRate fee > 0 then gross_up (VariableRate fee) amountChanges (length tokens) merged else Ok merged) (\<lambda>amounts.
     Ok (addresses, amounts)))"

text \<open>Whoever sends the transaction himself is its original sender.\<close>

definition withdraw_sender :: "primitives \<Rightarrow> int \<Rightarrow> bool \<Rightarrow> string \<Rightarrow> string result" where
  "withdraw_sender E chainID isRelayerOff ethereumAddress =
     (if \<not> isRelayerOff then Ok []
      else if IsTronLike chainID then AddressToHexFormat E ethereumAddress
      else Ok ethereumAddress)"

definition HinkalWithdraw ::
    "primitives \<Rightarrow> sealing \<Rightarrow> network \<Rightarrow> ('f, 'm) action_services_scheme \<Rightarrow> erc20_token list \<Rightarrow> int list \<Rightarrow> string \<Rightarrow> bool \<Rightarrow> string \<Rightarrow>
     fee_structure option \<Rightarrow> int option \<Rightarrow> string \<Rightarrow> (message, tx_request option \<times> string) io" where
  "HinkalWithdraw E S N A tokens amountChangesBase recipientAddress isRelayerOff feeToken feeStructureOverride variableRateOverride action =
     ibind (ilift (ValidateAndGetChainID tokens)) (\<lambda>chainID.
     if length tokens \<noteq> length amountChangesBase then ifail errTokenAmountLengthMismatch
     else if tokens = [] then ifail errWithdrawNoToken
     else
       ibind (ilift (ModifyVolatileTokenAmountChanges (asVolatile A) chainID tokens amountChangesBase [])) (\<lambda>amountChanges0.
       ibind (ilift
         (if isRelayerOff then Ok (ZeroFeeStructure, tokenAddresses tokens, amountChanges0)
          else
            rbind (resolveWithdrawFeeStructure A chainID feeToken (tokenAddresses tokens) feeStructureOverride variableRateOverride) (\<lambda>fee.
            rbind (withdraw_amounts A chainID tokens amountChanges0 fee) (\<lambda>(addresses, amounts).
            Ok (fee, addresses, amounts))))) (\<lambda>(fee, addresses, amountChanges).
       ibind (ilift (asAddressByChain A chainID)) (\<lambda>ethereumAddress.
       ibind (ilift (withdraw_sender E chainID isRelayerOff ethereumAddress)) (\<lambda>originalSender.
       ibind (ilift (AddressToHexFormat E recipientAddress)) (\<lambda>externalAddress.
       ibind (ilift
         (if isRelayerOff then
            rbind (index_at amountChanges 0) (\<lambda>first. Ok (self_submit_of [hd tokens] [first] True False))
          else
            Ok (NewRelayerSubmit
              \<lparr>rsAdminData = ConstructAdminData E (asGoos A) (asNowMillis A) action chainID addresses amountChanges ethereumAddress []
                               (Some (VariableRate fee)),
               rsAuthorizationData = None, rsWithUniswapWorkAround = False\<rparr>))) (\<lambda>submit.
       ibind (HinkalTransact E S N (wallet_services.truncate A)
                (no_transact_params\<lparr>htChainID := chainID, htErc20Addresses := Some addresses, htAmountChanges := Some amountChanges,
                   htExternalAddress := externalAddress, htFeeStructure := Some fee, htOriginalSender := originalSender,
                   htSubmit := submit\<rparr>)) (\<lambda>result.
       ireturn (trTxRequest result, trTxHash result)))))))))"

section \<open>Private transfers\<close>

definition resolveTransferFeeStructure ::
    "('f, 'm) action_services_scheme \<Rightarrow> int \<Rightarrow> string \<Rightarrow> string list \<Rightarrow> erc20_token \<Rightarrow> int \<Rightarrow> fee_structure option \<Rightarrow>
     (fee_structure \<times> int) result" where
  "resolveTransferFeeStructure A chainID feeToken erc20Addresses sentToken recipientAmount feeStructureOverride =
     rbind (case feeStructureOverride of
              Some fee \<Rightarrow> Ok fee
            | None \<Rightarrow> GetFeeStructure (wsFloat A) (wsTokens A) (asGas A) chainID feeToken erc20Addresses ExternalActionTransact []
                        (Some HinkalPrivateSendVariableRate)) (\<lambda>raw0.
     let raw1 = normalizeFeeStructure raw0;
         raw = (if VariableRate raw1 = 0 then raw1\<lparr>VariableRate := HinkalPrivateSendVariableRate\<rparr> else raw1)
     in Ok (CalculateModifiedFeeStructure (wsFloat A) (wsTokens A) (asPrices A) chainID sentToken recipientAmount raw, VariableRate raw))"

definition transferRecipientAmounts :: "string list \<Rightarrow> int \<Rightarrow> int list" where
  "transferRecipientAmounts erc20Addresses recipientAmount =
     map (\<lambda>i. if i = 0 then recipientAmount else 0) [0 ..< length erc20Addresses]"

definition HinkalTransfer ::
    "primitives \<Rightarrow> sealing \<Rightarrow> network \<Rightarrow> ('f, 'm) action_services_scheme \<Rightarrow> erc20_token list \<Rightarrow> int list \<Rightarrow> string \<Rightarrow> string \<Rightarrow>
     fee_structure option \<Rightarrow> string \<Rightarrow> (message, string) io" where
  "HinkalTransfer E S N A tokens amountChangesBase recipientAddress feeToken feeStructureOverride action =
     ibind (ilift (ValidateAndGetChainID tokens)) (\<lambda>chainID.
     if length tokens \<noteq> length amountChangesBase then ifail errTokenAmountLengthMismatch
     else if tokens = [] then ifail errTransferNoToken
     else if \<not> IsValidPrivateAddress recipientAddress then ifail ErrRecipientFormatIncorrect
     else
       ibind (ilift (asAddressByChain A chainID)) (\<lambda>ethereumAddress.
       ibind (ilift (ModifyVolatileTokenAmountChanges (asVolatile A) chainID tokens amountChangesBase [])) (\<lambda>amountChanges0.
       ibind (ilift (index_at amountChanges0 0)) (\<lambda>first.
       let recipientAmount = - first in
       ibind (ilift (resolveTransferFeeStructure A chainID feeToken (tokenAddresses tokens) (hd tokens) recipientAmount
                       feeStructureOverride)) (\<lambda>(fee, variableRate).
       ibind (ilift (MergeWithFeeStructure (wsTokens A) chainID (tokenAddresses tokens) amountChanges0 fee)) (\<lambda>(addresses, amountChanges).
       let adminData = ConstructAdminData E (asGoos A) (asNowMillis A) action chainID addresses amountChanges ethereumAddress []
                         (Some variableRate) in
       ibind (HinkalTransact E S N (wallet_services.truncate A)
                (no_transact_params\<lparr>htChainID := chainID, htErc20Addresses := Some addresses, htAmountChanges := Some amountChanges,
                   htFeeStructure := Some fee, htRecipientAddress := recipientAddress,
                   htRecipientAmounts := Some (transferRecipientAmounts addresses recipientAmount),
                   htSubmit := NewRelayerSubmit \<lparr>rsAdminData = adminData, rsAuthorizationData = None, rsWithUniswapWorkAround = False\<rparr>\<rparr>)) (\<lambda>result.
       ireturn (trTxHash result))))))))"

section \<open>Swaps\<close>

definition swapOnChainCreation :: "nat \<Rightarrow> bool list" where
  "swapOnChainCreation n = take n [False, True, False]"

definition HinkalSwap ::
    "primitives \<Rightarrow> sealing \<Rightarrow> network \<Rightarrow> ('f, 'm) action_services_scheme \<Rightarrow> erc20_token list \<Rightarrow> int list \<Rightarrow> string \<Rightarrow> string \<Rightarrow> string \<Rightarrow>
     fee_structure option \<Rightarrow> 'f \<Rightarrow> string \<Rightarrow> (message, string) io" where
  "HinkalSwap E S N A tokens deltaAmountsBase externalActionID data feeToken feeStructureOverride slippage0 action =
     (let slippage = (if slippage0 = fzero (wsFloat A) then asDefaultSlippage A else slippage0) in
      ibind (ilift (ValidateAndGetChainID tokens)) (\<lambda>chainID.
      ibind (ilift (asAddressByChain A chainID)) (\<lambda>ethereumAddress.
      ibind (ilift (case feeStructureOverride of
               Some fee \<Rightarrow> Ok fee
             | None \<Rightarrow> GetFeeStructure (wsFloat A) (wsTokens A) (asGas A) chainID feeToken (tokenAddresses tokens) externalActionID []
                         (Some HinkalSwapVariableRate))) (\<lambda>fee0.
      let fee = normalizeFeeStructure fee0 in
      ibind (ilift (MergeWithFeeStructure (wsTokens A) chainID (tokenAddresses tokens) deltaAmountsBase fee)) (\<lambda>(addresses, deltaAmounts).
      ibind (ilift (GetExternalSwapAddress (asLifiAddress A) chainID externalActionID)) (\<lambda>externalAddress.
      let adminData = ConstructAdminData E (asGoos A) (asNowMillis A) action chainID addresses deltaAmounts ethereumAddress tokens
                        (Some (VariableRate fee));
          slippageValues = BuildSwapSlippageValues deltaAmounts (asSlippageBps A slippage);
          amounts = (if length deltaAmounts > 1 then deltaAmounts[1 := 0] else deltaAmounts) in
      ibind (HinkalTransact E S N (wallet_services.truncate A)
               (no_transact_params\<lparr>htChainID := chainID, htErc20Addresses := Some addresses, htAmountChanges := Some amounts,
                  htExternalActionID := externalActionID, htExternalAddress := externalAddress,
                  htExternalActionMetadata := Some [data], htFeeStructure := Some fee,
                  htOnChainCreation := Some (swapOnChainCreation (length amounts)), htSlippageValues := Some slippageValues,
                  htSubmit := NewRelayerSubmit \<lparr>rsAdminData = adminData, rsAuthorizationData = None, rsWithUniswapWorkAround = False\<rparr>\<rparr>)) (\<lambda>result.
      ireturn (trTxHash result))))))))"

end
