(* ===== verification/TransactCorrect.thy ===== *)
theory TransactCorrect
  imports Actions Outputs
begin

text \<open>
  What the execution of a transaction guarantees: what each way of submitting a proof sends, that the relayer
  reads what was proved, that nothing is finalised with the enclave before its answer was checked, that waiting
  ends, and what the amounts of the actions add up to.
\<close>

section \<open>What is sent\<close>

lemmas io_unfold = Let_def case_prod_unfold

text \<open>The calls of the EVM wallet and of the Tron node.\<close>

fun of_evm_wallet :: "message \<Rightarrow> bool" where
  "of_evm_wallet (SendTransaction _) = True"
| "of_evm_wallet (ReadAllowance _ _ _) = True"
| "of_evm_wallet (WaitForTx _ _ _) = True"
| "of_evm_wallet _ = False"

fun of_tron_wallet :: "message \<Rightarrow> bool" where
  "of_tron_wallet (EthCall _ _ _ _ _) = True"
| "of_tron_wallet (TriggerContract _) = True"
| "of_tron_wallet (BroadcastTransaction _) = True"
| "of_tron_wallet (SignProof _) = True"
| "of_tron_wallet _ = False"

lemma all_approved_sends [performs_intro]: "sends_only (all_approved E N owner spender rs) of_evm_wallet"
  by (induction rs) (auto simp: Erc20Allowance_def intro!: performs_intro)

lemma approval_rounds_sends [performs_intro]: "sends_only (approval_rounds E N owner spender rs n) of_evm_wallet"
  by (induction n) (auto intro!: performs_intro)

lemma approveTokenToHinkal_sends [performs_intro]: "sends_only (approveTokenToHinkal E S N chainID spender amount token) of_evm_wallet"
  unfolding approveTokenToHinkal_def Erc20Allowance_def SendTx_def EvmSubmit.WaitForTransaction_def Let_def
  by (intro performs_intro) simp_all

lemma TransactCallDirect_sends [performs_intro]: "sends_only (TransactCallDirect E S N chainID p) of_evm_wallet"
  unfolding TransactCallDirect_def direct_approvals_def ApproveTokensToHinkal_def WaitForErc20Approvals_def SendTx_def io_unfold
  by (intro performs_intro) simp_all

lemma TransactCallDirect_unsent:
  "dpReturnTxData p \<Longrightarrow> performs (TransactCallDirect E S N chainID p) (\<lambda>ms r. ms = [])"
  unfolding TransactCallDirect_def Let_def
  by (auto intro!: performs_lift performs_bind [where P = "\<lambda>ms r. ms = []"])

lemma all_tron_approved_sends [performs_intro]: "sends_only (all_tron_approved E N chainID owner spender rs) of_tron_wallet"
  by (induction rs) (auto simp: tronAllowance_def ethCall_def Let_def intro!: performs_intro)

lemma tron_approval_rounds_sends [performs_intro]:
  "sends_only (tron_approval_rounds E N chainID owner spender rs n) of_tron_wallet"
  by (induction n) (auto intro!: performs_intro)

lemma TriggerSmartContract_sends [performs_intro]: "sends_only (TriggerSmartContract N owner contract data v limit) of_tron_wallet"
  unfolding TriggerSmartContract_def io_unfold by (intro performs_intro) simp_all

lemma SignAndBroadcast_sends [performs_intro]: "sends_only (SignAndBroadcast E N tx) of_tron_wallet"
  unfolding SignAndBroadcast_def io_unfold by (intro performs_intro) simp_all

lemma approve_one_sends [performs_intro]: "sends_only (approve_one E N chainID owner ownerHex spender rs a) of_tron_wallet"
  unfolding approve_one_def tronAllowance_def ethCall_def io_unfold by (intro performs_intro) simp_all

lemma ApproveTokens_sends [performs_intro]: "sends_only (ApproveTokens E N chainID owner ownerHex spender as) of_tron_wallet"
  unfolding ApproveTokens_def WaitForTronErc20Approvals_def io_unfold by (intro performs_intro)

lemma ReorderZkCallData_sends [performs_intro]: "sends_only (ReorderZkCallData E N chainID zk dim circom modify skipLock) of_tron_wallet"
  unfolding ReorderZkCallData_def GenerateProofSignatureRemotely_def io_unfold by (intro performs_intro) simp_all

lemma TransactCallDirectTron_sends [performs_intro]: "sends_only (TransactCallDirectTron E S N chainID p) of_tron_wallet"
  unfolding TransactCallDirectTron_def pre_estimate_def SimulateTronTransaction_def ethCall_def io_unfold
  by (intro performs_intro) simp_all


section \<open>What moves funds\<close>

definition executing :: "message list \<Rightarrow> message list" where
  "executing ms = filter executes ms"

lemma executing_simps [simp]: "executing [] = []" "executing (xs @ ys) = executing xs @ executing ys"
  "executing (m # ms) = (if executes m then m # executing ms else executing ms)"
  by (simp_all add: executing_def)

text \<open>A step that moves nothing can be skipped when the executing messages are counted.\<close>

abbreviation quiet :: "(message, 'a) io \<Rightarrow> bool" where
  "quiet f \<equiv> sends_only f (\<lambda>m. \<not> executes m)"

lemma performs_lift_iff [simp]: "performs (ilift r) P \<longleftrightarrow> P [] r"
  by (simp add: performs_def ilift_def)

lemma performs_lift_bind:
  "(\<And>e. r = Inl e \<Longrightarrow> P [] (Inl e)) \<Longrightarrow> (\<And>x. r = Inr x \<Longrightarrow> performs (g x) P) \<Longrightarrow> performs (ibind (ilift r) g) P"
  by (cases r) simp_all

lemma list_all_quiet: "list_all (\<lambda>m. \<not> executes m) ms \<longleftrightarrow> executing ms = []"
  by (induction ms) auto

lemma quiet_performs: "quiet f \<Longrightarrow> (\<And>r. R [] r) \<Longrightarrow> performs f (\<lambda>ms r. R (executing ms) r)"
  unfolding sends_only_def by (erule performs_mono) (simp add: list_all_quiet)

lemma performs_values: "performs f P \<Longrightarrow> performs f (\<lambda>ms r. P ms r \<and> (\<exists>w. snd (f w) = r))"
  unfolding performs_def by blast

lemma quiet_bind:
  assumes "quiet f" "\<And>e. R [] (Inl e)" "\<And>x w. snd (f w) = Ok x \<Longrightarrow> performs (g x) (\<lambda>ms r. R (executing ms) r)"
  shows "performs (ibind f g) (\<lambda>ms r. R (executing ms) r)"
proof (rule performs_bind [OF performs_values [OF assms(1) [unfolded sends_only_def]]])
  fix ms :: "message list" and x
  assume "list_all (\<lambda>m. \<not> executes m) ms \<and> (\<exists>w. snd (f w) = Inr x)"
  then show "performs (g x) (\<lambda>ms' r. R (executing (ms @ ms')) r)" using assms(3) by (auto simp: list_all_quiet)
qed (use assms(2) in \<open>simp add: list_all_quiet\<close>)

lemma bind_return_ok:
  assumes "performs f (\<lambda>ms r. R (executing ms) r)" "\<And>xs e. R xs (Inl e) \<Longrightarrow> Q xs (Inl e)" "\<And>xs x. R xs (Ok x) \<Longrightarrow> Q xs (Ok (h x))"
  shows "performs (ibind f (\<lambda>x. ireturn (h x))) (\<lambda>ms r. Q (executing ms) r)"
  by (rule performs_bind [OF assms(1)]) (auto intro: assms(2,3))

lemma ReorderZkCallData_quiet: "quiet (ReorderZkCallData E N chainID zk dim circom modify skipLock)"
  unfolding ReorderZkCallData_def GenerateProofSignatureRemotely_def io_unfold by (intro performs_intro) simp_all

lemma ReorderZkCallData_swaps:
  assumes "ReorderZkCallData E N chainID zk dim circom True skipLock w = (w', Ok (zk', sig))"
  shows "zk' = SwapTronBCoordinate zk"
proof -
  have "snd (ReorderZkCallData E N chainID zk dim circom True skipLock w) = Ok (zk', sig)" using assms by simp
  then show ?thesis unfolding ReorderZkCallData_def by (auto simp: ilift_def split: prod.splits elim!: ibind_OkE)
qed

text \<open>A relay request that carries the proof: the coordinates of the second point may have changed places.\<close>

definition relays :: "transact_params \<Rightarrow> transact_proof \<Rightarrow> relay_body \<Rightarrow> bool" where
  "relays p proof b \<longleftrightarrow> rbChainID b = htChainID p \<and> rbCircomData b = SerializeCircomData (tpfCircomData proof) \<and>
     rbDimData b = tpfDimData proof \<and> rbA b = zkA (tpfZkCallData proof) \<and> rbC b = zkC (tpfZkCallData proof) \<and>
     (rbB b = zkB (tpfZkCallData proof) \<or> rbB b = zkB (SwapTronBCoordinate (tpfZkCallData proof))) \<and>
     rbCommitmentValidationData b = tpfCommitmentValidationData proof \<and>
     Some (rbAdminData b) = map_option rsAdminData (suRelayer (htSubmit p))"

text \<open>Nothing was sent and there is an error, or one request carries the proof.\<close>

definition relayed_once :: "transact_params \<Rightarrow> transact_proof \<Rightarrow> message list \<Rightarrow> 'a result \<Rightarrow> bool" where
  "relayed_once p proof ms r \<longleftrightarrow> ms = [] \<and> (\<exists>e. r = Inl e) \<or> (\<exists>b. ms = [RelayTransact b] \<and> relays p proof b)"

lemma relayed_onceI: "relayed_once p proof [] (Inl e)" "relays p proof b \<Longrightarrow> relayed_once p proof [RelayTransact b] r"
  by (simp_all add: relayed_once_def)

lemma relay_proof_once:
  assumes "tpfCircomData proof' = tpfCircomData proof" "tpfDimData proof' = tpfDimData proof"
    "zkA (tpfZkCallData proof') = zkA (tpfZkCallData proof)" "zkC (tpfZkCallData proof') = zkC (tpfZkCallData proof)"
    "zkB (tpfZkCallData proof') \<in> {zkB (tpfZkCallData proof), zkB (SwapTronBCoordinate (tpfZkCallData proof))}"
    "tpfCommitmentValidationData proof' = tpfCommitmentValidationData proof"
  shows "performs (relay_proof N p proof' sig) (\<lambda>ms r. relayed_once p proof (executing ms) r)"
proof (cases "suRelayer (htSubmit p)")
  case None
  then show ?thesis by (simp add: relay_proof_def deref_def performs_lift relayed_onceI)
next
  case (Some relayer)
  let ?body = "\<lparr>rbChainID = htChainID p, rbA = zkA (tpfZkCallData proof'), rbB = zkB (tpfZkCallData proof'), rbC = zkC (tpfZkCallData proof'),
    rbDimData = tpfDimData proof', rbCircomData = SerializeCircomData (tpfCircomData proof'),
    rbCommitmentValidationData = tpfCommitmentValidationData proof', rbWithUniswapWorkAround = rsWithUniswapWorkAround relayer,
    rbAuthorizationData = rsAuthorizationData relayer, rbRecipientAddress = [], rbAdminData = rsAdminData relayer, rbTronProofSignature = sig\<rparr>"
  have "relays p proof ?body" using assms Some by (auto simp: relays_def)
  then have once: "performs (icall (RelayTransact ?body) reply) (\<lambda>ms r. relayed_once p proof (executing ms) r)" for reply :: "relayer_response sent"
    by (intro performs_call) (simp add: relayed_onceI)
  show ?thesis
    unfolding relay_proof_def Some deref_def TransactCallRelayer_def Let_def option.case ibind_lift
    by (rule bind_return_ok [where R = "relayed_once p proof"], rule performs_bind [OF once])
       (auto simp: relayed_once_def)
qed


section \<open>The contract of a submission\<close>

definition confirm_quiet :: "transact_params \<Rightarrow> bool" where
  "confirm_quiet p \<longleftrightarrow> (\<forall>f cd. htOnTxConfirm p = Some f \<longrightarrow> quiet (f cd))"

text \<open>What may be asked of the wallet's side: the proof alone, or the unsent transaction.\<close>

definition asks_only :: "transact_submit \<Rightarrow> bool" where
  "asks_only s \<longleftrightarrow> suMode s = SubmitModeProofOnly \<or> (suMode s = SubmitModeSelf \<and> (\<exists>self. suSelf s = Some self \<and> ssReturnTxData self))"

locale submitter =
  fixes submit :: "transact_params \<Rightarrow> transact_proof \<Rightarrow> (message, transact_result) io"
  assumes asked: "confirm_quiet p \<Longrightarrow> asks_only (htSubmit p) \<Longrightarrow> quiet (submit p proof)"
    and relayed: "confirm_quiet p \<Longrightarrow> suMode (htSubmit p) = SubmitModeRelayer \<Longrightarrow>
      performs (submit p proof) (\<lambda>ms r. relayed_once p proof (executing ms) r)"
begin

text \<open>A proof that is built without moving anything and then submitted.\<close>

lemma built_then_asked: "quiet build \<Longrightarrow> confirm_quiet p \<Longrightarrow> asks_only (htSubmit p) \<Longrightarrow> quiet (ibind build (submit p))"
  by (intro performs_intro asked)

lemma built_then_relayed:
  assumes "quiet build" "confirm_quiet p" "suMode (htSubmit p) = SubmitModeRelayer"
  shows "performs (ibind build (submit p)) (\<lambda>ms r. executing ms = [] \<and> (\<exists>e. r = Inl e) \<or>
    (\<exists>proof w b. snd (build w) = Ok proof \<and> executing ms = [RelayTransact b] \<and> relays p proof b))"
proof (rule quiet_bind [OF assms(1), where R = "\<lambda>xs r. xs = [] \<and> (\<exists>e. r = Inl e) \<or>
    (\<exists>proof w b. snd (build w) = Ok proof \<and> xs = [RelayTransact b] \<and> relays p proof b)"])
  fix pf w assume "snd (build w) = Ok pf"
  then show "performs (submit p pf) (\<lambda>ms r. executing ms = [] \<and> (\<exists>e. r = Inl e) \<or>
    (\<exists>proof w b. snd (build w) = Ok proof \<and> executing ms = [RelayTransact b] \<and> relays p proof b))"
    by (intro performs_mono [OF relayed [OF assms(2,3)]]) (auto simp: relayed_once_def)
qed simp

end

lemma modes_differ [simp]: "SubmitModeRelayer \<noteq> SubmitModeSelf" "SubmitModeSelf \<noteq> SubmitModeRelayer"
  "SubmitModeProofOnly \<noteq> SubmitModeSelf" "SubmitModeSelf \<noteq> SubmitModeProofOnly"
  "SubmitModeRelayer \<noteq> SubmitModeProofOnly" "SubmitModeProofOnly \<noteq> SubmitModeRelayer"
  by (simp_all add: SubmitModeRelayer_def SubmitModeSelf_def SubmitModeProofOnly_def)

interpretation evm: submitter "submitEvm E S N" for E S N
proof
  fix p :: transact_params and pf :: transact_proof
  show "quiet (submitEvm E S N p pf)" if asks: "asks_only (htSubmit p)"
  proof (cases "suMode (htSubmit p) = SubmitModeProofOnly")
    case True
    then show ?thesis unfolding submitEvm_def by (simp add: performs_intro)
  next
    case False
    then obtain self where m: "suMode (htSubmit p) = SubmitModeSelf" "suSelf (htSubmit p) = Some self" "ssReturnTxData self"
      using asks by (auto simp: asks_only_def)
    have "quiet (TransactCallDirect E S N (htChainID p) q)" if "dpReturnTxData q" for q
      unfolding sends_only_def by (rule performs_mono [OF TransactCallDirect_unsent [OF that]]) simp
    then show ?thesis unfolding submitEvm_def io_unfold
      by (simp add: m deref_def) (intro performs_intro, simp add: m)
  qed
  show "performs (submitEvm E S N p pf) (\<lambda>ms r. relayed_once p pf (executing ms) r)" if "suMode (htSubmit p) = SubmitModeRelayer"
    unfolding submitEvm_def using that by (simp add: relay_proof_once)
qed

interpretation tron: submitter "submitTron E S N" for E S N
proof
  fix p :: transact_params and pf :: transact_proof
  let ?signed = "case tpfTronProofSignature pf of
      Some _ \<Rightarrow> ireturn (pf\<lparr>tpfZkCallData := SwapTronBCoordinate (tpfZkCallData pf)\<rparr>)
    | None \<Rightarrow> ibind (ReorderZkCallData E N (htChainID p) (tpfZkCallData pf) (tpfDimData pf) (tpfCircomData pf)
                True (htSkipLock p)) (\<lambda>(zk, sig). ireturn (pf\<lparr>tpfZkCallData := zk, tpfTronProofSignature := Some sig\<rparr>))"
  have q: "quiet ?signed" by (auto split: option.splits intro!: performs_intro ReorderZkCallData_quiet)
  show "quiet (submitTron E S N p pf)" if asks: "asks_only (htSubmit p)"
  proof (cases "suMode (htSubmit p) = SubmitModeProofOnly")
    case True
    then show ?thesis unfolding submitTron_def using q by (auto intro!: performs_intro)
  next
    case False
    then obtain self where "suMode (htSubmit p) = SubmitModeSelf" "suSelf (htSubmit p) = Some self" "ssReturnTxData self"
      using asks by (auto simp: asks_only_def)
    then show ?thesis by (simp add: submitTron_def deref_def sends_only_lift)
  qed
  have kept: "tpfCircomData proof' = tpfCircomData pf \<and> tpfDimData proof' = tpfDimData pf \<and>
      tpfCommitmentValidationData proof' = tpfCommitmentValidationData pf \<and>
      tpfZkCallData proof' = SwapTronBCoordinate (tpfZkCallData pf)"
    if "snd (?signed w) = Ok proof'" for w proof'
    using that by (auto simp: ilift_def dest!: ReorderZkCallData_swaps split: option.splits elim!: ibind_OkE)
  show "performs (submitTron E S N p pf) (\<lambda>ms r. relayed_once p pf (executing ms) r)" if "suMode (htSubmit p) = SubmitModeRelayer"
    unfolding submitTron_def using that
    by (simp, intro quiet_bind [OF q, where R = "relayed_once p pf"])
       (auto simp: relayed_onceI SwapTronBCoordinate_def dest!: kept intro!: relay_proof_once)
qed


interpretation any_chain: submitter "SubmitProof E S N" for E S N
  by unfold_locales (simp_all add: SubmitProof_def evm.asked evm.relayed tron.asked tron.relayed)

text \<open>The callback after the submission.\<close>

interpretation confirmed: submitter "submitAndConfirm E S N" for E S N
proof
  fix p :: transact_params and pf :: transact_proof
  assume c: "confirm_quiet p"
  let ?after = "\<lambda>result. case htOnTxConfirm p of
     Some confirm \<Rightarrow> if suMode (htSubmit p) \<noteq> SubmitModeProofOnly
       then ibind (confirm (tpfCircomData pf)) (\<lambda>_. ireturn result) else ireturn result
   | None \<Rightarrow> ireturn result"
  have q: "quiet (?after result)" for result :: transact_result
    using c by (auto simp: confirm_quiet_def split: option.splits intro!: performs_intro)
  show "quiet (submitAndConfirm E S N p pf)" if "asks_only (htSubmit p)"
    unfolding submitAndConfirm_def by (intro sends_only_bind any_chain.asked [OF c that] q)
  show "performs (submitAndConfirm E S N p pf) (\<lambda>ms r. relayed_once p pf (executing ms) r)" if "suMode (htSubmit p) = SubmitModeRelayer"
    unfolding submitAndConfirm_def
  proof (rule performs_bind [OF any_chain.relayed [OF c that]])
    fix ms and result :: transact_result
    assume "relayed_once p pf (executing ms) (Inr result)"
    then obtain b where b: "executing ms = [RelayTransact b]" "relays p pf b" by (auto simp: relayed_once_def)
    show "performs (?after result) (\<lambda>ms' r. relayed_once p pf (executing (ms @ ms')) r)"
      using quiet_performs [OF q, where R = "\<lambda>xs r. relayed_once p pf (executing ms @ xs) r"] b
      by (simp add: relayed_onceI)
  qed (simp add: relayed_once_def)
qed

section \<open>A transaction that is proved here\<close>

lemma buildProofLocally_quiet: "quiet (buildProofLocally E S W p uk)"
  unfolding buildProofLocally_def proof_inputs_def by (intro performs_intro)

text \<open>Choosing the relay changes three fields.\<close>

definition with_relay :: "transact_params \<Rightarrow> transact_params \<Rightarrow> bool" where
  "with_relay p q \<longleftrightarrow>
     q = p\<lparr>htRelay := htRelay q, htAutoSelectRelay := htAutoSelectRelay q, htExternalAddress := htExternalAddress q\<rparr>"

lemma with_relay_keeps: "with_relay p q \<Longrightarrow> htSubmit q = htSubmit p \<and> htOnTxConfirm q = htOnTxConfirm p \<and> htChainID q = htChainID p"
proof -
  assume e: "with_relay p q"
  show ?thesis using arg_cong [OF e [unfolded with_relay_def], of htSubmit] arg_cong [OF e [unfolded with_relay_def], of htOnTxConfirm]
      arg_cong [OF e [unfolded with_relay_def], of htChainID] by simp
qed

lemma resolveTransactRelay_performs:
  "performs (resolveTransactRelay N remote p) (\<lambda>ms r. executing ms = [] \<and> (\<forall>q. r = Inr q \<longrightarrow> with_relay p q))"
proof -
  have self: "with_relay p p" by (simp add: with_relay_def)
  have "performs (resolve_relay N remote chainID skip) (\<lambda>ms r. executing ms = [])" for chainID skip
    by (auto simp: performs_def resolve_relay_def)
  then show ?thesis unfolding resolveTransactRelay_def Let_def
    by (intro performs_if) (auto intro!: performs_bind [where P = "\<lambda>ms r. executing ms = []"] simp: self, simp_all add: with_relay_def)
qed

text \<open>C25. A transaction that the wallet proves itself moves nothing when only the proof or the unsent
  transaction is asked for. When a relayer is to send it, at most one request leaves the wallet, and it
  carries the circuit data, the dimensions and the proof that were built for these very parameters.\<close>

theorem local_transaction_sends:
  assumes "\<not> (wsRemote W \<and> IsEnclaveTxChain (htChainID p))" "confirm_quiet p"
  shows "(asks_only (htSubmit p) \<longrightarrow> performs (HinkalTransact E S N W p) (\<lambda>ms r. executing ms = [])) \<and>
    (suMode (htSubmit p) = SubmitModeRelayer \<longrightarrow>
       performs (HinkalTransact E S N W p) (\<lambda>ms r. executing ms = [] \<and> (\<exists>e. r = Inl e) \<or>
         (\<exists>q proof b. with_relay p q \<and> executing ms = [RelayTransact b] \<and> relays q proof b \<and>
            (\<exists>uk w. snd (buildProofLocally E S W q uk w) = Ok proof))))"
proof (intro conjI impI)
  have step: "performs (HinkalTransact E S N W p) (\<lambda>ms r. R (executing ms) r)"
    if R: "\<And>e. R [] (Inl e)"
      and rest: "\<And>q uk. with_relay p q \<Longrightarrow>
         performs (ibind (buildProofLocally E S W q uk) (submitAndConfirm E S N q)) (\<lambda>ms r. R (executing ms) r)"
    for R :: "message list \<Rightarrow> transact_result result \<Rightarrow> bool"
    unfolding HinkalTransact_def Let_def using assms(1)
    by (intro performs_if performs_bind [OF resolveTransactRelay_performs])
       (auto simp: R dest: with_relay_keeps intro: rest)
  have keeps: "confirm_quiet q" "htSubmit q = htSubmit p" if "with_relay p q" for q
    using with_relay_keeps [OF that] assms(2) by (auto simp: confirm_quiet_def)
  show "performs (HinkalTransact E S N W p) (\<lambda>ms r. executing ms = [])" if "asks_only (htSubmit p)"
    using that by (intro step [where R = "\<lambda>xs r. xs = []"]) (auto simp: keeps intro!: quiet_performs [where R = "\<lambda>xs r. xs = []"] confirmed.built_then_asked buildProofLocally_quiet)
  let ?R = "\<lambda>xs r. xs = [] \<and> (\<exists>e. r = Inl e) \<or>
      (\<exists>q proof b. with_relay p q \<and> xs = [RelayTransact b] \<and> relays q proof b \<and>
          (\<exists>uk w. snd (buildProofLocally E S W q uk w) = Ok proof))"
  show "performs (HinkalTransact E S N W p) (\<lambda>ms r. ?R (executing ms) r)" if m: "suMode (htSubmit p) = SubmitModeRelayer"
  proof (rule step)
    fix q uk assume q: "with_relay p q"
    show "performs (ibind (buildProofLocally E S W q uk) (submitAndConfirm E S N q)) (\<lambda>ms r. ?R (executing ms) r)"
    proof (rule performs_mono [OF confirmed.built_then_relayed [OF buildProofLocally_quiet keeps(1) [OF q]]])
      show "suMode (htSubmit q) = SubmitModeRelayer" using keeps(2) [OF q] m by simp
    qed (use q in blast)
  qed simp
qed


section \<open>A transaction prepared by the enclave\<close>

fun finalises :: "message \<Rightarrow> (string \<times> (jub_point \<times> int)) option" where
  "finalises (FinalizeTx job sig) = Some (job, sig)"
| "finalises (FinalizeTxRelay job sig _ _ _ _) = Some (job, sig)"
| "finalises _ = None"

text \<open>An answer of the enclave that the wallet signs: to this request, echoing it, balanced for every token.\<close>

definition checked_answer :: "network \<Rightarrow> transact_params \<Rightarrow> prepare_tx_request \<Rightarrow> prepare_tx_response \<Rightarrow> bool" where
  "checked_answer N p q resp \<longleftrightarrow> (\<exists>sent. nPrepareTx N q sent = Ok resp) \<and> Request resp = expected_echo q \<and>
     (\<forall>i < length (elems (htErc20Addresses p)). \<exists>ins outs. rmap ParseBigInt (InAmounts resp ! i) = Ok ins \<and>
        rmap ParseBigInt (take (max 1 (length (elems (htSelfOutputAmounts p)))) (OutAmounts resp ! i)) = Ok outs \<and>
        sum_list ins + elems (htAmountChanges p) ! i = sum_list outs)"

text \<open>A job and a signature the wallet may send on: both from the answer to the request before it.\<close>

definition authorised :: "primitives \<Rightarrow> network \<Rightarrow> transact_params \<Rightarrow> user_keys \<Rightarrow> prepare_tx_request \<Rightarrow> string \<times> (jub_point \<times> int) \<Rightarrow> bool" where
  "authorised E N p uk q = (\<lambda>(job, sig). \<exists>cs resp h. prepare_request E (nHinkalAddress N) uk (prepare_params p cs) = Ok q \<and>
     checked_answer N p q resp \<and> JobID resp = job \<and> ParseBigInt (SignedMessageHash resp) = Ok h \<and> SignEddsa E uk h = Ok sig)"

lemma PrepareTxEnclaveCall_posts:
  assumes "snd (PrepareTxEnclaveCall E now addressOf post uk params) = Ok resp"
  shows "\<exists>q. prepare_request E addressOf uk params = Ok q \<and> post q = Ok resp \<and> Request resp = expected_echo q"
  using assms by (auto simp: PrepareTxEnclaveCall_def prepare_request_def Let_def rbind_Ok_iff assertPrepareTxEchoMatches_def split: prod.splits if_splits)

lemma prepare_call_performs:
  "performs (prepare_call E N now uk (prepare_params p cs)) (\<lambda>ms r.
     (ms = [] \<and> (\<exists>e. r = Inl e)) \<or> (\<exists>q. ms = [PrepareTx q] \<and> prepare_request E (nHinkalAddress N) uk (prepare_params p cs) = Ok q \<and>
        (\<forall>resp. r = Ok resp \<longrightarrow> checked_answer N p q resp)))" (is "performs _ ?P")
  unfolding performs_def
proof
  fix w :: "message world"
  let ?f = "prepare_call E N now uk (prepare_params p cs) w"
  let ?post = "\<lambda>q. nPrepareTx N q (wSent w)"
  have snd: "snd ?f = snd (PrepareTxEnclaveCall E now (nHinkalAddress N) ?post uk (prepare_params p cs))" by (simp add: prepare_call_def)
  show "\<exists>ms. wSent (fst ?f) = wSent w @ ms \<and> ?P ms (snd ?f)"
  proof (cases "prepare_request E (nHinkalAddress N) uk (prepare_params p cs)")
    case (Inl e)
    then have "\<exists>e. snd ?f = Inl e" using PrepareTxEnclaveCall_posts unfolding snd by (metis obj_sumE sum.simps(4))
    then show ?thesis using Inl by (intro exI [of _ "[]"]) (simp add: prepare_call_def)
  next
    case (Inr q)
    have "checked_answer N p q resp" if r: "snd ?f = Ok resp" for resp
    proof -
      note facts = prepared_tx_facts [OF r [unfolded snd]]
      from PrepareTxEnclaveCall_posts [OF r [unfolded snd]] Inr have "?post q = Ok resp" "Request resp = expected_echo q" by auto
      then show ?thesis using facts by (auto simp: checked_answer_def prepare_params_def)
    qed
    then show ?thesis using Inr by (intro exI [of _ "[PrepareTx q]"]) (simp add: prepare_call_def)
  qed
qed

lemma prepareEnclaveJob_performs:
  "performs (prepareEnclaveJob E N now p uk) (\<lambda>ms r.
     (\<exists>e. r = Inl e) \<and> list_all (\<lambda>m. finalises m = None) ms \<or> (\<exists>q job. ms = [PrepareTx q] \<and> r = Ok job \<and> authorised E N p uk q job))"
  unfolding prepareEnclaveJob_def
proof (rule performs_lift_bind)
  fix cs
  let ?rest = "\<lambda>prepared. ibind (ilift (ParseBigInt (SignedMessageHash prepared))) (\<lambda>h.
     ibind (ilift (SignEddsa E uk h)) (\<lambda>sig. ireturn (JobID prepared, sig)))"
  have rest: "performs (?rest resp) (\<lambda>ms r. ms = [] \<and> (\<forall>job. r = Inr job \<longrightarrow> (\<exists>h sig. ParseBigInt (SignedMessageHash resp) = Ok h \<and>
      SignEddsa E uk h = Ok sig \<and> job = (JobID resp, sig))))" for resp
    by (auto intro!: performs_lift_bind)
  show "performs (ibind (prepare_call E N now uk (prepare_params p cs)) ?rest) (\<lambda>ms r.
     (\<exists>e. r = Inl e) \<and> list_all (\<lambda>m. finalises m = None) ms \<or> (\<exists>q job. ms = [PrepareTx q] \<and> r = Ok job \<and> authorised E N p uk q job))"
  proof (rule performs_bind [OF prepare_call_performs])
    fix ms and resp :: prepare_tx_response
    assume "(ms = [] \<and> (\<exists>e. (Inr resp :: prepare_tx_response result) = Inl e)) \<or>
      (\<exists>q. ms = [PrepareTx q] \<and> prepare_request E (nHinkalAddress N) uk (prepare_params p cs) = Ok q \<and>
        (\<forall>resp'. (Inr resp :: prepare_tx_response result) = Ok resp' \<longrightarrow> checked_answer N p q resp'))"
    then obtain q where q: "ms = [PrepareTx q]" "prepare_request E (nHinkalAddress N) uk (prepare_params p cs) = Ok q" "checked_answer N p q resp"
      by auto
    show "performs (?rest resp) (\<lambda>ms' r. (\<exists>e. r = Inl e) \<and> list_all (\<lambda>m. finalises m = None) (ms @ ms') \<or>
        (\<exists>q job. ms @ ms' = [PrepareTx q] \<and> r = Ok job \<and> authorised E N p uk q job))"
    proof (rule performs_mono [OF rest])
      fix ms' :: "message list" and r :: "(string \<times> (jub_point \<times> int)) result"
      assume "ms' = [] \<and> (\<forall>job. r = Inr job \<longrightarrow> (\<exists>h sig. ParseBigInt (SignedMessageHash resp) = Ok h \<and>
         SignEddsa E uk h = Ok sig \<and> job = (JobID resp, sig)))"
      then show "(\<exists>e. r = Inl e) \<and> list_all (\<lambda>m. finalises m = None) (ms @ ms') \<or>
          (\<exists>q job. ms @ ms' = [PrepareTx q] \<and> r = Ok job \<and> authorised E N p uk q job)"
        using q by (cases r) (auto simp: authorised_def)
    qed
  qed auto
qed simp

text \<open>Messages of a submission finalise nothing.\<close>

lemma TransactCallDirect_finalises: "sends_only (TransactCallDirect E S N chainID q) (\<lambda>m. finalises m = None)"
  by (rule sends_only_mono [OF TransactCallDirect_sends], elim of_evm_wallet.elims) auto

lemma TransactCallDirectTron_finalises: "sends_only (TransactCallDirectTron E S N chainID q) (\<lambda>m. finalises m = None)"
  by (rule sends_only_mono [OF TransactCallDirectTron_sends], elim of_tron_wallet.elims) auto

lemma ReorderZkCallData_finalises: "sends_only (ReorderZkCallData E N chainID zk dim circom modify skipLock) (\<lambda>m. finalises m = None)"
  by (rule sends_only_mono [OF ReorderZkCallData_sends], elim of_tron_wallet.elims) auto

lemma submission_finalises:
  assumes "htOnTxConfirm p = None" shows "sends_only (submitAndConfirm E S N p pf) (\<lambda>m. finalises m = None)"
  unfolding submitAndConfirm_def SubmitProof_def submitEvm_def submitTron_def relay_proof_def TransactCallRelayer_def assms io_unfold
  by (intro performs_intro TransactCallDirect_finalises TransactCallDirectTron_finalises ReorderZkCallData_finalises) simp_all

text \<open>C24. With the enclave nothing is finalised on trust: a job is finalised, or handed to the relay, only as the
  second message after the request that prepared it; the enclave's answer echoed that request and balanced
  for every token of the transaction, and the signature sent along is the wallet's, over the hash of that answer.\<close>

theorem enclave_finalises_checked_answer:
  assumes "htOnTxConfirm p = None"
  shows "performs (enclave_transact E S N now p uk) (\<lambda>ms r. \<forall>k < length ms. \<forall>job. finalises (ms ! k) = Some job \<longrightarrow>
     k = 1 \<and> (\<exists>q. ms ! 0 = PrepareTx q \<and> authorised E N p uk q job))"
  unfolding enclave_transact_def
proof (rule performs_bind [OF prepareEnclaveJob_performs], goal_cases)
  case (1 ms e)
  then show ?case by (auto simp: list_all_length)
next
  case (2 ms job)
  then obtain q where q: "ms = [PrepareTx q]" "authorised E N p uk q job" by auto
  obtain jobID sig where job: "job = (jobID, sig)" by (cases job)
  have first: "performs f (\<lambda>ms' r. \<forall>k < length (ms @ ms'). \<forall>job. finalises ((ms @ ms') ! k) = Some job \<longrightarrow>
       k = 1 \<and> (\<exists>q. (ms @ ms') ! 0 = PrepareTx q \<and> authorised E N p uk q job))"
    if "performs f (\<lambda>ms' r. \<forall>k < length ms'. \<forall>job'. finalises (ms' ! k) = Some job' \<longrightarrow> k = 0 \<and> job' = job)" for f :: "(message, 'x) io"
    using q by (auto intro!: performs_mono [OF that] simp: nth_Cons split: nat.splits)
  have head: "performs (ibind (icall m reply) g) (\<lambda>ms' r. \<forall>k < length ms'. \<forall>job'. finalises (ms' ! k) = Some job' \<longrightarrow> k = 0 \<and> job' = job)"
    if m: "finalises m = Some job" and g: "\<And>x. sends_only (g x) (\<lambda>m. finalises m = None)" for m reply and g :: "'y \<Rightarrow> (message, 'x) io"
  proof (rule performs_bind [OF performs_call [where P = "\<lambda>ms r. ms = [m]"]])
    fix ms :: "message list" and x assume "ms = [m]"
    then show "performs (g x) (\<lambda>ms' r. \<forall>k < length (ms @ ms'). \<forall>job'. finalises ((ms @ ms') ! k) = Some job' \<longrightarrow> k = 0 \<and> job' = job)"
      using m by (intro performs_mono [OF g [unfolded sends_only_def]]) (auto simp: list_all_length nth_Cons split: nat.splits)
  qed (use m in auto)
  show ?case unfolding job prod.case Let_def
    by (intro first performs_if performs_lift_bind head) (auto simp: job intro!: performs_intro submission_finalises assms)
qed


section \<open>Waiting ends\<close>

lemma icall_run [simp]: "ibind (iattempt (icall m reply)) g w = g (reply (wSent w)) (w\<lparr>wSent := wSent w @ [m]\<rparr>)"
  by (simp add: ibind_def iattempt_def icall_def)

lemma wait_blocks_returns:
  assumes high: "\<And>ms. j \<le> length ms \<Longrightarrow> \<exists>b. nNowBlock N ms = Ok b \<and> target \<le>s b"
  shows "0 < polls \<Longrightarrow> j < length (wSent w) + polls \<Longrightarrow> snd (wait_blocks N target polls w) = Ok True"
proof (induction polls arbitrary: w)
  case (Suc polls)
  show ?case
  proof (cases "\<exists>b. nNowBlock N (wSent w) = Ok b \<and> target \<le>s b")
    case True
    then show ?thesis by (auto simp: ilift_def)
  next
    case False
    with high [of "wSent w"] have "length (wSent w) < j" by (cases "length (wSent w) < j") auto
    then show ?thesis using Suc False by (auto split: sum.splits)
  qed
qed simp

lemma wait_returns:
  assumes seen: "\<And>ms. i \<le> length ms \<Longrightarrow> nTxInfo N txHash ms = Ok info"
    and before: "\<And>ms info'. nTxInfo N txHash ms = Ok info' \<Longrightarrow> tiID info' = [] \<or> info' = info"
    and high: "\<And>ms. j \<le> length ms \<Longrightarrow> \<exists>b. nNowBlock N ms = Ok b \<and> tiBlockNumber info + confirmations - 1 \<le>s b"
    and fine: "tiID info \<noteq> []" "tiResult info \<noteq> ''FAILED''"
  shows "2 \<le> polls \<Longrightarrow> i + 1 < length (wSent w) + polls \<Longrightarrow> j < length (wSent w) + polls \<Longrightarrow>
    snd (WaitForTronTransaction N txHash confirmations polls w) = Ok True"
proof (induction polls arbitrary: w)
  case (Suc polls)
  show ?case
  proof (cases "nTxInfo N txHash (wSent w) = Ok info")
    case True
    then show ?thesis using Suc.prems fine wait_blocks_returns [OF high, where w = "w\<lparr>wSent := wSent w @ [GetTransactionInfo txHash]\<rparr>" and polls = polls]
      by (auto simp: ilift_def)
  next
    case False
    with seen [of "wSent w"] have "length (wSent w) < i" by (cases "length (wSent w) < i") auto
    moreover have "snd (WaitForTronTransaction N txHash confirmations (Suc polls) w)
        = snd (WaitForTronTransaction N txHash confirmations polls (w\<lparr>wSent := wSent w @ [GetTransactionInfo txHash]\<rparr>))"
      using False before by (auto split: sum.splits)
    ultimately show ?thesis using Suc by auto
  qed
qed simp

text \<open>C26. Waiting for a Tron transaction ends: if the node reports its inclusion from some moment on, without a
  failure, and from some moment on a block that is deep enough, then the wait returns true once its context
  grants enough polls, whatever errors or unknown answers came before; the bound is explicit.\<close>

theorem tron_wait_returns:
  assumes "\<And>ms. i \<le> length ms \<Longrightarrow> nTxInfo N txHash ms = Ok info"
    and "\<And>ms info'. nTxInfo N txHash ms = Ok info' \<Longrightarrow> tiID info' = [] \<or> info' = info"
    and "tiID info \<noteq> []" "tiResult info \<noteq> ''FAILED''"
    and "\<And>ms. j \<le> length ms \<Longrightarrow> \<exists>b. nNowBlock N ms = Ok b \<and> tiBlockNumber info + confirmations - 1 \<le>s b"
  shows "\<forall>polls \<ge> i + j + 2. snd (WaitForTronTransaction N txHash confirmations polls w) = Ok True"
  using wait_returns [OF assms(1,2,5,3,4), where w = w] by simp

section \<open>A network and services for the witnesses\<close>

definition silent :: "'a result" where "silent = Err (Errorf [])"

definition toy_net :: network where
  "toy_net = \<lparr>nHinkalAddress = \<lambda>_. Ok ''0x01'', nProviderAdapter = \<lambda>_. Ok (), nTronWeb = Ok (), nOwnAddress = Ok ''0x02'',
     nFetchClient = \<lambda>_. Ok (), nAllowance = \<lambda>_ _ _ _. Ok 0, nApproveCalldata = \<lambda>_ _. Ok [], nSend = \<lambda>_ _. Ok ''h'',
     nWait = \<lambda>_ _ _ _. Ok (), nPackTransact = \<lambda>_ _ _ _. Ok [], nEstimateGas = \<lambda>_ _ _ _. silent, nRelay = \<lambda>_ _. silent,
     nSchedule = \<lambda>_ _. silent, nSignProof = \<lambda>_ _. silent, nTronAddress = ''T'', nEthCall = \<lambda>_ _ _ _ _ _. silent,
     nAllowanceCalldata = \<lambda>_ _. Ok [], nTrigger = \<lambda>_ _. silent, nTxCheck = \<lambda>_ _. Ok (), nSignHash = \<lambda>_. Ok [], nBroadcast = \<lambda>_ _. silent,
     nTxInfo = \<lambda>_ ms. if length ms < 3 then silent else Ok \<lparr>tiID = ''h'', tiResult = [], tiResMessage = [], tiBlockNumber = 10\<rparr>,
     nNowBlock = \<lambda>ms. Ok (of_nat (min 40 (length ms * 4))), nConstantCall = \<lambda>_. silent, nEstimateEnergy = \<lambda>_. silent, nChainParameters = Ok [],
     nAccountResource = \<lambda>_. silent, nBalanceSun = \<lambda>_. Ok 0, nPackTronTransact = \<lambda>_ _ _ _ _ _ _. Ok [], nRandomRelay = \<lambda>_ _ _. Ok ''0x03'',
     nPrepareTx = \<lambda>_ _. silent, nFinalizeTx = \<lambda>_ _ _. silent, nFinalizeTxRelay = \<lambda>_ _ _ _ _ _ _. silent, nEmit = \<lambda>_ _ _. Ok ()\<rparr>"

lemma tron_wait_returns_witness:
  "\<forall>k. snd (WaitForTronTransaction toy_net ''h'' 3 (10 + k) \<lparr>wSent = [], wCache = MemoryCacheDevice []\<rparr>) = Ok True"
proof -
  let ?info = "\<lparr>tiID = ''h'', tiResult = [], tiResMessage = [], tiBlockNumber = 10\<rparr>"
  have "\<forall>polls \<ge> 3 + 5 + 2. snd (WaitForTronTransaction toy_net ''h'' 3 polls \<lparr>wSent = [], wCache = MemoryCacheDevice []\<rparr>) = Ok True"
  proof (rule tron_wait_returns [of 3 toy_net "''h''" ?info 5 3])
    fix ms :: "message list" assume len: "5 \<le> length ms"
    show "\<exists>b. nNowBlock toy_net ms = Ok b \<and> tiBlockNumber ?info + 3 - 1 \<le>s b"
    proof (cases "length ms < 10")
      case True
      then have "length ms \<in> {5,6,7,8,9}" using len by auto
      then show ?thesis by (auto simp: toy_net_def word_sle_eq)
    next
      case False
      then show ?thesis by (simp add: toy_net_def word_sle_eq min_def)
    qed
  qed (auto simp: toy_net_def silent_def split: if_splits)
  then show ?thesis by simp
qed


definition toy_services :: "int wallet_services" where
  "toy_services = \<lparr>wsWallet = toy_wallet, wsRemote = False, wsTrees = \<lambda>_. None, wsBalance = toy_env,
     wsFloat = \<lparr>fzero = 0, fmul = (*), fdiv = (div), fOfInt = id, ParseFloat = ParseBigInt, FormatFloat = \<lambda>n _. int_String n,
       FormatShortest = int_String\<rparr>,
     wsTokens = \<lambda>_ _. Ok [], wsStuck = \<lambda>_. Ok [], wsEthAddress = Ok ''a'', wsOnChainRoot = Ok (0, 0), wsSiblings = \<lambda>_. silent,
     wsEmporium = \<lambda>_ _ _ _ _ _. Ok [], wsProver = \<lambda>_ _. silent, wsNow = 9, wsInputFresh = \<lambda>_ _. (0, Ok 3), wsPadFresh = \<lambda>_ _ _. (0, Ok 3),
     wsRowFresh = \<lambda>_ _. (0, Ok 3), wsOutFresh = \<lambda>_ _. (0, Ok 3), wsSelfFresh = \<lambda>_. (0, Ok 3),
     wsDraws = \<lparr>drRandomization = Ok 3, drMessageSeed = Ok 4, drNow = 9, drOutputs = \<lambda>i j. (Ok [], Ok []), drOwn = (Ok [], Ok [])\<rparr>\<rparr>"

lemma local_transaction_sends_witness:
  "performs (HinkalTransact toy_hex toy_sealing toy_net toy_services (no_transact_params\<lparr>htSubmit := NewProofOnlySubmit\<rparr>)) (\<lambda>ms r. executing ms = [])"
  using local_transaction_sends [of toy_services "no_transact_params\<lparr>htSubmit := NewProofOnlySubmit\<rparr>" toy_hex toy_sealing toy_net]
  by (simp add: toy_services_def confirm_quiet_def no_transact_params_def asks_only_def NewProofOnlySubmit_def)

lemma enclave_finalises_checked_answer_witness:
  "performs (enclave_transact mini toy_sealing (toy_net\<lparr>nPrepareTx := \<lambda>q _. empty_post q\<rparr>) 0
     (no_transact_params\<lparr>htChainID := 1, htErc20Addresses := Some [hex 3], htAmountChanges := Some [0], htForceEmptyUtxos := True,
        htSubmit := NewRelayerSubmit \<lparr>rsAdminData = None, rsAuthorizationData = None, rsWithUniswapWorkAround = False\<rparr>\<rparr>)
     \<lparr>signature = num 5, nullifyingKey = hex 7\<rparr>)
   (\<lambda>ms r. \<forall>k < length ms. finalises (ms ! k) \<noteq> None \<longrightarrow> k = 1)"
  by (rule performs_mono [OF enclave_finalises_checked_answer]) (auto simp: no_transact_params_def)

end
