(* ===== verification/ActionsCorrect.thy ===== *)
theory ActionsCorrect
  imports TransactCorrect
begin

text \<open>
  What the amounts of the actions add up to: the padding of explicit notes and the split of the wallet's own
  output, what the recipient of a withdrawal is left with, and what a transfer delivers.
\<close>

section \<open>Rows of notes\<close>

text \<open>What a row of notes is worth; an amount that is nil is worth nothing.\<close>

definition total :: "utxo list \<Rightarrow> int" where
  "total us = sum_list (map (\<lambda>u. case Amount u of Some a \<Rightarrow> a | None \<Rightarrow> 0) us)"

lemma total_append [simp]: "total (us @ vs) = total us + total vs"
  by (simp add: total_def)

lemma total_zeros: "(\<And>u. u \<in> set us \<Longrightarrow> Amount u = Some 0) \<Longrightarrow> total us = 0"
  by (induction us) (auto simp: total_def)

lemma padding_note:
  assumes "rmap (\<lambda>j. zero_note E (f j) erc20 mint nk spk) js = Ok zs" "z \<in> set zs"
  shows "Amount z = Some 0 \<and> Erc20TokenAddress z = erc20 \<and> MintAddress z = mint"
proof -
  obtain i where i: "i < length zs" "z = zs ! i" using assms(2) by (auto simp: in_set_conv_nth)
  then have "zero_note E (f (js ! i)) erc20 mint nk spk = Ok z"
    using rmap_Ok_nth [OF assms(1)] rmap_Ok_length [OF assms(1)] by simp
  then show ?thesis by (rule zero_note_amount)
qed

lemma padded_row:
  assumes "rmap (\<lambda>j. zero_note E (f j) erc20 mint nk spk) [n ..< m] = Ok zs"
  shows "length zs = m - n \<and> total zs = 0 \<and> (\<forall>z \<in> set zs. Erc20TokenAddress z = erc20 \<and> MintAddress z = mint)"
  using padding_note [OF assms] rmap_Ok_length [OF assms] by (simp add: total_zeros)

definition explicit_size :: "utxo list list \<Rightarrow> nat" where
  "explicit_size rows = (if \<forall>row \<in> set rows. length row \<le> 2 then 2 else 6)"

lemma foldl_max_le: "foldl max (a :: nat) xs \<le> n \<longleftrightarrow> a \<le> n \<and> (\<forall>x \<in> set xs. x \<le> n)"
  by (induction xs arbitrary: a) auto

text \<open>Notes that the caller names are all kept, in their order, and filled up with empty notes of the same
  token to two notes a token, or to six as soon as one token has more than two; the worth of each row is that
  of the notes given. A token without a note is refused.\<close>

theorem explicit_notes_padded:
  assumes "padInputUtxos E g uk rows = Ok padded"
  shows "list_all2 (\<lambda>row out. row \<noteq> [] \<and> take (length row) out = row \<and> length out = max (length row) (explicit_size rows) \<and>
     total out = total row \<and> (\<forall>u \<in> set (drop (length row) out). Amount u = Some 0 \<and> Erc20TokenAddress u = Erc20TokenAddress (hd row))) rows padded"
proof -
  have size: "(if foldl max 0 (map length rows) \<le> twoDimensionalInputCount then twoDimensionalInputCount else sixDimensionalInputCount)
      = explicit_size rows"
    by (simp add: explicit_size_def foldl_max_le twoDimensionalInputCount_def sixDimensionalInputCount_def)
  obtain spk pub where run: "rmap (\<lambda>(i, notes). if notes = [] then Err errTransactEmptyInputUtxos
        else rbind (rmap (\<lambda>j. zero_note E (g i j) (Erc20TokenAddress (hd notes)) (MintAddress (hd notes)) spk pub)
               [length notes ..< explicit_size rows]) (\<lambda>padding. Ok (notes @ padding))) (enumerate 0 rows) = Ok padded"
    using assms unfolding padInputUtxos_def Let_def size by (auto simp: rbind_Ok_iff)
  show ?thesis
  proof (rule list_all2_all_nthI)
    show "length rows = length padded" using rmap_Ok_length [OF run] by simp
    fix i assume i: "i < length rows"
    with rmap_Ok_nth [OF run, of i] obtain zs where ne: "rows ! i \<noteq> []" and zs:
      "rmap (\<lambda>j. zero_note E (g i j) (Erc20TokenAddress (hd (rows ! i))) (MintAddress (hd (rows ! i))) spk pub)
         [length (rows ! i) ..< explicit_size rows] = Ok zs" "padded ! i = rows ! i @ zs"
      by (auto simp: nth_enumerate_eq rbind_Ok_iff split: if_splits)
    show "rows ! i \<noteq> [] \<and> take (length (rows ! i)) (padded ! i) = rows ! i \<and>
        length (padded ! i) = max (length (rows ! i)) (explicit_size rows) \<and> total (padded ! i) = total (rows ! i) \<and>
        (\<forall>u \<in> set (drop (length (rows ! i)) (padded ! i)). Amount u = Some 0 \<and> Erc20TokenAddress u = Erc20TokenAddress (hd (rows ! i)))"
      using ne zs(2) padded_row [OF zs(1)] padding_note [OF zs(1)] by auto
  qed
qed

lemma explicit_notes_padded_witness:
  "\<exists>padded. padInputUtxos toy_hex (\<lambda>_ _. (5, Ok 3)) (keys toy_wallet) [[toy_seen]] = Ok padded \<and>
     length padded = 1 \<and> length (padded ! 0) = 2 \<and> total (padded ! 0) = 5"
proof -
  have "case GetSpendingKeyPair toy_hex (keys toy_wallet) of Inr _ \<Rightarrow> True | _ \<Rightarrow> False" by code_simp
  then obtain pair where pair: "GetSpendingKeyPair toy_hex (keys toy_wallet) = Ok pair" by (auto split: sum.splits)
  let ?pub = "[fst (PubSpendingBJJPoint pair), snd (PubSpendingBJJPoint pair)]"
  obtain z where z: "zero_note toy_hex (5, Ok 3) ''0x04'' [] ''7'' ?pub = Ok z" using toy_zero by blast
  have key: "snd (GetShieldedPrivateKey toy_hex (keys toy_wallet)) = Ok ''7''" by (simp add: GetShieldedPrivateKey_def toy_wallet_def)
  have run: "padInputUtxos toy_hex (\<lambda>_ _. (5, Ok 3)) (keys toy_wallet) [[toy_seen]] = Ok [[toy_seen, z]]"
    using pair z key by (auto simp: padInputUtxos_def twoDimensionalInputCount_def toy_seen_def upt_rec)
  from explicit_notes_padded [OF this] show ?thesis using run
    by (simp add: explicit_size_def total_def toy_seen_def)
qed

text \<open>The wallet's own output is replaced by notes of the same token whose amounts are those asked for, and add up
  to what it was.\<close>

lemma self_output_split:
  assumes "splitSelfOutput E g uk outs amounts = Ok outs'"
  shows "\<exists>own parts. outs = [[own]] \<and> outs' = [parts] \<and> map Amount parts = map Some amounts \<and>
    Amount own = Some (sum_list amounts) \<and> total parts = total [own] \<and> (\<forall>u \<in> set parts. Erc20TokenAddress u = Erc20TokenAddress own)"
proof -
  have "foldl (+) a xs = a + sum_list xs" for a :: int and xs by (induction xs arbitrary: a) simp_all
  then have sum: "foldl (+) 0 xs = sum_list xs" for xs :: "int list" by simp
  from assms obtain own where outs: "outs = [[own]]" by (auto simp: splitSelfOutput_def split: list.splits)
  from assms obtain spk pub parts where own: "Amount own = Some (sum_list amounts)" and outs': "outs' = [parts]" and run:
    "rmap (\<lambda>(i, a). NewUtxo E (fst (g i)) (snd (g i)) (no_params\<lparr>pAmount := Some a, pErc20TokenAddress := Erc20TokenAddress own,
        pMintAddress := MintAddress own, pNullifyingKey := spk, pTimeStamp := TimeStamp own, pSpendingPublicKey := Some pub\<rparr>))
      (enumerate 0 amounts) = Ok parts"
    by (auto simp: splitSelfOutput_def outs sum deref_def rbind_Ok_iff split: option.splits if_splits)
  have each: "Amount (parts ! i) = Some (amounts ! i) \<and> Erc20TokenAddress (parts ! i) = Erc20TokenAddress own" if "i < length amounts" for i
  proof -
    from rmap_Ok_nth [OF run, of i] that obtain q where "NewUtxo E (fst (g i)) (snd (g i)) q = Ok (parts ! i)"
      "pAmount q = Some (amounts ! i)" "pErc20TokenAddress q = Erc20TokenAddress own" by (auto simp: nth_enumerate_eq no_params_def)
    then show ?thesis using NewUtxo_fields(1,2) by metis
  qed
  have len: "length parts = length amounts" using rmap_Ok_length [OF run] by simp
  have amounts: "map Amount parts = map Some amounts" using each len by (auto intro: nth_equalityI)
  have "map (\<lambda>u. case Amount u of Some a \<Rightarrow> a | None \<Rightarrow> 0) parts = amounts" using each len by (auto intro: nth_equalityI)
  then have "total parts = sum_list amounts" by (simp add: total_def)
  then show ?thesis using outs outs' own each len amounts by (auto simp: total_def in_set_conv_nth)
qed

section \<open>Withdrawals\<close>

lemma gross_up_step:
  assumes "i < length amounts" "i < length pre" "pre ! i \<le> 0" "0 < rate" "rate < BPSDenominator"
  obtains g where "CalculateVariableFeeGrossUp (- pre ! i) rate = Ok g" "0 \<le> g"
    "- pre ! i \<le> (- pre ! i + g) - on_chain_cut (- pre ! i + g) rate"
    "(- pre ! i + g) - on_chain_cut (- pre ! i + g) rate \<le> - pre ! i + 1"
  using gross_up_covers [of "- pre ! i" rate] assms by auto

text \<open>Every spent amount grows by its own gross-up, entry by entry.\<close>

lemma gross_up_run:
  assumes "\<forall>i < n. i < length pre \<and> i < length amounts" "\<forall>i < n. pre ! i \<le> 0" "0 < rate" "rate < BPSDenominator"
  shows "\<exists>out. gross_up rate pre n amounts = Ok out \<and> length out = length amounts \<and>
    (\<forall>i < n. \<exists>g. 0 \<le> g \<and> out ! i = amounts ! i - g \<and>
       (amounts ! i < 0 \<longrightarrow> - pre ! i \<le> (- pre ! i + g) - on_chain_cut (- pre ! i + g) rate \<and>
          (- pre ! i + g) - on_chain_cut (- pre ! i + g) rate \<le> - pre ! i + 1) \<and>
       (amounts ! i \<ge> 0 \<longrightarrow> g = 0)) \<and>
    (\<forall>i \<ge> n. i < length amounts \<longrightarrow> out ! i = amounts ! i)"
  using assms(1,2)
proof (induction n)
  case 0
  show ?case by (simp add: gross_up_def)
next
  case (Suc n)
  then obtain out where out: "gross_up rate pre n amounts = Ok out" "length out = length amounts"
    "\<forall>i < n. \<exists>g. 0 \<le> g \<and> out ! i = amounts ! i - g \<and>
       (amounts ! i < 0 \<longrightarrow> - pre ! i \<le> (- pre ! i + g) - on_chain_cut (- pre ! i + g) rate \<and>
          (- pre ! i + g) - on_chain_cut (- pre ! i + g) rate \<le> - pre ! i + 1) \<and> (amounts ! i \<ge> 0 \<longrightarrow> g = 0)"
    "\<forall>i \<ge> n. i < length amounts \<longrightarrow> out ! i = amounts ! i" by auto
  have n: "n < length pre" "n < length amounts" "pre ! n \<le> 0" using Suc.prems by auto
  from gross_up_step [OF n(2,1,3) assms(3,4)] obtain g where g: "CalculateVariableFeeGrossUp (- pre ! n) rate = Ok g" "0 \<le> g"
    "- pre ! n \<le> (- pre ! n + g) - on_chain_cut (- pre ! n + g) rate"
    "(- pre ! n + g) - on_chain_cut (- pre ! n + g) rate \<le> - pre ! n + 1" .
  let ?out = "if amounts ! n \<ge> 0 then out else out[n := amounts ! n - g]"
  have run: "gross_up rate pre (Suc n) amounts = Ok ?out"
    using out(1,2,4) n g(1) by (simp add: gross_up_def rfold_append index_at_def)
  show ?case
  proof (intro exI [of _ ?out] conjI allI impI)
    fix i assume "i < Suc n"
    then consider "i < n" | "i = n" by linarith
    then show "\<exists>g. 0 \<le> g \<and> ?out ! i = amounts ! i - g \<and>
       (amounts ! i < 0 \<longrightarrow> - pre ! i \<le> (- pre ! i + g) - on_chain_cut (- pre ! i + g) rate \<and>
          (- pre ! i + g) - on_chain_cut (- pre ! i + g) rate \<le> - pre ! i + 1) \<and> (amounts ! i \<ge> 0 \<longrightarrow> g = 0)"
    proof cases
      case 1
      then show ?thesis using out(3) by auto
    next
      case 2
      then show ?thesis using out(2,4) n g by (cases "amounts ! n \<ge> 0") (auto intro: exI [of _ 0] exI [of _ g])
    qed
  qed (use run out n in auto)
qed




definition toy_actions :: "int action_services" where
  "toy_actions = wallet_services.extend toy_services (action_services.fields (\<lambda>_ _ _ _. silent) (\<lambda>_ _. silent) (\<lambda>_ _. silent) [] 0
     (\<lambda>_. Ok ''0x02'') (Ok ''0x02'') (\<lambda>_. silent) 1 id)"


section \<open>Private transfers\<close>

text \<open>Requests to the enclave are made in one place.\<close>

fun asks_enclave :: "message \<Rightarrow> bool" where
  "asks_enclave (PrepareTx _) = True"
| "asks_enclave _ = False"

lemma submission_asks:
  assumes "htOnTxConfirm p = None" shows "sends_only (submitAndConfirm E S N p pf) (\<lambda>m. \<not> asks_enclave m)"
proof -
  have evm: "of_evm_wallet m \<Longrightarrow> \<not> asks_enclave m" and tron: "of_tron_wallet m \<Longrightarrow> \<not> asks_enclave m" for m by (cases m; simp)+
  show ?thesis
    unfolding submitAndConfirm_def SubmitProof_def submitEvm_def submitTron_def relay_proof_def TransactCallRelayer_def assms io_unfold
    by (intro performs_intro sends_only_mono [OF TransactCallDirect_sends evm] sends_only_mono [OF TransactCallDirectTron_sends tron]
        sends_only_mono [OF ReorderZkCallData_sends tron]) simp_all
qed

text \<open>The request is the one of these parameters, up to the relay.\<close>

definition asks_for :: "primitives \<Rightarrow> transact_params \<Rightarrow> message \<Rightarrow> bool" where
  "asks_for E p m \<longleftrightarrow> (\<forall>q. m = PrepareTx q \<longrightarrow>
     (\<exists>p' cs addressOf uk. with_relay p p' \<and> prepare_request E addressOf uk (prepare_params p' cs) = Ok q))"

lemma prepareEnclaveJob_asks:
  assumes "with_relay p p'" shows "sends_only (prepareEnclaveJob E N now p' uk) (asks_for E p)"
proof -
  have "sends_only (prepare_call E N now uk (prepare_params p' cs)) (asks_for E p)" for cs
    unfolding sends_only_def
  proof (rule performs_mono [OF prepare_call_performs])
    fix ms and r :: "prepare_tx_response result"
    assume "(ms = [] \<and> (\<exists>e. r = Inl e)) \<or> (\<exists>q. ms = [PrepareTx q] \<and> prepare_request E (nHinkalAddress N) uk (prepare_params p' cs) = Ok q \<and>
      (\<forall>resp. r = Ok resp \<longrightarrow> checked_answer N p' q resp))"
    then show "list_all (asks_for E p) ms" using assms unfolding asks_for_def by (elim disjE exE conjE; simp; blast)
  qed
  then show ?thesis unfolding prepareEnclaveJob_def by (intro performs_intro)
qed

lemma HinkalTransact_asks:
  assumes "htOnTxConfirm p = None" shows "sends_only (HinkalTransact E S N W p) (asks_for E p)"
proof -
  have quiet: "\<not> asks_enclave m \<Longrightarrow> asks_for E p m" for m by (auto simp: asks_for_def)
  have relay: "performs (resolveTransactRelay N remote p) (\<lambda>ms r. list_all (asks_for E p) ms \<and> (\<forall>q. r = Inr q \<longrightarrow> with_relay p q))" for remote
  proof -
    have "performs (resolve_relay N remote chainID skip) (\<lambda>ms r. list_all (asks_for E p) ms)" for chainID skip
      by (auto simp: performs_def resolve_relay_def asks_for_def)
    then show ?thesis unfolding resolveTransactRelay_def Let_def
      by (intro performs_if) (auto intro!: performs_bind [where P = "\<lambda>ms r. list_all (asks_for E p) ms"] simp: with_relay_def)
  qed
  have rest: "sends_only (if wsRemote W \<and> IsEnclaveTxChain (htChainID p') then enclave_transact E S N (wsNow W) p' uk
      else ibind (buildProofLocally E S W p' uk) (\<lambda>proof. submitAndConfirm E S N p' proof)) (asks_for E p)"
    if w: "with_relay p p'" for p' uk
  proof -
    have c: "htOnTxConfirm p' = None" using with_relay_keeps [OF w] assms by simp
    show ?thesis unfolding enclave_transact_def io_unfold buildProofLocally_def proof_inputs_def
      by (intro performs_intro prepareEnclaveJob_asks [OF w] sends_only_mono [OF submission_asks [OF c] quiet]) (simp_all add: asks_for_def)
  qed
  show ?thesis unfolding HinkalTransact_def Let_def sends_only_def
  proof (rule performs_if, simp, rule performs_bind [OF relay])
    fix ms p' assume "list_all (asks_for E p) ms \<and> (\<forall>q. (Inr p' :: transact_params result) = Inr q \<longrightarrow> with_relay p q)"
    then have ms: "list_all (asks_for E p) ms" and w: "with_relay p p'" by simp_all
    show "performs (if wsRemote W \<and> IsEnclaveTxChain (htChainID p')
        then enclave_transact E S N (wsNow W) p' (case htUserKeys p' of Some k \<Rightarrow> k | None \<Rightarrow> keys (wsWallet W))
        else ibind (buildProofLocally E S W p' (case htUserKeys p' of Some k \<Rightarrow> k | None \<Rightarrow> keys (wsWallet W)))
          (\<lambda>proof. submitAndConfirm E S N p' proof)) (\<lambda>ms' r. list_all (asks_for E p) (ms @ ms'))"
      by (rule performs_mono [OF rest [OF w, unfolded sends_only_def]]) (use ms in simp)
  qed simp_all
qed


lemma transferRecipientAmounts_nonempty:
  "addresses \<noteq> [] \<Longrightarrow> transferRecipientAmounts addresses x = x # replicate (length addresses - 1) 0"
  by (rule nth_equalityI) (auto simp: transferRecipientAmounts_def nth_Cons split: nat.splits)

lemma performs_lift_bindI:
  assumes "\<And>x. r = Inr x \<Longrightarrow> performs (g x) (\<lambda>ms s. \<forall>m \<in> set ms. Q m)"
  shows "performs (ibind (ilift r) g) (\<lambda>ms s. \<forall>m \<in> set ms. Q m)"
proof (cases r)
  case (Inr x)
  then show ?thesis using assms [OF Inr] by (simp only: ibind_lift)
qed simp

text \<open>C28. The request a private transfer makes: the tokens and changes given, with the fee merged in, and for the
  recipient, at the address given, the amount of the first token. For every other token it names the
  amount zero: what the other changes take out of the notes does not go to the recipient.\<close>

theorem transfer_request:
  "performs (HinkalTransfer E S N A tokens base recipient feeToken feeOverride action) (\<lambda>ms r. \<forall>m \<in> set ms. \<forall>q. m = PrepareTx q \<longrightarrow>
     (\<exists>chainID changes fee addresses merged. ValidateAndGetChainID tokens = Ok chainID \<and>
        ModifyVolatileTokenAmountChanges (asVolatile A) chainID tokens base [] = Ok changes \<and> changes \<noteq> [] \<and>
        MergeWithFeeStructure (wsTokens A) chainID (tokenAddresses tokens) changes fee = Ok (addresses, merged) \<and>
        qErc20Addresses q = Some addresses \<and> qAmountChanges q = Some (map int_String merged) \<and>
        qRecipientAddress q = (if recipient = [] then None else Some [recipient]) \<and>
        qRecipientAmounts q = Some [Some (map int_String (- hd changes # replicate (length addresses - 1) 0))]))"
  (is "performs _ (\<lambda>ms r. \<forall>m \<in> set ms. ?Q m)")
  unfolding HinkalTransfer_def Let_def case_prod_unfold
proof (intro performs_lift_bindI performs_if)
  fix chainID ethereumAddress changes first and fv :: "fee_structure \<times> int" and am :: "string list \<times> int list"
  assume chain: "ValidateAndGetChainID tokens = Inr chainID" and ne: "tokens \<noteq> []"
    and changes: "ModifyVolatileTokenAmountChanges (asVolatile A) chainID tokens base [] = Inr changes"
    and first: "index_at changes 0 = Inr first"
    and merge: "MergeWithFeeStructure (wsTokens A) chainID (tokenAddresses tokens) changes (fst fv) = Inr am"
  let ?p = "no_transact_params\<lparr>htChainID := chainID, htErc20Addresses := Some (fst am), htAmountChanges := Some (snd am),
      htFeeStructure := Some (fst fv), htRecipientAddress := recipient,
      htRecipientAmounts := Some (transferRecipientAmounts (fst am) (- first)),
      htSubmit := NewRelayerSubmit \<lparr>rsAdminData = ConstructAdminData E (asGoos A) (asNowMillis A) action chainID (fst am) (snd am) ethereumAddress []
         (Some (snd fv)), rsAuthorizationData = None, rsWithUniswapWorkAround = False\<rparr>\<rparr>"
  have hd: "changes \<noteq> []" "first = hd changes" using first by (auto simp: index_at_def hd_conv_nth split: if_splits)
  have "fst am \<noteq> []" using merge ne
    by (auto simp: MergeWithFeeStructure_def rbind_Ok_iff tokenAddresses_def split: option.splits if_splits)
  then have amounts: "transferRecipientAmounts (fst am) (- first) = - hd changes # replicate (length (fst am) - 1) 0"
    using hd by (simp add: transferRecipientAmounts_nonempty)
  have "?Q m" if m: "asks_for E ?p m" for m
  proof (intro allI impI)
    fix q assume "m = PrepareTx q"
    with m obtain p' cs addressOf uk where p': "with_relay ?p p'" and q: "prepare_request E addressOf uk (prepare_params p' cs) = Ok q"
      by (auto simp: asks_for_def)
    obtain relay auto external where "p' = ?p\<lparr>htRelay := relay, htAutoSelectRelay := auto, htExternalAddress := external\<rparr>"
      using p' unfolding with_relay_def by blast
    with q have "qErc20Addresses q = Some (fst am)" "qAmountChanges q = Some (map int_String (snd am))"
      "qRecipientAddress q = (if recipient = [] then None else Some [recipient])"
      "qRecipientAmounts q = Some [Some (map int_String (- hd changes # replicate (length (fst am) - 1) 0))]"
      by (auto simp: prepare_request_def rbind_Ok_iff buildPrepareTxRequest_def prepare_params_def no_transact_params_def amounts
          bigIntStrings_def bigIntStringsNested_def nilIfEmpty_def recipientAddresses_def recipientAmountsMatrix_def split: prod.splits)
    then show "\<exists>chainID changes fee addresses merged. ValidateAndGetChainID tokens = Ok chainID \<and>
        ModifyVolatileTokenAmountChanges (asVolatile A) chainID tokens base [] = Ok changes \<and> changes \<noteq> [] \<and>
        MergeWithFeeStructure (wsTokens A) chainID (tokenAddresses tokens) changes fee = Ok (addresses, merged) \<and>
        qErc20Addresses q = Some addresses \<and> qAmountChanges q = Some (map int_String merged) \<and>
        qRecipientAddress q = (if recipient = [] then None else Some [recipient]) \<and>
        qRecipientAmounts q = Some [Some (map int_String (- hd changes # replicate (length addresses - 1) 0))]"
      using chain changes hd(1) merge by (intro exI conjI, auto)
  qed
  moreover have "sends_only (HinkalTransact E S N (wallet_services.truncate A) ?p) (asks_for E ?p)"
    by (rule HinkalTransact_asks) (simp add: no_transact_params_def)
  ultimately show "performs (ibind (HinkalTransact E S N (wallet_services.truncate A) ?p) (\<lambda>result. ireturn (trTxHash result)))
      (\<lambda>ms r. \<forall>m \<in> set ms. ?Q m)"
    by (intro performs_bind [where P = "\<lambda>ms r. \<forall>m \<in> set ms. ?Q m"])
       (auto simp: sends_only_def list_all_iff elim!: performs_mono)
qed simp_all

section \<open>A transfer of two tokens\<close>

text \<open>Fifty of the first token and sixty of the second, through the enclave: the recipient is named fifty and nothing.\<close>

definition remote_actions :: "int action_services" where
  "remote_actions = toy_actions\<lparr>wsRemote := True\<rparr>"
definition toy_recipient :: string where
  "toy_recipient = join_comma [hex (2 ^ 240), num 1, num 2, num 3, num 4, ''0x'' @ hex_EncodeToString (replicate 32 7)]"
definition two_tokens :: "erc20_token list" where
  "two_tokens = [toy_volatile\<lparr>IsVolatile := False\<rparr>, toy_volatile\<lparr>TokenAddress := ''0x05'', IsVolatile := False\<rparr>]"
definition two_sent :: "message list" where
  "two_sent = wSent (fst (HinkalTransfer toy_hex toy_sealing toy_net remote_actions two_tokens [-50, -60] toy_recipient ''0x04''
     (Some \<lparr>FeeToken = ''0x04'', FlatFee = 2, VariableRate = 10\<rparr>) ''a'' \<lparr>wSent = [], wCache = MemoryCacheDevice []\<rparr>))"

lemma toy_wallet_pair: "\<exists>pair :: spending_key_pair. GetSpendingKeyPair toy_hex (keys toy_wallet) = Ok pair"
proof -
  have "ParseBigInt ''5'' = Ok 5" by code_simp
  then show ?thesis by (simp add: GetSpendingKeyPair_def requireSignature_def PoseidonBig_def Let_def toy_hex_def toy_def toy_wallet_def)
qed

lemma toy_recipient_valid: "IsValidPrivateAddress toy_recipient" "toy_recipient \<noteq> []"
proof -
  show "IsValidPrivateAddress toy_recipient"
    unfolding toy_recipient_def by (subst recipient_text(3)) simp_all
  moreover have "\<not> IsValidPrivateAddress []" by code_simp
  ultimately show "toy_recipient \<noteq> []" by metis
qed

lemma toy_prepares:
  assumes "htUserKeys p = None" "suMode (htSubmit p) = SubmitModeRelayer" "htRelay p = []" "htChainID p = 1" "htSpeculative p = None"
    "htInputUtxos p = None" "htErc20Addresses p = Some ts"
  shows "\<exists>q. wSent (fst (HinkalTransact toy_hex toy_sealing toy_net (toy_services\<lparr>wsRemote := True\<rparr>) p
      \<lparr>wSent = [], wCache = MemoryCacheDevice []\<rparr>)) = [PrepareTx q] \<and> qErc20Addresses q = Some ts"
proof -
  obtain pair :: spending_key_pair where pair: "GetSpendingKeyPair toy_hex (keys toy_wallet) = Ok pair" using toy_wallet_pair by blast
  have key: "GetShieldedPrivateKey toy_hex (keys toy_wallet) = (keys toy_wallet, Ok ''7'')"
    by (simp add: toy_wallet_def GetShieldedPrivateKey_def)
  have net: "nHinkalAddress toy_net = (\<lambda>_. Ok ''0x01'')" "nPrepareTx toy_net = (\<lambda>_ _. silent)" by (simp_all add: toy_net_def)
  show ?thesis
    using assms pair key
    by (simp add: HinkalTransact_def resolveTransactRelay_def resolve_relay_def ResolveRelay_def ibind_def enclave_transact_def
        IsEnclaveTxChain_def IsSolanaLike_def SolanaChainIDs_def prepareEnclaveJob_def collectInputCommitments_def prepare_call_def
        prepare_request_def buildPrepareTxRequest_def prepare_params_def net PrepareTxEnclaveCall_def silent_def toy_services_def ilift_def)
qed

lemma remote_run:
  "ValidateAndGetChainID two_tokens = Ok 1"
  "ModifyVolatileTokenAmountChanges (asVolatile remote_actions) 1 two_tokens [-50, -60] [] = Ok [-50, -60]"
  "resolveTransferFeeStructure remote_actions 1 ''0x04'' (tokenAddresses two_tokens) (hd two_tokens) 50
     (Some \<lparr>FeeToken = ''0x04'', FlatFee = 2, VariableRate = 10\<rparr>) = Ok (\<lparr>FeeToken = ''0x04'', FlatFee = 2, VariableRate = 0\<rparr>, 10)"
  "MergeWithFeeStructure (wsTokens remote_actions) 1 (tokenAddresses two_tokens) [-50, -60] \<lparr>FeeToken = ''0x04'', FlatFee = 2, VariableRate = 0\<rparr>
     = Ok ([''0x04'', ''0x05''], [-52, -60])"
  "asAddressByChain remote_actions 1 = Ok ''0x02''" "length two_tokens = 2" "two_tokens \<noteq> []"
  by code_simp+

lemma remote_wallet: "wallet_services.truncate remote_actions = toy_services\<lparr>wsRemote := True\<rparr>"
  by (simp add: remote_actions_def toy_actions_def wallet_services.defs action_services.defs)

lemma transfer_request_witness:
  "\<exists>q. two_sent = [PrepareTx q] \<and> qRecipientAmounts q = Some [Some [num 50, num 0]]"
proof -
  have "\<exists>q. two_sent = [PrepareTx q] \<and> qErc20Addresses q = Some [''0x04'', ''0x05'']"
  proof -
    have tail: "fst (ibind f (\<lambda>x. ireturn (g x)) w) = fst (f w)" for f :: "(message, transact_result) io" and g :: "transact_result \<Rightarrow> string" and w
      by (cases "f w"; cases "snd (f w)") (auto simp: ibind_def ilift_def)
    show ?thesis
      unfolding two_sent_def HinkalTransfer_def
      using toy_recipient_valid remote_run
      by (simp add: index_at_def tail Let_def remote_wallet) (rule toy_prepares, simp_all add: no_transact_params_def NewRelayerSubmit_def)
  qed
  then obtain q where q: "two_sent = [PrepareTx q]" "qErc20Addresses q = Some [''0x04'', ''0x05'']" by blast
  have run: "\<exists>ms. wSent (fst (f w)) = wSent w @ ms \<and> P ms (snd (f w))" if "performs f P" for f :: "(message, string) io" and P w
    using that by (simp add: performs_def)
  have "\<forall>m' \<in> set two_sent. \<forall>q. m' = PrepareTx q \<longrightarrow> (\<exists>chainID changes addresses. ValidateAndGetChainID two_tokens = Ok chainID \<and>
     ModifyVolatileTokenAmountChanges (asVolatile remote_actions) chainID two_tokens [-50, -60] [] = Ok changes \<and>
     qErc20Addresses q = Some addresses \<and>
     qRecipientAmounts q = Some [Some (map num (- hd changes # replicate (length addresses - 1) 0))])"
    using run [OF transfer_request [of toy_hex toy_sealing toy_net remote_actions two_tokens "[-50, -60]" toy_recipient "''0x04''"
     "Some \<lparr>FeeToken = ''0x04'', FlatFee = 2, VariableRate = 10\<rparr>" "''a''"], of "\<lparr>wSent = [], wCache = MemoryCacheDevice []\<rparr>"]
    unfolding two_sent_def [symmetric] by auto blast
  then have "\<forall>m' \<in> set two_sent. \<forall>q. m' = PrepareTx q \<longrightarrow> (\<exists>addresses. qErc20Addresses q = Some addresses \<and>
     qRecipientAmounts q = Some [Some (num 50 # replicate (length addresses - 1) (num 0))])"
    using remote_run(1,2) by auto
  then obtain addresses where "qErc20Addresses q = Some addresses"
     "qRecipientAmounts q = Some [Some (num 50 # replicate (length addresses - 1) (num 0))]"
    using q(1) by (metis list.set_intros(1))
  with q show ?thesis by auto
qed

end
