(* ===== verification/SolanaProgram.thy ===== *)
theory SolanaProgram
  imports Addresses
begin

text \<open>
  The accounts of the Solana program: \<open>internal/data-structures/solana\<close> (\<open>pda.go\<close>, \<open>merkle.go\<close>) derives the
  addresses itself and reads the newest root of the tree, \<open>internal/functions/web3/solana_accounts.go\<close> derives
  the addresses an instruction names with the package's \<open>FindProgramAddress\<close>, here the argument \<open>pda\<close>.
\<close>

section \<open>Derived addresses\<close>

definition pdaMarker :: string where "pdaMarker = ''ProgramDerivedAddress''"

definition le_bytes :: "nat \<Rightarrow> int \<Rightarrow> byte list" where
  "le_bytes n v = map (\<lambda>i. word_of_int (v div 256 ^ i)) [0 ..< n]"

definition pda_candidate :: "primitives \<Rightarrow> byte list list \<Rightarrow> byte list \<Rightarrow> nat \<Rightarrow> byte list" where
  "pda_candidate E seeds programID bump =
     sha256 E (concat seeds @ [word_of_nat bump] @ programID @ string_bytes pdaMarker)"

text \<open>The bumps are tried from 255 down; \<open>Suc b\<close> is the loop at bump \<open>b\<close>. \<open>decodes\<close> is edwards25519's test.\<close>

definition IsOnCurve :: "(byte list \<Rightarrow> bool) \<Rightarrow> byte list \<Rightarrow> bool" where
  "IsOnCurve decodes point = (length point = 32 \<and> decodes point)"

fun find_bump :: "primitives \<Rightarrow> (byte list \<Rightarrow> bool) \<Rightarrow> byte list list \<Rightarrow> byte list \<Rightarrow> nat \<Rightarrow> (byte list \<times> byte) result" where
  "find_bump E decodes seeds programID 0 = Err (Errorf ''solana: unable to find a viable program address bump seed'')"
| "find_bump E decodes seeds programID (Suc b) =
     (let candidate = pda_candidate E seeds programID b in
      if \<not> IsOnCurve decodes candidate then Ok (candidate, word_of_nat b) else find_bump E decodes seeds programID b)"

definition findProgramAddress :: "primitives \<Rightarrow> (byte list \<Rightarrow> bool) \<Rightarrow> byte list list \<Rightarrow> byte list \<Rightarrow> (byte list \<times> byte) result" where
  "findProgramAddress E decodes seeds programID = find_bump E decodes seeds programID 256"

definition MerkleAccountAddress :: "primitives \<Rightarrow> sealing \<Rightarrow> (byte list \<Rightarrow> bool) \<Rightarrow> string \<Rightarrow> string \<Rightarrow> string result" where
  "MerkleAccountAddress E S decodes programID originalDeployer =
     rbind (base58Decode E programID) (\<lambda>programIDBytes.
     rbind (base58Decode E originalDeployer) (\<lambda>deployerBytes.
     rbind (findProgramAddress E decodes [string_bytes ''hinkal_merkle'', deployerBytes] programIDBytes) (\<lambda>(account, _).
     Ok (base58Encode S account))))"

definition RootBucketAddress :: "primitives \<Rightarrow> sealing \<Rightarrow> (byte list \<Rightarrow> bool) \<Rightarrow> string \<Rightarrow> string \<Rightarrow> int \<Rightarrow> string result" where
  "RootBucketAddress E S decodes programID merkleAccount bucketIndex =
     rbind (base58Decode E programID) (\<lambda>programIDBytes.
     rbind (base58Decode E merkleAccount) (\<lambda>merkleBytes.
     rbind (findProgramAddress E decodes [string_bytes ''hinkal_root_bucket'', merkleBytes, le_bytes 8 bucketIndex] programIDBytes)
       (\<lambda>(account, _). Ok (base58Encode S account))))"

section \<open>The Merkle account\<close>

definition merkleAccountDiscriminator :: "byte list" where
  "merkleAccountDiscriminator = [55, 52, 102, 252, 195, 69, 204, 210]"

definition merkleTreeLevelsCount :: nat where "merkleTreeLevelsCount = MerkleLevels"
definition merkleMIndexOffset :: nat where "merkleMIndexOffset = 8 + 1 + merkleTreeLevelsCount * 32"
definition RootBucketCap :: int where "RootBucketCap = 327680"

definition MerkleMinimumIndex :: int where "MerkleMinimumIndex = push_bit (merkleTreeLevelsCount - 1) 1"

text \<open>\<open>big.Int.Div\<close> and \<open>Mod\<close> by a positive number are Euclidean.\<close>

definition RootBucketIndex :: "int \<Rightarrow> int" where "RootBucketIndex relativeIndex = relativeIndex div RootBucketCap"
definition RootBucketSlot :: "int \<Rightarrow> int" where "RootBucketSlot relativeIndex = relativeIndex mod RootBucketCap"

definition ParseMerkleMIndex :: "byte list \<Rightarrow> int result" where
  "ParseMerkleMIndex data =
     (if length data < merkleMIndexOffset + 32 then Err (Errorf ''merkle account too short'')
      else if take 8 data \<noteq> merkleAccountDiscriminator then Err (Errorf ''merkle account: unexpected discriminator'')
      else Ok (SetBytes (take 32 (drop merkleMIndexOffset data))))"

text \<open>An account that does not exist answers None.\<close>

definition FetchMerkleTreeRootHash ::
    "primitives \<Rightarrow> sealing \<Rightarrow> (byte list \<Rightarrow> bool) \<Rightarrow> (string \<Rightarrow> byte list option result) \<Rightarrow> string \<Rightarrow> string \<Rightarrow> int result" where
  "FetchMerkleTreeRootHash E S decodes account programID originalDeployer =
     rbind (MerkleAccountAddress E S decodes programID originalDeployer) (\<lambda>merkleAccount.
     rbind (account merkleAccount) (\<lambda>answer.
     case answer of
       None \<Rightarrow> Err (Errorf ''solana: account not found'')
     | Some data \<Rightarrow>
         rbind (ParseMerkleMIndex data) (\<lambda>mIndex.
         if mIndex \<le> MerkleMinimumIndex then Ok 0
         else
           let relativeIndex = mIndex - 1 - MerkleMinimumIndex;
               bucketIndex = RootBucketIndex relativeIndex; slot = RootBucketSlot relativeIndex in
           rbind (RootBucketAddress E S decodes programID merkleAccount bucketIndex) (\<lambda>bucketAccount.
           rbind (account bucketAccount) (\<lambda>bucket.
           case bucket of
             None \<Rightarrow> Ok 0
           | Some bucketData \<Rightarrow>
               let start = nat slot * 32 in
               if length bucketData < start + 32 then Ok 0
               else Ok (SetBytes (take 32 (drop start bucketData))))))))"

section \<open>The accounts of an instruction\<close>

type_synonym derive = "byte list list \<Rightarrow> byte list \<Rightarrow> byte list result"

definition GetNullifierAccount :: "derive \<Rightarrow> int \<Rightarrow> byte list \<Rightarrow> byte list \<Rightarrow> byte list result" where
  "GetNullifierAccount pda nf originalDeployer programID =
     rbind (EncodeToByte32Array (Some nf)) (\<lambda>b. pda [string_bytes ''hinkal_nullifier'', originalDeployer, b] programID)"

definition GetStorageAccountPublicKey :: "derive \<Rightarrow> byte list \<Rightarrow> byte list \<Rightarrow> byte list result" where
  "GetStorageAccountPublicKey pda programID originalDeployer = pda [string_bytes ''hinkal'', originalDeployer] programID"

definition GetMerkleAccountPublicKey :: "derive \<Rightarrow> byte list \<Rightarrow> byte list \<Rightarrow> byte list result" where
  "GetMerkleAccountPublicKey pda programID originalDeployer = pda [string_bytes ''hinkal_merkle'', originalDeployer] programID"

definition GetRootBucketPublicKey :: "derive \<Rightarrow> byte list \<Rightarrow> byte list \<Rightarrow> int \<Rightarrow> byte list result" where
  "GetRootBucketPublicKey pda programID merkleAccount bucketIndex =
     pda [string_bytes ''hinkal_root_bucket'', merkleAccount, le_bytes 8 bucketIndex] programID"

definition GetStorageVaultPublicKey :: "derive \<Rightarrow> byte list \<Rightarrow> byte list \<Rightarrow> byte list result" where
  "GetStorageVaultPublicKey pda programID originalDeployer = pda [string_bytes ''hinkal_vault'', originalDeployer] programID"

definition GetSwapperAccountPublicKey :: "derive \<Rightarrow> byte list \<Rightarrow> byte list \<Rightarrow> int option \<Rightarrow> byte list result" where
  "GetSwapperAccountPublicKey pda programID originalDeployer additionalSeed =
     rbind (bigToBE additionalSeed 32) (\<lambda>b. pda [string_bytes ''hinkal_swapper'', originalDeployer, b] programID)"

definition GetSwapperAccountPublicKeyFromSalt :: "primitives \<Rightarrow> derive \<Rightarrow> byte list \<Rightarrow> byte list \<Rightarrow> int \<Rightarrow> byte list result" where
  "GetSwapperAccountPublicKeyFromSalt E pda programID originalDeployer salt =
     rbind (PoseidonBig E [salt]) (\<lambda>additionalSeed. GetSwapperAccountPublicKey pda programID originalDeployer (Some additionalSeed))"

definition BuildAnchorStealthAddressStructure :: "stealth_structure \<Rightarrow> byte list list result" where
  "BuildAnchorStealthAddressStructure s =
     rmap (\<lambda>v. EncodeToByte32Array (Some v)) [ssH0x s, ssH0y s, ssH1x s, ssH1y s, ssStealthAddress s]"

end
