(* ===== verification/SolanaSubmit.thy ===== *)
theory SolanaSubmit
  imports SolanaProgram TronSubmit
begin

text \<open>
  \<open>internal/functions/solana\<close>: a transaction is built with a compute limit taken from a simulation
  (\<open>v1_transaction.go\<close>), signed, sent and waited for (\<open>transaction.go\<close>), or built and paid for by the relayer and
  signed here (\<open>sponsored.go\<close>); \<open>transactions.go\<close> reads a transaction back.
\<close>

section \<open>Services\<close>

record signature_status =
  stError :: "string option"
  stConfirmation :: string

record solana_finalized =
  sfArgs :: string
  sfCommitmentValidationData :: "commitment_validation option"

text \<open>\<open>slCompile\<close> is the package's \<open>NewTransaction\<close> for a payer; \<open>slCosign\<close> decodes a serialized transaction, adds
  the signature of a key and serializes it again; \<open>slOwner\<close> and \<open>slData\<close> read an account. The first fields are the
  package's program identifiers.\<close>

record solana_token = erc20_token +
  Is2022Program :: bool

record solana_network = network +
  slTokenProgram :: "byte list"
  slToken2022Program :: "byte list"
  slTokenAccountProgram :: "byte list"
  slSystemProgram :: "byte list"
  slInstructionsSysvar :: "byte list"
  slEd25519Program :: "byte list"
  slDeployer :: "int \<Rightarrow> string result"
  slProgram :: "byte list \<Rightarrow> unit result"
  slConnection :: "unit result"
  slPublicKey :: "byte list result"
  slBlockhash :: "(string \<times> nat) sent"
  slCompile :: "byte list \<Rightarrow> solana_ix list \<Rightarrow> string \<Rightarrow> nat \<Rightarrow> unit result"
  slSimulate :: "byte list \<Rightarrow> solana_ix list \<Rightarrow> string \<Rightarrow> nat option result"
  slSerialize :: "byte list \<Rightarrow> solana_ix list \<Rightarrow> string \<Rightarrow> nat \<Rightarrow> string result"
  slSend :: "solana_ix list \<Rightarrow> string \<Rightarrow> nat \<Rightarrow> string sent"
  slHeight :: "nat sent"
  slStatuses :: "string \<Rightarrow> signature_status option list sent"
  slOwner :: "byte list \<Rightarrow> byte list option result"
  slData :: "byte list \<Rightarrow> byte list option result"
  slTokenAccount :: "byte list \<Rightarrow> byte list \<Rightarrow> byte list \<Rightarrow> byte list result"
  slPda :: derive
  slRelay :: "solana_body \<Rightarrow> relayer_response sent"
  slPrepare :: "prepare_solana_tx_request \<Rightarrow> prepare_solana_tx_response sent"
  slFinalize :: "string \<Rightarrow> jub_point \<times> int \<Rightarrow> solana_finalized sent"
  slFinalizeRelay :: "string \<Rightarrow> jub_point \<times> int \<Rightarrow> string \<Rightarrow> admin_data option \<Rightarrow> string sent"
  slBuildSponsored :: "sponsored_request \<Rightarrow> sponsored_build sent"
  slCosign :: "string \<Rightarrow> string \<Rightarrow> string result"
  slSubmitSponsored :: "int \<Rightarrow> string \<Rightarrow> string \<Rightarrow> sponsored_submit sent"

section \<open>Building a transaction\<close>

definition maxComputeUnitLimit :: nat where "maxComputeUnitLimit = 1400000"
definition minComputeUnitLimit :: nat where "minComputeUnitLimit = 200000"

text \<open>The product with 1.2 in floating point, rounded up: exact up to \<open>2 ^ 50\<close>, and beyond the maximum applies.\<close>

definition padded_units :: "nat \<Rightarrow> nat" where "padded_units n = (6 * n + 4) div 5"

definition estimateV1ComputeUnitLimit :: "solana_network \<Rightarrow> byte list \<Rightarrow> solana_ix list \<Rightarrow> string \<Rightarrow> nat" where
  "estimateV1ComputeUnitLimit N payer instructions blockhash =
     (case slCompile N payer instructions blockhash maxComputeUnitLimit of
        Inl _ \<Rightarrow> maxComputeUnitLimit
      | Inr _ \<Rightarrow>
          (case slSimulate N payer instructions blockhash of
             Inr (Some n) \<Rightarrow>
               if n = 0 then maxComputeUnitLimit
               else max minComputeUnitLimit (min (padded_units n) maxComputeUnitLimit)
           | _ \<Rightarrow> maxComputeUnitLimit))"

record solana_tx =
  xtPayer :: "byte list"
  xtInstructions :: "solana_ix list"
  xtBlockhash :: string
  xtUnits :: nat

definition NewV1Transaction :: "solana_network \<Rightarrow> byte list \<Rightarrow> solana_ix list \<Rightarrow> string \<Rightarrow> solana_tx result" where
  "NewV1Transaction N signer instructions blockhash =
     (let units = estimateV1ComputeUnitLimit N signer instructions blockhash in
      rbind (slCompile N signer instructions blockhash units) (\<lambda>_.
      Ok \<lparr>xtPayer = signer, xtInstructions = instructions, xtBlockhash = blockhash, xtUnits = units\<rparr>))"

section \<open>Sending and waiting\<close>

definition sendRetryCount :: nat where "sendRetryCount = 10"

definition errConfirmationTimeout :: go_error where
  "errConfirmationTimeout = Errorf ''Solana transaction confirmation timed out''"

fun error_text :: "go_error \<Rightarrow> string" where
  "error_text (External s) = s"
| "error_text (Errorf s) = s"
| "error_text (Wrapped s e) = s @ '': '' @ error_text e"
| "error_text _ = []"

definition retryableSendError :: "go_error \<Rightarrow> bool" where
  "retryableSendError e =
     (if e = errConfirmationTimeout then True
      else
        let message = ToLower (error_text e) in
        strings_contains message ''blockhash not found'' \<or> strings_contains message ''blockhashnotfound'' \<or>
        strings_contains message ''transactionexpiredblockheightexceedederror'' \<or>
        strings_contains message ''block height exceeded'')"

definition past_height :: "nat \<Rightarrow> nat result \<Rightarrow> bool" where
  "past_height lastValidBlockHeight height = (case height of Inr h \<Rightarrow> lastValidBlockHeight < h | Inl _ \<Rightarrow> False)"

definition first_status :: "signature_status option list result \<Rightarrow> signature_status option" where
  "first_status statuses = (case statuses of Inr (status # _) \<Rightarrow> status | _ \<Rightarrow> None)"

text \<open>One poll reads the height, then the status; \<open>polls\<close> is how many rounds the context grants.\<close>

fun waitForConfirmation :: "solana_network \<Rightarrow> string \<Rightarrow> nat \<Rightarrow> nat \<Rightarrow> (message, unit) io" where
  "waitForConfirmation N sig lastValidBlockHeight 0 = ifail (External ''context deadline exceeded'')"
| "waitForConfirmation N sig lastValidBlockHeight (Suc polls) =
     ibind (iattempt (icall GetBlockHeight (slHeight N))) (\<lambda>height.
     if past_height lastValidBlockHeight height then ifail errConfirmationTimeout
     else
       ibind (iattempt (icall (GetSignatureStatuses sig) (slStatuses N sig))) (\<lambda>statuses.
       case first_status statuses of
         Some status \<Rightarrow>
           (case stError status of
              Some e \<Rightarrow> ifail (Wrapped ''Solana transaction failed'' (External e))
            | None \<Rightarrow>
                if stConfirmation status \<in> {''confirmed'', ''finalized''} then ireturn ()
                else waitForConfirmation N sig lastValidBlockHeight polls)
       | None \<Rightarrow> waitForConfirmation N sig lastValidBlockHeight polls))"

definition sign_and_send :: "solana_network \<Rightarrow> solana_tx \<Rightarrow> (message, string) io" where
  "sign_and_send N tx =
     icall (SendSolanaTransaction (xtInstructions tx) (xtBlockhash tx) (xtUnits tx))
       (slSend N (xtInstructions tx) (xtBlockhash tx) (xtUnits tx))"

definition send_attempt :: "solana_network \<Rightarrow> solana_tx \<Rightarrow> nat \<Rightarrow> nat \<Rightarrow> (message, string) io" where
  "send_attempt N tx lastValidBlockHeight polls =
     ibind (sign_and_send N tx) (\<lambda>sig.
     ibind (waitForConfirmation N sig lastValidBlockHeight polls) (\<lambda>_. ireturn sig))"

text \<open>\<open>attempts\<close> is how many are left of the \<open>sendRetryCount\<close>; \<open>build\<close> makes the transaction of a block hash.\<close>

fun send_attempts :: "solana_network \<Rightarrow> (string \<Rightarrow> solana_tx result) \<Rightarrow> nat \<Rightarrow> nat \<Rightarrow> (message, string) io" where
  "send_attempts N build polls 0 = ifail (Errorf ''Solana transaction failed'')"
| "send_attempts N build polls (Suc attempts) =
     ibind (icall GetLatestBlockhash (slBlockhash N)) (\<lambda>(blockhash, lastValidBlockHeight).
     ibind (ilift (build blockhash)) (\<lambda>tx.
     ibind (iattempt (send_attempt N tx lastValidBlockHeight polls)) (\<lambda>outcome.
     case outcome of
       Inr sig \<Rightarrow> ireturn sig
     | Inl e \<Rightarrow> if attempts = 0 \<or> \<not> retryableSendError e then ifail e else send_attempts N build polls attempts)))"

definition SignAndConfirm :: "solana_network \<Rightarrow> (string \<Rightarrow> solana_tx result) \<Rightarrow> nat \<Rightarrow> (message, string) io" where
  "SignAndConfirm N build polls = send_attempts N build polls sendRetryCount"

section \<open>Transactions the relayer pays for\<close>

definition sponsoredError :: "string \<Rightarrow> string \<Rightarrow> go_error" where
  "sponsoredError relayerError fallback = (if relayerError \<noteq> [] then External relayerError else Errorf fallback)"

text \<open>The signed transaction comes back with the fee the relayer quoted; no quote is no fee.\<close>

definition SendSolanaSponsoredTx :: "solana_network \<Rightarrow> string \<Rightarrow> sponsored_request \<Rightarrow> (message, string \<times> int) io" where
  "SendSolanaSponsoredTx N signingKey intent =
     (if signingKey = [] then ifail (Errorf ''solana: no signing key available for Solana sponsored transaction'')
      else
        ibind (icall (BuildSponsored intent) (slBuildSponsored N intent)) (\<lambda>b.
        if sdStatus b \<noteq> ''success'' \<or> sdSerializedTx b = [] \<or> sdTicketID b = []
        then ifail (sponsoredError (sdError b) ''Solana sponsored transaction could not be built'')
        else
          ibind (ilift (slCosign N signingKey (sdSerializedTx b))) (\<lambda>signed.
          ibind (icall (SubmitSponsored (sqChainID intent) (sdTicketID b) signed)
                   (slSubmitSponsored N (sqChainID intent) (sdTicketID b) signed)) (\<lambda>s.
          if smStatus s \<noteq> ''success'' \<or> smTxHash s = []
          then ifail (sponsoredError (smError s) ''Solana sponsored transaction failed'')
          else
            ilift (case (if sdFee b = [] then Some 0 else SetString (sdFee b) 10) of
                     None \<Rightarrow> Err (Errorf ''solana: invalid sponsored transaction fee'')
                   | Some fee \<Rightarrow> Ok (smTxHash s, fee))))))"

end
