(* ===== verification/SolanaDeposit.thy ===== *)
theory SolanaDeposit
  imports SolanaSubmit Actions
begin

text \<open>
  Deposits without a proof: \<open>internal/functions/transactions\<close>, the helpers of \<open>proofless_deposit.go\<close> and
  \<open>solana_deposit.go\<close>. The instructions of the token programs and the Borsh form of the arguments are the
  packages', fields of \<open>deposit_network\<close>.
\<close>

section \<open>Services\<close>

record deposit_network = solana_network +
  dnHinkal :: "int \<Rightarrow> string"
  dnBorsh :: "64 word list \<Rightarrow> byte list list list \<Rightarrow> byte list list \<Rightarrow> bool \<Rightarrow> byte list result"
  dnTransfer :: "64 word \<Rightarrow> byte list \<Rightarrow> byte list \<Rightarrow> solana_ix"
  dnCreateAccount :: "byte list \<Rightarrow> byte list \<Rightarrow> byte list \<Rightarrow> byte list \<Rightarrow> solana_ix"
  dnTokenTransfer :: "64 word \<Rightarrow> byte list \<Rightarrow> byte list \<Rightarrow> byte list \<Rightarrow> solana_ix"
  dnTransferChecked :: "64 word \<Rightarrow> 8 word \<Rightarrow> byte list \<Rightarrow> byte list \<Rightarrow> byte list \<Rightarrow> byte list \<Rightarrow> solana_ix"

text \<open>A sealed output draws a content key and a nonce.\<close>

type_synonym seals = "nat \<Rightarrow> byte list result \<times> byte list result"

section \<open>proofless_deposit.go\<close>

definition errDuplicateStealth :: go_error where
  "errDuplicateStealth = Errorf ''transactions: duplicate randomization and stealth address pair detected in stealthAddressStructures''"
definition errRecipientEncryptionKeysRequired :: go_error where
  "errRecipientEncryptionKeysRequired = Errorf ''transactions: recipientEncryptionKeysOverride is required''"
definition errRecipientEncryptionKeysLengthMismatch :: go_error where
  "errRecipientEncryptionKeysLengthMismatch = Errorf ''transactions: recipientEncryptionKeysOverride length''"

definition stealth_key :: "stealth_structure \<Rightarrow> string" where
  "stealth_key s = int_String (ssH0x s) @ '':'' @ int_String (ssStealthAddress s)"

definition assertNoDuplicateStealthAddressStructures :: "stealth_structure list \<Rightarrow> unit result" where
  "assertNoDuplicateStealthAddressStructures structures =
     (if distinct (map stealth_key structures) then Ok () else Err errDuplicateStealth)"

definition getProoflessStealthAddressStructures ::
    "primitives \<Rightarrow> sealing \<Rightarrow> (nat \<Rightarrow> fresh) \<Rightarrow> user_keys \<Rightarrow> nat \<Rightarrow> stealth_structure slice \<Rightarrow> stealth_structure list result" where
  "getProoflessStealthAddressStructures E S f uk n overrides =
     (case overrides of
        Some ss \<Rightarrow> if length ss \<noteq> n then Err (Errorf ''transactions: stealth address structures length mismatch'') else Ok ss
      | None \<Rightarrow> rmap (\<lambda>i. GetStealthAddressStructureFromUserKeys E S (f i) uk) [0 ..< n])"

definition getOwnRecipientEncryptionKeys :: "primitives \<Rightarrow> sealing \<Rightarrow> user_keys \<Rightarrow> nat \<Rightarrow> string list result" where
  "getOwnRecipientEncryptionKeys E S uk n =
     rbind (snd (GetShieldedPrivateKey E uk)) (\<lambda>nk.
     rbind (GetEncryptionKeyPair E S nk) (\<lambda>encPair. Ok (replicate n (snd encPair))))"

definition buildProoflessEncryptedOutputs ::
    "primitives \<Rightarrow> sealing \<Rightarrow> seals \<Rightarrow> stealth_structure list \<Rightarrow> string list \<Rightarrow> string list result" where
  "buildProoflessEncryptedOutputs E S draw structures encryptionKeys =
     (if length encryptionKeys \<noteq> length structures then Err errRecipientEncryptionKeysLengthMismatch
      else rmap (\<lambda>i.
             if encryptionKeys ! i = [] then Err (Errorf ''missing encryptionKey for proofless deposit output'')
             else
               rbind (EncryptEncryptionKeyAndStealthAddress E S (fst (draw i)) (snd (draw i)) (encryptionKeys ! i)
                        (Some (ssStealthAddress (structures ! i)))) (\<lambda>encrypted.
               Ok (''0x'' @ hex_EncodeToString encrypted))) [0 ..< length structures])"

section \<open>The deposit instruction\<close>

definition errAmountNotPositive :: go_error where "errAmountNotPositive = Errorf ''all amounts must be positive''"
definition errNotSolanaChain :: go_error where
  "errNotSolanaChain = Errorf ''transactions: Solana deposit requires a Solana chain''"

definition prooflessDepositDiscrim :: "byte list" where
  "prooflessDepositDiscrim = [238, 63, 30, 216, 109, 36, 109, 123]"

definition validateSolanaDepositArgs :: "int list \<Rightarrow> stealth_structure list \<Rightarrow> unit result" where
  "validateSolanaDepositArgs amounts structures =
     (if amounts = [] then Err (Errorf ''amounts must not be empty'')
      else if length amounts \<noteq> length structures then Err (Errorf ''amounts and stealthAddressStructures length mismatch'')
      else if list_ex (\<lambda>a. a \<le> 0) amounts then Err errAmountNotPositive
      else assertNoDuplicateStealthAddressStructures structures)"

definition buildProoflessEncryptedBlobs ::
    "primitives \<Rightarrow> sealing \<Rightarrow> seals \<Rightarrow> stealth_structure list \<Rightarrow> string list \<Rightarrow> byte list list result" where
  "buildProoflessEncryptedBlobs E S draw structures encryptionKeys =
     rbind (buildProoflessEncryptedOutputs E S draw structures encryptionKeys) (\<lambda>outputs. Ok (map (fromHex E) outputs))"

text \<open>\<open>Uint64()\<close> keeps the low 64 bits.\<close>

definition encodeProoflessDepositData ::
    "deposit_network \<Rightarrow> int list \<Rightarrow> stealth_structure list \<Rightarrow> byte list list \<Rightarrow> bool \<Rightarrow> int option \<Rightarrow> byte list result" where
  "encodeProoflessDepositData N amounts structures encryptedBlobs createBlockedUtxos timestampOverride =
     rbind (rmap BuildAnchorStealthAddressStructure structures) (\<lambda>anchors.
     rbind (dnBorsh N (map word_of_int amounts) anchors encryptedBlobs createBlockedUtxos) (\<lambda>body.
     Ok (prooflessDepositDiscrim @ body @
         (case timestampOverride of None \<Rightarrow> [0] | Some t \<Rightarrow> 1 # le_bytes 8 t))))"

definition meta :: "byte list \<Rightarrow> bool \<Rightarrow> bool \<Rightarrow> account_meta" where
  "meta key writable signer = \<lparr>PublicKey = key, IsWritable = writable, IsSigner = signer\<rparr>"

text \<open>The bucket the next roots go to, and the one after it when they do not all fit.\<close>

definition resolveSolanaRootBuckets ::
    "solana_network \<Rightarrow> byte list \<Rightarrow> byte list \<Rightarrow> nat \<Rightarrow> (account_meta \<times> account_meta) result" where
  "resolveSolanaRootBuckets N programID merkleAccount insertCount =
     rbind (slData N merkleAccount) (\<lambda>info.
     case info of
       None \<Rightarrow> Err (Errorf ''transactions: merkle account not found'')
     | Some data \<Rightarrow>
         rbind (ParseMerkleMIndex data) (\<lambda>mIndex.
         let relative = mIndex - MerkleMinimumIndex; bucketIndex = RootBucketIndex relative; slot = RootBucketSlot relative in
         rbind (GetRootBucketPublicKey (slPda N) programID merkleAccount bucketIndex) (\<lambda>current.
         if \<not> RootBucketCap < slot + int insertCount then Ok (meta current True False, meta programID False False)
         else
           rbind (GetRootBucketPublicKey (slPda N) programID merkleAccount (bucketIndex + 1)) (\<lambda>following.
           Ok (meta current True False, meta following True False)))))"

definition buildProoflessDepositInstruction ::
    "primitives \<Rightarrow> sealing \<Rightarrow> deposit_network \<Rightarrow> seals \<Rightarrow> byte list \<Rightarrow> byte list \<Rightarrow> byte list \<Rightarrow> string \<Rightarrow> int list \<Rightarrow>
     stealth_structure list \<Rightarrow> string list \<Rightarrow> bool \<Rightarrow> int option \<Rightarrow> solana_ix result" where
  "buildProoflessDepositInstruction E S N draw programID signer originalDeployer mintAddress amounts structures encryptionKeys
       createBlockedUtxos timestampOverride =
     rbind (buildProoflessEncryptedBlobs E S draw structures encryptionKeys) (\<lambda>blobs.
     rbind (GetStorageAccountPublicKey (slPda N) programID originalDeployer) (\<lambda>storageAccount.
     rbind (GetStorageVaultPublicKey (slPda N) programID originalDeployer) (\<lambda>storageVault.
     rbind (GetMerkleAccountPublicKey (slPda N) programID originalDeployer) (\<lambda>merkleAccount.
     rbind (if mintAddress = SolanaNativeAddress
            then Ok (meta programID False False, meta programID False False, meta programID False False)
            else
              rbind (publicKeyFromBase58 E mintAddress) (\<lambda>mint.
              rbind (slTokenAccount N signer mint (slTokenProgram N)) (\<lambda>signerAta.
              rbind (slTokenAccount N storageVault mint (slTokenProgram N)) (\<lambda>vaultAta.
              Ok (meta mint False False, meta signerAta True False, meta vaultAta True False)))))
       (\<lambda>(mintMeta, signerAtaMeta, vaultAtaMeta).
     rbind (resolveSolanaRootBuckets (solana_network.truncate N) programID merkleAccount (length amounts)) (\<lambda>(bucketCurrent, bucketNext).
     rbind (encodeProoflessDepositData N amounts structures blobs createBlockedUtxos timestampOverride) (\<lambda>data.
     Ok \<lparr>ixProgram = programID,
         ixAccounts = [meta signer True True, meta originalDeployer False False, meta storageAccount True False,
           meta storageVault True False, mintMeta, signerAtaMeta, vaultAtaMeta, meta merkleAccount True False, bucketCurrent,
           bucketNext, meta (slTokenProgram N) False False, meta (slTokenAccountProgram N) False False,
           meta (slSystemProgram N) False False],
         ixData = data\<rparr>)))))))"

section \<open>Transfers\<close>

definition solanaAmountUint64 :: "int \<Rightarrow> 64 word result" where
  "solanaAmountUint64 amount =
     (if amount < 0 then Err errAmountNotPositive
      else if amount \<ge> 2 ^ 64 then Err (Errorf ''transactions: Solana amount does not fit in uint64'')
      else Ok (word_of_int amount))"

definition buildSolanaTransferInstructions ::
    "primitives \<Rightarrow> deposit_network \<Rightarrow> byte list \<Rightarrow> byte list \<Rightarrow> solana_token \<Rightarrow> int \<Rightarrow> solana_ix list result" where
  "buildSolanaTransferInstructions E N sender to token amount =
     rbind (solanaAmountUint64 amount) (\<lambda>value.
     if value = 0 then Ok []
     else if TokenAddress token = SolanaNativeAddress then Ok [dnTransfer N value sender to]
     else
       rbind (publicKeyFromBase58 E (TokenAddress token)) (\<lambda>mint.
       let program = (if Is2022Program token then slToken2022Program N else slTokenProgram N) in
       rbind (slTokenAccount N sender mint program) (\<lambda>fromATA.
       rbind (slTokenAccount N to mint program) (\<lambda>toATA.
       if Is2022Program token then
         (if Decimals token < 0 \<or> Decimals token > 255 then Err (Errorf ''transactions: invalid Solana token decimals'')
          else Ok [dnCreateAccount N sender to mint program,
                   dnTransferChecked N value (word_of_int (Decimals token)) fromATA mint toATA sender])
       else Ok [dnCreateAccount N sender to mint program, dnTokenTransfer N value fromATA toATA sender]))))"

section \<open>Sending\<close>

definition buildSolanaDepositTransaction :: "solana_network \<Rightarrow> byte list \<Rightarrow> solana_ix list \<Rightarrow> (message, solana_tx) io" where
  "buildSolanaDepositTransaction N signer instructions =
     ibind (icall GetLatestBlockhash (slBlockhash N)) (\<lambda>(blockhash, _). ilift (NewV1Transaction N signer instructions blockhash))"

definition signAndSendSolanaInstructions ::
    "solana_network \<Rightarrow> nat \<Rightarrow> byte list \<Rightarrow> byte list \<Rightarrow> solana_ix list \<Rightarrow> (message, string) io" where
  "signAndSendSolanaInstructions N polls programID signer instructions =
     ibind (ilift (slProgram N programID)) (\<lambda>_. SignAndConfirm N (NewV1Transaction N signer instructions) polls)"

definition sendSolanaInstructions :: "solana_network \<Rightarrow> byte list \<Rightarrow> byte list \<Rightarrow> solana_ix list \<Rightarrow> (message, string) io" where
  "sendSolanaInstructions N programID signer instructions =
     ibind (ilift (slProgram N programID)) (\<lambda>_.
     ibind (buildSolanaDepositTransaction N signer instructions) (sign_and_send N))"

definition returned_or_sent ::
    "solana_network \<Rightarrow> nat \<Rightarrow> bool \<Rightarrow> byte list \<Rightarrow> byte list \<Rightarrow> solana_ix list \<Rightarrow> (message, string) io" where
  "returned_or_sent N polls returnTxData programID signer instructions =
     (if returnTxData then
        ibind (buildSolanaDepositTransaction N signer instructions) (\<lambda>tx.
        ilift (slSerialize N (xtPayer tx) (xtInstructions tx) (xtBlockhash tx) (xtUnits tx)))
      else signAndSendSolanaInstructions N polls programID signer instructions)"

text \<open>The checks and reads both deposits begin with: program, deployer and signer.\<close>

definition deposit_accounts ::
    "primitives \<Rightarrow> deposit_network \<Rightarrow> solana_token \<Rightarrow> int list \<Rightarrow> stealth_structure list \<Rightarrow> (int \<times> byte list \<times> byte list \<times> byte list) result" where
  "deposit_accounts E N token amounts structures =
     rbind (validateSolanaDepositArgs amounts structures) (\<lambda>_.
     rbind (ValidateAndGetChainID [erc20_token.truncate token]) (\<lambda>chainID.
     if \<not> IsSolanaLike chainID then Err errNotSolanaChain
     else
       rbind (publicKeyFromBase58 E (dnHinkal N chainID)) (\<lambda>programID.
       rbind (slDeployer N chainID) (\<lambda>deployer.
       rbind (publicKeyFromBase58 E deployer) (\<lambda>originalDeployer.
       rbind (slPublicKey N) (\<lambda>signer.
       rbind (slConnection N) (\<lambda>_. Ok (chainID, programID, originalDeployer, signer))))))))"

definition SubmitSolanaProoflessDeposit ::
    "primitives \<Rightarrow> sealing \<Rightarrow> deposit_network \<Rightarrow> nat \<Rightarrow> seals \<Rightarrow> solana_token \<Rightarrow> int list \<Rightarrow> stealth_structure list \<Rightarrow> string list \<Rightarrow> bool \<Rightarrow>
     (message, string) io" where
  "SubmitSolanaProoflessDeposit E S N polls draw token amounts structures encryptionKeys returnTxData =
     ibind (ilift (deposit_accounts E N token amounts structures)) (\<lambda>(chainID, programID, originalDeployer, signer).
     ibind (ilift (buildProoflessDepositInstruction E S N draw programID signer originalDeployer (TokenAddress token) amounts structures
                     encryptionKeys False None)) (\<lambda>instruction.
     returned_or_sent (solana_network.truncate N) polls returnTxData programID signer [instruction]))"

definition HinkalSolanaProoflessDepositWithPublicFee ::
    "primitives \<Rightarrow> sealing \<Rightarrow> deposit_network \<Rightarrow> ('f, 'm) action_services_scheme \<Rightarrow> nat \<Rightarrow> seals \<Rightarrow> solana_token \<Rightarrow> int list \<Rightarrow>
     stealth_structure list \<Rightarrow> string list \<Rightarrow> int \<Rightarrow> bool \<Rightarrow> string \<Rightarrow> (message, string) io" where
  "HinkalSolanaProoflessDepositWithPublicFee E S N A polls draw token amounts structures encryptionKeys feeAmount returnTxData action =
     ibind (ilift (deposit_accounts E N token amounts structures)) (\<lambda>(chainID, programID, originalDeployer, signer).
     ibind (icall (ReserveRelay chainID False) (nRandomRelay N chainID False)) (\<lambda>relay.
     if relay = [] then ifail (Errorf ''no relay available for chainId'')
     else
       ibind (ilift (
         rbind (publicKeyFromBase58 E relay) (\<lambda>feeRecipient.
         rbind (buildSolanaTransferInstructions E N signer feeRecipient token feeAmount) (\<lambda>feeInstructions.
         rbind (buildProoflessDepositInstruction E S N draw programID signer originalDeployer (TokenAddress token) amounts structures
                  encryptionKeys False None) (\<lambda>instruction. Ok (feeInstructions @ [instruction])))))) (\<lambda>instructions.
       ibind (returned_or_sent (solana_network.truncate N) polls returnTxData programID signer instructions) (\<lambda>result.
       if returnTxData then ireturn result
       else
         ibind (emitDepositAdminData E (network.truncate N) A action chainID [erc20_token.truncate token] amounts None result) (\<lambda>_.
         ireturn result)))))"

definition HinkalSolanaProoflessDeposit ::
    "primitives \<Rightarrow> sealing \<Rightarrow> deposit_network \<Rightarrow> ('f, 'm) action_services_scheme \<Rightarrow> (nat \<Rightarrow> fresh) \<Rightarrow> nat \<Rightarrow> seals \<Rightarrow> solana_token list \<Rightarrow>
     int list \<Rightarrow> stealth_structure slice \<Rightarrow> string slice \<Rightarrow> bool \<Rightarrow> string \<Rightarrow> (message, string) io" where
  "HinkalSolanaProoflessDeposit E S N A f polls draw tokens amountChanges structuresOverride keysOverride returnTxData action =
     ibind (ilift (
       rbind (ValidateAndGetChainID (map erc20_token.truncate tokens)) (\<lambda>chainID.
       if \<not> IsSolanaLike chainID then Err (Errorf ''hinkalSolanaProoflessDepositHash: non-Solana chain'')
       else if length tokens \<noteq> length amountChanges then Err errTokenAmountLengthMismatch
       else if list_ex (\<lambda>t. TokenAddress t \<noteq> TokenAddress (hd tokens)) tokens
       then Err (Errorf ''Solana prooflessDeposit supports one mint per transaction'')
       else if structuresOverride \<noteq> None \<and> keysOverride = None then Err errRecipientEncryptionKeysRequired
       else if keysOverride \<noteq> None \<and> length (elems keysOverride) \<noteq> length amountChanges
       then Err errRecipientEncryptionKeysLengthMismatch
       else
         rbind (getProoflessStealthAddressStructures E S f (keys (wsWallet A)) (length amountChanges) structuresOverride) (\<lambda>structures.
         rbind (case keysOverride of Some ks \<Rightarrow> Ok ks
                | None \<Rightarrow> getOwnRecipientEncryptionKeys E S (keys (wsWallet A)) (length amountChanges)) (\<lambda>ks.
         Ok (chainID, structures, ks)))))) (\<lambda>(chainID, structures, ks).
     ibind (SubmitSolanaProoflessDeposit E S N polls draw (hd tokens) amountChanges structures ks returnTxData) (\<lambda>result.
     if returnTxData then ireturn result
     else
       ibind (emitDepositAdminData E (network.truncate N) A action chainID (map erc20_token.truncate tokens) amountChanges None result) (\<lambda>_.
       ireturn result)))"

text \<open>The own structure is made from one drawn number.\<close>

definition HinkalSolanaDeposit ::
    "primitives \<Rightarrow> sealing \<Rightarrow> deposit_network \<Rightarrow> ('f, 'm) action_services_scheme \<Rightarrow> int result \<Rightarrow> nat \<Rightarrow> seals \<Rightarrow> int \<Rightarrow> solana_token \<Rightarrow> bool \<Rightarrow>
     string \<Rightarrow> (message, string) io" where
  "HinkalSolanaDeposit E S N A randSeed polls draw amount token returnTxData action =
     (let uk = keys (wsWallet A) in
      ibind (ilift (
        rbind (snd (GetShieldedPrivateKey E uk)) (\<lambda>spk.
        rbind randSeed (\<lambda>seed.
        rbind (FindCorrectRandomization E seed spk) (\<lambda>extraRandomization.
        rbind (GetSpendingKeyPair E uk) (\<lambda>pair.
        rbind (CalcStealthAddressStructure E extraRandomization spk [fst (PubSpendingBJJPoint pair), snd (PubSpendingBJJPoint pair)]) (\<lambda>st.
        rbind (getOwnRecipientEncryptionKeys E S uk 1) (\<lambda>ks. Ok (st, ks))))))))) (\<lambda>(st, ks).
      ibind (SubmitSolanaProoflessDeposit E S N polls draw token [amount] [st] ks returnTxData) (\<lambda>result.
      if returnTxData then ireturn result
      else
        ibind (emitDepositAdminData E (network.truncate N) A action (ChainID token) [erc20_token.truncate token] [amount] None result) (\<lambda>_.
        ireturn result))))"

definition BpsDenominator :: int where "BpsDenominator = 10000"

definition HinkalSolanaDepositForOther ::
    "primitives \<Rightarrow> sealing \<Rightarrow> deposit_network \<Rightarrow> ('f, 'm) action_services_scheme \<Rightarrow> nat \<Rightarrow> seals \<Rightarrow> int \<Rightarrow> solana_token \<Rightarrow> string \<Rightarrow> bool \<Rightarrow>
     int option \<Rightarrow> string \<Rightarrow> (message, string) io" where
  "HinkalSolanaDepositForOther E S N A polls draw amount token recipientInfo returnTxData variableRate action =
     (if \<not> IsValidPrivateAddress recipientInfo then ifail ErrRecipientFormatIncorrect
      else
        ibind (ilift (ConstructStealthAddressStructure recipientInfo)) (\<lambda>st.
        ibind (ilift (GetEncryptionKeyFromRecipientInfo recipientInfo)) (\<lambda>encryptionKey.
        let feeAmount = (case variableRate of Some rate \<Rightarrow> if rate > 0 then amount * rate div BpsDenominator else 0 | None \<Rightarrow> 0) in
        ibind (HinkalSolanaProoflessDepositWithPublicFee E S N A polls draw token [amount] [st] [encryptionKey] feeAmount returnTxData [])
          (\<lambda>result.
        if returnTxData then ireturn result
        else
          (case ValidateAndGetChainID [erc20_token.truncate token] of
             Inl _ \<Rightarrow> ireturn result
           | Inr chainID \<Rightarrow>
               ibind (emitDepositAdminData E (network.truncate N) A action chainID [erc20_token.truncate token] [amount] variableRate result)
                 (\<lambda>_. ireturn result))))))"

end
