(* ===== verification/SolanaTransact.thy ===== *)
theory SolanaTransact
  imports SolanaDeposit
begin

text \<open>
  \<open>internal/functions/transactions/solana_transact.go\<close>: one private transaction on Solana. The proof is built here
  from the wallet's notes or prepared by the enclave and signed, then returned or handed to the relayer.
\<close>

section \<open>Types\<close>

datatype solana_accounts =
    TransactAccounts string string
  | SwapAccounts string string string string "string option" "string option" "okx_account list"

record solana_submit =
  soMode :: string
  soAdminData :: "admin_data option"

definition SolanaSubmitModeRelayer :: string where "SolanaSubmitModeRelayer = ''relayer''"
definition SolanaSubmitModeProofOnly :: string where "SolanaSubmitModeProofOnly = ''proof_only''"

record solana_notes =
  snInputNullifiers :: "string list"
  snOutCommitments :: "string list"
  snEncryptedOutputs :: "string list"

record solana_transact_proof =
  tsArgs :: proof_args
  tsValidation :: "commitment_validation option"
  tsNotes :: "solana_notes option"

record solana_transact_result =
  tqTxHash :: string
  tqProof :: "solana_transact_proof option"

record solana_transact_params =
  hsChainID :: int
  hsMintAddresses :: "string slice"
  hsAmountChanges :: "int slice"
  hsRelayAddress :: string
  hsAutoSelectRelay :: bool
  hsRecipient :: string
  hsSigner :: string
  hsFunctionName :: string
  hsAccounts :: "solana_accounts option"
  hsOnChainCreation :: "bool slice"
  hsRelayerFee :: "int option"
  hsVariableRate :: "int option"
  hsSwapperAccountSalt :: "int option"
  hsHinkalInstructions :: "hinkal_instruction slice"
  hsRemainingAccounts :: "account_meta slice"
  hsRecipientAddress :: string
  hsRecipientAmounts :: "int slice"
  hsUseBlockedUtxos :: bool
  hsMessageSeed :: "int option"
  hsRecipientAmount :: string
  hsDisplayRecipient :: string
  hsSpeculative :: "speculative_params option"
  hsInputUtxos :: "utxo list slice"
  hsUserKeys :: "user_keys option"
  hsSubmit :: solana_submit
  hsNeedsRelay :: bool
  hsSkipRelayReservation :: bool
  hsOnTxConfirm :: "(solana_notes \<Rightarrow> (message, unit) io) option"

definition no_solana_params :: solana_transact_params where
  "no_solana_params = \<lparr>hsChainID = 0, hsMintAddresses = None, hsAmountChanges = None, hsRelayAddress = [],
     hsAutoSelectRelay = False, hsRecipient = [], hsSigner = [], hsFunctionName = [], hsAccounts = None,
     hsOnChainCreation = None, hsRelayerFee = None, hsVariableRate = None, hsSwapperAccountSalt = None,
     hsHinkalInstructions = None, hsRemainingAccounts = None, hsRecipientAddress = [], hsRecipientAmounts = None,
     hsUseBlockedUtxos = False, hsMessageSeed = None, hsRecipientAmount = [], hsDisplayRecipient = [],
     hsSpeculative = None, hsInputUtxos = None, hsUserKeys = None, hsSubmit = \<lparr>soMode = [], soAdminData = None\<rparr>,
     hsNeedsRelay = False, hsSkipRelayReservation = False, hsOnTxConfirm = None\<rparr>"

text \<open>\<open>zMarshal\<close> is \<open>json.Marshal\<close> of the accounts, \<open>zRelayOf\<close> reads the relay address in the enclave's JSON,
  \<open>zDecode\<close> decodes JSON for the comparison of the echo.\<close>

record 'j json_services =
  zMarshal :: "solana_accounts \<Rightarrow> string"
  zRelayOf :: "string \<Rightarrow> string result"
  zDecode :: "string \<Rightarrow> 'j option"

definition errSolanaTransactNoInputUtxos :: go_error where
  "errSolanaTransactNoInputUtxos = Errorf ''transactions: solana transact produced no input UTXOs''"
definition errSolanaTransactRelayerMode :: go_error where
  "errSolanaTransactRelayerMode = Errorf ''transactions: solana transact expected relayer submit''"
definition errSolanaTransactUserKeysNeedInputs :: go_error where
  "errSolanaTransactUserKeysNeedInputs = Errorf ''transactions: SolanaTransact: UserKeys requires explicit InputUtxos''"
definition errSolanaMissingDeployData :: go_error where "errSolanaMissingDeployData = Errorf ''missing data''"

definition ensureSolanaDeployData :: "solana_network \<Rightarrow> int \<Rightarrow> unit result" where
  "ensureSolanaDeployData N chainID =
     rbind (slDeployer N chainID) (\<lambda>deployer. if deployer = [] then Err errSolanaMissingDeployData else Ok ())"

definition solanaArgsRelayAddress :: "'j json_services \<Rightarrow> proof_args \<Rightarrow> string result" where
  "solanaArgsRelayAddress Z pargs =
     (case pargs of
        SolanaArgs a \<Rightarrow> Ok (agRelayAddress a)
      | SolanaSwapArgs a _ _ _ \<Rightarrow> Ok (agRelayAddress a)
      | RawArgs j \<Rightarrow> zRelayOf Z j)"

section \<open>Building the proof here\<close>

definition resolveSolanaInputUtxos ::
    "primitives \<Rightarrow> sealing \<Rightarrow> 'f wallet_services \<Rightarrow> solana_transact_params \<Rightarrow> (message, utxo list list) io" where
  "resolveSolanaInputUtxos E S W p =
     (case hsInputUtxos p of
        Some inputUtxos \<Rightarrow> ireturn inputUtxos
      | None \<Rightarrow>
          icache (\<lambda>d. AddPaddingToUtxos E S (wsFloat W) (wsBalance W) (wsTokens W) (wsStuck W) (wsEthAddress W)
                    (wsInputFresh W) (wsPadFresh W) (wsWallet W) d (hsChainID p) (elems (hsMintAddresses p))
                    (elems (hsAmountChanges p)) 0 False (hsUseBlockedUtxos p) (elems (hsOnChainCreation p))))"

definition encryptedOutputsToInts :: "byte list list \<Rightarrow> int list list" where
  "encryptedOutputsToInts encryptedOutputs = map (map uint) encryptedOutputs"

definition hinkalInstructionsToAPI :: "hinkal_instruction list \<Rightarrow> solana_instruction list" where
  "hinkalInstructionsToAPI instructions =
     map (\<lambda>i. \<lparr>siAccountIndexes = Some (map uint (AccountIndexes i)), siData = Some (map uint (Data i)),
               siProgramIndex = ProgramIndex i\<rparr>) instructions"

definition hinkalInstructionsToEnclave :: "hinkal_instruction slice \<Rightarrow> solana_instruction slice" where
  "hinkalInstructionsToEnclave instructions = map_option hinkalInstructionsToAPI instructions"

definition remainingAccountsToEnclave :: "sealing \<Rightarrow> account_meta slice \<Rightarrow> solana_account_meta slice" where
  "remainingAccountsToEnclave S accs =
     map_option (map (\<lambda>a. \<lparr>saPubkey = base58Encode S (PublicKey a), saIsSigner = IsSigner a, saIsWritable = IsWritable a\<rparr>)) accs"

definition buildSolanaTransactNotes :: "primitives \<Rightarrow> utxo list list \<Rightarrow> utxo list list \<Rightarrow> byte list list \<Rightarrow> solana_notes result" where
  "buildSolanaTransactNotes E ins outs encryptedOutputs =
     rbind (rmap (\<lambda>u. snd (GetNullifier E u)) (nonzero_inputs ins)) (\<lambda>inputNullifiers.
     rbind (BuildOutCommitments E outs) (\<lambda>outCommitments.
     Ok \<lparr>snInputNullifiers = inputNullifiers, snOutCommitments = concat outCommitments,
         snEncryptedOutputs = map (\<lambda>b. ''0x'' @ hex_EncodeToString b) encryptedOutputs\<rparr>))"

definition solana_zk_params_of ::
    "'f wallet_services \<Rightarrow> solana_transact_params \<Rightarrow> user_keys \<Rightarrow> utxo list list \<Rightarrow> utxo list list \<Rightarrow> merkle option \<Rightarrow> bool \<Rightarrow> solana_zk_params" where
  "solana_zk_params_of W p uk ins outs tr speculative =
     \<lparr>spGenerateProofRemotely = wsRemote W, spMerkleTree = tr, spUserKeys = uk, spMintAddresses = elems (hsMintAddresses p),
      spInputUtxos = ins, spOutputUtxos = outs, spRelayerFee = Some (or_zero (hsRelayerFee p)),
      spVariableRate = Some (or_zero (hsVariableRate p)), spRecipientAddress = hsRecipient p, spSignerAddress = hsRelayAddress p,
      spDimensions = \<lparr>TokenNumber = int (length (elems (hsMintAddresses p))), NullifierAmount = int (length (hd ins)),
                     OutputAmount = int (length (hd outs))\<rparr>,
      spOnChainCreation = elems (hsOnChainCreation p), spChainID = hsChainID p, spInstructions = elems (hsHinkalInstructions p),
      spRemainingAccounts = elems (hsRemainingAccounts p), spSwapperAccountSalt = hsSwapperAccountSalt p,
      spIsSpeculativeTree = speculative\<rparr>"

text \<open>The arguments of the program call; a swap carries more of them.\<close>

definition solana_proof_args :: "solana_transact_params \<Rightarrow> dim_data \<Rightarrow> solana_zk_result \<Rightarrow> proof_args" where
  "solana_proof_args p dims zk =
     (let arg = \<lparr>agProofAArr = szProofAArr zk, agProofBArr = szProofBArr zk, agProofCArr = szProofCArr zk,
                  agPublicInputsArr = szPublicInputsArr zk, agEncryptedOutputs = encryptedOutputsToInts (szEncryptedOutputs zk),
                  agRelayerFee = int_String (or_zero (hsRelayerFee p)), agVariableRate = None, agDimensions = dims,
                  agRootHashIndex = int_String (szRootHashHinkalIndex zk), agRelayAddress = hsRelayAddress p\<rparr>
      in if hsFunctionName p = ''swap'' then
           SolanaSwapArgs (arg\<lparr>agVariableRate := Some (int_String (or_zero (hsVariableRate p)))\<rparr>)
             (''0x'' @ hex_EncodeToString (szOnChainEncryptedOutput zk)) (hsOnChainCreation p)
             (hinkalInstructionsToAPI (elems (hsHinkalInstructions p)))
         else SolanaArgs arg)"

definition buildSolanaProofLocally ::
    "primitives \<Rightarrow> sealing \<Rightarrow> 'f wallet_services \<Rightarrow> solana_transact_params \<Rightarrow> user_keys \<Rightarrow> (message, solana_transact_proof) io" where
  "buildSolanaProofLocally E S W p uk =
     ibind (resolveSolanaInputUtxos E S W p) (\<lambda>ins.
     if ins = [] \<or> hd ins = [] then ifail errSolanaTransactNoInputUtxos
     else ilift (
       rbind (BuildOutputUtxos E (wsOutFresh W) (wsNow W) uk ins (elems (hsAmountChanges p)) (hsRecipientAddress p)
                (map Some (elems (hsRecipientAmounts p)))) (\<lambda>outs.
       rbind (proof_tree E (wsTrees W (hsChainID p)) ins (hsSpeculative p)) (\<lambda>(tr, speculative).
       if outs = [] then Err Panic
       else
         let zp = solana_zk_params_of W p uk ins outs tr speculative in
         rbind (ConstructSolanaZkProof E S (wsOnChainRoot W) (wsSiblings W) (wsProver W) (wsDraws W) zp) (\<lambda>zk.
         rbind (buildSolanaTransactNotes E ins outs (szEncryptedOutputs zk)) (\<lambda>txNotes.
         Ok \<lparr>tsArgs = solana_proof_args p (spDimensions zp) zk, tsValidation = szCommitmentValidationData zk,
             tsNotes = Some txNotes\<rparr>))))))"

section \<open>Preparing with the enclave\<close>

definition solana_prepare_params ::
    "sealing \<Rightarrow> 'j json_services \<Rightarrow> solana_transact_params \<Rightarrow> string list \<Rightarrow> prepare_solana_tx_params" where
  "solana_prepare_params S Z p inputCommitments =
     \<lparr>lpChainID = hsChainID p, lpMintAddresses = hsMintAddresses p, lpAmountChanges = hsAmountChanges p,
      lpRelayAddress = hsRelayAddress p, lpAutoSelectRelay = hsAutoSelectRelay p,
      lpSkipRelayReservation = hsSkipRelayReservation p, lpRecipient = hsRecipient p, lpSigner = hsSigner p,
      lpFunctionName = hsFunctionName p, lpAccounts = (case hsAccounts p of None \<Rightarrow> [] | Some a \<Rightarrow> zMarshal Z a),
      lpOnChainCreation = hsOnChainCreation p, lpRelayerFee = hsRelayerFee p, lpVariableRate = hsVariableRate p,
      lpSwapperAccountSalt = hsSwapperAccountSalt p,
      lpHinkalInstructions = hinkalInstructionsToEnclave (hsHinkalInstructions p),
      lpRemainingAccounts = remainingAccountsToEnclave S (hsRemainingAccounts p), lpRecipientAddress = hsRecipientAddress p,
      lpRecipientAmounts = hsRecipientAmounts p,
      lpInputCommitments = (if inputCommitments = [] then None else Some inputCommitments),
      lpUseBlockedUtxos = hsUseBlockedUtxos p, lpMessageSeed = hsMessageSeed p, lpRecipientAmount = hsRecipientAmount p,
      lpDisplayRecipient = hsDisplayRecipient p, lpSpeculative = hsSpeculative p\<rparr>"

text \<open>What \<open>PrepareSolanaTxEnclaveCall\<close> posts, if it gets that far; then the call with the answer to it.\<close>

definition solana_prepare_request :: "primitives \<Rightarrow> user_keys \<Rightarrow> prepare_solana_tx_params \<Rightarrow> prepare_solana_tx_request result" where
  "solana_prepare_request E uk params =
     (case GetShieldedPrivateKey E uk of (uk', key) \<Rightarrow>
        rbind key (\<lambda>nk.
        rbind (GetSpendingKeyPair E uk') (\<lambda>pair.
        Ok (buildPrepareSolanaTxRequest params nk
              (int_String (fst (PubSpendingBJJPoint pair)), int_String (snd (PubSpendingBJJPoint pair)))))))"

definition solana_prepare_call ::
    "primitives \<Rightarrow> 'j json_services \<Rightarrow> solana_network \<Rightarrow> int \<Rightarrow> user_keys \<Rightarrow> prepare_solana_tx_params \<Rightarrow>
     (message, prepare_solana_tx_response) io" where
  "solana_prepare_call E Z N now uk params w =
     ((case solana_prepare_request E uk params of Inl _ \<Rightarrow> w | Inr q \<Rightarrow> w\<lparr>wSent := wSent w @ [PrepareSolanaTx q]\<rparr>),
      snd (PrepareSolanaTxEnclaveCall E now (zDecode Z) (\<lambda>q. slPrepare N q (wSent w)) uk params))"

definition prepareSolanaEnclaveJob ::
    "primitives \<Rightarrow> sealing \<Rightarrow> 'j json_services \<Rightarrow> solana_network \<Rightarrow> int \<Rightarrow> solana_transact_params \<Rightarrow> user_keys \<Rightarrow>
     (message, string \<times> (jub_point \<times> int)) io" where
  "prepareSolanaEnclaveJob E S Z N now p uk =
     ibind (ilift (if hsSpeculative p = None then collectInputCommitments E (elems (hsInputUtxos p)) else Ok [])) (\<lambda>inputCommitments.
     ibind (solana_prepare_call E Z N now uk (solana_prepare_params S Z p inputCommitments)) (\<lambda>prepared.
     ibind (ilift (ParseBigInt (SignedMessageHash prepared))) (\<lambda>signedMessageHash.
     ibind (ilift (SignEddsa E uk signedMessageHash)) (\<lambda>sig.
     ireturn (JobID prepared, sig)))))"

section \<open>The transaction\<close>

definition SolanaTransactCallRelayer :: "solana_network \<Rightarrow> solana_body \<Rightarrow> (message, string) io" where
  "SolanaTransactCallRelayer N body = ibind (icall (RelaySolana body) (slRelay N body)) (\<lambda>resp. ilift (extractTxResponse resp))"

definition submitSolanaProof ::
    "'j json_services \<Rightarrow> solana_network \<Rightarrow> solana_transact_params \<Rightarrow> solana_transact_proof \<Rightarrow> (message, string) io" where
  "submitSolanaProof Z N p proof =
     (if soMode (hsSubmit p) \<noteq> SolanaSubmitModeRelayer then ifail errSolanaTransactRelayerMode
      else SolanaTransactCallRelayer N
        \<lparr>sbChainID = hsChainID p, sbRelayAddress = hsRelayAddress p, sbFunctionName = hsFunctionName p, sbArgs = tsArgs proof,
         sbAccounts = (case hsAccounts p of None \<Rightarrow> ''null'' | Some a \<Rightarrow> zMarshal Z a),
         sbCommitmentValidationData = tsValidation proof, sbAdminData = soAdminData (hsSubmit p)\<rparr>)"

definition resolveSolanaTransactRelay ::
    "solana_network \<Rightarrow> bool \<Rightarrow> solana_transact_params \<Rightarrow> (message, solana_transact_params) io" where
  "resolveSolanaTransactRelay N remote p =
     (let wantsRelay = (soMode (hsSubmit p) = SolanaSubmitModeRelayer \<or> hsNeedsRelay p) in
      if \<not> wantsRelay \<or> hsRelayAddress p \<noteq> [] then ireturn p
      else
        ibind (resolve_relay (network.truncate N) remote (hsChainID p) (hsSkipRelayReservation p)) (\<lambda>resolved.
        ireturn (p\<lparr>hsRelayAddress := resolved_relay.Relay resolved, hsAutoSelectRelay := AutoSelectRelay resolved\<rparr>)))"

definition submitAndConfirmSolana ::
    "'j json_services \<Rightarrow> solana_network \<Rightarrow> solana_transact_params \<Rightarrow> solana_transact_proof \<Rightarrow> (message, solana_transact_result) io" where
  "submitAndConfirmSolana Z N p proof =
     (if soMode (hsSubmit p) \<noteq> SolanaSubmitModeRelayer then ireturn \<lparr>tqTxHash = [], tqProof = Some proof\<rparr>
      else
        ibind (submitSolanaProof Z N p proof) (\<lambda>txHash.
        ibind (case (hsOnTxConfirm p, tsNotes proof) of
                 (Some confirm, Some txNotes) \<Rightarrow> confirm txNotes
               | _ \<Rightarrow> ireturn ()) (\<lambda>_.
        ireturn \<lparr>tqTxHash = txHash, tqProof = None\<rparr>)))"

definition solanaTransactViaEnclave ::
    "primitives \<Rightarrow> sealing \<Rightarrow> 'j json_services \<Rightarrow> solana_network \<Rightarrow> int \<Rightarrow> solana_transact_params \<Rightarrow> user_keys \<Rightarrow>
     (message, solana_transact_result) io" where
  "solanaTransactViaEnclave E S Z N now p uk =
     ibind (prepareSolanaEnclaveJob E S Z N now p uk) (\<lambda>(jobID, sig).
     if soMode (hsSubmit p) = SolanaSubmitModeRelayer then
       (let chain = int_String (hsChainID p); admin = soAdminData (hsSubmit p) in
        ibind (icall (FinalizeSolanaTxRelay jobID sig chain admin) (slFinalizeRelay N jobID sig chain admin)) (\<lambda>txHash.
        ireturn \<lparr>tqTxHash = txHash, tqProof = None\<rparr>))
     else
       ibind (icall (FinalizeSolanaTx jobID sig) (slFinalize N jobID sig)) (\<lambda>final.
       submitAndConfirmSolana Z N p
         \<lparr>tsArgs = RawArgs (sfArgs final), tsValidation = sfCommitmentValidationData final, tsNotes = None\<rparr>))"

definition SolanaTransact ::
    "primitives \<Rightarrow> sealing \<Rightarrow> 'j json_services \<Rightarrow> solana_network \<Rightarrow> 'f wallet_services \<Rightarrow> solana_transact_params \<Rightarrow>
     (message, solana_transact_result) io" where
  "SolanaTransact E S Z N W p0 =
     (if hsUserKeys p0 \<noteq> None \<and> hsInputUtxos p0 = None then ifail errSolanaTransactUserKeysNeedInputs
      else
        ibind (resolveSolanaTransactRelay N (wsRemote W) p0) (\<lambda>p.
        let uk = (case hsUserKeys p of Some k \<Rightarrow> k | None \<Rightarrow> keys (wsWallet W)) in
        if wsRemote W then solanaTransactViaEnclave E S Z N (wsNow W) p uk
        else ibind (buildSolanaProofLocally E S W p uk) (submitAndConfirmSolana Z N p)))"

end
