(* ===== verification/SolanaActions.thy ===== *)
theory SolanaActions
  imports SolanaTransact
begin

text \<open>
  \<open>internal/functions/transactions\<close>, the actions of a wallet on Solana: \<open>solana_withdraw.go\<close>, \<open>solana_transfer.go\<close>,
  \<open>solana_swap.go\<close>, and the claim of a note somebody left under a key of its own: \<open>claim_utxo.go\<close> and
  \<open>solana_claim_utxo.go\<close>.
\<close>

section \<open>Services and helpers\<close>

record solana_gas_params =
  gpMintTo :: string
  gpMintFrom :: string
  gpRecipient :: string
  gpNullifierCount :: nat

text \<open>\<open>sgGas\<close> estimates with the parameters of a Solana transaction, \<open>sgAccounts\<close> reads many accounts.\<close>

record ('f, 'j) solana_services =
  sgActions :: "'f action_services"
  sgJson :: "'j json_services"
  sgNet :: deposit_network
  sgGas :: "solana_gas_params \<Rightarrow> 'f gas_server"
  sgAccounts :: "byte list list \<Rightarrow> unit option list result"
  sgClaimFresh :: fresh
  sgSourceFresh :: fresh
  sgRecipientFresh :: fresh

abbreviation sgSolana :: "('f, 'j) solana_services \<Rightarrow> solana_network" where
  "sgSolana Q \<equiv> solana_network.truncate (sgNet Q)"

abbreviation sgWallet :: "('f, 'j) solana_services \<Rightarrow> 'f wallet_services" where
  "sgWallet Q \<equiv> wallet_services.truncate (sgActions Q)"

definition errSolanaWithdrawOneMint :: go_error where
  "errSolanaWithdrawOneMint = Errorf ''Solana Withdraw: Only one mint address is supported''"
definition errSolanaWithdrawNoToken :: go_error where "errSolanaWithdrawNoToken = Errorf ''Solana Withdraw: No Token Found''"
definition errSolanaTransferOneMint :: go_error where
  "errSolanaTransferOneMint = Errorf ''Solana Transfer: Only one mint address is supported''"
definition errSolanaSwapTwoTokens :: go_error where
  "errSolanaSwapTwoTokens = Errorf ''transactions: Solana swap requires exactly two tokens''"
definition ErrLowOutputAmount :: go_error where "ErrLowOutputAmount = Errorf ''gas fees exceed received amount''"

definition relayerAddress :: "network \<Rightarrow> int \<Rightarrow> (message, string) io" where
  "relayerAddress N chainID =
     ibind (icall (ReserveRelay chainID True) (nRandomRelay N chainID True)) (\<lambda>relay.
     if relay = [] then ifail ErrRelayerNotAvailable else ireturn relay)"

definition nonNativeMint :: "string \<Rightarrow> string option" where
  "nonNativeMint mintAddress = (if mintAddress = SolanaNativeAddress then None else Some mintAddress)"

definition nonNativeMintString :: "string \<Rightarrow> string" where
  "nonNativeMintString mintAddress = (if mintAddress = SolanaNativeAddress then [] else mintAddress)"

definition remainingAccountsToOKX :: "sealing \<Rightarrow> account_meta list \<Rightarrow> okx_account list" where
  "remainingAccountsToOKX S accs =
     map (\<lambda>a. \<lparr>okIsSigner = IsSigner a, okIsWritable = IsWritable a, okPubkey = base58Encode S (PublicKey a)\<rparr>) accs"

text \<open>How many of the notes a transaction would spend have no account on the chain yet.\<close>

definition nullifier_accounts :: "primitives \<Rightarrow> deposit_network \<Rightarrow> int \<Rightarrow> unit \<Rightarrow> (int \<Rightarrow> byte list result) result" where
  "nullifier_accounts E N chainID = (\<lambda>_.
     rbind (publicKeyFromBase58 E (dnHinkal N chainID)) (\<lambda>programID.
     rbind (slDeployer N chainID) (\<lambda>deployer.
     rbind (publicKeyFromBase58 E deployer) (\<lambda>originalDeployer.
     Ok (\<lambda>n. GetNullifierAccount (slPda N) n originalDeployer programID)))))"

definition nullifier_count ::
    "primitives \<Rightarrow> sealing \<Rightarrow> ('f, 'j) solana_services \<Rightarrow> int \<Rightarrow> string list \<Rightarrow> int list \<Rightarrow> (message, nat) io" where
  "nullifier_count E S Q chainID mintAddresses amountChanges =
     (let W = sgWallet Q; N = sgNet Q in
      icache (\<lambda>d.
        if \<not> IsSolanaLike chainID \<or> mintAddresses = [] \<or> amountChanges = [] then (d, Ok 0)
        else
          case AddPaddingToUtxos E S (wsFloat W) (wsBalance W) (wsTokens W) (wsStuck W) (wsEthAddress W)
                 (wsInputFresh W) (wsPadFresh W) (wsWallet W) d chainID mintAddresses amountChanges 6 False False [] of
            (d', padded) \<Rightarrow>
              (d', Ok (CalculateSolanaNullifierCount E padded (nullifier_accounts E N chainID)
                         (\<lambda>pdas. rbind (slConnection N) (\<lambda>_. sgAccounts Q pdas)) chainID mintAddresses amountChanges))))"

section \<open>Withdrawals\<close>

definition resolveSolanaWithdrawFeeStructure ::
    "('f, 'j) solana_services \<Rightarrow> int \<Rightarrow> string list \<Rightarrow> erc20_token \<Rightarrow> int \<Rightarrow> fee_structure option \<Rightarrow> int option \<Rightarrow> solana_gas_params \<Rightarrow>
     (fee_structure \<times> int) result" where
  "resolveSolanaWithdrawFeeStructure Q chainID mintAddresses token amount feeStructureOverride variableRateOverride gasParams =
     (let A = sgActions Q in
      rbind (case feeStructureOverride of
               Some fee \<Rightarrow> Ok (case variableRateOverride of None \<Rightarrow> fee | Some r \<Rightarrow> fee\<lparr>VariableRate := r\<rparr>)
             | None \<Rightarrow> GetFeeStructure (wsFloat A) (wsTokens A) (sgGas Q gasParams) chainID (hd mintAddresses) mintAddresses
                         ExternalActionTransact [] variableRateOverride) (\<lambda>raw.
      rbind (AssertSolanaFeeTokenMatchesMint raw (hd mintAddresses)) (\<lambda>_.
      let raw1 = normalizeFeeStructure raw in
      Ok (CalculateModifiedFeeStructure (wsFloat A) (wsTokens A) (asPrices A) chainID token (- amount) raw1, VariableRate raw1))))"

text \<open>The checks one-token actions begin with.\<close>

definition one_token_checks :: "solana_token list \<Rightarrow> int list \<Rightarrow> go_error \<Rightarrow> go_error \<Rightarrow> int result" where
  "one_token_checks tokens amountChanges noToken oneMint =
     rbind (ValidateAndGetChainID (map erc20_token.truncate tokens)) (\<lambda>chainID.
     if \<not> IsSolanaLike chainID then Err errNotSolanaChain
     else if length tokens \<noteq> length amountChanges then Err errTokenAmountLengthMismatch
     else if tokens = [] then Err noToken
     else if length tokens > 1 then Err oneMint
     else Ok chainID)"

definition HinkalSolanaWithdraw ::
    "primitives \<Rightarrow> sealing \<Rightarrow> ('f, 'j) solana_services \<Rightarrow> solana_token list \<Rightarrow> int list \<Rightarrow> string \<Rightarrow> fee_structure option \<Rightarrow>
     int option \<Rightarrow> string \<Rightarrow> (message, string) io" where
  "HinkalSolanaWithdraw E S Q tokens amountChanges recipientAddress feeStructureOverride variableRateOverride action =
     (let A = sgActions Q; token = hd tokens; mint = TokenAddress token; amount = hd amountChanges in
      ibind (ilift (one_token_checks tokens amountChanges errSolanaWithdrawNoToken errSolanaWithdrawOneMint)) (\<lambda>chainID.
      ibind (ilift (ensureSolanaDeployData (sgSolana Q) chainID)) (\<lambda>_.
      ibind (nullifier_count E S Q chainID [mint] [amount]) (\<lambda>spent.
      ibind (ilift (resolveSolanaWithdrawFeeStructure Q chainID [mint] (erc20_token.truncate token) amount feeStructureOverride
                      variableRateOverride
                      \<lparr>gpMintTo = mint, gpMintFrom = [], gpRecipient = recipientAddress, gpNullifierCount = spent\<rparr>)) (\<lambda>(fee, variableRate).
      let change = amount - FlatFee fee;
          accs = TransactAccounts recipientAddress (if \<not> EqualFold mint SolanaNativeAddress then mint else []) in
      ibind (ilift (asEthereumAddress A)) (\<lambda>ethereumAddress.
      let adminData = ConstructAdminData E (asGoos A) (asNowMillis A) action chainID [mint] [change] ethereumAddress [] (Some variableRate) in
      ibind (SolanaTransact E S (sgJson Q) (sgSolana Q) (sgWallet Q)
               (no_solana_params\<lparr>hsChainID := chainID, hsMintAddresses := Some [mint], hsAmountChanges := Some [change],
                  hsRecipient := recipientAddress, hsFunctionName := ''transact'', hsAccounts := Some accs,
                  hsRelayerFee := Some (FlatFee fee), hsVariableRate := Some (VariableRate fee),
                  hsSubmit := \<lparr>soMode = SolanaSubmitModeRelayer, soAdminData = adminData\<rparr>\<rparr>)) (\<lambda>result.
      ireturn (tqTxHash result))))))))"

section \<open>Private transfers\<close>

definition resolveSolanaTransferFeeStructure ::
    "('f, 'j) solana_services \<Rightarrow> int \<Rightarrow> string list \<Rightarrow> fee_structure option \<Rightarrow> solana_gas_params \<Rightarrow> fee_structure result" where
  "resolveSolanaTransferFeeStructure Q chainID mintAddresses feeStructureOverride gasParams =
     (let A = sgActions Q in
      rbind (case feeStructureOverride of
               Some fee \<Rightarrow> Ok fee
             | None \<Rightarrow> GetFeeStructure (wsFloat A) (wsTokens A) (sgGas Q gasParams) chainID (hd mintAddresses) mintAddresses
                         ExternalActionTransact [] (Some HinkalPrivateSendVariableRate)) (\<lambda>fee.
      rbind (AssertSolanaFeeTokenMatchesMint fee (hd mintAddresses)) (\<lambda>_.
      let fee1 = normalizeFeeStructure fee in
      Ok (if VariableRate fee1 = 0 then fee1\<lparr>VariableRate := HinkalPrivateSendVariableRate\<rparr> else fee1))))"

definition HinkalSolanaTransfer ::
    "primitives \<Rightarrow> sealing \<Rightarrow> ('f, 'j) solana_services \<Rightarrow> solana_token list \<Rightarrow> int list \<Rightarrow> string \<Rightarrow> fee_structure option \<Rightarrow> string \<Rightarrow>
     (message, string) io" where
  "HinkalSolanaTransfer E S Q tokens amountChanges recipientAddress feeStructureOverride action =
     (let A = sgActions Q; mint = TokenAddress (hd tokens); amount = hd amountChanges in
      ibind (ilift (one_token_checks tokens amountChanges errTransferNoToken errSolanaTransferOneMint)) (\<lambda>chainID.
      if \<not> IsValidPrivateAddress recipientAddress then ifail ErrRecipientFormatIncorrect
      else
        ibind (ilift (ensureSolanaDeployData (sgSolana Q) chainID)) (\<lambda>_.
        ibind (nullifier_count E S Q chainID [mint] [amount]) (\<lambda>spent.
        ibind (ilift (resolveSolanaTransferFeeStructure Q chainID [mint] feeStructureOverride
                        \<lparr>gpMintTo = mint, gpMintFrom = [], gpRecipient = [], gpNullifierCount = spent\<rparr>)) (\<lambda>fee.
        let recipientAmount = - amount; totalFee = CalculateTotalFee recipientAmount fee; change = amount - totalFee in
        ibind (relayerAddress (network.truncate (sgNet Q)) chainID) (\<lambda>relay.
        ibind (ilift (asEthereumAddress A)) (\<lambda>ethereumAddress.
        let adminData = ConstructAdminData E (asGoos A) (asNowMillis A) action chainID [mint] [change] ethereumAddress []
                          (Some (VariableRate fee)) in
        ibind (SolanaTransact E S (sgJson Q) (sgSolana Q) (sgWallet Q)
                 (no_solana_params\<lparr>hsChainID := chainID, hsMintAddresses := Some [mint], hsAmountChanges := Some [change],
                    hsRelayAddress := relay, hsRecipient := SolanaNativeAddress, hsSigner := relay, hsFunctionName := ''transfer'',
                    hsAccounts := Some (TransactAccounts relay (nonNativeMintString mint)), hsRelayerFee := Some totalFee,
                    hsVariableRate := Some 0, hsRecipientAddress := recipientAddress, hsRecipientAmounts := Some [recipientAmount],
                    hsSubmit := \<lparr>soMode = SolanaSubmitModeRelayer, soAdminData = adminData\<rparr>\<rparr>)) (\<lambda>result.
        ireturn (tqTxHash result)))))))))"

section \<open>Swaps\<close>

text \<open>What the output may lose to slippage, computed on floating-point amounts of whole tokens.\<close>

definition solana_slippage :: "('f, 'j) solana_services \<Rightarrow> erc20_token \<Rightarrow> int \<Rightarrow> 'f \<Rightarrow> int result" where
  "solana_slippage Q outputToken initialReceiveAmount slippage =
     (let fl = wsFloat (sgActions Q) in
      rbind (ParseFloat fl (GetAmountInToken outputToken initialReceiveAmount)) (\<lambda>outputAmount.
      let slippageAmount = fdiv fl (fmul fl outputAmount slippage) (fOfInt fl 100) in
      GetAmountInWei outputToken (FormatFloat fl slippageAmount (Decimals outputToken))))"

definition solana_swap_output :: "int \<Rightarrow> int \<Rightarrow> fee_structure \<Rightarrow> int result" where
  "solana_swap_output initialReceiveAmount slippageWei fee =
     (let variableFee = (initialReceiveAmount * VariableRate fee) sdiv 10000;
          change = initialReceiveAmount - slippageWei - (variableFee + FlatFee fee)
      in if change < 0 then Err ErrLowOutputAmount else Ok change)"

definition swap_fee ::
    "primitives \<Rightarrow> sealing \<Rightarrow> ('f, 'j) solana_services \<Rightarrow> int \<Rightarrow> string list \<Rightarrow> int list \<Rightarrow> fee_structure option \<Rightarrow> (message, fee_structure) io" where
  "swap_fee E S Q chainID mintAddresses amountChanges feeStructureOverride =
     ibind (case feeStructureOverride of
              Some fee \<Rightarrow> ireturn fee
            | None \<Rightarrow>
                ibind (nullifier_count E S Q chainID mintAddresses amountChanges) (\<lambda>spent.
                let gas = sgGas Q \<lparr>gpMintTo = mintAddresses ! 1, gpMintFrom = mintAddresses ! 0, gpRecipient = [], gpNullifierCount = spent\<rparr> in
                ilift (GetFeeStructure (wsFloat (sgActions Q)) (wsTokens (sgActions Q)) gas chainID (mintAddresses ! 1) mintAddresses
                         ''Okx'' [] None))) (\<lambda>fee.
     ibind (ilift (AssertSolanaFeeTokenMatchesMint fee (mintAddresses ! 1))) (\<lambda>_. ireturn (normalizeFeeStructure fee)))"

definition HinkalSolanaSwap ::
    "primitives \<Rightarrow> sealing \<Rightarrow> ('f, 'j) solana_services \<Rightarrow> solana_token list \<Rightarrow> int list \<Rightarrow> int \<Rightarrow> okx_instruction list \<Rightarrow>
     fee_structure option \<Rightarrow> 'f \<Rightarrow> string \<Rightarrow> (message, string) io" where
  "HinkalSolanaSwap E S Q tokens amountChanges swapperAccountSalt instructionLists feeStructureOverride slippage0 action =
     (let A = sgActions Q; N = sgNet Q; ts = map erc20_token.truncate tokens; mints = tokenAddresses ts;
          slippage = (if slippage0 = fzero (wsFloat A) then asDefaultSlippage A else slippage0) in
      ibind (ilift (ValidateAndGetChainID ts)) (\<lambda>chainID.
      if length tokens \<noteq> 2 \<or> length amountChanges \<noteq> 2 then ifail errSolanaSwapTwoTokens
      else
        ibind (ilift (
          rbind (publicKeyFromBase58 E SolanaNativeAddress) (\<lambda>recipient.
          rbind (nHinkalAddress N chainID) (\<lambda>hinkal.
          rbind (publicKeyFromBase58 E hinkal) (\<lambda>programID.
          rbind (slDeployer N chainID) (\<lambda>deployer.
          rbind (publicKeyFromBase58 E deployer) (\<lambda>originalDeployer. Ok (recipient, programID, originalDeployer))))))))
          (\<lambda>(recipient, programID, originalDeployer).
        ibind (swap_fee E S Q chainID mints amountChanges feeStructureOverride) (\<lambda>fee.
        ibind (ilift (
          rbind (solana_slippage Q (ts ! 1) (amountChanges ! 1) slippage) (\<lambda>slippageWei.
          rbind (solana_swap_output (amountChanges ! 1) slippageWei fee) (\<lambda>received.
          rbind (GetSwapperAccountPublicKeyFromSalt E (slPda N) programID originalDeployer swapperAccountSalt) (\<lambda>swapper.
          rbind (ConvertOKXToHinkalInstructions E S instructionLists swapper) (\<lambda>(instructions, remaining).
          rbind (GetStorageAccountPublicKey (slPda N) programID originalDeployer) (\<lambda>storageAccount.
          rbind (GetStorageVaultPublicKey (slPda N) programID originalDeployer) (\<lambda>storageVault.
          rbind (asEthereumAddress A) (\<lambda>ethereumAddress.
          let changes = [amountChanges ! 0, received];
              accs = SwapAccounts (base58Encode S recipient) (base58Encode S storageAccount) (base58Encode S storageVault)
                       (base58Encode S swapper) (nonNativeMint (mints ! 0)) (nonNativeMint (mints ! 1)) (remainingAccountsToOKX S remaining);
              adminData = ConstructAdminData E (asGoos A) (asNowMillis A) action chainID mints changes ethereumAddress ts
                            (Some (VariableRate fee))
          in Ok (no_solana_params\<lparr>hsChainID := chainID, hsMintAddresses := Some mints, hsAmountChanges := Some changes,
                   hsRecipient := base58Encode S recipient, hsFunctionName := ''swap'', hsAccounts := Some accs,
                   hsOnChainCreation := Some [False, True], hsRelayerFee := Some (FlatFee fee), hsVariableRate := Some (VariableRate fee),
                   hsSwapperAccountSalt := Some swapperAccountSalt, hsHinkalInstructions := (if instructions = [] then None else Some instructions),
                   hsRemainingAccounts := (if remaining = [] then None else Some remaining),
                   hsSubmit := \<lparr>soMode = SolanaSubmitModeRelayer, soAdminData = adminData\<rparr>\<rparr>)))))))))) (\<lambda>p.
        ibind (SolanaTransact E S (sgJson Q) (sgSolana Q) (sgWallet Q) p) (\<lambda>result. ireturn (tqTxHash result)))))))"

section \<open>Claims\<close>

definition errClaimNoToken :: go_error where "errClaimNoToken = Errorf ''transactions: claimUtxo action: no token found''"
definition errClaimTooManyTokens :: go_error where "errClaimTooManyTokens = Errorf ''transactions: claimUtxo supports one token''"
definition errClaimUtxoMissingKey :: go_error where "errClaimUtxoMissingKey = Errorf ''claimable UTXO nullifyingKey is missing''"
definition errClaimUtxoKeyMismatch :: go_error where "errClaimUtxoKeyMismatch = Errorf ''claimable UTXO key mismatch''"
definition errClaimUtxoTokenMismatch :: go_error where "errClaimUtxoTokenMismatch = Errorf ''off-chain UTXO token mismatch''"
definition errClaimFeeTokenMismatch :: go_error where
  "errClaimFeeTokenMismatch = Errorf ''claim fee token mismatch: fee must be paid from claimed UTXO token''"
definition errClaimNewStyleNeedsSignature :: go_error where
  "errClaimNewStyleNeedsSignature = Errorf ''claimable new-style UTXO requires claimableSignature''"
definition ErrInsufficientFundsToTransact :: go_error where
  "ErrInsufficientFundsToTransact = Errorf ''not enough funds to transact''"
definition ErrRecipientAmountInvalid :: go_error where "ErrRecipientAmountInvalid = Errorf ''recipient amount is invalid''"
definition errClaimInvalidRecipientInfo :: go_error where "errClaimInvalidRecipientInfo = Errorf ''invalid recipient info''"

definition claimUtxoUserKeys :: "primitives \<Rightarrow> utxo \<Rightarrow> string \<Rightarrow> (user_keys \<times> string) result" where
  "claimUtxoUserKeys E source claimableSignature =
     (if claimableSignature \<noteq> [] then
        (case GetShieldedPrivateKey E \<lparr>signature = claimableSignature, nullifyingKey = []\<rparr> of (uk, key) \<Rightarrow> rbind key (\<lambda>k. Ok (uk, k)))
      else if NullifyingKey source = [] then Err errClaimUtxoMissingKey
      else Err errClaimNewStyleNeedsSignature)"

text \<open>The flat fee and the rate's cut of the rest are taken from the note; what is left is paid out.\<close>

definition claimFeeParts :: "int \<Rightarrow> fee_structure \<Rightarrow> (fee_structure \<times> int) result" where
  "claimFeeParts sourceAmount fee =
     (let flatFee = FlatFee fee;
          variableRate = (if VariableRate fee \<le> 0 then HinkalPrivateSendVariableRate else VariableRate fee) in
      if sourceAmount \<le> flatFee then Err ErrInsufficientFundsToTransact
      else
        let transferable = sourceAmount - flatFee;
            variableFee = transferable * variableRate div 10000;
            recipientAmount = transferable - variableFee in
        if recipientAmount \<le> 0 then Err ErrRecipientAmountInvalid
        else Ok (\<lparr>FeeToken = FeeToken fee, FlatFee = flatFee + variableFee, VariableRate = 0\<rparr>, recipientAmount))"

definition claimPaddingUtxo :: "primitives \<Rightarrow> fresh \<Rightarrow> utxo \<Rightarrow> user_keys \<Rightarrow> string \<Rightarrow> utxo result" where
  "claimPaddingUtxo E f source uk resolvedNullifyingKey =
     rbind (GetSpendingKeyPair E uk) (\<lambda>pair.
     zero_note E f (Erc20TokenAddress source) (MintAddress source) resolvedNullifyingKey
       [fst (PubSpendingBJJPoint pair), snd (PubSpendingBJJPoint pair)])"

text \<open>The note to claim under the keys of the signature; \<open>same\<close> compares the stored key with the derived one.\<close>

definition claim_source ::
    "primitives \<Rightarrow> fresh \<Rightarrow> utxo \<Rightarrow> string \<Rightarrow> (string \<Rightarrow> string \<Rightarrow> bool result) \<Rightarrow> (utxo \<times> user_keys \<times> string) result" where
  "claim_source E f claimable claimableSignature same =
     rbind (claimUtxoUserKeys E claimable claimableSignature) (\<lambda>(uk, resolved).
     rbind (if NullifyingKey claimable \<noteq> [] then same (NullifyingKey claimable) resolved else Ok True) (\<lambda>ok.
     if \<not> ok then Err errClaimUtxoKeyMismatch
     else rbind (CreateFrom E (fst f) (snd f) claimable (no_params\<lparr>pNullifyingKey := resolved\<rparr>)) (\<lambda>source. Ok (source, uk, resolved))))"

definition claim_token :: "erc20_token list \<Rightarrow> utxo option \<Rightarrow> utxo result" where
  "claim_token tokens claimable =
     (if tokens = [] then Err errClaimNoToken
      else if length tokens > 1 then Err errClaimTooManyTokens
      else case claimable of
             None \<Rightarrow> Err errClaimUtxoMissingKey
           | Some u \<Rightarrow> if Amount u = None then Err errClaimUtxoMissingKey else Ok u)"

definition HinkalClaimUtxo ::
    "primitives \<Rightarrow> sealing \<Rightarrow> network \<Rightarrow> ('f, 'm) action_services_scheme \<Rightarrow> fresh \<Rightarrow> fresh \<Rightarrow> erc20_token list \<Rightarrow> utxo option \<Rightarrow>
     fee_structure option \<Rightarrow> string \<Rightarrow> (message, string) io" where
  "HinkalClaimUtxo E S N A sourceFresh recipientFresh tokens claimableUtxo feeStructureOverride claimableSignature =
     ibind (ilift (
       rbind (ValidateAndGetChainID tokens) (\<lambda>chainID.
       rbind (claim_token tokens claimableUtxo) (\<lambda>claimable.
       let tokenAddress = TokenAddress (hd tokens) in
       if \<not> EqualFold tokenAddress (Erc20TokenAddress claimable) then Err errClaimUtxoTokenMismatch
       else
         rbind (claim_source E sourceFresh claimable claimableSignature
                  (\<lambda>stored resolved. rbind (ParseBigInt stored) (\<lambda>a. rbind (ParseBigInt resolved) (\<lambda>b. Ok (a = b))))) (\<lambda>(source, uk, _).
         rbind (case feeStructureOverride of
                  Some fee \<Rightarrow> Ok fee
                | None \<Rightarrow> GetFeeStructure (wsFloat A) (wsTokens A) (asGas A) chainID tokenAddress [tokenAddress] ExternalActionTransact []
                            None) (\<lambda>fee0.
         let fee = normalizeFeeStructure fee0 in
         if \<not> EqualFold (FeeToken fee) tokenAddress then Err errClaimFeeTokenMismatch
         else
           rbind (deref (Amount source)) (\<lambda>sourceAmount.
           rbind (claimFeeParts sourceAmount fee) (\<lambda>(claimFee, recipientAmount).
           rbind (GetRecipientInfoFromUserKeys E S recipientFresh (keys (wsWallet A))) (\<lambda>recipientInfo.
           Ok (no_transact_params\<lparr>htChainID := chainID, htErc20Addresses := Some [tokenAddress],
                 htAmountChanges := Some [- sourceAmount], htExternalActionID := [], htFeeStructure := Some claimFee,
                 htRecipientAddress := recipientInfo, htRecipientAmounts := Some [recipientAmount],
                 htInputUtxos := Some [[source]], htUserKeys := Some uk,
                 htSubmit := NewRelayerSubmit \<lparr>rsAdminData = None, rsAuthorizationData = None, rsWithUniswapWorkAround = False\<rparr>\<rparr>)))))))))) (\<lambda>p.
     ibind (HinkalTransact E S N (wallet_services.truncate A) p) (\<lambda>result. ireturn (trTxHash result)))"

definition hasClaimRecipientParts :: "string \<Rightarrow> bool" where
  "hasClaimRecipientParts recipientInfo =
     (let parts = Split recipientInfo CHR '','' in
      length parts \<ge> 6 \<and> parts ! 0 \<noteq> [] \<and> parts ! 1 \<noteq> [] \<and> parts ! 2 \<noteq> [] \<and> parts ! 5 \<noteq> [])"

definition solana_claim_params ::
    "primitives \<Rightarrow> sealing \<Rightarrow> ('f, 'j) solana_services \<Rightarrow> erc20_token list \<Rightarrow> utxo option \<Rightarrow> fee_structure option \<Rightarrow> string \<Rightarrow>
     solana_transact_params result" where
  "solana_claim_params E S Q tokens claimableUtxo feeStructureOverride claimableSignature =
     (let A = sgActions Q; tokenAddress = TokenAddress (hd tokens) in
      rbind (ValidateAndGetChainID tokens) (\<lambda>chainID.
      if \<not> IsSolanaLike chainID then Err errNotSolanaChain
      else
        rbind (claim_token tokens claimableUtxo) (\<lambda>claimable.
        rbind (GetTokenAddress (IsSolanaLike chainID) claimable) (\<lambda>utxoTokenAddress.
        if utxoTokenAddress \<noteq> tokenAddress then Err errClaimUtxoTokenMismatch
        else
          rbind (claimUtxoUserKeys E claimable claimableSignature) (\<lambda>(uk, resolved).
          if NullifyingKey claimable \<noteq> [] \<and> NullifyingKey claimable \<noteq> resolved then Err errClaimUtxoKeyMismatch
          else
            rbind (ensureSolanaDeployData (sgSolana Q) chainID) (\<lambda>_.
            rbind (CreateFrom E (fst (sgSourceFresh Q)) (snd (sgSourceFresh Q)) claimable (no_params\<lparr>pNullifyingKey := resolved\<rparr>)) (\<lambda>source.
            rbind (claimPaddingUtxo E (sgClaimFresh Q) source uk resolved) (\<lambda>padding.
            rbind (case feeStructureOverride of
                     Some fee \<Rightarrow> Ok fee
                   | None \<Rightarrow> GetFeeStructure (wsFloat A) (wsTokens A)
                               (sgGas Q \<lparr>gpMintTo = tokenAddress, gpMintFrom = [], gpRecipient = [], gpNullifierCount = 1\<rparr>) chainID
                               tokenAddress [tokenAddress] ExternalActionTransact [] None) (\<lambda>fee.
            if FeeToken fee \<noteq> tokenAddress then Err errClaimFeeTokenMismatch
            else
              rbind (deref (Amount source)) (\<lambda>sourceAmount.
              rbind (claimFeeParts sourceAmount fee) (\<lambda>(claimFee, recipientAmount).
              rbind (GetRecipientInfoFromUserKeys E S (sgRecipientFresh Q) (keys (wsWallet A))) (\<lambda>recipientInfo.
              if \<not> hasClaimRecipientParts recipientInfo then Err errClaimInvalidRecipientInfo
              else Ok (no_solana_params\<lparr>hsChainID := chainID, hsMintAddresses := Some [tokenAddress],
                     hsAmountChanges := Some [- sourceAmount], hsRecipient := SolanaNativeAddress,
                     hsFunctionName := ''transfer'', hsRelayerFee := Some (FlatFee claimFee), hsVariableRate := Some 0,
                     hsRecipientAddress := recipientInfo, hsRecipientAmounts := Some [recipientAmount],
                     hsInputUtxos := Some [[source, padding]], hsUserKeys := Some uk,
                     hsSubmit := \<lparr>soMode = SolanaSubmitModeRelayer, soAdminData = None\<rparr>\<rparr>)))))))))))))"

definition HinkalSolanaClaimUtxo ::
    "primitives \<Rightarrow> sealing \<Rightarrow> ('f, 'j) solana_services \<Rightarrow> erc20_token list \<Rightarrow> utxo option \<Rightarrow> fee_structure option \<Rightarrow> string \<Rightarrow>
     (message, string) io" where
  "HinkalSolanaClaimUtxo E S Q tokens claimableUtxo feeStructureOverride claimableSignature =
     ibind (ilift (solana_claim_params E S Q tokens claimableUtxo feeStructureOverride claimableSignature)) (\<lambda>p.
     ibind (relayerAddress (network.truncate (sgNet Q)) (hsChainID p)) (\<lambda>relay.
     ibind (SolanaTransact E S (sgJson Q) (sgSolana Q) (sgWallet Q)
              (p\<lparr>hsRelayAddress := relay, hsSigner := relay,
                 hsAccounts := Some (TransactAccounts relay (nonNativeMintString (TokenAddress (hd tokens))))\<rparr>)) (\<lambda>result.
     ireturn (tqTxHash result))))"

end
