(* ===== verification/ReceiveVault.thy ===== *)
theory ReceiveVault
  imports Actions SolanaSubmit
begin

text \<open>
  \<open>internal/functions/receivevault\<close>: addresses that receive deposits for a wallet. A vault's address commits to
  the wallet's stealth address and to an owner key derived from the vault's index, so the terms of a vault give
  its address again (\<open>params.go\<close>, \<open>receive_vault.go\<close>, \<open>receive_vault_solana.go\<close>); the wallet registers a new vault
  with the enclave (\<open>account.go\<close>) and recovers what was not settled (\<open>recover.go\<close>, \<open>recover_solana.go\<close>).
\<close>

section \<open>Terms and parameters\<close>

record vault_terms =
  vtIndex :: int
  vtNetwork :: string
  vtExpiry :: string
  vtVersion :: string

record vault_params =
  vpRecipient :: stealth_structure
  vpOwner :: string
  vpVersion :: int

definition NetworkEvm :: string where "NetworkEvm = ''evm''"
definition NetworkTron :: string where "NetworkTron = ''tron''"
definition NetworkSolana :: string where "NetworkSolana = ''solana''"

definition receiveVaultTag :: string where "receiveVaultTag = ''HINKAL_RECEIVE_V1''"
definition recoveryTag :: string where "recoveryTag = ''HINKAL_RECEIVE_RECOVERY_V1''"
definition solanaOwnerTag :: string where "solanaOwnerTag = ''HINKAL_RECEIVE_SOLANA_OWNER_V1''"
definition recoveryScope :: string where "recoveryScope = ''HINKAL_RECEIVE_RECOVER''"
definition outputScope :: string where "outputScope = ''HINKAL_RECEIVE_OUTPUT''"
definition accountTag :: string where "accountTag = ''HINKAL_RECEIVE_ACCOUNT_V1''"
definition accountScope :: string where "accountScope = ''HINKAL_RECEIVE_VAULT_ACCOUNT''"
definition tronSignedPrefix :: string where
  "tronSignedPrefix = CHR 0x19 # ''TRON Signed Message:'' @ [CHR 0x0A] @ ''32''"

definition ReceiveVaultSettleRequestTTLSeconds :: int where "ReceiveVaultSettleRequestTTLSeconds = 300"
definition ReceiveVaultRecoveryTTLSeconds :: int where "ReceiveVaultRecoveryTTLSeconds = 900"
definition ReceiveVaultAddressTTLSeconds :: int where "ReceiveVaultAddressTTLSeconds = 1209600"

text \<open>The keys are seeds: \<open>veKeyAddress\<close> is the address of \<open>ToECDSAUnsafe\<close> of a seed, \<open>veSign\<close> its signature on a
  digest with the recovery id last, \<open>veEdPublic\<close> and \<open>veEdSign\<close> are Ed25519. \<open>veInitCodeHash\<close> answers through the
  cache, \<open>veProgramAddress\<close> is Solana's \<open>FindProgramAddress\<close>, the rest reads chains and tables.\<close>

record vault_env =
  veFactory :: "int \<Rightarrow> string result"
  veHinkal :: "int \<Rightarrow> string result"
  veDeployer :: "int \<Rightarrow> string result"
  veInitCodeHash :: "int \<Rightarrow> int \<Rightarrow> string result"
  veVersionCount :: "int \<Rightarrow> int result"
  veKeyAddress :: "byte list \<Rightarrow> byte list"
  veSign :: "byte list \<Rightarrow> byte list \<Rightarrow> byte list result"
  veTextHash :: "byte list \<Rightarrow> byte list"
  veEdPublic :: "byte list \<Rightarrow> byte list"
  veEdSign :: "byte list \<Rightarrow> byte list \<Rightarrow> byte list"
  veProgramAddress :: "byte list list \<Rightarrow> byte list \<Rightarrow> byte list result"
  veNow :: int

definition parseVersion :: "string \<Rightarrow> int result" where
  "parseVersion version = (if version = [] then Ok 0 else ParseBigInt version)"

definition TermsFromReceiveVaultRecord :: "vault_record \<Rightarrow> vault_terms" where
  "TermsFromReceiveVaultRecord r =
     \<lparr>vtIndex = rvIndex r, vtNetwork = rvNetwork r, vtExpiry = rvExpiry r, vtVersion = rvVersion r\<rparr>"

definition receiveVaultScope :: "vault_terms \<Rightarrow> string" where
  "receiveVaultScope terms = int_String (vtIndex terms)"

definition ReceiveVaultNetworkOf :: "int \<Rightarrow> string" where
  "ReceiveVaultNetworkOf chainID =
     (if IsSolanaLike chainID then NetworkSolana else if IsTronLike chainID then NetworkTron else NetworkEvm)"

definition GetReceiveVaultExpiry :: "vault_env \<Rightarrow> int" where
  "GetReceiveVaultExpiry V = veNow V + ReceiveVaultAddressTTLSeconds"

text \<open>The expiry is compared as the 64-bit number it wraps to; a text that does not parse counts as expired.\<close>

definition IsReceiveVaultExpired :: "vault_env \<Rightarrow> vault_terms \<Rightarrow> int \<Rightarrow> bool" where
  "IsReceiveVaultExpired V terms within =
     (if vtExpiry terms = [] then False
      else case ParseBigInt (vtExpiry terms) of
             Inl _ \<Rightarrow> True
           | Inr expiry \<Rightarrow> sint (word_of_int expiry :: 64 word) < veNow V + within)"

section \<open>Keys\<close>

fun join_colon :: "string list \<Rightarrow> string" where
  "join_colon [] = []"
| "join_colon [x] = x"
| "join_colon (x # xs) = x @ '':'' @ join_colon xs"

definition derivedKey :: "primitives \<Rightarrow> string \<Rightarrow> string list \<Rightarrow> byte list" where
  "derivedKey E tag parts = keccak256 E (string_bytes (tag @ '':'' @ join_colon parts))"

definition GetReceiveVaultRecoveryWallet :: "primitives \<Rightarrow> string \<Rightarrow> vault_terms \<Rightarrow> byte list" where
  "GetReceiveVaultRecoveryWallet E auxSpendKey terms = derivedKey E recoveryTag [auxSpendKey, receiveVaultScope terms]"

definition GetReceiveVaultRecoveryAddress :: "primitives \<Rightarrow> sealing \<Rightarrow> vault_env \<Rightarrow> string \<Rightarrow> vault_terms \<Rightarrow> string" where
  "GetReceiveVaultRecoveryAddress E S V auxSpendKey terms =
     addressHex S (veKeyAddress V (GetReceiveVaultRecoveryWallet E auxSpendKey terms))"

definition ReceiveVaultRandomizationSeed :: "primitives \<Rightarrow> string \<Rightarrow> vault_terms \<Rightarrow> int" where
  "ReceiveVaultRandomizationSeed E shieldedPrivateKey terms =
     SetBytes (keccak256 E (string_bytes (receiveVaultTag @ '':'' @ shieldedPrivateKey @ '':'' @ receiveVaultScope terms)))"

definition GetReceiveVaultSolanaOwner :: "primitives \<Rightarrow> string \<Rightarrow> vault_terms \<Rightarrow> byte list" where
  "GetReceiveVaultSolanaOwner E auxSpendKey terms =
     keccak256 E (string_bytes (solanaOwnerTag @ '':'' @ auxSpendKey @ '':'' @ receiveVaultScope terms))"

definition GetReceiveVaultSolanaOwnerAddress :: "primitives \<Rightarrow> sealing \<Rightarrow> vault_env \<Rightarrow> string \<Rightarrow> vault_terms \<Rightarrow> string" where
  "GetReceiveVaultSolanaOwnerAddress E S V auxSpendKey terms =
     base58Encode S (veEdPublic V (GetReceiveVaultSolanaOwner E auxSpendKey terms))"

definition receiveVaultOwnerKey :: "primitives \<Rightarrow> user_keys \<Rightarrow> bool \<Rightarrow> string result" where
  "receiveVaultOwnerKey E uk isLegacy = (if isLegacy then snd (GetShieldedPrivateKey E uk) else GetAuxSpendKey E uk)"

section \<open>The address of a vault\<close>

text \<open>\<open>big.Int.Bytes\<close> of a non-negative number and \<open>common.LeftPadBytes\<close>.\<close>

function nat_bytes :: "nat \<Rightarrow> byte list" where
  "nat_bytes n = (if n = 0 then [] else nat_bytes (n div 256) @ [word_of_nat n])"
  by pat_completeness auto
termination by (relation "measure id") auto

declare nat_bytes.simps [simp del]

definition big_Bytes :: "int \<Rightarrow> byte list" where
  "big_Bytes v = nat_bytes (nat \<bar>v\<bar>)"

definition LeftPadBytes :: "byte list \<Rightarrow> nat \<Rightarrow> byte list" where
  "LeftPadBytes bs n = replicate (n - length bs) 0 @ bs"

definition vault_tuple :: "primitives \<Rightarrow> vault_params \<Rightarrow> abi_value result" where
  "vault_tuple E params =
     rbind (AddressToHexFormat E (vpOwner params)) (\<lambda>ownerHex.
     let r = vpRecipient params in
     Ok (ATuple [ATuple [AUint256 (ssH0x r), AUint256 (ssH0y r), AUint256 (ssH1x r), AUint256 (ssH1y r), AUint256 (ssStealthAddress r)],
           AAddress (hexToAddress E ownerHex), AUint256 (vpVersion params)]))"

definition EncodeReceiveVaultParams :: "primitives \<Rightarrow> vault_params \<Rightarrow> byte list result" where
  "EncodeReceiveVaultParams E params = rbind (vault_tuple E params) (\<lambda>tuple. abiPack E [tuple])"

definition create2Prefix :: "int \<Rightarrow> byte" where
  "create2Prefix chainID = (if IsTronLike chainID then 0x41 else 0xFF)"

definition ComputeReceiveVaultAddress :: "primitives \<Rightarrow> sealing \<Rightarrow> vault_params \<Rightarrow> string \<Rightarrow> string \<Rightarrow> int \<Rightarrow> string result" where
  "ComputeReceiveVaultAddress E S params factoryAddress initCodeHash chainID =
     rbind (EncodeReceiveVaultParams E params) (\<lambda>encoded.
     rbind (AddressToHexFormat E factoryAddress) (\<lambda>factoryHex.
     let packed = [create2Prefix chainID] @ hexToAddress E factoryHex @ keccak256 E encoded @ fromHex E initCodeHash
     in Ok (addressHex S (drop 12 (keccak256 E packed)))))"

definition solanaField :: "int \<Rightarrow> byte list result" where
  "solanaField value =
     (if value < 0 \<or> value \<ge> 2 ^ 256 then Err (Errorf ''receive vault: field must fit in u256'') else FillBytes value 32)"

definition solanaVersionByte :: "int \<Rightarrow> byte result" where
  "solanaVersionByte version =
     (if version < 0 \<or> version \<ge> 2 ^ 8 then Err (Errorf ''receive vault: version must fit in u8'') else Ok (word_of_int version))"

definition recipient_fields :: "vault_params \<Rightarrow> byte list result" where
  "recipient_fields params =
     (let r = vpRecipient params in
      rbind (rmap solanaField [ssH0x r, ssH0y r, ssH1x r, ssH1y r, ssStealthAddress r]) (\<lambda>fields. Ok (concat fields)))"

definition GetSolanaReceiveVaultParamsHash :: "primitives \<Rightarrow> vault_params \<Rightarrow> byte list result" where
  "GetSolanaReceiveVaultParamsHash E params =
     rbind (rwrap ''receive vault: invalid solana owner'' (publicKeyFromBase58 E (vpOwner params))) (\<lambda>ownerKey.
     rbind (solanaVersionByte (vpVersion params)) (\<lambda>versionByte.
     rbind (recipient_fields params) (\<lambda>fields.
     Ok (sha256 E (fields @ ownerKey @ [versionByte])))))"

definition receiveVaultSeed :: "byte list" where "receiveVaultSeed = string_bytes ''hinkal_receive_vault''"

definition ComputeSolanaReceiveVaultAddress ::
    "primitives \<Rightarrow> sealing \<Rightarrow> vault_env \<Rightarrow> vault_params \<Rightarrow> string \<Rightarrow> string \<Rightarrow> string result" where
  "ComputeSolanaReceiveVaultAddress E S V params programID originalDeployer =
     rbind (GetSolanaReceiveVaultParamsHash E params) (\<lambda>paramsHash.
     rbind (rwrap ''receive vault: invalid solana program id'' (publicKeyFromBase58 E programID)) (\<lambda>programKey.
     rbind (rwrap ''receive vault: invalid solana original deployer'' (publicKeyFromBase58 E originalDeployer)) (\<lambda>deployerKey.
     rbind (rwrap ''receive vault: unable to derive solana vault address''
              (veProgramAddress V [receiveVaultSeed, deployerKey, paramsHash] programKey)) (\<lambda>vaultKey.
     Ok (base58Encode S vaultKey)))))"

definition GetReceiveVaultFactoryAddress :: "vault_env \<Rightarrow> int \<Rightarrow> string" where
  "GetReceiveVaultFactoryAddress V chainID =
     (case (if IsSolanaLike chainID then veHinkal V chainID else veFactory V chainID) of Inl _ \<Rightarrow> [] | Inr a \<Rightarrow> a)"

definition IsReceiveVaultSupported :: "vault_env \<Rightarrow> int \<Rightarrow> bool" where
  "IsReceiveVaultSupported V chainID = (GetReceiveVaultFactoryAddress V chainID \<noteq> [])"

definition errNoFactory :: go_error where "errNoFactory = Errorf ''receive vault: no factory on chain''"

definition solanaOriginalDeployer :: "vault_env \<Rightarrow> int \<Rightarrow> string result" where
  "solanaOriginalDeployer V chainID =
     (case veDeployer V chainID of
        Inl _ \<Rightarrow> Err (Errorf ''receive vault: no original deployer on chain'')
      | Inr d \<Rightarrow> if d = [] then Err (Errorf ''receive vault: no original deployer on chain'') else Ok d)"

definition HinkalSupportedChains :: "int list" where
  "HinkalSupportedChains = [1, 10, 8453, 137, 42161, 56, 5042, 5042002, 501, 11155111, 728126428, 3448148188, 4217, 4663]"

definition ReceiveVaultChainsForNetwork :: "vault_env \<Rightarrow> string \<Rightarrow> int list" where
  "ReceiveVaultChainsForNetwork V networkName =
     filter (\<lambda>chainID. IsReceiveVaultSupported V chainID \<and> ReceiveVaultNetworkOf chainID = networkName) HinkalSupportedChains"

definition getReceiveVaultCanonicalChainID :: "vault_env \<Rightarrow> string \<Rightarrow> int result" where
  "getReceiveVaultCanonicalChainID V networkName =
     (case ReceiveVaultChainsForNetwork V networkName of
        [] \<Rightarrow> Err (Errorf ''receive vault: no supported chain for network'') | chainID # _ \<Rightarrow> Ok chainID)"

definition GetReceiveVaultAddress :: "primitives \<Rightarrow> sealing \<Rightarrow> vault_env \<Rightarrow> vault_params \<Rightarrow> int \<Rightarrow> string result" where
  "GetReceiveVaultAddress E S V params chainID =
     (let factoryAddress = GetReceiveVaultFactoryAddress V chainID in
      if factoryAddress = [] then Err errNoFactory
      else if IsSolanaLike chainID then
        rbind (solanaOriginalDeployer V chainID) (\<lambda>originalDeployer.
        ComputeSolanaReceiveVaultAddress E S V params factoryAddress originalDeployer)
      else
        rbind (veInitCodeHash V chainID (vpVersion params)) (\<lambda>initCodeHash.
        rbind (ComputeReceiveVaultAddress E S params factoryAddress initCodeHash chainID) (\<lambda>vaultAddress.
        if IsTronLike chainID then EVMHexToTronBase58Address E S vaultAddress else Ok vaultAddress)))"

definition GetReceiveVaultCurrentVersion :: "vault_env \<Rightarrow> string \<Rightarrow> int result" where
  "GetReceiveVaultCurrentVersion V networkName =
     (if networkName = NetworkSolana then Ok 0
      else
        rbind (getReceiveVaultCanonicalChainID V networkName) (\<lambda>chainID.
        rbind (veVersionCount V chainID) (\<lambda>n. Ok (n - 1))))"

text \<open>The cache of the init code hashes, keyed by chain and version.\<close>

definition GetReceiveVaultInitCodeHash ::
    "(int \<Rightarrow> int \<Rightarrow> string result) \<Rightarrow> int \<Rightarrow> int \<Rightarrow> (string, string) gomap \<Rightarrow> (string, string) gomap \<times> string result" where
  "GetReceiveVaultInitCodeHash factoryHash chainID version cache =
     (let cacheKey = int_String chainID @ '':'' @ int_String version in
      case mget cache cacheKey of
        Some hash \<Rightarrow> (cache, Ok hash)
      | None \<Rightarrow> (case factoryHash chainID version of
                   Inl e \<Rightarrow> (cache, Err e) | Inr hash \<Rightarrow> (mput cacheKey hash cache, Ok hash)))"

section \<open>Parameters from terms\<close>

definition vault_owner :: "primitives \<Rightarrow> sealing \<Rightarrow> vault_env \<Rightarrow> string \<Rightarrow> vault_terms \<Rightarrow> string" where
  "vault_owner E S V key terms =
     (if vtNetwork terms = NetworkSolana then GetReceiveVaultSolanaOwnerAddress E S V key terms
      else GetReceiveVaultRecoveryAddress E S V key terms)"

text \<open>No randomness is drawn: the randomization is given.\<close>

definition getReceiveVaultParamsWithOwner ::
    "primitives \<Rightarrow> vault_env \<Rightarrow> user_keys \<Rightarrow> vault_terms \<Rightarrow> string \<Rightarrow> vault_params result" where
  "getReceiveVaultParamsWithOwner E V uk terms owner =
     rbind (snd (GetShieldedPrivateKey E uk)) (\<lambda>nk.
     rbind (FindCorrectRandomization E (ReceiveVaultRandomizationSeed E nk terms) nk) (\<lambda>randomization.
     rbind (GetSpendingKeyPair E uk) (\<lambda>pair.
     rbind (NewUtxo E (veNow V) (Err Panic)
              (no_params\<lparr>pAmount := Some 0, pErc20TokenAddress := ZeroAddress, pNullifyingKey := nk, pRandomization := Some randomization,
                 pSpendingPublicKey := Some [fst (PubSpendingBJJPoint pair), snd (PubSpendingBJJPoint pair)]\<rparr>)) (\<lambda>note1.
     case H0 note1 of
       None \<Rightarrow> Err (Errorf ''receive vault: H0 is not set'')
     | Some h0 \<Rightarrow>
         rbind (GetH1FromH0 E h0 nk) (\<lambda>h1.
         rbind (snd (GetStealthAddress E note1)) (\<lambda>stealthAddress.
         rbind (ParseBigInt stealthAddress) (\<lambda>stealthAddressBig.
         rbind (parseVersion (vtVersion terms)) (\<lambda>version.
         Ok \<lparr>vpRecipient = \<lparr>ssH0x = fst h0, ssH0y = snd h0, ssH1x = fst h1, ssH1y = snd h1, ssStealthAddress = stealthAddressBig\<rparr>,
             vpOwner = owner, vpVersion = version\<rparr>))))))))"

definition GetReceiveVaultParams :: "primitives \<Rightarrow> sealing \<Rightarrow> vault_env \<Rightarrow> user_keys \<Rightarrow> vault_terms \<Rightarrow> vault_params result" where
  "GetReceiveVaultParams E S V uk terms =
     rbind (GetAuxSpendKey E uk) (\<lambda>auxSpendKey.
     getReceiveVaultParamsWithOwner E V uk terms (vault_owner E S V auxSpendKey terms))"

definition GetLegacyReceiveVaultParams :: "primitives \<Rightarrow> sealing \<Rightarrow> vault_env \<Rightarrow> user_keys \<Rightarrow> vault_terms \<Rightarrow> vault_params result" where
  "GetLegacyReceiveVaultParams E S V uk terms =
     rbind (snd (GetShieldedPrivateKey E uk)) (\<lambda>nk.
     getReceiveVaultParamsWithOwner E V uk terms (vault_owner E S V nk terms))"

definition NormalizeAddress :: "primitives \<Rightarrow> int \<Rightarrow> string \<Rightarrow> string" where
  "NormalizeAddress E chainID address =
     (if IsSolanaLike chainID then address
      else if IsTronLike chainID then
        (case AddressToHexFormat E address of Inr h \<Rightarrow> ToLower h | Inl _ \<Rightarrow> ToLower address)
      else ToLower address)"

definition EqualAddress :: "primitives \<Rightarrow> int \<Rightarrow> string \<Rightarrow> string \<Rightarrow> bool" where
  "EqualAddress E chainID left right \<longleftrightarrow>
     left \<noteq> [] \<and> right \<noteq> [] \<and> NormalizeAddress E chainID left = NormalizeAddress E chainID right"

definition ResolveReceiveVaultParams ::
    "primitives \<Rightarrow> sealing \<Rightarrow> vault_env \<Rightarrow> user_keys \<Rightarrow> vault_record \<Rightarrow> int \<Rightarrow> (vault_params \<times> bool) result" where
  "ResolveReceiveVaultParams E S V uk r chainID =
     (let terms = TermsFromReceiveVaultRecord r in
      rbind (GetReceiveVaultParams E S V uk terms) (\<lambda>current.
      rbind (GetReceiveVaultAddress E S V current chainID) (\<lambda>currentAddress.
      if EqualAddress E chainID currentAddress (rvVaultAddress r) then Ok (current, False)
      else
        rbind (GetLegacyReceiveVaultParams E S V uk terms) (\<lambda>legacy.
        rbind (GetReceiveVaultAddress E S V legacy chainID) (\<lambda>legacyAddress.
        if EqualAddress E chainID legacyAddress (rvVaultAddress r) then Ok (legacy, True)
        else Err (Errorf ''receive vault: record does not match either key-derivation scheme''))))))"

definition BuildReceiveVaultRecord :: "primitives \<Rightarrow> sealing \<Rightarrow> vault_env \<Rightarrow> user_keys \<Rightarrow> vault_terms \<Rightarrow> vault_record result" where
  "BuildReceiveVaultRecord E S V uk terms =
     rbind (GetReceiveVaultParams E S V uk terms) (\<lambda>params.
     rbind (getReceiveVaultCanonicalChainID V (vtNetwork terms)) (\<lambda>canonicalChainID.
     rbind (GetReceiveVaultAddress E S V params canonicalChainID) (\<lambda>vaultAddress.
     Ok \<lparr>rvIndex = vtIndex terms, rvNetwork = vtNetwork terms, rvExpiry = vtExpiry terms, rvVersion = vtVersion terms,
         rvVaultAddress = vaultAddress\<rparr>)))"

definition GetReceiveVaultEncryptionKey :: "primitives \<Rightarrow> sealing \<Rightarrow> user_keys \<Rightarrow> string result" where
  "GetReceiveVaultEncryptionKey E S uk =
     rbind (snd (GetShieldedPrivateKey E uk)) (\<lambda>spk.
     rbind (GetEncryptionKeyPair E S spk) (\<lambda>(_, publicKey). Ok publicKey))"

definition SerializeReceiveVaultParams :: "vault_params \<Rightarrow> vault_params_json" where
  "SerializeReceiveVaultParams params =
     (let r = vpRecipient params in
      \<lparr>vjRecipient = \<lparr>sjH0x = int_String (ssH0x r), sjH0y = int_String (ssH0y r), sjH1x = int_String (ssH1x r), sjH1y = int_String (ssH1y r),
         sjStealthAddress = int_String (ssStealthAddress r)\<rparr>,
       vjOwner = vpOwner params, vjVersion = int_String (vpVersion params)\<rparr>)"

definition DeserializeReceiveVaultParams :: "vault_params_json \<Rightarrow> vault_params result" where
  "DeserializeReceiveVaultParams params =
     (let r = vjRecipient params in
      rbind (rmap ParseBigInt [sjH0x r, sjH0y r, sjH1x r, sjH1y r, sjStealthAddress r]) (\<lambda>parsed.
      rbind (parseVersion (vjVersion params)) (\<lambda>version.
      Ok \<lparr>vpRecipient = \<lparr>ssH0x = parsed ! 0, ssH0y = parsed ! 1, ssH1x = parsed ! 2, ssH1y = parsed ! 3, ssStealthAddress = parsed ! 4\<rparr>,
          vpOwner = vjOwner params, vpVersion = version\<rparr>)))"

definition GetReceiveVaultRecipientInfo :: "vault_params \<Rightarrow> string \<Rightarrow> string" where
  "GetReceiveVaultRecipientInfo params encryptionKey =
     (let r = vpRecipient params in
      ToBeHex (Some (ssStealthAddress r)) @ '','' @ int_String (ssH0x r) @ '','' @ int_String (ssH0y r) @ '','' @
      int_String (ssH1x r) @ '','' @ int_String (ssH1y r) @ '','' @ encryptionKey)"

definition ReceiveVaultSettleFeeAction :: "int \<Rightarrow> string \<Rightarrow> bool \<Rightarrow> string \<times> string option" where
  "ReceiveVaultSettleFeeAction chainID tokenAddress isDeployed =
     (if IsSolanaLike chainID then (''ReceiveVaultSettle'', Some tokenAddress)
      else if isDeployed then (''ReceiveVaultSettle'', None)
      else (''ReceiveVaultDeployAndSettle'', None))"

text \<open>The settle takes the flat fee only; on Solana the estimate names the minted token.\<close>

definition GetReceiveVaultSettleFeeStructure ::
    "'f float64 \<Rightarrow> token_server \<Rightarrow> (string option \<Rightarrow> 'f gas_server) \<Rightarrow> int \<Rightarrow> string \<Rightarrow> bool \<Rightarrow> fee_structure result" where
  "GetReceiveVaultSettleFeeStructure fl server gas chainID tokenAddress isDeployed =
     (case ReceiveVaultSettleFeeAction chainID tokenAddress isDeployed of (action, mintTo) \<Rightarrow>
        GetFeeStructure fl server (gas mintTo) chainID tokenAddress [tokenAddress] action [] (Some 0))"

section \<open>What is signed\<close>

definition address_bytes :: "primitives \<Rightarrow> string \<Rightarrow> byte list result" where
  "address_bytes E a = rbind (AddressToHexFormat E a) (\<lambda>h. Ok (hexToAddress E h))"

definition signPersonal :: "vault_env \<Rightarrow> byte list \<Rightarrow> byte list \<Rightarrow> string result" where
  "signPersonal V key digest =
     rbind (veSign V key (veTextHash V digest)) (\<lambda>sig.
     rbind (index_at sig 64) (\<lambda>v. Ok (''0x'' @ hex_EncodeToString (sig[64 := v + 27]))))"

definition GetReceiveVaultAccountKey :: "primitives \<Rightarrow> sealing \<Rightarrow> vault_env \<Rightarrow> string \<Rightarrow> string" where
  "GetReceiveVaultAccountKey E S V shieldedPrivateKey = addressHex S (veKeyAddress V (derivedKey E accountTag [shieldedPrivateKey]))"

definition getReceiveVaultAccountDigest :: "primitives \<Rightarrow> string \<Rightarrow> int \<Rightarrow> byte list" where
  "getReceiveVaultAccountDigest E accountKey deadline =
     keccak256 E (string_bytes accountScope @ hexToAddress E accountKey @ LeftPadBytes (big_Bytes deadline) 32)"

definition SignReceiveVaultAccount :: "primitives \<Rightarrow> sealing \<Rightarrow> vault_env \<Rightarrow> string \<Rightarrow> int \<Rightarrow> vault_account_proof result" where
  "SignReceiveVaultAccount E S V shieldedPrivateKey deadline =
     (let wallet = derivedKey E accountTag [shieldedPrivateKey]; accountKey = addressHex S (veKeyAddress V wallet) in
      rbind (signPersonal V wallet (getReceiveVaultAccountDigest E accountKey deadline)) (\<lambda>sig.
      Ok \<lparr>apAccountKey = accountKey, apDeadline = int_String deadline, apSignature = sig\<rparr>))"

definition output_preimage :: "primitives \<Rightarrow> int \<Rightarrow> byte list \<Rightarrow> byte list \<Rightarrow> byte list \<Rightarrow> byte list" where
  "output_preimage E chainID factory vault encryptedOutput =
     string_bytes outputScope @ LeftPadBytes (big_Bytes chainID) 32 @ factory @ vault @ keccak256 E encryptedOutput"

definition GetReceiveVaultOutputDigest :: "primitives \<Rightarrow> int \<Rightarrow> string \<Rightarrow> string \<Rightarrow> byte list \<Rightarrow> byte list result" where
  "GetReceiveVaultOutputDigest E chainID factoryAddress vault encryptedOutput =
     rbind (address_bytes E factoryAddress) (\<lambda>factory.
     rbind (address_bytes E vault) (\<lambda>v.
     Ok (keccak256 E (output_preimage E chainID factory v encryptedOutput))))"

definition recovery_preimage :: "int \<Rightarrow> byte list list \<Rightarrow> int \<Rightarrow> byte list" where
  "recovery_preimage chainID addresses deadline =
     string_bytes recoveryScope @ LeftPadBytes (big_Bytes chainID) 32 @ concat addresses @ LeftPadBytes (big_Bytes deadline) 32"

definition GetReceiveVaultRecoveryDigest ::
    "primitives \<Rightarrow> int \<Rightarrow> string \<Rightarrow> string \<Rightarrow> string \<Rightarrow> string \<Rightarrow> int \<Rightarrow> byte list result" where
  "GetReceiveVaultRecoveryDigest E chainID factoryAddress vault token to deadline =
     rbind (rmap (address_bytes E) [factoryAddress, vault, token, to]) (\<lambda>addresses.
     let messageHash = keccak256 E (recovery_preimage chainID addresses deadline) in
     Ok (if IsTronLike chainID then keccak256 E (string_bytes tronSignedPrefix @ messageHash) else messageHash))"

definition solana_keys :: "primitives \<Rightarrow> string list \<Rightarrow> byte list list result" where
  "solana_keys E addresses = rmap (\<lambda>a. rwrap ''receive vault: invalid solana address'' (publicKeyFromBase58 E a)) addresses"

definition GetSolanaReceiveVaultOutputDigest :: "primitives \<Rightarrow> string \<Rightarrow> string \<Rightarrow> string \<Rightarrow> byte list \<Rightarrow> byte list result" where
  "GetSolanaReceiveVaultOutputDigest E programID originalDeployer vault encryptedOutput =
     rbind (solana_keys E [programID, originalDeployer, vault]) (\<lambda>ks.
     Ok (sha256 E (string_bytes outputScope @ concat ks @ sha256 E encryptedOutput)))"

definition is_int64 :: "int \<Rightarrow> bool" where "is_int64 n \<longleftrightarrow> - (2 ^ 63) \<le> n \<and> n < 2 ^ 63"

definition solana_recovery_preimage :: "byte list list \<Rightarrow> int \<Rightarrow> byte list" where
  "solana_recovery_preimage ks deadline = string_bytes recoveryScope @ concat ks @ le_bytes 8 deadline"

definition GetSolanaReceiveVaultRecoveryDigest ::
    "primitives \<Rightarrow> string \<Rightarrow> string \<Rightarrow> string \<Rightarrow> string \<Rightarrow> string \<Rightarrow> int \<Rightarrow> byte list result" where
  "GetSolanaReceiveVaultRecoveryDigest E programID originalDeployer vault mint to deadline =
     (if deadline < 0 \<or> \<not> is_int64 deadline then Err (Errorf ''receive vault: invalid deadline'')
      else
        rbind (solana_keys E [programID, originalDeployer, vault, mint, to]) (\<lambda>ks.
        Ok (sha256 E (solana_recovery_preimage ks deadline))))"

definition SignSolanaReceiveVaultDigest :: "sealing \<Rightarrow> vault_env \<Rightarrow> byte list \<Rightarrow> byte list \<Rightarrow> string" where
  "SignSolanaReceiveVaultDigest S V owner digest = base58Encode S (veEdSign V owner digest)"

definition SignReceiveVaultOutput ::
    "primitives \<Rightarrow> sealing \<Rightarrow> vault_env \<Rightarrow> user_keys \<Rightarrow> vault_record \<Rightarrow> byte list \<Rightarrow> int \<Rightarrow> string result" where
  "SignReceiveVaultOutput E S V uk r encryptedOutput chainID =
     (let factoryAddress = GetReceiveVaultFactoryAddress V chainID; terms = TermsFromReceiveVaultRecord r in
      if factoryAddress = [] then Err errNoFactory
      else
        rbind (ResolveReceiveVaultParams E S V uk r chainID) (\<lambda>(_, isLegacy).
        rbind (receiveVaultOwnerKey E uk isLegacy) (\<lambda>ownerKey.
        if IsSolanaLike chainID then
          rbind (solanaOriginalDeployer V chainID) (\<lambda>originalDeployer.
          rbind (GetSolanaReceiveVaultOutputDigest E factoryAddress originalDeployer (rvVaultAddress r) encryptedOutput) (\<lambda>digest.
          Ok (SignSolanaReceiveVaultDigest S V (GetReceiveVaultSolanaOwner E ownerKey terms) digest)))
        else
          rbind (GetReceiveVaultOutputDigest E chainID factoryAddress (rvVaultAddress r) encryptedOutput) (\<lambda>digest.
          signPersonal V (GetReceiveVaultRecoveryWallet E ownerKey terms) digest))))"

definition SignReceiveVaultRecovery ::
    "primitives \<Rightarrow> sealing \<Rightarrow> vault_env \<Rightarrow> user_keys \<Rightarrow> vault_record \<Rightarrow> string \<Rightarrow> string \<Rightarrow> int \<Rightarrow> int \<Rightarrow> string result" where
  "SignReceiveVaultRecovery E S V uk r token to deadline chainID =
     (let factoryAddress = GetReceiveVaultFactoryAddress V chainID; terms = TermsFromReceiveVaultRecord r in
      if factoryAddress = [] then Err errNoFactory
      else
        rbind (ResolveReceiveVaultParams E S V uk r chainID) (\<lambda>(_, isLegacy).
        rbind (receiveVaultOwnerKey E uk isLegacy) (\<lambda>ownerKey.
        if IsSolanaLike chainID then
          rbind (solanaOriginalDeployer V chainID) (\<lambda>originalDeployer.
          rbind (GetSolanaReceiveVaultRecoveryDigest E factoryAddress originalDeployer (rvVaultAddress r) token to deadline) (\<lambda>digest.
          Ok (SignSolanaReceiveVaultDigest S V (GetReceiveVaultSolanaOwner E ownerKey terms) digest)))
        else
          rbind (GetReceiveVaultRecoveryDigest E chainID factoryAddress (rvVaultAddress r) token to deadline) (\<lambda>digest.
          let wallet = GetReceiveVaultRecoveryWallet E ownerKey terms in
          if IsTronLike chainID then
            rbind (veSign V wallet digest) (\<lambda>sig.
            rbind (index_at sig 64) (\<lambda>v. Ok (''0x'' @ hex_EncodeToString (sig[64 := v + 27]))))
          else signPersonal V wallet digest))))"

end
