(* ===== verification/VaultAccount.thy ===== *)
theory VaultAccount
  imports ReceiveVault
begin

text \<open>
  \<open>internal/functions/receivevault\<close>: the vaults of an account (\<open>account.go\<close>, with the calls of
  \<open>internal/functions/enclave/receive_vault.go\<close>) and the recovery of what sits in one (\<open>recover.go\<close>,
  \<open>recover_solana.go\<close>).
\<close>

section \<open>Services\<close>

text \<open>A token account that does not exist, or answers without a value, is None.\<close>

record vault_network = solana_network +
  vnMode :: string
  vnAccount :: "vault_account_proof \<Rightarrow> string \<Rightarrow> vault_account sent"
  vnNextIndex :: "vault_account_proof \<Rightarrow> string \<Rightarrow> int sent"
  vnRegister :: "register_vault_request \<Rightarrow> bool sent"
  vnCreator :: "int \<Rightarrow> string result"
  vnHeldTokens :: "int \<Rightarrow> string \<Rightarrow> string list result"
  vnChainTokens :: "int \<Rightarrow> solana_token list result"
  vnToken :: "int \<Rightarrow> string \<Rightarrow> solana_token option result"
  vnPublicBalance :: "int \<Rightarrow> string \<Rightarrow> string \<Rightarrow> int result"
  vnSolanaClient :: "int \<Rightarrow> unit result"
  vnLamports :: "byte list \<Rightarrow> 64 word result"
  vnTokenAmount :: "byte list \<Rightarrow> string option result"
  vnPackRecover :: "int \<Rightarrow> abi_value \<Rightarrow> byte list \<Rightarrow> byte list \<Rightarrow> int \<Rightarrow> byte list \<Rightarrow> byte list result"

section \<open>The enclave's registry\<close>

definition RegisterReceiveVault ::
    "vault_network \<Rightarrow> vault_record \<Rightarrow> vault_params_json \<Rightarrow> string \<Rightarrow> string \<Rightarrow> string \<Rightarrow> output_signature list \<Rightarrow> string \<Rightarrow>
     (message, bool) io" where
  "RegisterReceiveVault N r params encryptionKey accountKey encryptedOutput outputSignatures creatorAddress =
     (let request = \<lparr>rgVaultAddress = rvVaultAddress r, rgNetwork = rvNetwork r, rgIndex = rvIndex r,
        rgDeploymentMode = vnMode N, rgParams = params, rgEncryptionKey = encryptionKey, rgEncryptedOutput = encryptedOutput,
        rgOutputSignatures = outputSignatures, rgAccountKey = accountKey, rgCreatorAddress = creatorAddress\<rparr>
      in icall (RegisterVault request) (vnRegister N request))"

definition FetchReceiveVaultAccount :: "vault_network \<Rightarrow> vault_account_proof \<Rightarrow> (message, vault_account) io" where
  "FetchReceiveVaultAccount N pf = icall (FetchVaultAccount pf (vnMode N)) (vnAccount N pf (vnMode N))"

definition FetchReceiveVaultNextIndex :: "vault_network \<Rightarrow> vault_account_proof \<Rightarrow> string \<Rightarrow> (message, int) io" where
  "FetchReceiveVaultNextIndex N pf networkName = icall (FetchVaultNextIndex pf networkName) (vnNextIndex N pf networkName)"

section \<open>The vaults of an account\<close>

definition account_deadline :: "vault_env \<Rightarrow> int" where
  "account_deadline V = veNow V + ReceiveVaultSettleRequestTTLSeconds"

text \<open>A record counts only when its address is the one its own terms give.\<close>

definition record_verified :: "primitives \<Rightarrow> sealing \<Rightarrow> vault_env \<Rightarrow> user_keys \<Rightarrow> vault_record \<Rightarrow> bool" where
  "record_verified E S V uk r =
     (case getReceiveVaultCanonicalChainID V (rvNetwork r) of
        Inl _ \<Rightarrow> False
      | Inr chainID \<Rightarrow> (case ResolveReceiveVaultParams E S V uk r chainID of Inl _ \<Rightarrow> False | Inr _ \<Rightarrow> True))"

definition loadAccount ::
    "primitives \<Rightarrow> sealing \<Rightarrow> vault_env \<Rightarrow> vault_network \<Rightarrow> user_keys \<Rightarrow> string \<Rightarrow> (message, vault_account) io" where
  "loadAccount E S V N uk shieldedPrivateKey =
     ibind (ilift (SignReceiveVaultAccount E S V shieldedPrivateKey (account_deadline V))) (\<lambda>pf.
     ibind (FetchReceiveVaultAccount N pf) (\<lambda>account.
     ireturn (account\<lparr>vaRecords := filter (record_verified E S V uk) (vaRecords account)\<rparr>)))"

text \<open>Callers of \<open>fetchAccount\<close> that come while one is loading share its answer; alone it is \<open>loadAccount\<close>.\<close>

definition fetchAccount ::
    "primitives \<Rightarrow> sealing \<Rightarrow> vault_env \<Rightarrow> vault_network \<Rightarrow> user_keys \<Rightarrow> string \<Rightarrow> (message, vault_account) io" where
  "fetchAccount E S V N uk shieldedPrivateKey = loadAccount E S V N uk shieldedPrivateKey"

definition getNextIndex ::
    "primitives \<Rightarrow> sealing \<Rightarrow> vault_env \<Rightarrow> vault_network \<Rightarrow> user_keys \<Rightarrow> string \<Rightarrow> (message, int) io" where
  "getNextIndex E S V N uk networkName =
     ibind (ilift (snd (GetShieldedPrivateKey E uk))) (\<lambda>spk.
     ibind (ilift (SignReceiveVaultAccount E S V spk (account_deadline V))) (\<lambda>pf.
     FetchReceiveVaultNextIndex N pf networkName))"

text \<open>The newest by index. \<open>sort.Slice\<close> leaves the order of equal indexes open; here it is that of the list.\<close>

definition reusable :: "vault_env \<Rightarrow> string \<Rightarrow> vault_record \<Rightarrow> bool" where
  "reusable V networkName r =
     (rvNetwork r = networkName \<and> \<not> IsReceiveVaultExpired V (TermsFromReceiveVaultRecord r) 0)"

definition newestReusableRecord :: "vault_env \<Rightarrow> vault_record list \<Rightarrow> string \<Rightarrow> vault_record option" where
  "newestReusableRecord V records networkName =
     (case sort_key (\<lambda>r. - rvIndex r) (filter (reusable V networkName) records) of [] \<Rightarrow> None | r # _ \<Rightarrow> Some r)"

record vault_claim =
  vcUserKeys :: user_keys
  vcNetwork :: string
  vcEncryptionKey :: string
  vcAccountKey :: string
  vcCreatorAddress :: string

text \<open>The sealed note of the vault draws a content key and a nonce.\<close>

definition registerRecord ::
    "primitives \<Rightarrow> sealing \<Rightarrow> vault_env \<Rightarrow> vault_network \<Rightarrow> byte list result \<times> byte list result \<Rightarrow> vault_claim \<Rightarrow> vault_record \<Rightarrow>
     (message, bool) io" where
  "registerRecord E S V N draw claim r =
     ibind (ilift (GetReceiveVaultParams E S V (vcUserKeys claim) (TermsFromReceiveVaultRecord r))) (\<lambda>params.
     ibind (ilift (EncryptEncryptionKeyAndStealthAddress E S (fst draw) (snd draw) (vcEncryptionKey claim)
                     (Some (ssStealthAddress (vpRecipient params))))) (\<lambda>encryptedOutput.
     ibind (ilift (rmap (\<lambda>chainID.
                      rbind (SignReceiveVaultOutput E S V (vcUserKeys claim) r encryptedOutput chainID) (\<lambda>sig.
                      Ok \<lparr>osChainID = chainID, osSignature = sig\<rparr>)) (ReceiveVaultChainsForNetwork V (rvNetwork r)))) (\<lambda>sigs.
     RegisterReceiveVault N r (SerializeReceiveVaultParams params) (vcEncryptionKey claim) (vcAccountKey claim)
       (''0x'' @ hex_EncodeToString encryptedOutput) sigs (vcCreatorAddress claim))))"

definition claimFreshAddress ::
    "primitives \<Rightarrow> sealing \<Rightarrow> vault_env \<Rightarrow> vault_network \<Rightarrow> byte list result \<times> byte list result \<Rightarrow> vault_claim \<Rightarrow> (message, vault_record) io" where
  "claimFreshAddress E S V N draw claim =
     ibind (ilift (GetReceiveVaultCurrentVersion V (vcNetwork claim))) (\<lambda>version.
     ibind (getNextIndex E S V N (vcUserKeys claim) (vcNetwork claim)) (\<lambda>nextIndex.
     ibind (ilift (BuildReceiveVaultRecord E S V (vcUserKeys claim)
                     \<lparr>vtIndex = nextIndex, vtNetwork = vcNetwork claim, vtExpiry = int_String (GetReceiveVaultExpiry V),
                      vtVersion = int_String version\<rparr>)) (\<lambda>claimed.
     ibind (registerRecord E S V N draw claim claimed) (\<lambda>_.
     ireturn claimed))))"

definition HinkalCreateReceiveAddress ::
    "primitives \<Rightarrow> sealing \<Rightarrow> vault_env \<Rightarrow> vault_network \<Rightarrow> byte list result \<times> byte list result \<Rightarrow> user_keys \<Rightarrow> int \<Rightarrow> bool \<Rightarrow>
     (message, vault_record) io" where
  "HinkalCreateReceiveAddress E S V N draw uk chainID forceFresh =
     (if \<not> IsReceiveVaultSupported V chainID then ifail errNoFactory
      else
        ibind (ilift (snd (GetShieldedPrivateKey E uk))) (\<lambda>spk.
        ibind (ilift (GetReceiveVaultEncryptionKey E S uk)) (\<lambda>encryptionKey.
        let claim = \<lparr>vcUserKeys = uk, vcNetwork = ReceiveVaultNetworkOf chainID, vcEncryptionKey = encryptionKey,
              vcAccountKey = GetReceiveVaultAccountKey E S V spk,
              vcCreatorAddress = (case vnCreator N chainID of Inl _ \<Rightarrow> [] | Inr a \<Rightarrow> a)\<rparr> in
        if forceFresh then claimFreshAddress E S V N draw claim
        else
          ibind (fetchAccount E S V N uk spk) (\<lambda>account.
          case newestReusableRecord V (vaRecords account) (vcNetwork claim) of
            Some r \<Rightarrow> ireturn r
          | None \<Rightarrow> claimFreshAddress E S V N draw claim))))"

section \<open>What a vault still holds\<close>

definition solanaVaultBalance :: "primitives \<Rightarrow> vault_network \<Rightarrow> string \<Rightarrow> int \<Rightarrow> solana_token \<Rightarrow> int result" where
  "solanaVaultBalance E N vaultAddress chainID token =
     rbind (vnSolanaClient N chainID) (\<lambda>_.
     rbind (publicKeyFromBase58 E vaultAddress) (\<lambda>vault.
     if TokenAddress token = SolanaNativeAddress then rbind (vnLamports N vault) (\<lambda>v. Ok (uint v))
     else
       rbind (publicKeyFromBase58 E (TokenAddress token)) (\<lambda>mint.
       rbind (slTokenAccount N vault mint (if Is2022Program token then slToken2022Program N else slTokenProgram N)) (\<lambda>ata.
       rbind (vnTokenAmount N ata) (\<lambda>answer.
       case answer of
         None \<Rightarrow> Ok 0
       | Some text \<Rightarrow> (case SetString text 10 of
                         Some amount \<Rightarrow> Ok amount
                       | None \<Rightarrow> Err (Errorf ''receive vault: invalid Solana token balance'')))))))"

definition vaultBalance :: "primitives \<Rightarrow> vault_network \<Rightarrow> string \<Rightarrow> int \<Rightarrow> solana_token \<Rightarrow> int result" where
  "vaultBalance E N vaultAddress chainID token =
     (if IsSolanaLike chainID then solanaVaultBalance E N vaultAddress chainID token
      else
        rbind (AddressToHexFormat E vaultAddress) (\<lambda>vaultHex.
        rbind (AddressToHexFormat E (TokenAddress token)) (\<lambda>tokenHex.
        vnPublicBalance N chainID tokenHex vaultHex)))"

definition BlockExpired :: string where "BlockExpired = ''expired''"
definition BlockNotShieldable :: string where "BlockNotShieldable = ''notShieldable''"
definition BlockRiskySender :: string where "BlockRiskySender = ''riskySender''"

record holding =
  uhRecord :: vault_record
  uhChainID :: int
  uhToken :: string
  uhReason :: string

definition findRecordByVault :: "primitives \<Rightarrow> vault_record list \<Rightarrow> string \<Rightarrow> int \<Rightarrow> vault_record option" where
  "findRecordByVault E records vaultAddress chainID = find (\<lambda>r. EqualAddress E chainID (rvVaultAddress r) vaultAddress) records"

definition holding_key :: "primitives \<Rightarrow> holding \<Rightarrow> string" where
  "holding_key E h =
     int_String (uhChainID h) @ '':'' @ NormalizeAddress E (uhChainID h) (rvVaultAddress (uhRecord h)) @ '':'' @
     NormalizeAddress E (uhChainID h) (uhToken h)"

text \<open>The keys seen are those of the holdings so far.\<close>

definition add_holding :: "primitives \<Rightarrow> holding list \<Rightarrow> holding \<Rightarrow> holding list" where
  "add_holding E hs h = (if holding_key E h \<in> holding_key E ` set hs then hs else hs @ [h])"

definition block_holdings :: "primitives \<Rightarrow> vault_record list \<Rightarrow> vault_block list \<Rightarrow> holding list" where
  "block_holdings E records blocks =
     concat (map (\<lambda>b. case findRecordByVault E records (vbVaultAddress b) (vbChainID b) of
                        None \<Rightarrow> []
                      | Some r \<Rightarrow> [\<lparr>uhRecord = r, uhChainID = vbChainID b, uhToken = vbToken b, uhReason = BlockRiskySender\<rparr>]) blocks)"

definition shieldable_on :: "primitives \<Rightarrow> int \<Rightarrow> solana_token list \<Rightarrow> string \<Rightarrow> bool" where
  "shieldable_on E chainID tokens heldToken =
     list_ex (\<lambda>token. EqualAddress E chainID (TokenAddress token) heldToken \<and> \<not> Is2022Program token) tokens"

definition chain_holdings :: "primitives \<Rightarrow> vault_env \<Rightarrow> vault_network \<Rightarrow> vault_record \<Rightarrow> int \<Rightarrow> holding list" where
  "chain_holdings E V N r chainID =
     (case vnHeldTokens N chainID (rvVaultAddress r) of
        Inl _ \<Rightarrow> []
      | Inr heldTokens \<Rightarrow>
          if IsReceiveVaultExpired V (TermsFromReceiveVaultRecord r) 0 then
            map (\<lambda>t. \<lparr>uhRecord = r, uhChainID = chainID, uhToken = t, uhReason = BlockExpired\<rparr>) heldTokens
          else
            (case vnChainTokens N chainID of
               Inl _ \<Rightarrow> []
             | Inr tokens \<Rightarrow>
                 map (\<lambda>t. \<lparr>uhRecord = r, uhChainID = chainID, uhToken = t, uhReason = BlockNotShieldable\<rparr>)
                   (filter (\<lambda>t. \<not> shieldable_on E chainID tokens t) heldTokens)))"

definition record_holdings :: "primitives \<Rightarrow> vault_env \<Rightarrow> vault_network \<Rightarrow> vault_record \<Rightarrow> holding list" where
  "record_holdings E V N r = concat (map (chain_holdings E V N r) (ReceiveVaultChainsForNetwork V (rvNetwork r)))"

definition scanTargets :: "primitives \<Rightarrow> vault_env \<Rightarrow> vault_network \<Rightarrow> vault_record list \<Rightarrow> vault_block list \<Rightarrow> holding list" where
  "scanTargets E V N records blocks =
     foldl (add_holding E) [] (block_holdings E records blocks @ concat (map (record_holdings E V N) records))"

record blocked_fund =
  bfRecord :: vault_record
  bfToken :: solana_token
  bfAmount :: int
  bfReason :: string

definition blocked_fund_of :: "primitives \<Rightarrow> vault_network \<Rightarrow> holding \<Rightarrow> blocked_fund list" where
  "blocked_fund_of E N h =
     (case vnToken N (uhChainID h) (uhToken h) of
        Inr (Some token) \<Rightarrow>
          (case vaultBalance E N (rvVaultAddress (uhRecord h)) (uhChainID h) token of
             Inr amount \<Rightarrow>
               if amount \<le> 0 then []
               else [\<lparr>bfRecord = uhRecord h, bfToken = token, bfAmount = amount, bfReason = uhReason h\<rparr>]
           | Inl _ \<Rightarrow> [])
      | _ \<Rightarrow> [])"

definition HinkalGetReceiveVaultAccount ::
    "primitives \<Rightarrow> sealing \<Rightarrow> vault_env \<Rightarrow> vault_network \<Rightarrow> user_keys \<Rightarrow> (message, vault_record list \<times> blocked_fund list) io" where
  "HinkalGetReceiveVaultAccount E S V N uk =
     ibind (ilift (snd (GetShieldedPrivateKey E uk))) (\<lambda>spk.
     ibind (fetchAccount E S V N uk spk) (\<lambda>account.
     ireturn (sort_key (\<lambda>r. - rvIndex r) (vaRecords account),
              concat (map (blocked_fund_of E N) (scanTargets E V N (vaRecords account) (vaBlocks account))))))"

section \<open>Recovery on Solana\<close>

definition receiveVaultRecoveryMarkerSeed :: "byte list" where
  "receiveVaultRecoveryMarkerSeed = string_bytes ''hinkal_receive_recovery''"
definition receiveVaultRecoverDiscriminator :: "byte list" where
  "receiveVaultRecoverDiscriminator = [176, 251, 103, 198, 212, 208, 196, 90]"

definition must :: "'a result \<Rightarrow> 'a result" where
  "must r = (case r of Inl _ \<Rightarrow> Err Panic | Inr x \<Rightarrow> Ok x)"

text \<open>The header gives the offset of the signature (48), of the key (16) and of the message (112), each in this
  instruction, and the length of the message.\<close>

definition ed25519_header :: "nat \<Rightarrow> byte list" where
  "ed25519_header digestLength =
     [1, 0] @ le_bytes 2 48 @ le_bytes 2 0xFFFF @ le_bytes 2 16 @ le_bytes 2 0xFFFF @ le_bytes 2 112 @
     le_bytes 2 (int digestLength) @ le_bytes 2 0xFFFF"

definition encodeEd25519Instruction :: "primitives \<Rightarrow> byte list \<Rightarrow> byte list \<Rightarrow> byte list \<Rightarrow> string \<Rightarrow> solana_ix result" where
  "encodeEd25519Instruction E program owner digest sig =
     (if length digest \<noteq> 32 then Err (Errorf ''receive vault: recovery digest must be 32 bytes'')
      else
        (case base58Decode E sig of
           Inl _ \<Rightarrow> Err (Errorf ''receive vault: invalid recovery signature'')
         | Inr sigBytes \<Rightarrow>
             if length sigBytes \<noteq> 64 then Err (Errorf ''receive vault: invalid recovery signature'')
             else Ok \<lparr>ixProgram = program, ixAccounts = [],
                    ixData = ed25519_header (length digest) @ owner @ sigBytes @ digest\<rparr>))"

definition encodeSolanaReceiveVaultRecoverData ::
    "primitives \<Rightarrow> vault_params \<Rightarrow> byte list \<Rightarrow> int \<Rightarrow> byte list \<Rightarrow> byte list result" where
  "encodeSolanaReceiveVaultRecoverData E params to deadline digest =
     (if deadline < 0 \<or> \<not> is_int64 deadline then Err (Errorf ''receive vault: invalid deadline'')
      else if length digest \<noteq> 32 then Err (Errorf ''receive vault: recovery digest must be 32 bytes'')
      else
        rbind (rwrap ''receive vault: invalid solana owner'' (publicKeyFromBase58 E (vpOwner params))) (\<lambda>owner.
        rbind (solanaVersionByte (vpVersion params)) (\<lambda>version.
        rbind (recipient_fields params) (\<lambda>fields.
        Ok (receiveVaultRecoverDiscriminator @ fields @ owner @ [version] @ to @ le_bytes 8 deadline @ digest)))))"

definition accountMeta :: "byte list \<Rightarrow> bool \<Rightarrow> bool \<Rightarrow> account_meta" where
  "accountMeta key writable signer = \<lparr>PublicKey = key, IsWritable = writable, IsSigner = signer\<rparr>"

definition buildSolanaReceiveVaultRecoverInstructions ::
    "primitives \<Rightarrow> sealing \<Rightarrow> vault_env \<Rightarrow> solana_network \<Rightarrow> vault_params \<Rightarrow> string \<Rightarrow> string \<Rightarrow> int \<Rightarrow> string \<Rightarrow>
     byte list \<Rightarrow> byte list \<Rightarrow> byte list \<Rightarrow> byte list \<Rightarrow> solana_ix list result" where
  "buildSolanaReceiveVaultRecoverInstructions E S V N params token to deadline sig programID originalDeployer feePayer tokenProgram =
     (if tokenProgram \<noteq> slTokenProgram N \<and> tokenProgram \<noteq> slToken2022Program N
      then Err (Errorf ''receive vault: unsupported token program'')
      else if token = SolanaNativeAddress \<and> tokenProgram \<noteq> slTokenProgram N
      then Err (Errorf ''receive vault: unsupported token program'')
      else
        let program = base58Encode S programID; deployer = base58Encode S originalDeployer in
        rbind (ComputeSolanaReceiveVaultAddress E S V params program deployer) (\<lambda>vaultAddress.
        rbind (must (publicKeyFromBase58 E vaultAddress)) (\<lambda>vault.
        rbind (rwrap ''receive vault: invalid solana mint'' (publicKeyFromBase58 E token)) (\<lambda>mint.
        rbind (rwrap ''receive vault: invalid solana recipient'' (publicKeyFromBase58 E to)) (\<lambda>destination.
        rbind (GetSolanaReceiveVaultRecoveryDigest E program deployer vaultAddress token to deadline) (\<lambda>digest.
        rbind (rwrap ''receive vault: unable to derive recovery marker''
                 (veProgramAddress V [receiveVaultRecoveryMarkerSeed, originalDeployer, digest] programID)) (\<lambda>marker.
        rbind (must (publicKeyFromBase58 E (vpOwner params))) (\<lambda>owner.
        rbind (encodeEd25519Instruction E (slEd25519Program N) owner digest sig) (\<lambda>verifyInstruction.
        rbind (encodeSolanaReceiveVaultRecoverData E params destination deadline digest) (\<lambda>recoverData.
        rbind (if token = SolanaNativeAddress
               then Ok (accountMeta programID False False, accountMeta programID False False, accountMeta programID False False)
               else
                 rbind (slTokenAccount N vault mint tokenProgram) (\<lambda>vaultAta.
                 rbind (slTokenAccount N destination mint tokenProgram) (\<lambda>destinationAta.
                 Ok (accountMeta vaultAta True False, accountMeta mint False False, accountMeta destinationAta True False))))
          (\<lambda>(vaultAta, mintMeta, destinationAta).
        Ok [verifyInstruction,
            \<lparr>ixProgram = programID,
             ixAccounts = [accountMeta feePayer True True, accountMeta originalDeployer False False, accountMeta vault True False,
               vaultAta, mintMeta, accountMeta destination True False, destinationAta, accountMeta marker True False,
               accountMeta (slInstructionsSysvar N) False False, accountMeta tokenProgram False False,
               accountMeta (slTokenAccountProgram N) False False, accountMeta (slSystemProgram N) False False],
             ixData = recoverData\<rparr>])))))))))))"

definition resolveSolanaTokenProgram :: "primitives \<Rightarrow> solana_network \<Rightarrow> string \<Rightarrow> byte list result" where
  "resolveSolanaTokenProgram E N token =
     (if token = SolanaNativeAddress then Ok (slTokenProgram N)
      else
        rbind (rwrap ''receive vault: invalid solana mint'' (publicKeyFromBase58 E token)) (\<lambda>mint.
        rbind (slOwner N mint) (\<lambda>owner.
        case owner of
          None \<Rightarrow> Err (Errorf ''receive vault: unsupported token program'')
        | Some p \<Rightarrow> if p \<noteq> slTokenProgram N \<and> p \<noteq> slToken2022Program N
                    then Err (Errorf ''receive vault: unsupported token program'') else Ok p)))"

definition recoverSolanaReceiveVault ::
    "primitives \<Rightarrow> sealing \<Rightarrow> vault_env \<Rightarrow> solana_network \<Rightarrow> nat \<Rightarrow> vault_params \<Rightarrow> string \<Rightarrow> string \<Rightarrow> int \<Rightarrow> string \<Rightarrow> string \<Rightarrow> string \<Rightarrow>
     bool \<Rightarrow> (message, string) io" where
  "recoverSolanaReceiveVault E S V N polls params token to deadline sig programAddress originalDeployerAddress returnTxData =
     ibind (ilift (
       rbind (rwrap ''receive vault: invalid solana program id'' (publicKeyFromBase58 E programAddress)) (\<lambda>programID.
       rbind (rwrap ''receive vault: invalid solana original deployer'' (publicKeyFromBase58 E originalDeployerAddress)) (\<lambda>deployer.
       rbind (slPublicKey N) (\<lambda>feePayer.
       rbind (slConnection N) (\<lambda>_.
       rbind (resolveSolanaTokenProgram E N token) (\<lambda>tokenProgram.
       rbind (buildSolanaReceiveVaultRecoverInstructions E S V N params token to deadline sig programID deployer feePayer tokenProgram)
         (\<lambda>instructions. Ok (programID, feePayer, instructions))))))))) (\<lambda>(programID, feePayer, instructions).
     if returnTxData then
       ibind (icall GetLatestBlockhash (slBlockhash N)) (\<lambda>(blockhash, _).
       ilift (rbind (NewV1Transaction N feePayer instructions blockhash) (\<lambda>tx.
              slSerialize N (xtPayer tx) (xtInstructions tx) (xtBlockhash tx) (xtUnits tx))))
     else
       ibind (ilift (slProgram N programID)) (\<lambda>_.
       SignAndConfirm N (NewV1Transaction N feePayer instructions) polls))"

section \<open>Recovery\<close>

definition packRecover ::
    "primitives \<Rightarrow> vault_network \<Rightarrow> int \<Rightarrow> vault_params \<Rightarrow> string \<Rightarrow> string \<Rightarrow> int \<Rightarrow> string \<Rightarrow> byte list result" where
  "packRecover E N chainID params token to deadline sig =
     rbind (vault_tuple E params) (\<lambda>tuple.
     rbind (AddressToHexFormat E token) (\<lambda>tokenHex.
     rbind (AddressToHexFormat E to) (\<lambda>toHex.
     vnPackRecover N chainID tuple (hexToAddress E tokenHex) (hexToAddress E toHex) deadline (fromHex E sig))))"

definition sendTronRecover :: "primitives \<Rightarrow> sealing \<Rightarrow> network \<Rightarrow> string \<Rightarrow> byte list \<Rightarrow> (message, string) io" where
  "sendTronRecover E S N factoryAddress callData =
     ibind (ilift (nTronWeb N)) (\<lambda>_.
     ibind (ilift (ToTronBase58IfHex E S factoryAddress)) (\<lambda>factoryBase58.
     ibind (iwrap ''tron build receive vault recover''
              (TriggerSmartContract N (nTronAddress N) factoryBase58 callData 0 (word_of_int TronDefaultFeeLimitSun))) (\<lambda>tx.
     SignAndBroadcast E N tx)))"

text \<open>The request is absent where the code returns the zero value. A chain of 0 stands for the network's own.\<close>

definition HinkalReceiveVaultRecover ::
    "primitives \<Rightarrow> sealing \<Rightarrow> vault_env \<Rightarrow> vault_network \<Rightarrow> nat \<Rightarrow> user_keys \<Rightarrow> vault_record \<Rightarrow> string \<Rightarrow> string \<Rightarrow> bool \<Rightarrow> int \<Rightarrow>
     (message, tx_request option \<times> string) io" where
  "HinkalReceiveVaultRecover E S V N polls uk r token to returnTxData chain0 =
     ibind (ilift (if chain0 = 0 then getReceiveVaultCanonicalChainID V (rvNetwork r) else Ok chain0)) (\<lambda>chainID.
     let factoryAddress = GetReceiveVaultFactoryAddress V chainID; deadline = veNow V + ReceiveVaultRecoveryTTLSeconds in
     if factoryAddress = [] then ifail errNoFactory
     else if rvNetwork r \<noteq> ReceiveVaultNetworkOf chainID then ifail (Errorf ''receive vault: network mismatch'')
     else
       ibind (ilift (ResolveReceiveVaultParams E S V uk r chainID)) (\<lambda>(params, _).
       ibind (ilift (SignReceiveVaultRecovery E S V uk r token to deadline chainID)) (\<lambda>sig.
       if IsSolanaLike chainID then
         ibind (ilift (solanaOriginalDeployer V chainID)) (\<lambda>originalDeployer.
         ibind (recoverSolanaReceiveVault E S V (solana_network.truncate N) polls params token to deadline sig factoryAddress
                  originalDeployer returnTxData) (\<lambda>result.
         ireturn (None, result)))
       else
         ibind (ilift (packRecover E N chainID params token to deadline sig)) (\<lambda>callData.
         if IsTronLike chainID then
           (if returnTxData then ifail (Errorf ''receivevault: Tron returnTxData is not implemented'')
            else
              ibind (sendTronRecover E S (network.truncate N) factoryAddress callData) (\<lambda>txHash. ireturn (None, txHash)))
         else
           let txReq = call_request factoryAddress callData in
           if returnTxData then ireturn (Some txReq, [])
           else
             ibind (ilift (nProviderAdapter N chainID)) (\<lambda>_.
             ibind (SendTx (network.truncate N) txReq) (\<lambda>hash. ireturn (Some txReq, hash)))))))"

end
