(* ===== verification/ReceiveVaultCorrect.thy ===== *)
theory ReceiveVaultCorrect
  imports VaultAccount TransactCorrect
begin

text \<open>
  What the receive vaults promise: an address can be found again from its terms, an address handed out is one the
  enclave watches, what the owner signs names one chain, vault, token and recipient, and a recovery is signed by
  the key the vault's address commits to.
\<close>

section \<open>Addresses from terms\<close>

lemma EqualAddress_refl: "a \<noteq> [] \<Longrightarrow> EqualAddress E chainID a a"
  by (simp add: EqualAddress_def)

lemma BuildReceiveVaultRecord_Ok:
  "BuildReceiveVaultRecord E S V uk terms = Ok r \<longleftrightarrow>
   (\<exists>params chainID. GetReceiveVaultParams E S V uk terms = Ok params \<and>
      getReceiveVaultCanonicalChainID V (vtNetwork terms) = Ok chainID \<and>
      GetReceiveVaultAddress E S V params chainID = Ok (rvVaultAddress r) \<and> TermsFromReceiveVaultRecord r = terms)"
  by (cases r) (auto simp: BuildReceiveVaultRecord_def TermsFromReceiveVaultRecord_def rbind_Ok_iff)

lemma ResolveReceiveVaultParams_Ok:
  assumes "ResolveReceiveVaultParams E S V uk r chainID = Ok (params, legacy)"
  obtains key a where "receiveVaultOwnerKey E uk legacy = Ok key"
    "getReceiveVaultParamsWithOwner E V uk (TermsFromReceiveVaultRecord r) (vault_owner E S V key (TermsFromReceiveVaultRecord r)) = Ok params"
    "GetReceiveVaultAddress E S V params chainID = Ok a" "EqualAddress E chainID a (rvVaultAddress r)"
  using assms
  by (auto simp: ResolveReceiveVaultParams_def GetReceiveVaultParams_def GetLegacyReceiveVaultParams_def receiveVaultOwnerKey_def
      Let_def rbind_Ok_iff split: if_splits)

lemma params_with_owner:
  assumes "getReceiveVaultParamsWithOwner E V uk terms owner = Ok params"
  shows "vpOwner params = owner" "parseVersion (vtVersion terms) = Ok (vpVersion params)"
  using assms by (auto simp: getReceiveVaultParamsWithOwner_def rbind_Ok_iff split: option.splits)

lemma canonical_in_network:
  "getReceiveVaultCanonicalChainID V n = Ok c \<Longrightarrow> c \<in> set (ReceiveVaultChainsForNetwork V n)"
  by (auto simp: getReceiveVaultCanonicalChainID_def split: list.splits)

lemma chains_of_network:
  "c \<in> set (ReceiveVaultChainsForNetwork V n) \<longleftrightarrow> c \<in> set HinkalSupportedChains \<and> IsReceiveVaultSupported V c \<and> ReceiveVaultNetworkOf c = n"
  by (auto simp: ReceiveVaultChainsForNetwork_def)

text \<open>C31. An address can be found again from its terms: the record built from terms carries those terms, and on the
  network's canonical chain it resolves to the very parameters the terms give, as a current vault and not as one
  of the old scheme.\<close>

theorem built_record_resolves:
  assumes "BuildReceiveVaultRecord E S V uk terms = Ok r" "getReceiveVaultCanonicalChainID V (vtNetwork terms) = Ok chainID"
    and "rvVaultAddress r \<noteq> []"
  shows "TermsFromReceiveVaultRecord r = terms \<and> record_verified E S V uk r \<and>
    (\<exists>params. GetReceiveVaultParams E S V uk terms = Ok params \<and> ResolveReceiveVaultParams E S V uk r chainID = Ok (params, False))"
proof -
  obtain params where p: "GetReceiveVaultParams E S V uk terms = Ok params"
    "GetReceiveVaultAddress E S V params chainID = Ok (rvVaultAddress r)" "TermsFromReceiveVaultRecord r = terms"
    using assms(1,2) by (auto simp: BuildReceiveVaultRecord_Ok)
  then have "ResolveReceiveVaultParams E S V uk r chainID = Ok (params, False)"
    using EqualAddress_refl [OF assms(3)] by (simp add: ResolveReceiveVaultParams_def Let_def)
  moreover from this have "record_verified E S V uk r"
    using assms(2) p(3) by (auto simp: record_verified_def TermsFromReceiveVaultRecord_def)
  ultimately show ?thesis using p by blast
qed

section \<open>Signatures\<close>

text \<open>The raw signature behind a hexadecimal one: the recovery id is raised by 27.\<close>

definition hex_signature :: "byte list \<Rightarrow> string" where
  "hex_signature raw = ''0x'' @ hex_EncodeToString (raw[64 := raw ! 64 + 27])"

text \<open>What the owner of \<open>params\<close> signs to recover a token from a vault.\<close>

definition owner_recovery ::
    "primitives \<Rightarrow> sealing \<Rightarrow> vault_env \<Rightarrow> user_keys \<Rightarrow> vault_record \<Rightarrow> vault_params \<Rightarrow> string \<Rightarrow> string \<Rightarrow> int \<Rightarrow> int \<Rightarrow> string \<Rightarrow> bool" where
  "owner_recovery E S V uk r params token to deadline chainID sig \<longleftrightarrow>
     (\<exists>legacy key digest raw.
        ResolveReceiveVaultParams E S V uk r chainID = Ok (params, legacy) \<and> receiveVaultOwnerKey E uk legacy = Ok key \<and>
        vpOwner params = GetReceiveVaultRecoveryAddress E S V key (TermsFromReceiveVaultRecord r) \<and>
        GetReceiveVaultRecoveryDigest E chainID (GetReceiveVaultFactoryAddress V chainID) (rvVaultAddress r) token to deadline = Ok digest \<and>
        veSign V (GetReceiveVaultRecoveryWallet E key (TermsFromReceiveVaultRecord r))
          (if IsTronLike chainID then digest else veTextHash V digest) = Ok raw \<and>
        length raw > 64 \<and> sig = hex_signature raw)"

lemma recovery_signed:
  assumes "SignReceiveVaultRecovery E S V uk r token to deadline chainID = Ok sig" "\<not> IsSolanaLike chainID"
    and "rvNetwork r = ReceiveVaultNetworkOf chainID" "ResolveReceiveVaultParams E S V uk r chainID = Ok (params, legacy)"
  shows "owner_recovery E S V uk r params token to deadline chainID sig"
proof -
  have net: "vtNetwork (TermsFromReceiveVaultRecord r) \<noteq> NetworkSolana"
    using assms(2,3) by (auto simp: TermsFromReceiveVaultRecord_def ReceiveVaultNetworkOf_def NetworkSolana_def NetworkTron_def NetworkEvm_def)
  obtain key a where key: "receiveVaultOwnerKey E uk legacy = Ok key"
    "getReceiveVaultParamsWithOwner E V uk (TermsFromReceiveVaultRecord r) (vault_owner E S V key (TermsFromReceiveVaultRecord r)) = Ok params"
    by (rule ResolveReceiveVaultParams_Ok [OF assms(4)])
  have owner: "vpOwner params = GetReceiveVaultRecoveryAddress E S V key (TermsFromReceiveVaultRecord r)"
    using params_with_owner(1) [OF key(2)] net by (simp add: vault_owner_def)
  show ?thesis
    using assms key owner
    by (auto simp: owner_recovery_def SignReceiveVaultRecovery_def signPersonal_def hex_signature_def Let_def rbind_Ok_iff split: if_splits)
qed

section \<open>Recovery\<close>

text \<open>The message that recovers: it carries the owner's signature over the record's vault, the token and the
  recipient, to the factory.\<close>

definition recovers ::
    "primitives \<Rightarrow> sealing \<Rightarrow> vault_env \<Rightarrow> vault_network \<Rightarrow> user_keys \<Rightarrow> vault_record \<Rightarrow> string \<Rightarrow> string \<Rightarrow> int \<Rightarrow> message \<Rightarrow> bool" where
  "recovers E S V N uk r token to chainID m \<longleftrightarrow>
     (\<exists>params sig data. owner_recovery E S V uk r params token to (veNow V + ReceiveVaultRecoveryTTLSeconds) chainID sig \<and>
        packRecover E N chainID params token to (veNow V + ReceiveVaultRecoveryTTLSeconds) sig = Ok data \<and>
        (m = SendTransaction (call_request (GetReceiveVaultFactoryAddress V chainID) data) \<or>
         (\<exists>call tx signed. m = BroadcastTransaction (tx\<lparr>ttSignature := signed\<rparr>) \<and> tcData call = data \<and> nTxCheck N tx call = Ok () \<and>
            ToTronBase58IfHex E S (GetReceiveVaultFactoryAddress V chainID) = Ok (tcContract call))))"

lemma recovers_sent:
  "owner_recovery E S V uk r params token to (veNow V + ReceiveVaultRecoveryTTLSeconds) chainID sig \<Longrightarrow>
   packRecover E N chainID params token to (veNow V + ReceiveVaultRecoveryTTLSeconds) sig = Ok data \<Longrightarrow>
   recovers E S V N uk r token to chainID (SendTransaction (call_request (GetReceiveVaultFactoryAddress V chainID) data))"
  unfolding recovers_def by blast

lemma recovers_broadcast:
  "owner_recovery E S V uk r params token to (veNow V + ReceiveVaultRecoveryTTLSeconds) chainID sig \<Longrightarrow>
   packRecover E N chainID params token to (veNow V + ReceiveVaultRecoveryTTLSeconds) sig = Ok (tcData call) \<Longrightarrow>
   nTxCheck N tx call = Ok () \<Longrightarrow> ToTronBase58IfHex E S (GetReceiveVaultFactoryAddress V chainID) = Ok (tcContract call) \<Longrightarrow>
   recovers E S V N uk r token to chainID (BroadcastTransaction (tx\<lparr>ttSignature := sg\<rparr>))"
  unfolding recovers_def by blast

lemma TriggerSmartContract_performs:
  "performs (TriggerSmartContract N owner contract data v limit)
     (\<lambda>ms res. executing ms = [] \<and>
        (case res of Inl _ \<Rightarrow> True | Inr tx \<Rightarrow> \<exists>call. tcData call = data \<and> tcContract call = contract \<and> nTxCheck N tx call = Ok ()))"
  unfolding TriggerSmartContract_def Let_def
  by (rule performs_bind [OF performs_wrap [OF performs_call [where P = "\<lambda>ms r. executing ms = []"]]])
    (auto simp: rbind_Ok_iff split: sum.splits, metis tron_call.select_convs(2,3))

lemma SignAndBroadcast_performs:
  "performs (SignAndBroadcast E N tx)
     (\<lambda>ms res. (executing ms = [] \<and> (\<exists>e. res = Err e)) \<or> (\<exists>signed. executing ms = [BroadcastTransaction (tx\<lparr>ttSignature := signed\<rparr>)]))"
  unfolding SignAndBroadcast_def Let_def
  by (intro performs_lift_bind performs_bind [OF performs_call [where P = "\<lambda>ms r. ms = [BroadcastTransaction _]"]]) auto

lemma sendTronRecover_performs:
  "performs (sendTronRecover E S N factoryAddress callData)
     (\<lambda>ms res. (executing ms = [] \<and> (\<exists>e. res = Err e)) \<or>
        (\<exists>call tx signed. executing ms = [BroadcastTransaction (tx\<lparr>ttSignature := signed\<rparr>)] \<and> tcData call = callData \<and>
           nTxCheck N tx call = Ok () \<and> ToTronBase58IfHex E S factoryAddress = Ok (tcContract call)))"
  unfolding sendTronRecover_def
proof (intro performs_lift_bind, simp, simp, rule performs_bind [OF performs_wrap [OF performs_mono [OF TriggerSmartContract_performs]]])
  fix factoryBase58 ms tx assume f: "ToTronBase58IfHex E S factoryAddress = Inr factoryBase58"
  assume "executing ms = [] \<and> (case Inr tx of Inl _ \<Rightarrow> True | Inr tx \<Rightarrow> \<exists>call. tcData call = callData \<and> tcContract call = factoryBase58 \<and> nTxCheck N tx call = Ok ())"
  then show "performs (SignAndBroadcast E N tx)
     (\<lambda>ms' res. (executing (ms @ ms') = [] \<and> (\<exists>e. res = Err e)) \<or>
        (\<exists>call tx signed. executing (ms @ ms') = [BroadcastTransaction (tx\<lparr>ttSignature := signed\<rparr>)] \<and> tcData call = callData \<and>
           nTxCheck N tx call = Ok () \<and> ToTronBase58IfHex E S factoryAddress = Ok (tcContract call)))"
    using f by (intro performs_mono [OF SignAndBroadcast_performs]) auto
qed (auto split: sum.splits)


section \<open>Handing out an address\<close>

text \<open>What the enclave is told of a vault: its parameters, and one signature for every chain of its network, on
  each of which the address resolves.\<close>

definition registers :: "primitives \<Rightarrow> sealing \<Rightarrow> vault_env \<Rightarrow> user_keys \<Rightarrow> vault_record \<Rightarrow> register_vault_request \<Rightarrow> bool" where
  "registers E S V uk r q \<longleftrightarrow>
     rgVaultAddress q = rvVaultAddress r \<and> rgNetwork q = rvNetwork r \<and> rgIndex q = rvIndex r \<and>
     (\<exists>params. GetReceiveVaultParams E S V uk (TermsFromReceiveVaultRecord r) = Ok params \<and>
        rgParams q = SerializeReceiveVaultParams params) \<and>
     map osChainID (rgOutputSignatures q) = ReceiveVaultChainsForNetwork V (rvNetwork r) \<and>
     list_all (\<lambda>c. \<exists>params legacy. ResolveReceiveVaultParams E S V uk r c = Ok (params, legacy))
       (ReceiveVaultChainsForNetwork V (rvNetwork r))"

lemma SignReceiveVaultOutput_resolves:
  "SignReceiveVaultOutput E S V uk r out c = Ok sig \<Longrightarrow> \<exists>params legacy. ResolveReceiveVaultParams E S V uk r c = Ok (params, legacy)"
  by (auto simp: SignReceiveVaultOutput_def Let_def rbind_Ok_iff split: if_splits)

lemma output_signatures:
  assumes "rmap (\<lambda>c. rbind (SignReceiveVaultOutput E S V uk r out c) (\<lambda>sig. Ok \<lparr>osChainID = c, osSignature = sig\<rparr>)) cs = Ok sigs"
  shows "map osChainID sigs = cs \<and> list_all (\<lambda>c. \<exists>params legacy. ResolveReceiveVaultParams E S V uk r c = Ok (params, legacy)) cs"
  using assms by (induction cs arbitrary: sigs) (auto simp: rbind_Ok_iff dest: SignReceiveVaultOutput_resolves)

lemma registerRecord_performs:
  "performs (registerRecord E S V N draw claim r)
     (\<lambda>ms res. (ms = [] \<and> (\<exists>e. res = Err e)) \<or> (\<exists>q. ms = [RegisterVault q] \<and> registers E S V (vcUserKeys claim) r q))"
  unfolding registerRecord_def RegisterReceiveVault_def Let_def
  by (intro performs_lift_bind performs_call) (auto simp: registers_def dest: output_signatures)

text \<open>A fresh address is the last thing registered before it is returned; what was read before moves nothing.\<close>

definition freshly_registered :: "primitives \<Rightarrow> sealing \<Rightarrow> vault_env \<Rightarrow> user_keys \<Rightarrow> string \<Rightarrow> message list \<Rightarrow> vault_record \<Rightarrow> bool" where
  "freshly_registered E S V uk n ms r \<longleftrightarrow>
     rvNetwork r = n \<and> (\<exists>terms. BuildReceiveVaultRecord E S V uk terms = Ok r) \<and>
     (\<exists>pre q. ms = pre @ [RegisterVault q] \<and> registers E S V uk r q)"

lemma getNextIndex_performs:
  "performs (getNextIndex E S V N uk n) (\<lambda>ms res. ms = [] \<or> (\<exists>pf. ms = [FetchVaultNextIndex pf n]))"
  unfolding getNextIndex_def FetchReceiveVaultNextIndex_def by (intro performs_lift_bind performs_call) auto

lemma build_network: "BuildReceiveVaultRecord E S V uk terms = Ok r \<Longrightarrow> rvNetwork r = vtNetwork terms"
  by (auto simp: BuildReceiveVaultRecord_Ok TermsFromReceiveVaultRecord_def)

lemma register_fresh:
  assumes "BuildReceiveVaultRecord E S V (vcUserKeys claim) terms = Ok r" "vtNetwork terms = vcNetwork claim"
    "list_all (\<lambda>m. \<not> executes m) pre"
  shows "performs (ibind (registerRecord E S V N draw claim r) (\<lambda>_. ireturn r))
     (\<lambda>ms res. case res of
        Inl _ \<Rightarrow> list_all (\<lambda>m. \<not> executes m) (pre @ ms)
      | Inr r \<Rightarrow> freshly_registered E S V (vcUserKeys claim) (vcNetwork claim) (pre @ ms) r)"
  by (rule performs_bind [OF registerRecord_performs])
    (use assms build_network [OF assms(1)] in \<open>auto simp: freshly_registered_def\<close>)

lemma claimFreshAddress_performs:
  "performs (claimFreshAddress E S V N draw claim)
     (\<lambda>ms res. case res of
        Inl _ \<Rightarrow> list_all (\<lambda>m. \<not> executes m) ms
      | Inr r \<Rightarrow> freshly_registered E S V (vcUserKeys claim) (vcNetwork claim) ms r)"
  unfolding claimFreshAddress_def
proof (intro performs_lift_bind, simp, rule performs_bind [OF getNextIndex_performs], goal_cases)
  case (2 version ms i)
  then have "list_all (\<lambda>m. \<not> executes m) ms" by auto
  then show ?case by (intro performs_lift_bind) (auto intro: register_fresh)
qed auto


lemma registered_on_every_chain:
  assumes "freshly_registered E S V uk n ms r" "c \<in> set (ReceiveVaultChainsForNetwork V n)"
  obtains p q a b c0 where "getReceiveVaultCanonicalChainID V n = Ok c0" "GetReceiveVaultAddress E S V p c0 = Ok a"
    "GetReceiveVaultAddress E S V q c = Ok b" "EqualAddress E c b a"
proof -
  from assms(1) obtain terms where n: "rvNetwork r = n" and b: "BuildReceiveVaultRecord E S V uk terms = Ok r"
    and "list_all (\<lambda>c. \<exists>params legacy. ResolveReceiveVaultParams E S V uk r c = Ok (params, legacy)) (ReceiveVaultChainsForNetwork V n)"
    by (auto simp: freshly_registered_def registers_def)
  with assms(2) obtain q legacy where q: "ResolveReceiveVaultParams E S V uk r c = Ok (q, legacy)" by (auto simp: list_all_iff)
  obtain key b' where "GetReceiveVaultAddress E S V q c = Ok b'" "EqualAddress E c b' (rvVaultAddress r)"
    by (rule ResolveReceiveVaultParams_Ok [OF q])
  moreover obtain p c0 where "GetReceiveVaultAddress E S V p c0 = Ok (rvVaultAddress r)" "getReceiveVaultCanonicalChainID V n = Ok c0"
    using b n build_network [OF b] by (auto simp: BuildReceiveVaultRecord_Ok)
  ultimately show thesis using that by blast
qed

text \<open>C32. A network needs one factory: when some chain of a network gives no vault the address the canonical chain gives
  it, a fresh receive address of that network is never handed out, because the registration signs for every chain
  of the network and the record does not resolve there. (The two Tron chains the code lists have different
  factories.)\<close>

theorem split_network_hands_out_nothing:
  assumes "c \<in> set (ReceiveVaultChainsForNetwork V (ReceiveVaultNetworkOf chainID))"
    and "getReceiveVaultCanonicalChainID V (ReceiveVaultNetworkOf chainID) = Ok c0"
    and "\<And>p q a b. GetReceiveVaultAddress E S V p c0 = Ok a \<Longrightarrow> GetReceiveVaultAddress E S V q c = Ok b \<Longrightarrow> \<not> EqualAddress E c b a"
  shows "performs (HinkalCreateReceiveAddress E S V N draw uk chainID True) (\<lambda>ms res. \<exists>e. res = Err e)"
proof -
  have no: "\<not> freshly_registered E S V uk (ReceiveVaultNetworkOf chainID) ms r" for ms r
    using registered_on_every_chain [OF _ assms(1)] assms(2,3) by (metis sum.inject(2))
  have claim: "performs (claimFreshAddress E S V N draw claim) (\<lambda>ms res. \<exists>e. res = Err e)"
    if "vcUserKeys claim = uk" "vcNetwork claim = ReceiveVaultNetworkOf chainID" for claim
    by (rule performs_mono [OF claimFreshAddress_performs]) (use that no in \<open>auto split: sum.splits\<close>)
  show ?thesis
    unfolding HinkalCreateReceiveAddress_def Let_def by (auto intro!: performs_lift_bind claim)
qed

section \<open>What is signed, read back\<close>

lemma SetBytes_nat_bytes: "SetBytes (nat_bytes n) = int n"
proof (induction n rule: nat_bytes.induct)
  case (1 n)
  show ?case
  proof (cases "n = 0")
    case False
    then have "SetBytes (nat_bytes n) = int (n div 256) * 256 + int (unat (word_of_nat n :: byte))"
      using 1 by (subst nat_bytes.simps) (simp add: SetBytes_snoc)
    also have "unat (word_of_nat n :: byte) = n mod 256" by (simp add: unat_of_nat)
    finally show ?thesis by (simp add: zdiv_int zmod_int)
  qed (simp add: nat_bytes.simps SetBytes_def)
qed

lemma SetBytes_zeros: "SetBytes (replicate k 0 @ bs) = SetBytes bs"
  by (induction k) (simp_all add: SetBytes_def)

lemma nat_bytes_length: "n < 256 ^ k \<Longrightarrow> length (nat_bytes n) \<le> k"
proof (induction k arbitrary: n)
  case (Suc k)
  then have "length (nat_bytes (n div 256)) \<le> k" by (simp add: less_mult_imp_div_less mult.commute)
  then show ?case by (subst nat_bytes.simps) simp
qed (simp add: nat_bytes.simps)

lemma padded_value: "0 \<le> v \<Longrightarrow> SetBytes (LeftPadBytes (big_Bytes v) n) = v"
  by (simp add: LeftPadBytes_def big_Bytes_def SetBytes_zeros SetBytes_nat_bytes)

lemma padded_length: "0 \<le> v \<Longrightarrow> v < 2 ^ 256 \<Longrightarrow> length (LeftPadBytes (big_Bytes v) 32) = 32"
  using nat_bytes_length [of "nat v" 32] by (simp add: LeftPadBytes_def big_Bytes_def nat_less_iff)

lemma recovery_preimage_inj:
  assumes "recovery_preimage c as d = recovery_preimage c' bs d'"
    and "0 \<le> c" "c < 2 ^ 256" "0 \<le> c'" "c' < 2 ^ 256" "0 \<le> d" "d < 2 ^ 256" "0 \<le> d'" "d' < 2 ^ 256"
  shows "c = c' \<and> d = d' \<and> concat as = concat bs"
proof -
  let ?p = "\<lambda>v. LeftPadBytes (big_Bytes v) 32"
  have e: "?p c @ concat as @ ?p d = ?p c' @ concat bs @ ?p d'" using assms(1) by (simp add: recovery_preimage_def)
  have l: "length (?p c) = length (?p c')" "length (?p d) = length (?p d')" 
    using padded_length [OF assms(2,3)] padded_length [OF assms(4,5)] padded_length [OF assms(6,7)] padded_length [OF assms(8,9)]
    by simp_all
  from e have "?p c = ?p c' \<and> concat as @ ?p d = concat bs @ ?p d'" by (simp add: l(1))
  then have "?p c = ?p c' \<and> concat as = concat bs \<and> ?p d = ?p d'" by (simp add: l(2))
  then show ?thesis by (metis padded_value assms(2,4,6,8))
qed

lemma concat_rows_inj:
  "list_all2 (\<lambda>a b. length a = length b) xs ys \<Longrightarrow> concat xs = concat ys \<Longrightarrow> xs = ys"
  by (induction rule: list_all2_induct) auto

lemma digest_preimage:
  assumes "GetReceiveVaultRecoveryDigest E c f v t to d = Ok x"
  obtains as where "rmap (address_bytes E) [f, v, t, to] = Ok as"
    "x = (if IsTronLike c then keccak256 E (string_bytes tronSignedPrefix @ keccak256 E (recovery_preimage c as d))
          else keccak256 E (recovery_preimage c as d))"
proof (cases "rmap (address_bytes E) [f, v, t, to]")
  case (Inr as)
  then show ?thesis using assms that unfolding GetReceiveVaultRecoveryDigest_def Let_def by (simp del: rmap.simps)
qed (use assms in \<open>simp add: GetReceiveVaultRecoveryDigest_def del: rmap.simps\<close>)


text \<open>A scope opens every message that is signed, and no two scopes agree on their first bytes.\<close>

lemma scopes_disjoint:
  "recovery_preimage c as d \<noteq> output_preimage E c' f v out"
  "recovery_preimage c as d \<noteq> string_bytes accountScope @ rest"
  "output_preimage E c' f v out \<noteq> string_bytes accountScope @ rest"
  by (simp_all add: recovery_preimage_def output_preimage_def recoveryScope_def outputScope_def accountScope_def string_bytes_def)

section \<open>The parameters in JSON\<close>

text \<open>The parameters sent to the enclave are the vault's: written as texts and read again they are the same.\<close>

theorem vault_params_roundtrip: "DeserializeReceiveVaultParams (SerializeReceiveVaultParams params) = Ok params"
  by (simp add: DeserializeReceiveVaultParams_def SerializeReceiveVaultParams_def parseVersion_def Let_def)

section \<open>The signature check on Solana\<close>

definition offset_at :: "byte list \<Rightarrow> nat \<Rightarrow> nat" where
  "offset_at data i = unat (data ! i) + 256 * unat (data ! (i + 1))"

text \<open>The instruction that checks the owner's signature points at it: the offsets in its header select, in the
  instruction's own data, the owner's key, the 64 bytes of the signature and the digest.\<close>

theorem ed25519_offsets:
  assumes "encodeEd25519Instruction E program owner digest sig = Ok ix" "length owner = 32"
  shows "take 64 (drop (offset_at (ixData ix) 2) (ixData ix)) = projr (base58Decode E sig) \<and>
    take 32 (drop (offset_at (ixData ix) 6) (ixData ix)) = owner \<and>
    take (offset_at (ixData ix) 12) (drop (offset_at (ixData ix) 10) (ixData ix)) = digest \<and>
    offset_at (ixData ix) 10 + offset_at (ixData ix) 12 = length (ixData ix)"
proof -
  obtain sg where sg: "base58Decode E sig = Ok sg" "length sg = 64" "length digest = 32"
      "ixData ix = ed25519_header 32 @ owner @ sg @ digest"
    using assms(1) by (auto simp: encodeEd25519Instruction_def split: if_splits sum.splits)
  have h: "ed25519_header 32 = [1, 0, 48, 0, 255, 255, 16, 0, 255, 255, 112, 0, 32, 0, 255, 255]"
    by (simp add: ed25519_header_def le_bytes_def upt_conv_Cons)
  show ?thesis using sg assms(2) by (simp add: h offset_at_def)
qed

section \<open>What is still held\<close>

lemma add_holding_keys:
  assumes "distinct (map (holding_key E) hs)"
  shows "distinct (map (holding_key E) (foldl (add_holding E) hs xs)) \<and>
    holding_key E ` set (foldl (add_holding E) hs xs) = holding_key E ` (set hs \<union> set xs) \<and>
    set (foldl (add_holding E) hs xs) \<subseteq> set hs \<union> set xs"
  using assms
proof (induction xs arbitrary: hs)
  case (Cons x xs)
  have "distinct (map (holding_key E) (add_holding E hs x))" using Cons.prems by (auto simp: add_holding_def)
  from Cons.IH [OF this] show ?case by (auto simp: add_holding_def split: if_splits)
qed simp

text \<open>Why a holding is listed.\<close>

definition blocked_because ::
    "primitives \<Rightarrow> vault_env \<Rightarrow> vault_network \<Rightarrow> vault_record list \<Rightarrow> vault_block list \<Rightarrow> holding \<Rightarrow> bool" where
  "blocked_because E V N records blocks h \<longleftrightarrow>
     List.member records (uhRecord h) \<and>
     (let r = uhRecord h; expired = IsReceiveVaultExpired V (TermsFromReceiveVaultRecord r) 0;
          held = (\<exists>ts. vnHeldTokens N (uhChainID h) (rvVaultAddress r) = Ok ts \<and> List.member ts (uhToken h)) in
      (uhReason h = BlockRiskySender \<and>
         list_ex (\<lambda>b. vbChainID b = uhChainID h \<and> vbToken b = uhToken h \<and>
            EqualAddress E (uhChainID h) (rvVaultAddress r) (vbVaultAddress b)) blocks) \<or>
      (uhReason h = BlockExpired \<and> expired \<and> held) \<or>
      (uhReason h = BlockNotShieldable \<and> expired = False \<and> held \<and>
         (\<exists>tokens. vnChainTokens N (uhChainID h) = Ok tokens \<and> shieldable_on E (uhChainID h) tokens (uhToken h) = False)))"

lemma block_blocked:
  assumes "h \<in> set (block_holdings E records blocks)" shows "blocked_because E V N records blocks h"
proof -
  obtain b r where b: "b \<in> set blocks" "findRecordByVault E records (vbVaultAddress b) (vbChainID b) = Some r"
      "h = \<lparr>uhRecord = r, uhChainID = vbChainID b, uhToken = vbToken b, uhReason = BlockRiskySender\<rparr>"
    using assms by (auto simp: block_holdings_def split: option.splits)
  then show ?thesis
    by (auto simp: blocked_because_def findRecordByVault_def find_Some_iff list_ex_iff Let_def)
qed

lemma chain_blocked:
  assumes "r \<in> set records" "h \<in> set (chain_holdings E V N r c)" shows "blocked_because E V N records blocks h"
proof (cases "vnHeldTokens N c (rvVaultAddress r)")
  case (Inr ts)
  show ?thesis
  proof (cases "IsReceiveVaultExpired V (TermsFromReceiveVaultRecord r) 0")
    case True
    then show ?thesis using assms Inr by (auto simp: chain_holdings_def blocked_because_def)
  next
    case False
    then show ?thesis using assms Inr
      by (cases "vnChainTokens N c") (auto simp: chain_holdings_def blocked_because_def)
  qed
qed (use assms in \<open>simp add: chain_holdings_def\<close>)


section \<open>A run\<close>

text \<open>The factories are those of the deployed chains, the hash keeps its input.\<close>

definition vault_toy :: primitives where
  "vault_toy = toy_hex\<lparr>keccak256 := (\<lambda>bs. bs), abiPack := (\<lambda>_. Ok []), base58Decode := (\<lambda>s. hex_DecodeString (tl s)),
     hexToAddress := (\<lambda>s. case hex_DecodeString (drop 2 s) of Inl _ \<Rightarrow> replicate 20 0 | Inr bs \<Rightarrow> take 20 (bs @ replicate 20 0))\<rparr>"

definition vault_box :: sealing where
  "vault_box = toy_sealing\<lparr>base58Encode := (\<lambda>bs. CHR ''T'' # hex_EncodeToString bs), addressHex := (\<lambda>bs. ''0x'' @ hex_EncodeToString bs)\<rparr>"

definition vault_world :: vault_env where
  "vault_world = \<lparr>
     veFactory = (\<lambda>c. if c = 728126428 then Ok ''0x4e902cc11fc11e47a767c778c6b1d6a5117af140''
                      else if c = 3448148188 then Ok ''0x6c9ad9dd942ac8a1f09e1dca0967bcad09e80d7c''
                      else if c = 1 then Ok ''0xB2445b1f2fB462F4cF4EAdb90584ce19DBB0acfd'' else Ok []),
     veHinkal = (\<lambda>_. Ok []), veDeployer = (\<lambda>_. Ok []), veInitCodeHash = (\<lambda>_ _. Ok ''0x0102030405060708090a0b''),
     veVersionCount = (\<lambda>_. Ok 1), veKeyAddress = (\<lambda>_. replicate 20 1), veSign = (\<lambda>_ _. Ok (replicate 65 0)),
     veTextHash = (\<lambda>d. d), veEdPublic = (\<lambda>_. replicate 32 1), veEdSign = (\<lambda>_ _. replicate 64 2),
     veProgramAddress = (\<lambda>_ _. Ok (replicate 32 3)), veNow = 1000\<rparr>"

definition vault_terms_one :: vault_terms where
  "vault_terms_one = \<lparr>vtIndex = 4, vtNetwork = NetworkEvm, vtExpiry = ''2000'', vtVersion = ''0''\<rparr>"

definition toy_solana :: solana_network where
  "toy_solana = network.extend toy_net
     \<lparr>slTokenProgram = [1], slToken2022Program = [2], slTokenAccountProgram = [3], slSystemProgram = [4], slInstructionsSysvar = [5],
      slEd25519Program = [6], slDeployer = \<lambda>_. Ok ''D'', slProgram = \<lambda>_. Ok (), slConnection = Ok (), slPublicKey = Ok [7],
      slBlockhash = \<lambda>ms. Ok (''b'', 100), slCompile = \<lambda>_ _ _ _. Ok (), slSimulate = \<lambda>_ _ _. Ok (Some 500000),
      slSerialize = \<lambda>_ _ _ _. Ok ''t'', slSend = \<lambda>_ _ _ _. Ok ''s'', slHeight = \<lambda>ms. Ok 90,
      slStatuses = \<lambda>_ _. Ok [Some \<lparr>stError = None, stConfirmation = ''confirmed''\<rparr>], slOwner = \<lambda>_. Ok (Some [1]), slData = \<lambda>_. Ok None,
      slTokenAccount = \<lambda>_ _ _. Ok [8], slPda = \<lambda>_ _. Ok [9], slRelay = \<lambda>_ _. silent, slPrepare = \<lambda>_ _. silent,
      slFinalize = \<lambda>_ _ _. silent, slFinalizeRelay = \<lambda>_ _ _ _ _. silent, slBuildSponsored = \<lambda>_ _. silent,
      slCosign = \<lambda>_ _. silent, slSubmitSponsored = \<lambda>_ _ _ _. silent\<rparr>"

definition toy_vaults :: vault_network where
  "toy_vaults = solana_network.extend toy_solana
     \<lparr>vnMode = ''production'', vnAccount = \<lambda>_ _ _. Ok \<lparr>vaRecords = [], vaBlocks = []\<rparr>, vnNextIndex = \<lambda>_ _ _. Ok 4,
      vnRegister = \<lambda>_ _. Ok True, vnCreator = \<lambda>_. Ok ''c'', vnHeldTokens = \<lambda>_ _. Ok [], vnChainTokens = \<lambda>_. Ok [],
      vnToken = \<lambda>_ _. Ok None, vnPublicBalance = \<lambda>_ _ _. Ok 0, vnSolanaClient = \<lambda>_. Ok (), vnLamports = \<lambda>_. Ok 0,
      vnTokenAmount = \<lambda>_. Ok None, vnPackRecover = \<lambda>_ _ _ _ _ sig. Ok sig\<rparr>"

definition toy_record :: vault_record where
  "toy_record = \<lparr>rvIndex = 4, rvNetwork = NetworkEvm, rvExpiry = ''2000'', rvVersion = ''0'',
     rvVaultAddress = (case BuildReceiveVaultRecord vault_toy vault_box vault_world (keys toy_wallet) vault_terms_one of
                         Inl _ \<Rightarrow> [] | Inr r \<Rightarrow> rvVaultAddress r)\<rparr>"

lemma built_record_resolves_witness:
  "\<exists>r. BuildReceiveVaultRecord vault_toy vault_box vault_world (keys toy_wallet) vault_terms_one = Ok r \<and>
     record_verified vault_toy vault_box vault_world (keys toy_wallet) r"
proof -
  have "case BuildReceiveVaultRecord vault_toy vault_box vault_world (keys toy_wallet) vault_terms_one of
      Inr r \<Rightarrow> rvVaultAddress r \<noteq> [] | _ \<Rightarrow> False" by code_simp
  then obtain r where r: "BuildReceiveVaultRecord vault_toy vault_box vault_world (keys toy_wallet) vault_terms_one = Ok r"
    "rvVaultAddress r \<noteq> []" by (auto split: sum.splits)
  have "getReceiveVaultCanonicalChainID vault_world (vtNetwork vault_terms_one) = Ok 1" by code_simp
  from built_record_resolves [OF r(1) this r(2)] r(1) show ?thesis by blast
qed



lemma ed25519_offsets_witness:
  "\<exists>ix. encodeEd25519Instruction vault_toy [6] (replicate 32 1) (replicate 32 2) (CHR ''T'' # hex_EncodeToString (replicate 64 3)) = Ok ix \<and>
     take 32 (drop (offset_at (ixData ix) 6) (ixData ix)) = replicate 32 1"
proof -
  have "case encodeEd25519Instruction vault_toy [6] (replicate 32 1) (replicate 32 2) (CHR ''T'' # hex_EncodeToString (replicate 64 3)) of
      Inr ix \<Rightarrow> True | _ \<Rightarrow> False" by code_simp
  then obtain ix where ix: "encodeEd25519Instruction vault_toy [6] (replicate 32 1) (replicate 32 2)
      (CHR ''T'' # hex_EncodeToString (replicate 64 3)) = Ok ix" by (auto split: sum.splits)
  from ed25519_offsets [OF this] ix show ?thesis by simp
qed

definition tron_factory_address :: "int \<Rightarrow> string result" where
  "tron_factory_address c =
     (case veFactory vault_world c of Inl e \<Rightarrow> Err e | Inr factory \<Rightarrow>
        EVMHexToTronBase58Address vault_toy vault_box
          (addressHex vault_box (drop 12 ([create2Prefix c] @ hexToAddress vault_toy factory @ fromHex vault_toy ''0x0102030405060708090a0b''))))"

lemma vault_toy_simps: "abiPack vault_toy vs = Ok []" "keccak256 vault_toy bs = bs"
    "veInitCodeHash vault_world c v = Ok ''0x0102030405060708090a0b''"
  by (simp_all add: vault_toy_def vault_world_def)

lemma tron_factories: "has_0x ''0x4e902cc11fc11e47a767c778c6b1d6a5117af140''" "has_0x ''0x6c9ad9dd942ac8a1f09e1dca0967bcad09e80d7c''"
  by code_simp+

lemma tron_vault_address:
  assumes "GetReceiveVaultAddress vault_toy vault_box vault_world p c = Ok a" "c = 728126428 \<or> c = 3448148188"
  shows "tron_factory_address c = Ok a"
proof -
  have kind: "\<not> IsSolanaLike c" "IsTronLike c"
    using assms(2) by (auto simp: IsSolanaLike_def IsTronLike_def SolanaChainIDs_def TronChainIDs_def)
  obtain f where f: "veFactory vault_world c = Ok f" "has_0x f"
    using assms(2) tron_factories by (auto simp: vault_world_def)
  then have hexed: "AddressToHexFormat vault_toy f = Ok f" by (simp add: AddressToHexFormat_def)
  show ?thesis
    using assms(1) kind
    by (auto simp: GetReceiveVaultAddress_def ComputeReceiveVaultAddress_def EncodeReceiveVaultParams_def tron_factory_address_def
        GetReceiveVaultFactoryAddress_def vault_toy_simps f hexed rbind_Ok_iff Let_def simp del: drop_append split: if_splits)
qed

lemma split_network_hands_out_nothing_witness:
  "performs (HinkalCreateReceiveAddress vault_toy vault_box vault_world toy_vaults (Ok [], Ok []) (keys toy_wallet) 728126428 True)
     (\<lambda>ms res. \<exists>e. res = Err e)"
proof (rule split_network_hands_out_nothing [of 3448148188 vault_world 728126428 728126428])
  show "3448148188 \<in> set (ReceiveVaultChainsForNetwork vault_world (ReceiveVaultNetworkOf 728126428))" by code_simp
  show "getReceiveVaultCanonicalChainID vault_world (ReceiveVaultNetworkOf 728126428) = Ok 728126428" by code_simp
next
  fix p q a b
  assume "GetReceiveVaultAddress vault_toy vault_box vault_world p 728126428 = Ok a"
    "GetReceiveVaultAddress vault_toy vault_box vault_world q 3448148188 = Ok b"
  then have "tron_factory_address 728126428 = Ok a" "tron_factory_address 3448148188 = Ok b" by (simp_all add: tron_vault_address)
  moreover have "case tron_factory_address 728126428 of Inl _ \<Rightarrow> True | Inr a \<Rightarrow>
      (case tron_factory_address 3448148188 of Inl _ \<Rightarrow> True | Inr b \<Rightarrow> \<not> EqualAddress vault_toy 3448148188 b a)" by code_simp
  ultimately show "\<not> EqualAddress vault_toy 3448148188 b a" by simp
qed

end
