(* ===== verification/SolanaCorrect.thy ===== *)
theory SolanaCorrect
  imports SolanaActions ReceiveVaultCorrect
begin

text \<open>
  What the Solana side promises: how often a transaction is sent and when it counts as done, that the accounts of a
  deposit hold every root it inserts, that a fee and its deposit land together, and what the actions ask for.
\<close>

section \<open>Sending\<close>

lemma units_bounds:
  assumes "NewV1Transaction N signer instructions blockhash = Ok tx"
  shows "xtInstructions tx = instructions \<and> 200000 \<le> xtUnits tx \<and> xtUnits tx \<le> 1400000"
  using assms
  by (auto simp: NewV1Transaction_def rbind_Ok_iff Let_def estimateV1ComputeUnitLimit_def maxComputeUnitLimit_def minComputeUnitLimit_def
      split: sum.splits option.splits if_splits)

lemma performs_call_bind:
  "(\<And>e. Q [m] (Inl e)) \<Longrightarrow> (\<And>x. performs (g x) (\<lambda>ms r. Q (m # ms) r)) \<Longrightarrow> performs (ibind (icall m reply) g) Q"
  by (rule performs_bind [OF performs_call [where P = "\<lambda>ms r. ms = [m]"]]) auto

lemma performs_attempted_call_bind:
  "(\<And>x. performs (g x) (\<lambda>ms r. Q (m # ms) r)) \<Longrightarrow> performs (ibind (iattempt (icall m reply)) g) Q"
  by (rule performs_bind [where P = "\<lambda>ms r. ms = [m] \<and> (\<exists>x. r = Ok x)"], rule performs_attempt, rule performs_call) auto

definition ends_with_status :: "string \<Rightarrow> message list \<Rightarrow> bool" where
  "ends_with_status sig ms \<longleftrightarrow> (\<exists>front. ms = front @ [GetSignatureStatuses sig])"

lemma ends_with_status_simps [simp]: "ends_with_status sig [GetSignatureStatuses sig]"
    "ends_with_status sig ms \<Longrightarrow> ends_with_status sig (m # ms)" "ends_with_status sig ms \<Longrightarrow> ends_with_status sig (xs @ ms)"
  by (simp add: ends_with_status_def, unfold ends_with_status_def, metis append_Cons, metis append_assoc)

lemma wait_performs:
  "performs (waitForConfirmation N sig lv polls) (\<lambda>ms r. executing ms = [] \<and> (r = Ok () \<longrightarrow> ends_with_status sig ms))"
proof (induction polls)
  case (Suc polls)
  show ?case
    unfolding waitForConfirmation.simps
    by (intro performs_attempted_call_bind performs_if performs_option performs_mono [OF Suc.IH]) auto
qed simp

definition same_send :: "solana_ix list \<Rightarrow> message \<Rightarrow> bool" where
  "same_send instructions m \<longleftrightarrow> (\<exists>h u. m = SendSolanaTransaction instructions h u \<and> 200000 \<le> u \<and> u \<le> 1400000)"

definition sent_and_seen :: "nat \<Rightarrow> solana_ix list \<Rightarrow> message list \<Rightarrow> string result \<Rightarrow> bool" where
  "sent_and_seen n instructions ms r \<longleftrightarrow>
     length (executing ms) \<le> n \<and> list_all (same_send instructions) (executing ms) \<and>
     (\<forall>sig. r = Ok sig \<longrightarrow> ends_with_status sig ms)"

lemma sent_and_seen_later:
  "sent_and_seen n ixs ms' r \<Longrightarrow> length (executing ms) \<le> k \<Longrightarrow> list_all (same_send ixs) (executing ms) \<Longrightarrow>
   sent_and_seen (k + n) ixs (ms @ ms') r"
  by (auto simp: sent_and_seen_def)

lemma attempt_performs:
  assumes "xtInstructions tx = instructions \<and> 200000 \<le> xtUnits tx \<and> xtUnits tx \<le> 1400000"
  shows "performs (send_attempt N tx lv polls) (\<lambda>ms r. sent_and_seen 1 instructions ms r)"
  unfolding send_attempt_def sign_and_send_def
proof (rule performs_call_bind)
  fix sig :: string
  show "performs (ibind (waitForConfirmation N sig lv polls) (\<lambda>_. ireturn sig))
      (\<lambda>ms r. sent_and_seen 1 instructions (SendSolanaTransaction (xtInstructions tx) (xtBlockhash tx) (xtUnits tx) # ms) r)"
    by (rule performs_bind [OF wait_performs]) (use assms in \<open>auto simp: sent_and_seen_def same_send_def\<close>)
qed (use assms in \<open>auto simp: sent_and_seen_def same_send_def\<close>)

lemma send_attempts_performs:
  "performs (send_attempts N (NewV1Transaction N signer instructions) polls attempts) (sent_and_seen attempts instructions)"
proof (induction attempts)
  case (Suc attempts)
  have more: "sent_and_seen (Suc attempts) instructions (GetLatestBlockhash # ms) r" if "sent_and_seen (Suc attempts) instructions ms r" for ms r
    using that by (auto simp: sent_and_seen_def)
  show ?case
    unfolding send_attempts.simps
  proof (rule performs_call_bind, simp add: sent_and_seen_def, intro performs_prod performs_lift_bind, simp add: sent_and_seen_def)
    fix bh lv tx assume "NewV1Transaction N signer instructions bh = Inr tx"
    then have tx: "xtInstructions tx = instructions \<and> 200000 \<le> xtUnits tx \<and> xtUnits tx \<le> 1400000" by (rule units_bounds)
    show "performs (ibind (iattempt (send_attempt N tx lv polls)) (\<lambda>outcome. case outcome of Inr sig \<Rightarrow> ireturn sig
          | Inl e \<Rightarrow> if attempts = 0 \<or> \<not> retryableSendError e then ifail e
                    else send_attempts N (NewV1Transaction N signer instructions) polls attempts))
        (\<lambda>ms r. sent_and_seen (Suc attempts) instructions (GetLatestBlockhash # ms) r)"
    proof (rule performs_bind [OF performs_attempt [where P = "\<lambda>ms r. \<exists>x. r = Ok x \<and> sent_and_seen 1 instructions ms x"]])
      show "performs (send_attempt N tx lv polls) (\<lambda>ms r. \<exists>x. Ok r = Ok x \<and> sent_and_seen 1 instructions ms x)"
        using attempt_performs [OF tx] by simp
      fix ms x assume "\<exists>y. Inr x = Ok y \<and> sent_and_seen 1 instructions ms y"
      then have one: "sent_and_seen 1 instructions ms x" by auto
      show "performs (case x of Inr sig \<Rightarrow> ireturn sig
          | Inl e \<Rightarrow> if attempts = 0 \<or> \<not> retryableSendError e then ifail e
                    else send_attempts N (NewV1Transaction N signer instructions) polls attempts)
        (\<lambda>ms' r. sent_and_seen (Suc attempts) instructions (GetLatestBlockhash # ms @ ms') r)"
      proof (cases x)
        case (Inl e)
        have "sent_and_seen (1 + attempts) instructions (ms @ ms') r" if "sent_and_seen attempts instructions ms' r" for ms' r
          using that one by (intro sent_and_seen_later) (auto simp: sent_and_seen_def)
        then show ?thesis using Inl one
          by (auto simp: sent_and_seen_def intro!: performs_mono [OF Suc.IH] more)
      next
        case (Inr sig)
        then show ?thesis using one by (auto simp: sent_and_seen_def)
      qed
    qed auto
  qed
qed (simp add: sent_and_seen_def)

text \<open>C35. A signing account's instructions are sent at most ten times, always the same ones and with between 200000
  and 1400000 compute units, and nothing else is executed; a signature is returned only right after the chain was
  asked for the status of that very signature.\<close>

theorem solana_sends_bounded:
  "performs (SignAndConfirm N (NewV1Transaction N signer instructions) polls)
    (\<lambda>ms r. length (executing ms) \<le> 10 \<and>
       list_all (\<lambda>m. \<exists>h u. m = SendSolanaTransaction instructions h u \<and> 200000 \<le> u \<and> u \<le> 1400000) (executing ms) \<and>
       (case r of Inl _ \<Rightarrow> True | Inr sig \<Rightarrow> \<exists>front. ms = front @ [GetSignatureStatuses sig]))"
  using send_attempts_performs [of N signer instructions polls sendRetryCount]
  unfolding SignAndConfirm_def sent_and_seen_def [abs_def] same_send_def [abs_def] ends_with_status_def sendRetryCount_def
  by (rule performs_mono) (auto split: sum.split)

definition asked :: "string \<Rightarrow> message list \<Rightarrow> nat" where
  "asked sig ms = length (filter (\<lambda>m. m = GetSignatureStatuses sig) ms)"

definition settled :: "signature_status \<Rightarrow> bool" where
  "settled status \<longleftrightarrow> stError status = None \<and> stConfirmation status \<in> {''confirmed'', ''finalized''}"

lemma wait_confirms:
  assumes "\<And>ms. \<not> past_height lv (slHeight N ms)"
    and "\<And>ms status. first_status (slStatuses N sig ms) = Some status \<Longrightarrow> stError status = None"
    and "\<And>ms. k \<le> asked sig ms \<Longrightarrow> \<exists>status. first_status (slStatuses N sig ms) = Some status \<and> settled status"
    and "k < polls + asked sig (wSent w)" "0 < polls"
  shows "snd (waitForConfirmation N sig lv polls w) = Ok ()"
  using assms(4,5)
proof (induction polls arbitrary: w)
  case (Suc polls)
  let ?ms = "wSent w @ [GetBlockHeight]"
  let ?w = "w\<lparr>wSent := ?ms @ [GetSignatureStatuses sig]\<rparr>"
  have more: "asked sig (wSent ?w) = Suc (asked sig (wSent w))" "asked sig ?ms = asked sig (wSent w)" by (simp_all add: asked_def)
  have rec: "polls = 0 \<or> snd (waitForConfirmation N sig lv polls ?w) = Ok ()" using Suc.IH [of ?w] Suc.prems more by auto
  show ?case
  proof (cases "k \<le> asked sig (wSent w)")
    case True
    then obtain status where "first_status (slStatuses N sig ?ms) = Some status" "settled status" using assms(3) [of ?ms] more by auto
    then show ?thesis using assms(1) by (auto simp: settled_def ilift_def)
  next
    case False
    then have "polls \<noteq> 0" using Suc.prems by simp
    then have "snd (waitForConfirmation N sig lv polls ?w) = Ok ()" using rec by simp
    then show ?thesis using assms(1) assms(2) [of ?ms]
      by (cases "first_status (slStatuses N sig ?ms)") (auto simp: ilift_def)
  qed
qed simp

text \<open>C36. A transaction the chain confirms while its block hash is valid is reported: if the block hash does not expire,
  the node takes the transaction, no status is an error and every status from the \<open>k\<close>-th question on is confirmed,
  then with more than \<open>k\<close> polls the call returns the signature after sending exactly once.\<close>

theorem confirmed_send_returns:
  assumes "\<And>ms. slBlockhash N ms = Ok (h, lv)" "\<And>ms. \<not> past_height lv (slHeight N ms)"
    and "NewV1Transaction N signer instructions h = Ok tx"
    and "\<And>ms. slSend N (xtInstructions tx) (xtBlockhash tx) (xtUnits tx) ms = Ok sig"
    and "\<And>ms status. first_status (slStatuses N sig ms) = Some status \<Longrightarrow> stError status = None"
    and "\<And>ms. k \<le> asked sig ms \<Longrightarrow> \<exists>status. first_status (slStatuses N sig ms) = Some status \<and> settled status"
    and "k < polls"
  shows "performs (SignAndConfirm N (NewV1Transaction N signer instructions) polls)
    (\<lambda>ms r. r = Ok sig \<and> length (executing ms) = 1)"
proof -
  have returns: "snd (waitForConfirmation N sig lv polls w) = Ok ()" for w
    by (rule wait_confirms [OF assms(2,5,6)]) (use assms(7) in auto)
  have waits: "performs (waitForConfirmation N sig lv polls) (\<lambda>ms r. executing ms = [] \<and> r = Ok ())"
    using performs_values [OF wait_performs] by (rule performs_mono) (auto simp: returns)
  have run: "performs (iattempt (send_attempt N tx lv polls)) (\<lambda>ms r. r = Ok (Ok sig) \<and> length (executing ms) = 1)"
    unfolding send_attempt_def sign_and_send_def
  proof (rule performs_attempt)
    have "performs (ibind (icall (SendSolanaTransaction (xtInstructions tx) (xtBlockhash tx) (xtUnits tx))
            (slSend N (xtInstructions tx) (xtBlockhash tx) (xtUnits tx)))
         (\<lambda>sg. ibind (waitForConfirmation N sg lv polls) (\<lambda>_. ireturn sg)))
      (\<lambda>ms r. r = Ok sig \<and> length (executing ms) = 1)"
      by (rule performs_bind [where P = "\<lambda>ms r. r = Ok sig \<and> ms = [SendSolanaTransaction (xtInstructions tx) (xtBlockhash tx) (xtUnits tx)]"])
        (auto simp: performs_def [of "icall _ _"] icall_def assms(4) intro!: performs_bind [OF waits])
    then show "performs (ibind (icall (SendSolanaTransaction (xtInstructions tx) (xtBlockhash tx) (xtUnits tx))
            (slSend N (xtInstructions tx) (xtBlockhash tx) (xtUnits tx)))
         (\<lambda>sg. ibind (waitForConfirmation N sg lv polls) (\<lambda>_. ireturn sg)))
      (\<lambda>ms r. Ok r = Ok (Ok sig) \<and> length (executing ms) = 1)" by simp
  qed
  have ten: "sendRetryCount = Suc 9" by (simp add: sendRetryCount_def)
  show ?thesis
    unfolding SignAndConfirm_def ten send_attempts.simps
    by (rule performs_bind [where P = "\<lambda>ms r. r = Ok (h, lv) \<and> ms = [GetLatestBlockhash]"])
      (auto simp: performs_def [of "icall _ _"] icall_def assms(1,3) intro!: performs_bind [OF run])
qed

definition unasked :: "message list \<Rightarrow> bool" where
  "unasked ms \<longleftrightarrow> (\<forall>sig. GetSignatureStatuses sig \<notin> set ms)"

lemma unasked_simps [simp]: "unasked []" "unasked (xs @ ys) \<longleftrightarrow> unasked xs \<and> unasked ys"
    "unasked (m # ms) \<longleftrightarrow> (\<forall>sig. m \<noteq> GetSignatureStatuses sig) \<and> unasked ms"
  by (auto simp: unasked_def)

lemma late_attempt:
  assumes "\<And>ms. past_height lv (slHeight N ms)"
    and "\<And>ms. \<exists>sig. slSend N (xtInstructions tx) (xtBlockhash tx) (xtUnits tx) ms = Ok sig"
  shows "performs (iattempt (send_attempt N tx lv (Suc polls)))
    (\<lambda>ms r. r = Ok (Err errConfirmationTimeout) \<and> length (executing ms) = 1 \<and> unasked ms)"
proof (rule performs_attempt)
  have wait: "performs (waitForConfirmation N sig lv (Suc polls)) (\<lambda>ms r. r = Err errConfirmationTimeout \<and> ms = [GetBlockHeight])" for sig
    using assms(1) by (simp add: performs_def ilift_def)
  have "performs (send_attempt N tx lv (Suc polls))
      (\<lambda>ms r. r = Err errConfirmationTimeout \<and> length (executing ms) = 1 \<and> unasked ms)"
    unfolding send_attempt_def sign_and_send_def
    by (rule performs_bind [where P = "\<lambda>ms r. (\<exists>sig. r = Ok sig) \<and> ms = [SendSolanaTransaction (xtInstructions tx) (xtBlockhash tx) (xtUnits tx)]"])
      (auto simp: performs_def [of "icall _ _"] icall_def assms(2) simp del: waitForConfirmation.simps intro!: performs_bind [OF wait])
  then show "performs (send_attempt N tx lv (Suc polls))
      (\<lambda>ms r. Ok r = Ok (Err errConfirmationTimeout) \<and> length (executing ms) = 1 \<and> unasked ms)" by simp
qed

lemma late_attempts:
  assumes "\<And>ms. slBlockhash N ms = Ok (h, lv)" "\<And>ms. past_height lv (slHeight N ms)" "build h = Ok tx"
    and "\<And>ms. \<exists>sig. slSend N (xtInstructions tx) (xtBlockhash tx) (xtUnits tx) ms = Ok sig"
  shows "performs (send_attempts N build (Suc polls) (Suc attempts))
    (\<lambda>ms r. r = Err errConfirmationTimeout \<and> length (executing ms) = Suc attempts \<and> unasked ms)"
proof (induction attempts)
  case 0
  show ?case
    unfolding send_attempts.simps
    by (rule performs_bind [where P = "\<lambda>ms r. r = Ok (h, lv) \<and> ms = [GetLatestBlockhash]"])
      (auto simp: performs_def [of "icall _ _"] icall_def assms(1,3) intro!: performs_bind [OF late_attempt [OF assms(2,4)]])
next
  case (Suc attempts)
  have retry: "retryableSendError errConfirmationTimeout" by (simp add: retryableSendError_def)
  show ?case
    unfolding send_attempts.simps(2) [of N build "Suc polls" "Suc attempts"]
    by (rule performs_bind [where P = "\<lambda>ms r. r = Ok (h, lv) \<and> ms = [GetLatestBlockhash]"])
      (auto simp: performs_def [of "icall _ _"] icall_def assms(1,3) retry simp del: send_attempts.simps
        intro!: performs_bind [OF late_attempt [OF assms(2,4)]] performs_mono [OF Suc.IH])
qed

text \<open>The wait asks for the height before it asks for the status. If the chain is past the last valid block whenever
  it is asked, the instructions are sent ten times and the caller is told of a timeout, although the statuses may
  say that every one of the transactions was confirmed: they are never asked for.\<close>

theorem late_confirmation_resends:
  assumes "\<And>ms. slBlockhash N ms = Ok (h, lv)" "\<And>ms. past_height lv (slHeight N ms)"
    and "NewV1Transaction N signer instructions h = Ok tx"
    and "\<And>ms. \<exists>sig. slSend N (xtInstructions tx) (xtBlockhash tx) (xtUnits tx) ms = Ok sig"
  shows "performs (SignAndConfirm N (NewV1Transaction N signer instructions) (Suc polls))
    (\<lambda>ms r. r = Err errConfirmationTimeout \<and> length (executing ms) = 10 \<and> (\<forall>sig. GetSignatureStatuses sig \<notin> set ms))"
proof -
  have "performs (send_attempts N (NewV1Transaction N signer instructions) (Suc polls) (Suc 9))
      (\<lambda>ms r. r = Err errConfirmationTimeout \<and> length (executing ms) = Suc 9 \<and> unasked ms)"
    by (rule late_attempts [where build = "NewV1Transaction N signer instructions", OF assms(1,2) _ assms(4)]) (rule assms(3))
  then show ?thesis by (simp add: SignAndConfirm_def sendRetryCount_def unasked_def)
qed

section \<open>Deposits\<close>

lemma encoded_amounts_wrap:
  "encodeProoflessDepositData N (map (\<lambda>a. a + 2 ^ 64) amounts) = encodeProoflessDepositData N amounts"
proof -
  have "(word_of_int (a + 2 ^ 64) :: 64 word) = word_of_int a" for a
    by (simp add: word_of_int_eq_iff take_bit_eq_mod)
  then have "map (word_of_int :: int \<Rightarrow> 64 word) (map (\<lambda>a. a + 2 ^ 64) amounts) = map word_of_int amounts" by (simp add: o_def)
  then show ?thesis by (simp only: encodeProoflessDepositData_def [abs_def])
qed

text \<open>The amounts of a deposit are written as 64-bit numbers without a check: amounts that are larger by \<open>2 ^ 64\<close>
  pass the validation and make the very same deposit.\<close>

theorem deposit_amount_wraps:
  assumes "\<forall>a \<in> set amounts. 0 < a"
  shows "SubmitSolanaProoflessDeposit E S N polls draw token (map (\<lambda>a. a + 2 ^ 64) amounts) structures encryptionKeys returnTxData =
    SubmitSolanaProoflessDeposit E S N polls draw token amounts structures encryptionKeys returnTxData"
proof -
  have "validateSolanaDepositArgs (map (\<lambda>a. a + 2 ^ 64) amounts) structures = validateSolanaDepositArgs amounts structures"
    using assms by (auto simp: validateSolanaDepositArgs_def list_ex_iff)
  then show ?thesis
    unfolding SubmitSolanaProoflessDeposit_def deposit_accounts_def buildProoflessDepositInstruction_def
    by (simp only: encoded_amounts_wrap length_map)
qed

text \<open>C37. The accounts of a deposit hold every root it inserts: the tree counts leaves from \<open>MerkleMinimumIndex\<close>, the
  root of leaf \<open>i\<close> lives in bucket \<open>RootBucketIndex i\<close>, and for at most one bucket's worth of insertions the bucket
  of each is passed as a writable account.\<close>

theorem root_buckets_suffice:
  assumes "resolveSolanaRootBuckets N programID merkleAccount n = Ok (current, following)"
    and "int n \<le> RootBucketCap" "k < n"
  shows "\<exists>data mIndex key. slData N merkleAccount = Ok (Some data) \<and> ParseMerkleMIndex data = Ok mIndex \<and>
    GetRootBucketPublicKey (slPda N) programID merkleAccount (RootBucketIndex (mIndex - MerkleMinimumIndex + int k)) = Ok key \<and>
    (current = meta key True False \<or> following = meta key True False)"
proof -
  obtain data mIndex where d: "slData N merkleAccount = Ok (Some data)" "ParseMerkleMIndex data = Ok mIndex"
    using assms(1) by (auto simp: resolveSolanaRootBuckets_def rbind_Ok_iff split: option.splits)
  let ?rel = "mIndex - MerkleMinimumIndex"
  have slot: "0 \<le> RootBucketSlot ?rel" "RootBucketSlot ?rel < RootBucketCap"
    by (simp_all add: RootBucketSlot_def RootBucketCap_def)
  have split: "?rel + int k = RootBucketCap * RootBucketIndex ?rel + (RootBucketSlot ?rel + int k)"
    by (simp add: RootBucketIndex_def RootBucketSlot_def)
  have index: "RootBucketIndex (?rel + int k) = RootBucketIndex ?rel + (if RootBucketSlot ?rel + int k < RootBucketCap then 0 else 1)"
  proof -
    have "(RootBucketSlot ?rel + int k) div RootBucketCap = (if RootBucketSlot ?rel + int k < RootBucketCap then 0 else 1)"
    proof (cases "RootBucketSlot ?rel + int k < RootBucketCap")
      case False
      have "RootBucketSlot ?rel + int k < RootBucketCap * 2" using slot assms(2,3) by linarith
      then show ?thesis using False slot by (simp add: div_pos_geq div_pos_pos_trivial)
    qed (use slot in \<open>simp add: div_pos_pos_trivial\<close>)
    moreover have "RootBucketIndex (RootBucketCap * b + x) = b + x div RootBucketCap" for b x
      by (simp add: RootBucketIndex_def RootBucketCap_def)
    ultimately show ?thesis unfolding split by simp
  qed
  show ?thesis
    using assms(1,3) d index
    by (auto simp: resolveSolanaRootBuckets_def rbind_Ok_iff Let_def split: if_splits)
qed

text \<open>The one transaction of a deposit with a fee: the transfers of the fee, then the deposit.\<close>

fun deposits_with_fee ::
    "primitives \<Rightarrow> sealing \<Rightarrow> deposit_network \<Rightarrow> seals \<Rightarrow> solana_token \<Rightarrow> int list \<Rightarrow> stealth_structure list \<Rightarrow> string list \<Rightarrow> int \<Rightarrow> message \<Rightarrow> bool" where
  "deposits_with_fee E S N draw token amounts structures encKeys feeAmount (SendSolanaTransaction instructions h u) \<longleftrightarrow>
     (\<exists>transfers deposit signer relay programID deployer.
        instructions = transfers @ [deposit] \<and>
        buildSolanaTransferInstructions E N signer relay token feeAmount = Ok transfers \<and>
        buildProoflessDepositInstruction E S N draw programID signer deployer (TokenAddress token) amounts structures encKeys False None = Ok deposit)"
| "deposits_with_fee E S N draw token amounts structures encKeys feeAmount m \<longleftrightarrow> \<not> executes m"

lemma waits_only: "sends_only (waitForConfirmation N sig lv polls) (\<lambda>m. \<not> executes m)"
  unfolding sends_only_def by (rule performs_mono [OF wait_performs]) (simp add: list_all_quiet)

lemma sends_only_same:
  assumes "\<And>h u. P (SendSolanaTransaction instructions h u)" "\<And>m. \<not> executes m \<Longrightarrow> P m"
  shows "sends_only (SignAndConfirm N (NewV1Transaction N signer instructions) polls) P"
proof -
  have "list_all P ms" if "list_all (same_send instructions) (executing ms)" for ms
    using that by (induction ms) (auto simp: same_send_def assms split: if_splits)
  then show ?thesis unfolding SignAndConfirm_def sends_only_def
    by (rule performs_mono [OF send_attempts_performs]) (auto simp: sent_and_seen_def)
qed

lemma returned_or_sent_sends:
  assumes "\<And>h u. P (SendSolanaTransaction instructions h u)" "\<And>m. \<not> executes m \<Longrightarrow> P m"
  shows "sends_only (returned_or_sent N polls returnTxData programID signer instructions) P"
  unfolding returned_or_sent_def signAndSendSolanaInstructions_def buildSolanaDepositTransaction_def
  by (intro performs_intro sends_only_same assms) simp

lemma emits_quiet: "sends_only (emitDepositAdminData E N A action chainID tokens amounts rate h) (\<lambda>m. \<not> executes m)"
  unfolding emitDepositAdminData_def by (intro performs_intro) simp

text \<open>C38. The fee of a deposit and the deposit land together or not at all: whatever is executed is a transaction whose
  last instruction is the deposit and whose other instructions are exactly the transfers of the fee.\<close>

theorem fee_with_deposit:
  "sends_only (HinkalSolanaProoflessDepositWithPublicFee E S N A polls draw token amounts structures encKeys feeAmount returnTxData action)
     (deposits_with_fee E S N draw token amounts structures encKeys feeAmount)"
proof -
  let ?P = "deposits_with_fee E S N draw token amounts structures encKeys feeAmount"
  have quiet: "?P m" if "\<not> executes m" for m using that by (cases m) auto
  have lift: "sends_only (ibind (ilift r) g) ?P" if "\<And>x. r = Ok x \<Longrightarrow> sends_only (g x) ?P" for r :: "'x result" and g :: "'x \<Rightarrow> (message, string) io"
    using that by (cases r) (auto intro: performs_intro)
  have sent: "sends_only (returned_or_sent (solana_network.truncate N) polls returnTxData programID signer (transfers @ [deposit])) ?P"
    if "buildSolanaTransferInstructions E N signer relay token feeAmount = Ok transfers"
      "buildProoflessDepositInstruction E S N draw programID signer deployer (TokenAddress token) amounts structures encKeys False None = Ok deposit"
    for programID signer relay deployer transfers deposit
  proof (rule returned_or_sent_sends)
    show "?P (SendSolanaTransaction (transfers @ [deposit]) h u)" for h u using that by fastforce
  qed (rule quiet)
  have call: "sends_only (ibind (icall (ReserveRelay c b) reply) g) ?P" if "\<And>x. sends_only (g x) ?P"
    for c b reply and g :: "string \<Rightarrow> (message, string) io"
    by (intro sends_only_bind that performs_intro) simp
  have rest: "sends_only (ibind f g) ?P" if "sends_only f ?P" "\<And>x. sends_only (g x) ?P"
    for f :: "(message, string) io" and g :: "string \<Rightarrow> (message, string) io"
    using that by (rule sends_only_bind)
  have emits: "sends_only (ibind (emitDepositAdminData E (network.truncate N) A action c ts as v h) (\<lambda>_. ireturn x)) ?P" for c ts as v h x
    by (intro sends_only_bind sends_only_mono [OF emits_quiet] quiet performs_intro)
  show ?thesis
    unfolding HinkalSolanaProoflessDepositWithPublicFee_def
    by (intro lift sends_only_prod call sends_only_if rest)
      (auto simp: rbind_Ok_iff intro!: lift rest sent emits performs_intro)
qed

section \<open>Runs\<close>

lemma toy_solana_simps:
  "slBlockhash toy_solana ms = Ok (''b'', 100)" "slHeight toy_solana ms = Ok 90" "slSend toy_solana ixs h u ms = Ok ''s''"
  "slStatuses toy_solana sg ms = Ok [Some \<lparr>stError = None, stConfirmation = ''confirmed''\<rparr>]"
  "NewV1Transaction toy_solana [7] [] ''b'' = Ok \<lparr>xtPayer = [7], xtInstructions = [], xtBlockhash = ''b'', xtUnits = 600000\<rparr>"
  by (simp_all add: toy_solana_def solana_network.defs network.defs NewV1Transaction_def estimateV1ComputeUnitLimit_def padded_units_def
      maxComputeUnitLimit_def minComputeUnitLimit_def)

lemma confirmed_send_returns_witness:
  "performs (SignAndConfirm toy_solana (NewV1Transaction toy_solana [7] []) 1) (\<lambda>ms r. r = Ok ''s'' \<and> length (executing ms) = 1)"
  by (rule confirmed_send_returns [where h = "''b''" and lv = 100 and k = 0])
    (auto simp: toy_solana_simps past_height_def first_status_def settled_def)

lemma late_confirmation_resends_witness:
  "performs (SignAndConfirm (toy_solana\<lparr>slHeight := \<lambda>_. Ok 101\<rparr>) (NewV1Transaction (toy_solana\<lparr>slHeight := \<lambda>_. Ok 101\<rparr>) [7] []) (Suc 4))
     (\<lambda>ms r. r = Err errConfirmationTimeout \<and> length (executing ms) = 10 \<and> (\<forall>sig. GetSignatureStatuses sig \<notin> set ms))"
proof (rule late_confirmation_resends)
  show "NewV1Transaction (toy_solana\<lparr>slHeight := \<lambda>_. Ok 101\<rparr>) [7] [] ''b'' =
      Ok \<lparr>xtPayer = [7], xtInstructions = [], xtBlockhash = ''b'', xtUnits = 600000\<rparr>"
    by (simp add: toy_solana_def solana_network.defs network.defs NewV1Transaction_def estimateV1ComputeUnitLimit_def padded_units_def
        maxComputeUnitLimit_def minComputeUnitLimit_def)
qed (auto simp: toy_solana_simps past_height_def)

definition toy_deposits :: deposit_network where
  "toy_deposits = solana_network.extend toy_solana
     \<lparr>dnHinkal = \<lambda>_. ''H'', dnBorsh = \<lambda>as anchors blobs blocked. Ok (map ucast as), dnTransfer = \<lambda>_ _ _. \<lparr>ixProgram = [], ixAccounts = [], ixData = []\<rparr>,
      dnCreateAccount = \<lambda>_ _ _ _. \<lparr>ixProgram = [], ixAccounts = [], ixData = []\<rparr>,
      dnTokenTransfer = \<lambda>_ _ _ _. \<lparr>ixProgram = [], ixAccounts = [], ixData = []\<rparr>,
      dnTransferChecked = \<lambda>_ _ _ _ _ _. \<lparr>ixProgram = [], ixAccounts = [], ixData = []\<rparr>\<rparr>"

definition toy_mint :: solana_token where
  "toy_mint = erc20_token.extend toy_volatile \<lparr>Is2022Program = False\<rparr>"

lemma deposit_amount_wraps_witness:
  "SubmitSolanaProoflessDeposit toy_hex toy_sealing toy_deposits 1 (\<lambda>_. (Ok [], Ok [])) toy_mint [18446744073709551619] [] [] False =
   SubmitSolanaProoflessDeposit toy_hex toy_sealing toy_deposits 1 (\<lambda>_. (Ok [], Ok [])) toy_mint [3] [] [] False"
  using deposit_amount_wraps [of "[3]" toy_hex toy_sealing toy_deposits 1 "\<lambda>_. (Ok [], Ok [])" toy_mint "[]" "[]" False] by simp

text \<open>A Merkle account whose next leaf is the last one of the first bucket.\<close>

definition toy_merkle_account :: "byte list" where
  "toy_merkle_account = merkleAccountDiscriminator @ replicate (merkleMIndexOffset - 8) 0 @
     (replicate 7 0 @ [128] @ replicate 21 0 @ [4, 255, 255])"

lemma padded_account:
  fixes d :: "byte list"
  assumes "length d = 8" "8 \<le> n" "length xs = 32"
  shows "drop n (d @ replicate (n - 8) 0 @ xs) = xs" "length (d @ replicate (n - 8) 0 @ xs) = n + 32" "take 8 (d @ replicate (n - 8) 0 @ xs) = d"
  using assms by simp_all

lemma toy_index: "ParseMerkleMIndex toy_merkle_account = Ok (MerkleMinimumIndex + 327679)"
proof -
  let ?tail = "replicate 7 0 @ [128] @ replicate 21 0 @ [4, 255, 255] :: byte list"
  have "8 \<le> merkleMIndexOffset" "length merkleAccountDiscriminator = 8" "length ?tail = 32"
    by (simp_all add: merkleMIndexOffset_def merkleAccountDiscriminator_def)
  note p = padded_account [OF this(2,1,3), folded toy_merkle_account_def]
  have "SetBytes (take 32 ?tail) = MerkleMinimumIndex + 327679" by code_simp
  then show ?thesis unfolding ParseMerkleMIndex_def p by simp
qed

lemma root_buckets_suffice_witness:
  "resolveSolanaRootBuckets (toy_solana\<lparr>slData := \<lambda>_. Ok (Some toy_merkle_account), slPda := \<lambda>seeds _. Ok (last seeds)\<rparr>) [1] [2] 2 =
     Ok (meta (le_bytes 8 0) True False, meta (le_bytes 8 1) True False) \<and>
   RootBucketIndex (327679 + int 1) = 1"
proof -
  let ?N = "toy_solana\<lparr>slData := \<lambda>_. Ok (Some toy_merkle_account), slPda := \<lambda>seeds _. Ok (last seeds)\<rparr>"
  have run: "resolveSolanaRootBuckets ?N [1] [2] 2 = Ok (meta (le_bytes 8 0) True False, meta (le_bytes 8 1) True False)"
    by (simp add: resolveSolanaRootBuckets_def toy_index Let_def GetRootBucketPublicKey_def RootBucketIndex_def RootBucketSlot_def RootBucketCap_def)
  have "int 2 \<le> RootBucketCap" "1 < (2 :: nat)" by (simp_all add: RootBucketCap_def)
  from root_buckets_suffice [OF run this] obtain key where
    key: "GetRootBucketPublicKey (slPda ?N) [1] [2] (RootBucketIndex (327679 + int 1)) = Ok key" by (auto simp: toy_index)
  have "RootBucketIndex (327679 + int 1) = 1" by (simp add: RootBucketIndex_def RootBucketCap_def)
  then show ?thesis using run key by simp
qed

end
