(* ===== verification/SolanaActionsCorrect.thy ===== *)
theory SolanaActionsCorrect
  imports SolanaCorrect ActionsCorrect
begin

text \<open>
  What the actions on Solana ask for: the parameters of a transaction reach the enclave and the relayer unchanged, a
  private transfer takes what it pays and its fee, a claim splits the claimed note between recipient and fee.
\<close>

section \<open>What a transaction asks for\<close>

text \<open>Requests that carry exactly these parameters.\<close>

definition args_made :: "solana_transact_params \<Rightarrow> proof_args \<Rightarrow> bool" where
  "args_made p a \<longleftrightarrow> (\<exists>dims zk. a = solana_proof_args p dims zk)"

lemma args_made_simp [simp]: "args_made p (solana_proof_args p dims zk)"
  unfolding args_made_def by blast

fun asks_of :: "primitives \<Rightarrow> sealing \<Rightarrow> 'j json_services \<Rightarrow> solana_transact_params \<Rightarrow> message \<Rightarrow> bool" where
  "asks_of E S Z p (PrepareSolanaTx q) \<longleftrightarrow> (\<exists>uk cs. solana_prepare_request E uk (solana_prepare_params S Z p cs) = Ok q)"
| "asks_of E S Z p (RelaySolana b) \<longleftrightarrow>
     sbChainID b = hsChainID p \<and> sbRelayAddress b = hsRelayAddress p \<and> sbFunctionName b = hsFunctionName p \<and>
     args_made p (sbArgs b)"
| "asks_of E S Z p (FinalizeSolanaTx _ _) \<longleftrightarrow> True"
| "asks_of E S Z p (FinalizeSolanaTxRelay _ _ chain admin) \<longleftrightarrow> chain = int_String (hsChainID p) \<and> admin = soAdminData (hsSubmit p)"
| "asks_of E S Z p m \<longleftrightarrow> \<not> executes m"

lemma prepare_asks: "sends_only (prepareSolanaEnclaveJob E S Z N now p uk) (asks_of E S Z p)"
proof -
  have "sends_only (solana_prepare_call E Z N now uk (solana_prepare_params S Z p cs)) (asks_of E S Z p)" for cs
    by (auto simp: sends_only_def performs_def solana_prepare_call_def split: sum.splits)
  then show ?thesis unfolding prepareSolanaEnclaveJob_def by (intro performs_intro)
qed

definition args_of :: "solana_transact_params \<Rightarrow> solana_transact_proof result \<Rightarrow> bool" where
  "args_of p r \<longleftrightarrow> (\<forall>proof'. r = Ok proof' \<longrightarrow> args_made p (tsArgs proof'))"

lemma built_args: "performs (buildSolanaProofLocally E S W p uk) (\<lambda>ms r. ms = [] \<and> args_of p r)"
proof -
  have "performs (resolveSolanaInputUtxos E S W p) (\<lambda>ms r. ms = [])"
    unfolding resolveSolanaInputUtxos_def by (intro performs_option performs_cache) simp_all
  then show ?thesis
    unfolding buildSolanaProofLocally_def
    by (rule performs_bind) (auto simp: args_of_def rbind_Ok_iff Let_def split: if_splits prod.splits)
qed

lemma submit_asks:
  assumes "hsOnTxConfirm p = None" "args_of p (Ok proof')"
  shows "sends_only (submitAndConfirmSolana Z N p proof') (asks_of E S Z p)"
  using assms unfolding submitAndConfirmSolana_def submitSolanaProof_def SolanaTransactCallRelayer_def
  by (auto intro!: performs_intro simp: args_of_def split: option.splits)

lemma SolanaTransact_asks:
  assumes "hsOnTxConfirm p = None" "hsRelayAddress p \<noteq> []" "soMode (hsSubmit p) = SolanaSubmitModeRelayer"
  shows "sends_only (SolanaTransact E S Z N W p) (asks_of E S Z p)"
proof -
  have enclave: "sends_only (solanaTransactViaEnclave E S Z N now p uk) (asks_of E S Z p)" for now uk
    unfolding solanaTransactViaEnclave_def Let_def assms(3)
    by (intro sends_only_bind prepare_asks sends_only_prod sends_only_if performs_intro) simp_all
  have local: "sends_only (ibind (buildSolanaProofLocally E S W p uk) (submitAndConfirmSolana Z N p)) (asks_of E S Z p)" for uk
    unfolding sends_only_def
    by (rule performs_bind [OF built_args]) (auto intro: submit_asks [OF assms(1), unfolded sends_only_def])
  show ?thesis
    unfolding SolanaTransact_def resolveSolanaTransactRelay_def Let_def using assms(2)
    by (auto intro!: performs_intro enclave local)
qed

lemma nullifier_count_sends: "sends_only (nullifier_count E S Q chainID mints amounts) P"
  unfolding nullifier_count_def Let_def by (intro performs_intro)

lemma relayerAddress_performs: "performs (relayerAddress N chainID) (\<lambda>ms r. ms = [ReserveRelay chainID True] \<and> r \<noteq> Ok [])"
  unfolding relayerAddress_def by (rule performs_call_bind) simp_all

section \<open>Private transfers\<close>

text \<open>A request that pays \<open>paid\<close> of \<open>mint\<close> to \<open>recipient\<close> and \<open>fee\<close> to the relayer: the notes lose the sum.\<close>

fun pays :: "string \<Rightarrow> int \<Rightarrow> string \<Rightarrow> int \<Rightarrow> message \<Rightarrow> bool" where
  "pays mint paid recipient fee (PrepareSolanaTx q) \<longleftrightarrow>
     lqFunctionName q = ''transfer'' \<and> lqMintAddresses q = Some [mint] \<and> lqAmountChanges q = Some [int_String (- (paid + fee))] \<and>
     lqRecipientAddress q = recipient \<and> lqRecipientAmounts q = Some [int_String paid] \<and> lqRelayerFee q = int_String fee \<and>
     lqVariableRate q = int_String 0"
| "pays mint paid recipient fee (RelaySolana b) \<longleftrightarrow>
     sbFunctionName b = ''transfer'' \<and> (\<exists>a. sbArgs b = SolanaArgs a \<and> agRelayerFee a = int_String fee)"
| "pays mint paid recipient fee (FinalizeSolanaTx _ _) \<longleftrightarrow> True"
| "pays mint paid recipient fee (FinalizeSolanaTxRelay _ _ _ _) \<longleftrightarrow> True"
| "pays mint paid recipient fee m \<longleftrightarrow> \<not> executes m"

lemma asks_pays:
  assumes "asks_of E S Z p m" "hsMintAddresses p = Some [mint]" "hsAmountChanges p = Some [- (paid + fee)]"
    "hsFunctionName p = ''transfer''" "hsRelayerFee p = Some fee" "hsVariableRate p = Some 0"
    "hsRecipientAddress p = recipient" "hsRecipientAmounts p = Some [paid]"
  shows "pays mint paid recipient fee m"
  using assms
  by (cases m) (auto simp: solana_prepare_request_def rbind_Ok_iff buildPrepareSolanaTxRequest_def solana_prepare_params_def
      bigIntStrings_def amount_text_def args_made_def solana_proof_args_def Let_def or_zero_def case_prod_unfold)


section \<open>Claims\<close>

lemma claim_parts:
  assumes "claimFeeParts sourceAmount fee = Ok (claimFee, recipientAmount)"
  shows "FlatFee claimFee + recipientAmount = sourceAmount \<and> 0 < recipientAmount \<and> FlatFee fee \<le> FlatFee claimFee \<and> VariableRate claimFee = 0"
proof -
  let ?rate = "if VariableRate fee \<le> 0 then HinkalPrivateSendVariableRate else VariableRate fee"
  have "FlatFee fee < sourceAmount" using assms by (simp add: claimFeeParts_def Let_def split: if_splits)
  moreover have "0 < ?rate" by (simp add: HinkalPrivateSendVariableRate_def)
  ultimately have "0 \<le> (sourceAmount - FlatFee fee) * ?rate div 10000" by (simp add: pos_imp_zdiv_nonneg_iff)
  then show ?thesis using assms by (auto simp: claimFeeParts_def Let_def split: if_splits)
qed


section \<open>A run\<close>

definition toy_solana_services :: "(int, unit) solana_services" where
  "toy_solana_services = \<lparr>sgActions = toy_actions, sgJson = \<lparr>zMarshal = \<lambda>_. [], zRelayOf = \<lambda>_. silent, zDecode = \<lambda>_. None\<rparr>,
     sgNet = toy_deposits, sgGas = \<lambda>_ _ _ _ _. silent, sgAccounts = \<lambda>_. silent, sgClaimFresh = (5, Ok 3), sgSourceFresh = (5, Ok 3),
     sgRecipientFresh = (5, Ok 3)\<rparr>"

definition claimable_note :: utxo where
  "claimable_note = toy_seen\<lparr>Amount := Some 1000, MintAddress := ''M'', NullifyingKey := []\<rparr>"

lemma claimable_keys: "rbind (claimUtxoUserKeys toy_hex claimable_note ''5'') (\<lambda>(uk, k).
    rbind (CreateFrom toy_hex 5 (Ok 3) claimable_note (no_params\<lparr>pNullifyingKey := k\<rparr>)) (\<lambda>source.
    rbind (claimPaddingUtxo toy_hex (5, Ok 3) source uk k) (\<lambda>_. Ok (Amount source)))) = Ok (Some 1000)"
  by code_simp

lemma claimer_info:
  "case GetRecipientInfoFromUserKeys toy_hex toy_box (5, Ok 3) (keys toy_wallet) of Inl _ \<Rightarrow> False | Inr info \<Rightarrow> hasClaimRecipientParts info"
  by code_simp

lemma claim_split:
  "claimFeeParts 1000 \<lparr>FeeToken = ''M'', FlatFee = 100, VariableRate = 0\<rparr> = Ok (\<lparr>FeeToken = ''M'', FlatFee = 102, VariableRate = 0\<rparr>, 898)"
  by code_simp

lemma toy_solana_services_simps:
  "sgSourceFresh toy_solana_services = (5, Ok 3)" "sgClaimFresh toy_solana_services = (5, Ok 3)"
  "sgRecipientFresh toy_solana_services = (5, Ok 3)" "slDeployer (sgSolana toy_solana_services) c = Ok ''D''"
  "keys (wsWallet (sgActions toy_solana_services)) = keys toy_wallet"
  by (simp_all add: toy_solana_services_def toy_deposits_def toy_solana_def toy_actions_def toy_services_def solana_network.defs network.defs
      wallet_services.defs)


end
