(* ===== verification/Spec2Isabelle.thy ===== *)
theory Spec2Isabelle
  imports MerkleCorrect EventCorrect Watermark SnapshotsCorrect UtxoCorrect EnclaveCalls SolanaEncoding
    ActionsCorrect SolanaActionsCorrect
begin

text \<open>
  A model of the Go SDK of the Hinkal protocol, a shielded pool on EVM, Tron and Solana chains. A wallet
  holds notes; a note's commitment is a leaf of a Merkle tree kept by the contract, and spending the note
  publishes its nullifier. The SDK follows the chain (events, snapshots, tree), finds the notes its keys
  can open (sealed notes, balances), and builds transactions: it selects and pads input notes, makes output
  notes, proves the balance in zero knowledge, and sends the proof, either built here or prepared by a
  remote enclave whose answer it checks before it signs.

  Conventions. A Go function with results \<open>(T, error)\<close> is a function into \<open>go_error + 'a\<close> (\<open>Prelude\<close>);
  a panic is the error \<open>Panic\<close>. Strings are Go byte strings, \<open>*big.Int\<close> is \<open>int\<close>, or \<open>int option\<close> where the
  code tests for nil; fixed-width integers are words; a struct is a record. A method that fills a cache in its
  receiver returns the receiver with its result. Loops are structural, carry a measure, or take fuel.

  Theories and sources (paths under \<open>src/internal\<close>).
  - \<open>Prelude\<close>: results, loops over lists (\<open>rmap\<close>, \<open>rfold\<close>), Go maps and strings.
  - \<open>BigIntUtils\<close>: \<open>functions/utils/bigint.go\<close>, \<open>bit_operations.go\<close>, \<open>decimals.go\<close>, \<open>amounts.go\<close>.
    \<open>SolanaUtils\<close>: \<open>functions/utils/solana.go\<close>.
  - \<open>MerkleTree\<close>, \<open>MerkleCorrect\<close>: \<open>data-structures/merkletree/impl.go\<close>. The correctness theory defines the
    root and the paths of a complete binary tree and refines them to the sparse tree of maps.
  - \<open>EventService\<close>, \<open>EventCorrect\<close>, \<open>Watermark\<close>: \<open>data-structures/eventservice\<close>. The node is a function of
    the range asked for; the bisecting retry carries the counter of the code (20 levels). \<open>Watermark\<close> has the
    atomic operations as a step relation for any number of goroutines.
  - \<open>Snapshots\<close>, \<open>SnapshotsCorrect\<close>: \<open>data-structures/snapshot\<close>; the locale of a snapshot delegate is
    interpreted for the delegates of the code.
  - \<open>CryptoKeys\<close>, \<open>KeysCorrect\<close>: \<open>crypto/eddsa.go\<close>, \<open>crypto/poseidon.go\<close>, \<open>data-structures/crypto-keys/keys.go\<close>,
    \<open>keyutils.go\<close>. \<open>primitives\<close> collects what comes from Go packages: the curve, Poseidon, Keccak, SHA-256, ABI
    packing, addresses.
  - \<open>Utxo\<close>, \<open>UtxoCorrect\<close>: \<open>data-structures/utxo/utxo.go\<close>. \<open>SealedNotes\<close>: \<open>crypto-keys/ecdh.go\<close>,
    \<open>utxo/encrypt.go\<close>, \<open>functions/balance/decrypt.go\<close>; \<open>sealing\<close> collects the box primitives.
  - \<open>EnclaveTypes\<close>, \<open>EnclaveVerify\<close>, \<open>EnclaveSolana\<close>, \<open>EnclaveCorrect\<close>, \<open>EnclaveCalls\<close>, \<open>SolanaEncoding\<close>:
    \<open>types/remote_tx_build_types.go\<close>, \<open>functions/enclave\<close>, the encodings of \<open>functions/solana/solana.go\<close>.
    The sealed HTTP exchange is the parameter \<open>post\<close>.
  - \<open>Fees\<close>: \<open>functions/fees/fees.go\<close>, \<open>functions/web3/ether.go\<close> and the token lookup; servers are functions.
  - \<open>CacheDevice\<close>, \<open>Balances\<close>, \<open>BalancesCorrect\<close>, \<open>Padding\<close>: \<open>internal/cache\<close>, \<open>functions/balance\<close>. The order in
    which goroutines finish is the parameter \<open>schedule\<close>.
  - \<open>Recipients\<close>, \<open>Outputs\<close>, \<open>PreTransaction\<close>: \<open>functions/pre-transaction\<close> and the token checker.
  - \<open>ProofInputs\<close>, \<open>Proofs\<close>, \<open>ProofsCorrect\<close>: \<open>functions/snarkjs\<close>. The prover, the siblings server, the
    on-chain root and the emporium encoder are functions; random draws and the clock are the record \<open>draws\<close>.
    \<open>ProverInterface\<close>: the JSON of the circuit data, the circuit files, the call of the remote prover.
    \<open>Addresses\<close>: \<open>functions/utils/tron.go\<close>, \<open>addresses.go\<close>.
  - \<open>Effects\<close>: computations that send messages and use the cache, with rules for what they send
    (\<open>performs\<close>, \<open>sends_only\<close>). \<open>Messages\<close>: the requests of \<open>api/callrelayer.go\<close>, \<open>api/enclave.go\<close>, the wallet and the
    Tron node; \<open>network\<close> has their answers, each a function of everything sent before.
  - \<open>EvmSubmit\<close>: \<open>functions/web3/approvals.go\<close>, \<open>transact_call_direct.go\<close>, \<open>transact_call_relayer.go\<close>. \<open>TronSubmit\<close>:
    \<open>functions/tron\<close>; the polls a context grants are fuel.
  - \<open>Transact\<close>, \<open>TransactCorrect\<close>: \<open>functions/transactions/hinkal_transact.go\<close>, \<open>submit_proof.go\<close>. The contract of a
    submission is the locale \<open>submitter\<close>, interpreted for the EVM, the Tron and the common submission and for
    the one with its callback. \<open>Actions\<close>, \<open>ActionsCorrect\<close>: \<open>deposit.go\<close>, \<open>deposit_for_other.go\<close>, \<open>withdraw.go\<close>,
    \<open>transfer.go\<close>, \<open>swap.go\<close>.
  - \<open>SolanaProgram\<close>, \<open>SolanaSubmit\<close>: \<open>data-structures/solana\<close> (derived addresses, the Merkle account, root buckets),
    \<open>functions/web3/solana_accounts.go\<close>, \<open>functions/solana\<close>. \<open>solana_network\<close> has the chain's answers and the Solana
    package (\<open>slPda\<close>, \<open>slCompile\<close>); the ten sends of the code are counted down, and \<open>polls\<close> are the rounds the
    context grants a wait for a confirmation.
  - \<open>ReceiveVault\<close>, \<open>VaultAccount\<close>, \<open>ReceiveVaultCorrect\<close>: \<open>functions/receivevault\<close>.
    The vault server, the chains and the signing libraries are the record \<open>vault_env\<close>.
  - \<open>SolanaDeposit\<close>, \<open>SolanaTransact\<close>, \<open>SolanaActions\<close>, \<open>SolanaCorrect\<close>, \<open>SolanaActionsCorrect\<close>: the files
    \<open>transactions/solana_*.go\<close>. The Borsh encoding and the token instructions of the Solana packages are
    functions of \<open>deposit_network\<close>.

  What the lemmas show, by group. The tree: any order of insertions gives the root of the complete tree,
  paths verify, an incomplete tree is reported, snapshots restore it. Events: a successful retrieval has
  scanned every block, an error keeps the watermark, racing goroutines leave the maximum. Wallet: keys,
  notes and sealed notes round-trip, the incremental balance equals the balance computed from scratch.
  Transactions: the padded inputs keep the largest notes, the outputs balance the inputs, the fee is charged
  once, the paths lead to the root that is proved, the contract is told what was proved. The enclave: an
  accepted answer spends only authorised notes, conserves every token, pays the caller's recipients and
  nothing else, and two stuck-note jobs never share a note. Execution: nothing is finalised before its answer
  was checked, a local proof leaves at most once and unchanged, waiting ends, a withdrawal leaves the
  recipient what was asked for. Solana: at most ten sends of the same instructions, a confirmed transaction is
  reported, a fee lands with its deposit. Receive vaults: only the owner's keys can recover what a vault
  holds, and a scan adds every balance once.

  Not modelled: HTTP and JSON transport (\<open>internal/api\<close>), the deployment tables, the packing of contract calls
  (\<open>contractabi\<close>), the Solana, NEAR and Ethereum key derivations, providers and signers, the attestation
  handshake and the remote storage of \<open>functions/enclave\<close>, the flows over the NEAR intents and LiFi services and
  over temporary wallets (their protocols are not in the repository), the proofless deposit of EVM and Tron
  and the transactions that combine deposits and withdrawals, the tickers, goroutine plumbing and mutexes
  (each operation is one step unless a theory says otherwise), logging, and the facade \<open>data-structures/hinkal\<close>
  that wires the services together.
\<close>

end
